(* ===== verification/Prelude.thy ===== *)
theory Prelude
  imports Complex_Main "HOL-Library.Char_ord" "HOL-Library.List_Lexorder"
begin

text \<open>
  Shared vocabulary of the development: JavaScript values and numbers, the string functions the
  server uses, thrown errors, database handlers as state-passing functions, and tables as lists
  of rows. Every component theory imports this one.

  \<^item> Strings are ASCII character lists; \<open>js_trim\<close>, \<open>js_upper\<close>, \<open>js_lower\<close> and \<open>js_slice\<close> are
    \<open>String.prototype.trim\<close>, \<open>toUpperCase\<close>, \<open>toLowerCase\<close> and \<open>slice(0, n)\<close> on them.
  \<^item> A JavaScript number is the exact rational value of the double (\<open>JFin\<close>) or one of the three
    non-finite values. Arithmetic that leaves the integers below \<open>2 ^ 53\<close> is rounded with \<open>rnd\<close>
    (round to nearest, ties to even, 53 significant bits; the code never gets near the exponent
    limits of the format, which are not modelled). The sign of a zero is not kept.
  \<^item> A handler that runs on a database client is \<open>('s, 'a) tx\<close>: it takes the database and returns
    the thrown error or the value together with the database at that point, because a JavaScript
    throw does not undo the statements already sent. \<open>withTransaction\<close> is what undoes them.
\<close>

section \<open>Collections of rules\<close>

named_theorems js_simps "evaluation of JavaScript primitives"
named_theorems tx_simps "evaluation of handlers"
named_theorems keeps_intros "composition rules for preserved predicates"
named_theorems commits_intros "composition rules for predicates kept by committed runs"

section \<open>Errors and results\<close>

datatype js_error =
    AppError nat string     \<comment> \<open>\<open>new AppError(message, status, code)\<close>: status and code\<close>
  | JsError string          \<comment> \<open>\<open>new Error(...)\<close>: what was rejected\<close>
  | PgError string          \<comment> \<open>an error raised by PostgreSQL: its SQLSTATE\<close>

type_synonym 'a res = "js_error + 'a"

definition res_bind :: "'a res \<Rightarrow> ('a \<Rightarrow> 'b res) \<Rightarrow> 'b res" where
  "res_bind r f = (case r of Inl e \<Rightarrow> Inl e | Inr a \<Rightarrow> f a)"

lemma res_bind_simps [simp]:
  "res_bind (Inl e) f = Inl e"
  "res_bind (Inr a) f = f a"
  by (simp_all add: res_bind_def)

lemma res_bind_Inr_iff: "res_bind r f = Inr b \<longleftrightarrow> (\<exists>a. r = Inr a \<and> f a = Inr b)"
  by (cases r) simp_all

definition isl_err :: "'a res \<Rightarrow> bool" where
  "isl_err r = (case r of Inl _ \<Rightarrow> True | Inr _ \<Rightarrow> False)"

lemma isl_err_simps [simp]: "isl_err (Inl e)" "\<not> isl_err (Inr a)"
  by (simp_all add: isl_err_def)

section \<open>Numbers\<close>

datatype jsnum = JFin rat | JInf | JNegInf | JNaN

abbreviation JInt :: "int \<Rightarrow> jsnum" where
  "JInt n \<equiv> JFin (of_int n)"

definition max_safe_integer :: int where
  "max_safe_integer = 9007199254740991"

text \<open>\<open>Number.isSafeInteger\<close>, as the integer when it is one.\<close>

fun safe_int :: "jsnum \<Rightarrow> int option" where
  "safe_int (JFin q) =
     (if q = of_int \<lfloor>q\<rfloor> \<and> \<bar>\<lfloor>q\<rfloor>\<bar> \<le> max_safe_integer then Some \<lfloor>q\<rfloor> else None)"
| "safe_int _ = None"

lemma safe_int_JInt [simp]:
  "safe_int (JInt n) = (if \<bar>n\<bar> \<le> max_safe_integer then Some n else None)"
  by simp

lemma safe_int_Some_iff: "safe_int x = Some n \<longleftrightarrow> x = JInt n \<and> \<bar>n\<bar> \<le> max_safe_integer"
proof (cases x)
  case (JFin q)
  then show ?thesis by (auto split: if_splits)
qed simp_all

fun bit_length :: "nat \<Rightarrow> nat" where
  "bit_length n = (if n = 0 then 0 else Suc (bit_length (n div 2)))"

declare bit_length.simps [simp del]

definition pow2 :: "int \<Rightarrow> rat" where
  "pow2 e = (if 0 \<le> e then 2 ^ nat e else 1 / 2 ^ nat (- e))"

definition round_half_even :: "rat \<Rightarrow> int" where
  "round_half_even x =
     (let f = \<lfloor>x\<rfloor>; r = x - of_int f in
      if r < 1 / 2 then f else if r > 1 / 2 then f + 1 else if even f then f else f + 1)"

text \<open>The binary exponent of a positive rational: \<open>2 ^ e \<le> q < 2 ^ (e + 1)\<close>.\<close>

definition rat_exp :: "rat \<Rightarrow> int" where
  "rat_exp q =
     (let (n, d) = quotient_of q; e = int (bit_length (nat n)) - int (bit_length (nat d)) in
      if pow2 e \<le> q then e else e - 1)"

text \<open>Rounding to a double: 53 significant bits, ties to the even mantissa.\<close>

definition rnd :: "rat \<Rightarrow> rat" where
  "rnd q =
     (if q = 0 then 0
      else let u = pow2 (rat_exp \<bar>q\<bar> - 52) in sgn q * of_int (round_half_even (\<bar>q\<bar> / u)) * u)"

text \<open>\<open>Number(b)\<close> of a BigInt.\<close>

definition number_of_bigint :: "int \<Rightarrow> jsnum" where
  "number_of_bigint b = (if \<bar>b\<bar> \<le> max_safe_integer then JInt b else JFin (rnd (of_int b)))"

lemma number_of_bigint_safe [simp]:
  "\<bar>b\<bar> \<le> max_safe_integer \<Longrightarrow> number_of_bigint b = JInt b"
  by (simp add: number_of_bigint_def)

lemma round_half_even_of_int [simp]: "round_half_even (of_int n) = n"
  by (simp add: round_half_even_def)

lemma round_half_even_nonneg: "0 \<le> x \<Longrightarrow> 0 \<le> round_half_even x"
  by (auto simp: round_half_even_def Let_def)

lemma pow2_pos [simp]: "0 < pow2 e"
  by (simp add: pow2_def)

lemma rnd_nonneg: "0 \<le> q \<Longrightarrow> 0 \<le> rnd q"
  using pow2_pos [THEN order.strict_implies_order]
  by (auto simp: rnd_def Let_def intro!: mult_nonneg_nonneg round_half_even_nonneg divide_nonneg_nonneg)

lemma bit_length_bounds: "n < 2 ^ bit_length n \<and> (0 < n \<longrightarrow> 2 ^ (bit_length n - 1) \<le> n)"
proof (induction n rule: bit_length.induct)
  case (1 n)
  show ?case
  proof (cases "n < 2")
    case True
    have b0: "bit_length 0 = 0" by (simp add: bit_length.simps)
    moreover have "bit_length 1 = 1" using b0 by (subst bit_length.simps) simp
    moreover from True have "n = 0 \<or> n = 1" by auto
    ultimately show ?thesis by auto
  next
    case False
    then have bl: "bit_length n = Suc (bit_length (n div 2))" "0 < n div 2"
      by (auto simp: bit_length.simps [of n])
    have "bit_length (n div 2) \<noteq> 0"
      using bl(2) by (simp add: bit_length.simps [of "n div 2"])
    then obtain k where k: "bit_length (n div 2) = Suc k" by (cases "bit_length (n div 2)") auto
    from 1 False have "n div 2 < 2 ^ Suc k" "2 ^ k \<le> n div 2"
      using bl(2) k by auto
    then show ?thesis by (auto simp: bl(1) k)
  qed
qed

lemma pow2_add_nat: "pow2 (e + int k) = pow2 e * 2 ^ k"
proof (induction k)
  case (Suc k)
  have "pow2 (x + 1) = pow2 x * 2" for x
  proof (cases "0 \<le> x")
    case False
    then have "nat (- x) = Suc (nat (- (x + 1)))" by simp
    with False show ?thesis by (auto simp: pow2_def)
  qed (simp add: pow2_def nat_add_distrib)
  from this [of "e + int k"] Suc show ?case by (simp add: algebra_simps)
qed simp

lemma pow2_diff_nat: "pow2 (int a - int b) = 2 ^ a / 2 ^ b"
  using pow2_add_nat [of "int a - int b" b] by (simp add: field_simps pow2_def)

lemma rat_exp_bounds:
  assumes "0 < q"
  shows "pow2 (rat_exp q) \<le> q" and "q < pow2 (rat_exp q + 1)"
proof -
  obtain n d where nd: "quotient_of q = (n, d)" by (cases "quotient_of q") auto
  then have q: "q = of_int n / of_int d" and d: "0 < d"
    by (auto simp: quotient_of_div quotient_of_denom_pos)
  have n: "0 < n" using assms q d by (simp add: zero_less_divide_iff)
  define a b where "a = bit_length (nat n)" and "b = bit_length (nat d)"
  define N D :: rat where "N = of_nat (nat n)" and "D = of_nat (nat d)"
  have q': "q = N / D" using q n d by (simp add: N_def D_def)
  have "nat n < 2 ^ a" "2 ^ (a - 1) \<le> nat n" "nat d < 2 ^ b" "2 ^ (b - 1) \<le> nat d"
    using bit_length_bounds [of "nat n"] bit_length_bounds [of "nat d"] n d by (auto simp: a_def b_def)
  then have lt: "N < 2 ^ a" "2 ^ (a - 1) \<le> N" "D < 2 ^ b" "2 ^ (b - 1) \<le> D"
    by (metis N_def D_def of_nat_less_iff of_nat_le_iff of_nat_numeral of_nat_power)+
  have "a \<noteq> 0" "b \<noteq> 0" using n d by (auto simp: a_def b_def bit_length.simps [of "nat _"])
  then have pa: "(2::rat) ^ a = 2 * 2 ^ (a - 1)" and pb: "(2::rat) ^ b = 2 * 2 ^ (b - 1)"
    by (metis power_eq_if)+
  have pos: "0 < N" "0 < D" using n d by (auto simp: N_def D_def)
  have lo: "pow2 (int a - int b - 1) \<le> q"
  proof -
    have "pow2 (int a - int b - 1) * 2 = 2 ^ a / 2 ^ b"
      using pow2_add_nat [of "int a - int b - 1" 1] pow2_diff_nat [of a b] by simp
    then have "pow2 (int a - int b - 1) = 2 ^ (a - 1) / 2 ^ b"
      using pa by (simp add: field_simps)
    also have "\<dots> \<le> N / D"
      using lt pos by (intro frac_le) auto
    finally show ?thesis by (simp add: q')
  qed
  have hi: "q < pow2 (int a - int b + 1)"
  proof -
    have "N / D < 2 ^ a / 2 ^ (b - 1)"
      using lt pos by (intro frac_less) auto
    also have "\<dots> = pow2 (int a - int b + 1)"
      using pow2_add_nat [of "int a - int b" 1] pow2_diff_nat [of a b] pb by (simp add: field_simps)
    finally show ?thesis by (simp add: q')
  qed
  have e: "rat_exp q = (if pow2 (int a - int b) \<le> q then int a - int b else int a - int b - 1)"
    by (simp add: rat_exp_def nd Let_def a_def b_def)
  show "pow2 (rat_exp q) \<le> q" using lo by (simp add: e)
  show "q < pow2 (rat_exp q + 1)" using hi by (simp add: e)
qed

text \<open>Rounding leaves the integers up to \<open>2 ^ 53\<close> alone and keeps the larger ones above it.\<close>

lemma pow2_mono_iff: "pow2 a < pow2 b \<longleftrightarrow> a < b"
proof -
  have "pow2 x < pow2 y" if less: "x < y" for x y
  proof -
    obtain k where "y = x + int (Suc k)" using less zless_iff_Suc_zadd [of x y] by blast
    then have "pow2 y = pow2 x * 2 ^ Suc k" by (simp only: pow2_add_nat)
    moreover have "pow2 x * 1 < pow2 x * 2 ^ Suc k"
      by (intro mult_strict_left_mono one_less_power pow2_pos) simp_all
    ultimately show ?thesis by simp
  qed
  from this [of a b] this [of b a] show ?thesis
    by (cases a b rule: linorder_cases) auto
qed

lemma rnd_of_nat_small:
  assumes "0 < n" "n \<le> 2 ^ 53"
  shows "rnd (of_int n) = of_int n"
proof -
  define q :: rat where "q = of_int n"
  define e where "e = rat_exp q"
  have q: "0 < q" using assms by (simp add: q_def)
  have q53: "q \<le> 2 ^ 53" using assms by (simp add: q_def flip: of_int_le_iff)
  have "pow2 e \<le> q" using rat_exp_bounds(1) [OF q] by (simp add: e_def)
  also have "\<dots> < pow2 54" using q53 by (simp add: pow2_def)
  finally have e: "e \<le> 53" by (simp add: pow2_mono_iff)
  have "\<exists>m. q / pow2 (e - 52) = of_int m"
  proof (cases "e = 53")
    case True
    then have "pow2 53 \<le> q" using rat_exp_bounds(1) [OF q] by (simp add: e_def)
    with q53 have "q = 2 ^ 53" by (simp add: pow2_def)
    then show ?thesis using True by (intro exI [of _ "2 ^ 52"]) (simp add: pow2_def)
  next
    case False
    with e have "pow2 (e - 52) = 1 / 2 ^ nat (52 - e)"
      by (auto simp: pow2_def)
    then show ?thesis by (intro exI [of _ "n * 2 ^ nat (52 - e)"]) (simp add: q_def)
  qed
  then obtain m where m: "q / pow2 (e - 52) = of_int m" ..
  then have "q = of_int m * pow2 (e - 52)"
    using pow2_pos [of "e - 52"] by (simp add: field_simps)
  then have r: "of_int (round_half_even (q / pow2 (e - 52))) * pow2 (e - 52) = q"
    unfolding m round_half_even_of_int by (rule sym)
  have "rnd q = of_int (round_half_even (q / pow2 (e - 52))) * pow2 (e - 52)"
    using q by (simp add: rnd_def Let_def e_def)
  then have "rnd q = q" by (simp only: r)
  then show ?thesis by (simp only: q_def)
qed

lemma rnd_minus [simp]: "rnd (- q) = - rnd q"
  by (simp add: rnd_def Let_def)

lemma rnd_zero [simp]: "rnd 0 = 0"
  by (simp add: rnd_def)

lemma rnd_of_int_small [simp]:
  assumes "\<bar>n\<bar> \<le> 2 ^ 53"
  shows "rnd (of_int n) = of_int n"
proof -
  consider "n = 0" | "0 < n" | "0 < - n" by linarith
  then show ?thesis
  proof cases
    case 3
    with assms have "rnd (of_int (- n)) = of_int (- n)" by (intro rnd_of_nat_small) auto
    then show ?thesis by simp
  qed (use assms rnd_of_nat_small in auto)
qed

lemma rnd_large:
  assumes "2 ^ 53 \<le> q"
  shows "2 ^ 53 \<le> rnd q"
proof -
  have q: "0 < q" using assms by (smt (verit) zero_less_power zero_less_numeral order_less_le_trans)
  define e u where "e = rat_exp q" and "u = pow2 (e - 52)"
  have "pow2 53 < pow2 (e + 1)"
    using assms rat_exp_bounds(2) [OF q] by (simp add: e_def pow2_def)
  then have "53 \<le> e" by (simp add: pow2_mono_iff)
  then have u2: "2 \<le> u"
    by (cases "e = 53") (use pow2_mono_iff [of 1 "e - 52"] in \<open>auto simp: u_def pow2_def\<close>)
  have "pow2 e = u * 2 ^ 52" using pow2_add_nat [of "e - 52" 52] by (simp add: u_def)
  then have "2 ^ 52 \<le> q / u"
    using rat_exp_bounds(1) [OF q] u2 by (simp add: e_def [symmetric] field_simps)
  then have "2 ^ 52 \<le> \<lfloor>q / u\<rfloor>" by (simp add: le_floor_iff)
  then have "2 ^ 52 \<le> round_half_even (q / u)" by (auto simp: round_half_even_def Let_def)
  then have "(2 ^ 52 :: rat) \<le> of_int (round_half_even (q / u))"
    by (metis of_int_le_iff of_int_numeral of_int_power)
  then have "2 ^ 52 * 2 \<le> of_int (round_half_even (q / u)) * u"
    using u2 by (intro mult_mono) auto
  moreover have "rnd q = of_int (round_half_even (q / u)) * u"
    using q by (simp add: rnd_def Let_def e_def u_def)
  ultimately show ?thesis by simp
qed

lemma safe_number_of_bigint:
  "safe_int (number_of_bigint b) = (if \<bar>b\<bar> \<le> max_safe_integer then Some b else None)"
proof (cases "\<bar>b\<bar> \<le> max_safe_integer")
  case False
  then have "2 ^ 53 \<le> b \<or> 2 ^ 53 \<le> - b" by (simp add: max_safe_integer_def) linarith
  then consider "2 ^ 53 \<le> b" | "2 ^ 53 \<le> - b" by blast
  then have "2 ^ 53 \<le> \<bar>rnd (of_int b)\<bar>"
  proof cases
    case 1
    then have "(2 ^ 53 :: rat) \<le> of_int b" by (metis of_int_le_iff of_int_numeral of_int_power)
    from rnd_large [OF this] show ?thesis by simp
  next
    case 2
    then have "(2 ^ 53 :: rat) \<le> - of_int b" by (metis of_int_le_iff of_int_numeral of_int_power of_int_minus)
    from rnd_large [OF this] show ?thesis by simp
  qed
  then have "\<not> (rnd (of_int b) = of_int k \<and> \<bar>k\<bar> \<le> max_safe_integer)" for k
    by (auto simp: max_safe_integer_def abs_if simp flip: of_int_le_iff)
  with False show ?thesis by (auto simp: number_of_bigint_def split: if_splits)
qed simp

section \<open>Strings\<close>

definition js_space :: "char \<Rightarrow> bool" where
  "js_space c \<longleftrightarrow> of_char c \<in> {9 :: nat, 10, 11, 12, 13, 32}"

definition js_trim :: "string \<Rightarrow> string" where
  "js_trim s = rev (dropWhile js_space (rev (dropWhile js_space s)))"

lemma dropWhile_none: "list_all (\<lambda>c. \<not> P c) s \<Longrightarrow> dropWhile P s = s"
  by (cases s) simp_all

lemma js_trim_id: "list_all (\<lambda>c. \<not> js_space c) s \<Longrightarrow> js_trim s = s"
  by (simp add: js_trim_def dropWhile_none list_all_rev)

definition upper_char :: "char \<Rightarrow> char" where
  "upper_char c = (let n = of_char c :: nat in if 97 \<le> n \<and> n \<le> 122 then char_of (n - 32) else c)"

definition lower_char :: "char \<Rightarrow> char" where
  "lower_char c = (let n = of_char c :: nat in if 65 \<le> n \<and> n \<le> 90 then char_of (n + 32) else c)"

definition js_upper :: "string \<Rightarrow> string" where
  "js_upper = map upper_char"

definition js_lower :: "string \<Rightarrow> string" where
  "js_lower = map lower_char"

abbreviation js_slice :: "nat \<Rightarrow> string \<Rightarrow> string" where
  "js_slice n s \<equiv> take n s"

definition is_upper_letter :: "char \<Rightarrow> bool" where
  "is_upper_letter c \<longleftrightarrow> 65 \<le> (of_char c :: nat) \<and> (of_char c :: nat) \<le> 90"

text \<open>The test \<open>/^[A-Z]{3}$/\<close>, and its two-letter form.\<close>

definition letters3 :: "string \<Rightarrow> bool" where
  "letters3 s \<longleftrightarrow> length s = 3 \<and> list_all is_upper_letter s"

definition letters2 :: "string \<Rightarrow> bool" where
  "letters2 s \<longleftrightarrow> length s = 2 \<and> list_all is_upper_letter s"

definition is_digit :: "char \<Rightarrow> bool" where
  "is_digit c \<longleftrightarrow> 48 \<le> (of_char c :: nat) \<and> (of_char c :: nat) \<le> 57"

definition digit_val :: "char \<Rightarrow> nat" where
  "digit_val c = of_char c - 48"

definition digit_char :: "nat \<Rightarrow> char" where
  "digit_char d = char_of (48 + d)"

text \<open>\<open>String(n)\<close> of a non-negative integer, and the number a digit string stands for.\<close>

fun show_nat :: "nat \<Rightarrow> string" where
  "show_nat n = (if n < 10 then [digit_char n] else show_nat (n div 10) @ [digit_char (n mod 10)])"

declare show_nat.simps [simp del]

definition read_nat :: "string \<Rightarrow> nat" where
  "read_nat s = foldl (\<lambda>a c. 10 * a + digit_val c) 0 s"

definition show_int :: "int \<Rightarrow> string" where
  "show_int i = (if i < 0 then CHR ''-'' # show_nat (nat (- i)) else show_nat (nat i))"

lemma digit_char_props [simp]:
  assumes "d < 10"
  shows "is_digit (digit_char d)" "digit_val (digit_char d) = d"
  using assms by (simp_all add: is_digit_def digit_val_def digit_char_def)

lemma show_nat_digits: "list_all is_digit (show_nat n)"
proof (induction n rule: show_nat.induct)
  case (1 n)
  then show ?case by (subst show_nat.simps) simp
qed

lemma show_nat_nonempty [simp]: "show_nat n \<noteq> []"
  by (subst show_nat.simps) simp

lemma read_nat_Nil [simp]: "read_nat [] = 0"
  by (simp add: read_nat_def)

lemma read_nat_snoc: "read_nat (s @ [c]) = 10 * read_nat s + digit_val c"
  by (simp add: read_nat_def)

lemma read_nat_append: "read_nat (s @ t) = read_nat s * 10 ^ length t + read_nat t"
proof (induction t rule: rev_induct)
  case (snoc c t)
  have "read_nat (s @ t @ [c]) = 10 * read_nat (s @ t) + digit_val c"
    using read_nat_snoc [of "s @ t" c] by simp
  with snoc show ?case by (simp add: read_nat_snoc algebra_simps)
qed simp

lemma read_show_nat [simp]: "read_nat (show_nat n) = n"
proof (induction n rule: show_nat.induct)
  case (1 n)
  show ?case
  proof (cases "n < 10")
    case True
    then show ?thesis by (subst show_nat.simps) (simp add: read_nat_def)
  next
    case False
    with 1 show ?thesis by (subst show_nat.simps) (simp add: read_nat_snoc)
  qed
qed

lemma read_nat_zeros [simp]: "read_nat (replicate k (CHR ''0'') @ s) = read_nat s"
proof -
  have "read_nat (replicate k (CHR ''0'')) = 0"
    by (induction k) (simp_all add: read_nat_def digit_val_def)
  then show ?thesis by (simp add: read_nat_append)
qed

section \<open>Request values\<close>

text \<open>What a caller may pass where the code tests \<open>typeof\<close>.\<close>

datatype jsval = JUndef | JNull | JBool bool | JNum jsnum | JStr string

section \<open>Handlers on a database client\<close>

type_synonym ('s, 'a) tx = "'s \<Rightarrow> 'a res \<times> 's"

definition ret :: "'a \<Rightarrow> ('s, 'a) tx" where
  "ret a = (\<lambda>s. (Inr a, s))"

definition fail :: "js_error \<Rightarrow> ('s, 'a) tx" where
  "fail e = (\<lambda>s. (Inl e, s))"

definition bind :: "('s, 'a) tx \<Rightarrow> ('a \<Rightarrow> ('s, 'b) tx) \<Rightarrow> ('s, 'b) tx" where
  "bind m f = (\<lambda>s. case m s of (Inl e, t) \<Rightarrow> (Inl e, t) | (Inr a, t) \<Rightarrow> f a t)"

definition gets :: "('s \<Rightarrow> 'a) \<Rightarrow> ('s, 'a) tx" where
  "gets g = (\<lambda>s. (Inr (g s), s))"

definition modify :: "('s \<Rightarrow> 's) \<Rightarrow> ('s, unit) tx" where
  "modify h = (\<lambda>s. (Inr (), h s))"

definition lift_res :: "'a res \<Rightarrow> ('s, 'a) tx" where
  "lift_res r = (\<lambda>s. (r, s))"

text \<open>\<open>if (!cond) throw e\<close>.\<close>

definition require :: "bool \<Rightarrow> js_error \<Rightarrow> ('s, unit) tx" where
  "require c e = (if c then ret () else fail e)"

text \<open>\<open>try m catch (e) handler(e)\<close>.\<close>

definition try_catch :: "('s, 'a) tx \<Rightarrow> (js_error \<Rightarrow> ('s, 'a) tx) \<Rightarrow> ('s, 'a) tx" where
  "try_catch m h = (\<lambda>s. case m s of (Inl e, t) \<Rightarrow> h e t | (Inr a, t) \<Rightarrow> (Inr a, t))"

lemma ret_apply [simp, tx_simps]: "ret a s = (Inr a, s)"
  by (simp add: ret_def)

lemma fail_apply [simp, tx_simps]: "fail e s = (Inl e, s)"
  by (simp add: fail_def)

lemma gets_apply [simp, tx_simps]: "gets g s = (Inr (g s), s)"
  by (simp add: gets_def)

lemma modify_apply [simp, tx_simps]: "modify h s = (Inr (), h s)"
  by (simp add: modify_def)

lemma lift_res_apply [simp, tx_simps]: "lift_res r s = (r, s)"
  by (simp add: lift_res_def)

lemma require_apply [simp, tx_simps]: "require c e s = (if c then (Inr (), s) else (Inl e, s))"
  by (simp add: require_def)

lemma bind_apply [tx_simps]:
  "bind m f s = (case m s of (Inl e, t) \<Rightarrow> (Inl e, t) | (Inr a, t) \<Rightarrow> f a t)"
  by (simp add: bind_def)

lemma bind_Inr_iff:
  "bind m f s = (Inr b, u) \<longleftrightarrow> (\<exists>a t. m s = (Inr a, t) \<and> f a t = (Inr b, u))"
  by (auto simp: bind_def split: prod.splits sum.splits)

lemma bind_Inl_iff:
  "bind m f s = (Inl e, u) \<longleftrightarrow> m s = (Inl e, u) \<or> (\<exists>a t. m s = (Inr a, t) \<and> f a t = (Inl e, u))"
  by (auto simp: bind_def split: prod.splits sum.splits)

subsection \<open>Transactions\<close>

text \<open>
  \<open>withTransaction\<close> of \<open>utils/transaction.js\<close>: BEGIN, the operation, COMMIT; on a throw ROLLBACK
  and the same error again.
\<close>

definition withTransaction :: "('s, 'a) tx \<Rightarrow> ('s, 'a) tx" where
  "withTransaction operation =
     (\<lambda>s. case operation s of (Inl err, _) \<Rightarrow> (Inl err, s) | (Inr r, t) \<Rightarrow> (Inr r, t))"

lemma withTransaction_Inr_iff [simp]:
  "withTransaction m s = (Inr a, t) \<longleftrightarrow> m s = (Inr a, t)"
  by (auto simp: withTransaction_def split: prod.splits sum.splits)

lemma withTransaction_Inl:
  "withTransaction m s = (Inl e, t) \<Longrightarrow> t = s"
  by (auto simp: withTransaction_def split: prod.splits sum.splits)

subsection \<open>Preserved predicates\<close>

definition keeps :: "('s \<Rightarrow> bool) \<Rightarrow> ('s, 'a) tx \<Rightarrow> bool" where
  "keeps I m \<longleftrightarrow> (\<forall>s. I s \<longrightarrow> I (snd (m s)))"

lemma keepsD: "keeps I m \<Longrightarrow> I s \<Longrightarrow> m s = (r, t) \<Longrightarrow> I t"
  by (force simp: keeps_def)

lemma keepsI: "(\<And>s. I s \<Longrightarrow> I (snd (m s))) \<Longrightarrow> keeps I m"
  by (simp add: keeps_def)

lemma keeps_basic [keeps_intros]:
  "keeps I (ret a)" "keeps I (fail e)" "keeps I (gets g)" "keeps I (lift_res r)"
  "keeps I (require c e)"
  by (simp_all add: keeps_def)

lemma keeps_modify: "(\<And>s. I s \<Longrightarrow> I (h s)) \<Longrightarrow> keeps I (modify h)"
  by (simp add: keeps_def)

lemma keeps_bind [keeps_intros]:
  assumes "keeps I m" and "\<And>a. keeps I (f a)"
  shows "keeps I (bind m f)"
proof (rule keepsI)
  fix s assume "I s"
  obtain r t where m: "m s = (r, t)" by (cases "m s") auto
  with \<open>I s\<close> assms(1) have "I t" by (blast dest: keepsD)
  then show "I (snd (bind m f s))"
    using assms(2) m by (cases r) (auto simp: bind_def keeps_def)
qed

lemma keeps_try_catch [keeps_intros]:
  assumes "keeps I m" and "\<And>e. keeps I (h e)"
  shows "keeps I (try_catch m h)"
proof (rule keepsI)
  fix s assume "I s"
  obtain r t where m: "m s = (r, t)" by (cases "m s") auto
  with \<open>I s\<close> assms(1) have "I t" by (blast dest: keepsD)
  then show "I (snd (try_catch m h s))"
    using assms(2) m by (cases r) (auto simp: try_catch_def keeps_def)
qed

lemma keeps_if [keeps_intros]:
  "(c \<Longrightarrow> keeps I m) \<Longrightarrow> (\<not> c \<Longrightarrow> keeps I n) \<Longrightarrow> keeps I (if c then m else n)"
  by simp

lemma keeps_case_option [keeps_intros]:
  "(x = None \<Longrightarrow> keeps I m) \<Longrightarrow> (\<And>a. x = Some a \<Longrightarrow> keeps I (f a)) \<Longrightarrow>
   keeps I (case x of None \<Rightarrow> m | Some a \<Rightarrow> f a)"
  by (cases x) simp_all

lemma keeps_case_prod [keeps_intros]:
  "(\<And>a b. x = (a, b) \<Longrightarrow> keeps I (f a b)) \<Longrightarrow> keeps I (case x of (a, b) \<Rightarrow> f a b)"
  by (cases x) simp

lemma keeps_Let [keeps_intros]: "(\<And>x. x = a \<Longrightarrow> keeps I (f x)) \<Longrightarrow> keeps I (let x = a in f x)"
  by simp

lemma keeps_withTransaction [keeps_intros]:
  assumes "keeps I m"
  shows "keeps I (withTransaction m)"
proof (rule keepsI)
  fix s assume "I s"
  obtain r t where m: "m s = (r, t)" by (cases "m s") auto
  with \<open>I s\<close> assms have "I t" by (blast dest: keepsD)
  with \<open>I s\<close> m show "I (snd (withTransaction m s))"
    by (cases r) (auto simp: withTransaction_def)
qed

subsection \<open>Predicates kept by committed runs\<close>

text \<open>A run that throws is rolled back by its transaction, so only runs that return count.\<close>

definition commits :: "('s \<Rightarrow> bool) \<Rightarrow> ('s, 'a) tx \<Rightarrow> bool" where
  "commits I m \<longleftrightarrow> (\<forall>s a t. I s \<longrightarrow> m s = (Inr a, t) \<longrightarrow> I t)"

lemma commitsD: "commits I m \<Longrightarrow> I s \<Longrightarrow> m s = (Inr a, t) \<Longrightarrow> I t"
  by (simp add: commits_def)

lemma commitsI: "(\<And>s a t. I s \<Longrightarrow> m s = (Inr a, t) \<Longrightarrow> I t) \<Longrightarrow> commits I m"
  by (simp add: commits_def)

lemma commits_basic [commits_intros]:
  "commits I (ret a)" "commits I (fail e)" "commits I (gets g)" "commits I (lift_res r)"
  "commits I (require c e)"
  by (simp_all add: commits_def)

lemma commits_modify: "(\<And>s. I s \<Longrightarrow> I (h s)) \<Longrightarrow> commits I (modify h)"
  by (simp add: commits_def)

lemma commits_bind [commits_intros]:
  assumes "commits I m" and "\<And>a. commits I (f a)"
  shows "commits I (bind m f)"
  unfolding commits_def bind_Inr_iff using commitsD [OF assms(1)] commitsD [OF assms(2)] by blast

lemma commits_if [commits_intros]:
  "(c \<Longrightarrow> commits I m) \<Longrightarrow> (\<not> c \<Longrightarrow> commits I n) \<Longrightarrow> commits I (if c then m else n)"
  by simp

lemma commits_case_option [commits_intros]:
  "(x = None \<Longrightarrow> commits I m) \<Longrightarrow> (\<And>a. x = Some a \<Longrightarrow> commits I (f a)) \<Longrightarrow>
   commits I (case x of None \<Rightarrow> m | Some a \<Rightarrow> f a)"
  by (cases x) simp_all

lemma commits_case_sum [commits_intros]:
  "(\<And>e. x = Inl e \<Longrightarrow> commits I (g e)) \<Longrightarrow> (\<And>a. x = Inr a \<Longrightarrow> commits I (f a)) \<Longrightarrow>
   commits I (case x of Inl e \<Rightarrow> g e | Inr a \<Rightarrow> f a)"
  by (cases x) simp_all

lemma commits_case_prod [commits_intros]:
  "(\<And>a b. x = (a, b) \<Longrightarrow> commits I (f a b)) \<Longrightarrow> commits I (case x of (a, b) \<Rightarrow> f a b)"
  by (cases x) simp

lemma commits_Let [commits_intros]: "(\<And>x. x = a \<Longrightarrow> commits I (f x)) \<Longrightarrow> commits I (let x = a in f x)"
  by simp

lemma keeps_commits: "keeps I m \<Longrightarrow> commits I m"
  by (force simp: keeps_def commits_def)

text \<open>The transaction boundary turns one into the other.\<close>

lemma keeps_withTransaction_commits: "commits I m \<Longrightarrow> keeps I (withTransaction m)"
proof (rule keepsI)
  fix s assume c: "commits I m" and "I s"
  show "I (snd (withTransaction m s))"
    using \<open>I s\<close> commitsD [OF c \<open>I s\<close>] by (auto simp: withTransaction_def split: prod.split sum.split)
qed

section \<open>Tables\<close>

text \<open>A table is its list of rows; \<open>upd_where p f\<close> is \<open>UPDATE ... SET f WHERE p\<close>.\<close>

definition upd_where :: "('r \<Rightarrow> bool) \<Rightarrow> ('r \<Rightarrow> 'r) \<Rightarrow> 'r list \<Rightarrow> 'r list" where
  "upd_where p f rows = map (\<lambda>r. if p r then f r else r) rows"

lemma upd_where_simps [simp]:
  "upd_where p f [] = []"
  "upd_where p f (r # rs) = (if p r then f r else r) # upd_where p f rs"
  "length (upd_where p f rs) = length rs"
  by (simp_all add: upd_where_def)

lemma set_upd_where: "set (upd_where p f rs) = (\<lambda>r. if p r then f r else r) ` set rs"
  by (simp add: upd_where_def)

lemma map_upd_where_frame:
  "(\<And>r. r \<in> set rs \<Longrightarrow> p r \<Longrightarrow> g (f r) = g r) \<Longrightarrow> map g (upd_where p f rs) = map g rs"
  by (induction rs) auto

lemma upd_where_none: "(\<And>r. r \<in> set rs \<Longrightarrow> \<not> p r) \<Longrightarrow> upd_where p f rs = rs"
  by (induction rs) auto

lemma find_upd_where:
  "(\<And>r. p (f r) = p r) \<Longrightarrow> find p (upd_where p f rs) = map_option f (find p rs)"
  by (induction rs) auto

lemma filter_upd_where:
  "(\<And>r. p r \<Longrightarrow> p (f r)) \<Longrightarrow> filter (\<lambda>r. \<not> p r) (upd_where p f rs) = filter (\<lambda>r. \<not> p r) rs"
  by (induction rs) auto

text \<open>Updating the one row with a given key changes a column sum by that row's change.\<close>

lemma sum_upd_where_key:
  fixes g :: "'r \<Rightarrow> int"
  assumes "distinct (map k rs)" and "r \<in> set rs"
  shows "sum_list (map g (upd_where (\<lambda>x. k x = k r) f rs)) = sum_list (map g rs) - g r + g (f r)"
  using assms
proof (induction rs)
  case (Cons a rs)
  show ?case
  proof (cases "a = r")
    case True
    with Cons.prems have "upd_where (\<lambda>x. k x = k r) f rs = rs"
      by (intro upd_where_none) (auto simp: image_iff)
    with True show ?thesis by simp
  next
    case False
    with Cons.prems have "k a \<noteq> k r" "r \<in> set rs" "distinct (map k rs)"
      by (auto simp: image_iff)
    with Cons.IH show ?thesis by simp
  qed
qed simp

lemma find_SomeD: "find P xs = Some x \<Longrightarrow> x \<in> set xs \<and> P x"
  by (auto simp: find_Some_iff)

lemma find_False [simp]: "find (\<lambda>x. False) xs = None"
  by (induction xs) simp_all

lemma find_key_unique:
  "distinct (map k rs) \<Longrightarrow> r \<in> set rs \<Longrightarrow> find (\<lambda>x. k x = k r) rs = Some r"
  by (induction rs) (auto simp: image_iff)

end
