(* ===== verification/Money.thy ===== *)
theory Money
  imports Prelude
begin

text \<open>
  \<open>server/validation/money.js\<close> (generated from \<open>client/src/shared/money.js\<close>) and the currency
  arithmetic of \<open>services/paymentRails/creditRail.js\<close>. Amounts are integers in a currency's minor
  unit; all rate arithmetic is done on unbounded integers (BigInt) and divided once.
  \<open>formatMoney\<close> is left out: it is a call of \<open>Intl.NumberFormat\<close>.
\<close>

section \<open>Currencies\<close>

definition CURRENCY_EXPONENTS :: "(string \<times> nat) list" where
  "CURRENCY_EXPONENTS =
    [(''USD'', 2), (''CAD'', 2), (''GBP'', 2), (''EUR'', 2), (''AUD'', 2), (''NZD'', 2), (''CHF'', 2),
     (''MXN'', 2), (''BRL'', 2), (''KES'', 2), (''HTG'', 2), (''DOP'', 2), (''JMD'', 2), (''NGN'', 2),
     (''GHS'', 2), (''ZAR'', 2), (''INR'', 2), (''PHP'', 2), (''SGD'', 2), (''HKD'', 2), (''SEK'', 2),
     (''NOK'', 2), (''DKK'', 2), (''PLN'', 2), (''CZK'', 2), (''MAD'', 2), (''HUF'', 2), (''TWD'', 2),
     (''XOF'', 0), (''XAF'', 0), (''JPY'', 0), (''KRW'', 0), (''VND'', 0), (''CLP'', 0), (''PYG'', 0),
     (''RWF'', 0), (''UGX'', 0), (''ISK'', 0),
     (''KWD'', 3), (''BHD'', 3), (''OMR'', 3), (''JOD'', 3), (''TND'', 3)]"

definition MAX_MINOR_AMOUNT :: int where
  "MAX_MINOR_AMOUNT = 1000000000000"

fun normalizeCurrency :: "jsval \<Rightarrow> string option" where
  "normalizeCurrency (JStr code) =
     (let upper = js_upper (js_trim code) in
      if map_of CURRENCY_EXPONENTS upper \<noteq> None then Some upper else None)"
| "normalizeCurrency _ = None"

definition currencyExponent :: "jsval \<Rightarrow> nat" where
  "currencyExponent code =
     (case normalizeCurrency code of
        Some currency \<Rightarrow> (case map_of CURRENCY_EXPONENTS currency of Some e \<Rightarrow> e | None \<Rightarrow> 2)
      | None \<Rightarrow> 2)"

definition isMinorAmount :: "jsnum \<Rightarrow> bool" where
  "isMinorAmount value =
     (case safe_int value of None \<Rightarrow> False | Some n \<Rightarrow> 0 \<le> n \<and> n \<le> MAX_MINOR_AMOUNT)"

section \<open>Parsing and printing\<close>

text \<open>\<open>input.toFixed(k)\<close> of a finite non-negative number below \<open>10 ^ 21\<close>; larger numbers print
  with an exponent, which the pattern below rejects.\<close>

definition to_fixed :: "rat \<Rightarrow> nat \<Rightarrow> string option" where
  "to_fixed q k =
     (if 10 ^ 21 \<le> q then None
      else let n = nat \<lfloor>q * 10 ^ k + 1 / 2\<rfloor>; fr = show_nat (n mod 10 ^ k) in
           Some (show_nat (n div 10 ^ k) @
                 (if k = 0 then [] else CHR ''.'' # replicate (k - length fr) (CHR ''0'') @ fr)))"

text \<open>The match of \<open>/^(\d+)(?:\.(\d*))?$/\<close>: the whole part and the fraction.\<close>

definition split_decimal :: "string \<Rightarrow> (string \<times> string) option" where
  "split_decimal text =
     (let whole = takeWhile is_digit text; rest = dropWhile is_digit text in
      if whole = [] then None
      else case rest of
             [] \<Rightarrow> Some (whole, [])
           | c # fs \<Rightarrow> if c = CHR ''.'' \<and> list_all is_digit fs then Some (whole, fs) else None)"

definition strip_zeros :: "string \<Rightarrow> string" where
  "strip_zeros s = rev (dropWhile (\<lambda>c. c = CHR ''0'') (rev s))"

definition toMinor :: "jsval \<Rightarrow> jsval \<Rightarrow> int option" where
  "toMinor input currency =
     (let exp = currencyExponent currency;
          text = (case input of
                    JNum (JFin q) \<Rightarrow> if q < 0 then None else to_fixed q (min (exp + 2) 6)
                  | JStr s \<Rightarrow> Some (filter (\<lambda>c. \<not> (js_space c \<or> c = CHR '','' \<or> c = CHR ''_'')) (js_trim s))
                  | _ \<Rightarrow> None) in
      case Option.bind text split_decimal of
        None \<Rightarrow> None
      | Some (whole, fr) \<Rightarrow>
          let fraction = strip_zeros fr in
          if exp < length fraction then None
          else let padded = fraction @ replicate (exp - length fraction) (CHR ''0'');
                   value = number_of_bigint (int (read_nat (whole @ padded))) in
               if isMinorAmount value then safe_int value else None)"

definition fromMinor :: "jsnum \<Rightarrow> jsval \<Rightarrow> string option" where
  "fromMinor minor currency =
     (case safe_int minor of
        None \<Rightarrow> None
      | Some n \<Rightarrow>
          let exp = currencyExponent currency;
              ds = show_nat (nat \<bar>n\<bar>);
              digits = replicate (exp + 1 - length ds) (CHR ''0'') @ ds;
              text = (if exp = 0 then digits
                      else take (length digits - exp) digits @ CHR ''.'' # drop (length digits - exp) digits) in
          Some (if n < 0 then CHR ''-'' # text else text))"

text \<open>\<open>typeof value === 'number' ? value : String(value ?? '')\<close>.\<close>

definition dollarsToCents :: "jsval \<Rightarrow> int option" where
  "dollarsToCents value =
     toMinor (case value of
                JNum n \<Rightarrow> JNum n
              | JUndef \<Rightarrow> JStr []
              | JNull \<Rightarrow> JStr []
              | JBool b \<Rightarrow> JStr (if b then ''true'' else ''false'')
              | JStr s \<Rightarrow> JStr s) (JStr ''USD'')"

section \<open>Exact division and rates\<close>

datatype rounding = Up | Down | HalfUp

text \<open>BigInt division truncates towards zero; every caller passes a positive denominator.\<close>

definition bigDiv :: "int \<Rightarrow> int \<Rightarrow> rounding \<Rightarrow> int" where
  "bigDiv numerator denominator rounding =
     (let q = sgn numerator * sgn denominator * (\<bar>numerator\<bar> div \<bar>denominator\<bar>);
          r = numerator - q * denominator in
      if r = 0 then q
      else case rounding of
             Up \<Rightarrow> q + 1
           | Down \<Rightarrow> q
           | HalfUp \<Rightarrow> if denominator \<le> r * 2 then q + 1 else q)"

definition bpsOf :: "jsnum \<Rightarrow> jsnum \<Rightarrow> rounding \<Rightarrow> jsnum option" where
  "bpsOf minor bps rounding =
     (case (safe_int minor, safe_int bps) of
        (Some m, Some b) \<Rightarrow> Some (number_of_bigint (bigDiv (m * b) 10000 rounding))
      | _ \<Rightarrow> None)"

text \<open>\<open>BigInt(text)\<close>: decimal with an optional sign, or hexadecimal, octal, binary; \<open>None\<close> is the
  SyntaxError.\<close>

definition radix_val :: "char \<Rightarrow> nat" where
  "radix_val c = (let n = of_char c :: nat in
     if is_digit c then n - 48 else if 97 \<le> n \<and> n \<le> 102 then n - 87
     else if 65 \<le> n \<and> n \<le> 70 then n - 55 else 99)"

definition read_radix :: "nat \<Rightarrow> string \<Rightarrow> int option" where
  "read_radix b s =
     (if s \<noteq> [] \<and> list_all (\<lambda>c. radix_val c < b) s
      then Some (int (foldl (\<lambda>a c. a * b + radix_val c) 0 s)) else None)"

fun bigint_signed :: "string \<Rightarrow> int option" where
  "bigint_signed [] = Some 0"
| "bigint_signed (c # s) =
     (if c = CHR ''-'' then map_option uminus (read_radix 10 s)
      else if c = CHR ''+'' then read_radix 10 s
      else if c = CHR ''0'' \<and> s \<noteq> [] \<and> hd s \<in> {CHR ''x'', CHR ''X''} then read_radix 16 (tl s)
      else if c = CHR ''0'' \<and> s \<noteq> [] \<and> hd s \<in> {CHR ''o'', CHR ''O''} then read_radix 8 (tl s)
      else if c = CHR ''0'' \<and> s \<noteq> [] \<and> hd s \<in> {CHR ''b'', CHR ''B''} then read_radix 2 (tl s)
      else read_radix 10 (c # s))"

definition bigint_of_string :: "string \<Rightarrow> int option" where
  "bigint_of_string s = bigint_signed (js_trim s)"

text \<open>The fraction of a conversion once the exponent difference is folded in.\<close>

definition shifted :: "int \<Rightarrow> int \<Rightarrow> jsval \<Rightarrow> jsval \<Rightarrow> int \<times> int" where
  "shifted n d from to =
     (let ef = currencyExponent from; et = currencyExponent to in
      (if ef < et then n * 10 ^ (et - ef) else n, if et < ef then d * 10 ^ (ef - et) else d))"

definition convertMinor ::
  "jsnum \<Rightarrow> jsval \<Rightarrow> jsval \<Rightarrow> string \<Rightarrow> string \<Rightarrow> rounding \<Rightarrow> int option" where
  "convertMinor minor from to rateNumerator rateDenominator rounding =
     (case safe_int minor of
        None \<Rightarrow> None
      | Some m \<Rightarrow>
          if m < 0 then None
          else case (bigint_of_string rateNumerator, bigint_of_string rateDenominator) of
                 (Some num, Some den) \<Rightarrow>
                   if num \<le> 0 \<or> den \<le> 0 then None
                   else let (n, d) = shifted (m * num) den from to;
                            value = number_of_bigint (bigDiv n d rounding) in
                        if isMinorAmount value then safe_int value else None
               | _ \<Rightarrow> None)"

definition withSpread :: "jsnum \<Rightarrow> jsnum \<Rightarrow> jsnum option" where
  "withSpread minor spreadBps =
     (case (safe_int minor, safe_int spreadBps) of
        (Some m, Some b) \<Rightarrow>
          if b < 0 then None
          else Some (number_of_bigint (bigDiv (m * (10000 + b)) 10000 Up))
      | _ \<Rightarrow> None)"

section \<open>Lemmas\<close>

lemma bigDiv_modes:
  assumes "0 \<le> n" "0 < d"
  shows "bigDiv n d Down = n div d"
    and "bigDiv n d Up = (n + d - 1) div d"
    and "bigDiv n d HalfUp = (2 * n + d) div (2 * d)"
proof -
  define q r where "q = n div d" and "r = n mod d"
  have n: "n = q * d + r" and r: "0 \<le> r" "r < d"
    using assms by (simp_all add: q_def r_def)
  have trunc: "sgn n * sgn d * (\<bar>n\<bar> div \<bar>d\<bar>) = q"
    using assms by (cases "n = 0") (simp_all add: q_def)
  have rem: "n - q * d = r" by (simp add: n)
  have big: "bigDiv n d m = (if r = 0 then q else case m of Up \<Rightarrow> q + 1 | Down \<Rightarrow> q
      | HalfUp \<Rightarrow> if d \<le> r * 2 then q + 1 else q)" for m
    unfolding bigDiv_def trunc rem Let_def ..
  show "bigDiv n d Down = n div d"
    by (simp add: big q_def)
  have "(n + d - 1) div d = (if r = 0 then q else q + 1)"
    using r n by (intro int_div_pos_eq [where r = "if r = 0 then d - 1 else r - 1"]) (auto simp: algebra_simps)
  then show "bigDiv n d Up = (n + d - 1) div d"
    by (simp add: big)
  have "(2 * n + d) div (2 * d) = (if d \<le> r * 2 then q + 1 else q)"
    using r n by (intro int_div_pos_eq [where r = "if d \<le> r * 2 then 2 * r - d else 2 * r + d"])
      (auto simp: algebra_simps)
  then show "bigDiv n d HalfUp = (2 * n + d) div (2 * d)"
    using assms by (auto simp: big)
qed

text \<open>What every rounding mode owes the money code: exact where the division is, and monotone.\<close>

locale rounding_mode =
  fixes rd :: "int \<Rightarrow> int \<Rightarrow> int"
  assumes exact: "0 \<le> k \<Longrightarrow> 0 < d \<Longrightarrow> rd (k * d) d = k"
    and mono: "0 \<le> a \<Longrightarrow> a \<le> b \<Longrightarrow> 0 < d \<Longrightarrow> rd a d \<le> rd b d"
begin

lemma between:
  assumes "0 \<le> n" "0 < d"
  shows "n div d \<le> rd n d \<and> rd n d \<le> n div d + 1"
proof -
  have a: "n div d * d \<le> n" "n \<le> (n div d + 1) * d" "0 \<le> n div d"
    using assms div_mult_mod_eq [of n d] pos_mod_bound [of d n] pos_mod_sign [of d n]
    by (linarith, simp add: distrib_right, linarith) (simp add: pos_imp_zdiv_nonneg_iff assms)
  have "rd (n div d * d) d \<le> rd n d" using a assms by (intro mono) auto
  moreover have "rd n d \<le> rd ((n div d + 1) * d) d" using a assms by (intro mono) auto
  ultimately show ?thesis using exact [of "n div d" d] exact [of "n div d + 1" d] a assms by simp
qed

lemma nonneg: "0 \<le> n \<Longrightarrow> 0 < d \<Longrightarrow> 0 \<le> rd n d"
  using between [of n d] pos_imp_zdiv_nonneg_iff [of d n] by linarith

lemma zero: "0 < d \<Longrightarrow> rd 0 d = 0"
  using exact [of 0 d] by simp

end

interpretation down: rounding_mode "\<lambda>n d. bigDiv n d Down"
  by unfold_locales (simp_all add: bigDiv_modes zdiv_mono1)

interpretation up: rounding_mode "\<lambda>n d. bigDiv n d Up"
proof unfold_locales
  fix k d :: int assume "0 \<le> k" "0 < d"
  then have "(k * d + d - 1) div d = k"
    by (intro int_div_pos_eq [where r = "d - 1"]) (auto simp: algebra_simps)
  with \<open>0 \<le> k\<close> \<open>0 < d\<close> show "bigDiv (k * d) d Up = k" by (simp add: bigDiv_modes)
qed (simp add: bigDiv_modes zdiv_mono1)

interpretation half_up: rounding_mode "\<lambda>n d. bigDiv n d HalfUp"
proof unfold_locales
  fix k d :: int assume "0 \<le> k" "0 < d"
  then have "(2 * (k * d) + d) div (2 * d) = k"
    by (intro int_div_pos_eq [where r = d]) (auto simp: algebra_simps)
  with \<open>0 \<le> k\<close> \<open>0 < d\<close> show "bigDiv (k * d) d HalfUp = k" by (simp add: bigDiv_modes)
qed (simp add: bigDiv_modes zdiv_mono1)

lemma bigDiv_between:
  "0 \<le> n \<Longrightarrow> 0 < d \<Longrightarrow> n div d \<le> bigDiv n d m \<and> bigDiv n d m \<le> n div d + 1"
  by (cases m) (simp_all add: up.between down.between half_up.between)

lemma bigDiv_nonneg: "0 \<le> n \<Longrightarrow> 0 < d \<Longrightarrow> 0 \<le> bigDiv n d m"
  by (cases m) (simp_all add: up.nonneg down.nonneg half_up.nonneg)

lemma bigDiv_mono: "0 \<le> a \<Longrightarrow> a \<le> b \<Longrightarrow> 0 < d \<Longrightarrow> bigDiv a d m \<le> bigDiv b d m"
  by (cases m) (simp_all add: up.mono down.mono half_up.mono)

lemma isMinorAmount_bigint:
  "isMinorAmount (number_of_bigint b) \<longleftrightarrow> 0 \<le> b \<and> b \<le> MAX_MINOR_AMOUNT"
  by (auto simp: isMinorAmount_def safe_number_of_bigint max_safe_integer_def MAX_MINOR_AMOUNT_def)

lemma minor_amount_result:
  "(if isMinorAmount (number_of_bigint b) then safe_int (number_of_bigint b) else None)
   = (if 0 \<le> b \<and> b \<le> MAX_MINOR_AMOUNT then Some b else None)"
  by (auto simp: isMinorAmount_bigint safe_number_of_bigint max_safe_integer_def MAX_MINOR_AMOUNT_def)

lemma shifted_pos:
  "shifted n d from to = (n', d') \<Longrightarrow> 0 \<le> n \<Longrightarrow> 0 < d \<Longrightarrow> 0 \<le> n' \<and> 0 < d'"
  by (auto simp: shifted_def Let_def split: if_splits)

subsection \<open>Printing and parsing\<close>

lemma digit_plain: "is_digit c \<Longrightarrow> \<not> js_space c \<and> c \<noteq> CHR '','' \<and> c \<noteq> CHR ''_'' \<and> c \<noteq> CHR ''.''"
  by (auto simp: is_digit_def js_space_def)

lemma strip_zeros_pad:
  "strip_zeros fr @ replicate (length fr - length (strip_zeros fr)) (CHR ''0'') = fr"
proof -
  have "\<exists>k. fr = strip_zeros fr @ replicate k (CHR ''0'')"
  proof -
    let ?z = "\<lambda>c. c = CHR ''0''"
    have "rev fr = takeWhile ?z (rev fr) @ dropWhile ?z (rev fr)" by simp
    then have "fr = rev (dropWhile ?z (rev fr)) @ rev (takeWhile ?z (rev fr))"
      by (metis rev_append rev_rev_ident)
    moreover have "\<forall>c \<in> set (rev (takeWhile ?z (rev fr))). c = CHR ''0''"
      by (auto dest: set_takeWhileD)
    then have "rev (takeWhile ?z (rev fr)) = replicate (length (rev (takeWhile ?z (rev fr)))) (CHR ''0'')"
      by (intro replicate_length_same [symmetric]) auto
    ultimately show ?thesis unfolding strip_zeros_def by metis
  qed
  then obtain k where "fr = strip_zeros fr @ replicate k (CHR ''0'')" ..
  then show ?thesis by (metis add_diff_cancel_left' length_append length_replicate)
qed

lemma length_strip_zeros: "length (strip_zeros fr) \<le> length fr"
  using length_dropWhile_le [of _ "rev fr"] by (simp add: strip_zeros_def)

lemma split_decimal_digits:
  "list_all is_digit w \<Longrightarrow> w \<noteq> [] \<Longrightarrow> split_decimal w = Some (w, [])"
  by (simp add: split_decimal_def list_all_iff takeWhile_eq_all_conv [THEN iffD2]
      dropWhile_eq_Nil_conv [THEN iffD2])

lemma split_decimal_point:
  assumes "list_all is_digit w" "w \<noteq> []" "list_all is_digit fr"
  shows "split_decimal (w @ CHR ''.'' # fr) = Some (w, fr)"
proof -
  have "\<not> is_digit (CHR ''.'')" by (simp add: is_digit_def)
  with assms have "takeWhile is_digit (w @ CHR ''.'' # fr) = w"
    "dropWhile is_digit (w @ CHR ''.'' # fr) = CHR ''.'' # fr"
    by (simp_all add: list_all_iff takeWhile_append dropWhile_append)
  with assms show ?thesis by (simp add: split_decimal_def)
qed

lemma toMinor_of_parts:
  assumes "list_all is_digit w" "w \<noteq> []" "list_all is_digit fr" "length fr = currencyExponent c"
    and "t = (if currencyExponent c = 0 then w else w @ CHR ''.'' # fr)"
    and "int (read_nat (w @ fr)) \<le> MAX_MINOR_AMOUNT"
  shows "toMinor (JStr t) c = Some (int (read_nat (w @ fr)))"
proof -
  have nosp: "list_all (\<lambda>c. \<not> js_space c \<and> c \<noteq> CHR '','' \<and> c \<noteq> CHR ''_'') t"
    using assms(1,3,5) digit_plain by (auto simp: list_all_iff js_space_def)
  then have "js_trim t = t" by (intro js_trim_id) (auto simp: list_all_iff)
  moreover have "filter (\<lambda>c. \<not> (js_space c \<or> c = CHR '','' \<or> c = CHR ''_'')) t = t"
    using nosp by (auto simp: filter_id_conv list_all_iff)
  moreover have "split_decimal t = Some (w, fr)"
    using assms by (auto simp: split_decimal_digits split_decimal_point)
  ultimately show ?thesis
    using assms(4,6) length_strip_zeros [of fr] strip_zeros_pad [of fr]
    by (simp add: toMinor_def Let_def minor_amount_result flip: assms(4))
qed

text \<open>C38: printing an amount and parsing it back is the identity: for every currency value (known
  or not, upper or lower case) and every amount the platform accepts, \<open>fromMinor\<close> returns a text
  and \<open>toMinor\<close> reads the same number of minor units from that text.\<close>

theorem toMinor_fromMinor:
  assumes "0 \<le> m" "m \<le> MAX_MINOR_AMOUNT"
  shows "\<exists>text. fromMinor (JInt m) c = Some text \<and> toMinor (JStr text) c = Some m"
proof -
  define e ds where "e = currencyExponent c" and "ds = show_nat (nat m)"
  define dg where "dg = replicate (e + 1 - length ds) (CHR ''0'') @ ds"
  define w fr where "w = take (length dg - e) dg" and "fr = drop (length dg - e) dg"
  define t where "t = (if e = 0 then w else w @ CHR ''.'' # fr)"
  have len: "e < length dg" by (auto simp: dg_def)
  have "list_all is_digit (replicate k (CHR ''0''))" for k
    by (induction k) (simp_all add: is_digit_def)
  then have dig: "list_all is_digit dg"
    by (simp add: dg_def ds_def list_all_append show_nat_digits)
  have wfr: "w @ fr = dg" by (simp add: w_def fr_def)
  have parts: "list_all is_digit w" "list_all is_digit fr" "w \<noteq> []" "length fr = e"
    using dig len by (simp_all add: w_def fr_def list_all_iff) (auto dest: in_set_takeD in_set_dropD)
  have val: "int (read_nat (w @ fr)) = m"
    using assms by (simp add: wfr dg_def ds_def)
  have "e = 0 \<Longrightarrow> dg = w" by (simp add: w_def)
  then have "fromMinor (JInt m) c = Some t"
    using assms unfolding fromMinor_def
    by (simp add: Let_def max_safe_integer_def MAX_MINOR_AMOUNT_def t_def w_def fr_def dg_def ds_def e_def)
  moreover have "toMinor (JStr t) c = Some m"
    using toMinor_of_parts [of w fr c t] parts val assms by (simp add: e_def t_def)
  ultimately show ?thesis by blast
qed

theorem toMinor_fromMinor_witness:
  "fromMinor (JInt 1250) (JStr ''usd'') = Some ''12.50'' \<and>
   (\<exists>text. fromMinor (JInt 1250) (JStr ''usd'') = Some text \<and> toMinor (JStr text) (JStr ''usd'') = Some 1250)"
proof
  show "fromMinor (JInt 1250) (JStr ''usd'') = Some ''12.50''" by code_simp
  show "\<exists>text. fromMinor (JInt 1250) (JStr ''usd'') = Some text \<and> toMinor (JStr text) (JStr ''usd'') = Some 1250"
    by (rule toMinor_fromMinor) (simp_all add: MAX_MINOR_AMOUNT_def)
qed

end
