(* ===== verification/RailMath.thy ===== *)
theory RailMath
  imports Money
begin

text \<open>
  The arithmetic of \<open>services/paymentRails/creditRail.js\<close>: what a customer pays in another currency
  for a price, the conversion fee hidden in a stored amount, and the rate scaled for minor units.
  A rate is a pair of integer texts (\<open>rateNumerator\<close>, \<open>rateDenominator\<close>) as the rate provider,
  which is a parameter of the model, returns it.
\<close>

section \<open>Operations\<close>

text \<open>A \<open>null\<close> counts as \<open>0\<close> in a comparison.\<close>

definition null0 :: "int option \<Rightarrow> int" where
  "null0 x = (case x of None \<Rightarrow> 0 | Some n \<Rightarrow> n)"

fun coverTarget :: "nat \<Rightarrow> int \<Rightarrow> jsval \<Rightarrow> jsval \<Rightarrow> string \<Rightarrow> string \<Rightarrow> int \<Rightarrow> int" where
  "coverTarget 0 target from to num den source = source"
| "coverTarget (Suc k) target from to num den source =
     (if null0 (convertMinor (JInt source) from to num den HalfUp) < target
      then coverTarget k target from to num den (source + 1) else source)"

definition sourceForTarget :: "int \<Rightarrow> jsval \<Rightarrow> jsval \<Rightarrow> string \<Rightarrow> string \<Rightarrow> int option" where
  "sourceForTarget targetMinor from to rateNumerator rateDenominator =
     (case convertMinor (JInt targetMinor) to from rateDenominator rateNumerator Up of
        None \<Rightarrow> None
      | Some source \<Rightarrow> Some (coverTarget 4 targetMinor from to rateNumerator rateDenominator source))"

definition minorRate :: "jsval \<Rightarrow> jsval \<Rightarrow> string \<Rightarrow> string \<Rightarrow> (string \<times> string) res" where
  "minorRate from to rateNumerator rateDenominator =
     (let shift = int (currencyExponent to) - int (currencyExponent from) in
      case (bigint_of_string rateNumerator, bigint_of_string rateDenominator) of
        (Some num, Some den) \<Rightarrow>
          Inr (show_int (if 0 < shift then num * 10 ^ nat shift else num),
               show_int (if shift < 0 then den * 10 ^ nat (- shift) else den))
      | _ \<Rightarrow> Inl (JsError ''SyntaxError''))"

text \<open>
  \<open>base + money.bpsOf(base, spread, 'up')\<close>: a \<open>null\<close> fee counts as \<open>0\<close>, the sum is rounded.
\<close>

definition plusFee :: "rat \<Rightarrow> int \<Rightarrow> rat" where
  "plusFee base spread =
     rnd (base + (case bpsOf (JFin base) (JInt spread) Up of Some (JFin fee) \<Rightarrow> fee | _ \<Rightarrow> 0))"

text \<open>The two \<open>while\<close> loops of \<open>feeFromTotal\<close>; \<open>None\<close> is a loop that never ends.\<close>

partial_function (option) raiseBase :: "int \<Rightarrow> int \<Rightarrow> rat \<Rightarrow> rat option" where
  [code]: "raiseBase paid spread base =
     (if plusFee base spread < of_int paid then raiseBase paid spread (rnd (base + 1)) else Some base)"

partial_function (option) lowerBase :: "int \<Rightarrow> int \<Rightarrow> rat \<Rightarrow> rat option" where
  [code]: "lowerBase paid spread base =
     (if 0 < base \<and> of_int paid < plusFee base spread
      then lowerBase paid spread (rnd (base - 1)) else Some base)"

text \<open>
  \<open>paid\<close> and \<open>spread\<close> are the columns \<open>source_amount_minor\<close> (BIGINT) and \<open>spread_bps\<close> (INT) of the
  quote; a spread of \<open>-10000\<close> divides by zero, which gives an infinite or undefined start.
\<close>

definition feeFromTotal :: "int \<Rightarrow> int \<Rightarrow> jsnum option" where
  "feeFromTotal paid spread =
     (let t = rnd (of_int paid) in
      if 10000 + spread = 0 then (if t \<le> 0 then Some (if t = 0 then JNaN else JInf) else None)
      else let start = of_int \<lfloor>rnd (rnd (t * 10000) / of_int (10000 + spread))\<rfloor> in
           case Option.bind (raiseBase paid spread start) (lowerBase paid spread) of
             None \<Rightarrow> None
           | Some base \<Rightarrow> Some (JFin (rnd (t - base))))"

section \<open>Conversion\<close>

lemma convertMinor_Some_iff:
  "convertMinor (JInt m) f t num den mode = Some v \<longleftrightarrow>
   (\<exists>a b. bigint_of_string num = Some a \<and> bigint_of_string den = Some b \<and> 0 < a \<and> 0 < b \<and>
      0 \<le> m \<and> m \<le> max_safe_integer \<and>
      v = (case shifted (m * a) b f t of (n, d) \<Rightarrow> bigDiv n d mode) \<and>
      0 \<le> v \<and> v \<le> MAX_MINOR_AMOUNT)"
  by (auto simp: convertMinor_def minor_amount_result Let_def
      split: option.splits prod.splits if_splits)

text \<open>The exchange rate in minor units is one fraction, whatever the amount.\<close>

definition rate_num :: "int \<Rightarrow> jsval \<Rightarrow> jsval \<Rightarrow> int" where
  "rate_num a f t = a * 10 ^ (currencyExponent t - currencyExponent f)"

lemma shifted_rate:
  "shifted (m * a) b f t = (m * rate_num a f t, rate_num b t f)"
  by (simp add: shifted_def rate_num_def Let_def)

lemma rate_num_pos: "0 < a \<Longrightarrow> 0 < rate_num a f t"
  by (simp add: rate_num_def)

lemma convertMinor_rate:
  "convertMinor (JInt m) f t num den mode = Some v \<longleftrightarrow>
   (\<exists>a b. bigint_of_string num = Some a \<and> bigint_of_string den = Some b \<and> 0 < a \<and> 0 < b \<and>
      0 \<le> m \<and> m \<le> max_safe_integer \<and>
      v = bigDiv (m * rate_num a f t) (rate_num b t f) mode \<and> v \<le> MAX_MINOR_AMOUNT)"
  by (auto simp: convertMinor_Some_iff shifted_rate bigDiv_nonneg rate_num_pos
      intro!: bigDiv_nonneg mult_nonneg_nonneg dest: rate_num_pos [THEN order.strict_implies_order])

lemma bigDiv_bounds:
  assumes "0 \<le> n" "0 < d"
  shows "bigDiv n d Down * d \<le> n" and "n < bigDiv n d Down * d + d"
    and "n \<le> bigDiv n d Up * d" and "bigDiv n d Up * d < n + d"
    and "2 * n < 2 * (bigDiv n d HalfUp * d) + d" and "2 * (bigDiv n d HalfUp * d) \<le> 2 * n + d"
proof -
  have eq: "k div d * d = k - k mod d" "0 \<le> k mod d" "k mod d < d" for k
    using assms by (simp_all add: minus_mod_eq_div_mult)
  have eq2: "k div (2 * d) * (2 * d) = k - k mod (2 * d)" "0 \<le> k mod (2 * d)" "k mod (2 * d) < 2 * d" for k
    using assms minus_mod_eq_div_mult [of k "2 * d"] by simp_all
  show "bigDiv n d Down * d \<le> n" "n < bigDiv n d Down * d + d"
    unfolding bigDiv_modes [OF assms] using eq [of n] by linarith+
  show "n \<le> bigDiv n d Up * d" "bigDiv n d Up * d < n + d"
    unfolding bigDiv_modes [OF assms] using eq [of "n + d - 1"] by linarith+
  show "2 * n < 2 * (bigDiv n d HalfUp * d) + d" "2 * (bigDiv n d HalfUp * d) \<le> 2 * n + d"
    unfolding bigDiv_modes [OF assms] using eq2 [of "2 * n + d"] by linarith+
qed

text \<open>Evaluation on the sample rate 152.13 yen to the dollar.\<close>

lemma sample_exponents:
  "currencyExponent (JStr ''USD'') = 2" "currencyExponent (JStr ''JPY'') = 0"
  by code_simp+

lemma sample_rate:
  "bigint_of_string ''15213'' = Some 15213" "bigint_of_string ''100'' = Some 100"
  by (simp_all add: bigint_of_string_def js_trim_def js_space_def read_radix_def radix_val_def
      is_digit_def Let_def)

lemmas rate_eval = sample_exponents sample_rate rate_num_def bigDiv_def max_safe_integer_def MAX_MINOR_AMOUNT_def

text \<open>C39: a conversion with the default rounding is the nearest amount: twice the distance between
  the result and the exact product of amount and rate (in minor units of the two currencies) is at
  most one minor unit, and an exact half is rounded up.\<close>

theorem convertMinor_half_up_nearest:
  assumes "convertMinor (JInt m) f t num den HalfUp = Some v"
    and "bigint_of_string num = Some a" and "bigint_of_string den = Some b"
  shows "2 * (m * rate_num a f t) < 2 * (v * rate_num b t f) + rate_num b t f
       \<and> 2 * (v * rate_num b t f) \<le> 2 * (m * rate_num a f t) + rate_num b t f"
  using assms bigDiv_bounds(5,6) [of "m * rate_num a f t" "rate_num b t f"]
  by (auto simp: convertMinor_rate rate_num_pos less_imp_le)

theorem convertMinor_half_up_nearest_witness:
  "convertMinor (JInt 1999) (JStr ''USD'') (JStr ''JPY'') ''15213'' ''100'' HalfUp = Some 3041 \<and>
   2 * (1999 * rate_num 15213 (JStr ''USD'') (JStr ''JPY''))
     < 2 * (3041 * rate_num 100 (JStr ''JPY'') (JStr ''USD'')) + rate_num 100 (JStr ''JPY'') (JStr ''USD'')"
proof -
  have a: "convertMinor (JInt 1999) (JStr ''USD'') (JStr ''JPY'') ''15213'' ''100'' HalfUp = Some 3041"
    unfolding convertMinor_rate by (simp add: rate_eval)
  from convertMinor_half_up_nearest [OF a sample_rate] a show ?thesis by simp
qed

text \<open>Converting there and back never creates money: when the amount converted at a rate is
  converted back at the inverse rate and both conversions round down, the customer has at most
  what they started with.\<close>

theorem convertMinor_round_trip_no_gain:
  assumes "convertMinor (JInt m) f t num den Down = Some v"
    and "convertMinor (JInt v) t f den num Down = Some u"
  shows "u \<le> m"
proof -
  obtain a b where ab: "bigint_of_string num = Some a" "bigint_of_string den = Some b" "0 < a" "0 < b"
      "0 \<le> m" "v = bigDiv (m * rate_num a f t) (rate_num b t f) Down"
    using assms(1) by (auto simp: convertMinor_rate)
  have u: "u = bigDiv (v * rate_num b t f) (rate_num a f t) Down" "0 \<le> v"
    using assms(2) ab by (auto simp: convertMinor_rate)
  have pos: "0 < rate_num a f t" "0 < rate_num b t f" using ab by (simp_all add: rate_num_pos)
  have "v * rate_num b t f \<le> m * rate_num a f t"
    using bigDiv_bounds(1) [of "m * rate_num a f t" "rate_num b t f"] ab pos by simp
  then have "u \<le> bigDiv (m * rate_num a f t) (rate_num a f t) Down"
    unfolding u(1) using u(2) pos by (intro bigDiv_mono) auto
  also have "\<dots> = m" using ab(5) pos(1) by (rule down.exact)
  finally show ?thesis .
qed

theorem convertMinor_round_trip_no_gain_witness:
  "convertMinor (JInt 1999) (JStr ''USD'') (JStr ''JPY'') ''15213'' ''100'' Down = Some 3041 \<and>
   convertMinor (JInt 3041) (JStr ''JPY'') (JStr ''USD'') ''100'' ''15213'' Down = Some 1998 \<and>
   (1998 :: int) \<le> 1999"
proof -
  have a: "convertMinor (JInt 1999) (JStr ''USD'') (JStr ''JPY'') ''15213'' ''100'' Down = Some 3041"
    and b: "convertMinor (JInt 3041) (JStr ''JPY'') (JStr ''USD'') ''100'' ''15213'' Down = Some 1998"
    unfolding convertMinor_rate by (simp_all add: rate_eval)
  from convertMinor_round_trip_no_gain [OF a b] a b show ?thesis by blast
qed

lemma coverTarget_enough:
  assumes "null0 (convertMinor (JInt s) f t num den HalfUp) \<ge> target"
  shows "coverTarget k target f t num den s = s"
  using assms by (cases k) simp_all

lemma coverTarget_ge: "s \<le> coverTarget k target f t num den s"
  by (induction k arbitrary: s) (auto, smt (verit))

text \<open>the source amount a customer is quoted covers the price: converted at the disclosed rate
  it yields at least the target (when that conversion stays inside the platform's amount range),
  and no extra unit was added by the search loop, so the quote is the exact ceiling of the price.\<close>

theorem sourceForTarget_covers:
  assumes "sourceForTarget target f t num den = Some s"
    and "convertMinor (JInt s) f t num den HalfUp = Some v"
  shows "target \<le> v \<and> convertMinor (JInt target) t f den num Up = Some s"
proof -
  obtain s0 where s0: "convertMinor (JInt target) t f den num Up = Some s0"
      and s: "s = coverTarget 4 target f t num den s0"
    using assms(1) by (auto simp: sourceForTarget_def split: option.splits)
  then obtain a b where ab: "bigint_of_string num = Some a" "bigint_of_string den = Some b" "0 < a" "0 < b"
      "0 \<le> target" "s0 = bigDiv (target * rate_num b t f) (rate_num a f t) Up"
    by (auto simp: convertMinor_rate)
  have pos: "0 < rate_num a f t" "0 < rate_num b t f" using ab by (simp_all add: rate_num_pos)
  have "target * rate_num b t f \<le> s0 * rate_num a f t"
    using bigDiv_bounds(3) [of "target * rate_num b t f" "rate_num a f t"] ab pos by simp
  note le = this
  have reach: "target \<le> bigDiv (x * rate_num a f t) (rate_num b t f) HalfUp" if "s0 \<le> x" for x
  proof -
    have "s0 * rate_num a f t \<le> x * rate_num a f t" using that pos by simp
    with le have "target * rate_num b t f \<le> x * rate_num a f t" by (rule order.trans)
    then have "bigDiv (target * rate_num b t f) (rate_num b t f) HalfUp \<le> bigDiv (x * rate_num a f t) (rate_num b t f) HalfUp"
      using ab(5) pos by (intro bigDiv_mono) simp_all
    then show ?thesis using half_up.exact [OF ab(5) pos(2)] by simp
  qed
  have ge: "s0 \<le> s" using s coverTarget_ge by simp
  have v: "v = bigDiv (s * rate_num a f t) (rate_num b t f) HalfUp" "v \<le> MAX_MINOR_AMOUNT" "s \<le> max_safe_integer"
    using assms(2) ab by (auto simp: convertMinor_rate)
  have "0 \<le> target * rate_num b t f" using ab(5) pos by simp
  then have s00: "0 \<le> s0" unfolding ab(6) using pos(1) by (rule bigDiv_nonneg)
  have "bigDiv (s0 * rate_num a f t) (rate_num b t f) HalfUp \<le> v"
    unfolding v(1) using ge s00 pos by (intro bigDiv_mono mult_right_mono mult_nonneg_nonneg) simp_all
  then have "convertMinor (JInt s0) f t num den HalfUp = Some (bigDiv (s0 * rate_num a f t) (rate_num b t f) HalfUp)"
    using ab(1-4) s00 ge v(2,3) unfolding convertMinor_rate by (intro exI [of _ a] exI [of _ b]) linarith
  then have "s = s0"
    unfolding s using reach [of s0] by (intro coverTarget_enough) (simp add: null0_def)
  with s0 reach [of s] v(1) show ?thesis by simp
qed

theorem sourceForTarget_covers_witness:
  "sourceForTarget 3041 (JStr ''USD'') (JStr ''JPY'') ''15213'' ''100'' = Some 1999 \<and>
   convertMinor (JInt 1999) (JStr ''USD'') (JStr ''JPY'') ''15213'' ''100'' HalfUp = Some 3041 \<and>
   (3041 :: int) \<le> 3041"
proof -
  have c: "convertMinor (JInt 3041) (JStr ''JPY'') (JStr ''USD'') ''100'' ''15213'' Up = Some 1999"
    and b: "convertMinor (JInt 1999) (JStr ''USD'') (JStr ''JPY'') ''15213'' ''100'' HalfUp = Some 3041"
    unfolding convertMinor_rate by (simp_all add: rate_eval)
  have a: "sourceForTarget 3041 (JStr ''USD'') (JStr ''JPY'') ''15213'' ''100'' = Some 1999"
    using b c by (simp add: sourceForTarget_def null0_def coverTarget_enough)
  from sourceForTarget_covers [OF a b] a b show ?thesis by simp
qed

subsection \<open>The fee inside a total\<close>

definition withFee :: "int \<Rightarrow> int \<Rightarrow> int" where
  "withFee spread base = base + bigDiv (base * spread) 10000 Up"

lemma withFee_bounds:
  assumes "0 \<le> b" "0 \<le> spread" "spread \<le> 10000"
  shows "b \<le> withFee spread b" "withFee spread b \<le> 2 * b"
proof -
  show "b \<le> withFee spread b" using assms by (simp add: withFee_def bigDiv_nonneg)
  have "b * spread \<le> b * 10000" using assms by (intro mult_left_mono)
  then have "bigDiv (b * spread) 10000 Up \<le> bigDiv (b * 10000) 10000 Up"
    using assms by (intro bigDiv_mono) auto
  then show "withFee spread b \<le> 2 * b" using up.exact [of b 10000] assms by (simp add: withFee_def)
qed

lemma withFee_strict:
  assumes "0 \<le> a" "a < b" "0 \<le> spread"
  shows "withFee spread a < withFee spread b"
proof -
  have "a * spread \<le> b * spread" using assms by (intro mult_right_mono) auto
  then have "bigDiv (a * spread) 10000 Up \<le> bigDiv (b * spread) 10000 Up"
    using assms by (intro bigDiv_mono) auto
  with assms show ?thesis by (simp add: withFee_def)
qed

lemma plusFee_int:
  assumes "0 \<le> b" "b \<le> 2 ^ 50" "0 \<le> spread" "spread \<le> 10000"
  shows "plusFee (of_int b) spread = of_int (withFee spread b)"
proof -
  have fee: "0 \<le> bigDiv (b * spread) 10000 Up" "bigDiv (b * spread) 10000 Up \<le> b"
    using withFee_bounds [of b spread] assms by (simp_all add: withFee_def bigDiv_nonneg)
  then have "number_of_bigint (bigDiv (b * spread) 10000 Up) = JInt (bigDiv (b * spread) 10000 Up)"
    using assms by (intro number_of_bigint_safe) (simp add: max_safe_integer_def)
  then have "bpsOf (JInt b) (JInt spread) Up = Some (JInt (bigDiv (b * spread) 10000 Up))"
    using assms by (simp add: bpsOf_def max_safe_integer_def)
  moreover have "rnd (of_int (withFee spread b)) = of_int (withFee spread b)"
    using withFee_bounds [of b spread] assms by (intro rnd_of_int_small) simp
  ultimately show ?thesis by (simp add: plusFee_def withFee_def)
qed

lemma rnd_step:
  "\<bar>b\<bar> \<le> 2 ^ 50 \<Longrightarrow> rnd (of_int b + 1) = of_int (b + 1)"
  "\<bar>b\<bar> \<le> 2 ^ 50 \<Longrightarrow> rnd (of_int b - 1) = of_int (b - 1)"
  using rnd_of_int_small [of "b + 1"] rnd_of_int_small [of "b - 1"] by simp_all

lemma raiseBase_finds:
  assumes "0 \<le> s" "s \<le> b" "b \<le> 2 ^ 50" "0 \<le> spread" "spread \<le> 10000"
  shows "raiseBase (withFee spread b) spread (of_int s) = Some (of_int b)"
  using assms
proof (induction "nat (b - s)" arbitrary: s)
  case 0
  then show ?case by (subst raiseBase.simps) (simp add: plusFee_int)
next
  case (Suc k)
  then have "s < b" by linarith
  with Suc have "raiseBase (withFee spread b) spread (of_int (s + 1)) = Some (of_int b)"
    by (intro Suc.hyps(1)) linarith+
  with Suc \<open>s < b\<close> show ?case
    by (subst raiseBase.simps) (simp add: plusFee_int withFee_strict rnd_step del: of_int_add)
qed

lemma raiseBase_stops:
  assumes "0 \<le> b" "b \<le> s" "s \<le> 2 ^ 50" "0 \<le> spread" "spread \<le> 10000"
  shows "raiseBase (withFee spread b) spread (of_int s) = Some (of_int s)"
proof -
  have "withFee spread b \<le> withFee spread s"
    using withFee_strict [of b s spread] assms by (cases "b = s") auto
  with assms show ?thesis by (subst raiseBase.simps) (simp add: plusFee_int)
qed

lemma lowerBase_finds:
  assumes "0 \<le> b" "b \<le> s" "s \<le> 2 ^ 50" "0 \<le> spread" "spread \<le> 10000"
  shows "lowerBase (withFee spread b) spread (of_int s) = Some (of_int b)"
  using assms
proof (induction "nat (s - b)" arbitrary: s)
  case 0
  then show ?case by (subst lowerBase.simps) (simp add: plusFee_int)
next
  case (Suc k)
  then have "b < s" by linarith
  with Suc have "lowerBase (withFee spread b) spread (of_int (s - 1)) = Some (of_int b)"
    by (intro Suc.hyps(1)) linarith+
  with Suc \<open>b < s\<close> show ?case
    by (subst lowerBase.simps) (simp add: plusFee_int withFee_strict rnd_step del: of_int_diff)
qed

lemma rnd_double:
  assumes "0 \<le> q"
  shows "rnd q \<le> 2 * q"
proof (cases "q = 0")
  case False
  with assms have q: "0 < q" by simp
  define u where "u = pow2 (rat_exp q - 52)"
  have "pow2 (rat_exp q) = u * 2 ^ 52"
    using pow2_add_nat [of "rat_exp q - 52" 52] by (simp add: u_def)
  moreover have u: "0 < u" by (simp add: u_def)
  moreover have "u * 1 \<le> u * 2 ^ 52" using u by (intro mult_left_mono) simp_all
  ultimately have uq: "u \<le> q" using rat_exp_bounds(1) [OF q] by simp
  have "of_int (round_half_even x) \<le> x + 1" for x
    by (auto simp: round_half_even_def Let_def intro: add_increasing2)
  then have "of_int (round_half_even (q / u)) * u \<le> (q / u + 1) * u"
    using u by (intro mult_right_mono) auto
  also have "\<dots> = q + u" using u by (simp add: field_simps)
  finally have "of_int (round_half_even (q / u)) * u \<le> 2 * q" using uq by simp
  moreover have "rnd q = of_int (round_half_even (q / u)) * u" using q by (simp add: rnd_def Let_def u_def)
  ultimately show ?thesis by simp
qed simp

text \<open>C40: the conversion fee is recovered exactly from the stored total: whatever the rounding of
  the floating-point start estimate, the two search loops of \<open>feeFromTotal\<close> terminate and return
  the fee that was added, for every base amount and every spread up to one hundred per cent whose
  total is a legal amount.\<close>

theorem feeFromTotal_recovers_fee:
  assumes "0 \<le> base" "0 \<le> spread" "spread \<le> 10000" "withFee spread base \<le> MAX_MINOR_AMOUNT"
  shows "feeFromTotal (withFee spread base) spread = Some (JInt (bigDiv (base * spread) 10000 Up))"
proof -
  define T where "T = withFee spread base"
  have T: "0 \<le> T" "base \<le> T" "T \<le> 10 ^ 12"
    using withFee_bounds [of base spread] assms by (auto simp: T_def MAX_MINOR_AMOUNT_def)
  define s where "s = \<lfloor>rnd (rnd (of_int T * 10000) / of_int (10000 + spread))\<rfloor>"
  have q: "0 \<le> rnd (of_int T * 10000) / of_int (10000 + spread)"
    using T assms by (intro divide_nonneg_nonneg rnd_nonneg) auto
  have "0 \<le> rnd (rnd (of_int T * 10000) / of_int (10000 + spread))" using q by (rule rnd_nonneg)
  then have s0: "0 \<le> s" by (simp add: s_def)
  have "rnd (of_int T * 10000) / of_int (10000 + spread) \<le> rnd (of_int T * 10000) / 10000"
    using T assms by (intro divide_left_mono rnd_nonneg) auto
  also have "\<dots> \<le> 2 * of_int T" using rnd_double [of "of_int T * 10000"] T by simp
  finally have "rnd (rnd (of_int T * 10000) / of_int (10000 + spread)) \<le> 2 * (2 * of_int T)"
    using rnd_double [OF q] by simp
  then have "s \<le> 4 * T" unfolding s_def by (simp add: floor_le_iff)
  then have s: "s \<le> 2 ^ 50" using T by simp
  have b: "base \<le> 2 ^ 50" using T by simp
  have tT: "rnd (of_int T) = of_int T" using T by (intro rnd_of_int_small) simp
  have "\<exists>m. raiseBase T spread (of_int s) = Some (of_int m) \<and> base \<le> m \<and> m \<le> 2 ^ 50"
    using raiseBase_finds [of s base spread] raiseBase_stops [of base s spread] s0 s b assms
    by (cases "s \<le> base") (force simp: T_def)+
  then obtain m where m: "raiseBase T spread (of_int s) = Some (of_int m)" "base \<le> m" "m \<le> 2 ^ 50" by blast
  have "lowerBase T spread (of_int m) = Some (of_int base)"
    unfolding T_def using m assms by (intro lowerBase_finds) auto
  moreover have "rnd (of_int T - of_int base) = of_int (T - base)"
    using rnd_of_int_small [of "T - base"] T assms by simp
  moreover have "10000 + spread \<noteq> 0" using assms by simp
  ultimately have "feeFromTotal T spread = Some (JInt (T - base))"
    using m(1) unfolding feeFromTotal_def Let_def tT s_def by simp
  then show ?thesis by (simp add: T_def withFee_def)
qed

theorem feeFromTotal_recovers_fee_witness:
  "withFee 100 1999 = 2019 \<and> feeFromTotal (withFee 100 1999) 100 = Some (JInt (bigDiv (1999 * 100) 10000 Up))"
proof
  show w: "withFee 100 1999 = 2019" by (simp add: withFee_def bigDiv_def)
  show "feeFromTotal (withFee 100 1999) 100 = Some (JInt (bigDiv (1999 * 100) 10000 Up))"
    by (rule feeFromTotal_recovers_fee) (simp_all add: w MAX_MINOR_AMOUNT_def)
qed

subsection \<open>The rate for minor units\<close>

lemma bigint_of_digits:
  assumes "list_all is_digit s" "s \<noteq> []"
  shows "bigint_of_string s = Some (int (read_nat s))"
proof -
  have "js_trim s = s" using assms(1) by (intro js_trim_id) (auto simp: list_all_iff digit_plain)
  moreover obtain c r where s: "s = c # r" using assms(2) by (cases s) auto
  have dc: "is_digit c" using assms(1) s by simp
  have "c \<noteq> CHR ''-''" "c \<noteq> CHR ''+''" using dc by (auto simp: is_digit_def)
  moreover have "r \<noteq> [] \<Longrightarrow> is_digit (hd r)" using assms(1) s by (cases r) auto
  then have "r \<noteq> [] \<Longrightarrow> hd r \<notin> {CHR ''x'', CHR ''X'', CHR ''o'', CHR ''O'', CHR ''b'', CHR ''B''}"
    by (auto simp: is_digit_def)
  moreover have ten: "radix_val d < 10" "radix_val d = digit_val d" if "d \<in> set s" for d
    using assms(1) that by (auto simp: radix_val_def digit_val_def is_digit_def list_all_iff Let_def)
  have "foldl (\<lambda>a c. a * 10 + radix_val c) 0 s = read_nat s"
    unfolding read_nat_def using ten(2) by (intro foldl_cong) simp_all
  then have "read_radix 10 s = Some (int (read_nat s))"
    using assms(2) ten(1) by (simp add: read_radix_def list_all_iff)
  ultimately show ?thesis by (auto simp: bigint_of_string_def s)
qed

lemma bigint_show_int: "0 \<le> k \<Longrightarrow> bigint_of_string (show_int k) = Some k"
  using show_nat_digits [of "nat k"] by (simp add: show_int_def bigint_of_digits)

text \<open>The scaled rate handed to the conversion service is the rate of the quote: multiplying by
  \<open>minorRate\<close>'s numerator and dividing once by its denominator, with no knowledge of the two
  currencies, gives the very amount \<open>convertMinor\<close> computes in major-unit terms.\<close>

theorem minorRate_agrees:
  assumes "convertMinor (JInt m) f t num den mode = Some v"
  shows "\<exists>x y a b. minorRate f t num den = Inr (x, y) \<and> bigint_of_string x = Some a \<and>
           bigint_of_string y = Some b \<and> v = bigDiv (m * a) b mode"
proof -
  obtain a b where ab: "bigint_of_string num = Some a" "bigint_of_string den = Some b" "0 < a" "0 < b"
      "v = bigDiv (m * rate_num a f t) (rate_num b t f) mode"
    using assms by (auto simp: convertMinor_rate)
  have e: "nat (int x - int y) = x - y" "nat (- (int x - int y)) = y - x" for x y by arith+
  have "minorRate f t num den = Inr (show_int (rate_num a f t), show_int (rate_num b t f))"
    using e by (simp add: minorRate_def ab rate_num_def Let_def)
  with ab show ?thesis
    using bigint_show_int rate_num_pos [of a f t] rate_num_pos [of b t f] by fastforce
qed

theorem minorRate_agrees_witness:
  "convertMinor (JInt 1999) (JStr ''USD'') (JStr ''JPY'') ''15213'' ''100'' HalfUp = Some 3041 \<and>
   (\<exists>x y a b. minorRate (JStr ''USD'') (JStr ''JPY'') ''15213'' ''100'' = Inr (x, y) \<and>
      bigint_of_string x = Some a \<and> bigint_of_string y = Some b \<and> (3041 :: int) = bigDiv (1999 * a) b HalfUp)"
proof -
  have a: "convertMinor (JInt 1999) (JStr ''USD'') (JStr ''JPY'') ''15213'' ''100'' HalfUp = Some 3041"
    unfolding convertMinor_rate by (simp add: rate_eval)
  from minorRate_agrees [OF a] a show ?thesis by simp
qed

end
