(* ===== verification/LogisticsMachine.thy ===== *)
theory LogisticsMachine
  imports Prelude
begin

text \<open>
  \<open>services/logisticsStateMachine.js\<close>: the transition tables of the logistics lifecycle, the
  transactional \<open>applyTransition\<close> with its guards and column allowlist, role capabilities, and the
  advisory list of actions. States, entity types and columns are the code's strings. An object used
  as a table is its list of own properties; the names every object inherits (\<open>constructor\<close>,
  \<open>toString\<close>, ...) are no table's key here, and the code never looks them up.
\<close>

section \<open>Transition tables\<close>

type_synonym transitions = "(string \<times> string list) list"

definition PO_TRANSITIONS :: transitions where
  "PO_TRANSITIONS =
    [(''draft'', [''quoted'', ''cancelled'']),
     (''quoted'', [''approved'', ''cancelled'', ''draft'']),
     (''approved'', [''awaiting_deposit'', ''cancelled'']),
     (''awaiting_deposit'', [''deposit_collected'', ''cancelled'']),
     (''deposit_collected'', [''placed_with_supplier'', ''cancelled'']),
     (''placed_with_supplier'', [''in_production'', ''cancelled'']),
     (''in_production'', [''production_complete'', ''cancelled'']),
     (''production_complete'', [''ready_for_pickup'']),
     (''ready_for_pickup'', [''in_transit'']),
     (''in_transit'', [''customs_review'', ''warehoused'']),
     (''customs_review'', [''cleared'', ''in_transit'']),
     (''cleared'', [''warehoused'']),
     (''warehoused'', [''allocated'']),
     (''allocated'', [''fulfilled'']),
     (''fulfilled'', [''closed'']),
     (''closed'', []),
     (''cancelled'', [])]"

definition SHIPMENT_TRANSITIONS :: transitions where
  "SHIPMENT_TRANSITIONS =
    [(''planned'', [''booked'', ''exception'']),
     (''booked'', [''origin_received'', ''exception'']),
     (''origin_received'', [''consolidating'', ''departed_origin'', ''exception'']),
     (''consolidating'', [''departed_origin'', ''exception'']),
     (''departed_origin'', [''transshipment'', ''arrived_destination'', ''exception'']),
     (''transshipment'', [''arrived_destination'', ''exception'']),
     (''arrived_destination'', [''customs_hold'', ''customs_cleared'', ''exception'']),
     (''customs_hold'', [''customs_cleared'', ''exception'']),
     (''customs_cleared'', [''delivered_to_warehouse'', ''exception'']),
     (''delivered_to_warehouse'', [''receiving'', ''exception'']),
     (''receiving'', [''allocation_ready'', ''exception'']),
     (''allocation_ready'', [''distributed'', ''exception'']),
     (''distributed'', [''completed'', ''exception'']),
     (''completed'', []),
     (''exception'', [''planned'', ''booked'', ''departed_origin'', ''arrived_destination'', ''customs_cleared'', ''completed''])]"

definition POOLED_TRANSITIONS :: transitions where
  "POOLED_TRANSITIONS =
    [(''draft'', [''open'', ''cancelled'']),
     (''open'', [''pledging'', ''cancelled'']),
     (''pledging'', [''deposit_phase'', ''cancelled'', ''open'']),
     (''deposit_phase'', [''locked'', ''cancelled'', ''refunding'']),
     (''locked'', [''placed'', ''refunding'']),
     (''placed'', [''in_transit'', ''refunding'']),
     (''in_transit'', [''receiving'', ''refunding'']),
     (''receiving'', [''distributing'', ''refunding'']),
     (''distributing'', [''completed'', ''refunding'']),
     (''completed'', []),
     (''cancelled'', [''refunding'']),
     (''refunding'', [''cancelled'', ''completed''])]"

definition APPROVAL_TRANSITIONS :: transitions where
  "APPROVAL_TRANSITIONS =
    [(''draft'', [''pending_review'']),
     (''pending_review'', [''approved'', ''revisions_requested'', ''rejected'', ''draft'']),
     (''revisions_requested'', [''pending_review'', ''draft'']),
     (''approved'', [''pending_review'']),
     (''rejected'', [''draft''])]"

definition PARTICIPANT_TRANSITIONS :: transitions where
  "PARTICIPANT_TRANSITIONS =
    [(''invited'', [''pledged'', ''refunded'']),
     (''pledged'', [''deposit_paid'', ''refunded'']),
     (''deposit_paid'', [''confirmed'', ''refunded'', ''disputed'']),
     (''confirmed'', [''locked'', ''refunded'', ''disputed'']),
     (''locked'', [''final_paid'', ''refunded'', ''disputed'']),
     (''final_paid'', [''fulfilled'', ''refunded'', ''disputed'']),
     (''fulfilled'', [''disputed'']),
     (''refunded'', []),
     (''disputed'', [''refunded'', ''fulfilled''])]"

definition RECEIPT_TRANSITIONS :: transitions where
  "RECEIPT_TRANSITIONS =
    [(''expected'', [''receiving'', ''discrepancy'', ''closed'']),
     (''receiving'', [''reconciled'', ''discrepancy'']),
     (''reconciled'', [''closed'']),
     (''discrepancy'', [''reconciled'', ''closed'']),
     (''closed'', [])]"

definition DELIVERY_TRANSITIONS :: transitions where
  "DELIVERY_TRANSITIONS =
    [(''pending'', [''assigned'', ''cancelled'']),
     (''assigned'', [''in_transit'', ''cancelled'']),
     (''in_transit'', [''delivered'', ''failed'']),
     (''delivered'', []),
     (''failed'', [''pending'', ''cancelled'']),
     (''cancelled'', [])]"

definition ALLOCATION_TRANSITIONS :: transitions where
  "ALLOCATION_TRANSITIONS =
    [(''pending'', [''ready'', ''released'', ''disputed'']),
     (''ready'', [''released'', ''disputed'']),
     (''released'', [''delivered'', ''disputed'']),
     (''delivered'', []),
     (''disputed'', [''pending'', ''ready''])]"

definition SOURCING_TRANSITIONS :: transitions where
  "SOURCING_TRANSITIONS =
    [(''draft'', [''open'', ''cancelled'']),
     (''open'', [''quoting'', ''cancelled'']),
     (''quoting'', [''quoted'', ''open'', ''cancelled'']),
     (''quoted'', [''converting'', ''quoting'', ''cancelled'']),
     (''converting'', [''direct_order'', ''pooled'', ''procurement'', ''private_label'', ''quoted'', ''cancelled'']),
     (''direct_order'', [''closed'']),
     (''pooled'', [''closed'']),
     (''procurement'', [''closed'']),
     (''private_label'', [''closed'']),
     (''cancelled'', []),
     (''closed'', [])]"

definition QUOTE_TRANSITIONS :: transitions where
  "QUOTE_TRANSITIONS =
    [(''submitted'', [''under_review'', ''accepted'', ''rejected'', ''expired'']),
     (''under_review'', [''accepted'', ''rejected'', ''expired'']),
     (''accepted'', []),
     (''rejected'', []),
     (''expired'', [])]"

section \<open>Machines\<close>

definition canTransition :: "transitions \<Rightarrow> string \<Rightarrow> string \<Rightarrow> bool" where
  "canTransition m from to =
     (if from = to then True
      else case map_of m from of None \<Rightarrow> False | Some allowed \<Rightarrow> to \<in> set allowed)"

definition assertTransition :: "transitions \<Rightarrow> string \<Rightarrow> string \<Rightarrow> unit res" where
  "assertTransition m from to =
     (if \<not> canTransition m from to then Inl (AppError 409 ''illegal_state_transition'') else Inr ())"

definition allowedFrom :: "transitions \<Rightarrow> string \<Rightarrow> string list" where
  "allowedFrom m from = (case map_of m from of None \<Rightarrow> [] | Some allowed \<Rightarrow> allowed)"

definition states :: "transitions \<Rightarrow> string list" where
  "states m = map fst m"

record entity =
  e_machine :: transitions
  e_table :: string
  e_column :: string

definition ENTITIES :: "(string \<times> entity) list" where
  "ENTITIES =
    [(''purchase_order'', \<lparr>e_machine = PO_TRANSITIONS, e_table = ''purchase_orders'', e_column = ''status''\<rparr>),
     (''shipment'', \<lparr>e_machine = SHIPMENT_TRANSITIONS, e_table = ''shipment_records'', e_column = ''status''\<rparr>),
     (''pooled_order'', \<lparr>e_machine = POOLED_TRANSITIONS, e_table = ''pooled_orders'', e_column = ''status''\<rparr>),
     (''campaign_approval'', \<lparr>e_machine = APPROVAL_TRANSITIONS, e_table = ''pooled_orders'', e_column = ''approval_state''\<rparr>),
     (''participant'', \<lparr>e_machine = PARTICIPANT_TRANSITIONS, e_table = ''pooled_order_participants'', e_column = ''status''\<rparr>),
     (''inventory_receipt'', \<lparr>e_machine = RECEIPT_TRANSITIONS, e_table = ''inventory_receipts'', e_column = ''status''\<rparr>),
     (''delivery_order'', \<lparr>e_machine = DELIVERY_TRANSITIONS, e_table = ''delivery_orders'', e_column = ''status''\<rparr>),
     (''inventory_allocation'', \<lparr>e_machine = ALLOCATION_TRANSITIONS, e_table = ''inventory_allocations'', e_column = ''status''\<rparr>),
     (''sourcing_request'', \<lparr>e_machine = SOURCING_TRANSITIONS, e_table = ''sourcing_requests'', e_column = ''status''\<rparr>),
     (''supplier_quote'', \<lparr>e_machine = QUOTE_TRANSITIONS, e_table = ''supplier_quotes'', e_column = ''status''\<rparr>)]"

definition machineFor :: "string \<Rightarrow> transitions option" where
  "machineFor entityType = map_option e_machine (map_of ENTITIES entityType)"

section \<open>Rows\<close>

text \<open>A column value, a row, and a database: the rows of each table in their stored order.\<close>

datatype sqlval = SNull | SText string | SInt int | STime int | SBool bool | SJson "(string \<times> sqlval) list"

type_synonym row = "string \<Rightarrow> sqlval"
type_synonym rows = "string \<Rightarrow> row list"

text \<open>What the driver's value is as a string: every status column is an enum or TEXT column.\<close>

fun status_text :: "sqlval \<Rightarrow> string option" where
  "status_text (SText s) = Some s"
| "status_text (SInt n) = Some (show_int n)"
| "status_text _ = None"

section \<open>Guards\<close>

record blocker =
  bl_code :: string
  bl_details :: "(string \<times> sqlval) list"

record guard_ctx =
  ctx_id :: int
  ctx_from :: string
  ctx_to :: string

text \<open>A guard reads the database of the running transaction; \<open>Inl\<close> is a thrown error.\<close>

type_synonym guard = "rows \<Rightarrow> guard_ctx \<Rightarrow> blocker option res"
type_synonym guards = "(string \<times> guard) list"

definition guardKey :: "string \<Rightarrow> string \<Rightarrow> string" where
  "guardKey entityType to = entityType @ '':'' @ to"

definition registerTransitionGuard :: "guards \<Rightarrow> string \<Rightarrow> string \<Rightarrow> guard \<Rightarrow> guards res" where
  "registerTransitionGuard gs entityType to g =
     (if entityType = [] \<or> to = [] then Inl (JsError ''guard target'')
      else Inr ((guardKey entityType to, g) # gs))"

definition getTransitionGuard :: "guards \<Rightarrow> string \<Rightarrow> string \<Rightarrow> guard option" where
  "getTransitionGuard gs entityType to = map_of gs (guardKey entityType to)"

section \<open>Columns\<close>

definition TRANSITION_COLUMN_ALLOWLIST :: "(string \<times> string list) list" where
  "TRANSITION_COLUMN_ALLOWLIST =
    [(''purchase_order'', [''approved_by'', ''approved_at'', ''placed_with_supplier_at'', ''internal_notes'']),
     (''shipment'', []),
     (''pooled_order'', [''deposit_deadline'']),
     (''campaign_approval'', []),
     (''participant'', []),
     (''inventory_receipt'', [''received_qty'', ''shortage_qty'', ''damaged_qty'', ''storage_location'', ''received_by'', ''discrepancy_notes'', ''received_at'', ''reconciled_at'']),
     (''delivery_order'', [''carrier'', ''tracking_number'', ''assigned_to'', ''delivered_at'', ''delivery_notes'']),
     (''inventory_allocation'', [''released_by'', ''released_at'']),
     (''sourcing_request'', [''internal_notes'']),
     (''supplier_quote'', [''reviewed_by'', ''reviewed_at'', ''notes''])]"

definition ident_start :: "char \<Rightarrow> bool" where
  "ident_start c = (let n = of_char c :: nat in
     65 \<le> n \<and> n \<le> 90 \<or> 97 \<le> n \<and> n \<le> 122 \<or> n = 95)"

definition is_identifier :: "string \<Rightarrow> bool" where
  "is_identifier s =
     (case s of [] \<Rightarrow> False | c # cs \<Rightarrow> ident_start c \<and> list_all (\<lambda>d. ident_start d \<or> is_digit d) cs)"

definition allowed_columns :: "string \<Rightarrow> string list" where
  "allowed_columns entityType = (case map_of TRANSITION_COLUMN_ALLOWLIST entityType of None \<Rightarrow> [] | Some cs \<Rightarrow> cs)"

definition assertTransitionColumn :: "string \<Rightarrow> string \<Rightarrow> unit res" where
  "assertTransitionColumn entityType column =
     (if \<not> is_identifier column \<or> column \<notin> set (allowed_columns entityType)
      then Inl (JsError ''rejected column'') else Inr ())"

section \<open>Applying a transition\<close>

record request =
  rentity :: string
  rid :: int
  rto :: "string option"              \<comment> \<open>\<open>undefined\<close> and \<open>null\<close> are \<open>None\<close>\<close>
  rset :: "(string \<times> sqlval) list"
  nowColumns :: "string list"
  appendNotes :: "(string \<times> string) option"
  idColumn :: string

datatype outcome =
    Applied row string string
  | Unknown_entity_type
  | Missing_target_status
  | Not_found
  | Illegal_transition string string "string list"
  | Guard_blocked string string blocker

text \<open>The columns a request names, in the order the code checks them.\<close>

definition request_columns :: "request \<Rightarrow> string list" where
  "request_columns q =
     map fst (rset q) @ nowColumns q @ (case appendNotes q of None \<Rightarrow> [] | Some (c, _) \<Rightarrow> [c])"

definition assertRequest :: "request \<Rightarrow> unit res" where
  "assertRequest q =
     (if list_all (\<lambda>c. assertTransitionColumn (rentity q) c = Inr ()) (request_columns q)
      then if idColumn q \<noteq> ''id'' then Inl (JsError ''rejected idColumn'') else Inr ()
      else Inl (JsError ''rejected column''))"

text \<open>\<open>COALESCE(column, '') || text\<close>.\<close>

definition append_text :: "sqlval \<Rightarrow> string \<Rightarrow> sqlval" where
  "append_text v t = SText ((case v of SText s \<Rightarrow> s | _ \<Rightarrow> []) @ t)"

text \<open>The SET list evaluated on the old row. PostgreSQL rejects a column assigned twice.\<close>

definition updated_row :: "string \<Rightarrow> string \<Rightarrow> request \<Rightarrow> int \<Rightarrow> row \<Rightarrow> row" where
  "updated_row statusCol to q now r =
     (let r1 = r(statusCol := SText to);
          r2 = foldl (\<lambda>s (c, v). s(c := v)) r1 (rset q);
          r3 = foldl (\<lambda>s c. s(c := STime now)) r2 (nowColumns q) in
      case appendNotes q of None \<Rightarrow> r3 | Some (c, t) \<Rightarrow> r3(c := append_text (r c) t))"

definition set_columns :: "string \<Rightarrow> request \<Rightarrow> string list" where
  "set_columns statusCol q = statusCol # request_columns q"

text \<open>
  The BEFORE UPDATE triggers of these tables: \<open>logistics_touch_updated_at\<close> of migration 247 on each of them, and on
  \<open>purchase_orders\<close> the guard of migration 605, which encodes the graph of the purchase orders a second time and
  raises on any other change of the status.
\<close>

definition touched_tables :: "string list" where
  "touched_tables =
    [''logistics_lanes'', ''supplier_profiles'', ''supplier_products'', ''sourcing_requests'', ''supplier_quotes'', ''markup_rules'', ''fee_rules'',
     ''pooled_orders'', ''pooled_order_participants'', ''purchase_orders'', ''shipment_records'', ''warehouses'', ''inventory_receipts'',
     ''inventory_allocations'', ''delivery_orders'', ''logistics_claims'', ''logistics_refund_cases'', ''country_access_rules'']"

definition logistics_touch_updated_at :: "string \<Rightarrow> int \<Rightarrow> row \<Rightarrow> row" where
  "logistics_touch_updated_at t now r = (if t \<in> set touched_tables then r(''updated_at'' := STime now) else r)"

definition trigger_graph :: "(string \<times> string list) list" where
  "trigger_graph =
    [(''draft'', [''quoted'', ''cancelled'']),
     (''quoted'', [''approved'', ''cancelled'', ''draft'']),
     (''approved'', [''awaiting_deposit'', ''cancelled'']),
     (''awaiting_deposit'', [''deposit_collected'', ''cancelled'']),
     (''deposit_collected'', [''placed_with_supplier'', ''cancelled'']),
     (''placed_with_supplier'', [''in_production'', ''cancelled'']),
     (''in_production'', [''production_complete'', ''cancelled'']),
     (''production_complete'', [''ready_for_pickup'']),
     (''ready_for_pickup'', [''in_transit'']),
     (''in_transit'', [''customs_review'', ''warehoused'']),
     (''customs_review'', [''cleared'', ''in_transit'']),
     (''cleared'', [''warehoused'']),
     (''warehoused'', [''allocated'']),
     (''allocated'', [''fulfilled'']),
     (''fulfilled'', [''closed'']),
     (''closed'', []),
     (''cancelled'', [])]"

definition enforce_purchase_order_state_integrity :: "string \<Rightarrow> row \<Rightarrow> row \<Rightarrow> bool" where
  "enforce_purchase_order_state_integrity t old new =
     (t \<noteq> ''purchase_orders'' \<or> old ''status'' = new ''status'' \<or>
      (case Option.bind (status_text (old ''status'')) (map_of trigger_graph) of
         None \<Rightarrow> True
       | Some allowed \<Rightarrow> (case status_text (new ''status'') of None \<Rightarrow> False | Some s \<Rightarrow> s \<in> set allowed)))"

definition stored_row :: "entity \<Rightarrow> string \<Rightarrow> request \<Rightarrow> int \<Rightarrow> row \<Rightarrow> row" where
  "stored_row entity to q now r =
     logistics_touch_updated_at (e_table entity) now (updated_row (e_column entity) to q now r)"

text \<open>
  \<open>applyTransition\<close>. \<open>accepts\<close> stands for the table's constraints (an UPDATE they refuse throws),
  \<open>now\<close> for the transaction time. Every path that does not commit leaves the database as it was.
\<close>

definition applyTransition ::
  "guards \<Rightarrow> (string \<Rightarrow> row \<Rightarrow> bool) \<Rightarrow> int \<Rightarrow> request \<Rightarrow> (rows, outcome) tx" where
  "applyTransition gs accepts now q = (\<lambda>db.
     case map_of ENTITIES (rentity q) of
       None \<Rightarrow> (Inr Unknown_entity_type, db)
     | Some entity \<Rightarrow>
         case rto q of None \<Rightarrow> (Inr Missing_target_status, db)
         | Some to \<Rightarrow>
             if to = [] then (Inr Missing_target_status, db)
             else case assertRequest q of Inl e \<Rightarrow> (Inl e, db)
             | Inr _ \<Rightarrow>
                 let byId = (\<lambda>r. r (idColumn q) = SInt (rid q)) in
                 case Option.bind (find byId (db (e_table entity))) (\<lambda>r. status_text (r (e_column entity))) of
                   None \<Rightarrow> (Inr Not_found, db)
                 | Some from \<Rightarrow>
                     if from \<noteq> to \<and> \<not> canTransition (e_machine entity) from to
                     then (Inr (Illegal_transition from to (allowedFrom (e_machine entity) from)), db)
                     else
                       let verdict = (case getTransitionGuard gs (rentity q) to of
                             None \<Rightarrow> Inr None
                           | Some g \<Rightarrow> if from = to then Inr None
                                       else g db \<lparr>ctx_id = rid q, ctx_from = from, ctx_to = to\<rparr>) in
                       case verdict of
                         Inl e \<Rightarrow> (Inl e, db)
                       | Inr (Some b) \<Rightarrow> (Inr (Guard_blocked from to b), db)
                       | Inr None \<Rightarrow>
                           let new = stored_row entity to q now;
                               after = upd_where byId new (db (e_table entity)) in
                           if \<not> distinct (set_columns (e_column entity) q) then (Inl (PgError ''42601''), db)
                           else if \<not> list_all (\<lambda>r. byId r \<longrightarrow> enforce_purchase_order_state_integrity (e_table entity) r (new r))
                                     (db (e_table entity)) then (Inl (PgError ''23514''), db)
                           else if \<not> list_all (accepts (e_table entity)) after then (Inl (PgError ''23514''), db)
                           else case find byId after of
                                  None \<Rightarrow> (Inl (JsError ''no row''), db)
                                | Some record \<Rightarrow> (Inr (Applied record from to), db(e_table entity := after)))"

section \<open>Roles and capabilities\<close>

definition ROLE_GROUPS :: "(string \<times> string list) list" where
  "ROLE_GROUPS =
    [(''buyers'', [''individual_buyer'', ''business_buyer'']),
     (''organizers'', [''organizer'']),
     (''business_members'', [''business_buyer'']),
     (''distributors'', [''reseller'', ''franchise_buyer'']),
     (''operations'', [''sourcing_operator'', ''logistics_coordinator'', ''warehouse_operator'']),
     (''compliance'', [''compliance_reviewer'']),
     (''admins'', [''admin'', ''super_admin''])]"

definition group_roles :: "string \<Rightarrow> string list" where
  "group_roles g = (case map_of ROLE_GROUPS g of None \<Rightarrow> [] | Some rs \<Rightarrow> rs)"

text \<open>A missing role is \<open>None\<close> or the empty string.\<close>

definition roleInGroups :: "string option \<Rightarrow> string list \<Rightarrow> bool" where
  "roleInGroups role groups =
     (case role of None \<Rightarrow> False
      | Some r \<Rightarrow> if r = [] then False else list_ex (\<lambda>g. r \<in> set (group_roles g)) groups)"

record capabilities =
  cap_role :: "string option"
  cap_isAdmin :: bool
  cap_flags :: "(string \<times> bool) list"    \<comment> \<open>by dotted path\<close>

definition isAdminRole :: "string option \<Rightarrow> bool" where
  "isAdminRole role = (role = Some ''admin'' \<or> role = Some ''super_admin'')"

definition inRoles :: "bool \<Rightarrow> string option \<Rightarrow> string list \<Rightarrow> bool" where
  "inRoles authed role roles =
     (authed \<and> (isAdminRole role \<or> (case role of None \<Rightarrow> False | Some r \<Rightarrow> r \<in> set roles)))"

definition inGroups :: "bool \<Rightarrow> string option \<Rightarrow> string list \<Rightarrow> bool" where
  "inGroups authed role groups = (authed \<and> (isAdminRole role \<or> roleInGroups role groups))"

definition resolveCapabilities :: "bool \<Rightarrow> string option \<Rightarrow> capabilities" where
  "resolveCapabilities authed logisticsRole =
     (let role = (if logisticsRole = Some [] then None else logisticsRole);
          ops = inRoles authed role; groups = inGroups authed role;
          sourcing = ops [''sourcing_operator'', ''logistics_coordinator''];
          floor = ops [''sourcing_operator'', ''logistics_coordinator'', ''warehouse_operator''] in
      \<lparr>cap_role = role, cap_isAdmin = isAdminRole role,
       cap_flags =
         [(''campaigns.browse'', True),
          (''campaigns.create'', authed),
          (''campaigns.join'', groups [''buyers'', ''organizers'', ''distributors'', ''operations'']),
          (''campaigns.submit'', groups [''organizers'', ''operations'']),
          (''campaigns.update'', groups [''organizers'', ''operations'']),
          (''campaigns.review'', sourcing),
          (''campaigns.approve'', sourcing),
          (''requests.create'', authed),
          (''requests.view'', authed),
          (''requests.manage'', sourcing),
          (''orders.view'', authed),
          (''orders.create'', sourcing),
          (''orders.transition'', sourcing),
          (''shipments.view'', authed),
          (''shipments.create'', floor),
          (''shipments.milestones'', floor),
          (''shipments.manage'', floor),
          (''warehouse.view'', authed),
          (''warehouse.manage'', ops [''warehouse_operator'', ''logistics_coordinator'']),
          (''compliance.view'', authed),
          (''compliance.review'', groups [''compliance'']),
          (''finance.schedule'', authed),
          (''finance.profitability'', sourcing),
          (''admin.manage'', isAdminRole role)]\<rparr>)"

text \<open>The value at a dotted path that names a flag; any other path gives a value that is no flag.\<close>

definition getCapability :: "capabilities \<Rightarrow> string \<Rightarrow> bool option" where
  "getCapability caps path = map_of (cap_flags caps) path"

section \<open>Available actions\<close>

datatype action_meta = Action_meta (aid: string) (agroups: "string list") (ownerOnly: bool)

definition staff :: "string list" where
  "staff = [''operations'', ''admins'']"

definition purchase_order_actions :: "(string \<times> action_meta) list" where
  "purchase_order_actions =
    [(''quoted'', Action_meta ''request_quote'' staff False),
     (''approved'', Action_meta ''approve_order'' staff False),
     (''awaiting_deposit'', Action_meta ''open_deposit_window'' staff False),
     (''deposit_collected'', Action_meta ''record_deposit'' staff False),
     (''placed_with_supplier'', Action_meta ''place_with_supplier'' staff False),
     (''in_production'', Action_meta ''mark_in_production'' staff False),
     (''production_complete'', Action_meta ''mark_production_done'' staff False),
     (''ready_for_pickup'', Action_meta ''mark_ready_for_pickup'' staff False),
     (''in_transit'', Action_meta ''dispatch'' staff False),
     (''customs_review'', Action_meta ''send_to_customs'' staff False),
     (''cleared'', Action_meta ''mark_customs_cleared'' staff False),
     (''warehoused'', Action_meta ''mark_warehoused'' staff False),
     (''allocated'', Action_meta ''allocate_inventory'' staff False),
     (''fulfilled'', Action_meta ''mark_fulfilled'' staff False),
     (''closed'', Action_meta ''close_order'' staff False),
     (''cancelled'', Action_meta ''cancel_order'' staff False),
     (''draft'', Action_meta ''return_to_draft'' staff False)]"

definition shipment_actions :: "(string \<times> action_meta) list" where
  "shipment_actions =
    [(''booked'', Action_meta ''book_shipment'' staff False),
     (''origin_received'', Action_meta ''receive_at_origin'' staff False),
     (''consolidating'', Action_meta ''start_consolidation'' staff False),
     (''departed_origin'', Action_meta ''mark_departed'' staff False),
     (''transshipment'', Action_meta ''mark_transshipment'' staff False),
     (''arrived_destination'', Action_meta ''mark_arrived'' staff False),
     (''customs_hold'', Action_meta ''hold_for_customs'' staff False),
     (''customs_cleared'', Action_meta ''mark_customs_cleared'' staff False),
     (''delivered_to_warehouse'', Action_meta ''deliver_to_warehouse'' staff False),
     (''receiving'', Action_meta ''start_receiving'' staff False),
     (''allocation_ready'', Action_meta ''mark_allocation_ready'' staff False),
     (''distributed'', Action_meta ''mark_distributed'' staff False),
     (''completed'', Action_meta ''complete_shipment'' staff False),
     (''exception'', Action_meta ''flag_exception'' staff False),
     (''planned'', Action_meta ''recover_to_planned'' staff False)]"

definition pooled_order_actions :: "(string \<times> action_meta) list" where
  "pooled_order_actions =
    [(''open'', Action_meta ''reopen_pledging'' staff False),
     (''pledging'', Action_meta ''begin_pledging'' staff False),
     (''deposit_phase'', Action_meta ''open_deposit_window'' staff False),
     (''locked'', Action_meta ''lock_campaign'' staff False),
     (''placed'', Action_meta ''place_supplier_orders'' staff False),
     (''in_transit'', Action_meta ''mark_in_transit'' staff False),
     (''receiving'', Action_meta ''start_receiving'' staff False),
     (''distributing'', Action_meta ''start_distribution'' staff False),
     (''completed'', Action_meta ''complete_campaign'' staff False),
     (''cancelled'', Action_meta ''cancel_campaign'' [''organizers'', ''operations'', ''admins''] True),
     (''refunding'', Action_meta ''open_refunds'' staff False)]"

definition campaign_approval_actions :: "(string \<times> action_meta) list" where
  "campaign_approval_actions =
    [(''pending_review'', Action_meta ''submit_for_review'' [''organizers'', ''operations'', ''admins''] True),
     (''approved'', Action_meta ''approve_campaign'' staff False),
     (''revisions_requested'', Action_meta ''request_revisions'' staff False),
     (''rejected'', Action_meta ''reject_campaign'' staff False),
     (''draft'', Action_meta ''return_to_draft'' [''organizers'', ''operations'', ''admins''] True)]"

definition participant_actions :: "(string \<times> action_meta) list" where
  "participant_actions =
    [(''pledged'', Action_meta ''record_pledge'' staff False),
     (''deposit_paid'', Action_meta ''record_deposit_paid'' staff False),
     (''confirmed'', Action_meta ''confirm_participant'' staff False),
     (''locked'', Action_meta ''lock_participant'' staff False),
     (''final_paid'', Action_meta ''record_final_paid'' staff False),
     (''fulfilled'', Action_meta ''fulfill_participant'' staff False),
     (''refunded'', Action_meta ''refund_participant'' staff False),
     (''disputed'', Action_meta ''flag_dispute'' staff False)]"

definition inventory_receipt_actions :: "(string \<times> action_meta) list" where
  "inventory_receipt_actions =
    [(''receiving'', Action_meta ''start_receiving'' staff False),
     (''reconciled'', Action_meta ''reconcile_receipt'' staff False),
     (''discrepancy'', Action_meta ''flag_discrepancy'' staff False),
     (''closed'', Action_meta ''close_receipt'' staff False)]"

definition delivery_order_actions :: "(string \<times> action_meta) list" where
  "delivery_order_actions =
    [(''assigned'', Action_meta ''assign_delivery'' staff False),
     (''in_transit'', Action_meta ''dispatch_delivery'' staff False),
     (''delivered'', Action_meta ''mark_delivered'' staff False),
     (''failed'', Action_meta ''flag_failed'' staff False),
     (''pending'', Action_meta ''retry_delivery'' staff False),
     (''cancelled'', Action_meta ''cancel_delivery'' staff False)]"

definition inventory_allocation_actions :: "(string \<times> action_meta) list" where
  "inventory_allocation_actions =
    [(''ready'', Action_meta ''mark_allocation_ready'' staff False),
     (''released'', Action_meta ''release_allocation'' staff False),
     (''delivered'', Action_meta ''mark_allocation_delivered'' staff False),
     (''disputed'', Action_meta ''flag_allocation_dispute'' staff False),
     (''pending'', Action_meta ''reopen_allocation'' staff False)]"

definition sourcing_request_actions :: "(string \<times> action_meta) list" where
  "sourcing_request_actions =
    [(''open'', Action_meta ''submit_request'' staff False),
     (''quoting'', Action_meta ''start_quoting'' staff False),
     (''quoted'', Action_meta ''mark_quoted'' staff False),
     (''converting'', Action_meta ''start_conversion'' staff False),
     (''direct_order'', Action_meta ''convert_to_direct_order'' staff False),
     (''pooled'', Action_meta ''convert_to_pooled'' staff False),
     (''procurement'', Action_meta ''convert_to_procurement'' staff False),
     (''private_label'', Action_meta ''convert_to_private_label'' staff False),
     (''cancelled'', Action_meta ''cancel_request'' staff False),
     (''closed'', Action_meta ''close_request'' staff False)]"

definition supplier_quote_actions :: "(string \<times> action_meta) list" where
  "supplier_quote_actions =
    [(''under_review'', Action_meta ''review_quote'' staff False),
     (''accepted'', Action_meta ''accept_quote'' staff False),
     (''rejected'', Action_meta ''reject_quote'' staff False),
     (''expired'', Action_meta ''expire_quote'' staff False)]"

definition ENTITY_ACTIONS :: "(string \<times> (string \<times> action_meta) list) list" where
  "ENTITY_ACTIONS =
    [(''purchase_order'', purchase_order_actions),
     (''shipment'', shipment_actions),
     (''pooled_order'', pooled_order_actions),
     (''campaign_approval'', campaign_approval_actions),
     (''participant'', participant_actions),
     (''inventory_receipt'', inventory_receipt_actions),
     (''delivery_order'', delivery_order_actions),
     (''inventory_allocation'', inventory_allocation_actions),
     (''sourcing_request'', sourcing_request_actions),
     (''supplier_quote'', supplier_quote_actions)]"

definition pseudo_actions :: "string \<Rightarrow> string \<Rightarrow> action_meta list" where
  "pseudo_actions entityType status =
     (if entityType = ''pooled_order'' \<and> status \<in> {''open'', ''pledging''}
      then [Action_meta ''join_campaign'' [''buyers'', ''organizers'', ''distributors'', ''operations'', ''admins''] False]
      else [])"

text \<open>An action of the list, and a blocker: its code, action, target and required groups.\<close>

type_synonym action = "string \<times> string option"

datatype action_blocker = Action_blocker (bcode: string) (baction: "string option") (bto: "string option") (bgroups: "string list")

record role_ctx =
  rc_role :: "string option"
  rc_isAdmin :: bool
  rc_isOwner :: bool
  rc_isAssigned :: bool

definition checkAction :: "role_ctx \<Rightarrow> action_meta \<Rightarrow> string option" where
  "checkAction rc meta =
     (if rc_isAdmin rc then None
      else if rc_role rc = None \<or> rc_role rc = Some [] then Some ''authentication_required''
      else if \<not> roleInGroups (rc_role rc) (agroups meta) then Some ''role_not_permitted''
      else if ownerOnly meta \<and> \<not> (rc_isOwner rc \<or> rc_isAssigned rc) then Some ''ownership_required''
      else None)"

definition metaFor :: "string \<Rightarrow> string \<Rightarrow> action_meta" where
  "metaFor entityType to =
     (case map_of (case map_of ENTITY_ACTIONS entityType of None \<Rightarrow> [] | Some ms \<Rightarrow> ms) to of
        None \<Rightarrow> Action_meta (''to_'' @ to) [''admins''] False
      | Some m \<Rightarrow> m)"

definition pushAction ::
  "role_ctx \<Rightarrow> action_meta \<times> string option \<Rightarrow> action list \<times> action_blocker list \<Rightarrow> action list \<times> action_blocker list" where
  "pushAction rc = (\<lambda>(meta, to) (actions, blockers).
     case checkAction rc meta of
       Some blocked \<Rightarrow> (actions, blockers @ [Action_blocker blocked (Some (aid meta)) to (agroups meta)])
     | None \<Rightarrow> (actions @ [(aid meta, to)], blockers))"

definition getAvailableActions :: "string \<Rightarrow> string \<Rightarrow> role_ctx \<Rightarrow> action list \<times> action_blocker list" where
  "getAvailableActions entityType currentStatus rc =
     (case map_of ENTITIES entityType of
        None \<Rightarrow> ([], [Action_blocker ''unknown_entity_type'' None None []])
      | Some entity \<Rightarrow>
          if currentStatus \<notin> set (states (e_machine entity))
          then ([], [Action_blocker ''unknown_status'' None None []])
          else
            let candidates =
                  map (\<lambda>to. (metaFor entityType to, Some to)) (allowedFrom (e_machine entity) currentStatus)
                  @ map (\<lambda>p. (p, None)) (pseudo_actions entityType currentStatus);
                result = fold (pushAction rc) candidates ([], []) in
            if result = ([], []) then ([], [Action_blocker ''terminal_state'' None None []]) else result)"

text \<open>\<open>describeActionsWithGuards\<close>: a guard that throws counts as a blocker.\<close>

definition guard_blocker :: "guards \<Rightarrow> rows \<Rightarrow> string \<Rightarrow> int option \<Rightarrow> string \<Rightarrow> action \<Rightarrow> blocker option" where
  "guard_blocker gs db entityType rowId currentStatus a =
     (case (snd a, rowId) of
        (Some to, Some i) \<Rightarrow>
          if to = [] then None
          else (case getTransitionGuard gs entityType to of
             None \<Rightarrow> None
           | Some g \<Rightarrow>
               (case g db \<lparr>ctx_id = i, ctx_from = currentStatus, ctx_to = to\<rparr> of
                  Inl _ \<Rightarrow> Some \<lparr>bl_code = ''guard_check_failed'', bl_details = []\<rparr>
                | Inr b \<Rightarrow> b))
      | _ \<Rightarrow> None)"

definition describeActionsWithGuards ::
  "guards \<Rightarrow> rows \<Rightarrow> string \<Rightarrow> int option \<Rightarrow> string \<Rightarrow> role_ctx
   \<Rightarrow> action list \<times> (action_blocker + action \<times> blocker) list" where
  "describeActionsWithGuards gs db entityType rowId currentStatus rc =
     (let (actions, blockers) = getAvailableActions entityType currentStatus rc;
          verdicts = map (\<lambda>a. (a, guard_blocker gs db entityType rowId currentStatus a)) actions in
      (map fst (filter (\<lambda>(a, b). b = None) verdicts),
       map Inl blockers @ concat (map (\<lambda>(a, b). case b of None \<Rightarrow> [] | Some x \<Rightarrow> [Inr (a, x)]) verdicts)))"

section \<open>Properties of a transition table\<close>

text \<open>The states a record goes through: \<open>run m s h t\<close> starts in \<open>s\<close>, visits \<open>h\<close> and is in \<open>t\<close>.\<close>

inductive run :: "transitions \<Rightarrow> string \<Rightarrow> string list \<Rightarrow> string \<Rightarrow> bool" for m where
  start: "run m s [s] s"
| step: "run m s h t \<Longrightarrow> canTransition m t u \<Longrightarrow> run m s (h @ [u]) u"

inductive_cases run_stepE: "run m s h t"

lemma canTransition_iff: "canTransition m s t \<longleftrightarrow> s = t \<or> t \<in> set (allowedFrom m s)"
  by (auto simp: canTransition_def allowedFrom_def split: option.splits)

lemma run_last: "run m s h t \<Longrightarrow> t \<in> set h \<and> s \<in> set h"
  by (induction rule: run.induct) auto

lemma run_prepend: "run m u h t \<Longrightarrow> canTransition m s u \<Longrightarrow> run m s (s # h) t"
proof (induction rule: run.induct)
  case (start v)
  then show ?case using run.step [OF run.start, of m s v] by simp
next
  case (step v h t w)
  then have "run m s ((s # h) @ [w]) w" by (intro run.step) auto
  then show ?case by simp
qed

fun legal_path :: "transitions \<Rightarrow> string list \<Rightarrow> bool" where
  "legal_path m (s # t # h) = (canTransition m s t \<and> legal_path m (t # h))"
| "legal_path m _ = True"

lemma legal_path_run: "legal_path m h \<Longrightarrow> h \<noteq> [] \<Longrightarrow> run m (hd h) h (last h)"
  by (induction m h rule: legal_path.induct) (auto intro: run.start run_prepend)

definition table_closed :: "transitions \<Rightarrow> bool" where
  "table_closed m \<longleftrightarrow>
     distinct (states m) \<and> list_all (\<lambda>(s, ts). distinct ts \<and> list_all (\<lambda>t. t \<in> set (states m) \<and> t \<noteq> s) ts) m"

text \<open>A set of states that can only be left through a gate state.\<close>

definition fenced :: "transitions \<Rightarrow> string \<Rightarrow> string list \<Rightarrow> bool" where
  "fenced m gate before \<longleftrightarrow> list_all (\<lambda>(s, ts). s \<in> set before \<longrightarrow> list_all (\<lambda>t. t = gate \<or> t \<in> set before) ts) m"

fun finishing :: "nat \<Rightarrow> transitions \<Rightarrow> string list" where
  "finishing 0 m = filter (\<lambda>s. allowedFrom m s = []) (states m)"
| "finishing (Suc n) m =
     (let f = finishing n m in f @ filter (\<lambda>s. s \<notin> set f \<and> list_ex (\<lambda>t. t \<in> set f) (allowedFrom m s)) (states m))"

locale state_machine =
  fixes m :: transitions
  assumes closed: "table_closed m"
begin

lemma target_is_state:
  assumes "canTransition m s t" "s \<noteq> t"
  shows "t \<in> set (states m)"
proof -
  from assms obtain ts where "(s, ts) \<in> set m" "t \<in> set ts"
    by (auto simp: canTransition_def split: option.splits dest: map_of_SomeD)
  with closed show ?thesis by (auto simp: table_closed_def list_all_iff)
qed

lemma run_in_states: "run m s h t \<Longrightarrow> s \<in> set (states m) \<Longrightarrow> set h \<subseteq> set (states m)"
proof (induction rule: run.induct)
  case (step s h t u)
  moreover have "t \<in> set h" using step.hyps(1) run_last by blast
  ultimately show ?case by (cases "t = u") (auto dest: target_is_state)
qed simp

lemma terminal_stays: "run m s h t \<Longrightarrow> allowedFrom m s = [] \<Longrightarrow> t = s"
  by (induction rule: run.induct) (auto simp: canTransition_iff)

lemma gate_passed:
  assumes "run m s h t" "fenced m gate before" "s \<in> set before" "t \<notin> set before"
  shows "gate \<in> set h"
proof -
  from assms(1-3) have "gate \<in> set h \<or> t \<in> set before"
  proof (induction rule: run.induct)
    case (step s h t u)
    then consider "gate \<in> set h" | "t \<in> set before" by blast
    then show ?case
    proof cases
      case 2
      then show ?thesis
        using step.hyps(2) step.prems(1)
        by (auto simp: canTransition_def fenced_def list_all_iff split: option.splits if_splits dest!: map_of_SomeD)
    qed simp
  qed simp
  with assms(4) show ?thesis by blast
qed

lemma finishing_run:
  "s \<in> set (finishing n m) \<Longrightarrow> \<exists>h t. run m s h t \<and> t \<in> set (states m) \<and> allowedFrom m t = []"
proof (induction n arbitrary: s)
  case 0
  then show ?case using run.start [of m s] by auto
next
  case (Suc n)
  then consider "s \<in> set (finishing n m)" | u where "u \<in> set (finishing n m)" "canTransition m s u"
    by (auto simp: Let_def list_ex_iff canTransition_iff)
  then show ?case
  proof cases
    case 2
    with Suc.IH run_prepend show ?thesis by meson
  qed (rule Suc.IH)
qed

end

interpretation purchase_order: state_machine PO_TRANSITIONS by unfold_locales code_simp
interpretation shipment: state_machine SHIPMENT_TRANSITIONS by unfold_locales code_simp
interpretation pooled_order: state_machine POOLED_TRANSITIONS by unfold_locales code_simp
interpretation campaign_approval: state_machine APPROVAL_TRANSITIONS by unfold_locales code_simp
interpretation participant: state_machine PARTICIPANT_TRANSITIONS by unfold_locales code_simp
interpretation inventory_receipt: state_machine RECEIPT_TRANSITIONS by unfold_locales code_simp
interpretation delivery_order: state_machine DELIVERY_TRANSITIONS by unfold_locales code_simp
interpretation inventory_allocation: state_machine ALLOCATION_TRANSITIONS by unfold_locales code_simp
interpretation sourcing_request: state_machine SOURCING_TRANSITIONS by unfold_locales code_simp
interpretation supplier_quote: state_machine QUOTE_TRANSITIONS by unfold_locales code_simp

lemma entity_machines:
  "(n, e) \<in> set ENTITIES \<Longrightarrow> state_machine (e_machine e)"
  by (auto simp: ENTITIES_def purchase_order.state_machine_axioms shipment.state_machine_axioms
      pooled_order.state_machine_axioms campaign_approval.state_machine_axioms
      participant.state_machine_axioms inventory_receipt.state_machine_axioms
      delivery_order.state_machine_axioms inventory_allocation.state_machine_axioms
      sourcing_request.state_machine_axioms supplier_quote.state_machine_axioms)

text \<open>No logistics record can leave its life cycle or be stuck in it: in every machine but the
  campaign approval the states reached from a declared state are declared states, and from each of
  them some sequence of allowed transitions ends in a terminal state, where nothing more is allowed;
  the approval machine has no terminal state at all.\<close>

theorem machines_can_finish:
  assumes "(n, e) \<in> set ENTITIES" "s \<in> set (states (e_machine e))"
  shows "(run (e_machine e) s h t \<longrightarrow> set h \<subseteq> set (states (e_machine e))) \<and>
         (if n = ''campaign_approval'' then allowedFrom (e_machine e) s \<noteq> []
          else \<exists>h' t'. run (e_machine e) s h' t' \<and> t' \<in> set (states (e_machine e)) \<and>
                  allowedFrom (e_machine e) t' = [])"
proof -
  note M = entity_machines [OF assms(1)]
  have "\<forall>x \<in> set ENTITIES. list_all (\<lambda>s. if fst x = ''campaign_approval'' then allowedFrom (e_machine (snd x)) s \<noteq> []
          else s \<in> set (finishing 6 (e_machine (snd x)))) (states (e_machine (snd x)))"
    unfolding list_all_iff [symmetric] by code_simp
  from bspec [OF bspec [OF this assms(1), unfolded list_all_iff], of s]
  have "if n = ''campaign_approval'' then allowedFrom (e_machine e) s \<noteq> [] else s \<in> set (finishing 6 (e_machine e))"
    using assms(2) by (simp split: if_split_asm)
  then show ?thesis
    using state_machine.finishing_run [OF M, of s 6] state_machine.run_in_states [OF M _ assms(2), of h t]
    by (cases "n = ''campaign_approval''") (simp_all only: if_True if_False HOL.simp_thms, blast+)
qed

theorem machines_can_finish_witness:
  "''exception'' \<in> set (states SHIPMENT_TRANSITIONS) \<and>
   (\<exists>h t. run SHIPMENT_TRANSITIONS ''exception'' h t \<and> t \<in> set (states SHIPMENT_TRANSITIONS) \<and>
      allowedFrom SHIPMENT_TRANSITIONS t = [])"
proof -
  have e: "(''shipment'', \<lparr>e_machine = SHIPMENT_TRANSITIONS, e_table = ''shipment_records'', e_column = ''status''\<rparr>) \<in> set ENTITIES"
    by (simp add: ENTITIES_def)
  have s: "''exception'' \<in> set (states SHIPMENT_TRANSITIONS)" by code_simp
  with machines_can_finish [OF e, of "''exception''"] show ?thesis by simp
qed

text \<open>A purchase order is never placed, produced, shipped or received before its deposit was
  collected: every history of allowed transitions from \<open>draft\<close> that reaches a later stage has
  passed through \<open>deposit_collected\<close>.\<close>

theorem purchase_order_deposit_first:
  assumes "run PO_TRANSITIONS ''draft'' h t"
    and "t \<notin> {''draft'', ''quoted'', ''approved'', ''awaiting_deposit'', ''cancelled''}"
  shows "''deposit_collected'' \<in> set h"
proof (rule purchase_order.gate_passed [OF assms(1)])
  show "fenced PO_TRANSITIONS ''deposit_collected'' [''draft'', ''quoted'', ''approved'', ''awaiting_deposit'', ''cancelled'']"
    by code_simp
qed (use assms(2) in simp_all)

theorem purchase_order_deposit_first_witness:
  "\<exists>h. run PO_TRANSITIONS ''draft'' h ''placed_with_supplier'' \<and> ''deposit_collected'' \<in> set h"
proof -
  have "legal_path PO_TRANSITIONS [''draft'', ''quoted'', ''approved'', ''awaiting_deposit'',
      ''deposit_collected'', ''placed_with_supplier'']" by code_simp
  from legal_path_run [OF this] show ?thesis
    using purchase_order_deposit_first [of _ "''placed_with_supplier''"] by fastforce
qed

section \<open>Properties of \<open>applyTransition\<close>\<close>

lemma foldl_upd_frame:
  fixes r :: row
  shows "c \<notin> set (map fst xs) \<Longrightarrow> foldl (\<lambda>s (c, v). s(c := v)) r xs c = r c"
    and "c \<notin> set cs \<Longrightarrow> foldl (\<lambda>s c. s(c := v)) r cs c = r c"
  by (induction xs arbitrary: r; auto split: prod.splits) (induction cs arbitrary: r; auto)

lemma updated_row_outside:
  assumes "c \<notin> set (request_columns q)"
  shows "updated_row sc to q now r c = (r(sc := SText to)) c"
  using assms
  by (auto simp: updated_row_def request_columns_def Let_def foldl_upd_frame split: option.splits prod.splits)

lemma applyTransition_cases:
  assumes "applyTransition gs accepts now q db = (res, db')"
  shows "db' = db \<and> (\<forall>record from to. res \<noteq> Inr (Applied record from to)) \<or>
    (\<exists>e to r from record.
       map_of ENTITIES (rentity q) = Some e \<and> rto q = Some to \<and> to \<noteq> [] \<and> idColumn q = ''id'' \<and>
       assertRequest q = Inr () \<and> distinct (set_columns (e_column e) q) \<and>
       find (\<lambda>r. r ''id'' = SInt (rid q)) (db (e_table e)) = Some r \<and>
       status_text (r (e_column e)) = Some from \<and> canTransition (e_machine e) from to \<and>
       (from \<noteq> to \<longrightarrow> (case getTransitionGuard gs (rentity q) to of None \<Rightarrow> True
          | Some g \<Rightarrow> g db \<lparr>ctx_id = rid q, ctx_from = from, ctx_to = to\<rparr> = Inr None)) \<and>
       res = Inr (Applied record from to) \<and>
       find (\<lambda>r. r ''id'' = SInt (rid q))
         (upd_where (\<lambda>r. r ''id'' = SInt (rid q)) (stored_row e to q now) (db (e_table e))) = Some record \<and>
       db' = db(e_table e := upd_where (\<lambda>r. r ''id'' = SInt (rid q)) (stored_row e to q now) (db (e_table e))))"
proof (cases "map_of ENTITIES (rentity q)")
  case None
  with assms show ?thesis by (auto simp: applyTransition_def)
next
  case e: (Some e)
  show ?thesis
  proof (cases "rto q = None \<or> rto q = Some [] \<or> assertRequest q \<noteq> Inr ()")
    case True
    with e assms show ?thesis by (auto simp: applyTransition_def split: option.splits if_splits sum.splits)
  next
    case False
    then obtain to where to: "rto q = Some to" "to \<noteq> []" "assertRequest q = Inr ()" by auto
    then have idc: "idColumn q = ''id''" by (auto simp: assertRequest_def split: if_splits)
    note simps = e to idc
    show ?thesis
    proof (cases "Option.bind (find (\<lambda>r. r ''id'' = SInt (rid q)) (db (e_table e))) (\<lambda>r. status_text (r (e_column e)))")
      case None
      with assms simps show ?thesis by (auto simp: applyTransition_def Let_def)
    next
      case st: (Some fr)
      then obtain r where r: "find (\<lambda>r. r ''id'' = SInt (rid q)) (db (e_table e)) = Some r"
          "status_text (r (e_column e)) = Some fr"
        by (auto simp: Option.bind_eq_Some_conv)
      have can: "\<not> (fr \<noteq> to \<and> \<not> canTransition (e_machine e) fr to) \<Longrightarrow> canTransition (e_machine e) fr to"
        by (auto simp: canTransition_def)
      show ?thesis
        using assms st r simps can
        by (simp add: applyTransition_def Let_def split: if_splits option.splits sum.splits) blast+
    qed
  qed
qed

lemma request_columns_allowed:
  assumes "assertRequest q = Inr ()" "c \<in> set (request_columns q)"
  shows "c \<in> set (allowed_columns (rentity q))"
  using assms by (auto simp: assertRequest_def assertTransitionColumn_def list_all_iff split: if_splits)

lemma id_not_allowed: "''id'' \<notin> set (allowed_columns n)"
proof -
  have "list_all (\<lambda>(n, cs). ''id'' \<notin> set cs) TRANSITION_COLUMN_ALLOWLIST" by code_simp
  then have "\<And>cs. (n, cs) \<in> set TRANSITION_COLUMN_ALLOWLIST \<Longrightarrow> ''id'' \<notin> set cs"
    by (auto simp only: list_all_iff)
  then show ?thesis
    by (cases "map_of TRANSITION_COLUMN_ALLOWLIST n") (auto simp: allowed_columns_def dest: map_of_SomeD)
qed

lemma updated_at_not_allowed: "''updated_at'' \<notin> set (allowed_columns n)"
proof -
  have "list_all (\<lambda>(n, cs). ''updated_at'' \<notin> set cs) TRANSITION_COLUMN_ALLOWLIST" by code_simp
  then have "\<And>cs. (n, cs) \<in> set TRANSITION_COLUMN_ALLOWLIST \<Longrightarrow> ''updated_at'' \<notin> set cs"
    by (auto simp only: list_all_iff)
  then show ?thesis
    by (cases "map_of TRANSITION_COLUMN_ALLOWLIST n") (auto simp: allowed_columns_def dest: map_of_SomeD)
qed

lemma entity_columns:
  assumes "map_of ENTITIES n = Some e"
  shows "e_column e \<noteq> ''id''" "e_column e \<noteq> ''updated_at''" "e_table e \<in> set touched_tables"
proof -
  have "list_all (\<lambda>(n, e). e_column e \<noteq> ''id'' \<and> e_column e \<noteq> ''updated_at'' \<and> e_table e \<in> set touched_tables) ENTITIES"
    by (simp add: ENTITIES_def touched_tables_def)
  with map_of_SomeD [OF assms] show "e_column e \<noteq> ''id''" "e_column e \<noteq> ''updated_at''" "e_table e \<in> set touched_tables"
    by (auto simp only: list_all_iff)
qed

text \<open>C36: a status change is exactly what was asked for and allowed: when \<open>applyTransition\<close> reports
  success, the row existed, its old status was \<open>from\<close>, the machine of that entity allows the
  move, a registered guard agreed to it (a move to the same status asks no guard), the row now has
  the new status, the time of the transaction in \<open>updated_at\<close>, where the trigger of migration 247 writes it,
  and is unchanged outside these two columns and the allowlisted columns, and no other row and no other
  table changed.\<close>

theorem applyTransition_sound:
  assumes "applyTransition gs accepts now q db = (Inr (Applied rcd from to), db')"
  shows "\<exists>e r. map_of ENTITIES (rentity q) = Some e \<and> rto q = Some to \<and>
     r \<in> set (db (e_table e)) \<and> r ''id'' = SInt (rid q) \<and> status_text (r (e_column e)) = Some from \<and>
     canTransition (e_machine e) from to \<and>
     (from \<noteq> to \<longrightarrow> (case getTransitionGuard gs (rentity q) to of None \<Rightarrow> True
        | Some g \<Rightarrow> g db \<lparr>ctx_id = rid q, ctx_from = from, ctx_to = to\<rparr> = Inr None)) \<and>
     rcd \<in> set (db' (e_table e)) \<and> rcd (e_column e) = SText to \<and> rcd ''updated_at'' = STime now \<and>
     (\<forall>c. c \<noteq> e_column e \<longrightarrow> c \<noteq> ''updated_at'' \<longrightarrow> c \<notin> set (allowed_columns (rentity q)) \<longrightarrow> rcd c = r c) \<and>
     filter (\<lambda>x. x ''id'' \<noteq> SInt (rid q)) (db' (e_table e)) = filter (\<lambda>x. x ''id'' \<noteq> SInt (rid q)) (db (e_table e)) \<and>
     (\<forall>t. t \<noteq> e_table e \<longrightarrow> db' t = db t)"
proof -
  obtain e r where *: "map_of ENTITIES (rentity q) = Some e" "rto q = Some to" "assertRequest q = Inr ()"
      "distinct (set_columns (e_column e) q)" "find (\<lambda>r. r ''id'' = SInt (rid q)) (db (e_table e)) = Some r"
      "status_text (r (e_column e)) = Some from" "canTransition (e_machine e) from to"
      "from \<noteq> to \<longrightarrow> (case getTransitionGuard gs (rentity q) to of None \<Rightarrow> True
          | Some g \<Rightarrow> g db \<lparr>ctx_id = rid q, ctx_from = from, ctx_to = to\<rparr> = Inr None)"
      "find (\<lambda>r. r ''id'' = SInt (rid q))
         (upd_where (\<lambda>r. r ''id'' = SInt (rid q)) (stored_row e to q now) (db (e_table e))) = Some rcd"
      "db' = db(e_table e := upd_where (\<lambda>r. r ''id'' = SInt (rid q)) (stored_row e to q now) (db (e_table e)))"
    using applyTransition_cases [OF assms] by auto
  note cols = entity_columns [OF *(1)]
  have "updated_row (e_column e) to q now x c = (x(e_column e := SText to)) c"
    if "c \<notin> set (allowed_columns (rentity q)) \<or> c = e_column e" for x c
    using that request_columns_allowed [OF *(3)] *(4)
    by (intro updated_row_outside) (auto simp: set_columns_def)
  then have out: "stored_row e to q now x c = (x(e_column e := SText to, ''updated_at'' := STime now)) c"
    if "c \<notin> set (allowed_columns (rentity q)) \<or> c = e_column e" for x c
    using that cols(3) by (simp add: stored_row_def logistics_touch_updated_at_def)
  have idk: "stored_row e to q now x ''id'' = x ''id''" for x
    using out [of "''id''" x] id_not_allowed cols(1) by auto
  have touched: "stored_row e to q now r ''updated_at'' = STime now" "stored_row e to q now r (e_column e) = SText to"
    using out [of "''updated_at''" r] out [of "e_column e" r] updated_at_not_allowed cols(2) by auto
  have "rcd = stored_row e to q now r"
    using *(5,9) idk by (simp add: find_upd_where)
  moreover have "rcd \<in> set (db' (e_table e))" using find_SomeD [OF *(9)] *(10) by simp
  moreover have "r \<in> set (db (e_table e))" "r ''id'' = SInt (rid q)" using find_SomeD [OF *(5)] by auto
  moreover have "filter (\<lambda>x. x ''id'' \<noteq> SInt (rid q)) (db' (e_table e))
      = filter (\<lambda>x. x ''id'' \<noteq> SInt (rid q)) (db (e_table e))"
    using idk *(10) by (simp add: filter_upd_where)
  ultimately show ?thesis using * out touched by (intro exI [of _ e] exI [of _ r]) simp
qed

text \<open>
  The database's own graph of the purchase orders is in step with the machine: for every known status the trigger of
  migration 605 lets a row move to exactly the statuses that \<open>PO_TRANSITIONS\<close> allows, so it refuses no change that
  \<open>applyTransition\<close> makes, and an UPDATE beside the service can make no change the service would refuse.
\<close>

theorem purchase_order_trigger_in_step:
  assumes "old ''status'' = SText from" and "new ''status'' = SText to" and "from \<in> set (states PO_TRANSITIONS)"
  shows "enforce_purchase_order_state_integrity ''purchase_orders'' old new \<longleftrightarrow> canTransition PO_TRANSITIONS from to"
proof -
  have graph: "trigger_graph = PO_TRANSITIONS" by (simp add: trigger_graph_def PO_TRANSITIONS_def)
  have "map_of PO_TRANSITIONS from \<noteq> None" using assms(3) by (simp add: states_def map_of_eq_None_iff)
  with assms(1,2) show ?thesis
    by (auto simp: enforce_purchase_order_state_integrity_def canTransition_def graph)
qed

theorem purchase_order_trigger_in_step_witness:
  "\<not> enforce_purchase_order_state_integrity ''purchase_orders'' ((\<lambda>c. SNull)(''status'' := SText ''closed''))
     ((\<lambda>c. SNull)(''status'' := SText ''draft''))"
proof -
  let ?old = "(\<lambda>c. SNull)(''status'' := SText ''closed'') :: row" and ?new = "(\<lambda>c. SNull)(''status'' := SText ''draft'') :: row"
  have known: "''closed'' \<in> set (states PO_TRANSITIONS)" "\<not> canTransition PO_TRANSITIONS ''closed'' ''draft''" by code_simp+
  from purchase_order_trigger_in_step [of ?old "''closed''" ?new "''draft''", OF _ _ known(1)] known(2) show ?thesis by simp
qed

text \<open>A refused or failed transition changes nothing: whatever the request, every outcome other
  than success, thrown errors included, leaves the whole database as it was.\<close>

theorem applyTransition_refused_unchanged:
  assumes "applyTransition gs accepts now q db = (res, db')"
    and "\<And>rcd from to. res \<noteq> Inr (Applied rcd from to)"
  shows "db' = db"
  using applyTransition_cases [OF assms(1)] assms(2) by blast

text \<open>A database with one sourcing request in \<open>draft\<close>, and requests on it.\<close>

definition sample_rows :: rows where
  "sample_rows = (\<lambda>t. if t = ''sourcing_requests'' then [(\<lambda>c. SNull)(''id'' := SInt 7, ''status'' := SText ''draft'')] else [])"

definition sample_request :: "string \<Rightarrow> request" where
  "sample_request to = \<lparr>rentity = ''sourcing_request'', rid = 7, rto = Some to, rset = [], nowColumns = [],
     appendNotes = Some (''internal_notes'', ''ok''), idColumn = ''id''\<rparr>"

lemma sample_columns:
  "assertRequest (sample_request to) = Inr ()" "distinct (set_columns ''status'' (sample_request to))"
  by (simp_all add: sample_request_def assertRequest_def request_columns_def assertTransitionColumn_def
      is_identifier_def ident_start_def allowed_columns_def TRANSITION_COLUMN_ALLOWLIST_def set_columns_def)

lemmas sample_eval = applyTransition_def sample_columns sample_rows_def sample_request_def ENTITIES_def
  getTransitionGuard_def canTransition_def SOURCING_TRANSITIONS_def updated_row_def stored_row_def logistics_touch_updated_at_def
  touched_tables_def enforce_purchase_order_state_integrity_def Let_def

theorem applyTransition_sound_witness:
  "\<exists>rcd db' e r. applyTransition [] (\<lambda>_ _. True) 0 (sample_request ''open'') sample_rows
       = (Inr (Applied rcd ''draft'' ''open''), db') \<and>
     map_of ENTITIES ''sourcing_request'' = Some e \<and> status_text (r (e_column e)) = Some ''draft'' \<and>
     rcd (e_column e) = SText ''open''"
proof -
  obtain rcd db' where a: "applyTransition [] (\<lambda>_ _. True) 0 (sample_request ''open'') sample_rows
      = (Inr (Applied rcd ''draft'' ''open''), db')"
    using sample_columns [of "''open''"] by (simp add: sample_eval)
  have n: "rentity (sample_request ''open'') = ''sourcing_request''" by (simp add: sample_request_def)
  obtain e r where "map_of ENTITIES (rentity (sample_request ''open'')) = Some e"
      "status_text (r (e_column e)) = Some ''draft''" "rcd (e_column e) = SText ''open''"
    using applyTransition_sound [OF a] by (elim exE conjE) (rule that)
  with a n show ?thesis by (intro exI [of _ rcd] exI [of _ db'] exI [of _ e] exI [of _ r]) simp
qed

theorem applyTransition_refused_unchanged_witness:
  "applyTransition [] (\<lambda>_ _. True) 0 (sample_request ''closed'') sample_rows
     = (Inr (Illegal_transition ''draft'' ''closed'' [''open'', ''cancelled'']), sample_rows)"
proof -
  obtain db' where a: "applyTransition [] (\<lambda>_ _. True) 0 (sample_request ''closed'') sample_rows
      = (Inr (Illegal_transition ''draft'' ''closed'' [''open'', ''cancelled'']), db')"
    using sample_columns [of "''closed''"] by (simp add: sample_eval allowedFrom_def)
  then have "db' = sample_rows" by (rule applyTransition_refused_unchanged) simp
  with a show ?thesis by simp
qed

section \<open>Properties of actions and capabilities\<close>

lemma fold_pushAction:
  "fold (pushAction rc) cs (as, bs) =
     (as @ map (\<lambda>(m, to). (aid m, to)) (filter (\<lambda>(m, to). checkAction rc m = None) cs),
      bs @ concat (map (\<lambda>(m, to). case checkAction rc m of None \<Rightarrow> []
        | Some b \<Rightarrow> [Action_blocker b (Some (aid m)) to (agroups m)]) cs))"
  by (induction cs arbitrary: as bs) (auto simp: pushAction_def split: option.splits)

lemma blocked_targets:
  "(\<exists>b \<in> set (concat (map (\<lambda>(m, t). case checkAction rc m of None \<Rightarrow> []
        | Some b \<Rightarrow> [Action_blocker b (Some (aid m)) t (agroups m)]) cs)). bto b = Some to) \<longleftrightarrow>
   (\<exists>m. (m, Some to) \<in> set cs \<and> checkAction rc m \<noteq> None)"
proof (induction cs)
  case (Cons c cs)
  obtain m t where c: "c = (m, t)" by (cases c)
  show ?case
  proof (cases "checkAction rc m")
    case None
    with Cons c show ?thesis by auto
  next
    case (Some b)
    then show ?thesis unfolding c list.map concat.simps set_append bex_Un Cons by auto
  qed
qed simp

text \<open>the list of actions is sound and complete: every advertised action with a target is a legal
  transition from the current status that the viewer's role (and ownership, where required) permits,
  and every legal transition is either advertised or shown as blocked, never both and never lost.\<close>

theorem getAvailableActions_exact:
  assumes "map_of ENTITIES n = Some e" "s \<in> set (states (e_machine e))"
    and "getAvailableActions n s rc = (actions, blockers)"
  shows "((\<exists>a. (a, Some to) \<in> set actions) \<longleftrightarrow>
            to \<in> set (allowedFrom (e_machine e) s) \<and> checkAction rc (metaFor n to) = None) \<and>
         ((\<exists>b \<in> set blockers. bto b = Some to) \<longleftrightarrow>
            to \<in> set (allowedFrom (e_machine e) s) \<and> checkAction rc (metaFor n to) \<noteq> None)"
proof -
  let ?cs = "map (\<lambda>to. (metaFor n to, Some to)) (allowedFrom (e_machine e) s) @ map (\<lambda>p. (p, None)) (pseudo_actions n s)"
  let ?as = "map (\<lambda>(m, to). (aid m, to)) (filter (\<lambda>(m, to). checkAction rc m = None) ?cs)"
  let ?bs = "concat (map (\<lambda>(m, to). case checkAction rc m of None \<Rightarrow> []
        | Some b \<Rightarrow> [Action_blocker b (Some (aid m)) to (agroups m)]) ?cs)"
  define AS BS where "AS = ?as" and "BS = ?bs"
  have "(actions, blockers) = (if AS = [] \<and> BS = [] then ([], [Action_blocker ''terminal_state'' None None []]) else (AS, BS))"
    using assms unfolding AS_def BS_def
    by (simp add: getAvailableActions_def fold_pushAction Let_def del: filter_append map_append)
  then have a: "actions = AS" and b: "blockers = BS \<or> blockers = [Action_blocker ''terminal_state'' None None []] \<and> BS = []"
    by (auto split: if_splits)
  have "(\<exists>b \<in> set blockers. bto b = Some to) \<longleftrightarrow> (\<exists>b \<in> set BS. bto b = Some to)"
    using b by auto
  moreover have "(\<exists>a. (a, Some to) \<in> set ?as) \<longleftrightarrow> to \<in> set (allowedFrom (e_machine e) s) \<and> checkAction rc (metaFor n to) = None"
    by (auto simp: image_iff intro!: exI [of _ "aid (metaFor n to)"])
  moreover have "(\<exists>b \<in> set ?bs. bto b = Some to) \<longleftrightarrow> to \<in> set (allowedFrom (e_machine e) s) \<and> checkAction rc (metaFor n to) \<noteq> None"
    unfolding blocked_targets by auto
  ultimately show ?thesis unfolding a AS_def BS_def by blast
qed

theorem getAvailableActions_exact_witness:
  "\<exists>e actions blockers. map_of ENTITIES ''delivery_order'' = Some e \<and>
     getAvailableActions ''delivery_order'' ''pending''
       \<lparr>rc_role = Some ''warehouse_operator'', rc_isAdmin = False, rc_isOwner = False, rc_isAssigned = False\<rparr> = (actions, blockers) \<and>
     (\<exists>a. (a, Some ''assigned'') \<in> set actions)"
proof -
  let ?rc = "\<lparr>rc_role = Some ''warehouse_operator'', rc_isAdmin = False, rc_isOwner = False, rc_isAssigned = False\<rparr>"
  obtain e where e: "map_of ENTITIES ''delivery_order'' = Some e" and m: "e_machine e = DELIVERY_TRANSITIONS"
    by (simp add: ENTITIES_def)
  have s: "''pending'' \<in> set (states (e_machine e))" unfolding m by code_simp
  have "''assigned'' \<in> set (allowedFrom (e_machine e) ''pending'')" unfolding m by code_simp
  moreover have "checkAction ?rc (metaFor ''delivery_order'' ''assigned'') = None" by code_simp
  ultimately have "\<exists>a. (a, Some ''assigned'') \<in> set (fst (getAvailableActions ''delivery_order'' ''pending'' ?rc))"
    using getAvailableActions_exact [OF e s, of ?rc _ _ "''assigned''"] by (metis prod.collapse)
  with e show ?thesis by (metis prod.collapse)
qed

text \<open>Nothing is granted to the wrong person: a visitor who is not signed in has no capability
  except browsing (and, if the role passed is an admin role, the flag \<open>admin.manage\<close>), an admin who
  is signed in has every capability, and every capability of any role is one of an admin.\<close>

theorem resolveCapabilities_gated:
  "(getCapability (resolveCapabilities False role) path = Some True \<longrightarrow>
      path = ''campaigns.browse'' \<or> path = ''admin.manage'' \<and> isAdminRole role) \<and>
   (isAdminRole role \<longrightarrow> list_all snd (cap_flags (resolveCapabilities True role))) \<and>
   map fst (cap_flags (resolveCapabilities authed role)) = map fst (cap_flags (resolveCapabilities True (Some ''admin'')))"
  by (auto simp: resolveCapabilities_def getCapability_def inRoles_def inGroups_def isAdminRole_def Let_def
      split: if_split_asm)

theorem resolveCapabilities_gated_witness:
  "getCapability (resolveCapabilities False (Some ''admin'')) ''admin.manage'' = Some True \<and>
   list_all snd (cap_flags (resolveCapabilities True (Some ''admin'')))"
proof -
  have "isAdminRole (Some ''admin'')" by (simp add: isAdminRole_def)
  then have "list_all snd (cap_flags (resolveCapabilities True (Some ''admin'')))"
    using resolveCapabilities_gated [of "Some ''admin''"] by blast
  moreover have "getCapability (resolveCapabilities False (Some ''admin'')) ''admin.manage'' = Some True" by code_simp
  ultimately show ?thesis by blast
qed

text \<open>The guarded list only removes actions: \<open>describeActionsWithGuards\<close> offers exactly the
  actions of \<open>getAvailableActions\<close> that no guard refuses, in the same order, and an action whose
  guard throws is not offered.\<close>

theorem describeActionsWithGuards_restricts:
  "fst (describeActionsWithGuards gs db n i s rc) =
     filter (\<lambda>a. guard_blocker gs db n i s a = None) (fst (getAvailableActions n s rc))"
  by (simp add: describeActionsWithGuards_def Let_def case_prod_beta filter_map comp_def)

end
