(* ===== verification/Statuses.thy ===== *)
theory Statuses
  imports LogisticsMachine
begin

text \<open>
  The three smaller status policies of the server: support conversations
  (\<open>supportConversationStateMachine.js\<close>), local deliveries (\<open>localDeliveryState.js\<close>) and jobs
  (\<open>jobStatusPolicy.js\<close>). They are instances of the same tables as the logistics machines and are
  interpreted in the same locale. Times are the milliseconds of \<open>Date.getTime()\<close>, \<open>None\<close> for an
  invalid date.
\<close>

section \<open>Support conversations\<close>

definition support_VALID_STATUSES :: "string list" where
  "support_VALID_STATUSES =
    [''open'', ''pending'', ''reopened'', ''in_progress'', ''waiting_for_customer'', ''waiting_for_agent'',
     ''escalated'', ''resolved'', ''closed'']"

definition support_TRANSITIONS :: transitions where
  "support_TRANSITIONS =
    [(''open'', [''pending'', ''in_progress'', ''waiting_for_customer'', ''waiting_for_agent'', ''escalated'', ''resolved'']),
     (''pending'', [''open'', ''in_progress'', ''waiting_for_customer'', ''waiting_for_agent'', ''escalated'', ''resolved'']),
     (''reopened'', [''open'', ''pending'', ''in_progress'', ''waiting_for_customer'', ''waiting_for_agent'', ''escalated'', ''resolved'']),
     (''in_progress'', [''pending'', ''waiting_for_customer'', ''waiting_for_agent'', ''escalated'', ''resolved'']),
     (''waiting_for_customer'', [''open'', ''pending'', ''in_progress'', ''waiting_for_agent'', ''escalated'', ''resolved'']),
     (''waiting_for_agent'', [''open'', ''pending'', ''in_progress'', ''waiting_for_customer'', ''escalated'', ''resolved'']),
     (''escalated'', [''open'', ''pending'', ''in_progress'', ''waiting_for_customer'', ''waiting_for_agent'', ''resolved'']),
     (''resolved'', [''closed'', ''reopened'']),
     (''closed'', [''reopened''])]"

definition normalStatus :: "string \<Rightarrow> string" where
  "normalStatus status = js_lower (js_trim status)"

definition isValidStatus :: "string \<Rightarrow> bool" where
  "isValidStatus status = (normalStatus status \<in> set support_VALID_STATUSES)"

definition support_canTransition :: "string \<Rightarrow> string \<Rightarrow> bool" where
  "support_canTransition from to =
     (let current = normalStatus from; next = normalStatus to in
      if \<not> isValidStatus current \<or> \<not> isValidStatus next then False
      else if current = next then True
      else (case map_of support_TRANSITIONS current of None \<Rightarrow> False | Some ts \<Rightarrow> next \<in> set ts))"

section \<open>Local deliveries\<close>

definition delivery_TERMINAL_STATUSES :: "string list" where
  "delivery_TERMINAL_STATUSES = [''delivered'', ''cancelled'', ''returned'']"

definition canStatusTransition :: "string \<Rightarrow> string \<Rightarrow> bool" where
  "canStatusTransition current requested =
     (if current = requested then True
      else if requested = ''cancelled'' then current \<in> {''posted'', ''assigned''}
      else requested = ''picked_up'' \<and> current = ''assigned''
           \<or> requested = ''in_transit'' \<and> current = ''picked_up''
           \<or> requested = ''delivered'' \<and> current = ''in_transit'')"

record delivery_job =
  dispatch_state :: string
  dj_status :: string
  helper_user_id :: "string option"

definition assignable :: "delivery_job \<Rightarrow> bool" where
  "assignable job \<longleftrightarrow>
     dispatch_state job \<in> {''internal_review'', ''internal_assignment_attempt'', ''internal_assigned'', ''exception''} \<and>
     dj_status job \<in> {''posted'', ''assigned''} \<and>
     dj_status job \<notin> set delivery_TERMINAL_STATUSES"

definition canInternalAssign :: "delivery_job option \<Rightarrow> bool" where
  "canInternalAssign job = (case job of None \<Rightarrow> False | Some j \<Rightarrow> assignable j)"

definition canReleaseToMarketplace :: "delivery_job option \<Rightarrow> bool" where
  "canReleaseToMarketplace job =
     (case job of None \<Rightarrow> False
      | Some j \<Rightarrow> assignable j \<and> (case helper_user_id j of None \<Rightarrow> True | Some h \<Rightarrow> h = []))"

definition time_less :: "int option \<Rightarrow> int option \<Rightarrow> bool" where
  "time_less a b = (case (a, b) of (Some x, Some y) \<Rightarrow> x < y | _ \<Rightarrow> False)"

definition intervalsOverlap :: "int option \<Rightarrow> int option \<Rightarrow> int option \<Rightarrow> int option \<Rightarrow> bool" where
  "intervalsOverlap startA endA startB endB = (time_less startA endB \<and> time_less startB endA)"

section \<open>Jobs\<close>

definition JOB_STATUSES :: "string list" where
  "JOB_STATUSES =
    [''draft'', ''published'', ''matched'', ''negotiating'', ''accepted'', ''in_progress'', ''completed'', ''cancelled'', ''closed'']"

definition OPEN_STATUSES :: "string list" where
  "OPEN_STATUSES = [''published'', ''matched'', ''negotiating'']"

definition PUBLIC_FEED_STATUSES :: "string list" where
  "PUBLIC_FEED_STATUSES = [''published'', ''matched'']"

definition OWNER_EDITABLE_STATUSES :: "string list" where
  "OWNER_EDITABLE_STATUSES = ''draft'' # OPEN_STATUSES"

definition BIDDABLE_STATUSES :: "string list" where
  "BIDDABLE_STATUSES = OPEN_STATUSES"

definition ACCEPTABLE_STATUSES :: "string list" where
  "ACCEPTABLE_STATUSES = OPEN_STATUSES"

definition ADMIN_EDITABLE_STATUSES :: "string list" where
  "ADMIN_EDITABLE_STATUSES = OWNER_EDITABLE_STATUSES @ [''accepted'', ''in_progress'']"

definition job_TERMINAL_STATUSES :: "string list" where
  "job_TERMINAL_STATUSES = [''completed'', ''cancelled'', ''closed'']"

definition job_TRANSITIONS :: transitions where
  "job_TRANSITIONS =
    [(''draft'', [''published'', ''cancelled'']),
     (''published'', [''accepted'', ''cancelled'']),
     (''matched'', [''published'', ''accepted'', ''cancelled'']),
     (''negotiating'', [''published'', ''accepted'', ''cancelled'']),
     (''accepted'', [''in_progress'', ''cancelled'']),
     (''in_progress'', [''completed'', ''cancelled'']),
     (''completed'', [''closed'']),
     (''cancelled'', []),
     (''closed'', [])]"

definition job_canTransition :: "string \<Rightarrow> string \<Rightarrow> bool" where
  "job_canTransition from to = (to \<in> set (allowedFrom job_TRANSITIONS from))"

definition isOwnerEditable :: "string \<Rightarrow> bool" where
  "isOwnerEditable status = (status \<in> set OWNER_EDITABLE_STATUSES)"

definition isAdminEditable :: "string \<Rightarrow> bool" where
  "isAdminEditable status = (status \<in> set ADMIN_EDITABLE_STATUSES)"

definition isBiddable :: "string \<Rightarrow> bool" where
  "isBiddable status = (status \<in> set BIDDABLE_STATUSES)"

definition isAcceptable :: "string \<Rightarrow> bool" where
  "isAcceptable status = (status \<in> set ACCEPTABLE_STATUSES)"

definition isAccepted :: "string \<Rightarrow> bool" where
  "isAccepted status = (status \<in> {''accepted'', ''in_progress''})"

section \<open>Lemmas\<close>

text \<open>The delivery rules as a table.\<close>

definition local_delivery_table :: transitions where
  "local_delivery_table =
    [(''posted'', [''cancelled'']), (''assigned'', [''picked_up'', ''cancelled'']), (''picked_up'', [''in_transit'']),
     (''in_transit'', [''delivered'']), (''delivered'', []), (''cancelled'', []), (''returned'', [])]"

lemma canStatusTransition_table:
  "canStatusTransition s t = canTransition local_delivery_table s t"
  by (auto simp: canStatusTransition_def canTransition_def local_delivery_table_def split: if_splits)

interpretation support: state_machine support_TRANSITIONS by unfold_locales code_simp
interpretation local_delivery: state_machine local_delivery_table by unfold_locales code_simp
interpretation job: state_machine job_TRANSITIONS by unfold_locales code_simp

lemma dropWhile_twice: "dropWhile P (dropWhile P s) = dropWhile P s"
  by (induction s) auto

lemma js_trim_idem: "js_trim (js_trim s) = js_trim s"
proof -
  define t u where "t = dropWhile js_space s" and "u = rev (dropWhile js_space (rev t))"
  have tu: "t = u @ rev (takeWhile js_space (rev t))"
    unfolding u_def by (metis rev_append rev_rev_ident takeWhile_dropWhile_id)
  have "dropWhile js_space u = u"
  proof (cases u)
    case (Cons c w)
    then have "t \<noteq> []" "hd t = c" using tu by (auto, metis append_Cons list.sel(1))
    then have "\<not> js_space c" using hd_dropWhile [of js_space s] t_def by metis
    then show ?thesis by (simp add: Cons)
  qed simp
  moreover have "js_trim s = u" by (simp add: js_trim_def t_def u_def)
  ultimately show ?thesis by (simp add: js_trim_def) (simp add: u_def dropWhile_twice)
qed

lemma lower_char_props [simp]:
  "lower_char (lower_char c) = lower_char c" "js_space (lower_char c) = js_space c"
  by (auto simp: lower_char_def js_space_def Let_def)

lemma js_trim_lower: "js_trim (js_lower s) = js_lower (js_trim s)"
  by (simp add: js_trim_def js_lower_def dropWhile_map rev_map comp_def)

lemma normalStatus_idem: "normalStatus (normalStatus s) = normalStatus s"
  by (simp add: normalStatus_def js_trim_lower js_trim_idem) (simp add: js_lower_def comp_def)

lemma support_states: "states support_TRANSITIONS = support_VALID_STATUSES"
  by code_simp

text \<open>a terminal support conversation is never moved silently backwards: whatever the case and
  padding of the two texts, an allowed transition joins two valid statuses, and out of \<open>closed\<close>
  leads only to \<open>closed\<close> and \<open>reopened\<close>, out of \<open>resolved\<close> only to \<open>resolved\<close>, \<open>closed\<close>
  and \<open>reopened\<close>.\<close>

theorem support_terminal_only_reopens:
  assumes "support_canTransition from to"
  shows "normalStatus to \<in> set support_VALID_STATUSES \<and> normalStatus from \<in> set support_VALID_STATUSES \<and>
    (normalStatus from = ''closed'' \<longrightarrow> normalStatus to \<in> {''closed'', ''reopened''}) \<and>
    (normalStatus from = ''resolved'' \<longrightarrow> normalStatus to \<in> {''resolved'', ''closed'', ''reopened''})"
proof -
  let ?c = "normalStatus from" and ?n = "normalStatus to"
  have valid: "isValidStatus ?c" and cases: "?c = ?n \<or> ?n \<in> set (allowedFrom support_TRANSITIONS ?c)"
    using assms by (auto simp: support_canTransition_def allowedFrom_def Let_def split: if_splits option.splits)
  then have v: "?c \<in> set support_VALID_STATUSES" by (simp add: isValidStatus_def normalStatus_idem)
  have "?n \<in> set support_VALID_STATUSES"
    using cases v support_states support.target_is_state [of ?c ?n] by (cases "?c = ?n") (auto simp: canTransition_iff)
  moreover have "allowedFrom support_TRANSITIONS ''closed'' = [''reopened'']"
      "allowedFrom support_TRANSITIONS ''resolved'' = [''closed'', ''reopened'']" by code_simp+
  ultimately show ?thesis using v cases by auto
qed

theorem support_terminal_only_reopens_witness:
  "support_canTransition '' Closed '' ''reopened'' \<and> normalStatus ''reopened'' \<in> {''closed'', ''reopened''}"
proof -
  have a: "support_canTransition '' Closed '' ''reopened''" and c: "normalStatus '' Closed '' = ''closed''"
    by code_simp+
  from support_terminal_only_reopens [OF a] c have "normalStatus ''reopened'' \<in> {''closed'', ''reopened''}" by blast
  with a show ?thesis by blast
qed

text \<open>A parcel is delivered only after it was picked up and carried: every history of allowed
  delivery transitions from \<open>posted\<close> or \<open>assigned\<close> to \<open>delivered\<close> passes through
  \<open>picked_up\<close> and \<open>in_transit\<close>, and once \<open>delivered\<close>, \<open>cancelled\<close> or \<open>returned\<close> nothing
  changes; a delivery offered on the marketplace can also be assigned internally and has no helper.\<close>

theorem local_delivery_lifecycle:
  "(run local_delivery_table s h ''delivered'' \<longrightarrow> s \<in> {''posted'', ''assigned''} \<longrightarrow>
      ''picked_up'' \<in> set h \<and> ''in_transit'' \<in> set h) \<and>
   (t \<in> set delivery_TERMINAL_STATUSES \<longrightarrow> canStatusTransition t u = (u = t)) \<and>
   (canReleaseToMarketplace (Some j) \<longrightarrow> canInternalAssign (Some j) \<and> helper_user_id j \<in> {None, Some []})"
proof (intro conjI impI)
  assume r: "run local_delivery_table s h ''delivered''" and s: "s \<in> {''posted'', ''assigned''}"
  have "fenced local_delivery_table ''picked_up'' [''posted'', ''assigned'', ''cancelled'']"
    "fenced local_delivery_table ''in_transit'' [''posted'', ''assigned'', ''cancelled'', ''picked_up'']" by code_simp+
  then show "''picked_up'' \<in> set h" "''in_transit'' \<in> set h"
    using local_delivery.gate_passed [OF r] s by (force, force)
qed (auto simp: delivery_TERMINAL_STATUSES_def canStatusTransition_def canReleaseToMarketplace_def
    canInternalAssign_def split: option.splits)

theorem local_delivery_lifecycle_witness:
  "(\<exists>h. run local_delivery_table ''assigned'' h ''delivered'' \<and> ''picked_up'' \<in> set h) \<and>
   canStatusTransition ''returned'' ''posted'' = (''posted'' = ''returned'')"
proof -
  have "legal_path local_delivery_table [''assigned'', ''picked_up'', ''in_transit'', ''delivered'']" by code_simp
  from legal_path_run [OF this] show ?thesis
    using local_delivery_lifecycle [of "''assigned''" _ "''returned''" "''posted''"]
    by (fastforce simp: delivery_TERMINAL_STATUSES_def)
qed

text \<open>A job is paid out only after work was accepted and started, and a finished job is frozen:
  every history from \<open>draft\<close> to \<open>completed\<close> or \<open>closed\<close> passes through \<open>accepted\<close> and
  \<open>in_progress\<close>, no terminal status is editable, biddable or acceptable, \<open>cancelled\<close> and
  \<open>closed\<close> have no successor, and everything the public feed shows can be bid on and edited by its
  owner.\<close>

theorem job_lifecycle:
  "(run job_TRANSITIONS ''draft'' h t \<longrightarrow> t \<in> {''completed'', ''closed''} \<longrightarrow>
      ''accepted'' \<in> set h \<and> ''in_progress'' \<in> set h) \<and>
   (s \<in> set job_TERMINAL_STATUSES \<longrightarrow>
      \<not> isOwnerEditable s \<and> \<not> isAdminEditable s \<and> \<not> isBiddable s \<and> \<not> isAcceptable s \<and> \<not> isAccepted s \<and>
      (job_canTransition s u \<longleftrightarrow> s = ''completed'' \<and> u = ''closed'')) \<and>
   (s \<in> set PUBLIC_FEED_STATUSES \<longrightarrow> isBiddable s \<and> isOwnerEditable s)"
proof (intro conjI impI)
  assume r: "run job_TRANSITIONS ''draft'' h t" and t: "t \<in> {''completed'', ''closed''}"
  let ?b = "[''draft'', ''published'', ''matched'', ''negotiating'', ''cancelled'']"
  have "fenced job_TRANSITIONS ''accepted'' ?b" "fenced job_TRANSITIONS ''in_progress'' (''accepted'' # ?b)" by code_simp+
  then show "''accepted'' \<in> set h" "''in_progress'' \<in> set h"
    using job.gate_passed [OF r] t by (force, force)
qed (auto simp: job_TERMINAL_STATUSES_def isOwnerEditable_def isAdminEditable_def isBiddable_def isAcceptable_def
    isAccepted_def OWNER_EDITABLE_STATUSES_def ADMIN_EDITABLE_STATUSES_def BIDDABLE_STATUSES_def
    ACCEPTABLE_STATUSES_def OPEN_STATUSES_def PUBLIC_FEED_STATUSES_def job_canTransition_def allowedFrom_def
    job_TRANSITIONS_def)

theorem job_lifecycle_witness:
  "(\<exists>h. run job_TRANSITIONS ''draft'' h ''completed'' \<and> ''accepted'' \<in> set h) \<and>
   \<not> isBiddable ''completed'' \<and> isOwnerEditable ''matched''"
proof -
  have "legal_path job_TRANSITIONS [''draft'', ''published'', ''accepted'', ''in_progress'', ''completed'']" by code_simp
  from legal_path_run [OF this] show ?thesis
    using job_lifecycle [of _ "''completed''" "''completed''"] job_lifecycle [of _ _ "''matched''"]
    by (fastforce simp: job_TERMINAL_STATUSES_def PUBLIC_FEED_STATUSES_def)
qed

end
