(* ===== verification/LogisticsGuards.thy ===== *)
theory LogisticsGuards
  imports LogisticsMachine
begin

text \<open>
  \<open>services/logisticsTransitionGuards.js\<close>: the four funding and fulfilment gates registered on the
  logistics state machine, the view of verified funding they read (migration 883), the recorded
  placement approval, and the sweeper that raises review exceptions for missed funding deadlines.
  Row locks (\<open>FOR UPDATE\<close>, \<open>FOR SHARE\<close>) change no row; the audit log is written by another module.
\<close>

section \<open>SQL values\<close>

text \<open>\<open>Number(v || 0)\<close> of an integer column, JavaScript truth, SQL equality, \<open>COALESCE(v, w)\<close>, \<open>v < now\<close>.\<close>

definition num0 :: "sqlval \<Rightarrow> int" where
  "num0 v = (case v of SInt n \<Rightarrow> n | _ \<Rightarrow> 0)"

definition truthy :: "sqlval \<Rightarrow> bool" where
  "truthy v = (case v of SNull \<Rightarrow> False | SInt n \<Rightarrow> n \<noteq> 0 | SText s \<Rightarrow> s \<noteq> [] | SBool b \<Rightarrow> b | _ \<Rightarrow> True)"

definition sql_eq :: "sqlval \<Rightarrow> sqlval \<Rightarrow> bool" where
  "sql_eq v w \<longleftrightarrow> v \<noteq> SNull \<and> v = w"

definition coalesce :: "sqlval \<Rightarrow> sqlval \<Rightarrow> sqlval" where
  "coalesce v w = (if v = SNull then w else v)"

definition in_texts :: "sqlval \<Rightarrow> string list \<Rightarrow> bool" where
  "in_texts v ts = (case v of SText s \<Rightarrow> s \<in> set ts | _ \<Rightarrow> False)"

definition past :: "int \<Rightarrow> sqlval \<Rightarrow> bool" where
  "past now v = (case v of STime t \<Rightarrow> t < now | _ \<Rightarrow> False)"

section \<open>Verified funding\<close>

definition refunded_cents :: "rows \<Rightarrow> row \<Rightarrow> int" where
  "refunded_cents db a =
     sum_list (map (\<lambda>r. num0 (r ''amount_cents''))
       (filter (\<lambda>r. sql_eq (r ''original_payment_attempt_id'') (a ''id'') \<and>
                    in_texts (r ''status'') [''proposed'', ''approved'', ''executing'', ''processed''])
          (db ''logistics_refund_cases'')))"

text \<open>\<open>COALESCE(net_paid_cents, 0)\<close> of \<open>logistics_verified_funding\<close> for a subject and installment.\<close>

definition net_paid_cents :: "rows \<Rightarrow> string \<Rightarrow> sqlval \<Rightarrow> string \<Rightarrow> int" where
  "net_paid_cents db subjectType subjectId installment =
     sum_list (map (\<lambda>a. max 0 (num0 (a ''amount_cents'') - refunded_cents db a))
       (filter (\<lambda>a. a ''status'' = SText ''succeeded'' \<and> a ''subject_type'' = SText subjectType \<and>
                    sql_eq (coalesce (a ''purchase_order_id'') (a ''participant_id'')) subjectId \<and>
                    a ''installment'' = SText installment)
          (db ''logistics_payment_attempts'')))"

text \<open>\<open>ORDER BY version DESC LIMIT 1\<close>.\<close>

fun newest :: "row list \<Rightarrow> row option" where
  "newest [] = None"
| "newest (q # qs) =
     (case newest qs of None \<Rightarrow> Some q
      | Some p \<Rightarrow> if num0 (q ''version'') < num0 (p ''version'') then Some p else Some q)"

definition live_quote :: "row \<Rightarrow> bool" where
  "live_quote q = in_texts (q ''status'') [''active'', ''accepted'']"

definition subjectFullyFunded :: "rows \<Rightarrow> string \<Rightarrow> sqlval \<Rightarrow> string \<Rightarrow> bool" where
  "subjectFullyFunded db subjectType subjectId installment =
     (case newest (filter (\<lambda>q. q ''subject_type'' = SText subjectType \<and>
                     sql_eq (coalesce (q ''purchase_order_id'') (q ''participant_id'')) subjectId \<and> live_quote q)
             (db ''logistics_buyer_quotes'')) of
        None \<Rightarrow> False
      | Some q \<Rightarrow>
          q ''status'' = SText ''accepted'' \<and>
          num0 (q ''deposit_cents'') \<le> net_paid_cents db subjectType subjectId ''deposit'' \<and>
          (installment = ''deposit'' \<or>
           num0 (q ''final_cents'') \<le> net_paid_cents db subjectType subjectId ''final''))"

text \<open>The committed quantity of the participants whose accepted quote has its deposit paid.\<close>

definition deposit_funded :: "rows \<Rightarrow> row \<Rightarrow> bool" where
  "deposit_funded db p =
     (case newest (filter (\<lambda>q. sql_eq (q ''participant_id'') (p ''id'') \<and> live_quote q) (db ''logistics_buyer_quotes'')) of
        None \<Rightarrow> False
      | Some q \<Rightarrow> q ''status'' = SText ''accepted'' \<and>
          num0 (q ''deposit_cents'') \<le> net_paid_cents db ''pooled_participant'' (p ''id'') ''deposit'')"

definition funded_qty :: "rows \<Rightarrow> sqlval \<Rightarrow> int" where
  "funded_qty db orderId =
     sum_list (map (\<lambda>p. if deposit_funded db p then num0 (p ''committed_qty'') else 0)
       (filter (\<lambda>p. sql_eq (p ''pooled_order_id'') orderId \<and> p ''status'' \<noteq> SNull \<and>
                    \<not> in_texts (p ''status'') [''refunded'', ''disputed''])
          (db ''pooled_order_participants'')))"

section \<open>Gates\<close>

definition by_id :: "rows \<Rightarrow> string \<Rightarrow> sqlval \<Rightarrow> row option" where
  "by_id db t v = find (\<lambda>r. sql_eq (r ''id'') v) (db t)"

definition acceptedQuoteExists :: "sqlval \<Rightarrow> bool" where
  "acceptedQuoteExists quoteStatus = (quoteStatus = SText ''accepted'')"

definition guardDepositPhase :: guard where
  "guardDepositPhase db ctx =
     (case by_id db ''pooled_orders'' (SInt (ctx_id ctx)) of
        None \<Rightarrow> Inr (Some \<lparr>bl_code = ''campaign_not_found'', bl_details = [(''pooledOrderId'', SInt (ctx_id ctx))]\<rparr>)
      | Some po \<Rightarrow>
          let committed = num0 (po ''current_committed_qty''); targetMoq = num0 (po ''target_moq'');
              quote_status = (case by_id db ''supplier_quotes'' (po ''supplier_quote_id'') of
                                None \<Rightarrow> SNull | Some sq \<Rightarrow> sq ''status'') in
          Inr (if \<not> targetMoq \<le> committed
               then Some \<lparr>bl_code = ''min_demand_not_met'',
                          bl_details = [(''committed'', SInt committed), (''targetMoq'', SInt targetMoq)]\<rparr>
               else if \<not> truthy (po ''supplier_quote_id'') \<or> \<not> acceptedQuoteExists quote_status
               then Some \<lparr>bl_code = ''no_approved_quote'', bl_details = []\<rparr>
               else if \<not> truthy (po ''deposit_deadline'')
               then Some \<lparr>bl_code = ''deposit_deadline_missing'', bl_details = []\<rparr>
               else None))"

definition placement_approved :: "rows \<Rightarrow> sqlval \<Rightarrow> bool" where
  "placement_approved db orderId =
     list_ex (\<lambda>d. sql_eq (d ''pooled_order_id'') orderId \<and> d ''decision'' = SText ''placement_approved'')
       (db ''logistics_campaign_approval_decisions'')"

definition guardSupplierPlacement :: guard where
  "guardSupplierPlacement db ctx =
     (case by_id db ''pooled_orders'' (SInt (ctx_id ctx)) of
        None \<Rightarrow> Inr (Some \<lparr>bl_code = ''campaign_not_found'', bl_details = [(''pooledOrderId'', SInt (ctx_id ctx))]\<rparr>)
      | Some po \<Rightarrow>
          let fundedQty = funded_qty db (po ''id''); targetMoq = num0 (po ''target_moq'') in
          Inr (if \<not> targetMoq \<le> fundedQty
               then Some \<lparr>bl_code = ''deposit_funding_shortfall'',
                          bl_details = [(''fundedQty'', SInt fundedQty), (''targetMoq'', SInt targetMoq)]\<rparr>
               else if \<not> placement_approved db (po ''id'')
               then Some \<lparr>bl_code = ''placement_approval_missing'', bl_details = []\<rparr>
               else None))"

text \<open>The blocker keeps only \<open>participantId\<close> of the details it is given.\<close>

definition final_balance_not_collected :: "sqlval \<Rightarrow> blocker" where
  "final_balance_not_collected participantId =
     \<lparr>bl_code = ''final_balance_not_collected'', bl_details = [(''participantId'', participantId)]\<rparr>"

definition guardPurchasePlacement :: guard where
  "guardPurchasePlacement db ctx =
     Inr (if subjectFullyFunded db ''purchase_order'' (SInt (ctx_id ctx)) ''deposit'' then None
          else Some (final_balance_not_collected SNull))"

definition allocation_subject :: "rows \<Rightarrow> int \<Rightarrow> (row \<times> row) option" where
  "allocation_subject db i =
     (case concat (map (\<lambda>ia. map (\<lambda>ir. (ia, ir))
              (filter (\<lambda>ir. sql_eq (ir ''id'') (ia ''inventory_receipt_id'')) (db ''inventory_receipts'')))
            (filter (\<lambda>ia. ia ''id'' = SInt i) (db ''inventory_allocations''))) of
        [] \<Rightarrow> None | x # _ \<Rightarrow> Some x)"

definition guardReleaseAllocation :: guard where
  "guardReleaseAllocation db ctx =
     (case allocation_subject db (ctx_id ctx) of
        None \<Rightarrow> Inr (Some \<lparr>bl_code = ''allocation_not_found'', bl_details = [(''allocationId'', SInt (ctx_id ctx))]\<rparr>)
      | Some (ia, ir) \<Rightarrow>
          let kind = (if truthy (ia ''participant_id'') then ''pooled_participant'' else ''purchase_order'');
              subjectId = (if truthy (ia ''participant_id'') then ia ''participant_id'' else ir ''purchase_order_id'') in
          Inr (if \<not> truthy subjectId then Some \<lparr>bl_code = ''no_payment_subject_linked'', bl_details = []\<rparr>
               else if subjectFullyFunded db kind subjectId ''final'' then None
               else Some (final_balance_not_collected (ia ''participant_id''))))"

definition registerLogisticsGuards :: guards where
  "registerLogisticsGuards =
     [(guardKey ''purchase_order'' ''placed_with_supplier'', guardPurchasePlacement),
      (guardKey ''inventory_allocation'' ''released'', guardReleaseAllocation),
      (guardKey ''pooled_order'' ''placed'', guardSupplierPlacement),
      (guardKey ''pooled_order'' ''deposit_phase'', guardDepositPhase)]"

section \<open>Placement approval\<close>

definition recordPlacementApproval ::
  "int \<Rightarrow> int \<Rightarrow> sqlval \<Rightarrow> sqlval \<Rightarrow> sqlval \<Rightarrow> (rows, row) tx" where
  "recordPlacementApproval newId now pooledOrderId decidedByUserId reason = (\<lambda>db.
     let rcd = (\<lambda>c. SNull)(''id'' := SInt newId, ''pooled_order_id'' := pooledOrderId,
                 ''decision'' := SText ''placement_approved'', ''from_state'' := SText ''locked'',
                 ''to_state'' := SText ''placed'', ''decided_by_user_id'' := decidedByUserId,
                 ''reason'' := reason, ''created_at'' := STime now) in
     (Inr rcd, db(''logistics_campaign_approval_decisions'' :=
                    db ''logistics_campaign_approval_decisions'' @ [rcd])))"

section \<open>Missed funding\<close>

text \<open>\<open>fresh\<close> gives the id and the random reference of the next row.\<close>

definition open_exception :: "sqlval \<Rightarrow> string \<Rightarrow> row \<Rightarrow> bool" where
  "open_exception orderId exceptionType x \<longleftrightarrow>
     x ''pooled_order_id'' = orderId \<and> x ''exception_type'' = SText exceptionType \<and> x ''status'' = SText ''open''"

definition raiseReviewException ::
  "(nat \<Rightarrow> int \<times> string) \<Rightarrow> int \<Rightarrow> sqlval \<Rightarrow> string \<Rightarrow> (string \<times> sqlval) list \<Rightarrow> (rows, row option) tx" where
  "raiseReviewException fresh now pooledOrderId exceptionType ds = (\<lambda>db.
     let xs = db ''logistics_review_exceptions'' in
     if list_ex (open_exception pooledOrderId exceptionType) xs then (Inr None, db)
     else let (newId, ref) = fresh (length xs);
              rcd = (\<lambda>c. SNull)(''id'' := SInt newId, ''reference'' := SText ref,
                      ''pooled_order_id'' := pooledOrderId, ''exception_type'' := SText exceptionType,
                      ''status'' := SText ''open'', ''details'' := SJson ds, ''raised_at'' := STime now) in
          (Inr (Some rcd), db(''logistics_review_exceptions'' := xs @ [rcd])))"

definition shortfalls :: "int \<Rightarrow> nat \<Rightarrow> rows \<Rightarrow> row list" where
  "shortfalls now limit db =
     take limit (filter (\<lambda>po. po ''status'' = SText ''deposit_phase'' \<and> past now (po ''deposit_deadline'') \<and>
                              funded_qty db (po ''id'') < num0 (po ''target_moq'')) (db ''pooled_orders''))"

definition unmet :: "int \<Rightarrow> nat \<Rightarrow> rows \<Rightarrow> row list" where
  "unmet now limit db =
     take limit (filter (\<lambda>po. po ''status'' = SText ''pledging'' \<and> past now (po ''close_date'') \<and>
                              num0 (po ''current_committed_qty'') < num0 (po ''target_moq'')) (db ''pooled_orders''))"

fun raiseAll ::
  "(nat \<Rightarrow> int \<times> string) \<Rightarrow> int \<Rightarrow> string \<Rightarrow> (row \<Rightarrow> (string \<times> sqlval) list) \<Rightarrow> row list \<Rightarrow> (rows, row list) tx" where
  "raiseAll fresh now exceptionType mk [] = ret []"
| "raiseAll fresh now exceptionType mk (po # pos) =
     bind (raiseReviewException fresh now (po ''id'') exceptionType (mk po)) (\<lambda>raised.
     bind (raiseAll fresh now exceptionType mk pos) (\<lambda>rest.
     ret (case raised of None \<Rightarrow> rest | Some r \<Rightarrow> r # rest)))"

record sweep_result =
  sw_checked :: nat
  sw_raised :: nat
  sw_exceptions :: "row list"

definition sweepFundingDeadlines :: "(nat \<Rightarrow> int \<times> string) \<Rightarrow> int \<Rightarrow> nat \<Rightarrow> (rows, sweep_result) tx" where
  "sweepFundingDeadlines fresh now limit =
     bind (gets (\<lambda>db. (shortfalls now limit db, db))) (\<lambda>(pos, db).
     bind (raiseAll fresh now ''funding_shortfall''
             (\<lambda>po. [(''reference'', po ''reference''), (''targetMoq'', po ''target_moq''),
                    (''fundedQty'', SInt (funded_qty db (po ''id''))), (''depositDeadline'', po ''deposit_deadline'')]) pos) (\<lambda>raised1.
     bind (gets (unmet now limit)) (\<lambda>pos2.
     bind (raiseAll fresh now ''min_demand_unmet''
             (\<lambda>po. [(''reference'', po ''reference''), (''targetMoq'', po ''target_moq''),
                    (''committedQty'', SInt (num0 (po ''current_committed_qty''))), (''closeDate'', po ''close_date'')]) pos2) (\<lambda>raised2.
     ret \<lparr>sw_checked = length pos + length pos2, sw_raised = length (raised1 @ raised2), sw_exceptions = raised1 @ raised2\<rparr>))))"

section \<open>Properties\<close>

lemma registered:
  "getTransitionGuard registerLogisticsGuards ''purchase_order'' ''placed_with_supplier'' = Some guardPurchasePlacement"
  "getTransitionGuard registerLogisticsGuards ''inventory_allocation'' ''released'' = Some guardReleaseAllocation"
  "getTransitionGuard registerLogisticsGuards ''pooled_order'' ''placed'' = Some guardSupplierPlacement"
  "getTransitionGuard registerLogisticsGuards ''pooled_order'' ''deposit_phase'' = Some guardDepositPhase"
  by (simp_all add: getTransitionGuard_def registerLogisticsGuards_def guardKey_def)

lemma gate_passed_guard:
  assumes "applyTransition gs accepts now q db = (Inr (Applied rcd from to), db')" "from \<noteq> to"
    and "getTransitionGuard gs (rentity q) to = Some g"
  shows "g db \<lparr>ctx_id = rid q, ctx_from = from, ctx_to = to\<rparr> = Inr None"
  using applyTransition_cases [OF assms(1)] assms(2,3) by auto

text \<open>
  The guard of the deposit phase reads the row as it was before the update. A deadline that is set by the same call does
  not satisfy it, although \<open>updatePooledOrderStatus\<close> says so: such a call is refused until the row has a deadline.
\<close>

lemma deadline_in_same_call_is_refused:
  assumes "rentity q = ''pooled_order''" and "from \<noteq> ''deposit_phase''"
    and "by_id db ''pooled_orders'' (SInt (rid q)) = Some po" and "\<not> truthy (po ''deposit_deadline'')"
  shows "applyTransition registerLogisticsGuards accepts now (q\<lparr>rset := [(''deposit_deadline'', d)]\<rparr>) db \<noteq>
    (Inr (Applied rcd from ''deposit_phase''), db')"
proof
  let ?q = "q\<lparr>rset := [(''deposit_deadline'', d)]\<rparr>"
  assume a: "applyTransition registerLogisticsGuards accepts now ?q db = (Inr (Applied rcd from ''deposit_phase''), db')"
  have "guardDepositPhase db \<lparr>ctx_id = rid ?q, ctx_from = from, ctx_to = ''deposit_phase''\<rparr> = Inr None"
    by (rule gate_passed_guard [OF a assms(2)]) (simp add: assms(1) registered(4))
  with assms(3,4) show False by (simp add: guardDepositPhase_def Let_def split: if_splits)
qed

text \<open>C35: goods and supplier orders wait for the money: whenever the status of a record is moved to
  a gated state, in the database state before the update the purchase order has its accepted quote's
  deposit collected, the released allocation belongs to a subject whose deposit and final balance are
  collected, the placed campaign has enough deposit-funded quantity and a recorded placement
  approval, and the campaign entering the deposit phase has its minimum demand, an accepted supplier
  quote and a deadline. The deadline must be there before the call: one that the same call sets does
  not count, against the comment of \<open>updatePooledOrderStatus\<close>.\<close>

theorem funding_gates_enforced:
  assumes "applyTransition registerLogisticsGuards accepts now q db = (Inr (Applied rcd from to), db')"
    and "from \<noteq> to"
  shows
    "(rentity q = ''purchase_order'' \<and> to = ''placed_with_supplier'' \<longrightarrow>
        subjectFullyFunded db ''purchase_order'' (SInt (rid q)) ''deposit'') \<and>
     (rentity q = ''inventory_allocation'' \<and> to = ''released'' \<longrightarrow>
        (\<exists>ia ir. allocation_subject db (rid q) = Some (ia, ir) \<and>
           (if truthy (ia ''participant_id'')
            then subjectFullyFunded db ''pooled_participant'' (ia ''participant_id'') ''final''
            else subjectFullyFunded db ''purchase_order'' (ir ''purchase_order_id'') ''final''))) \<and>
     (rentity q = ''pooled_order'' \<and> to = ''placed'' \<longrightarrow>
        (\<exists>po. by_id db ''pooled_orders'' (SInt (rid q)) = Some po \<and>
           num0 (po ''target_moq'') \<le> funded_qty db (po ''id'') \<and> placement_approved db (po ''id''))) \<and>
     (rentity q = ''pooled_order'' \<and> to = ''deposit_phase'' \<longrightarrow>
        (\<exists>po sq. by_id db ''pooled_orders'' (SInt (rid q)) = Some po \<and>
           num0 (po ''target_moq'') \<le> num0 (po ''current_committed_qty'') \<and>
           by_id db ''supplier_quotes'' (po ''supplier_quote_id'') = Some sq \<and>
           sq ''status'' = SText ''accepted'' \<and> truthy (po ''deposit_deadline'')))"
  (is "?P1 \<and> ?P2 \<and> ?P3 \<and> ?P4")
proof (intro conjI)
  note g = gate_passed_guard [OF assms]
  show ?P1
    using g [of guardPurchasePlacement] registered(1)
    by (auto simp: guardPurchasePlacement_def split: if_splits)
  show ?P2
    using g [of guardReleaseAllocation] registered(2)
    by (auto simp: guardReleaseAllocation_def Let_def split: if_splits option.splits) metis+
  show ?P3
    using g [of guardSupplierPlacement] registered(3)
    by (auto simp: guardSupplierPlacement_def Let_def split: if_splits option.splits)
  show ?P4
    using g [of guardDepositPhase] registered(4)
    by (auto simp: guardDepositPhase_def acceptedQuoteExists_def Let_def split: if_splits option.splits)
qed

text \<open>A purchase order with a paid deposit.\<close>

definition sample_paid :: rows where
  "sample_paid = (\<lambda>t.
     if t = ''purchase_orders'' then [(\<lambda>c. SNull)(''id'' := SInt 1, ''status'' := SText ''deposit_collected'')]
     else if t = ''logistics_buyer_quotes''
     then [(\<lambda>c. SNull)(''subject_type'' := SText ''purchase_order'', ''purchase_order_id'' := SInt 1,
             ''status'' := SText ''accepted'', ''version'' := SInt 2, ''deposit_cents'' := SInt 500)]
     else if t = ''logistics_payment_attempts''
     then [(\<lambda>c. SNull)(''id'' := SInt 9, ''subject_type'' := SText ''purchase_order'', ''purchase_order_id'' := SInt 1,
             ''installment'' := SText ''deposit'', ''status'' := SText ''succeeded'', ''amount_cents'' := SInt 500)]
     else [])"

theorem funding_gates_enforced_witness:
  "\<exists>rcd db'. applyTransition registerLogisticsGuards (\<lambda>_ _. True) 0
       \<lparr>rentity = ''purchase_order'', rid = 1, rto = Some ''placed_with_supplier'', rset = [],
        nowColumns = [''placed_with_supplier_at''], appendNotes = None, idColumn = ''id''\<rparr> sample_paid
       = (Inr (Applied rcd ''deposit_collected'' ''placed_with_supplier''), db') \<and>
     subjectFullyFunded sample_paid ''purchase_order'' (SInt 1) ''deposit''"
proof -
  let ?q = "\<lparr>rentity = ''purchase_order'', rid = 1, rto = Some ''placed_with_supplier'', rset = [],
        nowColumns = [''placed_with_supplier_at''], appendNotes = None, idColumn = ''id''\<rparr> :: request"
  have cols: "assertRequest ?q = Inr ()"
    by (simp add: assertRequest_def request_columns_def assertTransitionColumn_def is_identifier_def
        ident_start_def allowed_columns_def TRANSITION_COLUMN_ALLOWLIST_def)
  have f: "subjectFullyFunded sample_paid ''purchase_order'' (SInt 1) ''deposit''"
    by (simp add: subjectFullyFunded_def sample_paid_def live_quote_def in_texts_def sql_eq_def coalesce_def
        net_paid_cents_def refunded_cents_def num0_def)
  have t: "sample_paid ''purchase_orders'' = [(\<lambda>c. SNull)(''id'' := SInt 1, ''status'' := SText ''deposit_collected'')]"
    by (simp add: sample_paid_def)
  obtain rcd db' where a: "applyTransition registerLogisticsGuards (\<lambda>_ _. True) 0 ?q sample_paid
      = (Inr (Applied rcd ''deposit_collected'' ''placed_with_supplier''), db')"
    using cols f registered(1) t
    by (simp add: applyTransition_def ENTITIES_def canTransition_def PO_TRANSITIONS_def updated_row_def stored_row_def
        logistics_touch_updated_at_def touched_tables_def enforce_purchase_order_state_integrity_def trigger_graph_def guardPurchasePlacement_def set_columns_def request_columns_def Let_def)
  then show ?thesis using funding_gates_enforced [OF a] by simp
qed

subsection \<open>The sweeper\<close>

abbreviation exceptions_table :: string where
  "exceptions_table \<equiv> ''logistics_review_exceptions''"

lemma net_paid_frame: "net_paid_cents (db(exceptions_table := xs)) ty v i = net_paid_cents db ty v i"
  by (simp add: net_paid_cents_def refunded_cents_def)

lemma deposit_funded_frame: "deposit_funded (db(exceptions_table := xs)) p = deposit_funded db p"
  unfolding deposit_funded_def net_paid_frame by simp

lemma funded_qty_frame: "funded_qty (db(exceptions_table := xs)) v = funded_qty db v"
  unfolding funded_qty_def deposit_funded_frame by simp

lemmas funding_frame = net_paid_frame deposit_funded_frame funded_qty_frame

lemma sweep_queries_frame:
  "shortfalls now l (db(exceptions_table := xs)) = shortfalls now l db"
  "unmet now l (db(exceptions_table := xs)) = unmet now l db"
  by (simp_all add: shortfalls_def unmet_def funding_frame)

definition reported :: "string \<Rightarrow> row list \<Rightarrow> row list \<Rightarrow> bool" where
  "reported ty pos xs \<longleftrightarrow> (\<forall>po \<in> set pos. list_ex (open_exception (po ''id'') ty) xs)"

lemma reported_append: "reported ty pos xs \<Longrightarrow> reported ty pos (xs @ ys)"
  by (simp add: reported_def)

lemma raiseAll_spec:
  "\<exists>new. raiseAll fresh now ty mk pos db = (Inr new, db(exceptions_table := db exceptions_table @ new)) \<and>
     reported ty pos (db exceptions_table @ new) \<and>
     (\<forall>x \<in> set new. \<exists>po \<in> set pos. open_exception (po ''id'') ty x)"
proof (induction pos arbitrary: db)
  case Nil
  show ?case by (intro exI [of _ "[]"]) (simp add: reported_def)
next
  case (Cons po pos)
  show ?case
  proof (cases "list_ex (open_exception (po ''id'') ty) (db exceptions_table)")
    case True
    from Cons.IH [of db] obtain new where
      "raiseAll fresh now ty mk pos db = (Inr new, db(exceptions_table := db exceptions_table @ new))"
      "reported ty pos (db exceptions_table @ new)" "\<forall>x \<in> set new. \<exists>po \<in> set pos. open_exception (po ''id'') ty x"
      by blast
    with True show ?thesis
      by (intro exI [of _ new]) (auto simp: bind_def raiseReviewException_def reported_def Let_def)
  next
    case False
    obtain i s where f: "fresh (length (db exceptions_table)) = (i, s)" by (cases "fresh (length (db exceptions_table))")
    define x :: row where "x = (\<lambda>c. SNull)(''id'' := SInt i, ''reference'' := SText s,
                      ''pooled_order_id'' := po ''id'', ''exception_type'' := SText ty,
                      ''status'' := SText ''open'', ''details'' := SJson (mk po), ''raised_at'' := STime now)"
    have x: "open_exception (po ''id'') ty x" by (simp add: open_exception_def x_def)
    let ?db = "db(exceptions_table := db exceptions_table @ [x])"
    have r: "raiseReviewException fresh now (po ''id'') ty (mk po) db = (Inr (Some x), ?db)"
      using False f by (simp add: raiseReviewException_def Let_def x_def)
    obtain new where
      "raiseAll fresh now ty mk pos ?db = (Inr new, db(exceptions_table := (db exceptions_table @ [x]) @ new))"
      "reported ty pos ((db exceptions_table @ [x]) @ new)" "\<forall>x \<in> set new. \<exists>po \<in> set pos. open_exception (po ''id'') ty x"
      using Cons.IH [of ?db] unfolding fun_upd_same fun_upd_upd by blast
    with x r show ?thesis
      by (intro exI [of _ "x # new"]) (auto simp: bind_def reported_def)
  qed
qed

lemma raiseAll_reported:
  "reported ty pos (db exceptions_table) \<Longrightarrow> raiseAll fresh now ty mk pos db = (Inr [], db)"
  by (induction pos) (simp_all add: bind_def raiseReviewException_def reported_def Let_def)

lemma sweep_spec:
  "\<exists>new1 new2. let xs = db exceptions_table in
     sweepFundingDeadlines fresh now limit db =
       (Inr \<lparr>sw_checked = length (shortfalls now limit db) + length (unmet now limit db),
             sw_raised = length (new1 @ new2), sw_exceptions = new1 @ new2\<rparr>,
        db(exceptions_table := xs @ new1 @ new2)) \<and>
     reported ''funding_shortfall'' (shortfalls now limit db) (xs @ new1 @ new2) \<and>
     reported ''min_demand_unmet'' (unmet now limit db) (xs @ new1 @ new2) \<and>
     (\<forall>x \<in> set new1. \<exists>po \<in> set (shortfalls now limit db). open_exception (po ''id'') ''funding_shortfall'' x) \<and>
     (\<forall>x \<in> set new2. \<exists>po \<in> set (unmet now limit db). open_exception (po ''id'') ''min_demand_unmet'' x)"
proof -
  let ?mk1 = "\<lambda>po. [(''reference'', po ''reference''), (''targetMoq'', po ''target_moq''),
                    (''fundedQty'', SInt (funded_qty db (po ''id''))), (''depositDeadline'', po ''deposit_deadline'')]"
  let ?mk2 = "\<lambda>po. [(''reference'', po ''reference''), (''targetMoq'', po ''target_moq''),
                    (''committedQty'', SInt (num0 (po ''current_committed_qty''))), (''closeDate'', po ''close_date'')]"
  obtain new1 where n1: "raiseAll fresh now ''funding_shortfall'' ?mk1 (shortfalls now limit db) db
        = (Inr new1, db(exceptions_table := db exceptions_table @ new1))"
      "reported ''funding_shortfall'' (shortfalls now limit db) (db exceptions_table @ new1)"
      "\<forall>x \<in> set new1. \<exists>po \<in> set (shortfalls now limit db). open_exception (po ''id'') ''funding_shortfall'' x"
    using raiseAll_spec by blast
  let ?db = "db(exceptions_table := db exceptions_table @ new1)"
  obtain new2 where n2: "raiseAll fresh now ''min_demand_unmet'' ?mk2 (unmet now limit db) ?db
        = (Inr new2, ?db(exceptions_table := ?db exceptions_table @ new2))"
      "reported ''min_demand_unmet'' (unmet now limit db) (?db exceptions_table @ new2)"
      "\<forall>x \<in> set new2. \<exists>po \<in> set (unmet now limit db). open_exception (po ''id'') ''min_demand_unmet'' x"
    using raiseAll_spec by blast
  show ?thesis
    using n1 n2 reported_append [OF n1(2), of new2]
    by (intro exI [of _ new1] exI [of _ new2])
      (simp add: sweepFundingDeadlines_def bind_def sweep_queries_frame Let_def)
qed

text \<open>the deadline sweeper only reports: it always returns, changes nothing but the table of
  review exceptions, to which it appends open exceptions of campaigns it found in arrears, and run
  again at the same time it raises none and changes nothing.\<close>

theorem sweepFundingDeadlines_idempotent:
  "\<exists>r db'. sweepFundingDeadlines fresh now limit db = (Inr r, db') \<and>
     (\<forall>t. t \<noteq> exceptions_table \<longrightarrow> db' t = db t) \<and>
     db' exceptions_table = db exceptions_table @ sw_exceptions r \<and>
     (\<forall>x \<in> set (sw_exceptions r). \<exists>po \<in> set (db ''pooled_orders'').
        x ''pooled_order_id'' = po ''id'' \<and> x ''status'' = SText ''open'') \<and>
     sweepFundingDeadlines fresh' now limit db' = (Inr \<lparr>sw_checked = sw_checked r, sw_raised = 0, sw_exceptions = []\<rparr>, db')"
proof -
  obtain new1 new2 where s: "sweepFundingDeadlines fresh now limit db =
       (Inr \<lparr>sw_checked = length (shortfalls now limit db) + length (unmet now limit db),
             sw_raised = length (new1 @ new2), sw_exceptions = new1 @ new2\<rparr>,
        db(exceptions_table := db exceptions_table @ new1 @ new2))"
     and rep: "reported ''funding_shortfall'' (shortfalls now limit db) (db exceptions_table @ new1 @ new2)"
       "reported ''min_demand_unmet'' (unmet now limit db) (db exceptions_table @ new1 @ new2)"
     and src: "\<forall>x \<in> set new1. \<exists>po \<in> set (shortfalls now limit db). open_exception (po ''id'') ''funding_shortfall'' x"
       "\<forall>x \<in> set new2. \<exists>po \<in> set (unmet now limit db). open_exception (po ''id'') ''min_demand_unmet'' x"
    using sweep_spec [where fresh = fresh and now = now and limit = limit and db = db] unfolding Let_def by blast
  have "set (shortfalls now limit db) \<subseteq> set (db ''pooled_orders'')" "set (unmet now limit db) \<subseteq> set (db ''pooled_orders'')"
    by (auto simp: shortfalls_def unmet_def dest: in_set_takeD)
  with src have "\<forall>x \<in> set (new1 @ new2). \<exists>po \<in> set (db ''pooled_orders'').
        x ''pooled_order_id'' = po ''id'' \<and> x ''status'' = SText ''open''"
    unfolding open_exception_def set_append by blast
  moreover have "sweepFundingDeadlines fresh' now limit (db(exceptions_table := db exceptions_table @ new1 @ new2))
     = (Inr \<lparr>sw_checked = length (shortfalls now limit db) + length (unmet now limit db), sw_raised = 0, sw_exceptions = []\<rparr>,
        db(exceptions_table := db exceptions_table @ new1 @ new2))"
    using rep by (simp add: sweepFundingDeadlines_def bind_def sweep_queries_frame raiseAll_reported Let_def)
  ultimately show ?thesis using s by simp
qed

definition sample_late :: rows where
  "sample_late = (\<lambda>t. if t = ''pooled_orders''
     then [(\<lambda>c. SNull)(''id'' := SInt 3, ''status'' := SText ''pledging'', ''close_date'' := STime 50, ''target_moq'' := SInt 10)]
     else [])"

theorem sweepFundingDeadlines_idempotent_witness:
  "\<exists>r db'. sweepFundingDeadlines (\<lambda>n. (int n, ''LRE'')) 100 200 sample_late = (Inr r, db') \<and> sw_raised r = 1 \<and>
     db' ''pooled_orders'' = sample_late ''pooled_orders''"
proof -
  obtain r db' where r: "sweepFundingDeadlines (\<lambda>n. (int n, ''LRE'')) 100 200 sample_late = (Inr r, db')"
      "\<forall>t. t \<noteq> exceptions_table \<longrightarrow> db' t = sample_late t"
    using sweepFundingDeadlines_idempotent [of "\<lambda>n. (int n, ''LRE'')" 100 200 sample_late] by blast
  have "shortfalls 100 200 sample_late = []" "length (unmet 100 200 sample_late) = 1"
    by (simp_all add: shortfalls_def unmet_def sample_late_def past_def num0_def)
  moreover have "sample_late exceptions_table = []" by (simp add: sample_late_def)
  ultimately have "sw_raised r = 1"
    using r(1) by (cases "unmet 100 200 sample_late")
      (auto simp: sweepFundingDeadlines_def bind_def raiseReviewException_def Let_def)
  with r show ?thesis by auto
qed

end
