(* ===== verification/CreditLimits.thy ===== *)
theory CreditLimits
  imports Prelude
begin

text \<open>
  \<open>services/creditCompliance/limitRules.js\<close>: credit limits as data. The two tables
  \<open>credit_limit_rules\<close> and \<open>credit_limit_reference_rates\<close> and the append-only history, the
  snapshot a process reads them from, the translation of a limit into another currency, the choice
  of the most specific rule, and the administrator's updates. Environment variables, the clock and
  the production flag are arguments. Timers (periodic refresh, delayed reload after an update) and
  the read model for administrators are left out: they only decide when \<open>warmLimitRules\<close> runs.
\<close>

section \<open>Data\<close>

record rule =
  ru_id :: "int option"
  ru_scope :: string
  ru_scopeCode :: string
  ru_tier :: "int option"
  ru_key :: string
  ru_amountMinor :: int
  ru_currency :: string

record stored_rule = rule +
  ru_active :: bool
  ru_note :: "string option"
  ru_updated_by :: "string option"
  ru_updated_at :: int

record snapshot =
  sn_at :: int
  sn_rules :: "rule list"
  sn_rates :: "(string \<times> string) list"

record stored_rate =
  ra_currency :: string
  ra_units :: string
  ra_source :: string
  ra_as_of :: string

record rule_change =
  ch_rule_id :: "int option"
  ch_before :: "stored_rule option"
  ch_after :: stored_rule
  ch_changed_by :: "string option"
  ch_approved_by :: "string option"
  ch_pending_action :: "string option"

record limit_db =
  credit_limit_rules :: "stored_rule list"
  reference_rates :: "stored_rate list"
  rule_history :: "rule_change list"

record limit_env =
  le_env :: "string \<Rightarrow> string option"
  le_now :: int
  le_production :: bool

definition STALE_MS :: int where
  "STALE_MS = 15 * 60000"

definition SEED_REFERENCE_RATES :: "(string \<times> string) list" where
  "SEED_REFERENCE_RATES =
    [(''USD'', ''1''), (''AED'', ''3.6725''), (''AUD'', ''1.52''), (''BRL'', ''5.40''),
     (''CAD'', ''1.39''), (''CHF'', ''0.80''), (''CNY'', ''7.10''), (''CZK'', ''21.0''),
     (''DOP'', ''63.0''), (''EGP'', ''48.0''), (''EUR'', ''0.86''), (''GBP'', ''0.75''),
     (''HKD'', ''7.78''), (''HTG'', ''130.65''), (''HUF'', ''335''), (''ILS'', ''3.30''),
     (''INR'', ''88.0''), (''MAD'', ''9.20''), (''MXN'', ''18.4''), (''NGN'', ''1460''),
     (''NOK'', ''10.1''), (''NZD'', ''1.74''), (''PHP'', ''58.0''), (''PLN'', ''3.65''),
     (''RON'', ''4.37''), (''SAR'', ''3.75''), (''SEK'', ''9.50''), (''SGD'', ''1.30''),
     (''THB'', ''32.5''), (''TRY'', ''42.0''), (''ZAR'', ''17.3''), (''BHD'', ''0.376''),
     (''IQD'', ''1310''), (''JOD'', ''0.709''), (''KWD'', ''0.306''), (''LYD'', ''5.45''),
     (''OMR'', ''0.3845''), (''TND'', ''2.95''), (''CLP'', ''950''), (''ISK'', ''123''),
     (''JPY'', ''152''), (''KRW'', ''1430''), (''PYG'', ''7100''), (''UGX'', ''3450''),
     (''VND'', ''26300''), (''VUV'', ''120''), (''XAF'', ''563''), (''XOF'', ''563''),
     (''XPF'', ''102.6''), (''KES'', ''129'')]"

definition seed_rule :: "string \<Rightarrow> string \<Rightarrow> int option \<Rightarrow> string \<Rightarrow> int \<Rightarrow> string \<Rightarrow> rule" where
  "seed_rule scope scopeCode tier key amount currency =
     \<lparr>ru_id = None, ru_scope = scope, ru_scopeCode = scopeCode, ru_tier = tier, ru_key = key,
      ru_amountMinor = amount, ru_currency = currency\<rparr>"

definition SEED_RULES :: "rule list" where
  "SEED_RULES =
    [seed_rule ''default'' ''*'' None ''aml_structuring_threshold'' 200000 ''USD'',
     seed_rule ''country'' ''US'' None ''aml_structuring_threshold'' 200000 ''USD'',
     seed_rule ''default'' ''*'' (Some 0) ''kyc_balance_max'' 50000 ''USD'',
     seed_rule ''default'' ''*'' (Some 1) ''kyc_balance_max'' 300000 ''USD'',
     seed_rule ''default'' ''*'' (Some 2) ''kyc_balance_max'' 1000000 ''USD'',
     seed_rule ''default'' ''*'' (Some 0) ''kyc_monthly_inflow_max'' 100000 ''USD'',
     seed_rule ''default'' ''*'' (Some 1) ''kyc_monthly_inflow_max'' 500000 ''USD'',
     seed_rule ''default'' ''*'' (Some 2) ''kyc_monthly_inflow_max'' 2500000 ''USD'']"

section \<open>Defaults\<close>

text \<open>\<open>Number.parseInt(text, 10)\<close>: an optional sign and the longest run of digits; \<open>None\<close> is NaN.\<close>

definition parse_int :: "string \<Rightarrow> jsnum" where
  "parse_int s =
     (let t = dropWhile js_space s;
          neg = (t \<noteq> [] \<and> hd t = CHR ''-'');
          u = (if t \<noteq> [] \<and> (hd t = CHR ''-'' \<or> hd t = CHR ''+'') then tl t else t);
          ds = takeWhile is_digit u in
      if ds = [] then JNaN
      else number_of_bigint (if neg then - int (read_nat ds) else int (read_nat ds)))"

definition envMinor :: "(string \<Rightarrow> string option) \<Rightarrow> string \<Rightarrow> int \<Rightarrow> int" where
  "envMinor env name fallback =
     (case safe_int (parse_int (case env name of None \<Rightarrow> [] | Some s \<Rightarrow> s)) of
        None \<Rightarrow> fallback
      | Some n \<Rightarrow> if 0 < n then n else fallback)"

definition codeDefaults :: "(string \<Rightarrow> string option) \<Rightarrow> (string \<times> int) list" where
  "codeDefaults env =
    (let balance = envMinor env ''OXSTEED_CREDIT_MAX_CUSTOMER_BALANCE_CENTS'' 1000000 in
    [(''max_transaction'', envMinor env ''OXSTEED_CREDIT_MAX_TRANSACTION_CENTS'' 250000),
     (''max_customer_balance'', balance),
     (''max_total_issuance'', envMinor env ''OXSTEED_CREDIT_MAX_TOTAL_ISSUANCE_CENTS'' 5000000),
     (''daily_customer_issuance'', envMinor env ''OXSTEED_CREDIT_MAX_DAILY_CUSTOMER_ISSUANCE_CENTS'' balance),
     (''daily_customer_transfer'', envMinor env ''OXSTEED_CREDIT_MAX_DAILY_CUSTOMER_TRANSFER_CENTS'' balance),
     (''daily_customer_spend'', envMinor env ''OXSTEED_CREDIT_MAX_DAILY_CUSTOMER_SPEND_CENTS'' balance),
     (''cash_out_transaction'', envMinor env ''OXSTEED_CREDIT_MAX_CASH_OUT_TRANSACTION_CENTS'' 20000),
     (''daily_cash_out'', envMinor env ''OXSTEED_CREDIT_MAX_DAILY_CUSTOMER_CASH_OUT_CENTS'' 20000),
     (''kyc_tier1_topup_max'', envMinor env ''OXSTEED_CREDIT_TIER1_TOPUP_MAX_CENTS'' 50000),
     (''kyc_tier2_topup_max'', envMinor env ''OXSTEED_CREDIT_TIER2_TOPUP_MAX_CENTS'' 250000),
     (''withdrawal_daily'', envMinor env ''OXSTEED_CREDIT_WITHDRAWAL_DAILY_CAP_CENTS'' 250000),
     (''stepup_threshold'', envMinor env ''OXSTEED_CREDIT_STEPUP_THRESHOLD_CENTS'' 100000),
     (''aml_structuring_threshold'', envMinor env ''OXSTEED_CREDIT_MONITOR_STRUCTURING_THRESHOLD_CENTS'' 200000),
     (''aml_large_payout'', envMinor env ''OXSTEED_CREDIT_MONITOR_LARGE_PAYOUT_CENTS'' 500000),
     (''aml_velocity_floor'', envMinor env ''OXSTEED_CREDIT_MONITOR_VELOCITY_BASELINE_FLOOR_CENTS'' 50000),
     (''aml_cross_border_daily'', envMinor env ''OXSTEED_CREDIT_MONITOR_CROSS_BORDER_DAILY_CENTS'' 300000),
     (''helper_cashout_review'', envMinor env ''OXSTEED_CREDIT_HELPER_CASHOUT_REVIEW_CENTS'' 100000),
     (''kyc_large_change_inflow'', envMinor env ''OXSTEED_CREDIT_KYC_LARGE_CHANGE_CENTS'' 500000)])"

definition LIMIT_KEYS :: "string list" where
  "LIMIT_KEYS =
     [''max_transaction'', ''max_customer_balance'', ''max_total_issuance'', ''daily_customer_issuance'',
      ''daily_customer_transfer'', ''daily_customer_spend'', ''cash_out_transaction'',
      ''daily_cash_out'', ''kyc_tier1_topup_max'', ''kyc_tier2_topup_max'', ''withdrawal_daily'',
      ''stepup_threshold'', ''aml_structuring_threshold'', ''aml_large_payout'', ''aml_velocity_floor'',
      ''aml_cross_border_daily'', ''helper_cashout_review'', ''kyc_large_change_inflow'',
      ''kyc_balance_max'', ''kyc_monthly_inflow_max'']"

definition EXPONENTS :: "(string \<times> nat) list" where
  "EXPONENTS =
    [(''BHD'', 3), (''IQD'', 3), (''JOD'', 3), (''KWD'', 3), (''LYD'', 3), (''OMR'', 3), (''TND'', 3),
     (''CLP'', 0), (''ISK'', 0), (''JPY'', 0), (''KRW'', 0), (''PYG'', 0), (''UGX'', 0), (''VND'', 0),
     (''VUV'', 0), (''XAF'', 0), (''XOF'', 0), (''XPF'', 0)]"

definition limit_currencyExponent :: "string \<Rightarrow> nat" where
  "limit_currencyExponent code = (case map_of EXPONENTS code of None \<Rightarrow> 2 | Some e \<Rightarrow> e)"

section \<open>Snapshots\<close>

text \<open>The active rules and the rates as the process keeps them.\<close>

definition clean_rule :: "stored_rule \<Rightarrow> rule" where
  "clean_rule r =
     \<lparr>ru_id = ru_id r, ru_scope = ru_scope r, ru_scopeCode = js_trim (ru_scopeCode r), ru_tier = ru_tier r,
      ru_key = ru_key r, ru_amountMinor = ru_amountMinor r, ru_currency = js_upper (js_trim (ru_currency r))\<rparr>"

definition loadSnapshot :: "int \<Rightarrow> limit_db \<Rightarrow> snapshot" where
  "loadSnapshot now db =
     \<lparr>sn_at = now,
      sn_rules = map clean_rule (filter ru_active (credit_limit_rules db)),
      sn_rates = map (\<lambda>r. (js_upper (js_trim (ra_currency r)), ra_units r)) (reference_rates db)\<rparr>"

definition seedSnapshot :: "int \<Rightarrow> snapshot" where
  "seedSnapshot now = \<lparr>sn_at = now, sn_rules = SEED_RULES, sn_rates = SEED_REFERENCE_RATES\<rparr>"

definition limit_unavailable :: js_error where
  "limit_unavailable = AppError 503 ''credit_limit_unavailable''"

definition currentSnapshot :: "limit_env \<Rightarrow> snapshot option \<Rightarrow> snapshot res" where
  "currentSnapshot env snap =
     (case snap of
        Some s \<Rightarrow> if STALE_MS < le_now env - sn_at s \<and> le_production env then Inl limit_unavailable else Inr s
      | None \<Rightarrow> if le_production env then Inl limit_unavailable else Inr (seedSnapshot (le_now env)))"

section \<open>Translation\<close>

text \<open>A positive decimal as a fraction: \<open>/^\d+(\.\d+)?$/\<close> on the trimmed text.\<close>

definition toFraction :: "string \<Rightarrow> (int \<times> int) option" where
  "toFraction decimal =
     (let t = js_trim decimal; whole = takeWhile is_digit t; rest = dropWhile is_digit t;
          frac = tl rest;
          ok = (whole \<noteq> [] \<and> (rest = [] \<or> hd rest = CHR ''.'' \<and> frac \<noteq> [] \<and> list_all is_digit frac));
          num = int (read_nat (whole @ frac)) in
      if ok \<and> 0 < num then Some (num, 10 ^ length frac) else None)"

definition translateMinor :: "int \<Rightarrow> string \<Rightarrow> string \<Rightarrow> (string \<times> string) list \<Rightarrow> int option" where
  "translateMinor amountMinor fromCurrency toCurrency rates =
     (if fromCurrency = toCurrency then Some amountMinor
      else case (Option.bind (map_of rates fromCurrency) toFraction, Option.bind (map_of rates toCurrency) toFraction) of
             (Some (fnum, fden), Some (tnum, tden)) \<Rightarrow>
               let numerator = amountMinor * fden * tnum * 10 ^ limit_currencyExponent toCurrency;
                   denominator = 10 ^ limit_currencyExponent fromCurrency * fnum * tden;
                   result = sgn numerator * (\<bar>numerator\<bar> div denominator) in
               Some (if max_safe_integer < result then max_safe_integer else result)
           | _ \<Rightarrow> None)"

section \<open>Choosing and resolving\<close>

definition match_order :: "string \<Rightarrow> string option \<Rightarrow> int option \<Rightarrow> (rule \<Rightarrow> bool) list" where
  "match_order currency country tier =
     [\<lambda>r. ru_scope r = ''country'' \<and> Some (ru_scopeCode r) = country \<and> tier \<noteq> None \<and> ru_tier r = tier,
      \<lambda>r. ru_scope r = ''country'' \<and> Some (ru_scopeCode r) = country \<and> ru_tier r = None,
      \<lambda>r. ru_scope r = ''currency'' \<and> ru_scopeCode r = currency \<and> tier \<noteq> None \<and> ru_tier r = tier,
      \<lambda>r. ru_scope r = ''currency'' \<and> ru_scopeCode r = currency \<and> ru_tier r = None,
      \<lambda>r. ru_scope r = ''default'' \<and> tier \<noteq> None \<and> ru_tier r = tier,
      \<lambda>r. ru_scope r = ''default'' \<and> ru_tier r = None]"

fun first_hit :: "(rule \<Rightarrow> bool) list \<Rightarrow> rule list \<Rightarrow> rule option" where
  "first_hit [] candidates = None"
| "first_hit (m # ms) candidates =
     (case find m candidates of Some hit \<Rightarrow> Some hit | None \<Rightarrow> first_hit ms candidates)"

definition pickRule :: "rule list \<Rightarrow> string \<Rightarrow> string \<Rightarrow> string option \<Rightarrow> int option \<Rightarrow> rule option" where
  "pickRule rules key currency country tier =
     first_hit (match_order currency country tier) (filter (\<lambda>r. ru_key r = key) rules)"

record resolved =
  rs_amountMinor :: int
  rs_currency :: string
  rs_source :: string
  rs_ruleId :: "int option"
  rs_ruleCurrency :: string

definition rule_source :: "rule \<Rightarrow> string" where
  "rule_source r = ru_scope r @ '':'' @ ru_scopeCode r @ (case ru_tier r of None \<Rightarrow> [] | Some t \<Rightarrow> '':t'' @ show_int t)"

text \<open>The rule or, for a key that has one, the code default in US cents.\<close>

definition limit_base :: "(string \<Rightarrow> string option) \<Rightarrow> string \<Rightarrow> rule option \<Rightarrow> (int \<times> string \<times> string \<times> int option) option" where
  "limit_base env key picked =
     (case picked of
        Some r \<Rightarrow> Some (ru_amountMinor r, ru_currency r, rule_source r, ru_id r)
      | None \<Rightarrow> (case map_of (codeDefaults env) key of
                  Some a \<Rightarrow> Some (a, ''USD'', ''code_default'', None)
                | None \<Rightarrow> None))"

definition resolveLimitSync ::
  "limit_env \<Rightarrow> snapshot option \<Rightarrow> string \<Rightarrow> string \<Rightarrow> string option \<Rightarrow> int option \<Rightarrow> resolved res" where
  "resolveLimitSync env snap key currency country tier =
     (if key \<notin> set LIMIT_KEYS then Inl (AppError 500 ''credit_limit_key_unknown'')
      else let target = js_upper (js_trim currency) in
      if \<not> letters3 target then Inl (AppError 400 ''credit_limit_currency_required'')
      else let normalizedCountry = (case country of None \<Rightarrow> None
                 | Some c \<Rightarrow> if c = [] then None else Some (js_slice 2 (js_upper (js_trim c)))) in
      case currentSnapshot env snap of
        Inl e \<Rightarrow> Inl e
      | Inr s \<Rightarrow>
          (case limit_base (le_env env) key (pickRule (sn_rules s) key target normalizedCountry tier) of
             None \<Rightarrow> Inl limit_unavailable
           | Some (amount, cur, source, ruleId) \<Rightarrow>
               let rates = (if map_of (sn_rates s) ''USD'' = None then sn_rates s @ [(''USD'', ''1'')] else sn_rates s) in
               case translateMinor amount cur target rates of
                 None \<Rightarrow> Inl limit_unavailable
               | Some a \<Rightarrow> Inr \<lparr>rs_amountMinor = a, rs_currency = target, rs_source = source,
                                rs_ruleId = ruleId, rs_ruleCurrency = cur\<rparr>))"

definition resolveLimitMinor ::
  "limit_env \<Rightarrow> snapshot option \<Rightarrow> string \<Rightarrow> string \<Rightarrow> string option \<Rightarrow> int option \<Rightarrow> int res" where
  "resolveLimitMinor env snap key currency country tier =
     res_bind (resolveLimitSync env snap key currency country tier) (\<lambda>r. Inr (rs_amountMinor r))"

text \<open>\<open>resolveLimit\<close> first loads the tables when a production process has no snapshot; a failing load
  is ignored.\<close>

definition resolveLimit ::
  "limit_env \<Rightarrow> limit_db res \<Rightarrow> snapshot option \<Rightarrow> string \<Rightarrow> string \<Rightarrow> string option \<Rightarrow> int option
   \<Rightarrow> resolved res \<times> snapshot option" where
  "resolveLimit env load snap key currency country tier =
     (let snap' = (if snap = None \<and> le_production env
                   then (case load of Inl _ \<Rightarrow> None | Inr db \<Rightarrow> Some (loadSnapshot (le_now env) db)) else snap) in
      (resolveLimitSync env snap' key currency country tier, snap'))"

section \<open>Updates\<close>

text \<open>The payload of the pending action; numbers are what \<open>Number(...)\<close> gives, absent texts are
  empty, \<open>kycTier\<close> is \<open>None\<close> when null, undefined or empty.\<close>

record rule_input =
  in_scope :: string
  in_scopeCode :: string
  in_limitKey :: string
  in_amountMinor :: jsnum
  in_currencyCode :: string
  in_kycTier :: "jsnum option"
  in_active :: bool
  in_note :: "string option"

definition valid_tier :: "jsnum option \<Rightarrow> int option res" where
  "valid_tier t =
     (case t of None \<Rightarrow> Inr None
      | Some x \<Rightarrow> (case safe_int x of
           Some n \<Rightarrow> if n < 0 \<or> 3 < n then Inl (AppError 400 ''credit_limit_tier_invalid'') else Inr (Some n)
         | None \<Rightarrow> Inl (AppError 400 ''credit_limit_tier_invalid'')))"

definition validateRuleInput :: "rule_input \<Rightarrow> stored_rule res" where
  "validateRuleInput input =
     (let scope = js_trim (in_scope input) in
      if scope \<notin> {''default'', ''currency'', ''country''} then Inl (AppError 400 ''credit_limit_scope_invalid'')
      else let scopeCode = (if scope = ''default'' then ''*'' else js_upper (js_trim (in_scopeCode input))) in
      if scope = ''currency'' \<and> \<not> letters3 scopeCode then Inl (AppError 400 ''credit_limit_scope_invalid'')
      else if scope = ''country'' \<and> \<not> letters2 scopeCode then Inl (AppError 400 ''credit_limit_scope_invalid'')
      else let limitKey = js_trim (in_limitKey input) in
      if limitKey \<notin> set LIMIT_KEYS then Inl (AppError 400 ''credit_limit_key_unknown'')
      else case safe_int (in_amountMinor input) of
        None \<Rightarrow> Inl (AppError 400 ''credit_limit_amount_invalid'')
      | Some amountMinor \<Rightarrow>
          if amountMinor < 0 then Inl (AppError 400 ''credit_limit_amount_invalid'')
          else let currencyCode = js_upper (js_trim (in_currencyCode input)) in
          if \<not> letters3 currencyCode then Inl (AppError 400 ''credit_limit_currency_required'')
          else res_bind (valid_tier (in_kycTier input)) (\<lambda>kycTier.
            Inr \<lparr>ru_id = None, ru_scope = scope, ru_scopeCode = scopeCode, ru_tier = kycTier, ru_key = limitKey,
                 ru_amountMinor = amountMinor, ru_currency = currencyCode, ru_active = in_active input,
                 ru_note = (case in_note input of None \<Rightarrow> None
                   | Some n \<Rightarrow> if n = [] then None else Some (js_slice 1000 n)),
                 ru_updated_by = None, ru_updated_at = 0\<rparr>))"

text \<open>The unique index of the rules.\<close>

definition rule_key :: "'a rule_scheme \<Rightarrow> string \<times> string \<times> int \<times> string" where
  "rule_key r = (ru_scope r, ru_scopeCode r, (case ru_tier r of None \<Rightarrow> - 1 | Some t \<Rightarrow> t), ru_key r)"

text \<open>\<open>INSERT ... ON CONFLICT DO UPDATE\<close>: the update keeps the row's id and its key columns.\<close>

definition upsert_rule :: "int \<Rightarrow> stored_rule \<Rightarrow> stored_rule list \<Rightarrow> stored_rule list" where
  "upsert_rule newId r rows =
     (if list_ex (\<lambda>x. rule_key x = rule_key r) rows
      then upd_where (\<lambda>x. rule_key x = rule_key r)
             (\<lambda>x. x\<lparr>ru_amountMinor := ru_amountMinor r, ru_currency := ru_currency r, ru_active := ru_active r,
                    ru_note := ru_note r, ru_updated_by := ru_updated_by r, ru_updated_at := ru_updated_at r\<rparr>) rows
      else rows @ [r\<lparr>ru_id := Some newId\<rparr>])"

definition applyLimitRuleUpdate ::
  "int \<Rightarrow> int \<Rightarrow> rule_input \<Rightarrow> string option \<Rightarrow> string option \<Rightarrow> string option \<Rightarrow> (limit_db, stored_rule) tx" where
  "applyLimitRuleUpdate newId now payload maker checker pendingActionId =
     bind (lift_res (validateRuleInput payload)) (\<lambda>v.
     let rule = v\<lparr>ru_updated_by := maker, ru_updated_at := now\<rparr> in
     bind (gets (\<lambda>db. find (\<lambda>x. rule_key x = rule_key rule) (credit_limit_rules db))) (\<lambda>before.
     bind (modify (\<lambda>db. db\<lparr>credit_limit_rules := upsert_rule newId rule (credit_limit_rules db)\<rparr>)) (\<lambda>_.
     bind (gets (\<lambda>db. find (\<lambda>x. rule_key x = rule_key rule) (credit_limit_rules db))) (\<lambda>after.
     case after of None \<Rightarrow> fail (JsError ''no row'')
     | Some row \<Rightarrow>
         bind (modify (\<lambda>db. db\<lparr>rule_history := rule_history db @
           [\<lparr>ch_rule_id = ru_id row, ch_before = before, ch_after = row, ch_changed_by = maker,
             ch_approved_by = checker, ch_pending_action = pendingActionId\<rparr>]\<rparr>)) (\<lambda>_.
         ret row)))))"

text \<open>\<open>numeric\<close> is what the column NUMERIC(24, 8) gives back for the text stored.\<close>

definition upsert_rate :: "stored_rate \<Rightarrow> stored_rate list \<Rightarrow> stored_rate list" where
  "upsert_rate r rows =
     (if list_ex (\<lambda>x. ra_currency x = ra_currency r) rows
      then upd_where (\<lambda>x. ra_currency x = ra_currency r) (\<lambda>_. r) rows else rows @ [r])"

definition applyReferenceRateUpdate ::
  "(string \<Rightarrow> string) \<Rightarrow> string \<Rightarrow> string \<Rightarrow> string \<Rightarrow> string \<Rightarrow> (limit_db, string \<times> string) tx" where
  "applyReferenceRateUpdate numeric code unitsPerUsd source asOf =
     (let currencyCode = js_upper (js_trim code); units = js_trim unitsPerUsd in
      if \<not> letters3 currencyCode then fail (AppError 400 ''credit_limit_currency_required'')
      else if toFraction units = None then fail (AppError 400 ''credit_limit_rate_invalid'')
      else bind (modify (\<lambda>db. db\<lparr>reference_rates := upsert_rate
               \<lparr>ra_currency = currencyCode, ra_units = numeric units,
                ra_source = js_slice 120 (if source = [] then ''admin'' else source), ra_as_of = js_slice 10 asOf\<rparr>
               (reference_rates db)\<rparr>)) (\<lambda>_.
           ret (currencyCode, units)))"

section \<open>Properties\<close>

lemma toFraction_pos: "toFraction s = Some (n, d) \<Longrightarrow> 0 < n \<and> 0 < d"
  by (auto simp: toFraction_def Let_def split: if_splits)

lemma translateMinor_bound:
  assumes "translateMinor x a b rates = Some y" "a \<noteq> b" "0 \<le> x"
  obtains fn fd tn td where
    "Option.bind (map_of rates a) toFraction = Some (fn, fd)" "Option.bind (map_of rates b) toFraction = Some (tn, td)"
    "0 < fn" "0 < fd" "0 < tn" "0 < td" "0 \<le> y"
    "y * (10 ^ limit_currencyExponent a * fn * td) \<le> x * (10 ^ limit_currencyExponent b * tn * fd)"
proof -
  obtain fn fd tn td where f: "Option.bind (map_of rates a) toFraction = Some (fn, fd)"
      "Option.bind (map_of rates b) toFraction = Some (tn, td)"
    using assms(1,2) by (auto simp: translateMinor_def split: option.splits)
  then have pos: "0 < fn" "0 < fd" "0 < tn" "0 < td"
    by (auto simp: Option.bind_eq_Some_conv dest: toFraction_pos)
  define N D where "N = x * fd * tn * 10 ^ limit_currencyExponent b" and "D = 10 ^ limit_currencyExponent a * fn * td"
  have N: "0 \<le> N" and D: "0 < D" using assms(3) pos by (simp_all add: N_def D_def)
  have y: "y = (if max_safe_integer < N div D then max_safe_integer else N div D)"
    using assms(1,2) f N by (cases "N = 0") (auto simp: translateMinor_def N_def [symmetric] D_def [symmetric] Let_def)
  have "0 \<le> N div D" using N D by (simp add: pos_imp_zdiv_nonneg_iff)
  then have "y \<le> N div D" "0 \<le> y" using y by (auto simp: max_safe_integer_def split: if_splits)
  then have "y * D \<le> N div D * D" using D by (intro mult_right_mono) auto
  also have "\<dots> \<le> N" using pos_mod_sign [OF D, of N] minus_mod_eq_div_mult [of N D] by linarith
  finally have "y * D \<le> N" .
  with that f pos \<open>0 \<le> y\<close> show ?thesis by (simp add: N_def D_def algebra_simps)
qed

text \<open>Translating a limit rounds towards the stricter side and never loosens it: a limit that is
  expressed in another currency and read back in its own is at most the limit that was set.\<close>

theorem translateMinor_never_loosens:
  assumes "translateMinor x a b rates = Some y" "translateMinor y b a rates = Some z" "0 \<le> x"
  shows "z \<le> x"
proof (cases "a = b")
  case False
  from translateMinor_bound [OF assms(1) False assms(3)] obtain fn fd tn td where
    f: "Option.bind (map_of rates a) toFraction = Some (fn, fd)" "Option.bind (map_of rates b) toFraction = Some (tn, td)"
    and pos: "0 < fn" "0 < fd" "0 < tn" "0 < td" "0 \<le> y"
    and le: "y * (10 ^ limit_currencyExponent a * fn * td) \<le> x * (10 ^ limit_currencyExponent b * tn * fd)" .
  from translateMinor_bound [OF assms(2) False [symmetric] pos(5)] f
  have "z * (10 ^ limit_currencyExponent b * tn * fd) \<le> y * (10 ^ limit_currencyExponent a * fn * td)" by auto
  with le have "z * (10 ^ limit_currencyExponent b * tn * fd) \<le> x * (10 ^ limit_currencyExponent b * tn * fd)" by linarith
  moreover have "0 < 10 ^ limit_currencyExponent b * tn * fd" using pos by simp
  ultimately show ?thesis by (simp only: mult_le_cancel_right_pos)
qed (use assms in \<open>simp add: translateMinor_def\<close>)

lemma sample_translation:
  "toFraction ''1.5'' = Some (15, 10)" "toFraction ''1'' = Some (1, 1)"
  "limit_currencyExponent ''USD'' = 2" "limit_currencyExponent ''AUD'' = 2"
  by (simp_all add: toFraction_def js_trim_def js_space_def is_digit_def read_nat_def digit_val_def
      limit_currencyExponent_def EXPONENTS_def Let_def)

theorem translateMinor_never_loosens_witness:
  "translateMinor 2001 ''AUD'' ''USD'' [(''USD'', ''1''), (''AUD'', ''1.5'')] = Some 1334 \<and>
   translateMinor 1334 ''USD'' ''AUD'' [(''USD'', ''1''), (''AUD'', ''1.5'')] = Some 2001 \<and> (2001 :: int) \<le> 2001"
proof -
  have a: "translateMinor 2001 ''AUD'' ''USD'' [(''USD'', ''1''), (''AUD'', ''1.5'')] = Some 1334"
    and b: "translateMinor 1334 ''USD'' ''AUD'' [(''USD'', ''1''), (''AUD'', ''1.5'')] = Some 2001"
    by (simp_all add: translateMinor_def sample_translation max_safe_integer_def)
  from translateMinor_never_loosens [OF a b] a b show ?thesis by simp
qed

lemma first_hit_spec:
  "first_hit ms cs = Some r \<Longrightarrow>
   \<exists>i < length ms. r \<in> set cs \<and> (ms ! i) r \<and> (\<forall>j < i. \<forall>r' \<in> set cs. \<not> (ms ! j) r')"
proof (induction ms cs rule: first_hit.induct)
  case (2 m ms cs)
  show ?case
  proof (cases "find m cs")
    case None
    with 2 obtain i where "i < length ms" "r \<in> set cs" "(ms ! i) r" "\<forall>j < i. \<forall>r' \<in> set cs. \<not> (ms ! j) r'" by auto
    with None show ?thesis
      by (intro exI [of _ "Suc i"]) (auto simp: find_None_iff less_Suc_eq_0_disj)
  next
    case (Some h)
    with 2 find_SomeD [OF Some] show ?thesis by (intro exI [of _ 0]) auto
  qed
qed simp

lemma first_hit_None: "first_hit ms cs = None \<longleftrightarrow> (\<forall>m \<in> set ms. \<forall>r \<in> set cs. \<not> m r)"
  by (induction ms cs rule: first_hit.induct) (auto simp: find_None_iff split: option.splits dest: find_SomeD)

text \<open>the most specific rule wins: the rule chosen matches the request at some level of the order
  country+tier, country, currency+tier, currency, default+tier, default, no rule for that key
  matches at an earlier level, and no rule is chosen only when none matches at any level.\<close>

theorem pickRule_most_specific:
  "case pickRule rules key currency country tier of
     None \<Rightarrow> \<forall>m \<in> set (match_order currency country tier). \<forall>r \<in> set rules. ru_key r = key \<longrightarrow> \<not> m r
   | Some r \<Rightarrow> r \<in> set rules \<and> ru_key r = key \<and>
       (\<exists>i < 6. (match_order currency country tier ! i) r \<and>
          (\<forall>j < i. \<forall>r' \<in> set rules. ru_key r' = key \<longrightarrow> \<not> (match_order currency country tier ! j) r'))"
proof (cases "pickRule rules key currency country tier")
  case None
  then have "\<forall>m \<in> set (match_order currency country tier). \<forall>r \<in> set rules. ru_key r = key \<longrightarrow> \<not> m r"
    unfolding pickRule_def first_hit_None set_filter by blast
  then show ?thesis unfolding None by simp
next
  case (Some r)
  then have "first_hit (match_order currency country tier) (filter (\<lambda>r. ru_key r = key) rules) = Some r"
    by (simp add: pickRule_def)
  from first_hit_spec [OF this] obtain i where "i < length (match_order currency country tier)" "r \<in> set rules" "ru_key r = key"
      "(match_order currency country tier ! i) r"
      "\<forall>j < i. \<forall>r' \<in> set rules. ru_key r' = key \<longrightarrow> \<not> (match_order currency country tier ! j) r'"
    by auto
  moreover have "length (match_order currency country tier) = 6" by (simp add: match_order_def)
  ultimately show ?thesis using Some by auto
qed

lemma sample_pick:
  "pickRule SEED_RULES ''aml_structuring_threshold'' ''USD'' (Some ''US'') None
     = Some (seed_rule ''country'' ''US'' None ''aml_structuring_threshold'' 200000 ''USD'')"
  by (simp add: pickRule_def SEED_RULES_def seed_rule_def match_order_def)

theorem pickRule_most_specific_witness:
  "\<exists>i < 6. (match_order ''USD'' (Some ''US'') None ! i) (seed_rule ''country'' ''US'' None ''aml_structuring_threshold'' 200000 ''USD'')"
  using pickRule_most_specific [where rules = SEED_RULES and key = "''aml_structuring_threshold''"
    and currency = "''USD''" and country = "Some ''US''" and tier = None]
  unfolding sample_pick by auto

text \<open>C37: an unknown limit is never \<open>unlimited\<close>: a limit is returned only for a known key and a
  well-formed currency, from a snapshot that in production exists and is at most fifteen minutes
  old, and, when the rule is in another currency, only if both currencies have a positive
  reference rate; every other request is an error, never a number.\<close>

theorem resolveLimit_fails_closed:
  assumes "resolveLimitSync env snap key currency country tier = Inr r"
  shows "key \<in> set LIMIT_KEYS \<and> letters3 (rs_currency r) \<and> rs_currency r = js_upper (js_trim currency) \<and>
    (le_production env \<longrightarrow> (\<exists>s. snap = Some s \<and> le_now env - sn_at s \<le> 15 * 60000)) \<and>
    (\<exists>s rates. currentSnapshot env snap = Inr s \<and> set (sn_rates s) \<subseteq> set rates \<and>
       set rates \<subseteq> insert (''USD'', ''1'') (set (sn_rates s)) \<and>
       (rs_ruleCurrency r = rs_currency r \<or>
        (\<exists>u v. map_of rates (rs_ruleCurrency r) = Some u \<and> toFraction u \<noteq> None \<and>
               map_of rates (rs_currency r) = Some v \<and> toFraction v \<noteq> None)))"
proof -
  obtain s where s: "currentSnapshot env snap = Inr s"
    using assms by (auto simp: resolveLimitSync_def Let_def split: if_splits sum.splits)
  define rates where "rates = (if map_of (sn_rates s) ''USD'' = None then sn_rates s @ [(''USD'', ''1'')] else sn_rates s)"
  have k: "key \<in> set LIMIT_KEYS" "letters3 (rs_currency r)" "rs_currency r = js_upper (js_trim currency)"
    using assms s by (auto simp: resolveLimitSync_def Let_def split: if_splits option.splits)
  obtain amount a where tr: "translateMinor amount (rs_ruleCurrency r) (rs_currency r) rates = Some a"
    using assms s by (auto simp: resolveLimitSync_def rates_def Let_def split: if_splits option.splits)
  have "rs_ruleCurrency r = rs_currency r \<or>
        (\<exists>u v. map_of rates (rs_ruleCurrency r) = Some u \<and> toFraction u \<noteq> None \<and>
               map_of rates (rs_currency r) = Some v \<and> toFraction v \<noteq> None)"
    using tr by (auto simp: translateMinor_def Option.bind_eq_Some_conv split: if_splits option.splits)
  moreover have "set (sn_rates s) \<subseteq> set rates" "set rates \<subseteq> insert (''USD'', ''1'') (set (sn_rates s))"
    by (auto simp: rates_def)
  moreover have "le_production env \<longrightarrow> (\<exists>s. snap = Some s \<and> le_now env - sn_at s \<le> 15 * 60000)"
    using s by (auto simp: currentSnapshot_def STALE_MS_def split: option.splits if_splits)
  ultimately show ?thesis using k s by blast
qed

definition sample_env :: limit_env where
  "sample_env = \<lparr>le_env = (\<lambda>_. None), le_now = 60000, le_production = True\<rparr>"

lemma sample_resolve:
  "resolveLimitSync sample_env (Some (seedSnapshot 0)) ''aml_structuring_threshold'' '' usd'' (Some ''us'') None
     = Inr \<lparr>rs_amountMinor = 200000, rs_currency = ''USD'', rs_source = ''country:US'', rs_ruleId = None,
            rs_ruleCurrency = ''USD''\<rparr>"
proof -
  have "''aml_structuring_threshold'' \<in> set LIMIT_KEYS" by (simp add: LIMIT_KEYS_def)
  moreover have "js_upper (js_trim '' usd'') = ''USD''" "js_upper (js_trim ''us'') = ''US''" "letters3 ''USD''" by code_simp+
  ultimately show ?thesis
    using sample_pick
    by (simp add: resolveLimitSync_def Let_def currentSnapshot_def sample_env_def seedSnapshot_def STALE_MS_def
        limit_base_def rule_source_def seed_rule_def translateMinor_def)
qed

theorem resolveLimit_fails_closed_witness:
  "\<exists>r. resolveLimitSync sample_env (Some (seedSnapshot 0)) ''aml_structuring_threshold'' '' usd'' (Some ''us'') None = Inr r \<and>
     letters3 (rs_currency r) \<and> rs_amountMinor r = 200000"
proof (intro exI conjI)
  show "letters3 (rs_currency \<lparr>rs_amountMinor = 200000, rs_currency = ''USD'', rs_source = ''country:US'',
      rs_ruleId = None, rs_ruleCurrency = ''USD''\<rparr>)"
    using resolveLimit_fails_closed [OF sample_resolve] by blast
qed (rule sample_resolve, simp)

lemma letters_stable:
  assumes "list_all is_upper_letter s"
  shows "js_trim s = s" "js_upper s = s"
proof -
  have "\<not> js_space c" "upper_char c = c" if "is_upper_letter c" for c
    using that by (auto simp: is_upper_letter_def js_space_def upper_char_def Let_def)
  with assms show "js_trim s = s" "js_upper s = s"
    by (auto simp: list_all_iff js_upper_def intro!: js_trim_id map_idI)
qed

lemma upsert_rule_find:
  assumes "list_ex (\<lambda>x. rule_key x = rule_key r) rows \<or> ru_id r = None"
  shows "\<exists>row. find (\<lambda>x. rule_key x = rule_key r) (upsert_rule i r rows) = Some row \<and>
     ru_scope row = ru_scope r \<and> ru_scopeCode row = ru_scopeCode r \<and>
     (case ru_tier row of None \<Rightarrow> - 1 | Some t \<Rightarrow> t) = (case ru_tier r of None \<Rightarrow> - 1 | Some t \<Rightarrow> t) \<and>
     ru_key row = ru_key r \<and> ru_amountMinor row = ru_amountMinor r \<and> ru_currency row = ru_currency r \<and>
     ru_active row = ru_active r"
proof (cases "list_ex (\<lambda>x. rule_key x = rule_key r) rows")
  case True
  then obtain x where x: "find (\<lambda>x. rule_key x = rule_key r) rows = Some x"
    by (cases "find (\<lambda>x. rule_key x = rule_key r) rows") (auto simp: find_None_iff list_ex_iff)
  let ?f = "\<lambda>x. x\<lparr>ru_amountMinor := ru_amountMinor r, ru_currency := ru_currency r, ru_active := ru_active r,
                    ru_note := ru_note r, ru_updated_by := ru_updated_by r, ru_updated_at := ru_updated_at r\<rparr>"
  have "find (\<lambda>x. rule_key x = rule_key r) (upd_where (\<lambda>x. rule_key x = rule_key r) ?f rs)
      = map_option ?f (find (\<lambda>x. rule_key x = rule_key r) rs)" for rs :: "stored_rule list"
    by (induction rs) (auto simp: rule_key_def)
  then have f: "find (\<lambda>x. rule_key x = rule_key r) (upsert_rule i r rows) = Some (?f x)"
    using True x by (simp add: upsert_rule_def)
  have k: "rule_key x = rule_key r" using find_SomeD [OF x] by simp
  show ?thesis
    by (intro exI [of _ "?f x"] conjI, rule f) (use k in \<open>simp_all add: rule_key_def\<close>)
next
  case False
  then have "find (\<lambda>x. rule_key x = rule_key r) rows = None" by (auto simp: find_None_iff list_ex_iff)
  then have "find (\<lambda>x. rule_key x = rule_key r) (rows @ [r\<lparr>ru_id := Some i\<rparr>]) = Some (r\<lparr>ru_id := Some i\<rparr>)"
    by (induction rows) (auto simp: rule_key_def split: if_splits)
  with False show ?thesis by (simp add: upsert_rule_def)
qed

lemma upsert_rule_distinct:
  assumes "distinct (map rule_key rows)"
  shows "distinct (map rule_key (upsert_rule i r rows))"
proof (cases "list_ex (\<lambda>x. rule_key x = rule_key r) rows")
  case True
  have "map rule_key (upsert_rule i r rows) = map rule_key rows"
    unfolding upsert_rule_def using True by (simp, intro map_upd_where_frame) (simp add: rule_key_def)
  with assms show ?thesis by simp
next
  case False
  then show ?thesis
    using assms by (auto simp: upsert_rule_def list_ex_iff rule_key_def)
qed

lemma validateRuleInput_ok:
  assumes "validateRuleInput payload = Inr v"
  shows "ru_id v = None" "ru_key v \<in> set LIMIT_KEYS" "0 \<le> ru_amountMinor v" "letters3 (ru_currency v)"
    "ru_active v = in_active payload" "in_amountMinor payload = JInt (ru_amountMinor v)"
    "ru_scope v \<in> {''default'', ''currency'', ''country''}"
    "ru_scope v = ''country'' \<Longrightarrow> letters2 (ru_scopeCode v)"
    "case ru_tier v of None \<Rightarrow> True | Some t \<Rightarrow> 0 \<le> t \<and> t \<le> 3"
  using assms
  by (auto simp: validateRuleInput_def valid_tier_def Let_def res_bind_Inr_iff safe_int_Some_iff
      simp del: safe_int.simps split: if_splits option.splits)

lemma applyLimitRuleUpdate_run:
  assumes "applyLimitRuleUpdate i now payload maker checker pend db = (Inr row, db')"
  obtains v r where "validateRuleInput payload = Inr v"
    "r = v\<lparr>ru_updated_by := maker, ru_updated_at := now\<rparr>"
    "find (\<lambda>x. rule_key x = rule_key r) (upsert_rule i r (credit_limit_rules db)) = Some row"
    "credit_limit_rules db' = upsert_rule i r (credit_limit_rules db)"
    "reference_rates db' = reference_rates db"
    "rule_history db' = rule_history db @
       [\<lparr>ch_rule_id = ru_id row, ch_before = find (\<lambda>x. rule_key x = rule_key r) (credit_limit_rules db), ch_after = row,
         ch_changed_by = maker, ch_approved_by = checker, ch_pending_action = pend\<rparr>]"
proof (cases "validateRuleInput payload")
  case (Inr v)
  define r where "r = v\<lparr>ru_updated_by := maker, ru_updated_at := now\<rparr>"
  show ?thesis
    by (rule that [OF Inr r_def])
      (use assms Inr in \<open>auto simp: applyLimitRuleUpdate_def bind_apply Let_def r_def [symmetric] split: option.splits\<close>)
qed (use assms in \<open>simp add: applyLimitRuleUpdate_def bind_apply\<close>)

text \<open>An approved change is audited and takes effect on exactly one rule: a successful update
  appends one history record holding the rule before and after it, touches no other rule, keeps the
  unique index and the reference rates, and stores a valid rule; a rejected one changes nothing.\<close>

theorem applyLimitRuleUpdate_audited:
  "case applyLimitRuleUpdate i now payload maker checker pend db of
     (Inl _, db') \<Rightarrow> db' = db
   | (Inr row, db') \<Rightarrow>
       (\<exists>before. rule_history db' = rule_history db @
          [\<lparr>ch_rule_id = ru_id row, ch_before = before, ch_after = row, ch_changed_by = maker,
            ch_approved_by = checker, ch_pending_action = pend\<rparr>] \<and>
          before = find (\<lambda>x. rule_key x = rule_key row) (credit_limit_rules db)) \<and>
       reference_rates db' = reference_rates db \<and>
       filter (\<lambda>x. rule_key x \<noteq> rule_key row) (credit_limit_rules db')
         = filter (\<lambda>x. rule_key x \<noteq> rule_key row) (credit_limit_rules db) \<and>
       row \<in> set (credit_limit_rules db') \<and> ru_key row \<in> set LIMIT_KEYS \<and> 0 \<le> ru_amountMinor row \<and>
       (distinct (map rule_key (credit_limit_rules db)) \<longrightarrow> distinct (map rule_key (credit_limit_rules db')))"
proof (cases "applyLimitRuleUpdate i now payload maker checker pend db")
  case (Pair res db')
  show ?thesis
  proof (cases res)
    case err: (Inl e)
    have "db' = db"
    proof (cases "validateRuleInput payload")
      case (Inr v)
      define r where "r = v\<lparr>ru_updated_by := maker, ru_updated_at := now\<rparr>"
      have "ru_id r = None" using validateRuleInput_ok(1) [OF Inr] by (simp add: r_def)
      then obtain row where "find (\<lambda>x. rule_key x = rule_key r) (upsert_rule i r (credit_limit_rules db)) = Some row"
        using upsert_rule_find [of r] by blast
      with Pair Inr err show ?thesis by (auto simp: applyLimitRuleUpdate_def bind_apply Let_def r_def [symmetric])
    qed (use Pair in \<open>simp add: applyLimitRuleUpdate_def bind_apply\<close>)
    with Pair err show ?thesis by simp
  next
    case (Inr row)
    with Pair have run: "applyLimitRuleUpdate i now payload maker checker pend db = (Inr row, db')" by simp
    from applyLimitRuleUpdate_run [OF run] obtain v r where vr: "validateRuleInput payload = Inr v"
      "r = v\<lparr>ru_updated_by := maker, ru_updated_at := now\<rparr>"
      "find (\<lambda>x. rule_key x = rule_key r) (upsert_rule i r (credit_limit_rules db)) = Some row"
      "credit_limit_rules db' = upsert_rule i r (credit_limit_rules db)"
      "reference_rates db' = reference_rates db"
      "rule_history db' = rule_history db @
       [\<lparr>ch_rule_id = ru_id row, ch_before = find (\<lambda>x. rule_key x = rule_key r) (credit_limit_rules db), ch_after = row,
         ch_changed_by = maker, ch_approved_by = checker, ch_pending_action = pend\<rparr>]" .
    have id: "ru_id r = None" using vr validateRuleInput_ok(1) by simp
    from upsert_rule_find [of r "credit_limit_rules db" i] id vr(3)
    have row: "ru_key row = ru_key r" "ru_amountMinor row = ru_amountMinor r" by auto
    have key: "rule_key row = rule_key r" "row \<in> set (credit_limit_rules db')"
      using find_SomeD [OF vr(3)] vr(4) by auto
    have frame: "filter (\<lambda>x. rule_key x \<noteq> rule_key r) (upsert_rule i r rows) = filter (\<lambda>x. rule_key x \<noteq> rule_key r) rows"
      for rows :: "stored_rule list"
    proof (cases "list_ex (\<lambda>x. rule_key x = rule_key r) rows")
      case True
      then show ?thesis
        unfolding upsert_rule_def by (simp only: if_True) (rule filter_upd_where, simp add: rule_key_def)
    qed (simp add: upsert_rule_def rule_key_def)
    have "ru_key row \<in> set LIMIT_KEYS" "0 \<le> ru_amountMinor row"
      using validateRuleInput_ok(2,3) [OF vr(1)] row vr(2) by simp_all
    then show ?thesis
      using Pair Inr vr(4-6) key frame upsert_rule_distinct by simp
  qed
qed

text \<open>What the administrators approved is what the money paths enforce: after an active country
  rule is stored and the process reloads its snapshot, resolving that limit for that country, tier
  and currency (until the snapshot is stale) returns exactly the approved amount.\<close>

theorem applyLimitRuleUpdate_takes_effect:
  assumes "applyLimitRuleUpdate i now payload maker checker pend db = (Inr row, db')"
    and "ru_scope row = ''country''" and "ru_active row"
    and "distinct (map rule_key (credit_limit_rules db))"
    and "list_all (\<lambda>x. js_trim (ru_scopeCode x) = ru_scopeCode x) (credit_limit_rules db)"
    and "le_now env - now' \<le> STALE_MS"
  shows "resolveLimitMinor env (Some (loadSnapshot now' db')) (ru_key row) (ru_currency row)
           (Some (ru_scopeCode row)) (ru_tier row) = Inr (ru_amountMinor row)
       \<and> in_amountMinor payload = JInt (ru_amountMinor row)"
proof -
  from applyLimitRuleUpdate_run [OF assms(1)] obtain v r where vr: "validateRuleInput payload = Inr v"
    "r = v\<lparr>ru_updated_by := maker, ru_updated_at := now\<rparr>"
    "find (\<lambda>x. rule_key x = rule_key r) (upsert_rule i r (credit_limit_rules db)) = Some row"
    "credit_limit_rules db' = upsert_rule i r (credit_limit_rules db)" .
  have id: "ru_id r = None" using vr validateRuleInput_ok(1) by simp
  from upsert_rule_find [of r "credit_limit_rules db" i] id vr(3)
  have row: "ru_scope row = ru_scope v" "ru_scopeCode row = ru_scopeCode v" "ru_key row = ru_key v"
    "ru_amountMinor row = ru_amountMinor v" "ru_currency row = ru_currency v"
    by (auto simp: vr(2))
  note ok = validateRuleInput_ok [OF vr(1)]
  have code: "letters2 (ru_scopeCode row)" "letters3 (ru_currency row)"
    using ok(4,8) row assms(2) by simp_all
  have cs: "js_trim (ru_scopeCode row) = ru_scopeCode row" "js_upper (ru_scopeCode row) = ru_scopeCode row"
    "take 2 (ru_scopeCode row) = ru_scopeCode row" "ru_scopeCode row \<noteq> []"
    "js_trim (ru_currency row) = ru_currency row" "js_upper (ru_currency row) = ru_currency row"
    using code letters_stable [of "ru_scopeCode row"] letters_stable [of "ru_currency row"]
    by (auto simp: letters2_def letters3_def)
  have mem: "row \<in> set (credit_limit_rules db')" using find_SomeD [OF vr(3)] vr(4) by simp
  have dist: "distinct (map rule_key (credit_limit_rules db'))"
    using upsert_rule_distinct [OF assms(4)] vr(4) by simp
  have trim: "js_trim (ru_scopeCode x) = ru_scopeCode x" if "x \<in> set (credit_limit_rules db')" for x
    using that assms(5) cs(1) row(2) unfolding vr(4) upsert_rule_def vr(2)
    by (auto simp: list_all_iff set_upd_where split: if_splits)
  let ?s = "loadSnapshot now' db'"
  let ?hit = "\<lambda>x. ru_scope x = ''country'' \<and> Some (ru_scopeCode x) = Some (ru_scopeCode row) \<and> ru_tier x = ru_tier row"
  have in_s: "clean_rule row \<in> set (sn_rules ?s)"
    using mem assms(3) by (auto simp: loadSnapshot_def)
  have uniq: "x = clean_rule row" if "x \<in> set (sn_rules ?s)" "ru_key x = ru_key row" "?hit x" for x
  proof -
    from that(1) obtain y where y: "y \<in> set (credit_limit_rules db')" "x = clean_rule y"
      by (auto simp: loadSnapshot_def)
    then have "rule_key y = rule_key row"
      using that(2,3) assms(2) trim [OF y(1)] by (simp add: rule_key_def clean_rule_def)
    with dist y(1) mem have "y = row" by (auto simp: distinct_map dest: inj_onD)
    with y(2) show ?thesis by simp
  qed
  have hit: "?hit (clean_rule row)" "ru_key (clean_rule row) = ru_key row"
    using assms(2) cs by (simp_all add: clean_rule_def)
  have "find ?hit (filter (\<lambda>r. ru_key r = ru_key row) (sn_rules ?s)) = Some (clean_rule row)"
  proof (cases "find ?hit (filter (\<lambda>r. ru_key r = ru_key row) (sn_rules ?s))")
    case None
    then show ?thesis using in_s hit by (auto simp: find_None_iff)
  next
    case (Some x)
    from find_SomeD [OF this] Some uniq show ?thesis by auto
  qed
  then have "pickRule (sn_rules ?s) (ru_key row) (ru_currency row) (Some (ru_scopeCode row)) (ru_tier row) = Some (clean_rule row)"
    by (cases "ru_tier row") (simp_all add: pickRule_def match_order_def find_None_iff)
  moreover have "ru_key row \<in> set LIMIT_KEYS" using ok(2) row by simp
  moreover have "currentSnapshot env (Some ?s) = Inr ?s"
    using assms(6) by (simp add: currentSnapshot_def loadSnapshot_def)
  ultimately have "resolveLimitMinor env (Some ?s) (ru_key row) (ru_currency row) (Some (ru_scopeCode row)) (ru_tier row)
      = Inr (ru_amountMinor row)"
    using cs code
    by (simp add: resolveLimitMinor_def resolveLimitSync_def Let_def limit_base_def translateMinor_def clean_rule_def)
  then show ?thesis using ok(6) row by simp
qed

text \<open>An update of the balance limit for the United States.\<close>

definition sample_input :: rule_input where
  "sample_input = \<lparr>in_scope = ''country'', in_scopeCode = '' us'', in_limitKey = ''kyc_balance_max'',
     in_amountMinor = JInt 5000, in_currencyCode = ''usd'', in_kycTier = Some (JInt 1), in_active = True, in_note = None\<rparr>"

definition sample_rule :: stored_rule where
  "sample_rule = \<lparr>ru_id = Some 7, ru_scope = ''country'', ru_scopeCode = ''US'', ru_tier = Some 1,
     ru_key = ''kyc_balance_max'', ru_amountMinor = 5000, ru_currency = ''USD'', ru_active = True, ru_note = None,
     ru_updated_by = Some ''maker'', ru_updated_at = 100\<rparr>"

lemma sample_validate:
  "validateRuleInput sample_input = Inr (sample_rule\<lparr>ru_id := None, ru_updated_by := None, ru_updated_at := 0\<rparr>)"
proof -
  have "js_trim ''country'' = ''country''" "js_upper (js_trim '' us'') = ''US''" "js_trim ''kyc_balance_max'' = ''kyc_balance_max''"
    "js_upper (js_trim ''usd'') = ''USD''" "letters2 ''US''" "letters3 ''USD''" by code_simp+
  moreover have "''kyc_balance_max'' \<in> set LIMIT_KEYS" by (simp add: LIMIT_KEYS_def)
  ultimately show ?thesis
    by (simp add: validateRuleInput_def sample_input_def sample_rule_def valid_tier_def max_safe_integer_def Let_def)
qed

abbreviation empty_limits :: limit_db where
  "empty_limits \<equiv> \<lparr>credit_limit_rules = [], reference_rates = [], rule_history = []\<rparr>"

lemma sample_update:
  "\<exists>db'. applyLimitRuleUpdate 7 100 sample_input (Some ''maker'') (Some ''checker'') None empty_limits = (Inr sample_rule, db')"
  by (simp add: applyLimitRuleUpdate_def bind_apply sample_validate upsert_rule_def Let_def rule_key_def)
    (simp add: sample_rule_def)

theorem applyLimitRuleUpdate_audited_witness:
  "\<exists>db'. applyLimitRuleUpdate 7 100 sample_input (Some ''maker'') (Some ''checker'') None empty_limits = (Inr sample_rule, db') \<and>
     length (rule_history db') = 1 \<and> distinct (map rule_key (credit_limit_rules db'))"
proof -
  obtain db' where r: "applyLimitRuleUpdate 7 100 sample_input (Some ''maker'') (Some ''checker'') None empty_limits = (Inr sample_rule, db')"
    using sample_update by blast
  from applyLimitRuleUpdate_audited [where i = 7 and now = 100 and payload = sample_input
      and maker = "Some ''maker''" and checker = "Some ''checker''" and pend = None and db = empty_limits] r
  show ?thesis by (intro exI [of _ db']) auto
qed

theorem applyLimitRuleUpdate_takes_effect_witness:
  "\<exists>db'. applyLimitRuleUpdate 7 100 sample_input (Some ''maker'') (Some ''checker'') None empty_limits = (Inr sample_rule, db') \<and>
     resolveLimitMinor sample_env (Some (loadSnapshot 0 db')) ''kyc_balance_max'' ''USD'' (Some ''US'') (Some 1) = Inr 5000"
proof -
  obtain db' where r: "applyLimitRuleUpdate 7 100 sample_input (Some ''maker'') (Some ''checker'') None empty_limits = (Inr sample_rule, db')"
    using sample_update by blast
  have "resolveLimitMinor sample_env (Some (loadSnapshot 0 db')) (ru_key sample_rule) (ru_currency sample_rule)
           (Some (ru_scopeCode sample_rule)) (ru_tier sample_rule) = Inr (ru_amountMinor sample_rule)"
    using applyLimitRuleUpdate_takes_effect [OF r, of sample_env 0]
    by (simp add: sample_rule_def sample_env_def STALE_MS_def)
  with r show ?thesis by (auto simp: sample_rule_def)
qed

end
