(* ===== verification/LedgerData.thy ===== *)
theory LedgerData
  imports CreditLimits
begin

text \<open>
  The data of the OxSteed Credit ledger (\<open>services/oxsteedCreditService.js\<close>): JSON values and their
  canonical text, the tables the service reads and writes, the configuration it takes from the
  environment, and the normalisers and parsers every operation starts with.

  \<^item> Ids the code treats as opaque (transactions, holds) are integers here, customers, users and
    agreements are the texts of their UUIDs. Timestamps are integers; \<open>created_at\<close>/\<open>updated_at\<close>
    columns nothing in the modelled code reads are left out.
  \<^item> Amounts are exact integers: the code's numbers are exact below \<open>2 ^ 53\<close> and every amount that
    enters is checked to be a safe integer.
  \<^item> The CHECK constraints and triggers of the database are a second line of defence and are not
    modelled: what is proved follows from the JavaScript guards alone.
\<close>

section \<open>JSON\<close>

datatype json = NullJ | BoolJ bool | IntJ int | TextJ string | ListJ "json list" | ObjJ "(string \<times> json) list"

definition hex_digit :: "nat \<Rightarrow> char" where
  "hex_digit n = (if n < 10 then char_of (48 + n) else char_of (87 + n))"

definition json_escape :: "char \<Rightarrow> string" where
  "json_escape c = (let n = of_char c :: nat in
     if n = 34 \<or> n = 92 then [char_of (92 :: nat), c]
     else if n = 8 then [char_of (92 :: nat), CHR ''b'']
     else if n = 9 then [char_of (92 :: nat), CHR ''t'']
     else if n = 10 then [char_of (92 :: nat), CHR ''n'']
     else if n = 12 then [char_of (92 :: nat), CHR ''f'']
     else if n = 13 then [char_of (92 :: nat), CHR ''r'']
     else if n < 32 then char_of (92 :: nat) # ''u00'' @ [hex_digit (n div 16), hex_digit (n mod 16)]
     else [c])"

definition json_string :: "string \<Rightarrow> string" where
  "json_string s = CHR 0x22 # concat (map json_escape s) @ [CHR 0x22]"

definition join_commas :: "string list \<Rightarrow> string" where
  "join_commas xs = (case xs of [] \<Rightarrow> [] | y # ys \<Rightarrow> y @ concat (map (\<lambda>z. CHR '','' # z) ys))"

text \<open>An object is its list of properties; \<open>Object.keys(value).sort()\<close> orders them by key.\<close>

fun stableStringify :: "json \<Rightarrow> string" where
  "stableStringify NullJ = ''null''"
| "stableStringify (BoolJ b) = (if b then ''true'' else ''false'')"
| "stableStringify (IntJ i) = show_int i"
| "stableStringify (TextJ s) = json_string s"
| "stableStringify (ListJ xs) = ''['' @ join_commas (map stableStringify xs) @ '']''"
| "stableStringify (ObjJ kvs) =
     ''{'' @ join_commas (map (\<lambda>(k, v). json_string k @ '':'' @ v)
              (sort_key fst (map (\<lambda>(k, v). (k, stableStringify v)) kvs))) @ ''}''"

definition normalizeMetadata :: "json \<Rightarrow> json" where
  "normalizeMetadata value = (case value of ObjJ kvs \<Rightarrow> ObjJ kvs | _ \<Rightarrow> ObjJ [])"

definition json_fields :: "json \<Rightarrow> (string \<times> json) list" where
  "json_fields value = (case value of ObjJ kvs \<Rightarrow> kvs | _ \<Rightarrow> [])"

lemma json_fields_ObjJ [simp]: "json_fields (ObjJ kvs) = kvs"
  by (simp add: json_fields_def)

definition field :: "json \<Rightarrow> string \<Rightarrow> json option" where
  "field value k = map_of (json_fields value) k"

text \<open>\<open>{ ...a, ...b }\<close>: the properties of \<open>a\<close> keep their place, those of \<open>b\<close> win.\<close>

fun set_field :: "string \<Rightarrow> json \<Rightarrow> (string \<times> json) list \<Rightarrow> (string \<times> json) list" where
  "set_field k v [] = [(k, v)]"
| "set_field k v ((k', v') # kvs) = (if k = k' then (k, v) # kvs else (k', v') # set_field k v kvs)"

lemma set_field_new: "k \<notin> fst ` set kvs \<Longrightarrow> set_field k v kvs = kvs @ [(k, v)]"
  by (induction k v kvs rule: set_field.induct) auto

definition spread :: "json \<Rightarrow> json \<Rightarrow> json" where
  "spread a b = ObjJ (foldl (\<lambda>kvs (k, v). set_field k v kvs) (json_fields a) (json_fields b))"

section \<open>Tables\<close>

datatype account_type =
    Customer_wallet | Partner_payable | Partner_reserve | Platform_treasury | Platform_revenue
  | Restaurant_sub_bank | Unclaimed_property

datatype account_status = Active | Suspended | Closed

datatype side = Debit | Credit

datatype hold_status = HActive | HCaptured | HReleased | HExpired

record account =
  ac_id :: int
  ac_type :: account_type
  ac_customer :: "string option"
  ac_partner :: "int option"
  ac_restaurant :: "int option"
  ac_currency :: string
  ac_balance :: int
  ac_reserved :: int
  ac_status :: account_status
  ac_version :: int
  ac_hash :: "string option"
  ac_non_negative :: bool

record txn =
  tx_id :: int
  tx_type :: string
  tx_status :: string
  tx_debit :: int
  tx_credit :: int
  tx_amount :: int
  tx_currency :: string
  tx_partner :: "int option"
  tx_agreement :: "string option"
  tx_key :: string
  tx_correlation :: "string option"
  tx_refType :: "string option"
  tx_refId :: "string option"
  tx_description :: "string option"
  tx_reason :: "string option"
  tx_actorType :: string
  tx_actorUser :: "string option"
  tx_metadata :: json
  tx_created :: int

record entry =
  en_txn :: int
  en_account :: int
  en_side :: side
  en_amount :: int
  en_balance_after :: int
  en_sequence :: int
  en_previous :: "string option"
  en_hash :: string
  en_key_version :: string
  en_metadata :: json

record audit =
  au_action :: string
  au_actor :: "string option"
  au_customer :: "string option"
  au_partner :: "int option"
  au_resource_type :: string
  au_resource_id :: int
  au_reason :: "string option"
  au_correlation :: "string option"
  au_request_ip :: "string option"
  au_before :: json
  au_after :: json
  au_metadata :: json

record notification =
  no_txn :: int
  no_user :: string
  no_payload :: json

record hold =
  ho_id :: int
  ho_account :: int
  ho_customer :: string
  ho_partner :: int
  ho_agreement :: string
  ho_amount :: int
  ho_currency :: string
  ho_status :: hold_status
  ho_purpose :: "string option"
  ho_refType :: "string option"
  ho_refId :: "string option"
  ho_key :: string
  ho_metadata :: json
  ho_expires :: int
  ho_capture_key :: "string option"
  ho_captured_txn :: "int option"
  ho_actor_type :: "string option"   \<comment> \<open>\<open>capture_actor_type\<close> or \<open>release_actor_type\<close>\<close>
  ho_actor :: "string option"        \<comment> \<open>\<open>captured_by\<close> or \<open>released_by\<close>\<close>
  ho_reason :: "string option"       \<comment> \<open>\<open>capture_reason\<close> or \<open>release_reason\<close>\<close>

record user =
  us_id :: string
  us_role :: string
  us_active :: bool

record reserve_policy =
  rp_partner :: "int option"
  rp_currency :: string
  rp_ratio_bps :: int
  rp_floor :: int
  rp_default :: bool

record partner =
  pa_id :: int
  pa_restaurant :: "int option"
  pa_status :: string
  pa_currency :: string

record restaurant =
  fr_id :: int
  fr_status :: string
  fr_currency :: "string option"
  fr_city :: "string option"
  fr_state :: "string option"
  fr_zip :: "string option"
  fr_country :: "string option"

record participant =
  cp_id :: string
  cp_partner :: int
  cp_type :: string
  cp_status :: string
  cp_verified :: bool
  cp_surfaces :: "string list"

record agreement =
  ag_id :: string
  ag_partner :: int
  ag_status :: string
  ag_version :: int
  ag_starts :: int
  ag_ends :: "int option"
  ag_requires_entitlement :: bool
  ag_order_types :: "string list"
  ag_categories :: "string list"
  ag_menu_items :: "string list"
  ag_geography :: json
  ag_max_transaction :: "int option"
  ag_daily :: "int option"
  ag_lifetime :: "int option"

record entitlement =
  et_agreement :: string
  et_customer :: string
  et_status :: string
  et_starts :: "int option"
  et_ends :: "int option"
  et_max_transaction :: "int option"
  et_daily :: "int option"

record dispute =
  di_id :: string
  di_txn :: int
  di_customer :: string

text \<open>A row of the sanctions screenings: result \<open>clear\<close>, \<open>hit\<close> or \<open>error\<close>, and what an administrator decided.\<close>

record screening =
  sc_id :: int
  sc_subject_type :: string
  sc_subject :: string
  sc_provider :: string
  sc_result :: string
  sc_context :: "string option"
  sc_at :: int
  sc_cleared :: "int option"
  sc_clear_reason :: "string option"
  sc_confirmed :: "int option"

record compliance_case =
  cc_id :: int
  cc_type :: string
  cc_subject_type :: string
  cc_subject :: string
  cc_severity :: string
  cc_status :: string
  cc_key :: string
  cc_sla_due :: int

record fee_schedule =
  fe_fixed :: int
  fe_bps :: int
  fe_min :: int
  fe_max :: "int option"

record fee_row = fee_schedule +
  fe_id :: int
  fe_operation :: string
  fe_currency :: string
  fe_active :: bool
  fe_from :: int
  fe_to :: "int option"

text \<open>What one guest session spent on one day.\<close>

record guest_day =
  gd_fingerprint :: string
  gd_date :: int
  gd_spent :: int

text \<open>The database. \<open>rail\<close> is the feature flag row (\<open>None\<close>: no row), \<open>frozen\<close> an uncleared freeze.\<close>

record ledger =
  accounts :: "account list"
  txns :: "txn list"
  entries :: "entry list"
  audits :: "audit list"
  outbox :: "notification list"
  holds :: "hold list"
  users :: "user list"
  policies :: "reserve_policy list"
  partners :: "partner list"
  restaurants :: "restaurant list"
  participants :: "participant list"
  agreements :: "agreement list"
  entitlements :: "entitlement list"
  disputes :: "dispute list"
  screenings :: "screening list"
  cases :: "compliance_case list"
  fee_rows :: "fee_row list"
  guest_days :: "guest_day list"
  rail :: "bool option"
  frozen :: bool

type_synonym 'a credit = "(ledger, 'a) tx"

section \<open>Configuration\<close>

text \<open>
  What the process takes from outside: the limits of \<open>limitRules.js\<close>, the environment, the HMAC of
  Node's crypto library (\<open>None\<close>: no usable secret for that key version), what the in-house sanctions
  lists answer for a subject (\<open>sanctionsListService.js\<close>, not modelled: the result, the hit context, or
  what it throws), and the clocks of the process and of the database.
\<close>

record config =
  cf_limit_env :: limit_env
  cf_snapshot :: "snapshot option"
  cf_currencies :: string             \<comment> \<open>\<open>OXSTEED_CREDIT_SUPPORTED_CURRENCIES\<close>\<close>
  cf_transfers :: bool                \<comment> \<open>\<open>CUSTOMER_TRANSFERS_ENABLED\<close>\<close>
  cf_transfer_count :: int
  cf_spend_count :: int
  cf_hold_ttl :: int
  cf_hold_ttl_max :: int
  cf_key_version :: "string option"
  cf_hmac :: "string \<Rightarrow> string \<Rightarrow> string option"
  cf_sha256 :: "string \<Rightarrow> string"
  cf_lists :: "string \<Rightarrow> string \<Rightarrow> (string \<times> string option) res"
  cf_now :: int                       \<comment> \<open>\<open>new Date()\<close>\<close>
  cf_db_now :: int                    \<comment> \<open>\<open>NOW()\<close>\<close>
  cf_today :: int                     \<comment> \<open>\<open>CURRENT_DATE\<close>, \<open>date_trunc('day', NOW())\<close>\<close>

definition CREDIT_CURRENCY :: string where
  "CREDIT_CURRENCY = ''USD''"

definition CREDIT_CURRENCY_MINOR_UNITS :: "(string \<times> nat) list" where
  "CREDIT_CURRENCY_MINOR_UNITS =
     map (\<lambda>c. (c, 2))
       [''AED'', ''AUD'', ''BRL'', ''CAD'', ''CHF'', ''CNY'', ''CZK'', ''DOP'', ''EGP'', ''EUR'', ''GBP'', ''HKD'',
        ''HTG'', ''HUF'', ''ILS'', ''INR'', ''MAD'', ''MXN'', ''NGN'', ''NOK'', ''NZD'', ''PHP'', ''PLN'', ''RON'',
        ''SAR'', ''SEK'', ''SGD'', ''THB'', ''TRY'', ''USD'', ''ZAR''] @
     map (\<lambda>c. (c, 3)) [''BHD'', ''IQD'', ''JOD'', ''KWD'', ''LYD'', ''OMR'', ''TND''] @
     map (\<lambda>c. (c, 0)) [''CLP'', ''ISK'', ''JPY'', ''KRW'', ''PYG'', ''UGX'', ''VND'', ''VUV'', ''XAF'', ''XOF'', ''XPF'']"

fun split_commas :: "string \<Rightarrow> string list" where
  "split_commas [] = [[]]"
| "split_commas (c # s) = (if c = CHR '','' then [] # split_commas s
     else case split_commas s of [] \<Rightarrow> [[c]] | x # xs \<Rightarrow> (c # x) # xs)"

definition supported_currencies :: "config \<Rightarrow> string list" where
  "supported_currencies cf =
     (let configured = filter letters3 (map (\<lambda>v. js_upper (js_trim v)) (split_commas (cf_currencies cf))) in
      CREDIT_CURRENCY # (if configured = [] then map fst CREDIT_CURRENCY_MINOR_UNITS
        else filter (\<lambda>c. map_of CREDIT_CURRENCY_MINOR_UNITS c \<noteq> None) configured))"

definition POSTABLE_CREDIT_TRANSACTION_TYPES :: "string list" where
  "POSTABLE_CREDIT_TRANSACTION_TYPES =
    [''load'', ''purchase'', ''refund'', ''transfer'', ''adjustment'', ''settlement'',
     ''media_creator_settlement'', ''settlement_reversal'', ''funding'', ''reserve_release'',
     ''conversion_debit'', ''conversion_fee'', ''conversion_credit'', ''cash_out'',
     ''sub_bank_load'', ''sub_bank_redemption'', ''sub_bank_refund'', ''sub_bank_opening_balance'',
     ''sub_bank_load_reversal'', ''withdrawal_fee'', ''transfer_fee'', ''sub_bank_conversion'',
     ''sub_bank_payout_reversal'', ''sub_bank_payout'', ''fee'', ''escheatment'', ''escheat_reclaim'',
     ''escheat_remittance'']"

definition LEGACY_CREDIT_REASON :: string where
  "LEGACY_CREDIT_REASON = ''Legacy transaction: reason unavailable''"

section \<open>Normalisers and parsers\<close>

text \<open>\<open>None\<close> is any value that is not a string.\<close>

definition normalizeString :: "string option \<Rightarrow> nat \<Rightarrow> string option" where
  "normalizeString value mx =
     (case value of None \<Rightarrow> None
      | Some s \<Rightarrow> let trimmed = js_trim s in if trimmed = [] then None else Some (js_slice mx trimmed))"

definition requireAdministrativeActor :: "string option \<Rightarrow> string \<Rightarrow> unit res" where
  "requireAdministrativeActor value c =
     (if normalizeString value 160 = None then Inl (AppError 400 c) else Inr ())"

definition requireCustomerActor :: "string option \<Rightarrow> string \<Rightarrow> string \<Rightarrow> unit res" where
  "requireCustomerActor actorUserId customerId c =
     (if normalizeString actorUserId 160 = None \<or> actorUserId \<noteq> Some customerId
      then Inl (AppError 403 c) else Inr ())"

definition credit_normalizeCurrency :: "string option \<Rightarrow> string" where
  "credit_normalizeCurrency value =
     js_upper (case normalizeString value 8 of None \<Rightarrow> CREDIT_CURRENCY | Some s \<Rightarrow> s)"

definition assertSupportedCreditCurrency :: "config \<Rightarrow> string option \<Rightarrow> string res" where
  "assertSupportedCreditCurrency cf value =
     (let currency = credit_normalizeCurrency value in
      if \<not> letters3 currency \<or> currency \<notin> set (supported_currencies cf) \<or>
         map_of CREDIT_CURRENCY_MINOR_UNITS currency = None
      then Inl (AppError 400 ''credit_currency_not_supported'') else Inr currency)"

definition limitCurrency :: "string option \<Rightarrow> string" where
  "limitCurrency currencyCode =
     (let code = credit_normalizeCurrency currencyCode in if letters3 code then code else CREDIT_CURRENCY)"

definition limit :: "config \<Rightarrow> string \<Rightarrow> string \<Rightarrow> int res" where
  "limit cf key currency = resolveLimitMinor (cf_limit_env cf) (cf_snapshot cf) key currency None None"

text \<open>
  \<open>parseAmountCents\<close> on the value \<open>Number(value)\<close> gives. The currency is \<open>None\<close> when it is not
  known yet (\<open>null\<close>), \<open>Some None\<close> when it is \<open>undefined\<close> or not a text.
\<close>

definition parseAmountCents :: "config \<Rightarrow> jsnum \<Rightarrow> string option option \<Rightarrow> int res" where
  "parseAmountCents cf value currencyCode =
     (case safe_int value of
        None \<Rightarrow> Inl (AppError 400 ''validation_failed'')
      | Some amount \<Rightarrow>
          if amount \<le> 0 then Inl (AppError 400 ''validation_failed'')
          else case currencyCode of
                 None \<Rightarrow> Inr amount
               | Some code \<Rightarrow> res_bind (limit cf ''max_transaction'' (limitCurrency code)) (\<lambda>mx.
                   if mx < amount then Inl (AppError 400 ''credit_transaction_limit_exceeded'') else Inr amount))"

definition resolveHoldExpiry :: "config \<Rightarrow> int option \<Rightarrow> int res" where
  "resolveHoldExpiry cf expiresAt =
     (let now = cf_now cf;
          requestedExpiry = (case expiresAt of Some e \<Rightarrow> e | None \<Rightarrow> now + cf_hold_ttl cf * 60000) in
      if requestedExpiry \<le> now then Inl (AppError 400 ''credit_hold_expiry_invalid'')
      else if now + cf_hold_ttl_max cf * 60000 < requestedExpiry then Inl (AppError 400 ''credit_hold_expiry_too_long'')
      else Inr requestedExpiry)"

section \<open>The rail\<close>

definition isCreditRailEnabled :: "ledger \<Rightarrow> bool" where
  "isCreditRailEnabled db = (rail db = Some True)"

definition assertCreditRailNotFrozen :: "ledger \<Rightarrow> unit res" where
  "assertCreditRailNotFrozen db = (if frozen db then Inl (AppError 503 ''credit_rail_frozen'') else Inr ())"

definition assertCreditRailEnabled :: "bool \<Rightarrow> unit credit" where
  "assertCreditRailEnabled bypassFreeze = (\<lambda>db.
     (if \<not> isCreditRailEnabled db then Inl (AppError 503 ''credit_rail_suspended'')
      else if bypassFreeze then Inr () else assertCreditRailNotFrozen db, db))"

end
