(* ===== verification/Journal.thy ===== *)
theory Journal
  imports LedgerData
begin

text \<open>
  The journal of \<open>services/oxsteedCreditService.js\<close>: replay of idempotency keys, \<open>ensureAccount\<close>,
  the reserve policy of \<open>oxsteedCreditReserveService.js\<close>, and \<open>postJournalTransaction\<close>, the one
  function that moves money. Row locks change no row; an \<open>INSERT ... ON CONFLICT DO NOTHING\<close> sees
  the rows of the transaction it runs in.
\<close>

section \<open>Replays\<close>

text \<open>
  A property the caller's object does not have is \<open>None\<close>. The nine compared columns are texts or
  null, in the order of the code's list.
\<close>

record replay_request =
  rq_columns :: "string option list"
  rq_reason :: "string option option"
  rq_description :: "string option option"
  rq_metadata :: "json option"

definition txn_columns ::
  "string \<Rightarrow> int \<Rightarrow> int \<Rightarrow> int \<Rightarrow> string \<Rightarrow> int option \<Rightarrow> string option \<Rightarrow> string option \<Rightarrow> string option \<Rightarrow> string option list" where
  "txn_columns kind debit credit amount currency partner agreement refType refId =
     [Some kind, Some (show_int debit), Some (show_int credit), Some (show_int amount), Some currency,
      map_option show_int partner, agreement, refType, refId]"

definition stored_columns :: "txn \<Rightarrow> string option list" where
  "stored_columns t = txn_columns (tx_type t) (tx_debit t) (tx_credit t) (tx_amount t) (tx_currency t)
     (tx_partner t) (tx_agreement t) (tx_refType t) (tx_refId t)"

definition assertIdempotencyReplayMatches :: "txn \<Rightarrow> replay_request \<Rightarrow> unit res" where
  "assertIdempotencyReplayMatches existing requested =
     (let columns_ok = (map (map_option js_upper) (stored_columns existing) = map (map_option js_upper) (rq_columns requested));
          reason_ok = (case rq_reason requested of None \<Rightarrow> True
            | Some r \<Rightarrow> normalizeString (tx_reason existing) 500 = Some LEGACY_CREDIT_REASON \<or>
                        normalizeString (tx_reason existing) 500 = normalizeString r 500);
          description_ok = (case rq_description requested of None \<Rightarrow> True
            | Some d \<Rightarrow> normalizeString (tx_description existing) 255 = normalizeString d 255);
          metadata_ok = (case rq_metadata requested of None \<Rightarrow> True
            | Some m \<Rightarrow> stableStringify (normalizeMetadata (tx_metadata existing)) = stableStringify (normalizeMetadata m)) in
      if columns_ok \<and> reason_ok \<and> description_ok \<and> metadata_ok then Inr ()
      else Inl (AppError 409 ''credit_idempotency_conflict''))"

record posting =
  po_txn :: txn
  po_entries :: "entry list"
  po_replayed :: bool

definition loadAccountEntries :: "ledger \<Rightarrow> int \<Rightarrow> entry list" where
  "loadAccountEntries db transactionId = filter (\<lambda>e. en_txn e = transactionId) (entries db)"

definition getExistingTransaction :: "string \<Rightarrow> ledger \<Rightarrow> txn option" where
  "getExistingTransaction key db = find (\<lambda>t. tx_key t = key) (txns db)"

definition getExistingTransactionById :: "int \<Rightarrow> ledger \<Rightarrow> txn option" where
  "getExistingTransactionById i db = find (\<lambda>t. tx_id t = i) (txns db)"

definition replayTransaction :: "replay_request \<Rightarrow> txn \<Rightarrow> posting credit" where
  "replayTransaction requested existing =
     (if tx_status existing \<noteq> ''posted'' then fail (AppError 409 ''credit_idempotency_retry_required'')
      else bind (lift_res (assertIdempotencyReplayMatches existing requested)) (\<lambda>_.
           gets (\<lambda>db. \<lparr>po_txn = existing, po_entries = loadAccountEntries db (tx_id existing), po_replayed = True\<rparr>)))"

section \<open>Accounts\<close>

definition next_id :: "int list \<Rightarrow> int" where
  "next_id ids = foldr max ids 0 + 1"

definition wallet_owner :: "bool \<Rightarrow> ledger \<Rightarrow> string option \<Rightarrow> bool" where
  "wallet_owner allowNonCustomerOwner db customerId =
     list_ex (\<lambda>u. Some (us_id u) = customerId \<and> us_active u \<and>
        us_role u \<in> (if allowNonCustomerOwner then {''customer'', ''helper'', ''helper_pro'', ''broker''} else {''customer''}))
       (users db)"

record owner =
  ow_type :: account_type
  ow_customer :: "string option"
  ow_partner :: "int option"
  ow_restaurant :: "int option"

text \<open>The ownership filter of the SELECT, which is also the key of the unique indexes.\<close>

definition owned_by :: "owner \<Rightarrow> string \<Rightarrow> account \<Rightarrow> bool" where
  "owned_by w currency a =
     (ac_type a = ow_type w \<and> ac_currency a = currency \<and>
      (case ow_type w of
         Customer_wallet \<Rightarrow> ac_customer a = ow_customer w \<and> ow_customer w \<noteq> None \<and> ac_partner a = None \<and> ac_restaurant a = None
       | Partner_payable \<Rightarrow> ac_partner a = ow_partner w \<and> ow_partner w \<noteq> None \<and> ac_customer a = None \<and> ac_restaurant a = None
       | Partner_reserve \<Rightarrow> ac_partner a = ow_partner w \<and> ow_partner w \<noteq> None \<and> ac_customer a = None \<and> ac_restaurant a = None
       | Restaurant_sub_bank \<Rightarrow> ac_restaurant a = ow_restaurant w \<and> ow_restaurant w \<noteq> None \<and> ac_customer a = None \<and> ac_partner a = None
       | _ \<Rightarrow> ac_customer a = None \<and> ac_partner a = None \<and> ac_restaurant a = None))"

text \<open>The inserted row; a trigger marks the payable account of a helper as never negative.\<close>

definition new_account :: "ledger \<Rightarrow> owner \<Rightarrow> string \<Rightarrow> account" where
  "new_account db w currency =
     \<lparr>ac_id = next_id (map ac_id (accounts db)), ac_type = ow_type w, ac_customer = ow_customer w, ac_partner = ow_partner w,
      ac_restaurant = (if ow_type w = Restaurant_sub_bank then ow_restaurant w else None),
      ac_currency = currency, ac_balance = 0, ac_reserved = 0, ac_status = Active, ac_version = 0, ac_hash = None,
      ac_non_negative = (ow_type w = Partner_payable \<and>
        list_ex (\<lambda>p. Some (cp_partner p) = ow_partner w \<and> cp_type p = ''helper'') (participants db))\<rparr>"

definition ensureAccount :: "config \<Rightarrow> owner \<Rightarrow> string option \<Rightarrow> bool \<Rightarrow> account credit" where
  "ensureAccount cf w currencyCode allowNonCustomerOwner =
     bind (lift_res (assertSupportedCreditCurrency cf currencyCode)) (\<lambda>currency.
     if ow_type w = Restaurant_sub_bank \<and> (case ow_restaurant w of None \<Rightarrow> True | Some r \<Rightarrow> r \<le> 0)
     then fail (AppError 400 ''credit_account_restaurant_required'')
     else if ow_type w = Restaurant_sub_bank \<and> (ow_customer w \<noteq> None \<or> ow_partner w \<noteq> None)
     then fail (AppError 400 ''credit_account_owner_invalid'')
     else
       bind (modify (\<lambda>db.
         if (ow_type w = Customer_wallet \<longrightarrow> wallet_owner allowNonCustomerOwner db (ow_customer w)) \<and>
            owned_by w currency (new_account db w currency) \<and>
            \<not> list_ex (owned_by w currency) (accounts db)
         then db\<lparr>accounts := accounts db @ [new_account db w currency]\<rparr> else db)) (\<lambda>_.
       bind (gets (\<lambda>db. find (\<lambda>a. owned_by w currency a \<and>
              (ow_type w = Customer_wallet \<longrightarrow> wallet_owner allowNonCustomerOwner db (ow_customer w))) (accounts db))) (\<lambda>row.
       case row of
         Some a \<Rightarrow> ret a
       | None \<Rightarrow> fail (if ow_type w = Customer_wallet then AppError 404 ''credit_customer_not_found''
                       else AppError 500 ''credit_account_create_failed''))))"

definition customer_wallet :: "string \<Rightarrow> owner" where
  "customer_wallet customerId = \<lparr>ow_type = Customer_wallet, ow_customer = Some customerId, ow_partner = None, ow_restaurant = None\<rparr>"

definition partner_payable :: "int \<Rightarrow> owner" where
  "partner_payable partnerId = \<lparr>ow_type = Partner_payable, ow_customer = None, ow_partner = Some partnerId, ow_restaurant = None\<rparr>"

definition platform_account :: "account_type \<Rightarrow> owner" where
  "platform_account kind = \<lparr>ow_type = kind, ow_customer = None, ow_partner = None, ow_restaurant = None\<rparr>"

definition findCustomerAccount :: "config \<Rightarrow> string \<Rightarrow> string option \<Rightarrow> ledger \<Rightarrow> account option res" where
  "findCustomerAccount cf customerId currencyCode db =
     res_bind (assertSupportedCreditCurrency cf currencyCode) (\<lambda>currency.
       Inr (if wallet_owner False db (Some customerId)
            then find (\<lambda>a. ac_type a = Customer_wallet \<and> ac_customer a = Some customerId \<and> ac_currency a = currency) (accounts db)
            else None))"

section \<open>Reserve policy\<close>

text \<open>\<open>ORDER BY\<close> partner rows first, \<open>LIMIT 1\<close>.\<close>

definition getReservePolicy :: "ledger \<Rightarrow> int \<Rightarrow> string \<Rightarrow> reserve_policy res" where
  "getReservePolicy db partnerId currencyCode =
     (let currency = js_upper (js_trim currencyCode) in
      if \<not> letters3 currency then Inl (AppError 400 ''credit_reserve_currency_invalid'')
      else case find (\<lambda>p. rp_currency p = currency \<and> rp_partner p = Some partnerId) (policies db) of
             Some p \<Rightarrow> Inr p
           | None \<Rightarrow>
               (case find (\<lambda>p. rp_currency p = currency \<and> rp_partner p = None \<and> rp_default p) (policies db) of
                  Some p \<Rightarrow> Inr p
                | None \<Rightarrow> Inl (AppError 500 ''credit_reserve_policy_missing'')))"

definition assertReserveFloorForPosting :: "ledger \<Rightarrow> account \<Rightarrow> int \<Rightarrow> unit res" where
  "assertReserveFloorForPosting db debitAccount nextBalance =
     (case ac_partner debitAccount of
        None \<Rightarrow> Inl (AppError 400 ''credit_reserve_partner_invalid'')
      | Some p \<Rightarrow> res_bind (getReservePolicy db p (ac_currency debitAccount)) (\<lambda>policy.
          if max_safe_integer < \<bar>nextBalance\<bar> then Inl (AppError 500 ''credit_reserve_balance_invalid'')
          else if nextBalance < rp_floor policy then Inl (AppError 403 ''credit_reserve_floor_breach'') else Inr ()))"

definition readAccountBalanceCents :: "ledger \<Rightarrow> account_type \<Rightarrow> int \<Rightarrow> string \<Rightarrow> int" where
  "readAccountBalanceCents db kind partnerId currency =
     (case find (\<lambda>a. ac_type a = kind \<and> ac_partner a = Some partnerId \<and> ac_currency a = currency) (accounts db) of
        None \<Rightarrow> 0 | Some a \<Rightarrow> ac_balance a)"

record reserve_status =
  st_balance :: int
  st_outstanding :: int
  st_required :: int
  st_meets_floor :: bool
  st_meets_ratio :: bool

definition getReserveStatus :: "ledger \<Rightarrow> int \<Rightarrow> string \<Rightarrow> reserve_status res" where
  "getReserveStatus db partnerId currencyCode =
     res_bind (getReservePolicy db partnerId currencyCode) (\<lambda>policy.
       let balance = readAccountBalanceCents db Partner_reserve partnerId (rp_currency policy);
           outstanding = max 0 (readAccountBalanceCents db Partner_payable partnerId (rp_currency policy));
           required = max (rp_floor policy) (rp_ratio_bps policy * outstanding div 10000) in
       Inr \<lparr>st_balance = balance, st_outstanding = outstanding, st_required = required,
            st_meets_floor = (rp_floor policy \<le> balance), st_meets_ratio = (required \<le> balance)\<rparr>)"

section \<open>Directions\<close>

record journal_input =
  ji_type :: string
  ji_debit :: int
  ji_credit :: int
  ji_amount :: jsnum
  ji_currency :: string
  ji_partner :: "int option"
  ji_agreement :: "string option"
  ji_key :: "string option"
  ji_correlation :: "string option"
  ji_refType :: "string option"
  ji_refId :: "string option"
  ji_description :: "string option"
  ji_reason :: "string option"
  ji_actorType :: "string option"
  ji_actorUser :: "string option"
  ji_customer :: "string option"
  ji_requestIp :: "string option"
  ji_metadata :: json
  ji_allowSuspended :: bool
  ji_existing :: "txn option"

definition same_partner :: "account \<Rightarrow> journal_input \<Rightarrow> bool" where
  "same_partner a inp \<longleftrightarrow> ji_partner inp \<noteq> None \<and> ac_partner a = ji_partner inp"

definition adjustment_ok :: "journal_input \<Rightarrow> account \<Rightarrow> account \<Rightarrow> bool" where
  "adjustment_ok inp d c =
     (let direction = normalizeString (case field (normalizeMetadata (ji_metadata inp)) ''direction'' of
             Some (TextJ s) \<Rightarrow> Some s | _ \<Rightarrow> None) 20;
          validDirection =
            (if direction = Some ''credit'' then ac_type d = Platform_treasury \<and> ac_type c = Customer_wallet
             else if direction = Some ''debit'' then ac_type d = Customer_wallet \<and> ac_type c = Platform_treasury
             else False) in
      validDirection \<and> ji_partner inp = None \<and> ji_agreement inp = None)"

definition cash_out_ok :: "journal_input \<Rightarrow> account \<Rightarrow> account \<Rightarrow> bool" where
  "cash_out_ok inp d c =
     (let customerCashOut = (ac_type d = Customer_wallet \<and> ji_partner inp = None);
          helperCashOut = (ac_type d = Partner_payable \<and> same_partner d inp) in
      ac_type c = Platform_treasury \<and> (customerCashOut \<or> helperCashOut) \<and> ji_agreement inp = None)"

definition fee_ok :: "journal_input \<Rightarrow> account \<Rightarrow> account \<Rightarrow> bool" where
  "fee_ok inp d c =
     (ac_type d = Partner_payable \<and> ac_type c = Platform_revenue \<and> same_partner d inp \<and> ji_agreement inp = None)"

definition holderLeg :: "journal_input \<Rightarrow> account \<Rightarrow> bool" where
  "holderLeg inp a =
     (ac_type a = Customer_wallet \<and> ji_partner inp = None \<or> ac_type a = Partner_payable \<and> same_partner a inp)"

definition escheat_ok :: "journal_input \<Rightarrow> account \<Rightarrow> account \<Rightarrow> bool" where
  "escheat_ok inp d c =
     ((ji_type inp = ''escheatment'' \<and> holderLeg inp d \<and> ac_type c = Unclaimed_property \<or>
       ji_type inp = ''escheat_reclaim'' \<and> ac_type d = Unclaimed_property \<and> holderLeg inp c \<or>
       ji_type inp = ''escheat_remittance'' \<and> ji_partner inp = None \<and> ac_type d = Unclaimed_property \<and>
         ac_type c = Platform_treasury) \<and> ji_agreement inp = None)"

definition plain_ok :: "account_type \<Rightarrow> account_type \<Rightarrow> journal_input \<Rightarrow> account \<Rightarrow> account \<Rightarrow> bool" where
  "plain_ok from to inp d c =
     (ac_type d = from \<and> ac_type c = to \<and> ji_partner inp = None \<and> ji_agreement inp = None)"

definition sub_bank_ok :: "journal_input \<Rightarrow> account \<Rightarrow> account \<Rightarrow> bool" where
  "sub_bank_ok inp d c =
     ((ji_type inp = ''sub_bank_load'' \<and> ac_type d \<in> {Platform_treasury, Customer_wallet} \<and> ac_type c = Restaurant_sub_bank \<or>
       ji_type inp = ''sub_bank_load_reversal'' \<and> ac_type d = Restaurant_sub_bank \<and> ac_type c = Platform_treasury \<or>
       ji_type inp = ''sub_bank_redemption'' \<and> ac_type d = Restaurant_sub_bank \<and> ac_type c = Partner_payable \<and> same_partner c inp \<or>
       ji_type inp = ''sub_bank_refund'' \<and> ac_type d = Partner_payable \<and> ac_type c = Restaurant_sub_bank \<and> same_partner d inp \<or>
       ji_type inp = ''sub_bank_opening_balance'' \<and> ac_type d = Platform_treasury \<and> ac_type c = Restaurant_sub_bank) \<and>
      ji_agreement inp = None)"

definition checkDirection :: "journal_input \<Rightarrow> account \<Rightarrow> account \<Rightarrow> unit res" where
  "checkDirection inp d c =
     (let t = ji_type inp in
      if t = ''adjustment'' \<and> \<not> adjustment_ok inp d c then Inl (AppError 400 ''credit_adjustment_direction_invalid'')
      else if t = ''cash_out'' \<and> \<not> cash_out_ok inp d c then Inl (AppError 400 ''credit_cash_out_direction_invalid'')
      else if t = ''fee'' \<and> \<not> fee_ok inp d c then Inl (AppError 400 ''credit_fee_direction_invalid'')
      else if t \<in> {''escheatment'', ''escheat_reclaim'', ''escheat_remittance''} \<and> \<not> escheat_ok inp d c
      then Inl (AppError 400 ''credit_escheat_direction_invalid'')
      else if t \<in> {''withdrawal_fee'', ''transfer_fee''} \<and> \<not> plain_ok Customer_wallet Platform_revenue inp d c
      then Inl (AppError 400 ''credit_fee_direction_invalid'')
      else if t = ''sub_bank_conversion'' \<and> \<not> plain_ok Restaurant_sub_bank Customer_wallet inp d c
      then Inl (AppError 400 ''credit_sub_bank_conversion_direction_invalid'')
      else if t = ''sub_bank_payout_reversal'' \<and> \<not> plain_ok Platform_treasury Restaurant_sub_bank inp d c
      then Inl (AppError 400 ''credit_sub_bank_payout_reversal_direction_invalid'')
      else if t \<in> {''sub_bank_load'', ''sub_bank_redemption'', ''sub_bank_refund'', ''sub_bank_opening_balance'',
                   ''sub_bank_load_reversal''} \<and> \<not> sub_bank_ok inp d c
      then Inl (AppError 400 ''credit_sub_bank_direction_invalid'')
      else Inr ())"

section \<open>Posting\<close>

definition mayGoNegative :: "account_type \<Rightarrow> bool" where
  "mayGoNegative t \<longleftrightarrow> t \<in> {Partner_payable, Platform_treasury, Platform_revenue}"

text \<open>Currency, status, funds, balance cap, helper floor and reserve floor, in the code's order.\<close>

definition checkMovement :: "config \<Rightarrow> ledger \<Rightarrow> journal_input \<Rightarrow> int \<Rightarrow> string \<Rightarrow> account \<Rightarrow> account \<Rightarrow> unit res" where
  "checkMovement cf db inp amount currency d c =
     (if credit_normalizeCurrency (Some (ac_currency d)) \<noteq> currency \<or> credit_normalizeCurrency (Some (ac_currency c)) \<noteq> currency
      then Inl (AppError 409 ''credit_currency_mismatch'')
      else
        let canUseSuspended = (ji_allowSuspended inp \<and> ji_type inp \<in> {''adjustment'', ''refund''} \<and>
              ac_status d \<noteq> Closed \<and> ac_status c \<noteq> Closed);
            availableDebit = ac_balance d - ac_reserved d in
        if ac_status d = Closed \<or> ac_status c = Closed \<or>
           \<not> canUseSuspended \<and> (ac_status d \<noteq> Active \<or> ac_status c \<noteq> Active)
        then Inl (AppError 409 ''credit_account_inactive'')
        else if \<not> mayGoNegative (ac_type d) \<and> availableDebit < amount
        then Inl (AppError 409 ''credit_insufficient_funds'')
        else res_bind (limit cf ''max_customer_balance'' currency) (\<lambda>maxBalance.
          if ac_type c = Customer_wallet \<and> maxBalance < ac_balance c + amount
          then Inl (AppError 409 ''credit_balance_limit_exceeded'')
          else if ac_non_negative d \<and> availableDebit < amount
          then Inl (AppError 409 ''credit_helper_balance_insufficient'')
          else if ac_type d = Partner_reserve then assertReserveFloorForPosting db d (ac_balance d - amount)
          else Inr ()))"

text \<open>\<open>INSERT INTO oxsteed_credit_transactions ... ON CONFLICT (idempotency_key) DO NOTHING RETURNING *\<close>.\<close>

definition insertTransaction :: "txn \<Rightarrow> txn option credit" where
  "insertTransaction t = (\<lambda>db.
     if list_ex (\<lambda>x. tx_key x = tx_key t) (txns db) then (Inr None, db)
     else let row = t\<lparr>tx_id := next_id (map tx_id (txns db))\<rparr> in
          (Inr (Some row), db\<lparr>txns := txns db @ [row]\<rparr>))"

text \<open>\<open>text || null\<close>.\<close>

definition or_null :: "string option \<Rightarrow> string option" where
  "or_null x = (if x = Some [] then None else x)"

definition optText :: "string option \<Rightarrow> json" where
  "optText x = (case x of None \<Rightarrow> NullJ | Some s \<Rightarrow> TextJ s)"

definition entry_payload :: "txn \<Rightarrow> account \<Rightarrow> side \<Rightarrow> int \<Rightarrow> int \<Rightarrow> string \<Rightarrow> json \<Rightarrow> json" where
  "entry_payload t a sd amount nextBalance currency metadata =
     ObjJ [(''transactionId'', TextJ (show_int (tx_id t))), (''transactionType'', TextJ (tx_type t)), (''accountId'', IntJ (ac_id a)),
           (''entrySide'', TextJ (case sd of Debit \<Rightarrow> ''debit'' | Credit \<Rightarrow> ''credit'')), (''amountCents'', IntJ amount),
           (''balanceAfterCents'', IntJ nextBalance), (''currencyCode'', TextJ currency),
           (''sequence'', IntJ (ac_version a + 1)), (''previousEntryHash'', optText (or_null (ac_hash a))),
           (''metadata'', normalizeMetadata metadata)]"

text \<open>\<open>computeEntryHash\<close>: the HMAC of the canonical text; no secret for the version throws.\<close>

definition computeEntryHash :: "config \<Rightarrow> string \<Rightarrow> json \<Rightarrow> string res" where
  "computeEntryHash cf version payload =
     (case cf_hmac cf version (stableStringify payload) of
        None \<Rightarrow> Inl (JsError ''ledger secret'') | Some h \<Rightarrow> Inr h)"

text \<open>One turn of the loop over the two account updates.\<close>

definition postEntry ::
  "config \<Rightarrow> string \<Rightarrow> txn \<Rightarrow> account \<Rightarrow> side \<Rightarrow> int \<Rightarrow> int \<Rightarrow> string \<Rightarrow> json \<Rightarrow> entry credit" where
  "postEntry cf version t a sd amount nextBalance currency metadata =
     bind (lift_res (computeEntryHash cf version (entry_payload t a sd amount nextBalance currency metadata))) (\<lambda>h.
     let e = \<lparr>en_txn = tx_id t, en_account = ac_id a, en_side = sd, en_amount = amount, en_balance_after = nextBalance,
              en_sequence = ac_version a + 1, en_previous = or_null (ac_hash a), en_hash = h, en_key_version = version,
              en_metadata = normalizeMetadata metadata\<rparr> in
     bind (modify (\<lambda>db. db\<lparr>
         accounts := upd_where (\<lambda>x. ac_id x = ac_id a)
            (\<lambda>x. x\<lparr>ac_balance := nextBalance, ac_version := ac_version a + 1, ac_hash := Some h\<rparr>) (accounts db),
         entries := entries db @ [e]\<rparr>)) (\<lambda>_.
     ret e))"

definition insertAudit :: "audit \<Rightarrow> unit credit" where
  "insertAudit x = modify (\<lambda>db. db\<lparr>audits := audits db @ [x]\<rparr>)"

definition notify_payload :: "journal_input \<Rightarrow> txn \<Rightarrow> string \<Rightarrow> int \<Rightarrow> string \<Rightarrow> json" where
  "notify_payload inp t direction amount currency =
     ObjJ [(''transactionId'', TextJ (show_int (tx_id t))), (''transactionType'', TextJ (ji_type inp)), (''direction'', TextJ direction),
           (''amountCents'', IntJ amount), (''currencyCode'', TextJ currency),
           (''partnerId'', optText (map_option show_int (ji_partner inp))),
           (''referenceType'', optText (normalizeString (ji_refType inp) 80)),
           (''referenceId'', optText (normalizeString (ji_refId inp) 160))]"

text \<open>One notification per wallet owner of the movement, the debit side first.\<close>

definition enqueueCreditTransactionNotifications :: "journal_input \<Rightarrow> txn \<Rightarrow> account \<Rightarrow> account \<Rightarrow> int \<Rightarrow> string \<Rightarrow> unit credit" where
  "enqueueCreditTransactionNotifications inp t d c amount currency =
     (let recipients = filter (\<lambda>(a, _). ac_type a = Customer_wallet \<and> ac_customer a \<noteq> None) [(d, ''debit''), (c, ''credit'')];
          unique = (case recipients of
             [(a, x), (b, y)] \<Rightarrow> if ac_customer a = ac_customer b then [(a, x)] else recipients | _ \<Rightarrow> recipients);
          notes = map (\<lambda>(a, direction). \<lparr>no_txn = tx_id t, no_user = the (ac_customer a),
                     no_payload = notify_payload inp t direction amount currency\<rparr>) unique in
      modify (\<lambda>db. db\<lparr>outbox := outbox db @
        filter (\<lambda>n. \<not> list_ex (\<lambda>m. no_txn m = no_txn n \<and> no_user m = no_user n) (outbox db)) notes\<rparr>))"

definition posting_audit :: "journal_input \<Rightarrow> txn \<Rightarrow> account \<Rightarrow> account \<Rightarrow> int \<Rightarrow> audit" where
  "posting_audit inp t d c amount =
     \<lparr>au_action = ''credit.'' @ ji_type inp @ ''.posted'', au_actor = ji_actorUser inp,
      au_customer = (case ji_customer inp of Some u \<Rightarrow> Some u
        | None \<Rightarrow> if ac_type c = Customer_wallet then ac_customer c else ac_customer d),
      au_partner = ji_partner inp, au_resource_type = ''credit_transaction'', au_resource_id = tx_id t,
      au_reason = normalizeString (ji_reason inp) 500, au_correlation = normalizeString (ji_correlation inp) 160,
      au_request_ip = ji_requestIp inp, au_before = NullJ,
      au_after = ObjJ [(''transactionId'', TextJ (show_int (tx_id t))), (''amountCents'', IntJ amount),
                       (''debitAccountId'', TextJ (show_int (ac_id d))), (''creditAccountId'', TextJ (show_int (ac_id c)))],
      au_metadata = normalizeMetadata (ji_metadata inp)\<rparr>"

definition requested_txn :: "config \<Rightarrow> journal_input \<Rightarrow> string \<Rightarrow> int \<Rightarrow> string \<Rightarrow> txn" where
  "requested_txn cf inp key amount currency =
     \<lparr>tx_id = 0, tx_type = ji_type inp, tx_status = ''posted'', tx_debit = ji_debit inp, tx_credit = ji_credit inp,
      tx_amount = amount, tx_currency = currency, tx_partner = ji_partner inp, tx_agreement = ji_agreement inp,
      tx_key = key, tx_correlation = normalizeString (ji_correlation inp) 160,
      tx_refType = normalizeString (ji_refType inp) 80, tx_refId = normalizeString (ji_refId inp) 160,
      tx_description = normalizeString (ji_description inp) 255, tx_reason = normalizeString (ji_reason inp) 500,
      tx_actorType = (case normalizeString (ji_actorType inp) 32 of None \<Rightarrow> ''system'' | Some s \<Rightarrow> s),
      tx_actorUser = ji_actorUser inp, tx_metadata = normalizeMetadata (ji_metadata inp), tx_created = cf_db_now cf\<rparr>"

definition requested_replay :: "journal_input \<Rightarrow> int \<Rightarrow> string \<Rightarrow> replay_request" where
  "requested_replay inp amount currency =
     \<lparr>rq_columns = txn_columns (ji_type inp) (ji_debit inp) (ji_credit inp) amount currency (ji_partner inp)
        (ji_agreement inp) (normalizeString (ji_refType inp) 80) (normalizeString (ji_refId inp) 160),
      rq_reason = Some (normalizeString (ji_reason inp) 500),
      rq_description = Some (normalizeString (ji_description inp) 255),
      rq_metadata = Some (normalizeMetadata (ji_metadata inp))\<rparr>"

text \<open>The statements after the INSERT that created the transaction row.\<close>

definition writeLegs :: "config \<Rightarrow> journal_input \<Rightarrow> int \<Rightarrow> string \<Rightarrow> account \<Rightarrow> account \<Rightarrow> txn \<Rightarrow> posting credit" where
  "writeLegs cf inp amount currency d c t =
     (case cf_key_version cf of
        None \<Rightarrow> fail (JsError ''ledger key version'')
      | Some version \<Rightarrow>
          bind (postEntry cf version t d Debit amount (ac_balance d - amount) currency (ji_metadata inp)) (\<lambda>e1.
          bind (postEntry cf version t c Credit amount (ac_balance c + amount) currency (ji_metadata inp)) (\<lambda>e2.
          bind (insertAudit (posting_audit inp t d c amount)) (\<lambda>_.
          bind (enqueueCreditTransactionNotifications inp t d c amount currency) (\<lambda>_.
          ret \<lparr>po_txn = t, po_entries = [e1, e2], po_replayed = False\<rparr>)))))"

definition writeJournal ::
  "config \<Rightarrow> journal_input \<Rightarrow> string \<Rightarrow> int \<Rightarrow> string \<Rightarrow> account \<Rightarrow> account \<Rightarrow> posting credit" where
  "writeJournal cf inp key amount currency d c =
     bind (insertTransaction (requested_txn cf inp key amount currency)) (\<lambda>inserted.
     case inserted of
       Some t \<Rightarrow> writeLegs cf inp amount currency d c t
     | None \<Rightarrow>
         bind (gets (getExistingTransaction key)) (\<lambda>winner.
         case winner of
           None \<Rightarrow> fail (AppError 409 ''credit_idempotency_retry_required'')
         | Some t \<Rightarrow> replayTransaction (requested_replay inp amount currency) t))"

text \<open>The locked rows, the guards, and the write.\<close>

definition postMovement :: "config \<Rightarrow> journal_input \<Rightarrow> string \<Rightarrow> int \<Rightarrow> string \<Rightarrow> posting credit" where
  "postMovement cf inp key amount currency =
     bind (gets (\<lambda>db. (db, filter (\<lambda>a. ac_id a = ji_debit inp \<or> ac_id a = ji_credit inp) (accounts db)))) (\<lambda>(db, locked).
     if length locked \<noteq> 2 then fail (AppError 404 ''credit_account_not_found'')
     else case (find (\<lambda>a. ac_id a = ji_debit inp) locked, find (\<lambda>a. ac_id a = ji_credit inp) locked) of
       (Some d, Some c) \<Rightarrow>
         if ac_id d = ac_id c then fail (AppError 400 ''credit_account_movement_invalid'')
         else bind (lift_res (checkDirection inp d c)) (\<lambda>_.
              bind (lift_res (checkMovement cf db inp amount currency d c)) (\<lambda>_.
              writeJournal cf inp key amount currency d c))
     | _ \<Rightarrow> fail (AppError 400 ''credit_account_movement_invalid''))"

definition postJournalTransaction :: "config \<Rightarrow> journal_input \<Rightarrow> posting credit" where
  "postJournalTransaction cf inp =
     bind (lift_res (parseAmountCents cf (ji_amount inp) (Some (Some (ji_currency inp))))) (\<lambda>amount.
     case normalizeString (ji_key inp) 160 of
       None \<Rightarrow> fail (AppError 400 ''credit_idempotency_key_required'')
     | Some key \<Rightarrow>
         if ji_type inp \<notin> set POSTABLE_CREDIT_TRANSACTION_TYPES then fail (AppError 400 ''credit_transaction_type_invalid'')
         else bind (lift_res (assertSupportedCreditCurrency cf (Some (ji_currency inp)))) (\<lambda>currency.
         bind (case ji_existing inp of Some t \<Rightarrow> ret (Some t) | None \<Rightarrow> gets (getExistingTransaction key)) (\<lambda>existing.
         case existing of
           Some t \<Rightarrow> replayTransaction (requested_replay inp amount currency) t
         | None \<Rightarrow> postMovement cf inp key amount currency)))"

end
