(* ===== verification/JournalFacts.thy ===== *)
theory JournalFacts
  imports Journal
begin

text \<open>
  What a posting does, proved from the definitions of \<open>Journal\<close>: either it replays a committed
  transaction and writes nothing, or it appends one transaction and its two legs after every
  guard passed. The invariants of the ledger and the properties of posting rest on these facts.
\<close>

section \<open>The effect of a posting\<close>

definition leg_entry ::
  "string \<Rightarrow> txn \<Rightarrow> account \<Rightarrow> side \<Rightarrow> int \<Rightarrow> int \<Rightarrow> json \<Rightarrow> string \<Rightarrow> entry" where
  "leg_entry version t a sd amount nextBalance metadata h =
     \<lparr>en_txn = tx_id t, en_account = ac_id a, en_side = sd, en_amount = amount, en_balance_after = nextBalance,
      en_sequence = ac_version a + 1, en_previous = or_null (ac_hash a), en_hash = h, en_key_version = version,
      en_metadata = normalizeMetadata metadata\<rparr>"

definition put_leg :: "account \<Rightarrow> int \<Rightarrow> string \<Rightarrow> account list \<Rightarrow> account list" where
  "put_leg a nextBalance h =
     upd_where (\<lambda>x. ac_id x = ac_id a)
       (\<lambda>x. x\<lparr>ac_balance := nextBalance, ac_version := ac_version a + 1, ac_hash := Some h\<rparr>)"

lemma postEntry_Inr:
  "postEntry cf version t a sd amount nextBalance currency metadata db = (Inr e, db') \<longleftrightarrow>
   (\<exists>h. computeEntryHash cf version (entry_payload t a sd amount nextBalance currency metadata) = Inr h \<and>
        e = leg_entry version t a sd amount nextBalance metadata h \<and>
        db' = db\<lparr>accounts := put_leg a nextBalance h (accounts db), entries := entries db @ [e]\<rparr>)"
  unfolding postEntry_def bind_Inr_iff lift_res_apply
  by (auto simp: leg_entry_def put_leg_def Let_def bind_Inr_iff ret_def modify_def)

definition moved ::
  "config \<Rightarrow> journal_input \<Rightarrow> string \<Rightarrow> txn \<Rightarrow> account \<Rightarrow> account \<Rightarrow> int \<Rightarrow> string \<Rightarrow> entry \<Rightarrow> entry \<Rightarrow> ledger \<Rightarrow> ledger \<Rightarrow> bool" where
  "moved cf inp version t d c amount currency e1 e2 db db' \<longleftrightarrow>
     cf_key_version cf = Some version \<and>
     computeEntryHash cf version (entry_payload t d Debit amount (ac_balance d - amount) currency (ji_metadata inp)) = Inr (en_hash e1) \<and>
     computeEntryHash cf version (entry_payload t c Credit amount (ac_balance c + amount) currency (ji_metadata inp)) = Inr (en_hash e2) \<and>
     e1 = leg_entry version t d Debit amount (ac_balance d - amount) (ji_metadata inp) (en_hash e1) \<and>
     e2 = leg_entry version t c Credit amount (ac_balance c + amount) (ji_metadata inp) (en_hash e2) \<and>
     db' = db\<lparr>accounts := put_leg c (ac_balance c + amount) (en_hash e2)
                            (put_leg d (ac_balance d - amount) (en_hash e1) (accounts db)),
              txns := txns db @ [t], entries := entries db @ [e1, e2],
              audits := audits db @ [posting_audit inp t d c amount], outbox := outbox db'\<rparr>"

lemma writeLegs_Inr:
  assumes "writeLegs cf inp amount currency d c t (db\<lparr>txns := txns db @ [t]\<rparr>) = (Inr p, db')"
  obtains version e1 e2 where
    "moved cf inp version t d c amount currency e1 e2 db db'"
    "p = \<lparr>po_txn = t, po_entries = [e1, e2], po_replayed = False\<rparr>"
proof -
  from assms obtain version e1 e2 s1 s2 s3 where
    kv: "cf_key_version cf = Some version" and
    e1: "postEntry cf version t d Debit amount (ac_balance d - amount) currency (ji_metadata inp)
           (db\<lparr>txns := txns db @ [t]\<rparr>) = (Inr e1, s1)" and
    e2: "postEntry cf version t c Credit amount (ac_balance c + amount) currency (ji_metadata inp) s1 = (Inr e2, s2)" and
    s3: "s3 = s2\<lparr>audits := audits s2 @ [posting_audit inp t d c amount]\<rparr>" and
    n: "enqueueCreditTransactionNotifications inp t d c amount currency s3 = (Inr (), db')" and
    p: "p = \<lparr>po_txn = t, po_entries = [e1, e2], po_replayed = False\<rparr>"
    unfolding writeLegs_def
    by (auto split: option.splits simp: bind_Inr_iff insertAudit_def)
  have n': "db' = s3\<lparr>outbox := outbox db'\<rparr>"
    using n by (auto simp: enqueueCreditTransactionNotifications_def Let_def)
  obtain h1 where h1: "computeEntryHash cf version (entry_payload t d Debit amount (ac_balance d - amount) currency (ji_metadata inp)) = Inr h1"
    "e1 = leg_entry version t d Debit amount (ac_balance d - amount) (ji_metadata inp) h1"
    "s1 = db\<lparr>txns := txns db @ [t], accounts := put_leg d (ac_balance d - amount) h1 (accounts db), entries := entries db @ [e1]\<rparr>"
    using e1 [unfolded postEntry_Inr] by auto
  obtain h2 where h2: "computeEntryHash cf version (entry_payload t c Credit amount (ac_balance c + amount) currency (ji_metadata inp)) = Inr h2"
    "e2 = leg_entry version t c Credit amount (ac_balance c + amount) (ji_metadata inp) h2"
    "s2 = s1\<lparr>accounts := put_leg c (ac_balance c + amount) h2 (accounts s1), entries := entries s1 @ [e2]\<rparr>"
    using e2 [unfolded postEntry_Inr] by auto
  have h: "en_hash e1 = h1" "en_hash e2 = h2"
    using h1 h2 by (simp_all add: leg_entry_def)
  have db': "db' = db\<lparr>accounts := put_leg c (ac_balance c + amount) h2 (put_leg d (ac_balance d - amount) h1 (accounts db)),
              txns := txns db @ [t], entries := entries db @ [e1, e2],
              audits := audits db @ [posting_audit inp t d c amount], outbox := outbox db'\<rparr>"
    by (subst n') (simp add: s3 h1(3) h2(3))
  have "moved cf inp version t d c amount currency e1 e2 db db'"
    unfolding moved_def h using kv h1(1,2) h2(1,2) db' by blast
  with p that show thesis by blast
qed

lemma find_filter: "(\<And>x. P x \<Longrightarrow> Q x) \<Longrightarrow> find P (filter Q xs) = find P xs"
  by (induction xs) auto

lemma getExistingTransaction_None:
  "getExistingTransaction key db = None \<longleftrightarrow> \<not> list_ex (\<lambda>x. tx_key x = key) (txns db)"
  by (auto simp: getExistingTransaction_def find_None_iff list_ex_iff)

lemma writeJournal_Inr:
  assumes "writeJournal cf inp key amount currency d c db = (Inr p, db')"
    and "getExistingTransaction key db = None"
  obtains version t e1 e2 where
    "t = (requested_txn cf inp key amount currency)\<lparr>tx_id := next_id (map tx_id (txns db))\<rparr>"
    "moved cf inp version t d c amount currency e1 e2 db db'"
    "p = \<lparr>po_txn = t, po_entries = [e1, e2], po_replayed = False\<rparr>"
proof -
  let ?t = "(requested_txn cf inp key amount currency)\<lparr>tx_id := next_id (map tx_id (txns db))\<rparr>"
  have "tx_key (requested_txn cf inp key amount currency) = key" by (simp add: requested_txn_def)
  with assms(2) have "insertTransaction (requested_txn cf inp key amount currency) db = (Inr (Some ?t), db\<lparr>txns := txns db @ [?t]\<rparr>)"
    by (simp add: insertTransaction_def getExistingTransaction_None Let_def)
  with assms(1) have "writeLegs cf inp amount currency d c ?t (db\<lparr>txns := txns db @ [?t]\<rparr>) = (Inr p, db')"
    by (simp add: writeJournal_def bind_apply)
  then obtain version e1 e2 where m: "moved cf inp version ?t d c amount currency e1 e2 db db'"
    and p: "p = \<lparr>po_txn = ?t, po_entries = [e1, e2], po_replayed = False\<rparr>"
    by (rule writeLegs_Inr)
  show thesis by (rule that [OF refl m p])
qed

lemma replayTransaction_Inr:
  "replayTransaction rq t db = (Inr p, db') \<longleftrightarrow>
   tx_status t = ''posted'' \<and> assertIdempotencyReplayMatches t rq = Inr () \<and> db' = db \<and>
   p = \<lparr>po_txn = t, po_entries = loadAccountEntries db (tx_id t), po_replayed = True\<rparr>"
  by (auto simp: replayTransaction_def bind_Inr_iff)

lemma postMovement_Inr:
  assumes "postMovement cf inp key amount currency db = (Inr p, db')"
    and "getExistingTransaction key db = None"
  obtains version d c t e1 e2 where
    "find (\<lambda>a. ac_id a = ji_debit inp) (accounts db) = Some d"
    "find (\<lambda>a. ac_id a = ji_credit inp) (accounts db) = Some c"
    "ji_debit inp \<noteq> ji_credit inp"
    "checkDirection inp d c = Inr ()" "checkMovement cf db inp amount currency d c = Inr ()"
    "t = (requested_txn cf inp key amount currency)\<lparr>tx_id := next_id (map tx_id (txns db))\<rparr>"
    "moved cf inp version t d c amount currency e1 e2 db db'"
    "p = \<lparr>po_txn = t, po_entries = [e1, e2], po_replayed = False\<rparr>"
proof -
  let ?L = "filter (\<lambda>a. ac_id a = ji_debit inp \<or> ac_id a = ji_credit inp) (accounts db)"
  have fd: "find (\<lambda>a. ac_id a = ji_debit inp) ?L = find (\<lambda>a. ac_id a = ji_debit inp) (accounts db)"
    and fc: "find (\<lambda>a. ac_id a = ji_credit inp) ?L = find (\<lambda>a. ac_id a = ji_credit inp) (accounts db)"
    by (simp_all add: find_filter)
  from assms(1) have len: "length ?L = 2"
    by (cases "length ?L = 2") (simp_all add: postMovement_def bind_apply)
  from assms(1) len obtain d where d: "find (\<lambda>a. ac_id a = ji_debit inp) (accounts db) = Some d"
    by (cases "find (\<lambda>a. ac_id a = ji_debit inp) (accounts db)") (simp_all add: postMovement_def bind_apply fd fc)
  from assms(1) len d obtain c where c: "find (\<lambda>a. ac_id a = ji_credit inp) (accounts db) = Some c"
    by (cases "find (\<lambda>a. ac_id a = ji_credit inp) (accounts db)") (simp_all add: postMovement_def bind_apply fd fc)
  from assms(1) len d c have ne: "ac_id d \<noteq> ac_id c"
    by (cases "ac_id d = ac_id c") (simp_all add: postMovement_def bind_apply fd fc)
  from assms(1) len d c ne have g1: "checkDirection inp d c = Inr ()"
    by (cases "checkDirection inp d c") (simp_all add: postMovement_def bind_apply fd fc)
  from assms(1) len d c ne g1 have g2: "checkMovement cf db inp amount currency d c = Inr ()"
    by (cases "checkMovement cf db inp amount currency d c") (simp_all add: postMovement_def bind_apply fd fc)
  note g = g1 g2
  from assms(1) len d c ne g have w: "writeJournal cf inp key amount currency d c db = (Inr p, db')"
    by (simp add: postMovement_def bind_apply fd fc)
  from ne find_SomeD [OF d] find_SomeD [OF c] have "ji_debit inp \<noteq> ji_credit inp" by simp
  with writeJournal_Inr [OF w assms(2)] d c g that show thesis by metis
qed

text \<open>Every call that returns is a replay that writes nothing or a movement that passed every guard.\<close>

lemma postJournalTransaction_Inr:
  assumes "postJournalTransaction cf inp db = (Inr p, db')"
  obtains (replayed) t amount currency key where
    "parseAmountCents cf (ji_amount inp) (Some (Some (ji_currency inp))) = Inr amount"
    "assertSupportedCreditCurrency cf (Some (ji_currency inp)) = Inr currency"
    "normalizeString (ji_key inp) 160 = Some key"
    "ji_existing inp = Some t \<or> ji_existing inp = None \<and> getExistingTransaction key db = Some t"
    "replayTransaction (requested_replay inp amount currency) t db = (Inr p, db')"
  | (moved) amount currency key version d c t e1 e2 where
    "parseAmountCents cf (ji_amount inp) (Some (Some (ji_currency inp))) = Inr amount"
    "assertSupportedCreditCurrency cf (Some (ji_currency inp)) = Inr currency"
    "normalizeString (ji_key inp) 160 = Some key"
    "ji_type inp \<in> set POSTABLE_CREDIT_TRANSACTION_TYPES"
    "ji_existing inp = None" "getExistingTransaction key db = None"
    "find (\<lambda>a. ac_id a = ji_debit inp) (accounts db) = Some d"
    "find (\<lambda>a. ac_id a = ji_credit inp) (accounts db) = Some c"
    "ji_debit inp \<noteq> ji_credit inp"
    "checkDirection inp d c = Inr ()" "checkMovement cf db inp amount currency d c = Inr ()"
    "t = (requested_txn cf inp key amount currency)\<lparr>tx_id := next_id (map tx_id (txns db))\<rparr>"
    "moved cf inp version t d c amount currency e1 e2 db db'"
    "p = \<lparr>po_txn = t, po_entries = [e1, e2], po_replayed = False\<rparr>"
proof -
  from assms obtain amount where
    a: "parseAmountCents cf (ji_amount inp) (Some (Some (ji_currency inp))) = Inr amount"
    by (cases "parseAmountCents cf (ji_amount inp) (Some (Some (ji_currency inp)))")
      (simp_all add: postJournalTransaction_def bind_apply)
  from assms a obtain key where k: "normalizeString (ji_key inp) 160 = Some key"
    by (cases "normalizeString (ji_key inp) 160") (simp_all add: postJournalTransaction_def bind_apply)
  from assms a k have ty: "ji_type inp \<in> set POSTABLE_CREDIT_TRANSACTION_TYPES"
    by (cases "ji_type inp \<in> set POSTABLE_CREDIT_TRANSACTION_TYPES") (simp_all add: postJournalTransaction_def bind_apply)
  from assms a k ty obtain currency where cu: "assertSupportedCreditCurrency cf (Some (ji_currency inp)) = Inr currency"
    by (cases "assertSupportedCreditCurrency cf (Some (ji_currency inp))")
      (simp_all add: postJournalTransaction_def bind_apply)
  have rest: "(case (case ji_existing inp of Some t \<Rightarrow> Some t | None \<Rightarrow> getExistingTransaction key db) of
              Some t \<Rightarrow> replayTransaction (requested_replay inp amount currency) t
            | None \<Rightarrow> postMovement cf inp key amount currency) db = (Inr p, db')"
    using assms a k ty cu by (cases "ji_existing inp") (simp_all add: postJournalTransaction_def bind_apply)
  show thesis
  proof (cases "case ji_existing inp of Some t \<Rightarrow> Some t | None \<Rightarrow> getExistingTransaction key db")
    case (Some t)
    with rest have r: "replayTransaction (requested_replay inp amount currency) t db = (Inr p, db')" by simp
    from Some have "ji_existing inp = Some t \<or> ji_existing inp = None \<and> getExistingTransaction key db = Some t"
      by (auto split: option.splits)
    from replayed [OF a cu k this r] show thesis .
  next
    case None
    then have e: "ji_existing inp = None" "getExistingTransaction key db = None" by (auto split: option.splits)
    from None rest have "postMovement cf inp key amount currency db = (Inr p, db')" by simp
    from this e(2) show thesis by (rule postMovement_Inr) (rule moved [OF a cu k ty e])
  qed
qed

section \<open>What the guards establish\<close>

lemma parseAmountCents_pos: "parseAmountCents cf v cur = Inr amount \<Longrightarrow> 0 < amount"
  by (auto simp: parseAmountCents_def res_bind_Inr_iff split: option.splits if_splits)

lemma checkMovement_Inr:
  assumes "checkMovement cf db inp amount currency d c = Inr ()"
  shows "credit_normalizeCurrency (Some (ac_currency d)) = currency"
    "credit_normalizeCurrency (Some (ac_currency c)) = currency"
    "ac_status d \<noteq> Closed" "ac_status c \<noteq> Closed"
    "ji_allowSuspended inp \<and> ji_type inp \<in> {''adjustment'', ''refund''} \<or> ac_status d = Active \<and> ac_status c = Active"
    "\<not> mayGoNegative (ac_type d) \<or> ac_non_negative d \<Longrightarrow> amount \<le> ac_balance d - ac_reserved d"
    "ac_type c = Customer_wallet \<Longrightarrow> \<exists>m. limit cf ''max_customer_balance'' currency = Inr m \<and> ac_balance c + amount \<le> m"
    "ac_type d = Partner_reserve \<Longrightarrow> assertReserveFloorForPosting db d (ac_balance d - amount) = Inr ()"
  using assms
  by (auto simp: checkMovement_def Let_def res_bind_Inr_iff split: if_splits)

section \<open>Frames\<close>

lemma put_leg_ids [simp]: "map ac_id (put_leg a b h rows) = map ac_id rows"
  unfolding put_leg_def by (intro map_upd_where_frame) simp

lemma put_leg_frame:
  assumes "\<And>x b v h. g (x\<lparr>ac_balance := b, ac_version := v, ac_hash := h\<rparr>) = g x"
  shows "map g (put_leg a b h rows) = map g rows"
  unfolding put_leg_def by (intro map_upd_where_frame) (rule assms)

lemma put_leg_other: "x \<in> set rows \<Longrightarrow> ac_id x \<noteq> ac_id a \<Longrightarrow> x \<in> set (put_leg a b h rows)"
  by (force simp: put_leg_def set_upd_where)

lemma put_leg_sum:
  fixes g :: "account \<Rightarrow> int"
  assumes "distinct (map ac_id rows)" "a \<in> set rows"
  shows "sum_list (map g (put_leg a b h rows)) =
         sum_list (map g rows) - g a + g (a\<lparr>ac_balance := b, ac_version := ac_version a + 1, ac_hash := Some h\<rparr>)"
  unfolding put_leg_def by (rule sum_upd_where_key [OF assms])

text \<open>The accounts after both legs, one by one.\<close>

definition after_legs :: "account \<Rightarrow> account \<Rightarrow> int \<Rightarrow> string \<Rightarrow> string \<Rightarrow> account \<Rightarrow> account" where
  "after_legs d c amount h1 h2 x =
     (if ac_id x = ac_id c then x\<lparr>ac_balance := ac_balance c + amount, ac_version := ac_version c + 1, ac_hash := Some h2\<rparr>
      else if ac_id x = ac_id d then x\<lparr>ac_balance := ac_balance d - amount, ac_version := ac_version d + 1, ac_hash := Some h1\<rparr>
      else x)"

lemma after_legs_frame [simp]:
  "ac_id (after_legs d c amount h1 h2 x) = ac_id x"
  "ac_type (after_legs d c amount h1 h2 x) = ac_type x"
  "ac_customer (after_legs d c amount h1 h2 x) = ac_customer x"
  "ac_partner (after_legs d c amount h1 h2 x) = ac_partner x"
  "ac_restaurant (after_legs d c amount h1 h2 x) = ac_restaurant x"
  "ac_currency (after_legs d c amount h1 h2 x) = ac_currency x"
  "ac_reserved (after_legs d c amount h1 h2 x) = ac_reserved x"
  "ac_status (after_legs d c amount h1 h2 x) = ac_status x"
  "ac_non_negative (after_legs d c amount h1 h2 x) = ac_non_negative x"
  by (simp_all add: after_legs_def)

lemma moved_accounts:
  assumes "moved cf inp version t d c amount currency e1 e2 db db'" and "ac_id d \<noteq> ac_id c"
  shows "accounts db' = map (after_legs d c amount (en_hash e1) (en_hash e2)) (accounts db)"
proof -
  have "accounts db' = put_leg c (ac_balance c + amount) (en_hash e2) (put_leg d (ac_balance d - amount) (en_hash e1) (accounts db))"
    using assms(1) unfolding moved_def
    by (metis (no_types, lifting) ledger.select_convs(1) ledger.surjective ledger.update_convs(1,2,3,4,5))
  then show ?thesis using assms(2) by (auto simp: put_leg_def upd_where_def after_legs_def)
qed

lemma moved_frame:
  assumes "moved cf inp version t d c amount currency e1 e2 db db'"
  shows "txns db' = txns db @ [t]" "entries db' = entries db @ [e1, e2]" "holds db' = holds db"
    "users db' = users db" "policies db' = policies db" "partners db' = partners db"
    "restaurants db' = restaurants db" "participants db' = participants db" "agreements db' = agreements db"
    "entitlements db' = entitlements db" "rail db' = rail db" "frozen db' = frozen db"
    "audits db' = audits db @ [posting_audit inp t d c amount]"
proof -
  obtain A B where "db' = db\<lparr>accounts := A, txns := txns db @ [t], entries := entries db @ [e1, e2],
      audits := audits db @ [posting_audit inp t d c amount], outbox := B\<rparr>"
    using assms unfolding moved_def by blast
  then show "txns db' = txns db @ [t]" "entries db' = entries db @ [e1, e2]" "holds db' = holds db"
    "users db' = users db" "policies db' = policies db" "partners db' = partners db"
    "restaurants db' = restaurants db" "participants db' = participants db" "agreements db' = agreements db"
    "entitlements db' = entitlements db" "rail db' = rail db" "frozen db' = frozen db"
    "audits db' = audits db @ [posting_audit inp t d c amount]" by simp_all
qed

lemma moved_legs:
  assumes "moved cf inp version t d c amount currency e1 e2 db db'"
  shows "en_txn e1 = tx_id t" "en_account e1 = ac_id d" "en_sequence e1 = ac_version d + 1" "en_previous e1 = or_null (ac_hash d)"
    "en_txn e2 = tx_id t" "en_account e2 = ac_id c" "en_sequence e2 = ac_version c + 1" "en_previous e2 = or_null (ac_hash c)"
    "en_side e1 = Debit" "en_side e2 = Credit" "en_amount e1 = amount" "en_amount e2 = amount"
    "en_key_version e1 = version" "en_key_version e2 = version"
proof -
  have e: "e1 = leg_entry version t d Debit amount (ac_balance d - amount) (ji_metadata inp) (en_hash e1)"
    "e2 = leg_entry version t c Credit amount (ac_balance c + amount) (ji_metadata inp) (en_hash e2)"
    using assms unfolding moved_def by blast+
  show "en_txn e1 = tx_id t" "en_account e1 = ac_id d" "en_sequence e1 = ac_version d + 1" "en_previous e1 = or_null (ac_hash d)"
    "en_side e1 = Debit" "en_amount e1 = amount" "en_key_version e1 = version"
    by (subst e(1), simp add: leg_entry_def)+
  show "en_txn e2 = tx_id t" "en_account e2 = ac_id c" "en_sequence e2 = ac_version c + 1" "en_previous e2 = or_null (ac_hash c)"
    "en_side e2 = Credit" "en_amount e2 = amount" "en_key_version e2 = version"
    by (subst e(2), simp add: leg_entry_def)+
qed

end
