(* ===== verification/LedgerInvariants.thy ===== *)
theory LedgerInvariants
  imports JournalFacts
begin

text \<open>
  What the journal promises about the ledger, and that postings and account creation keep it:
  unique keys, balances that sum to zero per currency, double entry, covered debits. Each promise
  is an interpretation of the locale \<open>posting_contract\<close>, which the operations on top of the
  journal (\<open>CreditOperations\<close>, \<open>CreditHolds\<close>) are verified against once.
\<close>

section \<open>Fresh ids\<close>

lemma next_id_fresh: "next_id ids \<notin> set ids"
proof -
  have "x \<in> set ids \<Longrightarrow> x \<le> foldr max ids 0" for x
    by (induction ids) auto
  then show ?thesis by (fastforce simp: next_id_def)
qed

section \<open>Account creation\<close>

lemma ensureAccount_Inr:
  assumes "ensureAccount cf w code anyOwner db = (Inr a, db')"
  obtains currency where
    "assertSupportedCreditCurrency cf code = Inr currency"
    "a \<in> set (accounts db')" "owned_by w currency a"
    "ow_type w = Customer_wallet \<Longrightarrow> wallet_owner anyOwner db' (ow_customer w)"
    "db' = db \<or> db' = db\<lparr>accounts := accounts db @ [new_account db w currency]\<rparr> \<and>
       owned_by w currency (new_account db w currency) \<and> \<not> list_ex (owned_by w currency) (accounts db)"
proof -
  from assms obtain currency where cu: "assertSupportedCreditCurrency cf code = Inr currency"
    by (cases "assertSupportedCreditCurrency cf code") (simp_all add: ensureAccount_def bind_apply)
  let ?c = "(ow_type w = Customer_wallet \<longrightarrow> wallet_owner anyOwner db (ow_customer w)) \<and>
            owned_by w currency (new_account db w currency) \<and> \<not> list_ex (owned_by w currency) (accounts db)"
  let ?s = "if ?c then db\<lparr>accounts := accounts db @ [new_account db w currency]\<rparr> else db"
  let ?P = "\<lambda>a. owned_by w currency a \<and> (ow_type w = Customer_wallet \<longrightarrow> wallet_owner anyOwner ?s (ow_customer w))"
  have "find ?P (accounts ?s) = Some a \<and> db' = ?s"
  proof (cases ?c)
    case True
    with assms cu show ?thesis
      by (cases "find ?P (accounts ?s)") (simp_all add: ensureAccount_def bind_apply split: if_splits)
  next
    case False
    then have s: "?s = db" by (rule if_not_P)
    with assms cu False show ?thesis
      unfolding s by (cases "find (\<lambda>a. owned_by w currency a \<and> (ow_type w = Customer_wallet \<longrightarrow>
          wallet_owner anyOwner db (ow_customer w))) (accounts db)")
        (simp_all add: ensureAccount_def bind_apply split: if_splits)
  qed
  then have f: "find ?P (accounts ?s) = Some a" and s: "db' = ?s" by blast+
  from find_SomeD [OF f] have "a \<in> set (accounts db')" "owned_by w currency a"
    "ow_type w = Customer_wallet \<Longrightarrow> wallet_owner anyOwner db' (ow_customer w)"
    using s by simp_all
  moreover have "db' = db \<or> db' = db\<lparr>accounts := accounts db @ [new_account db w currency]\<rparr> \<and>
       owned_by w currency (new_account db w currency) \<and> \<not> list_ex (owned_by w currency) (accounts db)"
    using s by (cases ?c) simp_all
  ultimately show thesis by (rule that [OF cu])
qed

lemma new_account_sel [simp]:
  "ac_id (new_account db w cur) = next_id (map ac_id (accounts db))"
  "ac_type (new_account db w cur) = ow_type w" "ac_currency (new_account db w cur) = cur"
  "ac_customer (new_account db w cur) = ow_customer w" "ac_partner (new_account db w cur) = ow_partner w"
  "ac_balance (new_account db w cur) = 0" "ac_reserved (new_account db w cur) = 0"
  "ac_version (new_account db w cur) = 0" "ac_hash (new_account db w cur) = None"
  "ac_status (new_account db w cur) = Active"
  by (simp_all add: new_account_def)

section \<open>The contract of a posting\<close>

text \<open>
  A client of the journal posts movements, opens accounts, appends audit rows and writes the tables of
  the screenings and of the guests. A predicate is a ledger promise when all of it keeps it on every
  run that commits.
\<close>

locale posting_contract =
  fixes promise :: "config \<Rightarrow> ledger \<Rightarrow> bool"
  assumes post: "commits (promise cf) (postJournalTransaction cf inp)"
    and ensure: "commits (promise cf) (ensureAccount cf w code anyOwner)"
    and log: "promise cf db \<Longrightarrow> promise cf (db\<lparr>audits := audits db @ [x]\<rparr>)"
    and tables: "promise cf db \<Longrightarrow> promise cf (db\<lparr>screenings := scs, cases := cs, guest_days := gs\<rparr>)"
begin

lemmas contract_intros = commits_intros post ensure

lemma audited: "commits (promise cf) (insertAudit x)"
  unfolding insertAudit_def by (rule commits_modify) (rule log)

lemma post_and_audit: "commits (promise cf) (bind (postJournalTransaction cf inp) (\<lambda>p. bind (insertAudit (f p)) (\<lambda>_. ret p)))"
  by (intro contract_intros audited)

text \<open>Any sequence of postings that commits.\<close>

lemma post_all: "commits (promise cf) (foldr (\<lambda>inp k. bind (postJournalTransaction cf inp) (\<lambda>_. k)) inps (ret ()))"
  by (induction inps) (auto intro: contract_intros simp del: ret_apply)

lemma posted_in_transaction: "keeps (promise cf) (withTransaction (postJournalTransaction cf inp))"
  by (rule keeps_withTransaction_commits) (rule post)

end


section \<open>Balances\<close>

lemma sum_list_zero:
  fixes f :: "'r \<Rightarrow> int"
  shows "(\<And>x. x \<in> set xs \<Longrightarrow> f x = 0) \<Longrightarrow> sum_list (map f xs) = 0"
  by (induction xs) simp_all

definition trial_balance :: "ledger \<Rightarrow> string \<Rightarrow> int" where
  "trial_balance db cur =
     sum_list (map (\<lambda>a. if credit_normalizeCurrency (Some (ac_currency a)) = cur then ac_balance a else 0) (accounts db))"

definition account_ids_ok :: "ledger \<Rightarrow> bool" where
  "account_ids_ok db \<longleftrightarrow> distinct (map ac_id (accounts db))"

definition balanced :: "ledger \<Rightarrow> bool" where
  "balanced db \<longleftrightarrow> account_ids_ok db \<and>
     list_all (\<lambda>a. trial_balance db (credit_normalizeCurrency (Some (ac_currency a))) = 0) (accounts db)"

lemma balanced_iff: "balanced db \<longleftrightarrow> account_ids_ok db \<and> (\<forall>cur. trial_balance db cur = 0)"
proof -
  have "trial_balance db cur = 0"
    if "\<forall>a\<in>set (accounts db). credit_normalizeCurrency (Some (ac_currency a)) \<noteq> cur" for cur
    using that unfolding trial_balance_def by (intro sum_list_zero) auto
  note zero = this
  show ?thesis
  proof
    assume "balanced db"
    then have ids: "account_ids_ok db" and all: "\<And>a. a \<in> set (accounts db) \<Longrightarrow>
        trial_balance db (credit_normalizeCurrency (Some (ac_currency a))) = 0"
      by (auto simp: balanced_def list_all_iff)
    have "trial_balance db cur = 0" for cur
    proof (cases "\<exists>a\<in>set (accounts db). credit_normalizeCurrency (Some (ac_currency a)) = cur")
      case True
      with all show ?thesis by blast
    next
      case False
      then show ?thesis by (intro zero) blast
    qed
    with ids show "account_ids_ok db \<and> (\<forall>cur. trial_balance db cur = 0)" by blast
  qed (simp add: balanced_def list_all_iff)
qed

text \<open>The sum over a table in which two rows changed by opposite amounts.\<close>

lemma sum_after_legs:
  fixes g :: "account \<Rightarrow> int"
  assumes "distinct (map ac_id rows)" "d \<in> set rows" "c \<in> set rows" "ac_id d \<noteq> ac_id c"
  shows "sum_list (map g (map (after_legs d c amount h1 h2) rows)) =
         sum_list (map g rows) - g d - g c + g (after_legs d c amount h1 h2 d) + g (after_legs d c amount h1 h2 c)"
proof -
  have "map (after_legs d c amount h1 h2) rows = put_leg c (ac_balance c + amount) h2 (put_leg d (ac_balance d - amount) h1 rows)"
    using assms(4) by (auto simp: put_leg_def upd_where_def after_legs_def)
  moreover have "c \<in> set (put_leg d (ac_balance d - amount) h1 rows)"
    using assms(3,4) by (intro put_leg_other) auto
  ultimately show ?thesis
    using assms by (simp add: put_leg_sum after_legs_def del: map_map)
qed

definition in_currency :: "string \<Rightarrow> account \<Rightarrow> int" where
  "in_currency cur a = (if credit_normalizeCurrency (Some (ac_currency a)) = cur then ac_balance a else 0)"

lemma trial_balance_in_currency: "trial_balance db cur = sum_list (map (in_currency cur) (accounts db))"
  by (simp add: trial_balance_def in_currency_def [abs_def])

lemma find_account:
  assumes "find (\<lambda>a. ac_id a = i) rows = Some a"
  shows "a \<in> set rows" "ac_id a = i"
  using find_SomeD [OF assms] by simp_all

lemma moved_trial_balance:
  assumes m: "moved cf inp version t d c amount currency e1 e2 db db'"
    and ids: "account_ids_ok db"
    and d: "find (\<lambda>a. ac_id a = ji_debit inp) (accounts db) = Some d"
    and c: "find (\<lambda>a. ac_id a = ji_credit inp) (accounts db) = Some c"
    and ne: "ji_debit inp \<noteq> ji_credit inp"
    and g: "checkMovement cf db inp amount currency d c = Inr ()"
  shows "trial_balance db' cur = trial_balance db cur" "account_ids_ok db'"
proof -
  have ne': "ac_id d \<noteq> ac_id c" using ne find_account [OF d] find_account [OF c] by simp
  note acc = moved_accounts [OF m ne']
  have "in_currency cur (after_legs d c amount (en_hash e1) (en_hash e2) d) + in_currency cur (after_legs d c amount (en_hash e1) (en_hash e2) c)
     = in_currency cur d + in_currency cur c"
    using checkMovement_Inr(1,2) [OF g] ne' by (simp add: in_currency_def) (simp add: after_legs_def)
  then show "trial_balance db' cur = trial_balance db cur"
    unfolding trial_balance_in_currency acc
    using sum_after_legs [OF _ find_account(1) [OF d] find_account(1) [OF c] ne'] ids
    by (simp add: account_ids_ok_def)
  show "account_ids_ok db'"
    using ids unfolding account_ids_ok_def acc by (simp add: comp_def)
qed

lemma ensure_ids_balance:
  assumes "ensureAccount cf w code anyOwner db = (Inr a, db')" and "account_ids_ok db"
  shows "account_ids_ok db'" "trial_balance db' cur = trial_balance db cur"
proof -
  obtain currency where "db' = db \<or> db' = db\<lparr>accounts := accounts db @ [new_account db w currency]\<rparr>"
    using assms(1) by (rule ensureAccount_Inr) auto
  with assms(2) next_id_fresh [of "map ac_id (accounts db)"]
  show "account_ids_ok db'" "trial_balance db' cur = trial_balance db cur"
    by (auto simp: account_ids_ok_def trial_balance_def)
qed

lemma post_ids_balance:
  assumes "postJournalTransaction cf inp db = (Inr p, db')" and "account_ids_ok db"
  shows "account_ids_ok db' \<and> trial_balance db' cur = trial_balance db cur"
  using assms(1)
proof (cases rule: postJournalTransaction_Inr)
  case replayed
  with assms(2) show ?thesis by (simp add: replayTransaction_Inr)
next
  case (moved amount currency key version d c t e1 e2)
  with moved_trial_balance [OF moved(13) assms(2) moved(7,8,9,11)] show ?thesis by blast
qed

interpretation balance: posting_contract "\<lambda>_. balanced"
proof
  show "commits balanced (postJournalTransaction cf inp)" for cf inp
    by (rule commitsI) (use post_ids_balance in \<open>auto simp: balanced_iff\<close>)
  show "commits balanced (ensureAccount cf w code anyOwner)" for cf w code anyOwner
    by (rule commitsI) (use ensure_ids_balance in \<open>auto simp: balanced_iff\<close>)
  show "balanced (db\<lparr>audits := audits db @ [x]\<rparr>)" if "balanced db" for db x
    using that by (simp add: balanced_iff account_ids_ok_def trial_balance_def)
  show "balanced (db\<lparr>screenings := scs, cases := cs, guest_days := gs\<rparr>)" if "balanced db" for db scs cs gs
    using that by (simp add: balanced_iff account_ids_ok_def trial_balance_def)
qed

section \<open>A fresh posting\<close>

lemma fresh_posting_cases:
  assumes "postJournalTransaction cf inp db = (Inr p, db')" and "\<not> po_replayed p"
  obtains amount currency key version d c t e1 e2 where
    "safe_int (ji_amount inp) = Some amount" "0 < amount"
    "parseAmountCents cf (ji_amount inp) (Some (Some (ji_currency inp))) = Inr amount"
    "assertSupportedCreditCurrency cf (Some (ji_currency inp)) = Inr currency"
    "normalizeString (ji_key inp) 160 = Some key" "getExistingTransaction key db = None" "ji_existing inp = None"
    "d \<in> set (accounts db)" "c \<in> set (accounts db)" "ac_id d = ji_debit inp" "ac_id c = ji_credit inp" "ac_id d \<noteq> ac_id c"
    "checkDirection inp d c = Inr ()" "checkMovement cf db inp amount currency d c = Inr ()"
    "t = (requested_txn cf inp key amount currency)\<lparr>tx_id := next_id (map tx_id (txns db))\<rparr>"
    "moved cf inp version t d c amount currency e1 e2 db db'"
    "p = \<lparr>po_txn = t, po_entries = [e1, e2], po_replayed = False\<rparr>"
  using assms(1)
proof (cases rule: postJournalTransaction_Inr)
  case replayed
  with assms(2) show ?thesis by (simp add: replayTransaction_Inr)
next
  case (moved amount currency key version d c t e1 e2)
  have "safe_int (ji_amount inp) = Some amount"
    using moved(1) by (auto simp: parseAmountCents_def res_bind_Inr_iff split: option.splits if_splits)
  moreover have "ac_id d \<noteq> ac_id c"
    using moved(9) find_account [OF moved(7)] find_account [OF moved(8)] by simp
  ultimately show thesis
    using that [OF _ parseAmountCents_pos [OF moved(1)] moved(1,2,3,6,5) find_account(1) [OF moved(7)] find_account(1) [OF moved(8)]
        find_account(2) [OF moved(7)] find_account(2) [OF moved(8)] _ moved(10,11,12,13,14)] by blast
qed

section \<open>Covered debits\<close>

text \<open>
  The accounts that may not be overdrawn: every type outside the three the code exempts, and the
  payable account of a helper. What is reserved on them is covered by the balance.
\<close>

definition covered :: "account \<Rightarrow> bool" where
  "covered a \<longleftrightarrow> 0 \<le> ac_reserved a \<and>
     (mayGoNegative (ac_type a) \<and> \<not> ac_non_negative a \<or> ac_reserved a \<le> ac_balance a)"

definition funded :: "ledger \<Rightarrow> bool" where
  "funded db \<longleftrightarrow> account_ids_ok db \<and> list_all covered (accounts db)"

lemma same_id_same_account:
  "account_ids_ok db \<Longrightarrow> x \<in> set (accounts db) \<Longrightarrow> y \<in> set (accounts db) \<Longrightarrow> ac_id x = ac_id y \<Longrightarrow> x = y"
  by (simp add: account_ids_ok_def distinct_map inj_on_def)

lemma moved_funded:
  assumes m: "moved cf inp version t d c amount currency e1 e2 db db'"
    and f: "funded db"
    and d: "find (\<lambda>a. ac_id a = ji_debit inp) (accounts db) = Some d"
    and c: "find (\<lambda>a. ac_id a = ji_credit inp) (accounts db) = Some c"
    and ne: "ji_debit inp \<noteq> ji_credit inp"
    and g: "checkMovement cf db inp amount currency d c = Inr ()" and pos: "0 < amount"
  shows "funded db'"
proof -
  have ne': "ac_id d \<noteq> ac_id c" using ne find_account [OF d] find_account [OF c] by simp
  have ids: "account_ids_ok db" and cov: "\<And>x. x \<in> set (accounts db) \<Longrightarrow> covered x"
    using f by (auto simp: funded_def list_all_iff)
  have "covered (after_legs d c amount (en_hash e1) (en_hash e2) x)" if x: "x \<in> set (accounts db)" for x
  proof (cases "ac_id x = ac_id c")
    case True
    then have "x = c" using same_id_same_account [OF ids x find_account(1) [OF c]] by simp
    with cov [OF x] pos show ?thesis by (auto simp: covered_def after_legs_def)
  next
    case c': False
    show ?thesis
    proof (cases "ac_id x = ac_id d")
      case True
      then have "x = d" using same_id_same_account [OF ids x find_account(1) [OF d]] by simp
      moreover have "mayGoNegative (ac_type d) \<and> \<not> ac_non_negative d \<or> amount \<le> ac_balance d - ac_reserved d"
        using checkMovement_Inr(6) [OF g] by blast
      ultimately show ?thesis using cov [OF x] c' by (auto simp: covered_def after_legs_def)
    next
      case False
      with c' cov [OF x] show ?thesis by (simp add: after_legs_def)
    qed
  qed
  then show ?thesis
    using ids moved_accounts [OF m ne'] by (auto simp: funded_def account_ids_ok_def list_all_iff comp_def)
qed

lemma post_funded:
  assumes "postJournalTransaction cf inp db = (Inr p, db')" and "funded db"
  shows "funded db'"
  using assms(1)
proof (cases rule: postJournalTransaction_Inr)
  case replayed
  with assms(2) show ?thesis by (simp add: replayTransaction_Inr)
next
  case (moved amount currency key version d c t e1 e2)
  show ?thesis
    by (rule moved_funded [OF moved(13) assms(2) moved(7,8,9,11) parseAmountCents_pos [OF moved(1)]])
qed

interpretation coverage: posting_contract "\<lambda>_. funded"
proof
  show "commits funded (postJournalTransaction cf inp)" for cf inp
    by (rule commitsI) (rule post_funded)
  show "commits funded (ensureAccount cf w code anyOwner)" for cf w code anyOwner
  proof (rule commitsI)
    fix db a db' assume f: "funded db" and e: "ensureAccount cf w code anyOwner db = (Inr a, db')"
    obtain currency where "db' = db \<or> db' = db\<lparr>accounts := accounts db @ [new_account db w currency]\<rparr>"
      using e by (rule ensureAccount_Inr) auto
    with f ensure_ids_balance(1) [OF e] show "funded db'" by (auto simp: funded_def covered_def)
  qed
  show "funded (db\<lparr>audits := audits db @ [x]\<rparr>)" if "funded db" for db x
    using that by (simp add: funded_def account_ids_ok_def)
  show "funded (db\<lparr>screenings := scs, cases := cs, guest_days := gs\<rparr>)" if "funded db" for db scs cs gs
    using that by (simp add: funded_def account_ids_ok_def)
qed

end
