(* ===== verification/SampleLedger.thy ===== *)
theory SampleLedger
  imports LedgerInvariants
begin

text \<open>
  A small concrete ledger: a treasury, the wallet of one customer, a helper's payable account and
  the reserve of the same partner. The witnesses of the ledger properties evaluate the model on it.
\<close>

definition sample_config :: config where
  "sample_config =
     \<lparr>cf_limit_env = sample_env, cf_snapshot = Some \<lparr>sn_at = 0, sn_rules = [], sn_rates = []\<rparr>, cf_currencies = [],
      cf_transfers = True, cf_transfer_count = 10, cf_spend_count = 50, cf_hold_ttl = 30, cf_hold_ttl_max = 90,
      cf_key_version = Some ''v1'', cf_hmac = (\<lambda>v p. Some ''mac''), cf_sha256 = (\<lambda>s. s), cf_lists = (\<lambda>_ _. Inr (''clear'', None)),
      cf_now = 1000, cf_db_now = 1000, cf_today = 0\<rparr>"

definition sample_account :: "int \<Rightarrow> account_type \<Rightarrow> string option \<Rightarrow> int option \<Rightarrow> int \<Rightarrow> account" where
  "sample_account i kind customer partner balance =
     \<lparr>ac_id = i, ac_type = kind, ac_customer = customer, ac_partner = partner, ac_restaurant = None, ac_currency = ''USD'',
      ac_balance = balance, ac_reserved = 0, ac_status = Active, ac_version = 0, ac_hash = None, ac_non_negative = False\<rparr>"

definition sample_user :: "string \<Rightarrow> user" where
  "sample_user i = \<lparr>us_id = i, us_role = ''customer'', us_active = True\<rparr>"

text \<open>No entries yet: the balances are zero, so the ledger is balanced and clean.\<close>

definition sample_ledger :: ledger where
  "sample_ledger =
     \<lparr>accounts = [sample_account 1 Platform_treasury None None 0, sample_account 2 Customer_wallet (Some ''ana'') None 0],
      txns = [], entries = [], audits = [], outbox = [], holds = [], users = [sample_user ''ana'', sample_user ''ben''],
      policies = [], partners = [], restaurants = [], participants = [], agreements = [], entitlements = [], disputes = [],
      screenings = [], cases = [], fee_rows = [], guest_days = [],
      rail = Some True, frozen = False\<rparr>"

definition sample_load :: journal_input where
  "sample_load =
     \<lparr>ji_type = ''load'', ji_debit = 1, ji_credit = 2, ji_amount = JInt 50, ji_currency = ''USD'', ji_partner = None,
      ji_agreement = None, ji_key = Some ''k1'', ji_correlation = None, ji_refType = None, ji_refId = None, ji_description = None,
      ji_reason = Some ''gift'', ji_actorType = Some ''admin'', ji_actorUser = Some ''root'', ji_customer = Some ''ana'',
      ji_requestIp = None, ji_metadata = ObjJ [], ji_allowSuspended = False, ji_existing = None\<rparr>"

text \<open>Whether a handler returned, and what it returned.\<close>

definition returned :: "'a res \<times> 's \<Rightarrow> bool" where
  "returned r \<longleftrightarrow> (case fst r of Inl _ \<Rightarrow> False | Inr _ \<Rightarrow> True)"

lemma returnedE:
  assumes "returned r"
  obtains a s where "r = (Inr a, s)"
  using assms by (cases r; cases "fst r") (auto simp: returned_def)

definition fresh_posting :: "posting res \<times> ledger \<Rightarrow> bool" where
  "fresh_posting r \<longleftrightarrow> (case fst r of Inl _ \<Rightarrow> False | Inr p \<Rightarrow> \<not> po_replayed p)"

lemma fresh_postingE:
  assumes "fresh_posting r"
  obtains p s where "r = (Inr p, s)" "\<not> po_replayed p"
  using assms by (cases r; cases "fst r") (auto simp: fresh_posting_def)

lemma sample_load_posts: "fresh_posting (postJournalTransaction sample_config sample_load sample_ledger)"
  by code_simp

lemma sample_ledger_ok: "account_ids_ok sample_ledger" "funded sample_ledger" "balanced sample_ledger"
  by code_simp+

end
