(* ===== verification/JournalProperties.thy ===== *)
theory JournalProperties
  imports SampleLedger "HOL-Library.Multiset"
begin

text \<open>
  The properties of a posting: it moves exactly the amount between two accounts, never spends what
  is not there, can be retried for free, and its text for hashing does not depend on key order.
\<close>

section \<open>Exact movement\<close>

definition shift_for :: "journal_input \<Rightarrow> int \<Rightarrow> account \<Rightarrow> int" where
  "shift_for inp amount a = (if ac_id a = ji_credit inp then amount else if ac_id a = ji_debit inp then - amount else 0)"

text \<open>C29: a posting moves exactly the requested amount: it is a positive safe integer, the balance of
  the debit account goes down and that of the credit account up by it, no other balance, no
  reservation, status or hold changes, and the trial balance of every currency stays what it was.\<close>

theorem posting_moves_exactly:
  assumes "postJournalTransaction cf inp db = (Inr p, db')" and "\<not> po_replayed p" and "account_ids_ok db"
  shows "\<exists>amount. ji_amount inp = JInt amount \<and> 0 < amount \<and> tx_amount (po_txn p) = amount \<and>
    map (\<lambda>a. (ac_id a, ac_balance a, ac_reserved a, ac_status a)) (accounts db') =
      map (\<lambda>a. (ac_id a, ac_balance a + shift_for inp amount a, ac_reserved a, ac_status a)) (accounts db) \<and>
    holds db' = holds db \<and> trial_balance db' cur = trial_balance db cur"
proof -
  obtain amount currency key version d c t e1 e2 where
    f: "safe_int (ji_amount inp) = Some amount" "0 < amount" "d \<in> set (accounts db)" "c \<in> set (accounts db)"
      "ac_id d = ji_debit inp" "ac_id c = ji_credit inp" "ac_id d \<noteq> ac_id c"
      "t = (requested_txn cf inp key amount currency)\<lparr>tx_id := next_id (map tx_id (txns db))\<rparr>"
      "moved cf inp version t d c amount currency e1 e2 db db'"
      "p = \<lparr>po_txn = t, po_entries = [e1, e2], po_replayed = False\<rparr>"
    using assms(1,2) by (rule fresh_posting_cases)
  have acc: "accounts db' = map (after_legs d c amount (en_hash e1) (en_hash e2)) (accounts db)"
    by (rule moved_accounts [OF f(9,7)])
  have "ac_balance (after_legs d c amount (en_hash e1) (en_hash e2) a) = ac_balance a + shift_for inp amount a"
    if "a \<in> set (accounts db)" for a
    using same_id_same_account [OF assms(3) that f(3)] same_id_same_account [OF assms(3) that f(4)] f(5-7)
    by (auto simp: after_legs_def shift_for_def)
  then have "map (\<lambda>a. (ac_id a, ac_balance a, ac_reserved a, ac_status a)) (accounts db') =
      map (\<lambda>a. (ac_id a, ac_balance a + shift_for inp amount a, ac_reserved a, ac_status a)) (accounts db)"
    unfolding acc by simp
  moreover have "ji_amount inp = JInt amount"
    using f(1) by (cases "ji_amount inp") (auto split: if_splits)
  moreover have "holds db' = holds db" by (rule moved_frame [OF f(9)])
  moreover have "tx_amount (po_txn p) = amount" using f(8,10) by (simp add: requested_txn_def)
  ultimately show ?thesis using f(2) post_ids_balance [OF assms(1,3)] by blast
qed

lemma sample_load_moves:
  "map ac_balance (accounts (snd (postJournalTransaction sample_config sample_load sample_ledger))) = [- 50, 50]"
  by code_simp

theorem posting_moves_exactly_witness:
  "\<exists>p db'. postJournalTransaction sample_config sample_load sample_ledger = (Inr p, db') \<and>
     tx_amount (po_txn p) = 50 \<and> trial_balance db' ''USD'' = trial_balance sample_ledger ''USD''"
proof -
  obtain p db' where r: "postJournalTransaction sample_config sample_load sample_ledger = (Inr p, db')" "\<not> po_replayed p"
    by (rule fresh_postingE [OF sample_load_posts])
  from posting_moves_exactly [OF r sample_ledger_ok(1), of "''USD''"] r(1) show ?thesis
    by (auto simp: sample_load_def)
qed

section \<open>Guards\<close>

text \<open>C30: a posting never spends what is not there: after it, an account that may not be overdrawn
  (every type but payables, treasury and revenue, and a helper's payable) still covers its
  reservation, a credited customer wallet is within the customer balance limit of its currency,
  a debited partner reserve keeps its policy floor, and neither account was closed.\<close>

theorem posting_never_overspends:
  assumes "postJournalTransaction cf inp db = (Inr p, db')" and "\<not> po_replayed p" and "account_ids_ok db"
    and "a \<in> set (accounts db')"
  shows "(ac_id a = ji_debit inp \<longrightarrow> ac_status a \<noteq> Closed \<and>
        (\<not> mayGoNegative (ac_type a) \<or> ac_non_negative a \<longrightarrow> ac_reserved a \<le> ac_balance a) \<and>
        (ac_type a = Partner_reserve \<longrightarrow> (\<exists>partner policy. ac_partner a = Some partner \<and>
           getReservePolicy db partner (ac_currency a) = Inr policy \<and> rp_floor policy \<le> ac_balance a))) \<and>
     (ac_id a = ji_credit inp \<longrightarrow> ac_status a \<noteq> Closed \<and>
        (ac_type a = Customer_wallet \<longrightarrow>
           (\<exists>m. limit cf ''max_customer_balance'' (credit_normalizeCurrency (Some (ac_currency a))) = Inr m \<and> ac_balance a \<le> m)))"
proof -
  obtain amount currency key version d c t e1 e2 where
    f: "0 < amount" "d \<in> set (accounts db)" "c \<in> set (accounts db)"
      "ac_id d = ji_debit inp" "ac_id c = ji_credit inp" "ac_id d \<noteq> ac_id c"
      "checkMovement cf db inp amount currency d c = Inr ()"
      "moved cf inp version t d c amount currency e1 e2 db db'"
    using assms(1,2) by (rule fresh_posting_cases)
  note g = checkMovement_Inr [OF f(7)]
  obtain a0 where a0: "a0 \<in> set (accounts db)" "a = after_legs d c amount (en_hash e1) (en_hash e2) a0"
    using assms(4) moved_accounts [OF f(8,6)] by auto
  have debit: "a = after_legs d c amount (en_hash e1) (en_hash e2) d \<and> ac_balance a = ac_balance d - amount" if "ac_id a = ji_debit inp"
    using that a0 same_id_same_account [OF assms(3) a0(1) f(2)] f(4-6) by (auto simp: after_legs_def)
  have credit: "a = after_legs d c amount (en_hash e1) (en_hash e2) c \<and> ac_balance a = ac_balance c + amount" if "ac_id a = ji_credit inp"
    using that a0 same_id_same_account [OF assms(3) a0(1) f(3)] f(4-6) by (auto simp: after_legs_def)
  have floor: "\<exists>partner policy. ac_partner d = Some partner \<and> getReservePolicy db partner (ac_currency d) = Inr policy \<and>
      rp_floor policy \<le> ac_balance d - amount" if "ac_type d = Partner_reserve"
    using g(8) [OF that] by (auto simp: assertReserveFloorForPosting_def res_bind_Inr_iff split: option.splits if_splits)
  show ?thesis
  proof (intro conjI impI)
    assume "ac_id a = ji_debit inp" and "\<not> mayGoNegative (ac_type a) \<or> ac_non_negative a"
    with debit g(6) show "ac_reserved a \<le> ac_balance a" by fastforce
  next
    assume "ac_id a = ji_debit inp" and "ac_type a = Partner_reserve"
    with debit floor show "\<exists>partner policy. ac_partner a = Some partner \<and>
           getReservePolicy db partner (ac_currency a) = Inr policy \<and> rp_floor policy \<le> ac_balance a" by fastforce
  next
    assume "ac_id a = ji_credit inp" and "ac_type a = Customer_wallet"
    with credit g(2,7) show "\<exists>m. limit cf ''max_customer_balance'' (credit_normalizeCurrency (Some (ac_currency a))) = Inr m \<and> ac_balance a \<le> m"
      by fastforce
  next
    assume "ac_id a = ji_debit inp"
    with debit g(3) show "ac_status a \<noteq> Closed" by fastforce
  next
    assume "ac_id a = ji_credit inp"
    with credit g(4) show "ac_status a \<noteq> Closed" by fastforce
  qed
qed

theorem posting_never_overspends_witness:
  "\<exists>p db' a. postJournalTransaction sample_config sample_load sample_ledger = (Inr p, db') \<and> a \<in> set (accounts db') \<and>
     ac_id a = 2 \<and> ac_type a = Customer_wallet \<and> (\<exists>m. limit sample_config ''max_customer_balance'' ''USD'' = Inr m \<and> ac_balance a \<le> m)"
proof -
  obtain p db' where r: "postJournalTransaction sample_config sample_load sample_ledger = (Inr p, db')" "\<not> po_replayed p"
    by (rule fresh_postingE [OF sample_load_posts])
  have "map (\<lambda>a. (ac_id a, ac_type a, ac_currency a)) (accounts (snd (postJournalTransaction sample_config sample_load sample_ledger))) =
      [(1, Platform_treasury, ''USD''), (2, Customer_wallet, ''USD'')]" by code_simp
  then have "(2, Customer_wallet, ''USD'') \<in> set (map (\<lambda>a. (ac_id a, ac_type a, ac_currency a)) (accounts db'))"
    unfolding r(1) by simp
  then obtain a where a: "a \<in> set (accounts db')" "ac_id a = 2" "ac_type a = Customer_wallet" "ac_currency a = ''USD''"
    by auto
  have "credit_normalizeCurrency (Some ''USD'') = ''USD''" by code_simp
  with posting_never_overspends [OF r sample_ledger_ok(1) a(1)] r(1) a show ?thesis
    by (auto simp: sample_load_def)
qed

section \<open>Retries\<close>

lemma replay_of_own_request:
  "assertIdempotencyReplayMatches ((requested_txn cf inp key amount currency)\<lparr>tx_id := i\<rparr>) (requested_replay inp amount currency) = Inr ()"
  by (simp add: assertIdempotencyReplayMatches_def requested_txn_def requested_replay_def stored_columns_def Let_def)

lemma postJournalTransaction_on_key:
  assumes "parseAmountCents cf (ji_amount inp) (Some (Some (ji_currency inp))) = Inr amount"
    and "assertSupportedCreditCurrency cf (Some (ji_currency inp)) = Inr currency"
    and "normalizeString (ji_key inp) 160 = Some key" and "ji_type inp \<in> set POSTABLE_CREDIT_TRANSACTION_TYPES"
    and "ji_existing inp = None" and "getExistingTransaction key db = Some t"
  shows "postJournalTransaction cf inp db = replayTransaction (requested_replay inp amount currency) t db"
  using assms by (simp add: postJournalTransaction_def bind_apply)

lemma find_append_fresh: "find P xs = None \<Longrightarrow> find P (xs @ ys) = find P ys"
  by (induction xs) (auto split: if_splits)

text \<open>A retry is free: whatever a posting did, the same call on the ledger it left returns the same
  transaction as a replay and writes nothing, so a lost response never moves money twice.\<close>

theorem posting_retry_is_free:
  assumes "postJournalTransaction cf inp db = (Inr p, db')"
  shows "\<exists>p'. postJournalTransaction cf inp db' = (Inr p', db') \<and> po_txn p' = po_txn p \<and> po_replayed p'"
  using assms
proof (cases rule: postJournalTransaction_Inr)
  case (replayed t amount currency key)
  then have "db' = db" "po_txn p = t" "po_replayed p" by (simp_all add: replayTransaction_Inr)
  with assms show ?thesis by blast
next
  case (moved amount currency key version d c t e1 e2)
  have k: "tx_key t = key" "tx_status t = ''posted''" using moved(12) by (simp_all add: requested_txn_def)
  have "find (\<lambda>x. tx_key x = key) (txns db @ [t]) = Some t"
    using moved(6) k(1) by (simp add: getExistingTransaction_def find_append_fresh)
  then have "getExistingTransaction key db' = Some t"
    using moved_frame(1) [OF moved(13)] by (simp add: getExistingTransaction_def)
  note on_key = postJournalTransaction_on_key [OF moved(1,2,3,4,5) this]
  have "assertIdempotencyReplayMatches t (requested_replay inp amount currency) = Inr ()"
    unfolding moved(12) by (rule replay_of_own_request)
  then have "postJournalTransaction cf inp db' =
      (Inr \<lparr>po_txn = t, po_entries = loadAccountEntries db' (tx_id t), po_replayed = True\<rparr>, db')"
    unfolding on_key using k(2) by (simp add: replayTransaction_Inr)
  with moved(14) show ?thesis by simp
qed

theorem posting_retry_is_free_witness:
  "\<exists>p db' p'. postJournalTransaction sample_config sample_load sample_ledger = (Inr p, db') \<and> \<not> po_replayed p \<and>
     postJournalTransaction sample_config sample_load db' = (Inr p', db') \<and> po_txn p' = po_txn p \<and> po_replayed p'"
proof -
  obtain p db' where r: "postJournalTransaction sample_config sample_load sample_ledger = (Inr p, db')" "\<not> po_replayed p"
    by (rule fresh_postingE [OF sample_load_posts])
  from posting_retry_is_free [OF r(1)] r show ?thesis by blast
qed

lemma upper_char_digit: "is_digit c \<Longrightarrow> upper_char c = c"
  by (simp add: is_digit_def upper_char_def Let_def)

lemma js_upper_digits: "list_all is_digit s \<Longrightarrow> js_upper s = s"
  unfolding js_upper_def by (induction s) (simp_all add: upper_char_digit)

lemma js_upper_show_nat [simp]: "js_upper (show_nat n) = show_nat n"
  by (rule js_upper_digits) (rule show_nat_digits)

lemma js_upper_show_pos: "0 \<le> i \<Longrightarrow> js_upper (show_int i) = show_int i"
  by (simp add: show_int_def)

lemma show_int_pos_inject: "0 \<le> i \<Longrightarrow> 0 \<le> j \<Longrightarrow> show_int i = show_int j \<Longrightarrow> i = j"
  unfolding show_int_def by (metis (full_types) int_nat_eq linorder_not_less read_show_nat)

text \<open>A key is spent on one movement: when a key already names a transaction of another positive
  amount, posting with it is refused with a conflict and writes nothing, whatever the rest of the
  request says.\<close>

theorem posting_key_conflict:
  assumes "parseAmountCents cf (ji_amount inp) (Some (Some (ji_currency inp))) = Inr amount"
    and "assertSupportedCreditCurrency cf (Some (ji_currency inp)) = Inr currency"
    and "normalizeString (ji_key inp) 160 = Some key" and "ji_type inp \<in> set POSTABLE_CREDIT_TRANSACTION_TYPES"
    and "ji_existing inp = None" and "getExistingTransaction key db = Some t"
    and "tx_status t = ''posted''" and "0 < tx_amount t" and "tx_amount t \<noteq> amount"
  shows "postJournalTransaction cf inp db = (Inl (AppError 409 ''credit_idempotency_conflict''), db)"
proof -
  have pos: "0 < amount" by (rule parseAmountCents_pos [OF assms(1)])
  have "js_upper (show_int (tx_amount t)) \<noteq> js_upper (show_int amount)"
    using assms(8,9) pos show_int_pos_inject [of "tx_amount t" amount] by (auto simp: js_upper_show_pos)
  then have "assertIdempotencyReplayMatches t (requested_replay inp amount currency) = Inl (AppError 409 ''credit_idempotency_conflict'')"
    by (simp add: assertIdempotencyReplayMatches_def requested_replay_def stored_columns_def txn_columns_def)
  then show ?thesis
    unfolding postJournalTransaction_on_key [OF assms(1-6)] using assms(7)
    by (simp add: replayTransaction_def bind_apply)
qed

theorem posting_key_conflict_witness:
  "\<exists>db. getExistingTransaction ''k1'' db \<noteq> None \<and>
     postJournalTransaction sample_config (sample_load\<lparr>ji_amount := JInt 60\<rparr>) db =
       (Inl (AppError 409 ''credit_idempotency_conflict''), db)"
proof -
  define db where "db = snd (postJournalTransaction sample_config sample_load sample_ledger)"
  have "case getExistingTransaction ''k1'' db of None \<Rightarrow> False
        | Some t \<Rightarrow> tx_status t = ''posted'' \<and> tx_amount t = 50"
    unfolding db_def by code_simp
  then obtain t where t: "getExistingTransaction ''k1'' db = Some t" "tx_status t = ''posted''" "tx_amount t = 50"
    by (auto split: option.splits)
  let ?inp = "sample_load\<lparr>ji_amount := JInt 60\<rparr>"
  have h: "parseAmountCents sample_config (ji_amount ?inp) (Some (Some (ji_currency ?inp))) = Inr 60"
    "assertSupportedCreditCurrency sample_config (Some (ji_currency ?inp)) = Inr ''USD''"
    "normalizeString (ji_key ?inp) 160 = Some ''k1''" "ji_type ?inp \<in> set POSTABLE_CREDIT_TRANSACTION_TYPES"
    "ji_existing ?inp = None"
    by code_simp+
  from posting_key_conflict [OF h t(1,2)] t(1,3) show ?thesis by auto
qed

section \<open>Canonical text\<close>

lemma sort_key_perm:
  assumes "distinct (map k xs)" and "mset xs = mset ys"
  shows "sort_key k xs = sort_key k ys"
proof (rule properties_for_sort_key)
  show "mset (sort_key k ys) = mset xs" using assms(2) by simp
next
  fix x assume "x \<in> set (sort_key k ys)"
  then have x: "x \<in> set xs" using assms(2) mset_eq_setD by fastforce
  have "filter (\<lambda>y. k x = k y) zs = [x]" if "mset zs = mset xs" for zs
  proof -
    have d: "distinct (map k zs)" and z: "x \<in> set zs"
      using assms(1) x that by (metis mset_eq_imp_distinct_iff mset_map, metis mset_eq_setD)
    then show ?thesis
    proof (induction zs)
      case (Cons z zs)
      show ?case
      proof (cases "x = z")
        case True
        with Cons.prems have "filter (\<lambda>y. k x = k y) zs = []" by (auto simp: filter_empty_conv image_iff)
        with True show ?thesis by simp
      next
        case False
        with Cons show ?thesis by (auto simp: image_iff)
      qed
    qed simp
  qed
  from this [of "sort_key k ys"] this [of xs] assms(2)
  show "filter (\<lambda>y. k x = k y) (sort_key k ys) = filter (\<lambda>y. k x = k y) xs" by simp
qed (simp)

text \<open>The text that is hashed and compared does not depend on the order of an object's properties:
  objects with the same properties, however they were built, have the same canonical text.\<close>

theorem stableStringify_order_free:
  assumes "distinct (map fst kvs)" and "mset kvs = mset kvs'"
  shows "stableStringify (ObjJ kvs) = stableStringify (ObjJ kvs')"
proof -
  let ?f = "\<lambda>(k, v). (k, stableStringify v)"
  have "distinct (map fst (map ?f kvs))" using assms(1) by (simp add: case_prod_beta' comp_def)
  moreover have "mset (map ?f kvs) = mset (map ?f kvs')" using assms(2) by simp
  ultimately have "sort_key fst (map ?f kvs) = sort_key fst (map ?f kvs')" by (rule sort_key_perm)
  then show ?thesis by simp
qed

theorem stableStringify_order_free_witness:
  "stableStringify (ObjJ [(''b'', IntJ 1), (''a'', NullJ)]) = stableStringify (ObjJ [(''a'', NullJ), (''b'', IntJ 1)])"
  by (rule stableStringify_order_free) simp_all

end
