(* ===== verification/SpendRules.thy ===== *)
theory SpendRules
  imports JournalProperties
begin

text \<open>
  The rules a movement must pass before it is posted (\<open>services/oxsteedCreditService.js\<close>): issuance,
  transfer and spend capacity, the partner agreement that covers a purchase, and the replay checks
  of purchases and transfers. A SELECT joins tables by id; \<open>account_row\<close> is such a join.
\<close>

section \<open>Joins\<close>

definition account_row :: "ledger \<Rightarrow> int \<Rightarrow> account option" where
  "account_row db i = find (\<lambda>a. ac_id a = i) (accounts db)"

definition debit_of :: "ledger \<Rightarrow> txn \<Rightarrow> (account \<Rightarrow> bool) \<Rightarrow> bool" where
  "debit_of db t P = (case account_row db (tx_debit t) of None \<Rightarrow> False | Some a \<Rightarrow> P a)"

definition credit_of :: "ledger \<Rightarrow> txn \<Rightarrow> (account \<Rightarrow> bool) \<Rightarrow> bool" where
  "credit_of db t P = (case account_row db (tx_credit t) of None \<Rightarrow> False | Some a \<Rightarrow> P a)"

definition wallet_of :: "string \<Rightarrow> account \<Rightarrow> bool" where
  "wallet_of customerId a \<longleftrightarrow> ac_type a = Customer_wallet \<and> ac_customer a = Some customerId"

section \<open>Capacity\<close>

definition wallets_total :: "ledger \<Rightarrow> string \<Rightarrow> int" where
  "wallets_total db currency =
     sum_list (map ac_balance (filter (\<lambda>a. ac_type a = Customer_wallet \<and> ac_currency a = currency) (accounts db)))"

definition issued_today :: "config \<Rightarrow> ledger \<Rightarrow> string \<Rightarrow> string \<Rightarrow> int" where
  "issued_today cf db currency customerId =
     sum_list (map tx_amount (filter (\<lambda>t. tx_status t = ''posted'' \<and> tx_type t \<in> {''load'', ''adjustment''} \<and>
       cf_today cf \<le> tx_created t \<and> tx_currency t = currency \<and>
       debit_of db t (\<lambda>a. ac_type a = Platform_treasury) \<and> credit_of db t (wallet_of customerId)) (txns db)))"

definition assertIssuanceCapacity :: "config \<Rightarrow> int \<Rightarrow> string option \<Rightarrow> string \<Rightarrow> ledger \<Rightarrow> unit res" where
  "assertIssuanceCapacity cf amount currencyCode customerId db =
     res_bind (assertSupportedCreditCurrency cf currencyCode) (\<lambda>currency.
     res_bind (limit cf ''max_total_issuance'' currency) (\<lambda>maxTotal.
     if maxTotal < wallets_total db currency + amount then Inl (AppError 409 ''credit_total_issuance_limit'')
     else if customerId = [] then Inr ()
     else res_bind (limit cf ''daily_customer_issuance'' currency) (\<lambda>maxDaily.
       if maxDaily < issued_today cf db currency customerId + amount then Inl (AppError 409 ''credit_daily_issuance_limit'')
       else Inr ())))"

definition transfers_today :: "config \<Rightarrow> ledger \<Rightarrow> string \<Rightarrow> string \<Rightarrow> txn list" where
  "transfers_today cf db currency customerId =
     filter (\<lambda>t. tx_status t = ''posted'' \<and>
       (tx_type t = ''transfer'' \<or> tx_type t = ''media_creator_settlement'' \<and>
          tx_refType t \<in> Some ` {''media_creator_gig'', ''media_creator_sponsorship'', ''media_creator_tip'', ''media_post_boost''}) \<and>
       cf_today cf \<le> tx_created t \<and> tx_currency t = currency \<and> debit_of db t (wallet_of customerId)) (txns db)"

definition assertCustomerTransferCapacity :: "config \<Rightarrow> string \<Rightarrow> int \<Rightarrow> string option \<Rightarrow> ledger \<Rightarrow> unit res" where
  "assertCustomerTransferCapacity cf customerId amount currencyCode db =
     res_bind (assertSupportedCreditCurrency cf currencyCode) (\<lambda>currency.
     let today = transfers_today cf db currency customerId in
     res_bind (limit cf ''daily_customer_transfer'' currency) (\<lambda>maxDaily.
       if cf_transfer_count cf \<le> int (length today) \<or> maxDaily < sum_list (map tx_amount today) + amount
       then Inl (AppError 409 ''credit_daily_transfer_limit'') else Inr ()))"

definition purchases_today :: "config \<Rightarrow> ledger \<Rightarrow> string \<Rightarrow> string \<Rightarrow> txn list" where
  "purchases_today cf db currency customerId =
     filter (\<lambda>t. tx_status t = ''posted'' \<and> tx_type t = ''purchase'' \<and> cf_today cf \<le> tx_created t \<and>
       tx_currency t = currency \<and> debit_of db t (wallet_of customerId)) (txns db)"

definition open_holds :: "ledger \<Rightarrow> string \<Rightarrow> string \<Rightarrow> int option \<Rightarrow> hold list" where
  "open_holds db currency customerId excludeHoldId =
     filter (\<lambda>h. ho_customer h = customerId \<and> ho_currency h = currency \<and> ho_status h = HActive \<and> Some (ho_id h) \<noteq> excludeHoldId) (holds db)"

definition assertCustomerSpendCapacity ::
  "config \<Rightarrow> string \<Rightarrow> int \<Rightarrow> string option \<Rightarrow> int option \<Rightarrow> ledger \<Rightarrow> unit res" where
  "assertCustomerSpendCapacity cf customerId amount currencyCode excludeHoldId db =
     res_bind (assertSupportedCreditCurrency cf currencyCode) (\<lambda>currency.
     let purchases = purchases_today cf db currency customerId;
         active = open_holds db currency customerId excludeHoldId;
         movementCount = length purchases + length active;
         movementCents = sum_list (map tx_amount purchases) + sum_list (map ho_amount active) in
     res_bind (limit cf ''daily_customer_spend'' currency) (\<lambda>maxDaily.
       if cf_spend_count cf \<le> int movementCount \<or> maxDaily < movementCents + amount
       then Inl (AppError 409 ''credit_daily_spend_limit'') else Inr ()))"

section \<open>Requests to spend\<close>

text \<open>Absent and \<open>null\<close> texts are \<open>None\<close>, an absent or empty array is \<open>[]\<close>.\<close>

record spend_request =
  sr_customer :: string
  sr_partner :: int
  sr_participant :: "string option"
  sr_surface :: string
  sr_agreement :: "string option"
  sr_orderType :: "string option"
  sr_category :: "string option"
  sr_categories :: "string list"
  sr_menuItem :: "string option"
  sr_menuItems :: "string list"
  sr_city :: "string option"
  sr_state :: "string option"
  sr_postalCode :: "string option"
  sr_country :: "string option"
  sr_excludeHold :: "int option"

definition lower_text :: "string option \<Rightarrow> nat \<Rightarrow> string option" where
  "lower_text value mx = map_option js_lower (normalizeString value mx)"

text \<open>\<open>String(item)\<close> of a JSON value.\<close>

fun js_String :: "json \<Rightarrow> string" where
  "js_String NullJ = ''null''"
| "js_String (BoolJ b) = (if b then ''true'' else ''false'')"
| "js_String (IntJ i) = show_int i"
| "js_String (TextJ s) = s"
| "js_String (ListJ xs) = join_commas (map (\<lambda>x. case x of NullJ \<Rightarrow> [] | _ \<Rightarrow> js_String x) xs)"
| "js_String (ObjJ _) = ''[object Object]''"

definition normalizeList :: "string list \<Rightarrow> string list" where
  "normalizeList value = List.map_filter (\<lambda>item. lower_text (Some item) 120) value"

definition list_field :: "json \<Rightarrow> string \<Rightarrow> string list" where
  "list_field rules k = (case field (normalizeMetadata rules) k of Some (ListJ xs) \<Rightarrow> map js_String xs | _ \<Rightarrow> [])"

definition matchesGeography :: "json \<Rightarrow> string option \<Rightarrow> string option \<Rightarrow> string option \<Rightarrow> string option \<Rightarrow> bool" where
  "matchesGeography geography city state postalCode country =
     list_all (\<lambda>(k, value).
        let allowed = normalizeList (list_field geography k) in
        allowed = [] \<or> (case lower_text value 120 of None \<Rightarrow> False | Some v \<Rightarrow> v \<in> set allowed))
      [(''cities'', city), (''states'', state), (''postalCodes'', postalCode), (''countries'', country)]"

text \<open>\<open>requested || fallback\<close> and \<open>values.filter(Boolean)\<close> on texts.\<close>

definition text_or :: "string option \<Rightarrow> string option \<Rightarrow> string option" where
  "text_or x y = (if x = None \<or> x = Some [] then y else x)"

definition requested_texts :: "string option \<Rightarrow> string list \<Rightarrow> string list" where
  "requested_texts one many =
     filter (\<lambda>s. s \<noteq> []) (if many \<noteq> [] then many else case one of None \<Rightarrow> [] | Some s \<Rightarrow> [s])"

section \<open>The covering agreement\<close>

text \<open>A row of the join: agreement, partner, its restaurant if any, participant, entitlement if any.\<close>

record spend_row =
  sw_agreement :: agreement
  sw_partner :: partner
  sw_restaurant :: "restaurant option"
  sw_participant :: participant
  sw_entitlement :: "entitlement option"

definition CUSTOMER_SPEND_ACCESS :: "config \<Rightarrow> agreement \<Rightarrow> entitlement option \<Rightarrow> bool" where
  "CUSTOMER_SPEND_ACCESS cf a e =
     (case e of
        None \<Rightarrow> \<not> ag_requires_entitlement a
      | Some x \<Rightarrow> et_status x = ''active'' \<and>
          (case et_starts x of None \<Rightarrow> True | Some s \<Rightarrow> s \<le> cf_db_now cf) \<and>
          (case et_ends x of None \<Rightarrow> True | Some s \<Rightarrow> cf_db_now cf < s))"

definition participant_joins :: "spend_request \<Rightarrow> participant \<Rightarrow> bool" where
  "participant_joins rq cp \<longleftrightarrow>
     cp_partner cp = sr_partner rq \<and> cp_status cp = ''active'' \<and> cp_verified cp \<and>
     (case text_or (sr_participant rq) None of Some i \<Rightarrow> cp_id cp = i | None \<Rightarrow> cp_type cp = ''restaurant'')"

definition row_eligible :: "config \<Rightarrow> ledger \<Rightarrow> spend_request \<Rightarrow> spend_row \<Rightarrow> bool" where
  "row_eligible cf db rq r \<longleftrightarrow>
     (let a = sw_agreement r; p = sw_partner r in
      pa_id p = sr_partner rq \<and>
      list_ex (\<lambda>u. us_id u = sr_customer rq \<and> us_role u = ''customer'' \<and> us_active u) (users db) \<and>
      pa_status p = ''active'' \<and>
      (pa_restaurant p = None \<or> (case sw_restaurant r of None \<Rightarrow> False | Some fr \<Rightarrow> fr_status fr = ''active'')) \<and>
      ag_status a = ''active'' \<and>
      (case sr_agreement rq of None \<Rightarrow> True | Some i \<Rightarrow> ag_id a = i) \<and>
      ag_starts a \<le> cf_db_now cf \<and> (case ag_ends a of None \<Rightarrow> True | Some e \<Rightarrow> cf_db_now cf < e) \<and>
      CUSTOMER_SPEND_ACCESS cf a (sw_entitlement r))"

definition spend_rows :: "ledger \<Rightarrow> spend_request \<Rightarrow> spend_row list" where
  "spend_rows db rq =
     [\<lparr>sw_agreement = a, sw_partner = p,
       sw_restaurant = (case pa_restaurant p of None \<Rightarrow> None | Some i \<Rightarrow> find (\<lambda>fr. fr_id fr = i) (restaurants db)),
       sw_participant = cp,
       sw_entitlement = find (\<lambda>e. et_agreement e = ag_id a \<and> et_customer e = sr_customer rq) (entitlements db)\<rparr>.
      a \<leftarrow> agreements db, p \<leftarrow> filter (\<lambda>p. pa_id p = ag_partner a) (partners db),
      cp \<leftarrow> filter (participant_joins rq) (participants db)]"

fun newest_row :: "spend_row list \<Rightarrow> spend_row option" where
  "newest_row [] = None"
| "newest_row (r # rs) = (case newest_row rs of
       None \<Rightarrow> Some r
     | Some s \<Rightarrow> if ag_version (sw_agreement r) < ag_version (sw_agreement s) then Some s else Some r)"

definition assertSurfaceAllowed :: "participant \<Rightarrow> string \<Rightarrow> unit res" where
  "assertSurfaceAllowed cp surface =
     (if surface = [] \<or> surface \<in> set (cp_surfaces cp) then Inr () else Inl (AppError 403 ''credit_surface_not_allowed''))"

text \<open>\<open>[...].filter(notNull).map(Number).reduce(min, MAX_SAFE_INTEGER)\<close>.\<close>

definition least_limit :: "int option list \<Rightarrow> int" where
  "least_limit xs = foldl min max_safe_integer (List.map_filter (\<lambda>x. x) xs)"

definition agreement_purchases :: "ledger \<Rightarrow> spend_request \<Rightarrow> string \<Rightarrow> txn list" where
  "agreement_purchases db rq agreementId =
     filter (\<lambda>t. tx_type t = ''purchase'' \<and> tx_status t = ''posted'' \<and> tx_partner t = Some (sr_partner rq) \<and>
       tx_agreement t = Some agreementId \<and> debit_of db t (\<lambda>a. ac_customer a = Some (sr_customer rq))) (txns db)"

definition agreement_holds :: "ledger \<Rightarrow> spend_request \<Rightarrow> string \<Rightarrow> int" where
  "agreement_holds db rq agreementId =
     sum_list (map ho_amount (filter (\<lambda>h. ho_customer h = sr_customer rq \<and> ho_partner h = sr_partner rq \<and>
       ho_agreement h = agreementId \<and> ho_status h = HActive \<and> Some (ho_id h) \<noteq> sr_excludeHold rq) (holds db)))"

definition daily_usage :: "config \<Rightarrow> ledger \<Rightarrow> spend_request \<Rightarrow> string \<Rightarrow> int" where
  "daily_usage cf db rq i =
     sum_list (map tx_amount (filter (\<lambda>t. cf_today cf \<le> tx_created t) (agreement_purchases db rq i))) + agreement_holds db rq i"

definition lifetime_usage :: "ledger \<Rightarrow> spend_request \<Rightarrow> string \<Rightarrow> int" where
  "lifetime_usage db rq i = sum_list (map tx_amount (agreement_purchases db rq i)) + agreement_holds db rq i"

text \<open>What the agreement says of the order: type, categories, menu items, place.\<close>

definition checkScope :: "spend_row \<Rightarrow> spend_request \<Rightarrow> unit res" where
  "checkScope r rq =
     (let a = sw_agreement r;
          allowedOrderTypes = normalizeList (ag_order_types a);
          allowedCategories = normalizeList (ag_categories a);
          allowedMenuItems = ag_menu_items a;
          requestedCategories = map (\<lambda>s. js_lower (js_trim s)) (requested_texts (sr_category rq) (sr_categories rq));
          requestedMenuItems = requested_texts (sr_menuItem rq) (sr_menuItems rq);
          place = (\<lambda>f. Option.bind (sw_restaurant r) f) in
      if allowedOrderTypes \<noteq> [] \<and> (case lower_text (sr_orderType rq) 40 of None \<Rightarrow> True | Some t \<Rightarrow> t \<notin> set allowedOrderTypes)
      then Inl (AppError 403 ''credit_order_type_not_eligible'')
      else if allowedCategories \<noteq> [] \<and> (requestedCategories = [] \<or> \<not> set requestedCategories \<subseteq> set allowedCategories)
      then Inl (AppError 403 ''credit_category_not_eligible'')
      else if allowedMenuItems \<noteq> [] \<and> (requestedMenuItems = [] \<or> \<not> set requestedMenuItems \<subseteq> set allowedMenuItems)
      then Inl (AppError 403 ''credit_menu_item_not_eligible'')
      else if \<not> matchesGeography (ag_geography a) (text_or (sr_city rq) (place fr_city)) (text_or (sr_state rq) (place fr_state))
                 (text_or (sr_postalCode rq) (place fr_zip)) (text_or (sr_country rq) (place fr_country))
      then Inl (AppError 403 ''credit_location_not_eligible'')
      else Inr ())"

definition checkLimits :: "config \<Rightarrow> ledger \<Rightarrow> spend_row \<Rightarrow> spend_request \<Rightarrow> int \<Rightarrow> unit res" where
  "checkLimits cf db r rq amount =
     (let a = sw_agreement r;
          transactionLimit = least_limit [ag_max_transaction a, Option.bind (sw_entitlement r) et_max_transaction];
          dailyLimit = least_limit [ag_daily a, Option.bind (sw_entitlement r) et_daily];
          lifetimeLimit = (case ag_lifetime a of None \<Rightarrow> max_safe_integer | Some l \<Rightarrow> l) in
      if amount \<noteq> 0 \<and> transactionLimit < max_safe_integer \<and> transactionLimit < amount
      then Inl (AppError 409 ''credit_agreement_transaction_limit'')
      else if amount \<noteq> 0 \<and> dailyLimit < max_safe_integer \<and> dailyLimit < daily_usage cf db rq (ag_id a) + amount
      then Inl (AppError 409 ''credit_daily_limit_reached'')
      else if amount \<noteq> 0 \<and> lifetimeLimit < max_safe_integer \<and> lifetimeLimit < lifetime_usage db rq (ag_id a) + amount
      then Inl (AppError 409 ''credit_lifetime_limit_reached'')
      else Inr ())"

definition findSpendAgreement :: "config \<Rightarrow> spend_request \<Rightarrow> int \<Rightarrow> ledger \<Rightarrow> spend_row res" where
  "findSpendAgreement cf rq amount db =
     (case newest_row (filter (row_eligible cf db rq) (spend_rows db rq)) of
        None \<Rightarrow> Inl (AppError 403 ''credit_partner_not_eligible'')
      | Some r \<Rightarrow>
          res_bind (assertSurfaceAllowed (sw_participant r) (sr_surface rq)) (\<lambda>_.
          res_bind (assertSupportedCreditCurrency cf (Some (pa_currency (sw_partner r)))) (\<lambda>settlementCurrency.
          if (case Option.bind (sw_restaurant r) fr_currency of None \<Rightarrow> False
              | Some c \<Rightarrow> c \<noteq> [] \<and> credit_normalizeCurrency (Some c) \<noteq> settlementCurrency)
          then Inl (AppError 409 ''credit_partner_currency_mismatch'')
          else res_bind (checkScope r rq) (\<lambda>_.
               res_bind (checkLimits cf db r rq amount) (\<lambda>_. Inr r)))))"

section \<open>Replays of purchases and transfers\<close>

definition text_of :: "json option \<Rightarrow> string option" where
  "text_of v = (case v of Some (TextJ s) \<Rightarrow> Some s | _ \<Rightarrow> None)"

definition normalizePurchaseScopeValues :: "json option \<Rightarrow> bool \<Rightarrow> nat \<Rightarrow> string list" where
  "normalizePurchaseScopeValues value lowerCase mx =
     (let values = (case value of None \<Rightarrow> [] | Some NullJ \<Rightarrow> [] | Some (ListJ xs) \<Rightarrow> xs | Some v \<Rightarrow> [v]) in
      sort (remdups (map (\<lambda>s. if lowerCase then js_lower s else s)
        (List.map_filter (\<lambda>item. normalizeString (Some (js_String item)) mx) values))))"

definition scope_value :: "string option \<Rightarrow> string list \<Rightarrow> json option" where
  "scope_value one many = (if many \<noteq> [] then Some (ListJ (map TextJ many)) else map_option TextJ one)"

definition scope_conflict :: "string list \<Rightarrow> string list \<Rightarrow> bool" where
  "scope_conflict committed requested \<longleftrightarrow>
     committed \<noteq> [] \<and> stableStringify (ListJ (map TextJ committed)) \<noteq> stableStringify (ListJ (map TextJ requested))"

definition assertPurchaseScopeReplayMatches :: "txn \<Rightarrow> spend_request \<Rightarrow> unit res" where
  "assertPurchaseScopeReplayMatches existing rq =
     (let committed = normalizeMetadata (tx_metadata existing);
          committedOrderType = lower_text (text_of (field committed ''orderType'')) 40;
          requestedOrderType = lower_text (sr_orderType rq) 40 in
      if committedOrderType \<noteq> None \<and> committedOrderType \<noteq> requestedOrderType \<or>
         scope_conflict (normalizePurchaseScopeValues (field committed ''categories'') True 120)
           (normalizePurchaseScopeValues (scope_value (sr_category rq) (sr_categories rq)) True 120) \<or>
         scope_conflict (normalizePurchaseScopeValues (field committed ''menuItemIds'') False 40)
           (normalizePurchaseScopeValues (scope_value (sr_menuItem rq) (sr_menuItems rq)) False 40)
      then Inl (AppError 409 ''credit_idempotency_conflict'') else Inr ())"

text \<open>\<open>String(column) !== String(value)\<close> where the column may be null.\<close>

definition string_of :: "string option \<Rightarrow> string" where
  "string_of x = (case x of None \<Rightarrow> ''null'' | Some s \<Rightarrow> s)"

definition findExistingPurchaseForReplay :: "spend_request \<Rightarrow> string \<Rightarrow> ledger \<Rightarrow> txn option res" where
  "findExistingPurchaseForReplay rq key db =
     (case find (\<lambda>t. tx_key t = key \<and> account_row db (tx_debit t) \<noteq> None \<and> account_row db (tx_credit t) \<noteq> None) (txns db) of
        None \<Rightarrow> Inr None
      | Some t \<Rightarrow>
          if tx_type t \<noteq> ''purchase'' \<or> \<not> debit_of db t (\<lambda>a. string_of (ac_customer a) = sr_customer rq) \<or>
             tx_partner t \<noteq> Some (sr_partner rq) \<or> \<not> credit_of db t (\<lambda>a. ac_partner a = Some (sr_partner rq))
          then Inl (AppError 409 ''credit_idempotency_conflict'')
          else res_bind (assertPurchaseScopeReplayMatches t rq) (\<lambda>_. Inr (Some t)))"

definition findExistingTransferForReplay :: "string \<Rightarrow> string \<Rightarrow> string \<Rightarrow> ledger \<Rightarrow> txn option res" where
  "findExistingTransferForReplay sender recipient key db =
     (case find (\<lambda>t. tx_key t = key \<and> account_row db (tx_debit t) \<noteq> None \<and> account_row db (tx_credit t) \<noteq> None) (txns db) of
        None \<Rightarrow> Inr None
      | Some t \<Rightarrow>
          if tx_type t \<noteq> ''transfer'' \<or> \<not> debit_of db t (\<lambda>a. string_of (ac_customer a) = sender) \<or>
             \<not> credit_of db t (\<lambda>a. string_of (ac_customer a) = recipient)
          then Inl (AppError 409 ''credit_idempotency_conflict'') else Inr (Some t))"

section \<open>Properties\<close>

lemma newest_row_Some:
  "newest_row rows = Some r \<Longrightarrow> r \<in> set rows \<and> (\<forall>s\<in>set rows. ag_version (sw_agreement s) \<le> ag_version (sw_agreement r))"
proof (induction rows arbitrary: r)
  case (Cons x rows)
  show ?case
  proof (cases "newest_row rows")
    case None
    then have "rows = []" by (cases rows) (auto split: option.splits if_splits)
    with Cons.prems show ?thesis by simp
  next
    case (Some s)
    note IH = Cons.IH [OF Some]
    show ?thesis
    proof (cases "ag_version (sw_agreement x) < ag_version (sw_agreement s)")
      case True
      with Cons.prems Some have "r = s" by simp
      with IH True show ?thesis by auto
    next
      case False
      with Cons.prems Some have "r = x" by simp
      with IH False show ?thesis by fastforce
    qed
  qed
qed simp

lemma foldl_min_le: "foldl min m xs \<le> (m :: int) \<and> (\<forall>x\<in>set xs. foldl min m xs \<le> x)"
proof (induction xs arbitrary: m)
  case (Cons x xs)
  then show ?case by (metis foldl_Cons min.bounded_iff set_ConsD)
qed simp

lemma least_limit_le: "Some l \<in> set xs \<Longrightarrow> least_limit xs \<le> l" and least_limit_safe: "least_limit xs \<le> max_safe_integer"
proof -
  assume "Some l \<in> set xs"
  then have "l \<in> set (List.map_filter (\<lambda>x. x) xs)" by (induction xs) (auto simp: List.map_filter_simps split: option.splits)
  then show "least_limit xs \<le> l" unfolding least_limit_def using foldl_min_le by blast
next
  show "least_limit xs \<le> max_safe_integer" unfolding least_limit_def using foldl_min_le by blast
qed

text \<open>The caps of a row that bind one transaction, a day and a lifetime.\<close>

definition transaction_caps :: "spend_row \<Rightarrow> int list" where
  "transaction_caps r = List.map_filter (\<lambda>x. x) [ag_max_transaction (sw_agreement r), Option.bind (sw_entitlement r) et_max_transaction]"

definition daily_caps :: "spend_row \<Rightarrow> int list" where
  "daily_caps r = List.map_filter (\<lambda>x. x) [ag_daily (sw_agreement r), Option.bind (sw_entitlement r) et_daily]"

lemma least_limit_caps:
  "x \<in> set (List.map_filter (\<lambda>x. x) xs) \<Longrightarrow> least_limit xs \<le> x"
  unfolding least_limit_def using foldl_min_le by blast

lemma checkLimits_Inr:
  assumes "checkLimits cf db r rq amount = Inr ()" and "0 < amount" "amount \<le> max_safe_integer"
  shows "\<forall>m\<in>set (transaction_caps r). amount \<le> m"
    "\<forall>m\<in>set (daily_caps r). m < max_safe_integer \<longrightarrow> daily_usage cf db rq (ag_id (sw_agreement r)) + amount \<le> m"
    "\<forall>m. ag_lifetime (sw_agreement r) = Some m \<longrightarrow> m < max_safe_integer \<longrightarrow>
       lifetime_usage db rq (ag_id (sw_agreement r)) + amount \<le> m"
proof -
  let ?T = "least_limit [ag_max_transaction (sw_agreement r), Option.bind (sw_entitlement r) et_max_transaction]"
  let ?D = "least_limit [ag_daily (sw_agreement r), Option.bind (sw_entitlement r) et_daily]"
  have T: "?T < max_safe_integer \<longrightarrow> amount \<le> ?T"
    and D: "?D < max_safe_integer \<longrightarrow> daily_usage cf db rq (ag_id (sw_agreement r)) + amount \<le> ?D"
    and L: "\<forall>m. ag_lifetime (sw_agreement r) = Some m \<longrightarrow> m < max_safe_integer \<longrightarrow>
       lifetime_usage db rq (ag_id (sw_agreement r)) + amount \<le> m"
    using assms by (auto simp: checkLimits_def Let_def split: if_splits option.splits)
  show "\<forall>m\<in>set (transaction_caps r). amount \<le> m"
  proof
    fix m assume "m \<in> set (transaction_caps r)"
    then have "?T \<le> m" unfolding transaction_caps_def by (rule least_limit_caps)
    with T assms(3) show "amount \<le> m" by (cases "?T < max_safe_integer") auto
  qed
  show "\<forall>m\<in>set (daily_caps r). m < max_safe_integer \<longrightarrow> daily_usage cf db rq (ag_id (sw_agreement r)) + amount \<le> m"
  proof (intro ballI impI)
    fix m assume "m \<in> set (daily_caps r)" "m < max_safe_integer"
    then have "?D \<le> m" unfolding daily_caps_def by (intro least_limit_caps)
    with D \<open>m < max_safe_integer\<close> show "daily_usage cf db rq (ag_id (sw_agreement r)) + amount \<le> m" by auto
  qed
  show "\<forall>m. ag_lifetime (sw_agreement r) = Some m \<longrightarrow> m < max_safe_integer \<longrightarrow>
       lifetime_usage db rq (ag_id (sw_agreement r)) + amount \<le> m" by (rule L)
qed

lemma findSpendAgreement_Inr:
  assumes "findSpendAgreement cf rq amount db = Inr r"
  shows "newest_row (filter (row_eligible cf db rq) (spend_rows db rq)) = Some r"
    "assertSurfaceAllowed (sw_participant r) (sr_surface rq) = Inr ()"
    "checkScope r rq = Inr ()" "checkLimits cf db r rq amount = Inr ()"
    "\<exists>currency. assertSupportedCreditCurrency cf (Some (pa_currency (sw_partner r))) = Inr currency"
  using assms unfolding findSpendAgreement_def
  by (auto simp: res_bind_Inr_iff split: option.splits if_splits)

text \<open>C33: credit is spent only where an agreement covers it: the agreement found is active, has started and
  has not ended, is the one the caller names if he names one, and the newest of those eligible; its
  partner is active (with its restaurant, if it has one), its participant is active and verified and
  accepts the surface; the customer is an active user with the role of a customer and may use it; the
  order is in its scope; and the amount stays within every cap of the agreement and of the entitlement,
  per transaction, per day and over the lifetime, counting earlier purchases and active holds.\<close>

theorem findSpendAgreement_sound:
  assumes "findSpendAgreement cf rq amount db = Inr r" and "0 < amount" "amount \<le> max_safe_integer"
  shows "r \<in> set (spend_rows db rq) \<and> ag_status (sw_agreement r) = ''active'' \<and> ag_starts (sw_agreement r) \<le> cf_db_now cf \<and>
    (case ag_ends (sw_agreement r) of None \<Rightarrow> True | Some e \<Rightarrow> cf_db_now cf < e) \<and>
    (case sr_agreement rq of None \<Rightarrow> True | Some i \<Rightarrow> ag_id (sw_agreement r) = i) \<and>
    pa_id (sw_partner r) = sr_partner rq \<and> pa_status (sw_partner r) = ''active'' \<and>
    (pa_restaurant (sw_partner r) = None \<or> (\<exists>fr. sw_restaurant r = Some fr \<and> fr_status fr = ''active'')) \<and>
    CUSTOMER_SPEND_ACCESS cf (sw_agreement r) (sw_entitlement r) \<and>
    list_ex (\<lambda>u. us_id u = sr_customer rq \<and> us_role u = ''customer'' \<and> us_active u) (users db) \<and>
    checkScope r rq = Inr () \<and>
    cp_status (sw_participant r) = ''active'' \<and> cp_verified (sw_participant r) \<and>
    (sr_surface rq = [] \<or> sr_surface rq \<in> set (cp_surfaces (sw_participant r))) \<and>
    (\<forall>s\<in>set (spend_rows db rq). row_eligible cf db rq s \<longrightarrow> ag_version (sw_agreement s) \<le> ag_version (sw_agreement r)) \<and>
    (\<forall>m\<in>set (transaction_caps r). amount \<le> m) \<and>
    (\<forall>m\<in>set (daily_caps r). m < max_safe_integer \<longrightarrow> daily_usage cf db rq (ag_id (sw_agreement r)) + amount \<le> m) \<and>
    (\<forall>m. ag_lifetime (sw_agreement r) = Some m \<longrightarrow> m < max_safe_integer \<longrightarrow>
       lifetime_usage db rq (ag_id (sw_agreement r)) + amount \<le> m)"
proof -
  note f = findSpendAgreement_Inr [OF assms(1)]
  have r: "r \<in> set (spend_rows db rq)" "row_eligible cf db rq r"
    and newest: "\<forall>s\<in>set (spend_rows db rq). row_eligible cf db rq s \<longrightarrow> ag_version (sw_agreement s) \<le> ag_version (sw_agreement r)"
    using newest_row_Some [OF f(1)] by auto
  have "cp_status (sw_participant r) = ''active''" "cp_verified (sw_participant r)"
    using r(1) by (auto simp: spend_rows_def participant_joins_def)
  moreover have "sr_surface rq = [] \<or> sr_surface rq \<in> set (cp_surfaces (sw_participant r))"
    using f(2) by (auto simp: assertSurfaceAllowed_def split: if_splits)
  moreover have "pa_restaurant (sw_partner r) = None \<or> (\<exists>fr. sw_restaurant r = Some fr \<and> fr_status fr = ''active'')"
    using r(2) by (auto simp: row_eligible_def Let_def split: option.splits)
  ultimately show ?thesis
    using r newest f(3) checkLimits_Inr [OF f(4) assms(2,3)] by (simp add: row_eligible_def Let_def)
qed

text \<open>A restaurant partner with an agreement of at most 40 per purchase and 60 per day.\<close>

definition sample_agreement :: agreement where
  "sample_agreement =
     \<lparr>ag_id = ''agr'', ag_partner = 7, ag_status = ''active'', ag_version = 1, ag_starts = 0, ag_ends = None,
      ag_requires_entitlement = False, ag_order_types = [''Delivery''], ag_categories = [], ag_menu_items = [],
      ag_geography = ObjJ [(''cities'', ListJ [TextJ ''Austin''])], ag_max_transaction = Some 40, ag_daily = Some 60,
      ag_lifetime = None\<rparr>"

definition sample_market :: ledger where
  "sample_market = sample_ledger\<lparr>
     partners := [\<lparr>pa_id = 7, pa_restaurant = Some 3, pa_status = ''active'', pa_currency = ''USD''\<rparr>],
     restaurants := [\<lparr>fr_id = 3, fr_status = ''active'', fr_currency = Some ''usd'', fr_city = Some ''Austin'', fr_state = None,
                      fr_zip = None, fr_country = None\<rparr>],
     participants := [\<lparr>cp_id = ''pp'', cp_partner = 7, cp_type = ''restaurant'', cp_status = ''active'', cp_verified = True,
                       cp_surfaces = [''food_online'']\<rparr>],
     agreements := [sample_agreement]\<rparr>"

definition sample_spend :: spend_request where
  "sample_spend =
     \<lparr>sr_customer = ''ana'', sr_partner = 7, sr_participant = None, sr_surface = ''food_online'', sr_agreement = None,
      sr_orderType = Some ''delivery'', sr_category = None, sr_categories = [], sr_menuItem = None, sr_menuItems = [],
      sr_city = None, sr_state = None, sr_postalCode = None, sr_country = None, sr_excludeHold = None\<rparr>"

lemma sample_spend_covered: "\<exists>r. findSpendAgreement sample_config sample_spend 30 sample_market = Inr r"
proof -
  have "case findSpendAgreement sample_config sample_spend 30 sample_market of Inl _ \<Rightarrow> False | Inr _ \<Rightarrow> True" by code_simp
  then show ?thesis by (auto split: sum.splits)
qed

theorem findSpendAgreement_sound_witness:
  "\<exists>r. findSpendAgreement sample_config sample_spend 30 sample_market = Inr r \<and> ag_status (sw_agreement r) = ''active'' \<and>
     (\<forall>m\<in>set (transaction_caps r). 30 \<le> m)"
proof -
  obtain r where r: "findSpendAgreement sample_config sample_spend 30 sample_market = Inr r"
    using sample_spend_covered by blast
  from findSpendAgreement_sound [OF r] r show ?thesis by (simp add: max_safe_integer_def)
qed

end
