(* ===== verification/Bookkeeping.thy ===== *)
theory Bookkeeping
  imports SampleLedger
begin

text \<open>
  Double entry and ownership: every posted transaction has exactly its two legs, keys name one
  transaction, and an owner has at most one account per currency.
\<close>

section \<open>Double entry\<close>

definition two_legs :: "txn \<Rightarrow> entry list \<Rightarrow> bool" where
  "two_legs t es \<longleftrightarrow>
     (case es of
        [d, c] \<Rightarrow> en_side d = Debit \<and> en_account d = tx_debit t \<and> en_amount d = tx_amount t \<and>
                  en_side c = Credit \<and> en_account c = tx_credit t \<and> en_amount c = tx_amount t \<and>
                  tx_debit t \<noteq> tx_credit t \<and> 0 < tx_amount t
      | _ \<Rightarrow> False)"

definition double_entry :: "ledger \<Rightarrow> bool" where
  "double_entry db \<longleftrightarrow>
     distinct (map tx_id (txns db)) \<and> distinct (map tx_key (txns db)) \<and>
     list_all (\<lambda>e. en_txn e \<in> set (map tx_id (txns db))) (entries db) \<and>
     list_all (\<lambda>t. tx_status t \<noteq> ''posted'' \<or> two_legs t (loadAccountEntries db (tx_id t))) (txns db)"

lemma moved_double_entry:
  assumes m: "moved cf inp version t d c amount currency e1 e2 db db'" and s: "double_entry db"
    and t: "t = (requested_txn cf inp key amount currency)\<lparr>tx_id := next_id (map tx_id (txns db))\<rparr>"
    and k: "getExistingTransaction key db = None" and dc: "ac_id d = ji_debit inp" "ac_id c = ji_credit inp" "ac_id d \<noteq> ac_id c"
    and pos: "0 < amount"
  shows "double_entry db'"
proof -
  note fr = moved_frame [OF m] and legs = moved_legs [OF m]
  have ids: "distinct (map tx_id (txns db))" and keys: "distinct (map tx_key (txns db))"
    and known: "\<And>e. e \<in> set (entries db) \<Longrightarrow> en_txn e \<in> set (map tx_id (txns db))"
    and legs_ok: "\<And>x. x \<in> set (txns db) \<Longrightarrow> tx_status x = ''posted'' \<Longrightarrow> two_legs x (loadAccountEntries db (tx_id x))"
    using s by (auto simp: double_entry_def list_all_iff)
  have tt: "tx_id t = next_id (map tx_id (txns db))" "tx_key t = key" "tx_debit t = ac_id d" "tx_credit t = ac_id c" "tx_amount t = amount"
    unfolding t dc by (simp_all add: requested_txn_def)
  have fresh: "tx_id t \<notin> set (map tx_id (txns db))" unfolding tt(1) by (rule next_id_fresh)
  have "filter (\<lambda>e. en_txn e = tx_id t) (entries db) = []"
    using known fresh by (metis (mono_tags, lifting) filter_False)
  then have new: "loadAccountEntries db' (tx_id t) = [e1, e2]"
    using legs by (simp add: loadAccountEntries_def fr)
  have old: "loadAccountEntries db' (tx_id x) = loadAccountEntries db (tx_id x)" if "x \<in> set (txns db)" for x
  proof -
    have "tx_id t \<noteq> tx_id x" using that fresh by (metis image_eqI set_map)
    then show ?thesis using legs by (simp add: loadAccountEntries_def fr)
  qed
  have "two_legs t [e1, e2]" using legs tt pos dc(3) by (simp add: two_legs_def)
  moreover have "key \<notin> set (map tx_key (txns db))"
    using k by (auto simp: getExistingTransaction_None list_ex_iff)
  moreover have "en_txn e \<in> set (map tx_id (txns db'))" if "e \<in> set (entries db')" for e
    using that known legs(1,5) by (auto simp: fr)
  ultimately show ?thesis
    using ids keys fresh new old legs_ok tt(2) by (auto simp: double_entry_def fr list_all_iff)
qed

lemma double_entry_frame:
  "txns db' = txns db \<Longrightarrow> entries db' = entries db \<Longrightarrow> double_entry db' = double_entry db"
  by (simp add: double_entry_def loadAccountEntries_def)

lemma post_double_entry:
  assumes "postJournalTransaction cf inp db = (Inr p, db')" and "double_entry db"
  shows "double_entry db'"
  using assms(1)
proof (cases rule: postJournalTransaction_Inr)
  case replayed
  with assms(2) show ?thesis by (simp add: replayTransaction_Inr)
next
  case (moved amount currency key version d c t e1 e2)
  then have "\<not> po_replayed p" by simp
  with assms(1) show ?thesis
    by (rule fresh_posting_cases) (rule moved_double_entry [OF _ assms(2)])
qed

lemma ensure_txns:
  assumes "ensureAccount cf w code anyOwner db = (Inr a, db')"
  shows "txns db' = txns db" "entries db' = entries db" "holds db' = holds db" "users db' = users db"
proof -
  obtain currency where "db' = db \<or> db' = db\<lparr>accounts := accounts db @ [new_account db w currency]\<rparr>"
    using assms by (rule ensureAccount_Inr) auto
  then show "txns db' = txns db" "entries db' = entries db" "holds db' = holds db" "users db' = users db" by auto
qed

interpretation two_sides: posting_contract "\<lambda>_. double_entry"
proof
  show "commits double_entry (postJournalTransaction cf inp)" for cf inp
    by (rule commitsI) (rule post_double_entry)
  show "commits double_entry (ensureAccount cf w code anyOwner)" for cf w code anyOwner
    by (rule commitsI) (simp add: double_entry_frame [OF ensure_txns(1,2)])
  show "double_entry (db\<lparr>audits := audits db @ [x]\<rparr>)" if "double_entry db" for db x
    using that double_entry_frame [of "db\<lparr>audits := audits db @ [x]\<rparr>" db] by simp
  show "double_entry (db\<lparr>screenings := scs, cases := cs, guest_days := gs\<rparr>)" if "double_entry db" for db scs cs gs
    using that double_entry_frame [of "db\<lparr>screenings := scs, cases := cs, guest_days := gs\<rparr>" db] by simp
qed

section \<open>One account per owner\<close>

type_synonym account_key = "account_type \<times> string option \<times> int option \<times> int option \<times> string"

definition account_key :: "account \<Rightarrow> account_key" where
  "account_key a = (ac_type a, ac_customer a, ac_partner a, ac_restaurant a, ac_currency a)"

definition owners_unique :: "ledger \<Rightarrow> bool" where
  "owners_unique db \<longleftrightarrow> distinct (map account_key (accounts db))"

lemma owned_by_key: "owned_by w cur a \<Longrightarrow> account_key b = account_key a \<Longrightarrow> owned_by w cur b"
  by (auto simp: owned_by_def account_key_def split: account_type.splits)

lemma owned_by_same: "owned_by w cur a \<Longrightarrow> owned_by w cur b \<Longrightarrow> account_key a = account_key b"
  by (auto simp: owned_by_def account_key_def split: account_type.splits)

interpretation ownership: posting_contract "\<lambda>_. owners_unique"
proof
  show "commits owners_unique (postJournalTransaction cf inp)" for cf inp
  proof (rule commitsI)
    fix db p db' assume o: "owners_unique db" and r: "postJournalTransaction cf inp db = (Inr p, db')"
    from r show "owners_unique db'"
    proof (cases rule: postJournalTransaction_Inr)
      case replayed
      with o show ?thesis by (simp add: replayTransaction_Inr)
    next
      case (moved amount currency key version d c t e1 e2)
      have "ac_id d \<noteq> ac_id c" using moved(9) find_account(2) [OF moved(7)] find_account(2) [OF moved(8)] by simp
      then have "map account_key (accounts db') = map account_key (accounts db)"
        using moved_accounts [OF moved(13)] by (simp add: account_key_def)
      with o show ?thesis by (simp add: owners_unique_def)
    qed
  qed
  show "commits owners_unique (ensureAccount cf w code anyOwner)" for cf w code anyOwner
  proof (rule commitsI)
    fix db a db' assume o: "owners_unique db" and r: "ensureAccount cf w code anyOwner db = (Inr a, db')"
    from r show "owners_unique db'"
    proof (rule ensureAccount_Inr)
      fix currency
      assume "db' = db \<or> db' = db\<lparr>accounts := accounts db @ [new_account db w currency]\<rparr> \<and>
         owned_by w currency (new_account db w currency) \<and> \<not> list_ex (owned_by w currency) (accounts db)"
      then show "owners_unique db'"
      proof
        assume n: "db' = db\<lparr>accounts := accounts db @ [new_account db w currency]\<rparr> \<and>
           owned_by w currency (new_account db w currency) \<and> \<not> list_ex (owned_by w currency) (accounts db)"
        have "account_key x \<noteq> account_key (new_account db w currency)" if "x \<in> set (accounts db)" for x
          using n that owned_by_key [of w currency "new_account db w currency" x] by (auto simp: list_ex_iff)
        then have "account_key (new_account db w currency) \<notin> account_key ` set (accounts db)" by fastforce
        with o n show ?thesis by (simp add: owners_unique_def)
      qed (use o in simp)
    qed
  qed
  show "owners_unique (db\<lparr>audits := audits db @ [x]\<rparr>)" if "owners_unique db" for db x
    using that by (simp add: owners_unique_def)
  show "owners_unique (db\<lparr>screenings := scs, cases := cs, guest_days := gs\<rparr>)" if "owners_unique db" for db scs cs gs
    using that by (simp add: owners_unique_def)
qed

section \<open>Properties\<close>

text \<open>Every movement is double entry: in a ledger where each posted transaction has exactly one debit
  and one credit leg of its amount on two different accounts, every posting that returns keeps it so, and the
  transaction it returns, new or replayed, comes with exactly these two legs.\<close>

theorem posting_is_double_entry:
  assumes "postJournalTransaction cf inp db = (Inr p, db')" and "double_entry db" and "ji_existing inp = None"
  shows "double_entry db' \<and> two_legs (po_txn p) (po_entries p) \<and> loadAccountEntries db' (tx_id (po_txn p)) = po_entries p"
proof -
  have d': "double_entry db'" by (rule commitsD [OF two_sides.post assms(2,1)])
  have "two_legs (po_txn p) (loadAccountEntries db' (tx_id (po_txn p)))"
    if "po_txn p \<in> set (txns db')" "tx_status (po_txn p) = ''posted''"
    using d' that by (auto simp: double_entry_def list_all_iff)
  moreover have "po_txn p \<in> set (txns db') \<and> tx_status (po_txn p) = ''posted'' \<and>
      loadAccountEntries db' (tx_id (po_txn p)) = po_entries p"
    using assms(1)
  proof (cases rule: postJournalTransaction_Inr)
    case (replayed t amount currency key)
    then have "getExistingTransaction key db = Some t" using assms(3) by simp
    then have "t \<in> set (txns db)" by (auto simp: getExistingTransaction_def dest: find_SomeD)
    with replayed(5) show ?thesis by (simp add: replayTransaction_Inr)
  next
    case (moved amount currency key version d c t e1 e2)
    have "tx_id t \<notin> set (map tx_id (txns db))" using next_id_fresh [of "map tx_id (txns db)"] moved(12) by simp
    then have "filter (\<lambda>e. en_txn e = tx_id t) (entries db) = []"
      using assms(2) unfolding double_entry_def list_all_iff filter_empty_conv by metis
    with moved_frame [OF moved(13)] moved_legs [OF moved(13)] moved(12,14) show ?thesis
      by (simp add: loadAccountEntries_def requested_txn_def)
  qed
  ultimately show ?thesis using d' by auto
qed

theorem posting_is_double_entry_witness:
  "\<exists>p db'. postJournalTransaction sample_config sample_load sample_ledger = (Inr p, db') \<and> double_entry db' \<and>
     two_legs (po_txn p) (po_entries p)"
proof -
  obtain p db' where r: "postJournalTransaction sample_config sample_load sample_ledger = (Inr p, db')" "\<not> po_replayed p"
    by (rule fresh_postingE [OF sample_load_posts])
  have "double_entry sample_ledger" "ji_existing sample_load = None" by code_simp+
  from posting_is_double_entry [OF r(1) this] r(1) show ?thesis by blast
qed

lemma filter_key_single:
  assumes "distinct (map k xs)" "a \<in> set xs" "P a" "\<And>b. b \<in> set xs \<Longrightarrow> P b \<Longrightarrow> k b = k a"
  shows "filter P xs = [a]"
  using assms
proof (induction xs)
  case (Cons x xs)
  have d: "k x \<notin> k ` set xs" "distinct (map k xs)" using Cons.prems(1) by simp_all
  show ?case
  proof (cases "x = a")
    case True
    have "\<not> P b" if b: "b \<in> set xs" for b
    proof
      assume "P b"
      then have "k b = k x" using Cons.prems(4) [of b] b True by simp
      with d(1) b show False by (metis image_eqI)
    qed
    then have "filter P xs = []" by (simp add: filter_empty_conv)
    with True Cons.prems(3) show ?thesis by simp
  next
    case False
    with Cons.prems(2) have a: "a \<in> set xs" by simp
    then have "k x \<noteq> k a" using d(1) by (metis image_eqI)
    then have "\<not> P x" using Cons.prems(4) [of x] by auto
    moreover have "filter P xs = [a]"
      by (rule Cons.IH [OF d(2) a Cons.prems(3)]) (simp add: Cons.prems(4))
    ultimately show ?thesis by simp
  qed
qed simp

lemma find_hd_filter: "find P xs = (case filter P xs of [] \<Rightarrow> None | x # _ \<Rightarrow> Some x)"
  by (induction xs) auto

text \<open>an owner has one account per currency: where account keys are unique, \<open>ensureAccount\<close> keeps them
  unique and all existing accounts in place, what it returns is the only account of that owner in
  that currency, and asking again returns the same account and creates nothing.\<close>

theorem ensureAccount_unique:
  assumes "ensureAccount cf w code anyOwner db = (Inr a, db')" and "owners_unique db"
  shows "owners_unique db' \<and> filter (owned_by w (ac_currency a)) (accounts db') = [a] \<and>
    ensureAccount cf w code anyOwner db' = (Inr a, db') \<and> take (length (accounts db)) (accounts db') = accounts db"
proof -
  have u: "owners_unique db'" by (rule commitsD [OF ownership.ensure assms(2,1)])
  obtain currency where
    f: "assertSupportedCreditCurrency cf code = Inr currency" "a \<in> set (accounts db')" "owned_by w currency a"
      "ow_type w = Customer_wallet \<Longrightarrow> wallet_owner anyOwner db' (ow_customer w)"
    and db': "db' = db \<or> db' = db\<lparr>accounts := accounts db @ [new_account db w currency]\<rparr>"
    using assms(1) by (rule ensureAccount_Inr) auto
  have cur: "ac_currency a = currency" using f(3) by (simp add: owned_by_def)
  have single: "filter (owned_by w currency) (accounts db') = [a]"
  proof (rule filter_key_single [where k = account_key])
    show "distinct (map account_key (accounts db'))" using u by (simp add: owners_unique_def)
    show "account_key b = account_key a" if "owned_by w currency b" for b by (rule owned_by_same [OF that f(3)])
  qed (rule f(2), rule f(3))
  then have ex: "list_ex (owned_by w currency) (accounts db')"
    using f(2,3) by (auto simp: list_ex_iff)
  let ?P = "\<lambda>a. owned_by w currency a \<and> (ow_type w = Customer_wallet \<longrightarrow> wallet_owner anyOwner db' (ow_customer w))"
  have "?P = owned_by w currency" using f(4) by auto
  then have "find ?P (accounts db') = Some a" by (simp add: find_hd_filter single)
  moreover have "\<not> (ow_type w = Restaurant_sub_bank \<and> (case ow_restaurant w of None \<Rightarrow> True | Some r \<Rightarrow> r \<le> 0))"
    "\<not> (ow_type w = Restaurant_sub_bank \<and> (ow_customer w \<noteq> None \<or> ow_partner w \<noteq> None))"
    using assms(1) f(1) by (auto simp: ensureAccount_def bind_apply split: if_splits)
  ultimately have "ensureAccount cf w code anyOwner db' = (Inr a, db')"
    using f(1) ex by (simp add: ensureAccount_def bind_apply)
  moreover have "take (length (accounts db)) (accounts db') = accounts db" using db' by auto
  ultimately show ?thesis using u single cur by simp
qed

lemma sample_ensure: "returned (ensureAccount sample_config (customer_wallet ''ben'') (Some ''usd'') False sample_ledger)"
  by code_simp

theorem ensureAccount_unique_witness:
  "\<exists>a db'. ensureAccount sample_config (customer_wallet ''ben'') (Some ''usd'') False sample_ledger = (Inr a, db') \<and>
     ensureAccount sample_config (customer_wallet ''ben'') (Some ''usd'') False db' = (Inr a, db')"
proof -
  obtain a db' where r: "ensureAccount sample_config (customer_wallet ''ben'') (Some ''usd'') False sample_ledger = (Inr a, db')"
    by (rule returnedE [OF sample_ensure])
  have "owners_unique sample_ledger" by code_simp
  from ensureAccount_unique [OF r this] r show ?thesis by blast
qed

end
