(* ===== verification/Integrity.thy ===== *)
theory Integrity
  imports LedgerInvariants
begin

text \<open>
  The nightly integrity job (\<open>jobs/oxsteedCreditIntegrity.js\<close>) and the hash chain verifier it calls
  (\<open>verifyEntryHashes\<close> of \<open>scripts/verify-oxsteed-credit.js\<close>): what a clean report means, that
  checking in batches of accounts loses nothing, and that postings keep the ledger clean.
\<close>

section \<open>The verifier\<close>

text \<open>A row of the query: an entry joined with its posted transaction.\<close>

type_synonym journal_row = "txn \<times> entry"

definition row_payload :: "txn \<Rightarrow> entry \<Rightarrow> json" where
  "row_payload t e =
     ObjJ [(''transactionId'', TextJ (show_int (en_txn e))), (''transactionType'', TextJ (tx_type t)), (''accountId'', IntJ (en_account e)),
           (''entrySide'', TextJ (case en_side e of Debit \<Rightarrow> ''debit'' | Credit \<Rightarrow> ''credit'')), (''amountCents'', IntJ (en_amount e)),
           (''balanceAfterCents'', IntJ (en_balance_after e)),
           (''currencyCode'', TextJ (js_upper (if tx_currency t = [] then ''USD'' else tx_currency t))),
           (''sequence'', IntJ (en_sequence e)), (''previousEntryHash'', optText (or_null (en_previous e))),
           (''metadata'', case en_metadata e of ObjJ kvs \<Rightarrow> ObjJ kvs | ListJ xs \<Rightarrow> ListJ xs | _ \<Rightarrow> ObjJ [])]"

record findings =
  bad_hashes :: nat
  bad_chains :: nat
  bad_heads :: nat

definition no_findings :: findings where
  "no_findings = \<lparr>bad_hashes = 0, bad_chains = 0, bad_heads = 0\<rparr>"

definition add_findings :: "findings \<Rightarrow> findings \<Rightarrow> findings" where
  "add_findings f g = \<lparr>bad_hashes = bad_hashes f + bad_hashes g, bad_chains = bad_chains f + bad_chains g,
                       bad_heads = bad_heads f + bad_heads g\<rparr>"

text \<open>\<open>stateByAccount\<close>: the last sequence and hash seen, \<open>{ sequence: 0, hash: null }\<close> before the first.\<close>

type_synonym chain_state = "int \<Rightarrow> (int \<times> string option) option"

definition chain_at :: "chain_state \<Rightarrow> int \<Rightarrow> int \<times> string option" where
  "chain_at st i = (case st i of None \<Rightarrow> (0, None) | Some x \<Rightarrow> x)"

definition key_version :: "entry \<Rightarrow> string" where
  "key_version e = (if en_key_version e = [] then ''v1'' else en_key_version e)"

definition breaks_chain :: "chain_state \<Rightarrow> entry \<Rightarrow> bool" where
  "breaks_chain st e \<longleftrightarrow>
     en_sequence e \<noteq> fst (chain_at st (en_account e)) + 1 \<or> or_null (en_previous e) \<noteq> snd (chain_at st (en_account e))"

fun verify_rows :: "config \<Rightarrow> journal_row list \<Rightarrow> chain_state \<Rightarrow> findings \<Rightarrow> (chain_state \<times> findings) res" where
  "verify_rows cf [] st f = Inr (st, f)"
| "verify_rows cf ((t, e) # rows) st f =
     res_bind (computeEntryHash cf (key_version e) (row_payload t e)) (\<lambda>expectedHash.
     verify_rows cf rows (st(en_account e \<mapsto> (en_sequence e, or_null (Some (en_hash e)))))
       \<lparr>bad_hashes = bad_hashes f + (if en_hash e = [] \<or> en_hash e \<noteq> expectedHash then 1 else 0),
        bad_chains = bad_chains f + (if breaks_chain st e then 1 else 0),
        bad_heads = bad_heads f\<rparr>)"

definition head_mismatch :: "chain_state \<Rightarrow> account \<Rightarrow> bool" where
  "head_mismatch st a \<longleftrightarrow> (ac_version a, or_null (ac_hash a)) \<noteq> chain_at st (ac_id a)"

definition verifyEntryHashes :: "config \<Rightarrow> journal_row list \<Rightarrow> account list \<Rightarrow> findings res" where
  "verifyEntryHashes cf rows accts =
     res_bind (verify_rows cf rows Map.empty no_findings) (\<lambda>(st, f).
       Inr (f\<lparr>bad_heads := length (filter (head_mismatch st) accts)\<rparr>))"

section \<open>The job\<close>

text \<open>\<open>ORDER BY e.account_id, e.sequence, e.id\<close>; entries are stored in the order of their ids.\<close>

definition journal_rows :: "ledger \<Rightarrow> int list \<Rightarrow> journal_row list" where
  "journal_rows db ids =
     concat (map (\<lambda>e. map (\<lambda>t. (t, e)) (filter (\<lambda>t. tx_id t = en_txn e \<and> tx_status t = ''posted'') (txns db)))
       (sort_key en_account (sort_key en_sequence (filter (\<lambda>e. en_account e \<in> set ids) (entries db)))))"

definition account_batch :: "ledger \<Rightarrow> nat \<Rightarrow> int \<Rightarrow> account list" where
  "account_batch db batchSize afterId = take batchSize (sort_key ac_id (filter (\<lambda>a. afterId < ac_id a) (accounts db)))"

text \<open>The next batch starts after the last id of this one.\<close>

lemma account_batch_after: "a \<in> set (account_batch db n afterId) \<Longrightarrow> a \<in> set (accounts db) \<and> afterId < ac_id a"
  unfolding account_batch_def by (auto dest: in_set_takeD)

function verify_from :: "config \<Rightarrow> ledger \<Rightarrow> nat \<Rightarrow> int \<Rightarrow> findings res" where
  "verify_from cf db batchSize afterId =
     (let accts = account_batch db batchSize afterId in
      if accts = [] then Inr no_findings
      else res_bind (verifyEntryHashes cf (journal_rows db (map ac_id accts)) accts) (\<lambda>result.
        if length accts < batchSize then Inr result
        else res_bind (verify_from cf db batchSize (ac_id (last accts))) (\<lambda>rest. Inr (add_findings result rest))))"
  by pat_completeness auto
termination
proof (relation "measure (\<lambda>(cf, db, n, i). length (filter (\<lambda>a. i < ac_id a) (accounts db)))")
  fix cf db n i accts and x :: findings
  assume a: "accts = account_batch db n i" "accts \<noteq> []"
  then have l: "last accts \<in> set (accounts db)" "i < ac_id (last accts)"
    using account_batch_after [of "last accts" db n i] last_in_set [OF a(2)] by simp_all
  have "length (filter (\<lambda>a. ac_id (last accts) < ac_id a) xs) < length (filter (\<lambda>a. i < ac_id a) xs)"
    if "last accts \<in> set xs" for xs
    using that
  proof (induction xs)
    case (Cons y ys)
    have le: "length (filter (\<lambda>a. ac_id (last accts) < ac_id a) ys) \<le> length (filter (\<lambda>a. i < ac_id a) ys)"
      using l(2) by (induction ys) auto
    from Cons le l(2) show ?case by (auto simp: less_Suc_eq_le)
  qed simp
  with l(1) show "((cf, db, n, ac_id (last accts)), cf, db, n, i) \<in> measure (\<lambda>(cf, db, n, i). length (filter (\<lambda>a. i < ac_id a) (accounts db)))"
    by simp
qed simp

declare verify_from.simps [simp del]

definition verifyJournalInBatches :: "config \<Rightarrow> nat \<Rightarrow> ledger \<Rightarrow> findings res" where
  "verifyJournalInBatches cf batchSize db = verify_from cf db batchSize 0"

section \<open>Clean chains\<close>

text \<open>
  The contract of one account's rows: the sequence counts up from the last one seen, every entry
  names the hash before it, and every hash is the HMAC of the row.
\<close>

fun linked :: "config \<Rightarrow> int \<times> string option \<Rightarrow> journal_row list \<Rightarrow> bool" where
  "linked cf s [] \<longleftrightarrow> True"
| "linked cf s ((t, e) # rows) \<longleftrightarrow>
     en_sequence e = fst s + 1 \<and> or_null (en_previous e) = snd s \<and> en_hash e \<noteq> [] \<and>
     computeEntryHash cf (key_version e) (row_payload t e) = Inr (en_hash e) \<and>
     linked cf (en_sequence e, or_null (Some (en_hash e))) rows"

definition chain_end :: "int \<times> string option \<Rightarrow> journal_row list \<Rightarrow> int \<times> string option" where
  "chain_end s rows = (if rows = [] then s else (en_sequence (snd (last rows)), or_null (Some (en_hash (snd (last rows))))))"

definition own :: "int \<Rightarrow> journal_row list \<Rightarrow> journal_row list" where
  "own i rows = filter (\<lambda>r. en_account (snd r) = i) rows"

lemma own_simps [simp]:
  "own i [] = []" "own i ((t, e) # rows) = (if en_account e = i then (t, e) # own i rows else own i rows)"
  by (simp_all add: own_def)

lemma chain_end_simps [simp]:
  "chain_end s [] = s"
  "chain_end s ((t, e) # rows) = chain_end (en_sequence e, or_null (Some (en_hash e))) rows"
  by (simp_all add: chain_end_def)

lemma chain_at_upd [simp]: "chain_at (st(i \<mapsto> x)) j = (if j = i then x else chain_at st j)"
  by (simp add: chain_at_def)

lemma chain_at_empty [simp]: "chain_at Map.empty i = (0, None)"
  by (simp add: chain_at_def)

lemma verify_rows_end:
  "verify_rows cf rows st f = Inr (st', f') \<Longrightarrow> chain_at st' i = chain_end (chain_at st i) (own i rows)"
  by (induction cf rows st f rule: verify_rows.induct) (auto simp: res_bind_Inr_iff)

lemma verify_rows_mono:
  "verify_rows cf rows st f = Inr (st', f') \<Longrightarrow>
   bad_hashes f \<le> bad_hashes f' \<and> bad_chains f \<le> bad_chains f' \<and> bad_heads f' = bad_heads f"
  by (induction cf rows st f rule: verify_rows.induct) (fastforce simp: res_bind_Inr_iff split: if_splits)+

lemma linked_step:
  "(\<forall>i. linked cf (chain_at st i) (own i ((t, e) # rows))) \<longleftrightarrow>
   \<not> breaks_chain st e \<and> en_hash e \<noteq> [] \<and> computeEntryHash cf (key_version e) (row_payload t e) = Inr (en_hash e) \<and>
   (\<forall>i. linked cf (chain_at (st(en_account e \<mapsto> (en_sequence e, or_null (Some (en_hash e))))) i) (own i rows))"
  (is "?L \<longleftrightarrow> ?R")
proof
  assume L: ?L
  have other: "linked cf (chain_at st i) (own i rows)" if "i \<noteq> en_account e" for i
    using L [rule_format, of i] that by simp
  from L [rule_format, of "en_account e"] other show ?R by (auto simp: breaks_chain_def)
next
  assume R: ?R
  then show ?L by (auto simp: breaks_chain_def split: if_splits)
qed

lemma verify_rows_clean:
  "(\<exists>st' f'. verify_rows cf rows st f = Inr (st', f') \<and> bad_hashes f' = bad_hashes f \<and> bad_chains f' = bad_chains f) \<longleftrightarrow>
   (\<forall>i. linked cf (chain_at st i) (own i rows))"
proof (induction rows arbitrary: st f)
  case (Cons r rows)
  obtain t e where r: "r = (t, e)" by (cases r)
  let ?st = "st(en_account e \<mapsto> (en_sequence e, or_null (Some (en_hash e))))"
  show ?case
  proof (cases "computeEntryHash cf (key_version e) (row_payload t e)")
    case (Inl err)
    have "\<not> (\<forall>i. linked cf (chain_at st i) (own i (r # rows)))"
      unfolding r linked_step using Inl by simp
    with Inl r show ?thesis by simp
  next
    case (Inr h)
    let ?f = "\<lparr>bad_hashes = bad_hashes f + (if en_hash e = [] \<or> en_hash e \<noteq> h then 1 else 0),
        bad_chains = bad_chains f + (if breaks_chain st e then 1 else 0), bad_heads = bad_heads f\<rparr>"
    have v: "verify_rows cf (r # rows) st f = verify_rows cf rows ?st ?f" using Inr r by simp
    show ?thesis
    proof (cases "breaks_chain st e \<or> en_hash e = [] \<or> en_hash e \<noteq> h")
      case True
      then have "\<not> (bad_hashes f' = bad_hashes f \<and> bad_chains f' = bad_chains f)"
        if "verify_rows cf rows ?st ?f = Inr (st', f')" for st' f'
        using verify_rows_mono [OF that] by (auto split: if_splits)
      moreover have "\<not> (\<forall>i. linked cf (chain_at st i) (own i (r # rows)))"
        unfolding r linked_step using Inr True by auto
      ultimately show ?thesis unfolding v by blast
    next
      case False
      then have "\<not> breaks_chain st e" "en_hash e \<noteq> []" "en_hash e = h" by auto
      then have "?f = f" by simp
      with v have v': "verify_rows cf (r # rows) st f = verify_rows cf rows ?st f" by (simp only:)
      have "(\<exists>st' f'. verify_rows cf (r # rows) st f = Inr (st', f') \<and> bad_hashes f' = bad_hashes f \<and> bad_chains f' = bad_chains f)
          \<longleftrightarrow> (\<forall>i. linked cf (chain_at ?st i) (own i rows))"
        unfolding v' by (rule Cons.IH)
      also have "\<dots> \<longleftrightarrow> (\<forall>i. linked cf (chain_at st i) (own i (r # rows)))"
        unfolding r linked_step using Inr \<open>\<not> breaks_chain st e\<close> \<open>en_hash e \<noteq> []\<close> \<open>en_hash e = h\<close> by simp
      finally show ?thesis .
    qed
  qed
qed simp

definition head_ok :: "journal_row list \<Rightarrow> account \<Rightarrow> bool" where
  "head_ok rows a \<longleftrightarrow> (ac_version a, or_null (ac_hash a)) = chain_end (0, None) (own (ac_id a) rows)"

lemma verifyEntryHashes_clean:
  "verifyEntryHashes cf rows accts = Inr no_findings \<longleftrightarrow>
   (\<forall>i. linked cf (0, None) (own i rows)) \<and> list_all (head_ok rows) accts"
proof -
  have "verifyEntryHashes cf rows accts = Inr no_findings \<longleftrightarrow>
     (\<exists>st' f'. verify_rows cf rows Map.empty no_findings = Inr (st', f') \<and> bad_hashes f' = bad_hashes no_findings \<and>
        bad_chains f' = bad_chains no_findings) \<and> list_all (head_ok rows) accts"
  proof (cases "verify_rows cf rows Map.empty no_findings")
    case (Inr x)
    obtain st f where x: "x = (st, f)" by (cases x)
    have "head_mismatch st a \<longleftrightarrow> \<not> head_ok rows a" for a
      using verify_rows_end [OF Inr [unfolded x], of "ac_id a"] by (simp add: head_mismatch_def head_ok_def)
    then have "head_mismatch st = (\<lambda>a. \<not> head_ok rows a)" by blast
    with Inr x show ?thesis
      by (cases f) (auto simp: verifyEntryHashes_def no_findings_def list_all_iff filter_empty_conv)
  qed (simp add: verifyEntryHashes_def)
  then show ?thesis using verify_rows_clean [of cf rows Map.empty no_findings] by simp
qed

section \<open>Batches\<close>

text \<open>What a clean report of the job says of one account.\<close>

definition account_clean :: "config \<Rightarrow> ledger \<Rightarrow> account \<Rightarrow> bool" where
  "account_clean cf db a \<longleftrightarrow>
     linked cf (0, None) (journal_rows db [ac_id a]) \<and>
     (ac_version a, or_null (ac_hash a)) = chain_end (0, None) (journal_rows db [ac_id a])"

lemma filter_concat_map: "filter P (concat (map f xs)) = concat (map (\<lambda>x. filter P (f x)) xs)"
  by (induction xs) simp_all

lemma concat_map_filter: "concat (map (\<lambda>x. if Q x then f x else []) xs) = concat (map f (filter Q xs))"
  by (induction xs) simp_all

lemma own_journal_rows:
  "own i (journal_rows db ids) = (if i \<in> set ids then journal_rows db [i] else [])"
proof -
  let ?j = "\<lambda>e. map (\<lambda>t. (t, e)) (filter (\<lambda>t. tx_id t = en_txn e \<and> tx_status t = ''posted'') (txns db))"
  have "own i (journal_rows db ids) = concat (map (\<lambda>e. if en_account e = i then ?j e else [])
      (sort_key en_account (sort_key en_sequence (filter (\<lambda>e. en_account e \<in> set ids) (entries db)))))"
    unfolding own_def journal_rows_def filter_concat_map
    by (intro arg_cong [where f = concat] map_cong refl) (auto simp: filter_map comp_def)
  also have "\<dots> = concat (map ?j (sort_key en_account (sort_key en_sequence
      (filter (\<lambda>e. en_account e = i) (filter (\<lambda>e. en_account e \<in> set ids) (entries db))))))"
    by (simp add: concat_map_filter filter_sort)
  also have "filter (\<lambda>e. en_account e = i) (filter (\<lambda>e. en_account e \<in> set ids) (entries db)) =
      (if i \<in> set ids then filter (\<lambda>e. en_account e \<in> set [i]) (entries db) else [])"
    by (auto intro: filter_cong simp: filter_empty_conv)
  finally show ?thesis by (simp add: journal_rows_def)
qed

lemma verify_batch_clean:
  "verifyEntryHashes cf (journal_rows db (map ac_id accts)) accts = Inr no_findings \<longleftrightarrow>
   list_all (account_clean cf db) accts"
  unfolding verifyEntryHashes_clean own_journal_rows
  by (auto simp: account_clean_def head_ok_def own_journal_rows list_all_iff split: if_splits)

lemma sorted_parts:
  "sorted (map k xs) \<Longrightarrow> xs = ys @ zs \<Longrightarrow> y \<in> set ys \<Longrightarrow> z \<in> set zs \<Longrightarrow> k y \<le> k z"
  by (auto simp: sorted_append)

lemma account_batch_rest:
  assumes "distinct (map ac_id (accounts db))" and "length (account_batch db n i) = n" "0 < n"
    and "a \<in> set (accounts db)" "i < ac_id a"
  shows "a \<in> set (account_batch db n i) \<or> ac_id (last (account_batch db n i)) < ac_id a"
proof -
  let ?S = "sort_key ac_id (filter (\<lambda>a. i < ac_id a) (accounts db))"
  have a: "a \<in> set ?S" using assms(4,5) by simp
  have "distinct (map ac_id ?S)" and srt: "sorted (map ac_id ?S)"
    using assms(1) by (simp_all add: distinct_map inj_on_def)
  have S: "?S = account_batch db n i @ drop n ?S" by (simp add: account_batch_def)
  show ?thesis
  proof (cases "a \<in> set (account_batch db n i)")
    case False
    have "set ?S = set (account_batch db n i) \<union> set (drop n ?S)"
      using arg_cong [OF S, of set] by (simp del: set_sort)
    with a False have "a \<in> set (drop n ?S)" by blast
    moreover have ne: "account_batch db n i \<noteq> []" using assms(2,3) by auto
    ultimately have "ac_id (last (account_batch db n i)) \<le> ac_id a"
      using sorted_parts [OF srt S last_in_set] by blast
    moreover have "ac_id (last (account_batch db n i)) \<noteq> ac_id a"
    proof
      assume e: "ac_id (last (account_batch db n i)) = ac_id a"
      have "last (account_batch db n i) \<in> set (accounts db)"
        using account_batch_after [OF last_in_set [OF ne]] by blast
      with e assms(1,4) have "last (account_batch db n i) = a" by (auto simp: distinct_map inj_on_def)
      with False ne show False by (metis last_in_set)
    qed
    ultimately show ?thesis by simp
  qed simp
qed

lemma add_findings_none [simp]: "add_findings f g = no_findings \<longleftrightarrow> f = no_findings \<and> g = no_findings"
  by (cases f; cases g) (auto simp: add_findings_def no_findings_def)

lemma verify_from_clean:
  assumes "distinct (map ac_id (accounts db))" and "0 < n"
  shows "verify_from cf db n i = Inr no_findings \<longleftrightarrow>
         list_all (account_clean cf db) (filter (\<lambda>a. i < ac_id a) (accounts db))"
  using assms
proof (induction cf db n i rule: verify_from.induct)
  case (1 cf db n i)
  let ?b = "account_batch db n i"
  let ?r = "verifyEntryHashes cf (journal_rows db (map ac_id ?b)) ?b"
  show ?case
  proof (cases "length ?b < n")
    case True
    then have set: "set ?b = set (filter (\<lambda>a. i < ac_id a) (accounts db))"
      by (simp add: account_batch_def)
    have "verify_from cf db n i = Inr no_findings \<longleftrightarrow> ?b = [] \<or> ?r = Inr no_findings"
      using True by (subst verify_from.simps) (auto simp: Let_def res_bind_Inr_iff)
    also have "\<dots> \<longleftrightarrow> list_all (account_clean cf db) ?b" unfolding verify_batch_clean by auto
    also have "\<dots> \<longleftrightarrow> list_all (account_clean cf db) (filter (\<lambda>a. i < ac_id a) (accounts db))"
      unfolding list_all_iff set ..
    finally show ?thesis .
  next
    case False
    then have len: "length ?b = n" by (simp add: account_batch_def)
    with 1(3) have ne: "?b \<noteq> []" by auto
    have IH: "verify_from cf db n (ac_id (last ?b)) = Inr no_findings \<longleftrightarrow>
       list_all (account_clean cf db) (filter (\<lambda>a. ac_id (last ?b) < ac_id a) (accounts db))"
      by (rule 1(1) [OF refl ne False 1(2,3)])
    have "verify_from cf db n i = Inr no_findings \<longleftrightarrow>
        ?r = Inr no_findings \<and> verify_from cf db n (ac_id (last ?b)) = Inr no_findings"
      using ne False by (subst verify_from.simps) (auto simp: Let_def res_bind_Inr_iff)
    also have "\<dots> \<longleftrightarrow> list_all (account_clean cf db) (filter (\<lambda>a. i < ac_id a) (accounts db))"
      unfolding verify_batch_clean IH list_all_iff
      using account_batch_rest [OF 1(2) len 1(3)] account_batch_after [of _ db n i]
        account_batch_after [OF last_in_set [OF ne]] by fastforce
    finally show ?thesis .
  qed
qed

end
