(* ===== verification/Sealing.thy ===== *)
theory Sealing
  imports Integrity SampleLedger
begin

text \<open>
  Postings and account creation keep the ledger in the state the integrity job accepts: every
  entry is linked to the one before it, sealed by its hash, and the account's head is the last one.
\<close>

section \<open>Rows of one account\<close>

definition joined :: "ledger \<Rightarrow> entry \<Rightarrow> journal_row list" where
  "joined db e = map (\<lambda>t. (t, e)) (filter (\<lambda>t. tx_id t = en_txn e \<and> tx_status t = ''posted'') (txns db))"

lemma sort_key_same: "(\<And>x. x \<in> set xs \<Longrightarrow> k x = c) \<Longrightarrow> sort_key k xs = xs"
proof (induction xs)
  case (Cons x xs)
  have "insort_key k x xs = x # xs" using Cons.prems by (cases xs) auto
  with Cons show ?case by simp
qed simp

lemma insort_key_snoc: "k x \<le> k y \<Longrightarrow> insort_key k x (s @ [y]) = insort_key k x s @ [y]"
  by (induction s) auto

lemma sort_key_snoc: "(\<And>x. x \<in> set xs \<Longrightarrow> k x \<le> k y) \<Longrightarrow> sort_key k (xs @ [y]) = sort_key k xs @ [y]"
  by (induction xs) (simp_all add: insort_key_snoc)

lemma concat_map_nonempty: "concat (map f (filter (\<lambda>x. f x \<noteq> []) xs)) = concat (map f xs)"
  by (induction xs) auto

lemma account_rows:
  "journal_rows db [i] = concat (map (joined db) (sort_key en_sequence (filter (\<lambda>e. en_account e = i \<and> joined db e \<noteq> []) (entries db))))"
proof -
  have "journal_rows db [i] = concat (map (joined db) (sort_key en_sequence (filter (\<lambda>e. en_account e = i) (entries db))))"
    unfolding journal_rows_def joined_def by (subst sort_key_same [of _ en_account i]) auto
  also have "\<dots> = concat (map (joined db) (filter (\<lambda>e. joined db e \<noteq> []) (sort_key en_sequence (filter (\<lambda>e. en_account e = i) (entries db)))))"
    by (rule concat_map_nonempty [symmetric])
  finally show ?thesis by (simp add: filter_sort conj_commute)
qed

lemma in_account_rows:
  assumes "e \<in> set (entries db)" "en_account e = i" "joined db e \<noteq> []"
  shows "\<exists>t. (t, e) \<in> set (journal_rows db [i])"
proof -
  from assms(3) obtain t where "(t, e) \<in> set (joined db e)"
    by (auto simp: joined_def filter_empty_conv)
  with assms show ?thesis unfolding account_rows by auto
qed

lemma linked_snoc:
  "linked cf s (rows @ [(t, e)]) \<longleftrightarrow> linked cf s rows \<and> linked cf (chain_end s rows) [(t, e)]"
  by (induction cf s rows rule: linked.induct) (auto simp: chain_end_def)

lemma chain_end_snoc [simp]: "chain_end s (rows @ [(t, e)]) = (en_sequence e, or_null (Some (en_hash e)))"
  by (simp add: chain_end_def)

lemma linked_sequences:
  "linked cf s rows \<Longrightarrow> fst s \<le> fst (chain_end s rows) \<and> (\<forall>(t, e) \<in> set rows. en_sequence e \<le> fst (chain_end s rows))"
  by (induction cf s rows rule: linked.induct) fastforce+

section \<open>The sealed ledger\<close>

text \<open>
  What the hash needs from its environment: a digest is never empty, and neither is the current
  key version (the code checks it against a pattern that requires a character).
\<close>

definition digests_ok :: "config \<Rightarrow> bool" where
  "digests_ok cf \<longleftrightarrow> (\<forall>v s. cf_hmac cf v s \<noteq> Some []) \<and> cf_key_version cf \<noteq> Some []"

definition keyed :: "ledger \<Rightarrow> bool" where
  "keyed db \<longleftrightarrow> account_ids_ok db \<and> list_all (\<lambda>a. 0 < ac_id a) (accounts db) \<and> distinct (map tx_id (txns db)) \<and>
     list_all (\<lambda>e. en_txn e \<in> set (map tx_id (txns db)) \<and> en_account e \<in> set (map ac_id (accounts db))) (entries db)"

definition sealed :: "config \<Rightarrow> ledger \<Rightarrow> bool" where
  "sealed cf db \<longleftrightarrow> digests_ok cf \<and> keyed db \<and> list_all (account_clean cf db) (accounts db)"

lemma or_null_idem [simp]: "or_null (or_null x) = or_null x"
  by (simp add: or_null_def)


lemma leg_payload:
  assumes "tx_currency t = currency" "currency \<noteq> []" "js_upper currency = currency"
  shows "row_payload t (leg_entry version t a sd amount nextBalance metadata h) = entry_payload t a sd amount nextBalance currency metadata"
  using assms
  by (simp add: row_payload_def entry_payload_def leg_entry_def normalizeMetadata_def split: json.split)

lemma upper_letters: "list_all is_upper_letter s \<Longrightarrow> js_upper s = s"
  by (induction s) (auto simp: js_upper_def upper_char_def is_upper_letter_def Let_def)

lemma supported_currency:
  assumes "assertSupportedCreditCurrency cf code = Inr currency"
  shows "letters3 currency" "currency \<noteq> []" "js_upper currency = currency"
proof -
  show l: "letters3 currency"
    using assms by (auto simp: assertSupportedCreditCurrency_def Let_def split: if_splits)
  then show "currency \<noteq> []" "js_upper currency = currency"
    by (auto simp: letters3_def upper_letters)
qed

text \<open>One account's rows when the movement appends its leg, and when it does not touch the account.\<close>

lemma joined_old:
  assumes "txns db' = txns db @ [t]" and "tx_id t \<notin> set (map tx_id (txns db))" and "en_txn e \<in> set (map tx_id (txns db))"
  shows "joined db' e = joined db e"
proof -
  have "tx_id t \<noteq> en_txn e" using assms(2,3) by metis
  then show ?thesis by (simp add: joined_def assms(1))
qed

lemma joined_new:
  assumes "txns db' = txns db @ [t]" and "tx_id t \<notin> set (map tx_id (txns db))" and "en_txn e = tx_id t" "tx_status t = ''posted''"
  shows "joined db' e = [(t, e)]"
proof -
  have "filter (\<lambda>x. tx_id x = tx_id t \<and> tx_status x = ''posted'') (txns db) = []"
    using assms(2) by (auto simp: filter_empty_conv image_iff)
  then show ?thesis using assms by (simp add: joined_def)
qed

lemma account_rows_after:
  assumes t: "txns db' = txns db @ [t]" "tx_id t \<notin> set (map tx_id (txns db))" "tx_status t = ''posted''"
    and es: "entries db' = entries db @ es" "\<And>e. e \<in> set es \<Longrightarrow> en_txn e = tx_id t"
    and old: "\<And>e. e \<in> set (entries db) \<Longrightarrow> en_txn e \<in> set (map tx_id (txns db))"
  shows "filter (\<lambda>e. en_account e = i) es = [] \<Longrightarrow> journal_rows db' [i] = journal_rows db [i]"
    and "filter (\<lambda>e. en_account e = i) es = [e] \<Longrightarrow>
         (\<And>x y. (x, y) \<in> set (journal_rows db [i]) \<Longrightarrow> en_sequence y \<le> en_sequence e) \<Longrightarrow>
         journal_rows db' [i] = journal_rows db [i] @ [(t, e)]"
proof -
  let ?old = "filter (\<lambda>e. en_account e = i \<and> joined db e \<noteq> []) (entries db)"
  have j: "joined db' e = joined db e" if "e \<in> set (entries db)" for e
    by (rule joined_old [OF t(1,2) old [OF that]])
  have n: "joined db' e = [(t, e)]" if "e \<in> set es" for e
    by (rule joined_new [OF t(1,2) es(2) [OF that] t(3)])
  have "filter (\<lambda>e. en_account e = i \<and> joined db' e \<noteq> []) (entries db) = ?old"
    using j by (auto intro: filter_cong)
  moreover have "filter (\<lambda>e. en_account e = i \<and> joined db' e \<noteq> []) es = filter (\<lambda>e. en_account e = i) es"
    using n by (auto intro: filter_cong)
  ultimately have rows: "journal_rows db' [i] = concat (map (joined db') (sort_key en_sequence (?old @ filter (\<lambda>e. en_account e = i) es)))"
    unfolding account_rows es(1) by simp
  have map_old: "concat (map (joined db') (sort_key en_sequence ?old)) = journal_rows db [i]"
    unfolding account_rows using j by (intro arg_cong [where f = concat] map_cong refl) auto
  show "journal_rows db' [i] = journal_rows db [i]" if "filter (\<lambda>e. en_account e = i) es = []"
    using rows map_old that by simp
  show "journal_rows db' [i] = journal_rows db [i] @ [(t, e)]"
    if f: "filter (\<lambda>e. en_account e = i) es = [e]"
      and le: "\<And>x y. (x, y) \<in> set (journal_rows db [i]) \<Longrightarrow> en_sequence y \<le> en_sequence e"
  proof -
    have "en_sequence y \<le> en_sequence e" if "y \<in> set ?old" for y
      using that in_account_rows [of y db i] le by auto
    then have "sort_key en_sequence (?old @ [e]) = sort_key en_sequence ?old @ [e]" by (rule sort_key_snoc)
    moreover have "e \<in> set es" using f by (metis filter_is_subset list.set_intros(1) subsetD)
    ultimately show ?thesis using rows map_old f n by simp
  qed
qed

section \<open>Postings keep the seal\<close>

lemma moved_keyed:
  assumes m: "moved cf inp version t d c amount currency e1 e2 db db'" and k: "keyed db"
    and dc: "d \<in> set (accounts db)" "c \<in> set (accounts db)" "ac_id d \<noteq> ac_id c"
    and t: "tx_id t = next_id (map tx_id (txns db))"
  shows "keyed db'"
proof -
  note fr = moved_frame [OF m] and legs = moved_legs [OF m]
  have acc: "map ac_id (accounts db') = map ac_id (accounts db)"
    unfolding moved_accounts [OF m dc(3)] by simp
  then have "set (map ac_id (accounts db')) = set (map ac_id (accounts db))" by simp
  moreover have "list_all (\<lambda>a. 0 < ac_id a) (accounts db')"
    using k unfolding moved_accounts [OF m dc(3)] by (simp add: keyed_def list_all_iff)
  moreover have "tx_id t \<notin> set (map tx_id (txns db))" unfolding t by (rule next_id_fresh)
  ultimately show ?thesis
    using k dc(1,2) acc by (auto simp: keyed_def account_ids_ok_def fr legs list_all_iff)
qed

text \<open>The account of a leg: its row is appended, linked to the old head, and becomes the new head.\<close>

lemma leg_account_clean:
  assumes clean: "account_clean cf db a"
    and rows: "(\<And>x y. (x, y) \<in> set (journal_rows db [ac_id a]) \<Longrightarrow> en_sequence y \<le> en_sequence e) \<Longrightarrow>
         journal_rows db' [ac_id a'] = journal_rows db [ac_id a] @ [(t, e)]"
    and e: "en_sequence e = ac_version a + 1" "en_previous e = or_null (ac_hash a)" "en_hash e \<noteq> []"
      "computeEntryHash cf (key_version e) (row_payload t e) = Inr (en_hash e)"
    and a': "ac_version a' = ac_version a + 1" "ac_hash a' = Some (en_hash e)"
  shows "account_clean cf db' a'"
proof -
  have l: "linked cf (0, None) (journal_rows db [ac_id a])"
    and h: "chain_end (0, None) (journal_rows db [ac_id a]) = (ac_version a, or_null (ac_hash a))"
    using clean by (simp_all add: account_clean_def)
  have "en_sequence y \<le> en_sequence e" if "(x, y) \<in> set (journal_rows db [ac_id a])" for x y
    using linked_sequences [OF l] that h e(1) by fastforce
  then have r: "journal_rows db' [ac_id a'] = journal_rows db [ac_id a] @ [(t, e)]" by (rule rows)
  show ?thesis
    unfolding account_clean_def r linked_snoc h using l e a' by simp
qed

lemma moved_sealed:
  assumes m: "moved cf inp version t d c amount currency e1 e2 db db'" and s: "sealed cf db"
    and dc: "d \<in> set (accounts db)" "c \<in> set (accounts db)" "ac_id d \<noteq> ac_id c"
    and t: "t = (requested_txn cf inp key amount currency)\<lparr>tx_id := next_id (map tx_id (txns db))\<rparr>"
    and cur: "assertSupportedCreditCurrency cf code = Inr currency"
  shows "sealed cf db'"
proof -
  have dig: "digests_ok cf" and k: "keyed db" and clean: "\<And>a. a \<in> set (accounts db) \<Longrightarrow> account_clean cf db a"
    using s by (auto simp: sealed_def list_all_iff)
  have ids: "account_ids_ok db" using k by (simp add: keyed_def)
  have tid: "tx_id t = next_id (map tx_id (txns db))" "tx_status t = ''posted''" "tx_currency t = currency"
    unfolding t by (simp_all add: requested_txn_def)
  then have fresh: "tx_id t \<notin> set (map tx_id (txns db))" using next_id_fresh by metis
  note fr = moved_frame [OF m] and legs = moved_legs [OF m]
  have old: "en_txn e \<in> set (map tx_id (txns db))" if "e \<in> set (entries db)" for e
    using k that by (simp add: keyed_def list_all_iff)
  note rows = account_rows_after [OF fr(1) fresh tid(2) fr(2) _ old]
  have es: "en_txn e = tx_id t" if "e \<in> set [e1, e2]" for e using that legs(1,5) by auto
  have vn: "version \<noteq> []" and kv: "cf_key_version cf = Some version"
    using m dig by (auto simp: moved_def digests_ok_def)
  have sealed_leg: "en_hash e \<noteq> [] \<and> computeEntryHash cf (key_version e) (row_payload t e) = Inr (en_hash e)"
    if "e = leg_entry version t a sd amount nb (ji_metadata inp) (en_hash e)"
      "computeEntryHash cf version (entry_payload t a sd amount nb currency (ji_metadata inp)) = Inr (en_hash e)" for e a sd nb
  proof -
    have "row_payload t e = entry_payload t a sd amount nb currency (ji_metadata inp)"
      by (subst that(1)) (rule leg_payload [OF tid(3) supported_currency(2,3) [OF cur]])
    moreover have "key_version e = version" using vn by (subst that(1)) (simp add: key_version_def leg_entry_def)
    moreover have "en_hash e \<noteq> []"
      using that(2) dig by (auto simp: computeEntryHash_def digests_ok_def split: option.splits)
    ultimately show ?thesis using that(2) by simp
  qed
  have e1: "en_hash e1 \<noteq> []" "computeEntryHash cf (key_version e1) (row_payload t e1) = Inr (en_hash e1)"
    and e2: "en_hash e2 \<noteq> []" "computeEntryHash cf (key_version e2) (row_payload t e2) = Inr (en_hash e2)"
    using m sealed_leg unfolding moved_def by blast+
  have "account_clean cf db' (after_legs d c amount (en_hash e1) (en_hash e2) a)" if a: "a \<in> set (accounts db)" for a
  proof -
    let ?a = "after_legs d c amount (en_hash e1) (en_hash e2) a"
    consider "ac_id a = ac_id d" | "ac_id a = ac_id c" | "ac_id a \<noteq> ac_id d" "ac_id a \<noteq> ac_id c" by blast
    then show ?thesis
    proof cases
      case 1
      then have ad: "a = d" using same_id_same_account [OF ids a dc(1)] by simp
      have f: "filter (\<lambda>e. en_account e = ac_id a) [e1, e2] = [e1]" using 1 legs(2,6) dc(3) by simp
      have r: "journal_rows db' [ac_id ?a] = journal_rows db [ac_id a] @ [(t, e1)]"
        if "\<And>x y. (x, y) \<in> set (journal_rows db [ac_id a]) \<Longrightarrow> en_sequence y \<le> en_sequence e1"
        using rows(2) [OF es _ f that] by simp
      show ?thesis
        by (rule leg_account_clean [OF clean [OF a] r]) (use ad 1 dc(3) legs e1 in \<open>auto simp: after_legs_def\<close>)
    next
      case 2
      then have ac: "a = c" using same_id_same_account [OF ids a dc(2)] by simp
      have f: "filter (\<lambda>e. en_account e = ac_id a) [e1, e2] = [e2]" using 2 legs(2,6) dc(3) by simp
      have r: "journal_rows db' [ac_id ?a] = journal_rows db [ac_id a] @ [(t, e2)]"
        if "\<And>x y. (x, y) \<in> set (journal_rows db [ac_id a]) \<Longrightarrow> en_sequence y \<le> en_sequence e2"
        using rows(2) [OF es _ f that] by simp
      show ?thesis
        by (rule leg_account_clean [OF clean [OF a] r]) (use ac 2 dc(3) legs e2 in \<open>auto simp: after_legs_def\<close>)
    next
      case 3
      then have "filter (\<lambda>e. en_account e = ac_id a) [e1, e2] = []" using legs(2,6) by simp
      from rows(1) [OF es _ this] 3 clean [OF a] show ?thesis by (simp add: account_clean_def after_legs_def)
    qed
  qed
  then have "list_all (account_clean cf db') (accounts db')"
    unfolding moved_accounts [OF m dc(3)] by (simp add: list_all_iff)
  then show ?thesis using dig moved_keyed [OF m k dc tid(1)] by (simp add: sealed_def)
qed

lemma post_sealed:
  assumes "postJournalTransaction cf inp db = (Inr p, db')" and "sealed cf db"
  shows "sealed cf db'"
proof (cases "po_replayed p")
  case True
  show ?thesis
    using assms(1)
  proof (cases rule: postJournalTransaction_Inr)
    case replayed
    with assms(2) show ?thesis by (simp add: replayTransaction_Inr)
  next
    case moved
    with True show ?thesis by simp
  qed
next
  case False
  obtain amount currency key version d c t e1 e2 where f:
    "d \<in> set (accounts db)" "c \<in> set (accounts db)" "ac_id d \<noteq> ac_id c"
    "assertSupportedCreditCurrency cf (Some (ji_currency inp)) = Inr currency"
    "t = (requested_txn cf inp key amount currency)\<lparr>tx_id := next_id (map tx_id (txns db))\<rparr>"
    "moved cf inp version t d c amount currency e1 e2 db db'"
    using assms(1) False by (rule fresh_posting_cases)
  show ?thesis by (rule moved_sealed [OF f(6) assms(2) f(1,2,3,5,4)])
qed

lemma account_clean_frame:
  "entries db' = entries db \<Longrightarrow> txns db' = txns db \<Longrightarrow> account_clean cf db' a = account_clean cf db a"
  by (simp add: account_clean_def journal_rows_def)

lemma ensure_sealed:
  assumes "ensureAccount cf' w code anyOwner db = (Inr a, db')" and s: "sealed cf db"
  shows "sealed cf db'"
proof -
  obtain currency where "db' = db \<or> db' = db\<lparr>accounts := accounts db @ [new_account db w currency]\<rparr>"
    using assms(1) by (rule ensureAccount_Inr) auto
  then show ?thesis
  proof
    assume db': "db' = db\<lparr>accounts := accounts db @ [new_account db w currency]\<rparr>"
    have fresh: "next_id (map ac_id (accounts db)) \<notin> set (map ac_id (accounts db))" by (rule next_id_fresh)
    have clean: "account_clean cf db' = account_clean cf db"
      unfolding db' by (intro ext account_clean_frame) simp_all
    have k: "keyed db" using s by (simp add: sealed_def)
    have "en_account e \<noteq> next_id (map ac_id (accounts db))" if "e \<in> set (entries db)" for e
    proof -
      have "en_account e \<in> set (map ac_id (accounts db))" using k that by (simp add: keyed_def list_all_iff)
      with fresh show ?thesis by metis
    qed
    then have "journal_rows db [next_id (map ac_id (accounts db))] = []"
      unfolding account_rows by (simp add: filter_empty_conv)
    then have "account_clean cf db (new_account db w currency)"
      by (simp add: account_clean_def or_null_def)
    moreover have "0 < next_id (map ac_id (accounts db))"
    proof -
      have "0 \<le> foldr max xs 0" for xs :: "int list" by (induction xs) auto
      then show ?thesis by (simp add: next_id_def add_nonneg_pos)
    qed
    moreover have "keyed db'"
      using k fresh \<open>0 < next_id (map ac_id (accounts db))\<close>
      unfolding db' by (auto simp: keyed_def account_ids_ok_def list_all_iff)
    ultimately show ?thesis using s clean by (simp add: sealed_def db')
  qed (use s in simp)
qed

interpretation seal: posting_contract sealed
proof
  show "commits (sealed cf) (postJournalTransaction cf inp)" for cf inp
    by (rule commitsI) (rule post_sealed)
  show "commits (sealed cf) (ensureAccount cf w code anyOwner)" for cf w code anyOwner
    by (rule commitsI) (rule ensure_sealed)
  show "sealed cf (db\<lparr>audits := audits db @ [x]\<rparr>)" if "sealed cf db" for cf db x
    using that account_clean_frame [of "db\<lparr>audits := audits db @ [x]\<rparr>" db cf]
    by (simp add: sealed_def keyed_def account_ids_ok_def list_all_iff)
  show "sealed cf (db\<lparr>screenings := scs, cases := cs, guest_days := gs\<rparr>)" if "sealed cf db" for cf db scs cs gs
    using that account_clean_frame [of "db\<lparr>screenings := scs, cases := cs, guest_days := gs\<rparr>" db cf]
    by (simp add: sealed_def keyed_def account_ids_ok_def list_all_iff)
qed

section \<open>The report of the job\<close>

text \<open>C31: the nightly job misses nothing by checking in batches: on any ledger whose account ids are
  distinct and positive, however damaged its rows, the batched run reports no finding exactly when
  one pass over all accounts and all rows would, and exactly when the rows of every account count
  up from one, name the hash before them, carry the HMAC of their content and end in the account's
  head. This also says that the batch loop ends.\<close>

theorem batches_miss_nothing:
  assumes "distinct (map ac_id (accounts db))" and "list_all (\<lambda>a. 0 < ac_id a) (accounts db)" and "0 < n"
  shows "(verifyJournalInBatches cf n db = Inr no_findings \<longleftrightarrow>
      verifyEntryHashes cf (journal_rows db (map ac_id (accounts db))) (accounts db) = Inr no_findings) \<and>
    (verifyJournalInBatches cf n db = Inr no_findings \<longleftrightarrow>
      list_all (\<lambda>a. linked cf (0, None) (journal_rows db [ac_id a]) \<and>
        (ac_version a, or_null (ac_hash a)) = chain_end (0, None) (journal_rows db [ac_id a])) (accounts db))"
proof -
  have "filter (\<lambda>a. 0 < ac_id a) (accounts db) = accounts db"
    using assms(2) by (simp add: list_all_iff filter_id_conv)
  then have "verifyJournalInBatches cf n db = Inr no_findings \<longleftrightarrow> list_all (account_clean cf db) (accounts db)"
    using verify_from_clean [OF assms(1,3), of cf 0] by (simp add: verifyJournalInBatches_def)
  then show ?thesis unfolding verify_batch_clean account_clean_def [abs_def] by simp
qed

theorem batches_miss_nothing_witness:
  "verifyJournalInBatches sample_config 10 sample_ledger = Inr no_findings \<longleftrightarrow>
   verifyEntryHashes sample_config (journal_rows sample_ledger [1, 2]) (accounts sample_ledger) = Inr no_findings"
proof -
  have "distinct (map ac_id (accounts sample_ledger))" "list_all (\<lambda>a. 0 < ac_id a) (accounts sample_ledger)"
    "map ac_id (accounts sample_ledger) = [1, 2]" by code_simp+
  then show ?thesis using batches_miss_nothing [of sample_ledger 10 sample_config] by simp
qed

lemma sealed_report:
  assumes "sealed cf db" "0 < n"
  shows "verifyJournalInBatches cf n db = Inr no_findings"
proof -
  have "filter (\<lambda>a. 0 < ac_id a) (accounts db) = accounts db"
    using assms(1) by (auto simp: sealed_def keyed_def list_all_iff filter_id_conv)
  moreover have "distinct (map ac_id (accounts db))"
    using assms(1) by (simp add: sealed_def keyed_def account_ids_ok_def)
  ultimately show ?thesis
    using assms verify_from_clean [of db n cf 0] by (simp add: verifyJournalInBatches_def sealed_def)
qed

text \<open>What the journal writes, the integrity job accepts: from a ledger whose report is clean, whose
  ids are keys and whose entries refer to existing rows, every posting that returns leaves a
  ledger whose report is clean again, provided digests and the key version are not empty.\<close>

theorem posting_keeps_report_clean:
  assumes "postJournalTransaction cf inp db = (Inr p, db')"
    and "verifyJournalInBatches cf n db = Inr no_findings" and "keyed db" and "digests_ok cf" and "0 < n"
  shows "verifyJournalInBatches cf n db' = Inr no_findings"
proof -
  have "filter (\<lambda>a. 0 < ac_id a) (accounts db) = accounts db" "distinct (map ac_id (accounts db))"
    using assms(3) by (auto simp: keyed_def list_all_iff filter_id_conv account_ids_ok_def)
  then have "sealed cf db"
    using assms(2-5) verify_from_clean [of db n cf 0] by (simp add: verifyJournalInBatches_def sealed_def)
  then have "sealed cf db'" by (rule commitsD [OF seal.post _ assms(1)])
  with assms(5) show ?thesis by (intro sealed_report)
qed

theorem posting_keeps_report_clean_witness:
  "\<exists>p db'. postJournalTransaction sample_config sample_load sample_ledger = (Inr p, db') \<and> entries db' \<noteq> [] \<and>
     verifyJournalInBatches sample_config 10 db' = Inr no_findings"
proof -
  obtain p db' where r: "postJournalTransaction sample_config sample_load sample_ledger = (Inr p, db')" "\<not> po_replayed p"
    by (rule fresh_postingE [OF sample_load_posts])
  have k: "keyed sample_ledger" by code_simp
  have d: "digests_ok sample_config" by (simp add: digests_ok_def sample_config_def)
  have j: "journal_rows sample_ledger [1] = []" "journal_rows sample_ledger [2] = []" by code_simp+
  have "sealed sample_config sample_ledger"
    using k d j by (simp add: sealed_def account_clean_def sample_ledger_def sample_account_def or_null_def)
  then have v: "verifyJournalInBatches sample_config 10 sample_ledger = Inr no_findings" by (rule sealed_report) simp
  have "length (entries (snd (postJournalTransaction sample_config sample_load sample_ledger))) = 2" by code_simp
  with posting_keeps_report_clean [OF r(1) v k d] r(1) show ?thesis by auto
qed

end
