(* ===== verification/CreditOperations.thy ===== *)
theory CreditOperations
  imports SpendRules Bookkeeping Sealing
begin

text \<open>
  The customer operations of \<open>services/oxsteedCreditService.js\<close> on top of the journal: loading, spending,
  transferring, adjusting and refunding credit, and the status of a wallet. Each is the handler the
  code runs on one database client; the exported functions wrap it in \<open>withTransaction\<close>.

  A currency argument is \<open>None\<close> for \<open>null\<close>, \<open>Some None\<close> for anything else that is not a text.
\<close>

section \<open>Shared\<close>

type_synonym currency_arg = "string option option"

definition code_of :: "currency_arg \<Rightarrow> string option" where
  "code_of c = (case c of None \<Rightarrow> None | Some x \<Rightarrow> x)"

definition falsy :: "string option \<Rightarrow> bool" where
  "falsy x \<longleftrightarrow> x = None \<or> x = Some []"

text \<open>The properties a call leaves out.\<close>

definition journal_defaults :: journal_input where
  "journal_defaults =
     \<lparr>ji_type = [], ji_debit = 0, ji_credit = 0, ji_amount = JNaN, ji_currency = [], ji_partner = None, ji_agreement = None,
      ji_key = None, ji_correlation = None, ji_refType = None, ji_refId = None, ji_description = None, ji_reason = None,
      ji_actorType = None, ji_actorUser = None, ji_customer = None, ji_requestIp = None, ji_metadata = ObjJ [],
      ji_allowSuspended = False, ji_existing = None\<rparr>"

definition require_key :: "string option \<Rightarrow> string credit" where
  "require_key k = (case normalizeString k 160 of
     None \<Rightarrow> fail (AppError 400 ''credit_idempotency_key_required'') | Some key \<Rightarrow> ret key)"

section \<open>Loading\<close>

record load_request =
  ld_customer :: string
  ld_amount :: jsnum
  ld_currency :: currency_arg
  ld_key :: "string option"
  ld_actor :: "string option"
  ld_reason :: "string option"
  ld_refType :: "string option"
  ld_refId :: "string option"
  ld_correlation :: "string option"
  ld_ip :: "string option"
  ld_metadata :: json

definition load_input :: "load_request \<Rightarrow> int \<Rightarrow> string \<Rightarrow> string \<Rightarrow> int \<Rightarrow> int \<Rightarrow> journal_input" where
  "load_input rq amount currency reason debit credit = journal_defaults
     \<lparr>ji_type := ''load'', ji_debit := debit, ji_credit := credit, ji_customer := Some (ld_customer rq), ji_amount := JInt amount,
      ji_currency := currency, ji_key := ld_key rq, ji_actorType := Some ''admin'', ji_actorUser := ld_actor rq,
      ji_reason := Some reason, ji_description := Some reason, ji_refType := ld_refType rq, ji_refId := ld_refId rq,
      ji_correlation := ld_correlation rq, ji_requestIp := ld_ip rq, ji_metadata := ld_metadata rq\<rparr>"

definition findLoad :: "string \<Rightarrow> ledger \<Rightarrow> txn option" where
  "findLoad key db = find (\<lambda>t. tx_key t = key \<and> account_row db (tx_credit t) \<noteq> None) (txns db)"

definition loadCustomerCreditInTransaction :: "config \<Rightarrow> load_request \<Rightarrow> int \<Rightarrow> string \<Rightarrow> string \<Rightarrow> string \<Rightarrow> posting credit" where
  "loadCustomerCreditInTransaction cf rq amount currency key reason =
     bind (gets (\<lambda>db. (db, findLoad key db))) (\<lambda>(db, found).
     case found of
       Some existing \<Rightarrow>
         if \<not> credit_of db existing (\<lambda>a. string_of (ac_customer a) = ld_customer rq)
         then fail (AppError 409 ''credit_idempotency_conflict'')
         else postJournalTransaction cf ((load_input rq amount currency reason (tx_debit existing) (tx_credit existing))
                \<lparr>ji_key := Some key, ji_existing := Some existing\<rparr>)
     | None \<Rightarrow>
         bind (lift_res (requireAdministrativeActor (ld_actor rq) ''credit_load_actor_required'')) (\<lambda>_.
         bind (assertCreditRailEnabled False) (\<lambda>_.
         bind (ensureAccount cf (customer_wallet (ld_customer rq)) (Some currency) False) (\<lambda>customerAccount.
         bind (ensureAccount cf (platform_account Platform_treasury) (Some currency) False) (\<lambda>treasuryAccount.
         bind (gets (assertIssuanceCapacity cf amount (Some currency) (ld_customer rq))) (\<lambda>capacity.
         bind (lift_res capacity) (\<lambda>_.
         postJournalTransaction cf ((load_input rq amount currency reason (ac_id treasuryAccount) (ac_id customerAccount))
           \<lparr>ji_allowSuspended := True\<rparr>))))))))"

definition loadCustomerCredit :: "config \<Rightarrow> load_request \<Rightarrow> posting credit" where
  "loadCustomerCredit cf rq =
     bind (lift_res (parseAmountCents cf (ld_amount rq) (ld_currency rq))) (\<lambda>amount.
     bind (lift_res (assertSupportedCreditCurrency cf (code_of (ld_currency rq)))) (\<lambda>currency.
     bind (require_key (ld_key rq)) (\<lambda>key.
     case normalizeString (ld_reason rq) 500 of
       None \<Rightarrow> fail (AppError 400 ''credit_load_reason_required'')
     | Some reason \<Rightarrow> withTransaction (loadCustomerCreditInTransaction cf rq amount currency key reason))))"

section \<open>Spending\<close>

text \<open>\<open>[...new Set(values)]\<close> keeps the first of equal values.\<close>

definition dedupe :: "string list \<Rightarrow> string list" where
  "dedupe xs = rev (remdups (rev xs))"

definition requestedCategoriesForMetadata :: "string option \<Rightarrow> string list \<Rightarrow> string list" where
  "requestedCategoriesForMetadata category categories =
     dedupe (List.map_filter (\<lambda>s. lower_text (Some s) 120) (requested_texts category categories))"

definition requestedMenuItemsForMetadata :: "string option \<Rightarrow> string list \<Rightarrow> string list" where
  "requestedMenuItemsForMetadata menuItemId menuItemIds = dedupe (requested_texts menuItemId menuItemIds)"

record purchase_request =
  pu_spend :: spend_request
  pu_amount :: jsnum
  pu_currency :: currency_arg
  pu_key :: "string option"
  pu_actor :: "string option"
  pu_actorType :: "string option"
  pu_refType :: "string option"
  pu_refId :: "string option"
  pu_correlation :: "string option"
  pu_ip :: "string option"
  pu_description :: "string option"
  pu_metadata :: json

definition purchase_actor_type :: "purchase_request \<Rightarrow> string" where
  "purchase_actor_type rq = (case normalizeString (pu_actorType rq) 32 of Some t \<Rightarrow> t
     | None \<Rightarrow> if falsy (pu_actor rq) then ''system'' else ''user'')"

definition purchase_input :: "purchase_request \<Rightarrow> int \<Rightarrow> string \<Rightarrow> string \<Rightarrow> int \<Rightarrow> int \<Rightarrow> string option \<Rightarrow> journal_input" where
  "purchase_input rq amount currency key debit credit agreement = journal_defaults
     \<lparr>ji_type := ''purchase'', ji_debit := debit, ji_credit := credit, ji_partner := Some (sr_partner (pu_spend rq)),
      ji_agreement := agreement, ji_customer := Some (sr_customer (pu_spend rq)), ji_amount := JInt amount, ji_currency := currency,
      ji_key := Some key, ji_actorType := Some (purchase_actor_type rq), ji_actorUser := pu_actor rq, ji_refType := pu_refType rq,
      ji_refId := pu_refId rq, ji_correlation := pu_correlation rq, ji_requestIp := pu_ip rq, ji_description := pu_description rq,
      ji_metadata := pu_metadata rq\<rparr>"

definition purchase_metadata :: "purchase_request \<Rightarrow> json" where
  "purchase_metadata rq =
     (let s = pu_spend rq in
      spread (normalizeMetadata (pu_metadata rq))
        (ObjJ [(''orderType'', optText (normalizeString (sr_orderType s) 40)),
               (''categories'', ListJ (map TextJ (requestedCategoriesForMetadata (sr_category s) (sr_categories s)))),
               (''menuItemIds'', ListJ (map TextJ (requestedMenuItemsForMetadata (sr_menuItem s) (sr_menuItems s))))]))"

definition replayPurchase :: "config \<Rightarrow> purchase_request \<Rightarrow> int \<Rightarrow> string \<Rightarrow> txn \<Rightarrow> posting credit" where
  "replayPurchase cf rq amount key existing =
     bind (lift_res (assertSupportedCreditCurrency cf (Some (tx_currency existing)))) (\<lambda>settlementCurrency.
     bind (if pu_currency rq = None then ret settlementCurrency
           else lift_res (assertSupportedCreditCurrency cf (code_of (pu_currency rq)))) (\<lambda>requestedCurrency.
     if requestedCurrency \<noteq> settlementCurrency then fail (AppError 409 ''credit_currency_mismatch'')
     else if sr_agreement (pu_spend rq) \<noteq> None \<and> string_of (sr_agreement (pu_spend rq)) \<noteq> string_of (tx_agreement existing)
     then fail (AppError 409 ''credit_idempotency_conflict'')
     else if normalizeString (pu_refType rq) 80 \<noteq> None \<and> \<not> falsy (tx_refType existing) \<and>
             normalizeString (pu_refType rq) 80 \<noteq> tx_refType existing
     then fail (AppError 409 ''credit_idempotency_conflict'')
     else if pu_refId rq \<noteq> None \<and> string_of (pu_refId rq) \<noteq> string_of (tx_refId existing)
     then fail (AppError 409 ''credit_idempotency_conflict'')
     else postJournalTransaction cf
       ((purchase_input rq amount settlementCurrency key (tx_debit existing) (tx_credit existing) (tx_agreement existing))
         \<lparr>ji_refType := text_or (tx_refType existing) (pu_refType rq), ji_refId := text_or (tx_refId existing) (pu_refId rq),
          ji_existing := Some existing\<rparr>)))"

definition purchaseWithCreditInTransaction :: "config \<Rightarrow> purchase_request \<Rightarrow> posting credit" where
  "purchaseWithCreditInTransaction cf rq =
     (let sp = pu_spend rq in
      bind (lift_res (parseAmountCents cf (pu_amount rq) (pu_currency rq))) (\<lambda>amount.
      bind (lift_res (if purchase_actor_type rq \<in> {''user'', ''customer''}
        then requireCustomerActor (pu_actor rq) (sr_customer sp) ''credit_purchase_actor_required'' else Inr ())) (\<lambda>_.
      bind (require_key (pu_key rq)) (\<lambda>key.
      bind (gets (findExistingPurchaseForReplay sp key)) (\<lambda>found.
      bind (lift_res found) (\<lambda>existing.
      case existing of
        Some t \<Rightarrow> replayPurchase cf rq amount key t
      | None \<Rightarrow>
          bind (assertCreditRailEnabled False) (\<lambda>_.
          bind (gets (findSpendAgreement cf sp amount)) (\<lambda>agreed.
          bind (lift_res agreed) (\<lambda>agreement.
          bind (lift_res (assertSupportedCreditCurrency cf (Some (pa_currency (sw_partner agreement))))) (\<lambda>settlementCurrency.
          bind (if pu_currency rq = None then ret settlementCurrency
                else lift_res (assertSupportedCreditCurrency cf (code_of (pu_currency rq)))) (\<lambda>requestedCurrency.
          if requestedCurrency \<noteq> settlementCurrency then fail (AppError 409 ''credit_currency_mismatch'')
          else
            bind (gets (assertCustomerSpendCapacity cf (sr_customer sp) amount (Some settlementCurrency) (sr_excludeHold sp))) (\<lambda>capacity.
            bind (lift_res capacity) (\<lambda>_.
            bind (ensureAccount cf (customer_wallet (sr_customer sp)) (Some settlementCurrency) False) (\<lambda>customerAccount.
            bind (ensureAccount cf (partner_payable (sr_partner sp)) (Some settlementCurrency) False) (\<lambda>partnerAccount.
            postJournalTransaction cf
              ((purchase_input rq amount settlementCurrency key (ac_id customerAccount) (ac_id partnerAccount)
                  (Some (ag_id (sw_agreement agreement))))
                \<lparr>ji_metadata := purchase_metadata rq\<rparr>))))))))))))))))"

definition purchaseWithCredit :: "config \<Rightarrow> purchase_request \<Rightarrow> posting credit" where
  "purchaseWithCredit cf rq = withTransaction (purchaseWithCreditInTransaction cf rq)"

end
