(* ===== verification/Sanctions.thy ===== *)
theory Sanctions
  imports SampleLedger
begin

text \<open>
  The sanctions checkpoint of money movements (\<open>services/sanctionsScreeningService.js\<close>) and the
  compliance cases it opens (\<open>services/complianceCaseService.js\<close>): screenings with their time to live,
  the provider chosen by the environment, the gate, and the administrator's decision. What the
  in-house lists answer is the parameter \<open>cf_lists\<close>; incidents and user notifications are sent
  outside the database and are left out.
\<close>

section \<open>Screening a subject\<close>

definition screening_normalizeString :: "string option \<Rightarrow> nat \<Rightarrow> string" where
  "screening_normalizeString value mx = (case value of None \<Rightarrow> [] | Some s \<Rightarrow> js_slice mx (js_trim s))"

text \<open>\<open>Math.max(1, Number.parseInt(env || fallback, 10) || fallback)\<close>.\<close>

definition env_hours :: "config \<Rightarrow> string \<Rightarrow> nat \<Rightarrow> int" where
  "env_hours cf name fallback =
     (let raw = (case or_null (le_env (cf_limit_env cf) name) of None \<Rightarrow> show_nat fallback | Some s \<Rightarrow> s) in
      max 1 (case parse_int raw of JFin q \<Rightarrow> if q = 0 then int fallback else \<lfloor>q\<rfloor> | _ \<Rightarrow> int fallback))"

definition SCREENING_TTL_HOURS :: "config \<Rightarrow> int" where
  "SCREENING_TTL_HOURS cf = env_hours cf ''OXSTEED_CREDIT_SANCTIONS_SCREENING_TTL_HOURS'' 24"

definition CASE_SLA_HOURS :: "config \<Rightarrow> int" where
  "CASE_SLA_HOURS cf = env_hours cf ''OXSTEED_CREDIT_COMPLIANCE_CASE_SLA_HOURS'' 72"

definition SANCTIONS_PROVIDER_NAME :: "config \<Rightarrow> string" where
  "SANCTIONS_PROVIDER_NAME cf =
     (case or_null (le_env (cf_limit_env cf) ''OXSTEED_CREDIT_SANCTIONS_PROVIDER'') of
        None \<Rightarrow> ''manual_review'' | Some s \<Rightarrow> s)"

text \<open>A provider answers a result and a hit context, or throws.\<close>

type_synonym provider = "string \<Rightarrow> string \<Rightarrow> (string \<times> string option) res"

definition manualReviewProvider :: provider where
  "manualReviewProvider subjectType subjectId = Inr (''hit'', Some ''manual_review_required'')"

definition getScreeningProvider :: "config \<Rightarrow> provider res" where
  "getScreeningProvider cf =
     (if SANCTIONS_PROVIDER_NAME cf = ''manual_review'' then Inr manualReviewProvider
      else if SANCTIONS_PROVIDER_NAME cf = ''in_house_lists'' then Inr (cf_lists cf)
      else Inl (AppError 500 ''credit_sanctions_provider_unknown''))"

definition isConfirmedBlock :: "screening \<Rightarrow> bool" where
  "isConfirmedBlock s \<longleftrightarrow> sc_confirmed s \<noteq> None \<and> sc_cleared s = None"

definition isScreeningFresh :: "config \<Rightarrow> screening option \<Rightarrow> bool" where
  "isScreeningFresh cf screening =
     (case screening of
        None \<Rightarrow> False
      | Some s \<Rightarrow> isConfirmedBlock s \<or> cf_now cf - sc_at s < SCREENING_TTL_HOURS cf * 60 * 60 * 1000)"

text \<open>\<open>ORDER BY (confirmed and not cleared) DESC, screened_at DESC LIMIT 1\<close>; among equals the last row.\<close>

definition ranks_over :: "screening \<Rightarrow> screening \<Rightarrow> bool" where
  "ranks_over s r \<longleftrightarrow>
     isConfirmedBlock s \<and> \<not> isConfirmedBlock r \<or> isConfirmedBlock s = isConfirmedBlock r \<and> sc_at r \<le> sc_at s"

fun top_screening :: "screening list \<Rightarrow> screening option" where
  "top_screening [] = None"
| "top_screening (r # rs) = (case top_screening rs of None \<Rightarrow> Some r | Some s \<Rightarrow> if ranks_over s r then Some s else Some r)"

definition getLatestScreening :: "string \<Rightarrow> string \<Rightarrow> ledger \<Rightarrow> screening option" where
  "getLatestScreening subjectType subjectId db =
     top_screening (filter (\<lambda>s. sc_subject_type s = subjectType \<and> sc_subject s = subjectId) (screenings db))"

text \<open>What the provider said, with an exception counted as an error.\<close>

definition screening_outcome :: "provider \<Rightarrow> string \<Rightarrow> string \<Rightarrow> string \<times> string option" where
  "screening_outcome provider subjectType subjectId =
     (case provider subjectType subjectId of
        Inl e \<Rightarrow> (''error'', Some (case e of AppError _ c \<Rightarrow> c | JsError m \<Rightarrow> m | PgError m \<Rightarrow> m))
      | Inr (r, ctx) \<Rightarrow> (if r = ''clear'' \<or> r = ''hit'' then r else ''error'', ctx))"

definition screenSubjectIfStale :: "config \<Rightarrow> string \<Rightarrow> string \<Rightarrow> bool \<Rightarrow> screening credit" where
  "screenSubjectIfStale cf subjectType subjectId force =
     bind (gets (getLatestScreening subjectType subjectId)) (\<lambda>existing.
     case (case existing of Some s \<Rightarrow> if isConfirmedBlock s \<or> \<not> force \<and> isScreeningFresh cf existing then Some s else None
                          | None \<Rightarrow> None) of
       Some s \<Rightarrow> ret s
     | None \<Rightarrow>
         bind (lift_res (getScreeningProvider cf)) (\<lambda>provider.
         bind (gets (\<lambda>db. next_id (map sc_id (screenings db)))) (\<lambda>i.
         let (result, ctx) = screening_outcome provider subjectType subjectId;
             row = \<lparr>sc_id = i, sc_subject_type = subjectType, sc_subject = subjectId,
                    sc_provider = SANCTIONS_PROVIDER_NAME cf, sc_result = result,
                    sc_context = or_null (Some (screening_normalizeString ctx 1000)), sc_at = cf_db_now cf,
                    sc_cleared = None, sc_clear_reason = None, sc_confirmed = None\<rparr> in
         bind (modify (\<lambda>db. db\<lparr>screenings := screenings db @ [row]\<rparr>)) (\<lambda>_. ret row))))"

section \<open>The gate\<close>

definition assertSanctionsClear :: "config \<Rightarrow> string \<Rightarrow> string \<Rightarrow> bool credit" where
  "assertSanctionsClear cf subjectType subjectId =
     bind (screenSubjectIfStale cf subjectType subjectId False) (\<lambda>screening.
     if sc_result screening = ''clear'' then ret False
     else if sc_result screening = ''hit'' \<and> sc_cleared screening \<noteq> None then ret True
     else if sc_result screening = ''error'' then fail (AppError 503 ''credit_sanctions_screening_unavailable'')
     else fail (AppError 403 ''credit_sanctions_match''))"

section \<open>The decision on a hit\<close>

definition CASE_TYPES :: "string list" where
  "CASE_TYPES = [''structuring'', ''velocity_spike'', ''rapid_fund_out'', ''new_destination_payout'', ''sanctions_hit'', ''manual'']"

definition openComplianceCase ::
  "config \<Rightarrow> string \<Rightarrow> string \<Rightarrow> string \<Rightarrow> string \<Rightarrow> int \<Rightarrow> string option \<Rightarrow> (compliance_case \<times> bool) credit" where
  "openComplianceCase cf caseType subjectType subjectId severity slaHours dedupeKey =
     (if caseType \<notin> set CASE_TYPES then fail (AppError 400 ''credit_case_type_invalid'')
      else if subjectType \<notin> {''customer'', ''partner'', ''platform''} then fail (AppError 400 ''credit_case_subject_invalid'')
      else if subjectId = [] then fail (AppError 400 ''credit_case_subject_required'')
      else let key = screening_normalizeString dedupeKey 200 in
        if key = [] then fail (AppError 400 ''credit_case_dedupe_required'')
        else (\<lambda>db. case find (\<lambda>c. cc_key c = key) (cases db) of
                 Some c \<Rightarrow> (Inr (c, True), db)
               | None \<Rightarrow>
                   let row = \<lparr>cc_id = next_id (map cc_id (cases db)), cc_type = caseType, cc_subject_type = subjectType,
                              cc_subject = subjectId, cc_severity = severity, cc_status = ''open'', cc_key = key,
                              cc_sla_due = cf_now cf + max 1 slaHours * 60 * 60 * 1000\<rparr> in
                   (Inr (row, False), db\<lparr>cases := cases db @ [row]\<rparr>)))"

definition screening_audit :: "string \<Rightarrow> string \<Rightarrow> screening \<Rightarrow> string \<Rightarrow> string option \<Rightarrow> json \<Rightarrow> json \<Rightarrow> audit" where
  "screening_audit action actor s reason ip before after =
     \<lparr>au_action = action, au_actor = or_null (Some actor), au_customer = None, au_partner = None,
      au_resource_type = ''credit_sanctions_screening'', au_resource_id = sc_id s, au_reason = Some (js_slice 1000 reason),
      au_correlation = None, au_request_ip = or_null ip, au_before = before, au_after = after,
      au_metadata = ObjJ [(''subjectType'', TextJ (sc_subject_type s)), (''subjectId'', TextJ (sc_subject s))]\<rparr>"

definition decideSanctionsScreening ::
  "config \<Rightarrow> int option \<Rightarrow> string \<Rightarrow> string \<Rightarrow> string option \<Rightarrow> string option \<Rightarrow> (screening \<times> compliance_case option) credit" where
  "decideSanctionsScreening cf screeningId decision actorUserId reason requestIp =
     (case screeningId of
        None \<Rightarrow> fail (AppError 400 ''credit_sanctions_screening_required'')
      | Some i \<Rightarrow>
          if decision \<noteq> ''clear'' \<and> decision \<noteq> ''confirm'' then fail (AppError 400 ''credit_sanctions_decision_invalid'')
          else let why = screening_normalizeString reason 1000 in
          if why = [] then fail (AppError 400 ''credit_sanctions_reason_required'')
          else withTransaction (
            bind (gets (\<lambda>db. find (\<lambda>s. sc_id s = i) (screenings db))) (\<lambda>row.
            case row of
              None \<Rightarrow> fail (AppError 404 ''credit_sanctions_not_found'')
            | Some s \<Rightarrow>
                if sc_result s \<noteq> ''hit'' then fail (AppError 409 ''credit_sanctions_state_conflict'')
                else if decision = ''clear'' then
                  if sc_cleared s \<noteq> None then fail (AppError 409 ''credit_sanctions_state_conflict'')
                  else
                    let cleared = s\<lparr>sc_cleared := Some (cf_db_now cf), sc_clear_reason := Some why\<rparr> in
                    bind (modify (\<lambda>db. db\<lparr>screenings := upd_where (\<lambda>x. sc_id x = i)
                        (\<lambda>x. x\<lparr>sc_cleared := Some (cf_db_now cf), sc_clear_reason := Some why\<rparr>) (screenings db)\<rparr>)) (\<lambda>_.
                    bind (insertAudit (screening_audit ''credit.sanctions.screening_cleared'' actorUserId s why requestIp
                        (ObjJ [(''result'', TextJ ''hit''), (''clearedAt'', NullJ)])
                        (ObjJ [(''result'', TextJ ''hit''), (''clearedAt'', IntJ (cf_db_now cf))]))) (\<lambda>_.
                    ret (cleared, None)))
                else
                  bind (modify (\<lambda>db. db\<lparr>screenings := upd_where (\<lambda>x. sc_id x = i \<and> sc_confirmed x = None)
                      (\<lambda>x. x\<lparr>sc_confirmed := Some (cf_db_now cf)\<rparr>) (screenings db)\<rparr>)) (\<lambda>_.
                  bind (openComplianceCase cf ''sanctions_hit'' (sc_subject_type s) (sc_subject s) ''critical'' (CASE_SLA_HOURS cf)
                      (Some (''sanctions_hit:'' @ sc_subject_type s @ '':'' @ sc_subject s @ '':'' @ show_int i))) (\<lambda>(opened, _).
                  bind (insertAudit (screening_audit ''credit.sanctions.hit_confirmed'' actorUserId s why requestIp
                      (ObjJ [(''result'', TextJ ''hit'')])
                      (ObjJ [(''result'', TextJ ''hit''), (''confirmed'', BoolJ True), (''caseId'', TextJ (show_int (cc_id opened)))]))) (\<lambda>_.
                  ret (s, Some opened)))))))"

section \<open>Properties\<close>

lemma top_screening_None [simp]: "top_screening rows = None \<longleftrightarrow> rows = []"
  by (cases rows) (auto split: option.splits)

lemma top_screening_Some:
  "top_screening rows = Some s \<Longrightarrow> s \<in> set rows \<and> (list_ex isConfirmedBlock rows \<longrightarrow> isConfirmedBlock s)"
proof (induction rows arbitrary: s)
  case (Cons r rows)
  show ?case
  proof (cases "top_screening rows")
    case None
    with Cons.prems show ?thesis by simp
  next
    case (Some t)
    with Cons.IH [OF Some] Cons.prems show ?thesis by (auto simp: ranks_over_def split: if_splits)
  qed
qed simp

lemma getLatestScreening_Some:
  assumes "getLatestScreening ty i db = Some s"
  shows "s \<in> set (screenings db)" "sc_subject_type s = ty" "sc_subject s = i"
    "list_ex (\<lambda>x. sc_subject_type x = ty \<and> sc_subject x = i \<and> isConfirmedBlock x) (screenings db) \<Longrightarrow> isConfirmedBlock s"
  using top_screening_Some [OF assms [unfolded getLatestScreening_def]] by (auto simp: list_ex_iff)

lemma getLatestScreening_None:
  "getLatestScreening ty i db = None \<Longrightarrow>
   \<not> list_ex (\<lambda>x. sc_subject_type x = ty \<and> sc_subject x = i \<and> P x) (screenings db)"
  by (auto simp: getLatestScreening_def filter_empty_conv list_ex_iff)

text \<open>A screening that is still valid is returned; otherwise the provider is asked and its answer stored.\<close>

lemma screenSubjectIfStale_Inr:
  assumes "screenSubjectIfStale cf ty i force db = (Inr s, db')"
  obtains (kept) "getLatestScreening ty i db = Some s" "isConfirmedBlock s \<or> \<not> force \<and> isScreeningFresh cf (Some s)" "db' = db"
  | (asked) provider where "getScreeningProvider cf = Inr provider" "sc_result s = fst (screening_outcome provider ty i)"
      "sc_cleared s = None" "sc_confirmed s = None" "db' = db\<lparr>screenings := screenings db @ [s]\<rparr>"
      "\<And>x. getLatestScreening ty i db = Some x \<Longrightarrow> \<not> isConfirmedBlock x"
proof -
  let ?old = "case getLatestScreening ty i db of
      Some s \<Rightarrow> if isConfirmedBlock s \<or> \<not> force \<and> isScreeningFresh cf (getLatestScreening ty i db) then Some s else None
    | None \<Rightarrow> None"
  show thesis
  proof (cases ?old)
    case (Some x)
    then have "getLatestScreening ty i db = Some x" "isConfirmedBlock x \<or> \<not> force \<and> isScreeningFresh cf (Some x)"
      by (auto split: option.splits if_splits)
    moreover have "s = x" "db' = db" using assms Some by (simp_all add: screenSubjectIfStale_def bind_apply)
    ultimately show thesis using kept by simp
  next
    case None
    then have n: "\<And>x. getLatestScreening ty i db = Some x \<Longrightarrow> \<not> isConfirmedBlock x" by (auto split: option.splits if_splits)
    from assms None obtain provider where p: "getScreeningProvider cf = Inr provider"
      by (cases "getScreeningProvider cf") (simp_all add: screenSubjectIfStale_def bind_apply)
    from assms None p have "sc_result s = fst (screening_outcome provider ty i)" "sc_cleared s = None" "sc_confirmed s = None"
      "db' = db\<lparr>screenings := screenings db @ [s]\<rparr>"
      by (auto simp: screenSubjectIfStale_def bind_apply Let_def split: prod.splits)
    from asked [OF p this n] show thesis .
  qed
qed

lemma manual_outcome [simp]: "screening_outcome manualReviewProvider ty i = (''hit'', Some ''manual_review_required'')"
  by (simp add: screening_outcome_def manualReviewProvider_def)

lemma assertSanctionsClear_Inr:
  assumes "assertSanctionsClear cf ty i db = (Inr c, db')"
  obtains s where "screenSubjectIfStale cf ty i False db = (Inr s, db')"
    "sc_result s = ''clear'' \<or> sc_result s = ''hit'' \<and> sc_cleared s \<noteq> None"
  using assms
proof (cases "screenSubjectIfStale cf ty i False db")
  case (Pair r t)
  with assms that show ?thesis
    by (cases r) (auto simp: assertSanctionsClear_def bind_apply split: if_splits)
qed

definition confirmed_are_hits :: "ledger \<Rightarrow> bool" where
  "confirmed_are_hits db \<longleftrightarrow> list_all (\<lambda>s. sc_confirmed s = None \<or> sc_result s = ''hit'') (screenings db)"

lemma cleared_subject:
  assumes "assertSanctionsClear cf ty i db = (Inr c, db')" and "confirmed_are_hits db"
  shows "\<not> list_ex (\<lambda>s. sc_subject_type s = ty \<and> sc_subject s = i \<and> isConfirmedBlock s) (screenings db) \<and>
    ((\<exists>s. getLatestScreening ty i db = Some s \<and> isScreeningFresh cf (Some s) \<and> db' = db \<and>
        (sc_result s = ''clear'' \<or> sc_result s = ''hit'' \<and> sc_cleared s \<noteq> None)) \<or>
     SANCTIONS_PROVIDER_NAME cf = ''in_house_lists'' \<and> (\<exists>ctx. cf_lists cf ty i = Inr (''clear'', ctx)))"
proof -
  obtain s where s: "screenSubjectIfStale cf ty i False db = (Inr s, db')"
    and ok: "sc_result s = ''clear'' \<or> sc_result s = ''hit'' \<and> sc_cleared s \<noteq> None"
    using assms(1) by (rule assertSanctionsClear_Inr)
  from s show ?thesis
  proof (cases rule: screenSubjectIfStale_Inr)
    case kept
    note l = getLatestScreening_Some [OF kept(1)]
    have "\<not> isConfirmedBlock s"
      using ok assms(2) l(1) by (auto simp: confirmed_are_hits_def list_all_iff isConfirmedBlock_def)
    with kept ok l(4) show ?thesis by blast
  next
    case (asked provider)
    have none: "\<not> list_ex (\<lambda>s. sc_subject_type s = ty \<and> sc_subject s = i \<and> isConfirmedBlock s) (screenings db)"
    proof (cases "getLatestScreening ty i db")
      case None
      then show ?thesis by (rule getLatestScreening_None)
    next
      case (Some x)
      with asked(6) getLatestScreening_Some(4) [OF Some] show ?thesis by blast
    qed
    from ok asked(3) have "sc_result s = ''clear''" by simp
    then have c: "fst (screening_outcome provider ty i) = ''clear''" using asked(2) by simp
    then have "provider \<noteq> manualReviewProvider" by auto
    with asked(1) have p: "SANCTIONS_PROVIDER_NAME cf = ''in_house_lists''" "provider = cf_lists cf"
      by (auto simp: getScreeningProvider_def split: if_splits)
    with c obtain ctx where "cf_lists cf ty i = Inr (''clear'', ctx)"
      by (cases "cf_lists cf ty i") (auto simp: screening_outcome_def split: prod.splits if_splits)
    with none p show ?thesis by blast
  qed
qed

text \<open>The sanctions gate fails closed: it lets a subject pass only when no confirmed match stands against
  it and either the screening in force is fresh and was clear or cleared by an administrator, or the
  in-house lists just answered clear. With the shipped manual review, no answer of the code itself lets anybody pass.\<close>

theorem assertSanctionsClear_fails_closed:
  assumes "assertSanctionsClear cf ty i db = (Inr c, db')" and "confirmed_are_hits db"
  shows "\<not> list_ex (\<lambda>s. sc_subject_type s = ty \<and> sc_subject s = i \<and> isConfirmedBlock s) (screenings db) \<and>
    ((\<exists>s. getLatestScreening ty i db = Some s \<and> isScreeningFresh cf (Some s) \<and> db' = db \<and>
        (sc_result s = ''clear'' \<or> sc_result s = ''hit'' \<and> sc_cleared s \<noteq> None)) \<or>
     SANCTIONS_PROVIDER_NAME cf = ''in_house_lists'' \<and> (\<exists>ctx. cf_lists cf ty i = Inr (''clear'', ctx)))"
  by (rule cleared_subject [OF assms])

text \<open>A screening of one user that an administrator cleared a moment ago.\<close>

definition sample_screened :: ledger where
  "sample_screened = sample_ledger\<lparr>screenings :=
     [\<lparr>sc_id = 1, sc_subject_type = ''customer'', sc_subject = ''ana'', sc_provider = ''manual_review'', sc_result = ''hit'',
       sc_context = None, sc_at = 900, sc_cleared = Some 950, sc_clear_reason = Some ''checked'', sc_confirmed = None\<rparr>]\<rparr>"

lemma sample_screened_passes: "returned (assertSanctionsClear sample_config ''customer'' ''ana'' sample_screened)"
  by code_simp

theorem assertSanctionsClear_fails_closed_witness:
  "\<exists>c db'. assertSanctionsClear sample_config ''customer'' ''ana'' sample_screened = (Inr c, db') \<and>
     \<not> list_ex (\<lambda>s. sc_subject_type s = ''customer'' \<and> sc_subject s = ''ana'' \<and> isConfirmedBlock s) (screenings sample_screened)"
proof -
  obtain c db' where r: "assertSanctionsClear sample_config ''customer'' ''ana'' sample_screened = (Inr c, db')"
    by (rule returnedE [OF sample_screened_passes])
  have "confirmed_are_hits sample_screened" by code_simp
  from assertSanctionsClear_fails_closed [OF r this] r show ?thesis by blast
qed

lemma decide_confirm_Inr:
  assumes "decideSanctionsScreening cf (Some k) ''confirm'' actor reason ip db = (Inr r, db')"
  obtains s where "find (\<lambda>s. sc_id s = k) (screenings db) = Some s" "sc_result s = ''hit''"
    "screenings db' = upd_where (\<lambda>x. sc_id x = k \<and> sc_confirmed x = None) (\<lambda>x. x\<lparr>sc_confirmed := Some (cf_db_now cf)\<rparr>) (screenings db)"
    "accounts db' = accounts db" "txns db' = txns db"
proof -
  let ?why = "screening_normalizeString reason 1000"
  from assms obtain s where s: "find (\<lambda>s. sc_id s = k) (screenings db) = Some s"
    by (cases "find (\<lambda>s. sc_id s = k) (screenings db)")
      (auto simp: decideSanctionsScreening_def bind_apply Let_def split: if_splits)
  moreover from assms s have h: "sc_result s = ''hit''"
    by (cases "sc_result s = ''hit''") (auto simp: decideSanctionsScreening_def bind_apply Let_def split: if_splits)
  moreover have "screenings db' = upd_where (\<lambda>x. sc_id x = k \<and> sc_confirmed x = None) (\<lambda>x. x\<lparr>sc_confirmed := Some (cf_db_now cf)\<rparr>) (screenings db)
      \<and> accounts db' = accounts db \<and> txns db' = txns db"
    using assms s h
    by (auto simp: decideSanctionsScreening_def bind_Inr_iff Let_def openComplianceCase_def insertAudit_def
        split: if_splits option.splits)
  ultimately show thesis using that by blast
qed

lemma confirmed_block_fails:
  assumes "confirmed_are_hits db"
    and "list_ex (\<lambda>x. sc_subject_type x = ty \<and> sc_subject x = i \<and> isConfirmedBlock x) (screenings db)"
  shows "assertSanctionsClear cf ty i db = (Inl (AppError 403 ''credit_sanctions_match''), db)"
proof (cases "getLatestScreening ty i db")
  case None
  with assms(2) getLatestScreening_None show ?thesis by blast
next
  case (Some t)
  note t = getLatestScreening_Some [OF Some]
  have b: "isConfirmedBlock t" by (rule t(4) [OF assms(2)])
  then have "sc_result t = ''hit''" "sc_cleared t = None"
    using t(1) assms(1) by (auto simp: confirmed_are_hits_def list_all_iff isConfirmedBlock_def)
  with Some b show ?thesis by (simp add: assertSanctionsClear_def screenSubjectIfStale_def bind_apply)
qed

text \<open>a confirmed match stays: once an administrator confirmed a hit that was not cleared, every later
  check of that subject is refused and changes nothing, at any time, under any time to live and
  whatever provider is configured, so no rescreening can replace the decision.\<close>

theorem confirmed_match_stays:
  assumes "decideSanctionsScreening cf (Some k) ''confirm'' actor reason ip db = (Inr r, db')"
    and "find (\<lambda>s. sc_id s = k) (screenings db) = Some s" and "sc_cleared s = None"
    and "distinct (map sc_id (screenings db))" and "confirmed_are_hits db"
  shows "assertSanctionsClear later (sc_subject_type s) (sc_subject s) db' = (Inl (AppError 403 ''credit_sanctions_match''), db')"
proof -
  let ?P = "\<lambda>x. sc_id x = k \<and> sc_confirmed x = None"
  let ?f = "\<lambda>x. x\<lparr>sc_confirmed := Some (cf_db_now cf)\<rparr>"
  from assms(1) obtain s' where s': "find (\<lambda>s. sc_id s = k) (screenings db) = Some s'" "sc_result s' = ''hit''"
    and db': "screenings db' = upd_where ?P ?f (screenings db)"
    by (rule decide_confirm_Inr)
  then have hit: "sc_result s = ''hit''" using assms(2) by simp
  have s: "s \<in> set (screenings db)" "sc_id s = k" using find_SomeD [OF assms(2)] by simp_all
  have same: "x = s" if "x \<in> set (screenings db)" "sc_id x = k" for x
    using assms(4) that s by (simp add: distinct_map inj_on_def)
  have hits: "confirmed_are_hits db'"
    using assms(5) same hit unfolding confirmed_are_hits_def db' by (auto simp: list_all_iff set_upd_where)
  have "\<exists>x\<in>set (screenings db'). sc_subject_type x = sc_subject_type s \<and> sc_subject x = sc_subject s \<and> isConfirmedBlock x"
  proof (cases "sc_confirmed s = None")
    case True
    then have "?f s \<in> set (screenings db')" using s unfolding db' set_upd_where by force
    then show ?thesis using assms(3) by (intro bexI [of _ "?f s"]) (simp_all add: isConfirmedBlock_def)
  next
    case False
    then have "s \<in> set (screenings db')" using s unfolding db' set_upd_where by force
    then show ?thesis using assms(3) False by (intro bexI [of _ s]) (simp_all add: isConfirmedBlock_def)
  qed
  with hits show ?thesis by (intro confirmed_block_fails) (simp_all add: list_ex_iff)
qed

definition sample_hit :: screening where
  "sample_hit =
     \<lparr>sc_id = 1, sc_subject_type = ''customer'', sc_subject = ''ana'', sc_provider = ''manual_review'', sc_result = ''hit'',
      sc_context = None, sc_at = 900, sc_cleared = None, sc_clear_reason = None, sc_confirmed = None\<rparr>"

lemma sample_confirms:
  "returned (decideSanctionsScreening sample_config (Some 1) ''confirm'' ''root'' (Some ''listed'') None (sample_ledger\<lparr>screenings := [sample_hit]\<rparr>))"
  by code_simp

theorem confirmed_match_stays_witness:
  "\<exists>r db'. decideSanctionsScreening sample_config (Some 1) ''confirm'' ''root'' (Some ''listed'') None
       (sample_ledger\<lparr>screenings := [sample_hit]\<rparr>) = (Inr r, db') \<and>
     assertSanctionsClear sample_config ''customer'' ''ana'' db' = (Inl (AppError 403 ''credit_sanctions_match''), db')"
proof -
  obtain r db' where r: "decideSanctionsScreening sample_config (Some 1) ''confirm'' ''root'' (Some ''listed'') None
       (sample_ledger\<lparr>screenings := [sample_hit]\<rparr>) = (Inr r, db')"
    by (rule returnedE [OF sample_confirms])
  have "find (\<lambda>s. sc_id s = 1) (screenings (sample_ledger\<lparr>screenings := [sample_hit]\<rparr>)) = Some sample_hit"
    "sc_cleared sample_hit = None" "distinct (map sc_id (screenings (sample_ledger\<lparr>screenings := [sample_hit]\<rparr>)))"
    "confirmed_are_hits (sample_ledger\<lparr>screenings := [sample_hit]\<rparr>)"
    "sc_subject_type sample_hit = ''customer''" "sc_subject sample_hit = ''ana''"
    by (simp_all add: sample_hit_def confirmed_are_hits_def)
  with confirmed_match_stays [OF r this(1-4), of sample_config] r show ?thesis by auto
qed

text \<open>Confirming a hit on a counterparty opens no case and therefore confirms nothing.\<close>

lemma confirm_counterparty_fails:
  assumes "find (\<lambda>s. sc_id s = k) (screenings db) = Some s" "sc_subject_type s = ''counterparty''" "sc_result s = ''hit''"
    and "screening_normalizeString reason 1000 \<noteq> []"
  shows "decideSanctionsScreening cf (Some k) ''confirm'' actor reason ip db = (Inl (AppError 400 ''credit_case_subject_invalid''), db)"
  using assms by (simp add: decideSanctionsScreening_def withTransaction_def bind_apply Let_def openComplianceCase_def CASE_TYPES_def)

end
