(* ===== verification/FeeSchedule.thy ===== *)
theory FeeSchedule
  imports LedgerData
begin

text \<open>
  The fee schedule of credit operations (\<open>services/oxsteedCreditFeeScheduleService.js\<close>): environment
  overrides, the row in force, the fee computed from it in JavaScript numbers, and the quote.
\<close>

section \<open>The schedule\<close>

definition OPERATION_TYPES :: "string list" where
  "OPERATION_TYPES = [''withdrawal'', ''transfer'', ''conversion'', ''top_up'']"

definition positiveIntEnv :: "(string \<Rightarrow> string option) \<Rightarrow> string \<Rightarrow> int option" where
  "positiveIntEnv env name =
     (case env name of
        None \<Rightarrow> None
      | Some raw \<Rightarrow>
          if js_trim raw = [] then None
          else case safe_int (parse_int (js_trim raw)) of
                 None \<Rightarrow> None
               | Some parsed \<Rightarrow> if 0 \<le> parsed then Some parsed else None)"

definition zero_or :: "int option \<Rightarrow> int" where
  "zero_or x = (case x of None \<Rightarrow> 0 | Some n \<Rightarrow> n)"

definition envOverride :: "(string \<Rightarrow> string option) \<Rightarrow> string \<Rightarrow> fee_schedule option" where
  "envOverride env operationType =
     (let prefix = ''OXSTEED_CREDIT_FEE_'' @ js_upper operationType;
          fixed = positiveIntEnv env (prefix @ ''_FIXED_CENTS'');
          bps = positiveIntEnv env (prefix @ ''_BPS'');
          mn = positiveIntEnv env (prefix @ ''_MIN_CENTS'');
          mx = positiveIntEnv env (prefix @ ''_MAX_CENTS'') in
      if fixed = None \<and> bps = None \<and> mn = None \<and> mx = None then None
      else Some \<lparr>fe_fixed = zero_or fixed, fe_bps = zero_or bps, fe_min = zero_or mn, fe_max = mx\<rparr>)"

definition fee_row_applies :: "config \<Rightarrow> string \<Rightarrow> string \<Rightarrow> fee_row \<Rightarrow> bool" where
  "fee_row_applies cf operationType currencyCode r \<longleftrightarrow>
     fe_operation r = operationType \<and> fe_currency r = currencyCode \<and> fe_active r \<and> fe_from r \<le> cf_db_now cf \<and>
     (case fe_to r of None \<Rightarrow> True | Some t \<Rightarrow> cf_db_now cf < t)"

text \<open>\<open>ORDER BY effective_from DESC LIMIT 1\<close>.\<close>

fun latest_row :: "fee_row list \<Rightarrow> fee_row option" where
  "latest_row [] = None"
| "latest_row (r # rs) = (case latest_row rs of
       None \<Rightarrow> Some r | Some s \<Rightarrow> if fe_from r < fe_from s then Some s else Some r)"

definition getFeeScheduleRow :: "config \<Rightarrow> string \<Rightarrow> string \<Rightarrow> ledger \<Rightarrow> fee_row option res" where
  "getFeeScheduleRow cf operationType currencyCode db =
     (if operationType \<notin> set OPERATION_TYPES then Inl (AppError 400 ''credit_fee_operation_invalid'')
      else Inr (latest_row (filter (fee_row_applies cf operationType currencyCode) (fee_rows db))))"

text \<open>\<open>Math.round\<close> of a double: the floor of the double plus one half.\<close>

definition math_round :: "rat \<Rightarrow> int" where
  "math_round q = \<lfloor>q + 1 / 2\<rfloor>"

definition variable_fee :: "int \<Rightarrow> int \<Rightarrow> int" where
  "variable_fee bps amount = math_round (rnd (rnd (of_int (amount * bps)) / 10000))"

definition computeFeeFromSchedule :: "('a fee_schedule_scheme) \<Rightarrow> jsnum \<Rightarrow> int res" where
  "computeFeeFromSchedule schedule amountCents =
     (case safe_int amountCents of
        None \<Rightarrow> Inl (AppError 400 ''credit_fee_amount_invalid'')
      | Some amount \<Rightarrow>
          if amount \<le> 0 then Inl (AppError 400 ''credit_fee_amount_invalid'')
          else
            let fee = \<lfloor>rnd (of_int (fe_fixed schedule + variable_fee (fe_bps schedule) amount))\<rfloor>;
                fee' = max fee (fe_min schedule);
                fee'' = (case fe_max schedule of None \<Rightarrow> fee' | Some mx \<Rightarrow> min fee' mx) in
            Inr (max 0 fee''))"

definition quoteFee :: "config \<Rightarrow> string \<Rightarrow> string \<Rightarrow> jsnum \<Rightarrow> ledger \<Rightarrow> int res" where
  "quoteFee cf operationType currencyCode amountCents db =
     (case envOverride (le_env (cf_limit_env cf)) operationType of
        Some schedule \<Rightarrow> computeFeeFromSchedule schedule amountCents
      | None \<Rightarrow> res_bind (getFeeScheduleRow cf operationType currencyCode db) (\<lambda>row.
          case row of None \<Rightarrow> Inr 0 | Some r \<Rightarrow> computeFeeFromSchedule r amountCents))"

record fee_update =
  fu_fixed :: "int option"
  fu_bps :: "int option"
  fu_min :: "int option"
  fu_max :: "int option option"       \<comment> \<open>\<open>Some None\<close>: an explicit \<open>null\<close>\<close>
  fu_active :: "bool option"

definition keep_or :: "'a \<Rightarrow> 'a option \<Rightarrow> 'a" where
  "keep_or old new = (case new of None \<Rightarrow> old | Some x \<Rightarrow> x)"

definition update_fee_row :: "fee_update \<Rightarrow> fee_row \<Rightarrow> fee_row" where
  "update_fee_row u r =
     r\<lparr>fe_fixed := keep_or (fe_fixed r) (fu_fixed u), fe_bps := keep_or (fe_bps r) (fu_bps u),
       fe_min := keep_or (fe_min r) (fu_min u), fe_max := keep_or (fe_max r) (fu_max u),
       fe_active := keep_or (fe_active r) (fu_active u)\<rparr>"

definition updateFeeScheduleRow :: "int \<Rightarrow> fee_update \<Rightarrow> fee_row option credit" where
  "updateFeeScheduleRow i u =
     bind (modify (\<lambda>db. db\<lparr>fee_rows := upd_where (\<lambda>r. fe_id r = i) (update_fee_row u) (fee_rows db)\<rparr>)) (\<lambda>_.
     gets (\<lambda>db. find (\<lambda>r. fe_id r = i) (fee_rows db)))"

section \<open>What a fee is\<close>

text \<open>A double differs from the number it rounds by at most half a unit in its last place.\<close>

lemma round_half_even_error: "\<bar>of_int (round_half_even x) - x\<bar> \<le> 1 / 2"
  by (auto simp: round_half_even_def Let_def abs_if field_simps) linarith+

lemma rnd_error:
  assumes "0 < q" "q < 2 ^ k" "k \<le> 53"
  shows "\<bar>rnd q - q\<bar> \<le> 2 ^ k / 2 ^ 54"
proof -
  define e where "e = rat_exp q"
  define u where "u = pow2 (e - 52)"
  have "pow2 e \<le> q" using rat_exp_bounds(1) [OF assms(1)] by (simp add: e_def)
  also have "\<dots> < pow2 (int k)" using assms(2) by (simp add: pow2_def)
  finally have ek: "e < int k" by (simp add: pow2_mono_iff)
  have u: "0 < u" by (simp add: u_def)
  have "pow2 (e - 52) \<le> pow2 (int k - 53)"
    using ek pow2_mono_iff [of "e - 52" "int k - 53"] by (cases "e = int k - 1") auto
  also have "pow2 (int k - 53) = 2 ^ k / 2 ^ 53" using pow2_diff_nat [of k 53] by simp
  finally have uk: "u \<le> 2 ^ k / 2 ^ 53" by (simp add: u_def)
  have "\<bar>of_int (round_half_even (q / u)) - q / u\<bar> * u \<le> 1 / 2 * u"
    using u by (intro mult_right_mono round_half_even_error) simp
  moreover have "\<bar>of_int (round_half_even (q / u)) - q / u\<bar> * u = \<bar>rnd q - q\<bar>"
    using assms(1) u by (simp add: rnd_def Let_def e_def [symmetric] u_def [symmetric] abs_mult_pos' field_simps flip: abs_mult)
  ultimately show ?thesis using uk by simp
qed

lemma rat_exp_unique:
  assumes "0 < q" "pow2 e \<le> q" "q < pow2 (e + 1)"
  shows "rat_exp q = e"
proof -
  have "pow2 (rat_exp q) < pow2 (e + 1)" "pow2 e < pow2 (rat_exp q + 1)"
    using rat_exp_bounds [OF assms(1)] assms(2,3) by linarith+
  then show ?thesis by (simp add: pow2_mono_iff)
qed

lemma pow2_half: "pow2 (e - 1) = pow2 e / 2"
  using pow2_add_nat [of "e - 1" 1] by simp

lemma rnd_half:
  assumes "0 < q"
  shows "rnd (q / 2) = rnd q / 2"
proof -
  define e where "e = rat_exp q"
  have "rat_exp (q / 2) = e - 1"
  proof (rule rat_exp_unique)
    show "pow2 (e - 1) \<le> q / 2" "q / 2 < pow2 (e - 1 + 1)"
      using rat_exp_bounds [OF assms] pow2_half [of e] pow2_half [of "e + 1"] by (simp_all add: e_def)
  qed (use assms in simp)
  moreover have "pow2 (e - 52) = 2 * pow2 (e - 1 - 52)" using pow2_half [of "e - 52"] by (simp add: algebra_simps)
  ultimately show ?thesis using assms by (simp add: rnd_def Let_def e_def [symmetric] del: diff_diff_eq)
qed

lemma half_exact: "0 < k \<Longrightarrow> k \<le> 2 ^ 53 \<Longrightarrow> rnd (of_int k / 2) = of_int k / 2"
  by (subst rnd_half) simp_all

text \<open>Where the products stay below \<open>2 ^ 53\<close>, the double arithmetic rounds half up, exactly.\<close>

lemma variable_fee_half_up:
  assumes "0 \<le> amount * bps" "amount * bps < 2 ^ 53"
  shows "variable_fee bps amount = (amount * bps + 5000) div 10000"
proof (cases "amount * bps = 0")
  case True
  show ?thesis unfolding variable_fee_def True by (simp add: math_round_def floor_eq_iff)
next
  case False
  define n where "n = amount * bps"
  define q :: rat where "q = of_int n / 10000"
  have n: "0 < n" "n < 2 ^ 53" using le_neq_trans [OF assms(1) False [symmetric]] assms(2) by (simp_all only: n_def)
  have "(of_int n :: rat) < of_int (2 ^ 53)" using n(2) by (simp only: of_int_less_iff)
  then have q: "0 < q" "q < 2 ^ 40" using n(1) by (simp_all add: q_def)
  have e: "rnd (of_int n) = (of_int n :: rat)" using n by (intro rnd_of_int_small) simp
  have err: "\<bar>rnd q - q\<bar> < 1 / 10000"
    using rnd_error [OF q] by (rule le_less_trans) simp_all
  define m where "m = (n + 5000) div 10000"
  define r where "r = (n + 5000) mod 10000"
  have nm: "n + 5000 = 10000 * m + r" "0 \<le> r" "r < 10000" by (simp_all add: m_def r_def)
  have qm: "q + 1 / 2 = of_int m + of_int r / 10000"
  proof -
    have "q + 1 / 2 = of_int (n + 5000) / 10000" by (simp add: q_def field_simps)
    then show ?thesis unfolding nm(1) by (simp add: field_simps)
  qed
  have "of_int m \<le> rnd q + 1 / 2"
  proof (cases "r = 0")
    case True
    then have qh: "q = of_int (2 * m - 1) / 2" using qm by (simp add: field_simps)
    have "rnd q = q" unfolding qh using n nm True by (intro half_exact) simp_all
    then show ?thesis using qm True by simp
  next
    case False
    then have "(1 :: rat) / 10000 \<le> of_int r / 10000" using nm(2) by (intro divide_right_mono) simp_all
    with err [unfolded abs_less_iff] qm show ?thesis by linarith
  qed
  moreover have "rnd q + 1 / 2 < of_int (m + 1)"
  proof -
    have "r \<le> 9999" using nm(3) by simp
    then have "(of_int r :: rat) \<le> of_int 9999" by (simp only: of_int_le_iff)
    then have "(of_int r :: rat) / 10000 \<le> 9999 / 10000" by (intro divide_right_mono) simp_all
    moreover have "(of_int (m + 1) :: rat) = of_int m + 1" by simp
    ultimately show ?thesis using err [unfolded abs_less_iff] qm by linarith
  qed
  ultimately have "math_round (rnd q) = m" unfolding math_round_def by (intro floor_unique) simp_all
  then show ?thesis by (simp add: variable_fee_def e n_def [symmetric] q_def m_def)
qed

text \<open>The exact fee: the fixed part plus the share, clamped from below, then from above.\<close>

definition exact_fee :: "('a fee_schedule_scheme) \<Rightarrow> int \<Rightarrow> int" where
  "exact_fee s amount =
     (let fee = max (fe_fixed s + (amount * fe_bps s + 5000) div 10000) (fe_min s) in
      max 0 (case fe_max s of None \<Rightarrow> fee | Some mx \<Rightarrow> min fee mx))"

text \<open>C34: a quoted fee is the schedule's formula in exact arithmetic: although the code multiplies, divides
  and rounds doubles, as long as amount times basis points stays below \<open>2 ^ 53\<close> the result is the
  fixed part plus the share rounded half up, raised to the minimum and capped by the maximum; it is
  never negative and never above the cap, and a larger amount never costs less.\<close>

theorem computeFeeFromSchedule_exact:
  assumes "0 < amount" "0 \<le> fe_bps s" "amount * fe_bps s < 2 ^ 53" "0 \<le> fe_fixed s" "fe_fixed s \<le> 2 ^ 52"
    and "amount \<le> max_safe_integer"
  shows "computeFeeFromSchedule s (JInt amount) = Inr (exact_fee s amount) \<and> 0 \<le> exact_fee s amount \<and>
    (\<forall>mx. fe_max s = Some mx \<longrightarrow> 0 \<le> mx \<longrightarrow> exact_fee s amount \<le> mx) \<and>
    (\<forall>smaller. 0 < smaller \<longrightarrow> smaller \<le> amount \<longrightarrow> exact_fee s smaller \<le> exact_fee s amount)"
proof -
  have v: "variable_fee (fe_bps s) amount = (amount * fe_bps s + 5000) div 10000"
    using assms by (intro variable_fee_half_up) simp_all
  have "0 \<le> amount * fe_bps s" "amount * fe_bps s < 9007199254740992" using assms(1-3) by simp_all
  then have share: "0 \<le> (amount * fe_bps s + 5000) div 10000" "(amount * fe_bps s + 5000) div 10000 \<le> 2 ^ 52"
    by simp_all
  have "rnd (of_int (fe_fixed s + variable_fee (fe_bps s) amount)) = of_int (fe_fixed s + variable_fee (fe_bps s) amount)"
    by (rule rnd_of_int_small) (use share v assms in simp)
  then have r: "\<lfloor>rnd (of_int (fe_fixed s + variable_fee (fe_bps s) amount))\<rfloor> = fe_fixed s + (amount * fe_bps s + 5000) div 10000"
    by (simp only: floor_of_int v)
  have "safe_int (JInt amount) = Some amount" using assms by (simp del: safe_int.simps)
  then have "computeFeeFromSchedule s (JInt amount) = Inr (exact_fee s amount)"
    using assms(1) by (simp only: computeFeeFromSchedule_def r option.case if_False not_le [symmetric] not_not Let_def exact_fee_def)
  moreover have "exact_fee s smaller \<le> exact_fee s amount" if "smaller \<le> amount" for smaller
  proof -
    have "smaller * fe_bps s \<le> amount * fe_bps s" using that assms(2) by (intro mult_right_mono)
    then have "(smaller * fe_bps s + 5000) div 10000 \<le> (amount * fe_bps s + 5000) div 10000" by (intro zdiv_mono1) simp_all
    then show ?thesis by (auto simp: exact_fee_def Let_def split: option.split)
  qed
  ultimately show ?thesis by (auto simp: exact_fee_def Let_def)
qed

theorem computeFeeFromSchedule_exact_witness:
  "computeFeeFromSchedule \<lparr>fe_fixed = 100, fe_bps = 100, fe_min = 100, fe_max = Some 2500\<rparr> (JInt 12345) = Inr 223"
  using computeFeeFromSchedule_exact [of 12345 "\<lparr>fe_fixed = 100, fe_bps = 100, fe_min = 100, fe_max = Some 2500\<rparr>"]
  by (simp add: exact_fee_def max_safe_integer_def)

end
