(* ===== verification/CreditMovements.thy ===== *)
theory CreditMovements
  imports CreditOperations Sanctions FeeSchedule
begin

text \<open>
  The other operations on customer wallets of \<open>services/oxsteedCreditService.js\<close>: transfers with
  their fee, administrative adjustments, the status of a wallet, and refunds. A request record holds the
  arguments after the defaults of the parameter list.
\<close>

section \<open>Transfers\<close>

record transfer_request =
  tr_sender :: string
  tr_recipient :: string
  tr_amount :: jsnum
  tr_currency :: currency_arg
  tr_key :: "string option"
  tr_actor :: "string option"
  tr_refType :: "string option"
  tr_refId :: "string option"
  tr_correlation :: "string option"
  tr_ip :: "string option"
  tr_description :: "string option"
  tr_metadata :: json
  tr_creatorRecipient :: bool
  tr_creatorSender :: bool

definition transfer_input :: "transfer_request \<Rightarrow> int \<Rightarrow> string \<Rightarrow> string \<Rightarrow> int \<Rightarrow> int \<Rightarrow> journal_input" where
  "transfer_input rq amount currency key debit credit = journal_defaults
     \<lparr>ji_type := ''transfer'', ji_debit := debit, ji_credit := credit, ji_customer := Some (tr_sender rq), ji_amount := JInt amount,
      ji_currency := currency, ji_key := Some key, ji_actorType := Some ''user'', ji_actorUser := tr_actor rq,
      ji_refType := tr_refType rq, ji_refId := tr_refId rq, ji_correlation := tr_correlation rq, ji_requestIp := tr_ip rq,
      ji_description := tr_description rq,
      ji_metadata := spread (normalizeMetadata (tr_metadata rq)) (ObjJ [(''recipientCustomerId'', TextJ (tr_recipient rq))])\<rparr>"

definition transfer_fee_input :: "transfer_request \<Rightarrow> int \<Rightarrow> string \<Rightarrow> string \<Rightarrow> int \<Rightarrow> int \<Rightarrow> journal_input" where
  "transfer_fee_input rq fee currency key debit credit = journal_defaults
     \<lparr>ji_type := ''transfer_fee'', ji_debit := debit, ji_credit := credit, ji_customer := Some (tr_sender rq), ji_amount := JInt fee,
      ji_currency := currency, ji_key := Some (key @ '':fee''), ji_actorType := Some ''user'', ji_actorUser := tr_actor rq,
      ji_refType := Some ''customer_transfer_fee'', ji_refId := tr_refId rq, ji_correlation := tr_correlation rq,
      ji_requestIp := tr_ip rq, ji_description := Some ''Customer transfer fee'',
      ji_metadata := spread (normalizeMetadata (tr_metadata rq))
        (ObjJ [(''recipientCustomerId'', TextJ (tr_recipient rq)), (''quotedFeeCents'', IntJ fee)])\<rparr>"

text \<open>What a transfer returns: the posting, the fee (\<open>None\<close> on a replay) and the transaction of the fee.\<close>

record transfer_result =
  tt_posting :: posting
  tt_fee :: "int option"
  tt_fee_txn :: "int option"

definition chargeTransferFee :: "config \<Rightarrow> transfer_request \<Rightarrow> int \<Rightarrow> string \<Rightarrow> string \<Rightarrow> account \<Rightarrow> posting \<Rightarrow> transfer_result credit" where
  "chargeTransferFee cf rq amount currency key sender posting =
     bind (gets (quoteFee cf ''transfer'' currency (JInt amount))) (\<lambda>quoted.
     bind (lift_res quoted) (\<lambda>fee.
     if 0 < fee then
       bind (ensureAccount cf (platform_account Platform_revenue) (Some currency) False) (\<lambda>revenue.
       bind (postJournalTransaction cf (transfer_fee_input rq fee currency key (ac_id sender) (ac_id revenue))) (\<lambda>feeTx.
       ret \<lparr>tt_posting = posting, tt_fee = Some fee, tt_fee_txn = Some (tx_id (po_txn feeTx))\<rparr>))
     else ret \<lparr>tt_posting = posting, tt_fee = Some fee, tt_fee_txn = None\<rparr>))"

definition newTransfer :: "config \<Rightarrow> transfer_request \<Rightarrow> int \<Rightarrow> string \<Rightarrow> string \<Rightarrow> transfer_result credit" where
  "newTransfer cf rq amount currency key =
     bind (assertCreditRailEnabled False) (\<lambda>_.
     bind (gets (\<lambda>db. wallet_owner (tr_creatorRecipient rq) db (Some (tr_recipient rq)))) (\<lambda>known.
     if \<not> known then fail (AppError 404 ''credit_recipient_not_found'')
     else
       bind (assertSanctionsClear cf ''customer'' (tr_sender rq)) (\<lambda>_.
       bind (assertSanctionsClear cf ''customer'' (tr_recipient rq)) (\<lambda>_.
       bind (gets (assertCustomerTransferCapacity cf (tr_sender rq) amount (Some currency))) (\<lambda>capacity.
       bind (lift_res capacity) (\<lambda>_.
       bind (ensureAccount cf (customer_wallet (tr_sender rq)) (Some currency) (tr_creatorSender rq)) (\<lambda>sender.
       bind (ensureAccount cf (customer_wallet (tr_recipient rq)) (Some currency) (tr_creatorRecipient rq)) (\<lambda>recipient.
       bind (postJournalTransaction cf (transfer_input rq amount currency key (ac_id sender) (ac_id recipient))) (\<lambda>posting.
       chargeTransferFee cf rq amount currency key sender posting)))))))))"

definition transferCreditInTransaction :: "config \<Rightarrow> transfer_request \<Rightarrow> transfer_result credit" where
  "transferCreditInTransaction cf rq =
     (if \<not> cf_transfers cf then fail (AppError 403 ''credit_transfers_disabled'')
      else if tr_sender rq = tr_recipient rq then fail (AppError 400 ''credit_transfer_same_customer'')
      else
        bind (lift_res (requireCustomerActor (tr_actor rq) (tr_sender rq) ''credit_transfer_actor_required'')) (\<lambda>_.
        bind (lift_res (parseAmountCents cf (tr_amount rq) (tr_currency rq))) (\<lambda>amount.
        bind (lift_res (assertSupportedCreditCurrency cf (code_of (tr_currency rq)))) (\<lambda>currency.
        bind (require_key (tr_key rq)) (\<lambda>key.
        bind (gets (findExistingTransferForReplay (tr_sender rq) (tr_recipient rq) key)) (\<lambda>found.
        bind (lift_res found) (\<lambda>existing.
        case existing of
          Some t \<Rightarrow>
            bind (postJournalTransaction cf ((transfer_input rq amount currency key (tx_debit t) (tx_credit t)) \<lparr>ji_existing := Some t\<rparr>)) (\<lambda>posting.
            ret \<lparr>tt_posting = posting, tt_fee = None, tt_fee_txn = None\<rparr>)
        | None \<Rightarrow> newTransfer cf rq amount currency key)))))))"

definition transferCredit :: "config \<Rightarrow> transfer_request \<Rightarrow> transfer_result credit" where
  "transferCredit cf rq = withTransaction (transferCreditInTransaction cf rq)"

definition transferCreatorCredit :: "config \<Rightarrow> transfer_request \<Rightarrow> transfer_result credit" where
  "transferCreatorCredit cf rq =
     withTransaction (transferCreditInTransaction cf (rq\<lparr>tr_creatorRecipient := True, tr_creatorSender := True\<rparr>))"

section \<open>Administrative adjustments\<close>

record adjust_request =
  ad_customer :: string
  ad_amount :: jsnum
  ad_currency :: currency_arg
  ad_direction :: string
  ad_key :: "string option"
  ad_actor :: "string option"
  ad_actorType :: "string option"
  ad_reason :: "string option"
  ad_refType :: "string option"
  ad_refId :: "string option"
  ad_correlation :: "string option"
  ad_ip :: "string option"
  ad_metadata :: json
  ad_mediaOwner :: bool

text \<open>The dispute the adjustment of a creator's wallet must refer to.\<close>

definition media_dispute :: "ledger \<Rightarrow> string option \<Rightarrow> string \<Rightarrow> string \<Rightarrow> bool" where
  "media_dispute db disputeId customerId currency =
     list_ex (\<lambda>d. Some (di_id d) = disputeId \<and> di_customer d = customerId \<and>
       list_ex (\<lambda>t. tx_id t = di_txn d \<and> tx_actorUser t = Some customerId \<and> tx_currency t = currency \<and> tx_status t = ''posted'' \<and>
         tx_refType t \<in> Some ` {''media_creator_tip'', ''media_creator_gig'', ''media_creator_sponsorship'', ''media_post_boost''} \<and>
         debit_of db t (\<lambda>a. wallet_of customerId a \<and> ac_restaurant a = None \<and> ac_partner a = None \<and> ac_currency a = currency))
       (txns db)) (disputes db)"

definition adjust_input :: "adjust_request \<Rightarrow> int \<Rightarrow> string \<Rightarrow> string \<Rightarrow> int \<Rightarrow> int \<Rightarrow> journal_input" where
  "adjust_input rq amount currency actorType customer treasury =
     (let grant = (ad_direction rq = ''credit'') in
      journal_defaults
        \<lparr>ji_type := ''adjustment'', ji_debit := (if grant then treasury else customer),
         ji_credit := (if grant then customer else treasury), ji_customer := Some (ad_customer rq), ji_amount := JInt amount,
         ji_currency := currency, ji_key := ad_key rq, ji_actorType := Some actorType,
         ji_actorUser := (if actorType = ''admin'' then ad_actor rq else None), ji_reason := ad_reason rq,
         ji_refType := ad_refType rq, ji_refId := ad_refId rq, ji_correlation := ad_correlation rq, ji_requestIp := ad_ip rq,
         ji_description := Some (if grant then ''OxSteed Credit administrative grant'' else ''OxSteed Credit administrative clawback''),
         ji_metadata := spread (normalizeMetadata (ad_metadata rq)) (ObjJ [(''direction'', TextJ (ad_direction rq))])\<rparr>)"

definition adjustCustomerCreditInTransaction :: "config \<Rightarrow> adjust_request \<Rightarrow> posting credit" where
  "adjustCustomerCreditInTransaction cf rq =
     bind (lift_res (parseAmountCents cf (ad_amount rq) (ad_currency rq))) (\<lambda>amount.
     bind (lift_res (assertSupportedCreditCurrency cf (code_of (ad_currency rq)))) (\<lambda>currency.
     let actorType = (case normalizeString (ad_actorType rq) 32 of None \<Rightarrow> ''admin'' | Some t \<Rightarrow> t) in
     if actorType \<notin> {''admin'', ''system''} then fail (AppError 400 ''credit_adjustment_actor_invalid'')
     else bind (require_key (ad_key rq)) (\<lambda>key.
     if ad_direction rq \<notin> {''credit'', ''debit''} then fail (AppError 400 ''credit_adjustment_direction_invalid'')
     else if normalizeString (ad_reason rq) 2 = None then fail (AppError 400 ''credit_adjustment_reason_required'')
     else if normalizeString (ad_refId rq) 160 = None then fail (AppError 400 ''credit_funding_reference_required'')
     else if ad_mediaOwner rq \<and>
             (ad_refType rq \<noteq> Some ''oxsteed_credit_dispute'' \<or> ad_direction rq \<noteq> ''credit'' \<or> actorType \<noteq> ''admin'')
     then fail (AppError 403 ''credit_creator_adjustment_scope_invalid'')
     else
       bind (gets (\<lambda>db. ad_mediaOwner rq \<and> \<not> media_dispute db (ad_refId rq) (ad_customer rq) currency)) (\<lambda>outOfScope.
       if outOfScope then fail (AppError 403 ''credit_creator_adjustment_scope_invalid'')
       else
         bind (ensureAccount cf (customer_wallet (ad_customer rq)) (Some currency) (ad_mediaOwner rq)) (\<lambda>customerAccount.
         bind (ensureAccount cf (platform_account Platform_treasury) (Some currency) False) (\<lambda>treasuryAccount.
         bind (gets (\<lambda>db. getExistingTransaction key db = None)) (\<lambda>isNew.
         bind (lift_res (if isNew \<and> actorType = ''admin''
           then requireAdministrativeActor (ad_actor rq) ''credit_adjustment_actor_required'' else Inr ())) (\<lambda>_.
         bind (gets (\<lambda>db. if isNew \<and> ad_direction rq = ''credit''
           then assertIssuanceCapacity cf amount (Some currency) (ad_customer rq) db else Inr ())) (\<lambda>capacity.
         bind (lift_res capacity) (\<lambda>_.
         postJournalTransaction cf (adjust_input rq amount currency actorType (ac_id customerAccount) (ac_id treasuryAccount))))))))))))"

definition adjustCustomerCredit :: "config \<Rightarrow> adjust_request \<Rightarrow> posting credit" where
  "adjustCustomerCredit cf rq = withTransaction (adjustCustomerCreditInTransaction cf rq)"

section \<open>The status of a wallet\<close>

record status_request =
  su_customer :: string
  su_status :: "string option"
  su_currency :: "string option"
  su_actor :: "string option"
  su_reason :: "string option"
  su_correlation :: "string option"
  su_ip :: "string option"

definition status_text :: "account_status \<Rightarrow> string" where
  "status_text s = (case s of Active \<Rightarrow> ''active'' | Suspended \<Rightarrow> ''suspended'' | Closed \<Rightarrow> ''closed'')"

definition status_of :: "string \<Rightarrow> account_status option" where
  "status_of t = (if t = ''active'' then Some Active else if t = ''suspended'' then Some Suspended
     else if t = ''closed'' then Some Closed else None)"

definition status_audit :: "status_request \<Rightarrow> account \<Rightarrow> account_status \<Rightarrow> audit" where
  "status_audit rq a new =
     \<lparr>au_action = ''credit.customer_account.status_changed'', au_actor = or_null (su_actor rq), au_customer = Some (su_customer rq),
      au_partner = None, au_resource_type = ''credit_account'', au_resource_id = ac_id a,
      au_reason = normalizeString (su_reason rq) 1000, au_correlation = normalizeString (su_correlation rq) 160,
      au_request_ip = or_null (su_ip rq), au_before = ObjJ [(''status'', TextJ (status_text (ac_status a)))],
      au_after = ObjJ [(''status'', TextJ (status_text new))], au_metadata = ObjJ []\<rparr>"

definition set_status :: "int \<Rightarrow> account_status \<Rightarrow> ledger \<Rightarrow> ledger" where
  "set_status i new db = db\<lparr>accounts := upd_where (\<lambda>a. ac_id a = i) (\<lambda>a. a\<lparr>ac_status := new\<rparr>) (accounts db)\<rparr>"

definition updateCustomerCreditAccountStatus :: "config \<Rightarrow> status_request \<Rightarrow> (account \<times> bool) credit" where
  "updateCustomerCreditAccountStatus cf rq =
     bind (lift_res (assertSupportedCreditCurrency cf (su_currency rq))) (\<lambda>currency.
     case Option.bind (normalizeString (su_status rq) 20) status_of of
       None \<Rightarrow> fail (AppError 400 ''credit_account_status_invalid'')
     | Some new \<Rightarrow>
         if normalizeString (su_reason rq) 2 = None then fail (AppError 400 ''credit_account_status_reason_required'')
         else withTransaction (
           bind (gets (findCustomerAccount cf (su_customer rq) (Some currency))) (\<lambda>found.
           bind (lift_res found) (\<lambda>row.
           case row of
             None \<Rightarrow> fail (AppError 404 ''credit_account_not_found'')
           | Some a \<Rightarrow>
               if ac_status a = new then ret (a, True)
               else if ac_status a = Closed then fail (AppError 409 ''credit_account_closed'')
               else if new = Closed \<and> (ac_balance a \<noteq> 0 \<or> ac_reserved a \<noteq> 0)
               then fail (AppError 409 ''credit_account_close_not_allowed'')
               else
                 bind (lift_res (requireAdministrativeActor (su_actor rq) ''credit_account_status_actor_required'')) (\<lambda>_.
                 bind (modify (set_status (ac_id a) new)) (\<lambda>_.
                 bind (insertAudit (status_audit rq a new)) (\<lambda>_.
                 ret (a\<lparr>ac_status := new\<rparr>, False))))))))"

section \<open>Refunds\<close>

record refund_request =
  rf_purchase :: int
  rf_amount :: jsnum
  rf_key :: "string option"
  rf_actor :: "string option"
  rf_actorType :: "string option"
  rf_reason :: "string option"
  rf_correlation :: "string option"
  rf_ip :: "string option"
  rf_metadata :: json

definition refund_actor_type :: "refund_request \<Rightarrow> string" where
  "refund_actor_type rq = (case normalizeString (rf_actorType rq) 32 of None \<Rightarrow> ''admin'' | Some t \<Rightarrow> t)"

definition findPurchase :: "int \<Rightarrow> ledger \<Rightarrow> (txn \<times> account) option" where
  "findPurchase i db =
     (case find (\<lambda>t. tx_id t = i \<and> tx_type t = ''purchase'' \<and> tx_status t = ''posted'' \<and> account_row db (tx_debit t) \<noteq> None) (txns db) of
        None \<Rightarrow> None | Some t \<Rightarrow> map_option (Pair t) (account_row db (tx_debit t)))"

definition refund_input :: "refund_request \<Rightarrow> int \<Rightarrow> string \<Rightarrow> txn \<Rightarrow> account \<Rightarrow> journal_input" where
  "refund_input rq amount key t wallet = journal_defaults
     \<lparr>ji_type := ''refund'', ji_debit := tx_credit t, ji_credit := tx_debit t, ji_partner := tx_partner t,
      ji_agreement := tx_agreement t, ji_customer := ac_customer wallet, ji_amount := JInt amount, ji_currency := tx_currency t,
      ji_key := Some key, ji_actorType := Some (refund_actor_type rq), ji_actorUser := rf_actor rq, ji_allowSuspended := True,
      ji_reason := normalizeString (rf_reason rq) 500, ji_refType := Some ''oxsteed_credit_purchase'',
      ji_refId := Some (show_int (tx_id t)), ji_correlation := rf_correlation rq, ji_requestIp := rf_ip rq,
      ji_description := Some ''OxSteed Credit refund'', ji_metadata := normalizeMetadata (rf_metadata rq)\<rparr>"

definition refunds_of :: "ledger \<Rightarrow> int \<Rightarrow> txn list" where
  "refunds_of db i = filter (\<lambda>t. tx_type t = ''refund'' \<and> tx_status t = ''posted'' \<and>
     tx_refType t = Some ''oxsteed_credit_purchase'' \<and> tx_refId t = Some (show_int i)) (txns db)"

definition refunded :: "ledger \<Rightarrow> int \<Rightarrow> int" where
  "refunded db i = sum_list (map tx_amount (refunds_of db i))"

definition refundCreditInTransaction :: "config \<Rightarrow> refund_request \<Rightarrow> posting credit" where
  "refundCreditInTransaction cf rq =
     bind (lift_res (parseAmountCents cf (rf_amount rq) None)) (\<lambda>amount.
     bind (require_key (rf_key rq)) (\<lambda>key.
     if refund_actor_type rq = ''admin'' \<and> normalizeString (rf_reason rq) 500 = None
     then fail (AppError 400 ''credit_refund_reason_required'')
     else if refund_actor_type rq = ''admin'' \<and> falsy (rf_actor rq) then fail (AppError 400 ''credit_refund_actor_required'')
     else
       bind (gets (findPurchase (rf_purchase rq))) (\<lambda>row.
       case row of
         None \<Rightarrow> fail (AppError 404 ''credit_purchase_not_found'')
       | Some (t, wallet) \<Rightarrow>
           bind (gets (getExistingTransaction key)) (\<lambda>found.
           case found of
             Some existing \<Rightarrow> postJournalTransaction cf ((refund_input rq amount key t wallet)\<lparr>ji_existing := Some existing\<rparr>)
           | None \<Rightarrow>
               bind (gets (\<lambda>db. refunded db (tx_id t))) (\<lambda>already.
               if tx_amount t < already + amount then fail (AppError 409 ''credit_refund_exceeds_purchase'')
               else postJournalTransaction cf (refund_input rq amount key t wallet))))))"

definition refundCredit :: "config \<Rightarrow> refund_request \<Rightarrow> posting credit" where
  "refundCredit cf rq = withTransaction (refundCreditInTransaction cf rq)"

text \<open>\<open>ORDER BY created_at DESC, id DESC LIMIT 1\<close>.\<close>

fun newest_txn :: "txn list \<Rightarrow> txn option" where
  "newest_txn [] = None"
| "newest_txn (t # ts) = (case newest_txn ts of
       None \<Rightarrow> Some t
     | Some s \<Rightarrow> if tx_created t < tx_created s \<or> tx_created t = tx_created s \<and> tx_id t \<le> tx_id s then Some s else Some t)"

definition refundCreditForReferenceInTransaction :: "config \<Rightarrow> string option \<Rightarrow> string option \<Rightarrow> refund_request \<Rightarrow> posting credit" where
  "refundCreditForReferenceInTransaction cf referenceType referenceId rq =
     bind (gets (\<lambda>db. newest_txn (filter (\<lambda>t. tx_type t = ''purchase'' \<and> tx_status t = ''posted'' \<and>
        normalizeString referenceType 80 \<noteq> None \<and> tx_refType t = normalizeString referenceType 80 \<and>
        normalizeString referenceId 160 \<noteq> None \<and> tx_refId t = normalizeString referenceId 160) (txns db)))) (\<lambda>row.
     case row of
       None \<Rightarrow> fail (AppError 404 ''credit_purchase_not_found'')
     | Some t \<Rightarrow> refundCreditInTransaction cf (rq\<lparr>rf_purchase := tx_id t\<rparr>))"

end
