(* ===== verification/CreditHolds.thy ===== *)
theory CreditHolds
  imports CreditMovements
begin

text \<open>
  Holds of \<open>services/oxsteedCreditService.js\<close>: creating, releasing, capturing and expiring a
  reservation on a customer wallet. A savepoint undoes the statements after it when its body throws.
\<close>

section \<open>Requests\<close>

record hold_request =
  hr_customer :: string
  hr_partner :: int
  hr_amount :: jsnum
  hr_currency :: currency_arg
  hr_key :: "string option"
  hr_actor :: "string option"
  hr_orderType :: "string option"
  hr_category :: "string option"
  hr_menuItem :: "string option"
  hr_city :: "string option"
  hr_state :: "string option"
  hr_postalCode :: "string option"
  hr_country :: "string option"
  hr_purpose :: "string option"
  hr_refType :: "string option"
  hr_refId :: "string option"
  hr_correlation :: "string option"
  hr_ip :: "string option"
  hr_expires :: "int option"
  hr_metadata :: json

definition request_scope :: "hold_request \<Rightarrow> json" where
  "request_scope rq = ObjJ
     [(''orderType'', optText (lower_text (hr_orderType rq) 40)), (''category'', optText (lower_text (hr_category rq) 120)),
      (''menuItemId'', optText (hr_menuItem rq)), (''city'', optText (lower_text (hr_city rq) 120)),
      (''state'', optText (lower_text (hr_state rq) 120)), (''postalCode'', optText (lower_text (hr_postalCode rq) 120)),
      (''country'', optText (lower_text (hr_country rq) 120))]"

definition hold_spend :: "hold_request \<Rightarrow> spend_request" where
  "hold_spend rq =
     \<lparr>sr_customer = hr_customer rq, sr_partner = hr_partner rq, sr_participant = None, sr_surface = ''food_online'',
      sr_agreement = None, sr_orderType = hr_orderType rq, sr_category = hr_category rq, sr_categories = [],
      sr_menuItem = hr_menuItem rq, sr_menuItems = [], sr_city = hr_city rq, sr_state = hr_state rq,
      sr_postalCode = hr_postalCode rq, sr_country = hr_country rq, sr_excludeHold = None\<rparr>"

section \<open>Replays\<close>

record hold_replay =
  hq_columns :: "string option list"
  hq_expires :: "int option option"
  hq_scope :: json

definition hold_columns :: "int \<Rightarrow> int \<Rightarrow> string \<Rightarrow> string \<Rightarrow> string option \<Rightarrow> string option \<Rightarrow> string option \<Rightarrow> string option list" where
  "hold_columns amount partner agreement currency purpose refType refId =
     [Some (show_int amount), Some (show_int partner), Some agreement, Some currency, purpose, refType, refId]"

definition stored_hold_columns :: "hold \<Rightarrow> string option list" where
  "stored_hold_columns h = hold_columns (ho_amount h) (ho_partner h) (ho_agreement h) (ho_currency h) (ho_purpose h) (ho_refType h) (ho_refId h)"

definition json_falsy :: "json \<Rightarrow> bool" where
  "json_falsy v \<longleftrightarrow> v = NullJ \<or> v = BoolJ False \<or> v = IntJ 0 \<or> v = TextJ []"

definition assertHoldIdempotencyReplayMatches :: "hold \<Rightarrow> hold_replay \<Rightarrow> unit res" where
  "assertHoldIdempotencyReplayMatches existing requested =
     (let columns_ok = (map (map_option js_upper) (stored_hold_columns existing) = map (map_option js_upper) (hq_columns requested));
          expiry_ok = (case hq_expires requested of None \<Rightarrow> True | Some e \<Rightarrow> e = Some (ho_expires existing));
          scope_ok = (case field (normalizeMetadata (ho_metadata existing)) ''_oxsteedCreditRequest'' of
              None \<Rightarrow> True
            | Some scope \<Rightarrow> json_falsy scope \<or>
                stableStringify (normalizeMetadata scope) = stableStringify (normalizeMetadata (hq_scope requested))) in
      if columns_ok \<and> expiry_ok \<and> scope_ok then Inr () else Inl (AppError 409 ''credit_hold_idempotency_conflict''))"

definition findExistingCreditHoldForReplay :: "string \<Rightarrow> int \<Rightarrow> string \<Rightarrow> ledger \<Rightarrow> hold option res" where
  "findExistingCreditHoldForReplay customerId partnerId key db =
     (let rows = filter (\<lambda>h. ho_key h = key) (holds db);
          same = (\<lambda>h. ho_customer h = customerId \<and> ho_partner h = partnerId) in
      if rows = [] then Inr None
      else case find same rows of
             None \<Rightarrow> Inl (AppError 409 ''credit_hold_idempotency_conflict'')
           | Some h \<Rightarrow> if list_ex (\<lambda>x. \<not> same x) rows then Inl (AppError 409 ''credit_hold_idempotency_conflict'') else Inr (Some h))"

definition hold_replay_request :: "hold_request \<Rightarrow> int \<Rightarrow> string \<Rightarrow> string \<Rightarrow> int \<Rightarrow> hold_replay" where
  "hold_replay_request rq amount agreement currency expiry =
     \<lparr>hq_columns = hold_columns amount (hr_partner rq) agreement currency (normalizeString (hr_purpose rq) 100)
        (normalizeString (hr_refType rq) 80) (normalizeString (hr_refId rq) 160),
      hq_expires = (if hr_expires rq = None then None else Some (Some expiry)), hq_scope = request_scope rq\<rparr>"

section \<open>Creating a hold\<close>

definition hold_audit :: "string \<Rightarrow> hold \<Rightarrow> string option \<Rightarrow> string option \<Rightarrow> string option \<Rightarrow> string option \<Rightarrow> json \<Rightarrow> audit" where
  "hold_audit action h actor reason correlation ip after =
     \<lparr>au_action = action, au_actor = or_null actor, au_customer = Some (ho_customer h), au_partner = Some (ho_partner h),
      au_resource_type = ''credit_hold'', au_resource_id = ho_id h, au_reason = reason,
      au_correlation = normalizeString correlation 160, au_request_ip = or_null ip, au_before = NullJ, au_after = after,
      au_metadata = ObjJ []\<rparr>"

definition add_reserved :: "int \<Rightarrow> int \<Rightarrow> ledger \<Rightarrow> ledger" where
  "add_reserved i amount db =
     db\<lparr>accounts := upd_where (\<lambda>a. ac_id a = i) (\<lambda>a. a\<lparr>ac_reserved := ac_reserved a + amount\<rparr>) (accounts db)\<rparr>"

definition new_hold :: "hold_request \<Rightarrow> int \<Rightarrow> account \<Rightarrow> string \<Rightarrow> int \<Rightarrow> string \<Rightarrow> string \<Rightarrow> int \<Rightarrow> hold" where
  "new_hold rq i account agreement amount currency key expiry =
     \<lparr>ho_id = i, ho_account = ac_id account, ho_customer = hr_customer rq, ho_partner = hr_partner rq, ho_agreement = agreement,
      ho_amount = amount, ho_currency = currency, ho_status = HActive, ho_purpose = normalizeString (hr_purpose rq) 100,
      ho_refType = normalizeString (hr_refType rq) 80, ho_refId = normalizeString (hr_refId rq) 160, ho_key = key,
      ho_metadata = spread (normalizeMetadata (hr_metadata rq)) (ObjJ [(''_oxsteedCreditRequest'', request_scope rq)]),
      ho_expires = expiry, ho_capture_key = None, ho_captured_txn = None, ho_actor_type = None, ho_actor = None, ho_reason = None\<rparr>"

text \<open>\<open>INSERT ... ON CONFLICT (account_id, idempotency_key) DO NOTHING RETURNING *\<close>.\<close>

definition insertHold :: "hold \<Rightarrow> hold option credit" where
  "insertHold h = (\<lambda>db.
     if list_ex (\<lambda>x. ho_account x = ho_account h \<and> ho_key x = ho_key h) (holds db) then (Inr None, db)
     else (Inr (Some h), db\<lparr>holds := holds db @ [h]\<rparr>))"

definition account_hold :: "int \<Rightarrow> string \<Rightarrow> ledger \<Rightarrow> hold option" where
  "account_hold i key db = find (\<lambda>h. ho_account h = i \<and> ho_key h = key) (holds db)"

text \<open>The statements from the check of the available balance on.\<close>

definition reserveHold :: "config \<Rightarrow> hold_request \<Rightarrow> int \<Rightarrow> string \<Rightarrow> int \<Rightarrow> string \<Rightarrow> string \<Rightarrow> account \<Rightarrow> (hold \<times> bool) credit" where
  "reserveHold cf rq amount key expiry agreement currency account =
     (if ac_status account \<noteq> Active then fail (AppError 409 ''credit_account_inactive'')
      else if ac_balance account - ac_reserved account < amount then fail (AppError 409 ''credit_insufficient_funds'')
      else
        bind (gets (\<lambda>db. next_id (map ho_id (holds db)))) (\<lambda>i.
        bind (insertHold (new_hold rq i account agreement amount currency key expiry)) (\<lambda>inserted.
        case inserted of
          None \<Rightarrow>
            bind (gets (account_hold (ac_id account) key)) (\<lambda>winner.
            case winner of
              None \<Rightarrow> fail (AppError 409 ''credit_idempotency_retry_required'')
            | Some h \<Rightarrow>
                bind (lift_res (assertHoldIdempotencyReplayMatches h (hold_replay_request rq amount agreement currency expiry))) (\<lambda>_.
                ret (h, True)))
        | Some h \<Rightarrow>
            bind (modify (add_reserved (ac_id account) amount)) (\<lambda>_.
            bind (insertAudit (hold_audit ''credit.hold.created'' h (hr_actor rq) (ho_purpose h) (hr_correlation rq) (hr_ip rq)
               (ObjJ [(''amountCents'', IntJ amount), (''expiresAt'', IntJ expiry)]))) (\<lambda>_.
            ret (h, False))))))"

definition newHold :: "config \<Rightarrow> hold_request \<Rightarrow> int \<Rightarrow> string \<Rightarrow> int \<Rightarrow> (hold \<times> bool) credit" where
  "newHold cf rq amount key expiry =
     bind (assertCreditRailEnabled False) (\<lambda>_.
     bind (gets (findSpendAgreement cf (hold_spend rq) amount)) (\<lambda>agreed.
     bind (lift_res agreed) (\<lambda>agreement.
     bind (lift_res (assertSupportedCreditCurrency cf (Some (pa_currency (sw_partner agreement))))) (\<lambda>settlementCurrency.
     bind (if hr_currency rq = None then ret settlementCurrency
           else lift_res (assertSupportedCreditCurrency cf (code_of (hr_currency rq)))) (\<lambda>requestedCurrency.
     if requestedCurrency \<noteq> settlementCurrency then fail (AppError 409 ''credit_currency_mismatch'')
     else
       bind (gets (assertCustomerSpendCapacity cf (hr_customer rq) amount (Some settlementCurrency) None)) (\<lambda>capacity.
       bind (lift_res capacity) (\<lambda>_.
       bind (ensureAccount cf (customer_wallet (hr_customer rq)) (Some settlementCurrency) False) (\<lambda>account.
       bind (gets (account_hold (ac_id account) key)) (\<lambda>existing.
       case existing of
         Some h \<Rightarrow>
           bind (lift_res (assertHoldIdempotencyReplayMatches h
             (hold_replay_request rq amount (ag_id (sw_agreement agreement)) settlementCurrency expiry))) (\<lambda>_.
           ret (h, True))
       | None \<Rightarrow> reserveHold cf rq amount key expiry (ag_id (sw_agreement agreement)) settlementCurrency account)))))))))"

definition createCreditHoldInTransaction :: "config \<Rightarrow> hold_request \<Rightarrow> (hold \<times> bool) credit" where
  "createCreditHoldInTransaction cf rq =
     bind (lift_res (requireCustomerActor (hr_actor rq) (hr_customer rq) ''credit_hold_actor_required'')) (\<lambda>_.
     bind (lift_res (parseAmountCents cf (hr_amount rq) (hr_currency rq))) (\<lambda>amount.
     bind (require_key (hr_key rq)) (\<lambda>key.
     bind (lift_res (resolveHoldExpiry cf (hr_expires rq))) (\<lambda>expiry.
     bind (gets (findExistingCreditHoldForReplay (hr_customer rq) (hr_partner rq) key)) (\<lambda>found.
     bind (lift_res found) (\<lambda>existing.
     case existing of
       Some h \<Rightarrow>
         bind (lift_res (assertSupportedCreditCurrency cf (Some (ho_currency h)))) (\<lambda>settlementCurrency.
         bind (if hr_currency rq = None then ret settlementCurrency
               else lift_res (assertSupportedCreditCurrency cf (code_of (hr_currency rq)))) (\<lambda>requestedCurrency.
         if requestedCurrency \<noteq> settlementCurrency then fail (AppError 409 ''credit_currency_mismatch'')
         else
           bind (lift_res (assertHoldIdempotencyReplayMatches h
             (hold_replay_request rq amount (ho_agreement h) settlementCurrency expiry))) (\<lambda>_.
           ret (h, True))))
     | None \<Rightarrow> newHold cf rq amount key expiry))))))"

definition createCreditHold :: "config \<Rightarrow> hold_request \<Rightarrow> (hold \<times> bool) credit" where
  "createCreditHold cf rq = withTransaction (createCreditHoldInTransaction cf rq)"

section \<open>Releasing a hold\<close>

definition releaseHoldReservation :: "int \<Rightarrow> int \<Rightarrow> unit credit" where
  "releaseHoldReservation accountId amount =
     bind (gets (\<lambda>db. find (\<lambda>a. ac_id a = accountId \<and> amount \<le> ac_reserved a) (accounts db))) (\<lambda>row.
     case row of
       None \<Rightarrow> fail (AppError 409 ''credit_hold_reservation_invalid'')
     | Some _ \<Rightarrow> modify (\<lambda>db. db\<lparr>accounts :=
         upd_where (\<lambda>a. ac_id a = accountId \<and> amount \<le> ac_reserved a) (\<lambda>a. a\<lparr>ac_reserved := ac_reserved a - amount\<rparr>) (accounts db)\<rparr>))"

text \<open>\<open>UPDATE oxsteed_credit_holds SET ... WHERE id = i AND p RETURNING *\<close>.\<close>

definition updateHold :: "int \<Rightarrow> (hold \<Rightarrow> bool) \<Rightarrow> (hold \<Rightarrow> hold) \<Rightarrow> hold option credit" where
  "updateHold i p f =
     bind (gets (\<lambda>db. find (\<lambda>h. ho_id h = i \<and> p h) (holds db))) (\<lambda>row.
     bind (modify (\<lambda>db. db\<lparr>holds := upd_where (\<lambda>h. ho_id h = i \<and> p h) f (holds db)\<rparr>)) (\<lambda>_.
     ret (map_option f row)))"

record release_request =
  rl_customer :: string
  rl_hold :: int
  rl_actor :: "string option"
  rl_reason :: "string option"
  rl_correlation :: "string option"
  rl_ip :: "string option"

definition releaseCreditHold :: "config \<Rightarrow> release_request \<Rightarrow> (hold \<times> bool) credit" where
  "releaseCreditHold cf rq =
     bind (lift_res (requireCustomerActor (rl_actor rq) (rl_customer rq) ''credit_hold_release_actor_required'')) (\<lambda>_.
     withTransaction (
       bind (gets (\<lambda>db. find (\<lambda>h. ho_id h = rl_hold rq \<and> ho_customer h = rl_customer rq) (holds db))) (\<lambda>row.
       case row of
         None \<Rightarrow> fail (AppError 404 ''credit_hold_not_found'')
       | Some h \<Rightarrow>
           if ho_status h = HReleased \<or> ho_status h = HExpired then ret (h, True)
           else if ho_status h \<noteq> HActive then fail (AppError 409 ''credit_hold_state_invalid'')
           else
             bind (releaseHoldReservation (ho_account h) (ho_amount h)) (\<lambda>_.
             let releaseReason = (case normalizeString (rl_reason rq) 500 of None \<Rightarrow> ''Customer released credit hold'' | Some r \<Rightarrow> r);
                 actor = text_or (rl_actor rq) (Some (rl_customer rq));
                 released = (\<lambda>x. x\<lparr>ho_status := HReleased, ho_actor := actor, ho_actor_type := Some ''customer'', ho_reason := Some releaseReason\<rparr>) in
             bind (updateHold (ho_id h) (\<lambda>_. True) released) (\<lambda>_.
             bind (insertAudit (hold_audit ''credit.hold.released'' h actor (Some releaseReason) (rl_correlation rq) (rl_ip rq) NullJ)) (\<lambda>_.
             ret (released h, False)))))))"

section \<open>Capturing a hold\<close>

text \<open>\<open>cq_order\<close> carries the order fields; its customer, partner, agreement and excluded hold are those of the hold.\<close>

record capture_request =
  cq_hold :: int
  cq_amount :: "jsnum option"
  cq_currency :: currency_arg
  cq_key :: "string option"
  cq_actor :: "string option"
  cq_actorType :: "string option"
  cq_order :: spend_request
  cq_refType :: "string option"
  cq_refId :: "string option"
  cq_correlation :: "string option"
  cq_ip :: "string option"
  cq_description :: "string option"
  cq_reason :: "string option"
  cq_metadata :: json
  cq_allowAdjust :: bool

record capture_result =
  cr_hold :: hold
  cr_posting :: "posting option"
  cr_expired :: bool
  cr_replayed :: bool

definition capture_actor_type :: "capture_request \<Rightarrow> string" where
  "capture_actor_type rq = (case normalizeString (cq_actorType rq) 20 of None \<Rightarrow> ''admin'' | Some t \<Rightarrow> t)"

definition capture_refType :: "capture_request \<Rightarrow> hold \<Rightarrow> string option" where
  "capture_refType rq h = normalizeString (text_or (cq_refType rq) (text_or (ho_refType h) (Some ''credit_hold''))) 80"

definition capture_refId :: "capture_request \<Rightarrow> hold \<Rightarrow> string option" where
  "capture_refId rq h = normalizeString (text_or (cq_refId rq) (text_or (ho_refId h) (Some (show_int (ho_id h))))) 160"

definition capture_description :: "capture_request \<Rightarrow> hold \<Rightarrow> string option" where
  "capture_description rq h = text_or (cq_description rq) (text_or (ho_purpose h) (Some ''OxSteed Credit hold capture''))"

definition capture_metadata :: "capture_request \<Rightarrow> hold \<Rightarrow> int \<Rightarrow> json" where
  "capture_metadata rq h amount =
     spread (spread (normalizeMetadata (ho_metadata h)) (normalizeMetadata (cq_metadata rq)))
       (ObjJ ((''capturedHoldId'', TextJ (show_int (ho_id h))) #
         (if amount \<noteq> ho_amount h then [(''adjustedFromCents'', IntJ (ho_amount h)), (''adjustedToCents'', IntJ amount)] else [])))"

text \<open>The purchase a capture made before capture keys had their own name space.\<close>

definition findLegacyCapturePurchase :: "string \<Rightarrow> hold \<Rightarrow> ledger \<Rightarrow> txn option" where
  "findLegacyCapturePurchase captureKey h db =
     (case find (\<lambda>t. tx_key t = captureKey \<and> tx_type t = ''purchase'' \<and> tx_status t = ''posted'' \<and> account_row db (tx_debit t) \<noteq> None) (txns db) of
        None \<Rightarrow> None
      | Some t \<Rightarrow>
          if \<not> debit_of db t (\<lambda>a. string_of (ac_customer a) = ho_customer h) then None
          else if (case field (normalizeMetadata (tx_metadata t)) ''capturedHoldId'' of
                None \<Rightarrow> [] | Some v \<Rightarrow> if json_falsy v then [] else js_String v) \<noteq> show_int (ho_id h) then None
          else Some t)"

definition capture_purchase :: "config \<Rightarrow> capture_request \<Rightarrow> hold \<Rightarrow> int \<Rightarrow> string \<Rightarrow> purchase_request" where
  "capture_purchase cf rq h amount captureKey =
     \<lparr>pu_spend = (cq_order rq)\<lparr>sr_customer := ho_customer h, sr_partner := ho_partner h, sr_participant := None,
        sr_surface := ''food_online'', sr_agreement := Some (ho_agreement h), sr_excludeHold := Some (ho_id h)\<rparr>,
      pu_amount = JInt amount, pu_currency = Some (Some (ho_currency h)),
      pu_key = Some (''capture:'' @ cf_sha256 cf captureKey), pu_actor = cq_actor rq, pu_actorType = Some (capture_actor_type rq),
      pu_refType = capture_refType rq h, pu_refId = capture_refId rq h, pu_correlation = cq_correlation rq, pu_ip = cq_ip rq,
      pu_description = capture_description rq h, pu_metadata = capture_metadata rq h amount\<rparr>"

text \<open>The reservation goes first; if the purchase throws, what was released is reserved again and the error goes on.\<close>

definition purchaseForCapture :: "config \<Rightarrow> capture_request \<Rightarrow> hold \<Rightarrow> int \<Rightarrow> string \<Rightarrow> posting credit" where
  "purchaseForCapture cf rq h amount captureKey =
     bind (gets (findLegacyCapturePurchase captureKey h)) (\<lambda>legacy.
     case legacy of
       Some t \<Rightarrow> gets (\<lambda>db. \<lparr>po_txn = t, po_entries = loadAccountEntries db (tx_id t), po_replayed = True\<rparr>)
     | None \<Rightarrow>
         let releaseAmount = (if amount \<noteq> ho_amount h then ho_amount h else amount) in
         bind (releaseHoldReservation (ho_account h) releaseAmount) (\<lambda>_.
         try_catch (purchaseWithCreditInTransaction cf (capture_purchase cf rq h amount captureKey))
           (\<lambda>purchaseError. bind (modify (add_reserved (ho_account h) releaseAmount)) (\<lambda>_. fail purchaseError))))"

text \<open>The capture key is unique over the holds; the savepoint turns the violation into a conflict.\<close>

definition claimCapture :: "capture_request \<Rightarrow> hold \<Rightarrow> string \<Rightarrow> posting \<Rightarrow> hold credit" where
  "claimCapture rq h captureKey posting =
     (let captured = (\<lambda>x. x\<lparr>ho_status := HCaptured, ho_capture_key := Some captureKey, ho_captured_txn := Some (tx_id (po_txn posting)),
            ho_actor_type := Some (capture_actor_type rq), ho_actor := or_null (cq_actor rq),
            ho_reason := Some (case normalizeString (cq_reason rq) 500 of None \<Rightarrow> ''System hold capture'' | Some r \<Rightarrow> r)\<rparr>) in
      try_catch
        (withTransaction (
           bind (gets (\<lambda>db. list_ex (\<lambda>x. ho_id x \<noteq> ho_id h \<and> ho_capture_key x = Some captureKey) (holds db))) (\<lambda>taken.
           if taken then fail (PgError ''23505'')
           else bind (updateHold (ho_id h) (\<lambda>x. ho_status x = HActive) captured) (\<lambda>row.
                ret (case row of None \<Rightarrow> h | Some x \<Rightarrow> x)))))
        (\<lambda>e. if e = PgError ''23505'' then fail (AppError 409 ''credit_hold_capture_idempotency_conflict'') else fail e))"

definition expireInCapture :: "config \<Rightarrow> capture_request \<Rightarrow> hold \<Rightarrow> capture_result credit" where
  "expireInCapture cf rq h =
     (let expired = (\<lambda>x. x\<lparr>ho_status := HExpired, ho_actor_type := Some ''system'', ho_reason := Some ''Hold expired before capture''\<rparr>) in
      bind (releaseHoldReservation (ho_account h) (ho_amount h)) (\<lambda>_.
      bind (updateHold (ho_id h) (\<lambda>x. ho_status x = HActive) expired) (\<lambda>row.
      bind (insertAudit (hold_audit ''credit.hold.expired'' h (cq_actor rq)
          (Some (case normalizeString (cq_reason rq) 500 of None \<Rightarrow> ''Hold expired before capture'' | Some r \<Rightarrow> r))
          (cq_correlation rq) (cq_ip rq) (ObjJ [(''amountCents'', IntJ (ho_amount h))]))) (\<lambda>_.
      ret \<lparr>cr_hold = (case row of None \<Rightarrow> h\<lparr>ho_status := HExpired\<rparr> | Some x \<Rightarrow> x), cr_posting = None, cr_expired = True,
           cr_replayed = False\<rparr>))))"

definition replayCapture :: "capture_request \<Rightarrow> hold \<Rightarrow> int \<Rightarrow> capture_result credit" where
  "replayCapture rq h amount =
     bind (gets (\<lambda>db. Option.bind (ho_captured_txn h) (\<lambda>i. getExistingTransactionById i db))) (\<lambda>found.
     case found of
       None \<Rightarrow> fail (AppError 500 ''credit_hold_capture_incomplete'')
     | Some t \<Rightarrow>
         bind (lift_res (assertIdempotencyReplayMatches t
           \<lparr>rq_columns = txn_columns ''purchase'' (tx_debit t) (tx_credit t) amount (ho_currency h) (Some (ho_partner h))
              (Some (ho_agreement h)) (capture_refType rq h) (capture_refId rq h),
            rq_reason = None, rq_description = Some (capture_description rq h), rq_metadata = Some (capture_metadata rq h amount)\<rparr>)) (\<lambda>_.
         gets (\<lambda>db. \<lparr>cr_hold = h,
           cr_posting = Some \<lparr>po_txn = t, po_entries = loadAccountEntries db (tx_id t), po_replayed = True\<rparr>,
           cr_expired = False, cr_replayed = True\<rparr>)))"

definition captureActive :: "config \<Rightarrow> capture_request \<Rightarrow> hold \<Rightarrow> int \<Rightarrow> string \<Rightarrow> capture_result credit" where
  "captureActive cf rq h amount captureKey =
     bind (gets (\<lambda>db. account_row db (ho_account h))) (\<lambda>row.
     if (case row of None \<Rightarrow> True | Some a \<Rightarrow> ac_reserved a < amount)
     then fail (AppError 409 ''credit_hold_reservation_invalid'')
     else
       bind (purchaseForCapture cf rq h amount captureKey) (\<lambda>posting.
       bind (claimCapture rq h captureKey posting) (\<lambda>captured.
       bind (insertAudit (hold_audit ''credit.hold.captured'' h (cq_actor rq) (normalizeString (cq_reason rq) 500)
          (cq_correlation rq) (cq_ip rq)
          (ObjJ [(''amountCents'', IntJ amount), (''transactionId'', TextJ (show_int (tx_id (po_txn posting))))]))) (\<lambda>_.
       ret \<lparr>cr_hold = captured, cr_posting = Some posting, cr_expired = False, cr_replayed = False\<rparr>))))"

definition captureCreditHoldInTransaction :: "config \<Rightarrow> capture_request \<Rightarrow> capture_result credit" where
  "captureCreditHoldInTransaction cf rq =
     bind (require_key (cq_key rq)) (\<lambda>captureKey.
     if capture_actor_type rq \<notin> {''admin'', ''system''} then fail (AppError 400 ''credit_capture_actor_invalid'')
     else if capture_actor_type rq = ''admin'' \<and> normalizeString (cq_reason rq) 500 = None
     then fail (AppError 400 ''credit_capture_reason_required'')
     else if capture_actor_type rq = ''admin'' \<and> falsy (cq_actor rq) then fail (AppError 400 ''credit_capture_actor_required'')
     else
       bind (gets (\<lambda>db. find (\<lambda>h. ho_id h = cq_hold rq \<and> account_row db (ho_account h) \<noteq> None) (holds db))) (\<lambda>found.
       case found of
         None \<Rightarrow> fail (AppError 404 ''credit_hold_not_found'')
       | Some h \<Rightarrow>
           bind (if cq_currency rq = None then ret True
                 else bind (lift_res (assertSupportedCreditCurrency cf (code_of (cq_currency rq)))) (\<lambda>requested.
                      bind (lift_res (assertSupportedCreditCurrency cf (Some (ho_currency h)))) (\<lambda>held.
                      ret (requested = held)))) (\<lambda>sameCurrency.
           if \<not> sameCurrency then fail (AppError 409 ''credit_currency_mismatch'')
           else if \<not> falsy (ho_capture_key h) \<and> ho_capture_key h \<noteq> Some captureKey
           then fail (AppError 409 ''credit_hold_capture_idempotency_conflict'')
           else
             bind (case cq_amount rq of
                 None \<Rightarrow> ret (ho_amount h)
               | Some v \<Rightarrow> lift_res (parseAmountCents cf v (Some (Some (ho_currency h))))) (\<lambda>amount.
             if amount \<noteq> ho_amount h \<and> \<not> cq_allowAdjust rq then fail (AppError 409 ''credit_hold_amount_mismatch'')
             else if ho_status h = HCaptured then replayCapture rq h amount
             else if ho_status h \<noteq> HActive then fail (AppError 409 ''credit_hold_state_invalid'')
             else if ho_expires h \<le> cf_now cf then expireInCapture cf rq h
             else captureActive cf rq h amount captureKey))))"

definition captureCreditHold :: "config \<Rightarrow> capture_request \<Rightarrow> capture_result credit" where
  "captureCreditHold cf rq = withTransaction (captureCreditHoldInTransaction cf rq)"

section \<open>Expiring holds in batches\<close>

record expiry_result =
  ex_expired :: "hold list"
  ex_failed :: "(int \<times> js_error) list"

definition expiry_batch :: "config \<Rightarrow> string \<Rightarrow> ledger \<Rightarrow> hold list" where
  "expiry_batch cf limit_text db =
     (let n = (case parse_int limit_text of JFin q \<Rightarrow> if q = 0 then 100 else \<lfloor>q\<rfloor> | _ \<Rightarrow> 100) in
      take (nat (max 1 (min n 500)))
        (sort_key ho_expires (filter (\<lambda>h. ho_status h = HActive \<and> ho_expires h \<le> cf_db_now cf) (holds db))))"

definition expireHold :: "string option \<Rightarrow> hold \<Rightarrow> hold option credit" where
  "expireHold actorUserId h =
     (let expired = (\<lambda>x. x\<lparr>ho_status := HExpired, ho_actor_type := Some ''system'', ho_reason := Some ''Scheduled hold expiry''\<rparr>) in
      bind (releaseHoldReservation (ho_account h) (ho_amount h)) (\<lambda>_.
      bind (updateHold (ho_id h) (\<lambda>x. ho_status x = HActive) expired) (\<lambda>row.
      case row of
        None \<Rightarrow> ret None
      | Some x \<Rightarrow>
          bind (insertAudit (hold_audit ''credit.hold.expired'' h actorUserId (Some ''Scheduled hold expiry'') None None
             (ObjJ [(''amountCents'', IntJ (ho_amount h))]))) (\<lambda>_.
          ret (Some x)))))"

text \<open>Each hold expires under its own savepoint: what it throws is noted and undone, and the batch goes on.\<close>

fun expireAll :: "string option \<Rightarrow> hold list \<Rightarrow> expiry_result \<Rightarrow> expiry_result credit" where
  "expireAll actorUserId [] acc = ret acc"
| "expireAll actorUserId (h # hs) acc =
     bind (try_catch
        (bind (withTransaction (expireHold actorUserId h)) (\<lambda>row.
           ret (case row of None \<Rightarrow> acc | Some x \<Rightarrow> acc\<lparr>ex_expired := ex_expired acc @ [x]\<rparr>)))
        (\<lambda>e. ret (acc\<lparr>ex_failed := ex_failed acc @ [(ho_id h, e)]\<rparr>)))
     (expireAll actorUserId hs)"

definition expireCreditHolds :: "config \<Rightarrow> string \<Rightarrow> string option \<Rightarrow> expiry_result credit" where
  "expireCreditHolds cf limit_text actorUserId =
     withTransaction (
       bind (gets (expiry_batch cf limit_text)) (\<lambda>rows.
       expireAll actorUserId rows \<lparr>ex_expired = [], ex_failed = []\<rparr>))"

end
