(* ===== verification/CreditContracts.thy ===== *)
theory CreditContracts
  imports CreditHolds
begin

text \<open>
  The operations on customer wallets against the contracts of the journal. In \<open>posting_contract\<close> every
  operation that only posts keeps any promise of the journal; \<open>wallet_contract\<close> adds what statuses,
  reservations and holds need. Both are interpreted on balances, coverage, double entry, ownership
  and the sealed journal.
\<close>

section \<open>Operations that post\<close>

lemma commits_rail: "commits I (assertCreditRailEnabled b)"
  by (rule commitsI) (simp add: assertCreditRailEnabled_def split: if_splits)

lemma commits_require_key: "commits I (require_key k)"
  unfolding require_key_def by (intro commits_intros)

lemma commits_case_prod_pair [commits_intros]:
  "(\<And>a b. commits I (f a b)) \<Longrightarrow> commits I (case_prod f x)"
  by (cases x) simp

lemma commits_withTransaction: "commits I m \<Longrightarrow> commits I (withTransaction m)"
  by (auto simp: commits_def)

lemma commits_try_fail:
  "commits I m \<Longrightarrow> (\<And>e s a t. h e s \<noteq> (Inr a, t)) \<Longrightarrow> commits I (try_catch m h)"
  by (auto simp: commits_def try_catch_def split: prod.splits sum.splits)

lemmas handler_intros = commits_rail commits_require_key commits_withTransaction

context posting_contract
begin

lemmas op_intros = contract_intros handler_intros audited

lemma loads: "commits (promise cf) (loadCustomerCredit cf rq)"
  unfolding loadCustomerCredit_def loadCustomerCreditInTransaction_def by (intro op_intros)

lemma purchases: "commits (promise cf) (purchaseWithCreditInTransaction cf rq)"
  unfolding purchaseWithCreditInTransaction_def replayPurchase_def by (intro op_intros)

lemma screens: "commits (promise cf) (screenSubjectIfStale cf ty i force)"
proof (rule commitsI)
  fix db s db' assume p: "promise cf db" and r: "screenSubjectIfStale cf ty i force db = (Inr s, db')"
  from r show "promise cf db'"
  proof (cases rule: screenSubjectIfStale_Inr)
    case (asked provider)
    from tables [where scs = "screenings db @ [s]" and cs = "cases db" and gs = "guest_days db", OF p] asked(5) show ?thesis by simp
  qed (use p in simp)
qed

lemma clears: "commits (promise cf) (assertSanctionsClear cf ty i)"
  unfolding assertSanctionsClear_def by (intro op_intros screens)

lemma transfers: "commits (promise cf) (transferCreditInTransaction cf rq)"
  unfolding transferCreditInTransaction_def newTransfer_def chargeTransferFee_def by (intro op_intros clears)

lemma adjusts: "commits (promise cf) (adjustCustomerCreditInTransaction cf rq)"
  unfolding adjustCustomerCreditInTransaction_def by (intro op_intros)

lemma refunds: "commits (promise cf) (refundCreditInTransaction cf rq)"
  unfolding refundCreditInTransaction_def by (intro op_intros)

lemma refunds_by_reference: "commits (promise cf) (refundCreditForReferenceInTransaction cf ty i rq)"
  unfolding refundCreditForReferenceInTransaction_def by (intro op_intros refunds)

lemma decides: "commits (promise cf) (decideSanctionsScreening cf i decision actor reason ip)"
proof -
  have s: "commits (promise cf) (modify (\<lambda>db. db\<lparr>screenings := f db\<rparr>))" for f
  proof (rule commits_modify)
    fix db assume "promise cf db"
    from tables [where scs = "f db" and cs = "cases db" and gs = "guest_days db", OF this] show "promise cf (db\<lparr>screenings := f db\<rparr>)" by simp
  qed
  have o: "commits (promise cf) (openComplianceCase cf a b c d e k)" for a b c d e k
  proof (rule commitsI)
    fix db r db' assume p: "promise cf db" and r: "openComplianceCase cf a b c d e k db = (Inr r, db')"
    obtain cs where "db' = db\<lparr>cases := cs\<rparr> \<or> db' = db"
      using r by (auto simp: openComplianceCase_def Let_def split: if_splits option.splits)
    with p tables [where scs = "screenings db" and cs = cs and gs = "guest_days db", OF p] show "promise cf db'" by auto
  qed
  show ?thesis unfolding decideSanctionsScreening_def by (intro op_intros s o)
qed

end

section \<open>Hold amounts\<close>

text \<open>The database lets only positive amounts into the table of holds; so does the code.\<close>

definition hold_amounts_ok :: "ledger \<Rightarrow> bool" where
  "hold_amounts_ok db \<longleftrightarrow> list_all (\<lambda>h. 0 < ho_amount h) (holds db)"

definition with_amounts :: "(config \<Rightarrow> ledger \<Rightarrow> bool) \<Rightarrow> config \<Rightarrow> ledger \<Rightarrow> bool" where
  "with_amounts promise cf db \<longleftrightarrow> promise cf db \<and> hold_amounts_ok db"

lemma post_holds:
  assumes "postJournalTransaction cf inp db = (Inr p, db')"
  shows "holds db' = holds db"
  using assms
proof (cases rule: postJournalTransaction_Inr)
  case replayed
  then show ?thesis by (simp add: replayTransaction_Inr)
next
  case moved
  show ?thesis by (rule moved_frame(3) [OF moved(13)])
qed

lemma hold_amounts_frame: "holds db' = holds db \<Longrightarrow> hold_amounts_ok db' = hold_amounts_ok db"
  by (simp add: hold_amounts_ok_def)

interpretation hold_amounts: posting_contract "\<lambda>_. hold_amounts_ok"
proof
  show "commits hold_amounts_ok (postJournalTransaction cf inp)" for cf inp
    by (rule commitsI) (simp add: hold_amounts_frame [OF post_holds])
  show "commits hold_amounts_ok (ensureAccount cf w code anyOwner)" for cf w code anyOwner
    by (rule commitsI) (simp add: hold_amounts_frame [OF ensure_txns(3)])
qed (simp_all add: hold_amounts_ok_def)

lemma commits_conj: "commits I m \<Longrightarrow> commits J m \<Longrightarrow> commits (\<lambda>s. I s \<and> J s) m"
  by (auto simp: commits_def)

lemma commits_gets_bind:
  assumes "\<And>s. I s \<Longrightarrow> commits I (f (g s))"
  shows "commits I (bind (gets g) f)"
proof (rule commitsI)
  fix s a t assume "I s" and "bind (gets g) f s = (Inr a, t)"
  then show "I t" using commitsD [OF assms [OF \<open>I s\<close>] \<open>I s\<close>] by (simp add: bind_apply)
qed

section \<open>The steps of holds\<close>

lemma releaseHoldReservation_Inr:
  assumes "releaseHoldReservation i amount db = (Inr u, db')"
  obtains a where "a \<in> set (accounts db)" "ac_id a = i" "amount \<le> ac_reserved a"
    "db' = db\<lparr>accounts := upd_where (\<lambda>a. ac_id a = i \<and> amount \<le> ac_reserved a) (\<lambda>a. a\<lparr>ac_reserved := ac_reserved a - amount\<rparr>) (accounts db)\<rparr>"
proof (cases "find (\<lambda>a. ac_id a = i \<and> amount \<le> ac_reserved a) (accounts db)")
  case (Some a)
  with assms have "db' = db\<lparr>accounts := upd_where (\<lambda>a. ac_id a = i \<and> amount \<le> ac_reserved a)
      (\<lambda>a. a\<lparr>ac_reserved := ac_reserved a - amount\<rparr>) (accounts db)\<rparr>"
    by (simp add: releaseHoldReservation_def bind_apply)
  with find_SomeD [OF Some] that show ?thesis by blast
qed (use assms in \<open>simp add: releaseHoldReservation_def bind_apply\<close>)

lemma updateHold_Inr:
  "updateHold i p f db = (Inr r, db') \<longleftrightarrow>
   r = map_option f (find (\<lambda>h. ho_id h = i \<and> p h) (holds db)) \<and>
   db' = db\<lparr>holds := upd_where (\<lambda>h. ho_id h = i \<and> p h) f (holds db)\<rparr>"
  by (auto simp: updateHold_def bind_apply)

lemma add_reserved_frame [simp]:
  "holds (add_reserved i n db) = holds db" "audits (add_reserved i n db) = audits db" "txns (add_reserved i n db) = txns db"
  "entries (add_reserved i n db) = entries db" "screenings (add_reserved i n db) = screenings db"
  by (simp_all add: add_reserved_def)

lemma set_status_frame [simp]:
  "holds (set_status i n db) = holds db" "audits (set_status i n db) = audits db" "txns (set_status i n db) = txns db"
  "entries (set_status i n db) = entries db" "screenings (set_status i n db) = screenings db"
  by (simp_all add: set_status_def)

text \<open>A hold that was created, from the request to the last statement.\<close>

lemma reserveHold_Inr:
  assumes "reserveHold cf rq amount key expiry agreement currency account db = (Inr r, db')"
    and "account_hold (ac_id account) key db = None"
  obtains x where
    "ac_status account = Active" "amount \<le> ac_balance account - ac_reserved account"
    "r = (new_hold rq (next_id (map ho_id (holds db))) account agreement amount currency key expiry, False)"
    "db' = (add_reserved (ac_id account) amount db)\<lparr>holds := holds db @ [fst r], audits := audits db @ [x]\<rparr>"
proof -
  have g: "ac_status account = Active" "amount \<le> ac_balance account - ac_reserved account"
    using assms(1) by (auto simp: reserveHold_def split: if_splits)
  let ?h = "new_hold rq (next_id (map ho_id (holds db))) account agreement amount currency key expiry"
  let ?x = "hold_audit ''credit.hold.created'' ?h (hr_actor rq) (ho_purpose ?h) (hr_correlation rq) (hr_ip rq)
               (ObjJ [(''amountCents'', IntJ amount), (''expiresAt'', IntJ expiry)])"
  have "\<not> list_ex (\<lambda>x. ho_account x = ho_account ?h \<and> ho_key x = ho_key ?h) (holds db)"
    using assms(2) by (auto simp: account_hold_def find_None_iff list_ex_iff new_hold_def)
  with assms(1) g have r: "r = (?h, False)"
    and d: "db' = (add_reserved (ac_id account) amount db)\<lparr>holds := holds db @ [?h], audits := audits db @ [?x]\<rparr>"
    by (auto simp: reserveHold_def bind_apply insertHold_def insertAudit_def add_reserved_def)
  show thesis by (rule that [OF g r]) (simp only: d r fst_conv)
qed

lemma createCreditHoldInTransaction_Inr:
  assumes "createCreditHoldInTransaction cf rq db = (Inr r, db')"
  obtains (replayed) "snd r" "db' = db \<or> (\<exists>w code a. ensureAccount cf w code False db = (Inr a, db'))"
      "fst r \<in> set (holds db')"
  | (created) amount key expiry agreement currency account mid x where
    "requireCustomerActor (hr_actor rq) (hr_customer rq) ''credit_hold_actor_required'' = Inr ()"
    "parseAmountCents cf (hr_amount rq) (hr_currency rq) = Inr amount"
    "resolveHoldExpiry cf (hr_expires rq) = Inr expiry"
    "findExistingCreditHoldForReplay (hr_customer rq) (hr_partner rq) key db = Inr None"
    "isCreditRailEnabled db" "\<not> frozen db"
    "findSpendAgreement cf (hold_spend rq) amount db = Inr agreement"
    "assertCustomerSpendCapacity cf (hr_customer rq) amount (Some currency) None db = Inr ()"
    "ensureAccount cf (customer_wallet (hr_customer rq)) (Some currency) False db = (Inr account, mid)"
    "ac_status account = Active" "amount \<le> ac_balance account - ac_reserved account"
    "r = (new_hold rq (next_id (map ho_id (holds mid))) account (ag_id (sw_agreement agreement)) amount currency key expiry, False)"
    "db' = (add_reserved (ac_id account) amount mid)\<lparr>holds := holds mid @ [fst r], audits := audits mid @ [x]\<rparr>"
proof -
  from assms obtain amount key expiry existing where
    c: "requireCustomerActor (hr_actor rq) (hr_customer rq) ''credit_hold_actor_required'' = Inr ()"
      "parseAmountCents cf (hr_amount rq) (hr_currency rq) = Inr amount"
      "resolveHoldExpiry cf (hr_expires rq) = Inr expiry"
      "findExistingCreditHoldForReplay (hr_customer rq) (hr_partner rq) key db = Inr existing"
      "require_key (hr_key rq) db = (Inr key, db)"
    unfolding createCreditHoldInTransaction_def
    by (auto simp: bind_Inr_iff require_key_def split: option.splits)
  show thesis
  proof (cases existing)
    case (Some h)
    have "h \<in> set (holds db)"
      using c(4) Some by (auto simp: findExistingCreditHoldForReplay_def Let_def split: if_splits option.splits dest!: find_SomeD)
    with assms c Some have "r = (h, True)" "db' = db"
      by (auto simp: createCreditHoldInTransaction_def bind_apply split: sum.splits if_splits)
    with replayed \<open>h \<in> set (holds db)\<close> show thesis by simp
  next
    case None
    with assms c have n: "newHold cf rq amount key expiry db = (Inr r, db')"
      by (simp add: createCreditHoldInTransaction_def bind_apply)
    then obtain agreement currency account mid where
      d: "isCreditRailEnabled db" "\<not> frozen db" "findSpendAgreement cf (hold_spend rq) amount db = Inr agreement"
        "assertCustomerSpendCapacity cf (hr_customer rq) amount (Some currency) None db = Inr ()"
        "ensureAccount cf (customer_wallet (hr_customer rq)) (Some currency) False db = (Inr account, mid)"
      and rest: "(case account_hold (ac_id account) key mid of
         Some h \<Rightarrow>
           bind (lift_res (assertHoldIdempotencyReplayMatches h
             (hold_replay_request rq amount (ag_id (sw_agreement agreement)) currency expiry))) (\<lambda>_.
           ret (h, True))
       | None \<Rightarrow> reserveHold cf rq amount key expiry (ag_id (sw_agreement agreement)) currency account) mid = (Inr r, db')"
      unfolding newHold_def
      by (auto simp: bind_Inr_iff assertCreditRailEnabled_def assertCreditRailNotFrozen_def split: if_splits)
    show thesis
    proof (cases "account_hold (ac_id account) key mid")
      case (Some h)
      then have "h \<in> set (holds mid)" by (auto simp: account_hold_def dest: find_SomeD)
      with rest Some have "r = (h, True)" "db' = mid" "h \<in> set (holds db')" by (auto simp: bind_Inr_iff)
      with replayed d(5) show thesis by auto
    next
      case new: None
      with rest have "reserveHold cf rq amount key expiry (ag_id (sw_agreement agreement)) currency account mid = (Inr r, db')" by simp
      from this new show thesis
        by (rule reserveHold_Inr) (rule created [OF c(1-3) _ d(1-5)], use c(4) None in simp_all)
    qed
  qed
qed

section \<open>Operations that reserve\<close>

locale wallet_contract = posting_contract +
  assumes status: "promise cf db \<Longrightarrow> promise cf (set_status i new db)"
    and reserve: "promise cf db \<Longrightarrow> a \<in> set (accounts db) \<Longrightarrow> 0 < amount \<Longrightarrow> amount \<le> ac_balance a - ac_reserved a \<Longrightarrow>
      promise cf (add_reserved (ac_id a) amount db)"
    and unreserve: "0 < amount \<Longrightarrow> commits (promise cf) (releaseHoldReservation i amount)"
    and holds: "promise cf db \<Longrightarrow> promise cf (db\<lparr>holds := hs\<rparr>)"

lemma commits_with_amounts:
  "commits (promise cf) m \<Longrightarrow> commits hold_amounts_ok m \<Longrightarrow> commits (with_amounts promise cf) m"
  unfolding with_amounts_def by (rule commits_conj)

sublocale wallet_contract \<subseteq> amounts: posting_contract "with_amounts promise"
proof
  show "commits (with_amounts promise cf) (postJournalTransaction cf inp)" for cf inp
    by (rule commits_with_amounts) (rule post hold_amounts.post)+
  show "commits (with_amounts promise cf) (ensureAccount cf w code anyOwner)" for cf w code anyOwner
    by (rule commits_with_amounts) (rule ensure hold_amounts.ensure)+
qed (auto simp: with_amounts_def intro: log tables hold_amounts.log hold_amounts.tables)

context wallet_contract
begin

lemma releases:
  assumes "0 < amount"
  shows "commits (with_amounts promise cf) (releaseHoldReservation i amount)"
proof (rule commits_with_amounts [OF unreserve [OF assms]], rule commitsI)
  fix db u db' assume h: "hold_amounts_ok db" and r: "releaseHoldReservation i amount db = (Inr u, db')"
  from r show "hold_amounts_ok db'" by (rule releaseHoldReservation_Inr) (use h in \<open>simp add: hold_amounts_ok_def\<close>)
qed

lemma updates:
  assumes "\<And>h. ho_amount (f h) = ho_amount h"
  shows "commits (with_amounts promise cf) (updateHold i p f)"
proof (rule commitsI)
  fix db r db' assume h: "with_amounts promise cf db" and "updateHold i p f db = (Inr r, db')"
  then have db': "db' = db\<lparr>holds := upd_where (\<lambda>h. ho_id h = i \<and> p h) f (ledger.holds db)\<rparr>" by (simp add: updateHold_Inr)
  with h assms show "with_amounts promise cf db'"
    by (auto simp: with_amounts_def hold_amounts_ok_def list_all_iff set_upd_where intro: holds)
qed

lemma statuses: "commits (with_amounts promise cf) (updateCustomerCreditAccountStatus cf rq)"
proof -
  have "commits (with_amounts promise cf) (modify (set_status i new))" for i new
    by (rule commits_modify) (auto simp: with_amounts_def status, simp add: hold_amounts_ok_def set_status_def)
  then show ?thesis unfolding updateCustomerCreditAccountStatus_def by (intro amounts.op_intros)
qed

lemma creates: "commits (with_amounts promise cf) (createCreditHoldInTransaction cf rq)"
proof (rule commitsI)
  fix db r db' assume p: "with_amounts promise cf db" and r: "createCreditHoldInTransaction cf rq db = (Inr r, db')"
  from r show "with_amounts promise cf db'"
  proof (cases rule: createCreditHoldInTransaction_Inr)
    case replayed
    with p commitsD [OF amounts.ensure p] show ?thesis by blast
  next
    case (created amount key expiry agreement currency account mid x)
    have m: "with_amounts promise cf mid" by (rule commitsD [OF amounts.ensure p created(9)])
    have a: "account \<in> set (accounts mid)" using created(9) by (rule ensureAccount_Inr)
    have pos: "0 < amount" by (rule parseAmountCents_pos [OF created(2)])
    have "promise cf (add_reserved (ac_id account) amount mid)"
      using m a pos created(11) by (intro reserve) (simp_all add: with_amounts_def)
    from log [OF holds [OF this, of "ledger.holds mid @ [fst r]"], of x]
    have "promise cf db'" unfolding created(13) by simp
    moreover have "hold_amounts_ok db'"
      using m pos unfolding created(12,13) by (simp add: with_amounts_def hold_amounts_ok_def new_hold_def)
    ultimately show ?thesis by (simp add: with_amounts_def)
  qed
qed

text \<open>A hold that was read from the table has a positive amount.\<close>

lemma find_hold_amount:
  "with_amounts promise cf db \<Longrightarrow> find p (ledger.holds db) = Some h \<Longrightarrow> 0 < ho_amount h"
  by (auto simp: with_amounts_def hold_amounts_ok_def list_all_iff dest: find_SomeD)

lemma hold_releases: "commits (with_amounts promise cf) (releaseCreditHold cf rq)"
  unfolding releaseCreditHold_def
  by (intro amounts.op_intros commits_gets_bind releases updates) (auto dest: find_hold_amount)

lemma claims: "commits (with_amounts promise cf) (claimCapture rq h key p)"
  unfolding claimCapture_def Let_def
  by (intro commits_try_fail amounts.op_intros updates) (auto split: if_splits)

lemma capture_purchases:
  assumes "0 < ho_amount h"
  shows "commits (with_amounts promise cf) (purchaseForCapture cf rq h amount key)"
  unfolding purchaseForCapture_def Let_def
  by (intro amounts.op_intros releases commits_try_fail amounts.purchases) (use assms in \<open>auto simp: bind_apply\<close>)

lemma active_captures:
  "0 < ho_amount h \<Longrightarrow> commits (with_amounts promise cf) (captureActive cf rq h amount key)"
  unfolding captureActive_def by (intro amounts.op_intros claims capture_purchases)

lemma expiring_captures:
  "0 < ho_amount h \<Longrightarrow> commits (with_amounts promise cf) (expireInCapture cf rq h)"
  unfolding expireInCapture_def Let_def by (intro amounts.op_intros releases updates) simp_all

lemma captures: "commits (with_amounts promise cf) (captureCreditHoldInTransaction cf rq)"
  unfolding captureCreditHoldInTransaction_def replayCapture_def
  by (intro amounts.op_intros active_captures expiring_captures commits_gets_bind) (auto dest: find_hold_amount)

lemma expires: "0 < ho_amount h \<Longrightarrow> commits (with_amounts promise cf) (expireHold actor h)"
  unfolding expireHold_def Let_def by (intro amounts.op_intros releases updates) simp_all

lemma expires_all: "list_all (\<lambda>h. 0 < ho_amount h) hs \<Longrightarrow> commits (with_amounts promise cf) (expireAll actor hs acc)"
proof (induction hs arbitrary: acc)
  case (Cons h hs)
  let ?m = "try_catch (bind (withTransaction (expireHold actor h)) (\<lambda>row.
           ret (case row of None \<Rightarrow> acc | Some x \<Rightarrow> acc\<lparr>ex_expired := ex_expired acc @ [x]\<rparr>)))
        (\<lambda>e. ret (acc\<lparr>ex_failed := ex_failed acc @ [(ho_id h, e)]\<rparr>))"
  have "commits (with_amounts promise cf) ?m"
  proof (rule commitsI)
    fix db a t
    assume p: "with_amounts promise cf db" and "?m db = (Inr a, t)"
    then have "t = db \<or> (\<exists>r. expireHold actor h db = (Inr r, t))"
      by (auto simp: try_catch_def bind_apply withTransaction_def split: prod.splits sum.splits)
    with p Cons.prems commitsD [OF expires [of h cf actor] p] show "with_amounts promise cf t" by auto
  qed
  with Cons show ?case by (auto intro!: commits_bind simp del: ret_apply)
qed (simp add: commits_basic del: ret_apply)

lemma batch_expires: "commits (with_amounts promise cf) (expireCreditHolds cf n actor)"
proof -
  have "list_all (\<lambda>h. 0 < ho_amount h) (expiry_batch cf n db)" if "with_amounts promise cf db" for db
    using that by (auto simp: with_amounts_def hold_amounts_ok_def list_all_iff expiry_batch_def Let_def dest: in_set_takeD)
  then show ?thesis
    unfolding expireCreditHolds_def by (intro amounts.op_intros commits_gets_bind expires_all)
qed

end

section \<open>The five promises\<close>

text \<open>An update of the account table that leaves ids, currencies and balances alone.\<close>

lemma trial_balance_frame:
  assumes "\<And>a. ac_currency (f a) = ac_currency a" "\<And>a. ac_balance (f a) = ac_balance a"
  shows "trial_balance (db\<lparr>accounts := upd_where p f (accounts db)\<rparr>) cur = trial_balance db cur"
proof -
  have "map (in_currency cur) (upd_where p f (accounts db)) = map (in_currency cur) (accounts db)"
    by (rule map_upd_where_frame) (simp add: in_currency_def assms)
  then show ?thesis by (simp add: trial_balance_in_currency)
qed

lemma account_ids_frame:
  "(\<And>a. ac_id (f a) = ac_id a) \<Longrightarrow> account_ids_ok (db\<lparr>accounts := upd_where p f (accounts db)\<rparr>) = account_ids_ok db"
  by (simp add: account_ids_ok_def map_upd_where_frame)

lemma balanced_frame:
  "(\<And>a. ac_id (f a) = ac_id a) \<Longrightarrow> (\<And>a. ac_currency (f a) = ac_currency a) \<Longrightarrow> (\<And>a. ac_balance (f a) = ac_balance a) \<Longrightarrow>
   balanced db \<Longrightarrow> balanced (db\<lparr>accounts := upd_where p f (accounts db)\<rparr>)"
  by (simp add: balanced_iff trial_balance_frame account_ids_frame)

lemma commits_release:
  assumes "\<And>db a. I db \<Longrightarrow> a \<in> set (accounts db) \<Longrightarrow> ac_id a = i \<Longrightarrow> amount \<le> ac_reserved a \<Longrightarrow>
    I (db\<lparr>accounts := upd_where (\<lambda>a. ac_id a = i \<and> amount \<le> ac_reserved a) (\<lambda>a. a\<lparr>ac_reserved := ac_reserved a - amount\<rparr>) (accounts db)\<rparr>)"
  shows "commits I (releaseHoldReservation i amount)"
  by (rule commitsI, erule releaseHoldReservation_Inr) (use assms in simp)

interpretation balance: wallet_contract "\<lambda>_. balanced"
proof
  show "balanced (set_status i new db)" if "balanced db" for db i new
    unfolding set_status_def by (rule balanced_frame) (simp_all add: that)
  show "balanced (add_reserved (ac_id a) amount db)" if "balanced db" for db a amount
    unfolding add_reserved_def by (rule balanced_frame) (simp_all add: that)
  show "commits balanced (releaseHoldReservation i amount)" for i amount
    by (rule commits_release, rule balanced_frame) simp_all
  show "balanced (db\<lparr>holds := hs\<rparr>)" if "balanced db" for db hs
    using that by (simp add: balanced_iff account_ids_ok_def trial_balance_def)
qed

interpretation coverage: wallet_contract "\<lambda>_. funded"
proof
  show "funded (set_status i new db)" if "funded db" for db i new
    using that unfolding set_status_def funded_def
    by (auto simp: account_ids_frame list_all_iff set_upd_where covered_def)
  show "funded (add_reserved (ac_id a) amount db)"
    if f: "funded db" and a: "a \<in> set (accounts db)" and pos: "0 < amount" "amount \<le> ac_balance a - ac_reserved a" for db a amount
  proof -
    have "covered (x\<lparr>ac_reserved := ac_reserved x + amount\<rparr>)" if "x \<in> set (accounts db)" "ac_id x = ac_id a" for x
    proof -
      have "x = a" using f that a by (intro same_id_same_account) (simp_all add: funded_def)
      with f that pos show ?thesis by (auto simp: funded_def list_all_iff covered_def)
    qed
    with f show ?thesis unfolding add_reserved_def funded_def by (auto simp: account_ids_frame list_all_iff set_upd_where)
  qed
  show "commits funded (releaseHoldReservation i amount)" if "0 < amount" for i amount
    by (rule commits_release) (use that in \<open>auto simp: funded_def account_ids_frame list_all_iff set_upd_where covered_def\<close>)
  show "funded (db\<lparr>holds := hs\<rparr>)" if "funded db" for db hs
    using that by (simp add: funded_def account_ids_ok_def)
qed

interpretation two_sides: wallet_contract "\<lambda>_. double_entry"
proof
  show "double_entry (set_status i new db)" if "double_entry db" for db i new
    using that by (simp add: double_entry_frame [of "set_status i new db" db])
  show "double_entry (add_reserved (ac_id a) amount db)" if "double_entry db" for db a amount
    using that by (simp add: double_entry_frame [of "add_reserved (ac_id a) amount db" db])
  show "commits double_entry (releaseHoldReservation i amount)" for i amount
    by (rule commits_release) (simp add: double_entry_def loadAccountEntries_def)
  show "double_entry (db\<lparr>holds := hs\<rparr>)" if "double_entry db" for db hs
    using that by (simp add: double_entry_frame [of "db\<lparr>holds := hs\<rparr>" db])
qed

lemma owners_frame:
  "(\<And>a. account_key (f a) = account_key a) \<Longrightarrow> owners_unique (db\<lparr>accounts := upd_where p f (accounts db)\<rparr>) = owners_unique db"
  by (simp add: owners_unique_def map_upd_where_frame)

interpretation ownership: wallet_contract "\<lambda>_. owners_unique"
proof
  show "owners_unique (set_status i new db)" if "owners_unique db" for db i new
    using that unfolding set_status_def by (simp add: owners_frame account_key_def)
  show "owners_unique (add_reserved (ac_id a) amount db)" if "owners_unique db" for db a amount
    using that unfolding add_reserved_def by (simp add: owners_frame account_key_def)
  show "commits owners_unique (releaseHoldReservation i amount)" for i amount
    by (rule commits_release) (simp add: owners_frame account_key_def)
  show "owners_unique (db\<lparr>holds := hs\<rparr>)" if "owners_unique db" for db hs
    using that by (simp add: owners_unique_def)
qed

text \<open>The heads of the hash chains do not depend on statuses and reservations.\<close>

lemma account_clean_same:
  "ac_id (f a) = ac_id a \<Longrightarrow> ac_version (f a) = ac_version a \<Longrightarrow> ac_hash (f a) = ac_hash a \<Longrightarrow>
   account_clean cf db (f a) = account_clean cf db a"
  by (simp add: account_clean_def)

lemma sealed_frame:
  assumes f: "\<And>a. ac_id (f a) = ac_id a" "\<And>a. ac_version (f a) = ac_version a" "\<And>a. ac_hash (f a) = ac_hash a"
    and s: "sealed cf db"
  shows "sealed cf (db\<lparr>accounts := upd_where p f (accounts db)\<rparr>)"
proof -
  let ?db = "db\<lparr>accounts := upd_where p f (accounts db)\<rparr>"
  have ids: "map ac_id (upd_where p f (accounts db)) = map ac_id (accounts db)"
    by (rule map_upd_where_frame) (rule f(1))
  then have "keyed ?db"
    using s unfolding sealed_def keyed_def account_ids_ok_def
    by (auto simp: list_all_iff set_upd_where f(1) simp flip: set_map)
  moreover have "account_clean cf ?db = account_clean cf db"
    by (intro ext account_clean_frame) simp_all
  ultimately show ?thesis
    using s by (auto simp: sealed_def list_all_iff set_upd_where account_clean_same f)
qed

interpretation seal: wallet_contract sealed
proof
  show "sealed cf (set_status i new db)" if "sealed cf db" for cf db i new
    unfolding set_status_def by (rule sealed_frame) (simp_all add: that)
  show "sealed cf (add_reserved (ac_id a) amount db)" if "sealed cf db" for cf db a amount
    unfolding add_reserved_def by (rule sealed_frame) (simp_all add: that)
  show "commits (sealed cf) (releaseHoldReservation i amount)" for cf i amount
    by (rule commits_release, rule sealed_frame) simp_all
  show "sealed cf (db\<lparr>holds := hs\<rparr>)" if "sealed cf db" for cf db hs
    using that account_clean_frame [of "db\<lparr>holds := hs\<rparr>" db cf]
    by (simp add: sealed_def keyed_def account_ids_ok_def list_all_iff)
qed

end
