(* ===== verification/HoldSteps.thy ===== *)
theory HoldSteps
  imports CreditContracts
begin

text \<open>
  What the operations on holds do when they return: each either replays or settles exactly one active
  hold, and the terms of a hold never change. The reservation of a wallet is the sum of its active
  holds; a gap is the part of it that is released while its hold is still being settled.
\<close>

section \<open>Settling one hold\<close>

text \<open>Everything of a hold but its status and the evidence of how it ended.\<close>

definition hold_terms where
  "hold_terms h = ((ho_id h, ho_account h, ho_customer h, ho_partner h, ho_agreement h, ho_amount h),
     (ho_currency h, ho_purpose h, ho_refType h, ho_refId h, ho_key h, ho_metadata h, ho_expires h))"

lemma hold_terms_eq:
  assumes "hold_terms h = hold_terms k"
  shows "ho_id h = ho_id k" "ho_account h = ho_account k" "ho_amount h = ho_amount k" "ho_customer h = ho_customer k"
    "ho_partner h = ho_partner k" "ho_agreement h = ho_agreement k" "ho_currency h = ho_currency k"
  using assms by (simp_all add: hold_terms_def)

definition settling :: "(hold \<Rightarrow> hold) \<Rightarrow> bool" where
  "settling f \<longleftrightarrow> (\<forall>h. ho_status (f h) \<noteq> HActive \<and> hold_terms (f h) = hold_terms h)"

lemma settlingD:
  assumes "settling f"
  shows "ho_status (f h) \<noteq> HActive" "hold_terms (f h) = hold_terms h" "ho_id (f h) = ho_id h"
    "ho_account (f h) = ho_account h" "ho_amount (f h) = ho_amount h"
  using assms hold_terms_eq(1-3) [of "f h" h] by (simp_all add: settling_def)

definition hold_ids_ok :: "ledger \<Rightarrow> bool" where
  "hold_ids_ok db \<longleftrightarrow> distinct (map ho_id (holds db))"

text \<open>The table after one active hold was settled.\<close>

definition settled :: "hold \<Rightarrow> (hold \<Rightarrow> hold) \<Rightarrow> ledger \<Rightarrow> ledger \<Rightarrow> bool" where
  "settled h f db db' \<longleftrightarrow>
     h \<in> set (holds db) \<and> ho_status h = HActive \<and> settling f \<and>
     holds db' = upd_where (\<lambda>x. ho_id x = ho_id h) f (holds db)"

lemma upd_where_same_key:
  assumes "distinct (map k rows)" "r \<in> set rows" "p r"
  shows "upd_where (\<lambda>x. k x = k r \<and> p x) f rows = upd_where (\<lambda>x. k x = k r) f rows"
proof -
  have "x = r" if "x \<in> set rows" "k x = k r" for x
    using assms(1,2) that by (simp add: distinct_map inj_on_def)
  with assms(3) show ?thesis unfolding upd_where_def by (intro map_cong) auto
qed

lemma find_same_key:
  assumes "distinct (map k rows)" "r \<in> set rows" "p r"
  shows "find (\<lambda>x. k x = k r \<and> p x) rows = Some r"
  using assms by (induction rows) (auto simp: image_iff)

text \<open>\<open>updateHold\<close> on the active row of a hold.\<close>

lemma updateHold_active:
  assumes "updateHold (ho_id h) (\<lambda>x. ho_status x = HActive) f db = (Inr r, db')"
    and "hold_ids_ok db" "h \<in> set (holds db)" "ho_status h = HActive"
  shows "r = Some (f h)" "db' = db\<lparr>holds := upd_where (\<lambda>x. ho_id x = ho_id h) f (holds db)\<rparr>"
  using assms upd_where_same_key [where k = ho_id and p = "\<lambda>x. ho_status x = HActive" and r = h and rows = "holds db"]
    find_same_key [where k = ho_id and p = "\<lambda>x. ho_status x = HActive" and r = h and rows = "holds db"]
  by (simp_all add: updateHold_Inr hold_ids_ok_def)

section \<open>Release, expiry and capture\<close>

lemma release_frame:
  assumes "releaseHoldReservation i amount db = (Inr u, db')"
  shows "holds db' = holds db" "txns db' = txns db" "entries db' = entries db"
  using assms by (auto elim!: releaseHoldReservation_Inr)

definition released_by :: "release_request \<Rightarrow> hold \<Rightarrow> hold" where
  "released_by rq h = h\<lparr>ho_status := HReleased, ho_actor := text_or (rl_actor rq) (Some (rl_customer rq)), ho_actor_type := Some ''customer'',
     ho_reason := Some (case normalizeString (rl_reason rq) 500 of None \<Rightarrow> ''Customer released credit hold'' | Some r \<Rightarrow> r)\<rparr>"

lemma settling_release: "settling (released_by rq)"
  by (simp add: settling_def released_by_def hold_terms_def)

lemma releaseCreditHold_Inr:
  assumes "releaseCreditHold cf rq db = (Inr r, db')"
  obtains (replayed) "snd r" "db' = db" "ho_status (fst r) \<noteq> HActive"
  | (released) h mid x where
    "rl_actor rq = Some (rl_customer rq)" "ho_customer h = rl_customer rq" "ho_id h = rl_hold rq"
    "h \<in> set (holds db)" "ho_status h = HActive"
    "releaseHoldReservation (ho_account h) (ho_amount h) db = (Inr (), mid)"
    "r = (released_by rq h, False)"
    "db' = mid\<lparr>holds := upd_where (\<lambda>x. ho_id x = ho_id h) (released_by rq) (holds mid), audits := audits mid @ [x]\<rparr>"
proof -
  from assms obtain h where
    actor: "requireCustomerActor (rl_actor rq) (rl_customer rq) ''credit_hold_release_actor_required'' = Inr ()" and
    h: "find (\<lambda>h. ho_id h = rl_hold rq \<and> ho_customer h = rl_customer rq) (holds db) = Some h"
    by (cases "requireCustomerActor (rl_actor rq) (rl_customer rq) ''credit_hold_release_actor_required''";
        cases "find (\<lambda>h. ho_id h = rl_hold rq \<and> ho_customer h = rl_customer rq) (holds db)")
      (auto simp: releaseCreditHold_def bind_apply withTransaction_def)
  have a: "rl_actor rq = Some (rl_customer rq)" using actor by (simp add: requireCustomerActor_def split: if_splits)
  from find_SomeD [OF h] have hh: "h \<in> set (holds db)" "ho_id h = rl_hold rq" "ho_customer h = rl_customer rq" by simp_all
  show thesis
  proof (cases "ho_status h")
    case HActive
    with assms actor h obtain mid where mid: "releaseHoldReservation (ho_account h) (ho_amount h) db = (Inr (), mid)"
      by (cases "releaseHoldReservation (ho_account h) (ho_amount h) db"; cases "fst (releaseHoldReservation (ho_account h) (ho_amount h) db)")
        (auto simp: releaseCreditHold_def bind_apply withTransaction_def)
    let ?x = "hold_audit ''credit.hold.released'' h (ho_actor (released_by rq h)) (ho_reason (released_by rq h)) (rl_correlation rq) (rl_ip rq) NullJ"
    from assms actor h HActive mid have r: "r = (released_by rq h, False)"
      and d: "db' = mid\<lparr>holds := upd_where (\<lambda>x. ho_id x = ho_id h) (released_by rq) (holds mid), audits := audits mid @ [?x]\<rparr>"
      by (auto simp: releaseCreditHold_def bind_apply withTransaction_def updateHold_def insertAudit_def released_by_def [abs_def] Let_def)
    show thesis by (rule released [OF a hh(3,2,1) HActive mid r d])
  next
    case HCaptured
    with assms actor h show thesis by (simp add: releaseCreditHold_def bind_apply withTransaction_def)
  next
    case HReleased
    with assms actor h replayed show thesis by (auto simp: releaseCreditHold_def bind_apply withTransaction_def)
  next
    case HExpired
    with assms actor h replayed show thesis by (auto simp: releaseCreditHold_def bind_apply withTransaction_def)
  qed
qed

text \<open>Postings leave the table of holds alone.\<close>

interpretation hold_rows: posting_contract "\<lambda>_ db. holds db = rows" for rows
proof
  show "commits (\<lambda>db. holds db = rows) (postJournalTransaction cf inp)" for cf inp
    by (rule commitsI) (simp add: post_holds)
  show "commits (\<lambda>db. holds db = rows) (ensureAccount cf w code anyOwner)" for cf w code anyOwner
    by (rule commitsI) (simp add: ensure_txns(3))
qed simp_all

lemma purchase_holds:
  "purchaseWithCreditInTransaction cf rq db = (Inr p, db') \<Longrightarrow> holds db' = holds db"
  using commitsD [OF hold_rows.purchases [of "holds db"]] by blast

definition expired_by :: "string \<Rightarrow> hold \<Rightarrow> hold" where
  "expired_by why h = h\<lparr>ho_status := HExpired, ho_actor_type := Some ''system'', ho_reason := Some why\<rparr>"

definition captured_by :: "capture_request \<Rightarrow> string \<Rightarrow> posting \<Rightarrow> hold \<Rightarrow> hold" where
  "captured_by rq key posting h =
     h\<lparr>ho_status := HCaptured, ho_capture_key := Some key, ho_captured_txn := Some (tx_id (po_txn posting)),
       ho_actor_type := Some (capture_actor_type rq), ho_actor := or_null (cq_actor rq),
       ho_reason := Some (case normalizeString (cq_reason rq) 500 of None \<Rightarrow> ''System hold capture'' | Some r \<Rightarrow> r)\<rparr>"

lemma settling_expiry: "settling (expired_by why)" and settling_capture: "settling (captured_by rq key posting)"
  by (simp_all add: settling_def expired_by_def captured_by_def hold_terms_def)

lemma expireHold_Inr:
  assumes "expireHold actor h db = (Inr r, db')" and "hold_ids_ok db" "h \<in> set (holds db)" "ho_status h = HActive"
  obtains mid x where
    "releaseHoldReservation (ho_account h) (ho_amount h) db = (Inr (), mid)"
    "r = Some (expired_by ''Scheduled hold expiry'' h)"
    "db' = mid\<lparr>holds := upd_where (\<lambda>x. ho_id x = ho_id h) (expired_by ''Scheduled hold expiry'') (holds mid), audits := audits mid @ [x]\<rparr>"
proof -
  let ?f = "expired_by ''Scheduled hold expiry''"
  from assms(1) obtain mid where mid: "releaseHoldReservation (ho_account h) (ho_amount h) db = (Inr (), mid)"
    by (cases "releaseHoldReservation (ho_account h) (ho_amount h) db"; cases "fst (releaseHoldReservation (ho_account h) (ho_amount h) db)")
      (auto simp: expireHold_def bind_apply)
  have m: "hold_ids_ok mid" "h \<in> set (holds mid)" using assms(2,3) release_frame(1) [OF mid] by (simp_all add: hold_ids_ok_def)
  obtain row mid2 where u: "updateHold (ho_id h) (\<lambda>x. ho_status x = HActive) ?f mid = (Inr row, mid2)"
    by (simp add: updateHold_Inr)
  note up = updateHold_active [OF u m assms(4)]
  from assms(1) mid u up(1) have r: "r = Some (?f h)"
    and d: "db' = mid2\<lparr>audits := audits mid2 @ [hold_audit ''credit.hold.expired'' h actor (Some ''Scheduled hold expiry'') None None
             (ObjJ [(''amountCents'', IntJ (ho_amount h))])]\<rparr>"
    by (auto simp: expireHold_def Let_def bind_apply insertAudit_def expired_by_def [abs_def])
  show thesis by (rule that [OF mid r]) (simp add: d up(2))
qed

lemma expireInCapture_Inr:
  assumes "expireInCapture cf rq h db = (Inr r, db')" and "hold_ids_ok db" "h \<in> set (holds db)" "ho_status h = HActive"
  obtains mid x where
    "releaseHoldReservation (ho_account h) (ho_amount h) db = (Inr (), mid)"
    "r = \<lparr>cr_hold = expired_by ''Hold expired before capture'' h, cr_posting = None, cr_expired = True, cr_replayed = False\<rparr>"
    "db' = mid\<lparr>holds := upd_where (\<lambda>x. ho_id x = ho_id h) (expired_by ''Hold expired before capture'') (holds mid), audits := audits mid @ [x]\<rparr>"
proof -
  let ?f = "expired_by ''Hold expired before capture''"
  from assms(1) obtain mid where mid: "releaseHoldReservation (ho_account h) (ho_amount h) db = (Inr (), mid)"
    by (cases "releaseHoldReservation (ho_account h) (ho_amount h) db"; cases "fst (releaseHoldReservation (ho_account h) (ho_amount h) db)")
      (auto simp: expireInCapture_def bind_apply)
  have m: "hold_ids_ok mid" "h \<in> set (holds mid)" using assms(2,3) release_frame(1) [OF mid] by (simp_all add: hold_ids_ok_def)
  obtain row mid2 where u: "updateHold (ho_id h) (\<lambda>x. ho_status x = HActive) ?f mid = (Inr row, mid2)"
    by (simp add: updateHold_Inr)
  note up = updateHold_active [OF u m assms(4)]
  let ?x = "hold_audit ''credit.hold.expired'' h (cq_actor rq)
          (Some (case normalizeString (cq_reason rq) 500 of None \<Rightarrow> ''Hold expired before capture'' | Some r \<Rightarrow> r))
          (cq_correlation rq) (cq_ip rq) (ObjJ [(''amountCents'', IntJ (ho_amount h))])"
  from assms(1) mid u up(1) have r: "r = \<lparr>cr_hold = ?f h, cr_posting = None, cr_expired = True, cr_replayed = False\<rparr>"
    and d: "db' = mid2\<lparr>audits := audits mid2 @ [?x]\<rparr>"
    by (auto simp: expireInCapture_def Let_def bind_apply insertAudit_def expired_by_def [abs_def])
  show thesis by (rule that [OF mid r]) (simp add: d up(2))
qed

lemma purchaseForCapture_Inr:
  assumes "purchaseForCapture cf rq h amount key db = (Inr p, db')" and "findLegacyCapturePurchase key h db = None"
  obtains mid where
    "releaseHoldReservation (ho_account h) (ho_amount h) db = (Inr (), mid)"
    "purchaseWithCreditInTransaction cf (capture_purchase cf rq h amount key) mid = (Inr p, db')"
proof -
  have amt: "(if amount \<noteq> ho_amount h then ho_amount h else amount) = ho_amount h" by simp
  from assms obtain mid where mid: "releaseHoldReservation (ho_account h) (ho_amount h) db = (Inr (), mid)"
    by (cases "releaseHoldReservation (ho_account h) (ho_amount h) db"; cases "fst (releaseHoldReservation (ho_account h) (ho_amount h) db)")
      (auto simp: purchaseForCapture_def bind_apply Let_def amt)
  moreover from assms mid have "purchaseWithCreditInTransaction cf (capture_purchase cf rq h amount key) mid = (Inr p, db')"
    by (auto simp: purchaseForCapture_def bind_apply Let_def amt try_catch_def split: prod.splits sum.splits)
  ultimately show thesis by (rule that)
qed

lemma claimCapture_Inr:
  assumes "claimCapture rq h key p db = (Inr r, db')" and "hold_ids_ok db" "h \<in> set (holds db)" "ho_status h = HActive"
  shows "r = captured_by rq key p h" "db' = db\<lparr>holds := upd_where (\<lambda>x. ho_id x = ho_id h) (captured_by rq key p) (holds db)\<rparr>"
    "\<not> list_ex (\<lambda>x. ho_id x \<noteq> ho_id h \<and> ho_capture_key x = Some key) (holds db)"
proof -
  obtain row mid where u: "updateHold (ho_id h) (\<lambda>x. ho_status x = HActive) (captured_by rq key p) db = (Inr row, mid)"
    by (simp add: updateHold_Inr)
  note up = updateHold_active [OF u assms(2-4)]
  from assms(1) show n: "\<not> list_ex (\<lambda>x. ho_id x \<noteq> ho_id h \<and> ho_capture_key x = Some key) (holds db)"
    by (auto simp: claimCapture_def Let_def bind_apply try_catch_def withTransaction_def)
  from assms(1) u up n show "r = captured_by rq key p h" "db' = db\<lparr>holds := upd_where (\<lambda>x. ho_id x = ho_id h) (captured_by rq key p) (holds db)\<rparr>"
    by (auto simp: claimCapture_def Let_def bind_apply try_catch_def withTransaction_def captured_by_def [abs_def])
qed

end
