(* ===== verification/HoldProperties.thy ===== *)
theory HoldProperties
  imports HoldSteps
begin

text \<open>
  The life of a hold: what a capture that returns did, that reservations are the sum of the active
  holds, that holds only ever leave the active state, and that a failed capture restores what it released.
\<close>

section \<open>Captures that return\<close>

lemma bind_at: "m s = (Inr a, t) \<Longrightarrow> bind m f s = f a t"
  by (simp add: bind_apply)

lemma if_fail: "(if c then fail e else m) s = (Inr a, t) \<longleftrightarrow> \<not> c \<and> m s = (Inr a, t)"
  by simp

lemma bind_gets: "bind (gets g) f s = f (g s) s"
  by (simp add: bind_apply)

lemma captureActive_Inr:
  assumes "captureActive cf rq h amount key db = (Inr r, db')" and "findLegacyCapturePurchase key h db = None"
    and "hold_ids_ok db" "h \<in> set (holds db)" "ho_status h = HActive"
  obtains a mid p mid2 x where
    "account_row db (ho_account h) = Some a" "amount \<le> ac_reserved a"
    "releaseHoldReservation (ho_account h) (ho_amount h) db = (Inr (), mid)"
    "purchaseWithCreditInTransaction cf (capture_purchase cf rq h amount key) mid = (Inr p, mid2)"
    "r = \<lparr>cr_hold = captured_by rq key p h, cr_posting = Some p, cr_expired = False, cr_replayed = False\<rparr>"
    "db' = mid2\<lparr>holds := upd_where (\<lambda>x. ho_id x = ho_id h) (captured_by rq key p) (holds mid2), audits := audits mid2 @ [x]\<rparr>"
proof -
  from assms(1) obtain a where a: "account_row db (ho_account h) = Some a" "amount \<le> ac_reserved a"
    by (cases "account_row db (ho_account h)") (auto simp: captureActive_def bind_apply split: if_splits)
  from assms(1) a obtain p mid2 where p: "purchaseForCapture cf rq h amount key db = (Inr p, mid2)"
    by (cases "purchaseForCapture cf rq h amount key db"; cases "fst (purchaseForCapture cf rq h amount key db)")
      (auto simp: captureActive_def bind_apply)
  obtain mid where mid: "releaseHoldReservation (ho_account h) (ho_amount h) db = (Inr (), mid)"
    "purchaseWithCreditInTransaction cf (capture_purchase cf rq h amount key) mid = (Inr p, mid2)"
    using p assms(2) by (rule purchaseForCapture_Inr)
  have "holds mid2 = holds db" using purchase_holds [OF mid(2)] release_frame(1) [OF mid(1)] by simp
  then have m: "hold_ids_ok mid2" "h \<in> set (holds mid2)" using assms(3,4) by (simp_all add: hold_ids_ok_def)
  from assms(1) a p obtain c mid3 where c: "claimCapture rq h key p mid2 = (Inr c, mid3)"
    by (cases "claimCapture rq h key p mid2"; cases "fst (claimCapture rq h key p mid2)")
      (auto simp: captureActive_def bind_apply)
  note cl = claimCapture_Inr [OF c m assms(5)]
  from assms(1) a p c show thesis
    by (intro that [OF a mid]) (auto simp: captureActive_def bind_apply insertAudit_def cl(1,2))
qed

lemma captureCreditHoldInTransaction_Inr:
  assumes "captureCreditHoldInTransaction cf rq db = (Inr r, db')"
  obtains (replayed) "cr_replayed r" "db' = db"
  | (acted) h amount key where
    "require_key (cq_key rq) db = (Inr key, db)"
    "h \<in> set (holds db)" "ho_id h = cq_hold rq" "ho_status h = HActive"
    "cq_amount rq = None \<Longrightarrow> amount = ho_amount h"
    "\<And>v. cq_amount rq = Some v \<Longrightarrow> parseAmountCents cf v (Some (Some (ho_currency h))) = Inr amount"
    "amount = ho_amount h \<or> cq_allowAdjust rq"
    "if ho_expires h \<le> cf_now cf then expireInCapture cf rq h db = (Inr r, db') else captureActive cf rq h amount key db = (Inr r, db')"
proof -
  obtain key where key: "require_key (cq_key rq) db = (Inr key, db)"
    using assms by (cases "normalizeString (cq_key rq) 160")
      (auto simp: captureCreditHoldInTransaction_def bind_apply require_key_def)
  obtain h where h: "find (\<lambda>h. ho_id h = cq_hold rq \<and> account_row db (ho_account h) \<noteq> None) (holds db) = Some h"
    using assms key by (cases "find (\<lambda>h. ho_id h = cq_hold rq \<and> account_row db (ho_account h) \<noteq> None) (holds db)")
      (auto simp: captureCreditHoldInTransaction_def bind_apply split: if_splits)
  from find_SomeD [OF h] have hh: "h \<in> set (holds db)" "ho_id h = cq_hold rq" by simp_all
  let ?A = "case cq_amount rq of None \<Rightarrow> Inr (ho_amount h) | Some v \<Rightarrow> parseAmountCents cf v (Some (Some (ho_currency h)))"
  let ?m = "case cq_amount rq of None \<Rightarrow> ret (ho_amount h) | Some v \<Rightarrow> lift_res (parseAmountCents cf v (Some (Some (ho_currency h))))"
  let ?C = "if cq_currency rq = None then ret True
                 else bind (lift_res (assertSupportedCreditCurrency cf (code_of (cq_currency rq)))) (\<lambda>requested.
                      bind (lift_res (assertSupportedCreditCurrency cf (Some (ho_currency h)))) (\<lambda>held.
                      ret (requested = held)))"
  let ?R = "\<lambda>amount. if ho_status h = HCaptured then replayCapture rq h amount
             else if ho_status h \<noteq> HActive then fail (AppError 409 ''credit_hold_state_invalid'')
             else if ho_expires h \<le> cf_now cf then expireInCapture cf rq h
             else captureActive cf rq h amount key"
  have A: "?m s = (?A, s)" for s by (cases "cq_amount rq") simp_all
  have C: "?C db = (fst (?C db), db)"
    by (cases "assertSupportedCreditCurrency cf (code_of (cq_currency rq))"; cases "assertSupportedCreditCurrency cf (Some (ho_currency h))")
      (simp_all add: bind_apply)
  have actor: "capture_actor_type rq \<in> {''admin'', ''system''}"
    "\<not> (capture_actor_type rq = ''admin'' \<and> normalizeString (cq_reason rq) 500 = None)"
    "\<not> (capture_actor_type rq = ''admin'' \<and> falsy (cq_actor rq))"
    using assms key by (auto simp: captureCreditHoldInTransaction_def bind_apply split: if_splits)
  from assms key h actor have main: "bind ?C (\<lambda>sameCurrency.
           if \<not> sameCurrency then fail (AppError 409 ''credit_currency_mismatch'')
           else if \<not> falsy (ho_capture_key h) \<and> ho_capture_key h \<noteq> Some key
           then fail (AppError 409 ''credit_hold_capture_idempotency_conflict'')
           else
             bind ?m (\<lambda>amount.
             if amount \<noteq> ho_amount h \<and> \<not> cq_allowAdjust rq then fail (AppError 409 ''credit_hold_amount_mismatch'')
             else ?R amount)) db = (Inr r, db')"
    unfolding captureCreditHoldInTransaction_def bind_at [where m = "require_key (cq_key rq)" and s = db, OF key]
    by (simp only: bind_gets if_False if_True not_not simp_thms option.case)
  obtain same where "fst (?C db) = Inr same"
    using main C by (cases "fst (?C db)") (simp_all add: bind_apply)
  with C have same: "?C db = (Inr same, db)" by metis
  from main have main1: "(if \<not> same then fail (AppError 409 ''credit_currency_mismatch'')
           else if \<not> falsy (ho_capture_key h) \<and> ho_capture_key h \<noteq> Some key
           then fail (AppError 409 ''credit_hold_capture_idempotency_conflict'')
           else
             bind ?m (\<lambda>amount.
             if amount \<noteq> ho_amount h \<and> \<not> cq_allowAdjust rq then fail (AppError 409 ''credit_hold_amount_mismatch'')
             else ?R amount)) db = (Inr r, db')"
    unfolding bind_at [where m = "?C" and s = db, OF same] .
  then have main2: "bind ?m (\<lambda>amount.
             if amount \<noteq> ho_amount h \<and> \<not> cq_allowAdjust rq then fail (AppError 409 ''credit_hold_amount_mismatch'')
             else ?R amount) db = (Inr r, db')"
    by (simp only: if_fail)
  have "\<exists>amount. ?A = Inr amount"
  proof (cases ?A)
    case (Inl e)
    have "?m db = (Inl e, db)" unfolding A Inl ..
    with main2 show ?thesis unfolding bind_apply [where m = ?m] by (simp only: prod.case sum.case prod.inject) simp
  qed blast
  then obtain amount where amt: "?A = Inr amount" ..
  have "?m db = (Inr amount, db)" unfolding A amt ..
  from main2 [unfolded bind_at [where m = ?m and s = db, OF this]]
  have ok: "amount = ho_amount h \<or> cq_allowAdjust rq" and rest: "?R amount db = (Inr r, db')"
    by (simp_all only: if_fail) blast
  show thesis
  proof (cases "ho_status h = HCaptured")
    case True
    with rest have "cr_replayed r \<and> db' = db"
      by (auto simp: replayCapture_def bind_Inr_iff split: option.splits)
    with replayed show thesis by blast
  next
    case False
    with rest have act: "ho_status h = HActive" by (auto split: if_splits)
    have amts: "cq_amount rq = None \<Longrightarrow> amount = ho_amount h"
      "\<And>v. cq_amount rq = Some v \<Longrightarrow> parseAmountCents cf v (Some (Some (ho_currency h))) = Inr amount"
      using amt by simp_all
    have "if ho_expires h \<le> cf_now cf then expireInCapture cf rq h db = (Inr r, db') else captureActive cf rq h amount key db = (Inr r, db')"
      using rest act by (simp split: if_splits)
    note act_on = this
    show thesis by (rule acted [of key h amount]) (fact key hh act amts ok act_on)+
  qed
qed

section \<open>Reservations\<close>

definition active_amount :: "int \<Rightarrow> hold \<Rightarrow> int" where
  "active_amount i h = (if ho_account h = i \<and> ho_status h = HActive then ho_amount h else 0)"

definition active_total :: "ledger \<Rightarrow> int \<Rightarrow> int" where
  "active_total db i = sum_list (map (active_amount i) (holds db))"

text \<open>What is reserved on each account is the sum of its active holds and \<open>g\<close> of the account, for what others reserve.\<close>

definition reserved_beside :: "(int \<Rightarrow> int) \<Rightarrow> ledger \<Rightarrow> bool" where
  "reserved_beside g db \<longleftrightarrow>
     account_ids_ok db \<and> hold_ids_ok db \<and> (\<forall>i. g i \<noteq> 0 \<longrightarrow> i \<in> set (map ac_id (accounts db))) \<and>
     list_all (\<lambda>h. ho_account h \<in> set (map ac_id (accounts db))) (holds db) \<and>
     list_all (\<lambda>a. ac_reserved a = active_total db (ac_id a) + g (ac_id a)) (accounts db)"

definition reservations_match :: "ledger \<Rightarrow> bool" where
  "reservations_match db \<longleftrightarrow>
     account_ids_ok db \<and> hold_ids_ok db \<and>
     list_all (\<lambda>h. ho_account h \<in> set (map ac_id (accounts db))) (holds db) \<and>
     list_all (\<lambda>a. ac_reserved a = active_total db (ac_id a)) (accounts db)"

lemma no_gap: "reserved_beside (\<lambda>_. 0) db = reservations_match db"
  by (simp add: reserved_beside_def reservations_match_def)

lemma active_total_frame: "holds db' = holds db \<Longrightarrow> active_total db' = active_total db"
  by (simp add: active_total_def fun_eq_iff)

text \<open>A change of the accounts that keeps ids and reservations keeps the sum.\<close>

lemma gap_frame:
  assumes "reserved_beside g db" and "holds db' = holds db"
    and "map (\<lambda>a. (ac_id a, ac_reserved a)) (accounts db') = map (\<lambda>a. (ac_id a, ac_reserved a)) (accounts db)"
  shows "reserved_beside g db'"
proof -
  have ids: "map ac_id (accounts db') = map ac_id (accounts db)"
    using arg_cong [OF assms(3), of "map fst"] by (simp add: comp_def)
  have all: "list_all (\<lambda>a. P (ac_id a) (ac_reserved a)) (accounts d) = list_all (\<lambda>(i, r). P i r) (map (\<lambda>a. (ac_id a, ac_reserved a)) (accounts d))"
    for P :: "int \<Rightarrow> int \<Rightarrow> bool" and d by (simp add: list_all_iff)
  have "list_all (\<lambda>a. ac_reserved a = active_total db' (ac_id a) + g (ac_id a)) (accounts db')"
    using assms(1) unfolding reserved_beside_def active_total_frame [OF assms(2)]
    by (simp add: all [of "\<lambda>i r. r = active_total db i + g i"] assms(3))
  with assms(1,2) show ?thesis unfolding reserved_beside_def account_ids_ok_def hold_ids_ok_def ids by simp
qed

lemma active_total_unknown:
  "list_all (\<lambda>h. ho_account h \<in> set (map ac_id (accounts db))) (holds db) \<Longrightarrow> i \<notin> set (map ac_id (accounts db)) \<Longrightarrow> active_total db i = 0"
  unfolding active_total_def by (intro sum_list_zero) (auto simp: active_amount_def list_all_iff)

interpretation gap: posting_contract "\<lambda>_. reserved_beside g" for g
proof
  show "commits (reserved_beside g) (postJournalTransaction cf inp)" for cf inp
  proof (rule commitsI)
    fix db p db' assume g: "reserved_beside g db" and r: "postJournalTransaction cf inp db = (Inr p, db')"
    from r show "reserved_beside g db'"
    proof (cases rule: postJournalTransaction_Inr)
      case replayed
      with g show ?thesis by (simp add: replayTransaction_Inr)
    next
      case (moved amount currency key version d c t e1 e2)
      have "ac_id d \<noteq> ac_id c" using moved(9) find_account(2) [OF moved(7)] find_account(2) [OF moved(8)] by simp
      from moved_accounts [OF moved(13) this] show ?thesis
        by (intro gap_frame [OF g post_holds [OF r]]) simp
    qed
  qed
  show "commits (reserved_beside g) (ensureAccount cf w code anyOwner)" for cf w code anyOwner
  proof (rule commitsI)
    fix db a db' assume m: "reserved_beside g db" and r: "ensureAccount cf w code anyOwner db = (Inr a, db')"
    from r show "reserved_beside g db'"
    proof (rule ensureAccount_Inr)
      fix currency
      let ?n = "new_account db w currency"
      have fresh: "ac_id ?n \<notin> set (map ac_id (accounts db))" using next_id_fresh [of "map ac_id (accounts db)"] by simp
      assume "db' = db \<or> db' = db\<lparr>accounts := accounts db @ [?n]\<rparr> \<and>
         owned_by w currency ?n \<and> \<not> list_ex (owned_by w currency) (accounts db)"
      then consider "db' = db" | "db' = db\<lparr>accounts := accounts db @ [?n]\<rparr>" by blast
      then show ?thesis
      proof cases
        case 2
        have t: "active_total db' = active_total db" by (rule active_total_frame) (simp add: 2)
        have z: "active_total db (ac_id ?n) = 0" using m fresh by (intro active_total_unknown) (simp_all add: reserved_beside_def)
        have "g (ac_id ?n) = 0" using m fresh by (auto simp: reserved_beside_def)
        with m fresh z t show ?thesis
          by (auto simp: 2 reserved_beside_def account_ids_ok_def hold_ids_ok_def list_all_iff)
      qed (use m in simp)
    qed
  qed
qed (auto intro: gap_frame)

text \<open>Releasing opens a gap of the released amount; settling the hold closes it.\<close>

lemma lower_reserved_row:
  assumes "reserved_beside g db" and a: "a \<in> set (accounts db)" "ac_id a = i"
    and upd: "accounts db' = upd_where (\<lambda>x. ac_id x = i) (\<lambda>x. x\<lparr>ac_reserved := ac_reserved x + n\<rparr>) (accounts db)" and "holds db' = holds db"
  shows "reserved_beside (g(i := g i + n)) db'"
proof -
  have m: "account_ids_ok db" "hold_ids_ok db" "\<forall>i. g i \<noteq> 0 \<longrightarrow> i \<in> set (map ac_id (accounts db))"
    "list_all (\<lambda>h. ho_account h \<in> set (map ac_id (accounts db))) (holds db)"
    "list_all (\<lambda>a. ac_reserved a = active_total db (ac_id a) + g (ac_id a)) (accounts db)"
    using assms(1) by (simp_all add: reserved_beside_def)
  have ids: "map ac_id (accounts db') = map ac_id (accounts db)"
    unfolding upd by (rule map_upd_where_frame) simp
  have t: "active_total db' = active_total db" by (rule active_total_frame) (rule assms(5))
  have "i \<in> set (map ac_id (accounts db'))" unfolding ids using a by auto
  moreover have "list_all (\<lambda>a. ac_reserved a = active_total db' (ac_id a) + (g(i := g i + n)) (ac_id a)) (accounts db')"
    using m(5) unfolding t upd list_all_iff set_upd_where by auto
  moreover have "account_ids_ok db'" "hold_ids_ok db'" "list_all (\<lambda>h. ho_account h \<in> set (map ac_id (accounts db'))) (holds db')"
    using m(1,2,4) unfolding account_ids_ok_def hold_ids_ok_def ids by (simp_all add: assms(5))
  ultimately show ?thesis using m(3) by (auto simp: reserved_beside_def ids simp del: set_map)
qed

lemma release_opens_gap:
  assumes "releaseHoldReservation i amount db = (Inr u, db')" and "reserved_beside g db"
  shows "reserved_beside (g(i := g i - amount)) db'"
  using assms(1)
proof (rule releaseHoldReservation_Inr)
  fix a assume a: "a \<in> set (accounts db)" "ac_id a = i" "amount \<le> ac_reserved a"
    and db': "db' = db\<lparr>accounts := upd_where (\<lambda>a. ac_id a = i \<and> amount \<le> ac_reserved a) (\<lambda>a. a\<lparr>ac_reserved := ac_reserved a - amount\<rparr>) (accounts db)\<rparr>"
  have "account_ids_ok db" using assms(2) by (simp add: reserved_beside_def)
  then have one: "x = a" if "x \<in> set (accounts db)" "ac_id x = i" for x
    using same_id_same_account [OF _ that(1) a(1)] that(2) a(2) by simp
  have "accounts db' = upd_where (\<lambda>x. ac_id x = i) (\<lambda>x. x\<lparr>ac_reserved := ac_reserved x + - amount\<rparr>) (accounts db)"
    unfolding db' upd_where_def using one a(3) by (auto intro!: map_cong)
  from lower_reserved_row [OF assms(2) a(1,2) this] show ?thesis by (simp add: db')
qed

lemma settle_active_total:
  assumes "hold_ids_ok db" "h \<in> set (holds db)" "ho_status h = HActive" "settling f"
    and "holds db' = upd_where (\<lambda>x. ho_id x = ho_id h) f (holds db)"
  shows "active_total db' i = active_total db i - (if i = ho_account h then ho_amount h else 0)"
  using sum_upd_where_key [where k = ho_id and g = "active_amount i" and f = f, OF assms(1) [unfolded hold_ids_ok_def] assms(2)]
    settlingD(1) [OF assms(4), of h] assms(3)
  unfolding active_total_def assms(5) by (auto simp: active_amount_def)

lemma settle_closes_gap:
  assumes "reserved_beside (g(ho_account h := g (ho_account h) - ho_amount h)) db" and h: "h \<in> set (holds db)" "ho_status h = HActive" and f: "settling f"
    and db': "holds db' = upd_where (\<lambda>x. ho_id x = ho_id h) f (holds db)" "accounts db' = accounts db"
  shows "reserved_beside g db'"
proof -
  have g: "account_ids_ok db" "hold_ids_ok db" "list_all (\<lambda>h. ho_account h \<in> set (map ac_id (accounts db))) (holds db)"
    "list_all (\<lambda>a. ac_reserved a = active_total db (ac_id a) + (g(ho_account h := g (ho_account h) - ho_amount h)) (ac_id a)) (accounts db)"
    using assms(1) by (simp_all add: reserved_beside_def)
  note t = settle_active_total [OF g(2) h f db'(1)]
  have ids: "map ho_id (holds db') = map ho_id (holds db)"
    unfolding db'(1) by (rule map_upd_where_frame) (simp add: settlingD [OF f])
  have refs: "list_all (\<lambda>h. ho_account h \<in> set (map ac_id (accounts db'))) (holds db')"
    using g(3) unfolding db' list_all_iff set_upd_where by (auto simp: settlingD [OF f])
  have known: "i \<in> set (map ac_id (accounts db'))" if "g i \<noteq> 0" for i
  proof (cases "i = ho_account h")
    case True
    with g(3) h(1) show ?thesis by (simp add: list_all_iff db'(2))
  next
    case False
    with assms(1) that show ?thesis by (auto simp: reserved_beside_def db'(2))
  qed
  have "list_all (\<lambda>a. ac_reserved a = active_total db' (ac_id a) + g (ac_id a)) (accounts db')"
    using g(4) unfolding db'(2) t list_all_iff by force
  then show ?thesis
    using g(1,2) refs known unfolding reserved_beside_def account_ids_ok_def hold_ids_ok_def ids by (simp add: db'(2) del: set_map)
qed

text \<open>A release of a hold followed by its settlement, with only postings between the two.\<close>

lemma settled_matches:
  assumes "reserved_beside g db" and "h \<in> set (holds db)" "ho_status h = HActive" "settling f"
    and "releaseHoldReservation (ho_account h) (ho_amount h) db = (Inr u, mid)"
    and "\<And>g. reserved_beside g mid \<Longrightarrow> reserved_beside g mid2" "holds mid2 = holds mid"
    and "holds db' = upd_where (\<lambda>x. ho_id x = ho_id h) f (holds mid2)" "accounts db' = accounts mid2"
  shows "reserved_beside g db'"
proof -
  have "reserved_beside (g(ho_account h := g (ho_account h) - ho_amount h)) mid2" by (rule assms(6) [OF release_opens_gap [OF assms(5,1)]])
  moreover have "h \<in> set (holds mid2)" using assms(2,7) release_frame(1) [OF assms(5)] by simp
  ultimately show ?thesis by (rule settle_closes_gap) (fact assms)+
qed

lemma create_matches:
  assumes "createCreditHoldInTransaction cf rq db = (Inr r, db')" and "reserved_beside g db"
  shows "reserved_beside g db'"
  using assms(1)
proof (cases rule: createCreditHoldInTransaction_Inr)
  case replayed
  with assms(2) commitsD [OF gap.ensure] show ?thesis by blast
next
  case (created amount key expiry agreement currency account mid x)
  let ?h = "fst r"
  have m: "reserved_beside g mid" using commitsD [OF gap.ensure] created(9) assms(2) by blast
  have a: "account \<in> set (accounts mid)" using created(9) by (rule ensureAccount_Inr)
  have h: "ho_account ?h = ac_id account" "ho_amount ?h = amount" "ho_status ?h = HActive" "ho_id ?h = next_id (map ho_id (holds mid))"
    unfolding created(12) by (simp_all add: new_hold_def)
  have g: "account_ids_ok mid" "hold_ids_ok mid" "\<forall>i. g i \<noteq> 0 \<longrightarrow> i \<in> set (map ac_id (accounts mid))"
    "list_all (\<lambda>h. ho_account h \<in> set (map ac_id (accounts mid))) (holds mid)"
    "list_all (\<lambda>a. ac_reserved a = active_total mid (ac_id a) + g (ac_id a)) (accounts mid)"
    using m by (simp_all add: reserved_beside_def)
  have acc: "accounts db' = upd_where (\<lambda>a. ac_id a = ac_id account) (\<lambda>a. a\<lparr>ac_reserved := ac_reserved a + amount\<rparr>) (accounts mid)"
    and ho: "holds db' = holds mid @ [?h]" unfolding created(13) by (simp_all add: add_reserved_def)
  have ids: "map ac_id (accounts db') = map ac_id (accounts mid)" unfolding acc by (rule map_upd_where_frame) simp
  have t: "active_total db' i = active_total mid i + (if i = ac_id account then amount else 0)" for i
    unfolding active_total_def ho using h by (simp add: active_amount_def)
  have "list_all (\<lambda>a. ac_reserved a = active_total db' (ac_id a) + g (ac_id a)) (accounts db')"
    using g(5) unfolding t acc list_all_iff set_upd_where by auto
  moreover have "hold_ids_ok db'" using g(2) next_id_fresh [of "map ho_id (holds mid)"] h(4) by (simp add: hold_ids_ok_def ho)
  moreover have "list_all (\<lambda>h. ho_account h \<in> set (map ac_id (accounts db'))) (holds db')"
    using g(4) a h(1) unfolding ho ids by (simp add: list_all_iff)
  ultimately show ?thesis using g(1,3) unfolding reserved_beside_def account_ids_ok_def ids by blast
qed

lemma release_matches:
  assumes "releaseCreditHold cf rq db = (Inr r, db')" and "reserved_beside g db"
  shows "reserved_beside g db'"
  using assms(1)
proof (cases rule: releaseCreditHold_Inr)
  case (released h mid x)
  show ?thesis
    by (rule settled_matches [OF assms(2) released(4,5) settling_release [of rq] released(6), of mid]) (simp_all add: released(8))
qed (use assms(2) in simp)

lemma expire_matches:
  assumes "expireHold actor h db = (Inr r, db')" and "reserved_beside g db" "h \<in> set (holds db)" "ho_status h = HActive"
  shows "reserved_beside g db'"
proof -
  have ids: "hold_ids_ok db" using assms(2) by (simp add: reserved_beside_def)
  from assms(1) ids assms(3,4) show ?thesis
  proof (rule expireHold_Inr)
    fix mid x
    assume rel: "releaseHoldReservation (ho_account h) (ho_amount h) db = (Inr (), mid)"
      and db': "db' = mid\<lparr>holds := upd_where (\<lambda>x. ho_id x = ho_id h) (expired_by ''Scheduled hold expiry'') (holds mid), audits := audits mid @ [x]\<rparr>"
    show ?thesis
      by (rule settled_matches [OF assms(2-4) settling_expiry [of "''Scheduled hold expiry''"] rel, of mid]) (simp_all add: db')
  qed
qed

lemma capture_matches:
  assumes "captureCreditHoldInTransaction cf rq db = (Inr r, db')" and "reserved_beside g db"
    and "\<And>h key. h \<in> set (holds db) \<Longrightarrow> ho_id h = cq_hold rq \<Longrightarrow> require_key (cq_key rq) db = (Inr key, db) \<Longrightarrow> findLegacyCapturePurchase key h db = None"
  shows "reserved_beside g db'"
  using assms(1)
proof (cases rule: captureCreditHoldInTransaction_Inr)
  case replayed
  with assms(2) show ?thesis by simp
next
  case (acted h amount key)
  have ids: "hold_ids_ok db" using assms(2) by (simp add: reserved_beside_def)
  show ?thesis
  proof (cases "ho_expires h \<le> cf_now cf")
    case True
    with acted(8) have "expireInCapture cf rq h db = (Inr r, db')" by simp
    from this ids acted(2,4) show ?thesis
    proof (rule expireInCapture_Inr)
      fix mid x
      assume rel: "releaseHoldReservation (ho_account h) (ho_amount h) db = (Inr (), mid)"
        and db': "db' = mid\<lparr>holds := upd_where (\<lambda>x. ho_id x = ho_id h) (expired_by ''Hold expired before capture'') (holds mid), audits := audits mid @ [x]\<rparr>"
      show ?thesis
        by (rule settled_matches [OF assms(2) acted(2,4) settling_expiry [of "''Hold expired before capture''"] rel, of mid]) (simp_all add: db')
    qed
  next
    case False
    with acted(8) have "captureActive cf rq h amount key db = (Inr r, db')" by simp
    from this assms(3) [OF acted(2,3,1)] ids acted(2,4) show ?thesis
    proof (rule captureActive_Inr)
      fix a mid p mid2 x
      assume rel: "releaseHoldReservation (ho_account h) (ho_amount h) db = (Inr (), mid)"
        and pur: "purchaseWithCreditInTransaction cf (capture_purchase cf rq h amount key) mid = (Inr p, mid2)"
        and db': "db' = mid2\<lparr>holds := upd_where (\<lambda>x. ho_id x = ho_id h) (captured_by rq key p) (holds mid2), audits := audits mid2 @ [x]\<rparr>"
      show ?thesis
        by (rule settled_matches [OF assms(2) acted(2,4) settling_capture [of rq key p] rel commitsD [OF gap.purchases _ pur] purchase_holds [OF pur]])
          (simp_all add: db')
    qed
  qed
qed

section \<open>Batches of expiries\<close>

lemma active_amount_le_total:
  assumes "h \<in> set (holds db)" "ho_status h = HActive" "hold_amounts_ok db"
  shows "ho_amount h \<le> active_total db (ho_account h)"
proof -
  obtain xs ys where s: "holds db = xs @ h # ys" using split_list [OF assms(1)] by blast
  have nn: "0 \<le> sum_list (map (active_amount (ho_account h)) zs)" if "set zs \<subseteq> set (holds db)" for zs
    using assms(3) that by (intro sum_list_nonneg) (fastforce simp: active_amount_def hold_amounts_ok_def list_all_iff)
  have "0 \<le> sum_list (map (active_amount (ho_account h)) xs)" "0 \<le> sum_list (map (active_amount (ho_account h)) ys)"
    by (auto intro!: nn simp: s)
  then show ?thesis using assms(2) by (simp add: active_total_def s active_amount_def)
qed

text \<open>Where reservations match, the reservation of an active hold can always be released.\<close>

lemma release_succeeds:
  assumes "reserved_beside g db" "hold_amounts_ok db" "h \<in> set (holds db)" "ho_status h = HActive" and nonneg: "\<And>i. 0 \<le> g i"
  obtains mid where "releaseHoldReservation (ho_account h) (ho_amount h) db = (Inr (), mid)"
proof -
  have "ho_account h \<in> set (map ac_id (accounts db))"
    using assms(1,3) by (simp add: reserved_beside_def list_all_iff)
  then obtain a where a: "a \<in> set (accounts db)" "ac_id a = ho_account h" by auto
  have "ac_reserved a = active_total db (ac_id a) + g (ac_id a)" using assms(1) a(1) by (simp add: reserved_beside_def list_all_iff)
  then have "ho_amount h \<le> ac_reserved a" using active_amount_le_total [OF assms(3,4,2)] a(2) nonneg [of "ac_id a"] by simp
  with a have "find (\<lambda>a. ac_id a = ho_account h \<and> ho_amount h \<le> ac_reserved a) (accounts db) \<noteq> None"
    by (auto simp: find_None_iff)
  then show thesis using that by (auto simp: releaseHoldReservation_def bind_apply)
qed

lemma expireHold_succeeds:
  assumes "reserved_beside g db" "hold_amounts_ok db" "h \<in> set (holds db)" "ho_status h = HActive" and nonneg: "\<And>i. 0 \<le> g i"
  obtains db' where "expireHold actor h db = (Inr (Some (expired_by ''Scheduled hold expiry'' h)), db')"
    "holds db' = upd_where (\<lambda>x. ho_id x = ho_id h) (expired_by ''Scheduled hold expiry'') (holds db)"
    "reserved_beside g db'" "hold_amounts_ok db'"
proof -
  have ids: "hold_ids_ok db" using assms(1) by (simp add: reserved_beside_def)
  obtain mid where rel: "releaseHoldReservation (ho_account h) (ho_amount h) db = (Inr (), mid)"
    using assms by (rule release_succeeds)
  obtain r db' where e: "expireHold actor h db = (Inr r, db')"
  proof -
    have m: "hold_ids_ok mid" "h \<in> set (holds mid)" using ids assms(3) release_frame(1) [OF rel] by (simp_all add: hold_ids_ok_def)
    obtain row mid2 where u: "updateHold (ho_id h) (\<lambda>x. ho_status x = HActive) (expired_by ''Scheduled hold expiry'') mid = (Inr row, mid2)"
      by (simp add: updateHold_Inr)
    have "row = Some (expired_by ''Scheduled hold expiry'' h)" by (rule updateHold_active [OF u m assms(4)])
    with rel u that show thesis
      by (simp add: expireHold_def Let_def bind_apply insertAudit_def expired_by_def [abs_def])
  qed
  have s: "r = Some (expired_by ''Scheduled hold expiry'' h)"
    "holds db' = upd_where (\<lambda>x. ho_id x = ho_id h) (expired_by ''Scheduled hold expiry'') (holds db)"
    using e ids assms(3,4) by (auto elim!: expireHold_Inr simp: release_frame(1))
  have "hold_amounts_ok db'"
    using assms(2) unfolding hold_amounts_ok_def s(2) by (auto simp: list_all_iff set_upd_where expired_by_def)
  with e s expire_matches [OF e assms(1,3,4)] that show thesis by blast
qed

lemma expireAll_complete:
  assumes "reserved_beside g db" "hold_amounts_ok db" "distinct (map ho_id hs)"
    and "\<And>h. h \<in> set hs \<Longrightarrow> h \<in> set (holds db) \<and> ho_status h = HActive" and nonneg: "\<And>i. 0 \<le> g i"
  shows "\<exists>db'. expireAll actor hs acc db =
      (Inr (acc\<lparr>ex_expired := ex_expired acc @ map (expired_by ''Scheduled hold expiry'') hs\<rparr>), db') \<and>
    reserved_beside g db' \<and> hold_amounts_ok db' \<and>
    holds db' = map (\<lambda>h. if ho_id h \<in> set (map ho_id hs) then expired_by ''Scheduled hold expiry'' h else h) (holds db)"
  using assms
proof (induction hs arbitrary: acc db)
  case Nil
  then show ?case by simp
next
  case (Cons h hs)
  let ?f = "expired_by ''Scheduled hold expiry''"
  obtain mid where mid: "expireHold actor h db = (Inr (Some (?f h)), mid)"
    "holds mid = upd_where (\<lambda>x. ho_id x = ho_id h) ?f (holds db)" "reserved_beside g mid" "hold_amounts_ok mid"
    using expireHold_succeeds [OF Cons.prems(1,2), of h actor] Cons.prems(4) [of h] nonneg by auto
  have rest: "k \<in> set (holds mid) \<and> ho_status k = HActive" if "k \<in> set hs" for k
  proof -
    have "ho_id k \<noteq> ho_id h" using Cons.prems(3) that by (auto simp: image_iff)
    with Cons.prems(4) [of k] that show ?thesis unfolding mid(2) set_upd_where by force
  qed
  let ?acc = "acc\<lparr>ex_expired := ex_expired acc @ [?f h]\<rparr>"
  obtain db' where db': "expireAll actor hs ?acc mid = (Inr (?acc\<lparr>ex_expired := ex_expired ?acc @ map ?f hs\<rparr>), db')"
    "reserved_beside g db'" "hold_amounts_ok db'"
    "holds db' = map (\<lambda>h. if ho_id h \<in> set (map ho_id hs) then ?f h else h) (holds mid)"
    using Cons.IH [OF mid(3,4), of ?acc] Cons.prems(3) rest nonneg by auto
  have "expireAll actor (h # hs) acc db = (Inr (acc\<lparr>ex_expired := ex_expired acc @ map ?f (h # hs)\<rparr>), db')"
    using mid(1) db'(1) by (simp add: bind_apply try_catch_def withTransaction_def)
  moreover have "holds db' = map (\<lambda>x. if ho_id x \<in> set (map ho_id (h # hs)) then ?f x else x) (holds db)"
    unfolding db'(4) mid(2) upd_where_def using Cons.prems(3) by (auto simp: expired_by_def)
  ultimately show ?case using db'(2,3) by blast
qed

lemma expireCreditHolds_run:
  assumes "reserved_beside g db" and "hold_amounts_ok db" and nonneg: "\<And>i. 0 \<le> g i"
  shows "\<exists>db'. expireCreditHolds cf limit_text actor db =
      (Inr \<lparr>ex_expired = map (expired_by ''Scheduled hold expiry'') (expiry_batch cf limit_text db), ex_failed = []\<rparr>, db') \<and>
    reserved_beside g db' \<and>
    holds db' = map (\<lambda>h. if ho_id h \<in> set (map ho_id (expiry_batch cf limit_text db))
      then expired_by ''Scheduled hold expiry'' h else h) (holds db) \<and>
    length (expiry_batch cf limit_text db) \<le> 500"
proof -
  let ?b = "expiry_batch cf limit_text db"
  let ?o = "filter (\<lambda>h. ho_status h = HActive \<and> ho_expires h \<le> cf_db_now cf) (holds db)"
  have "distinct (map ho_id (holds db))" using assms(1) by (simp add: reserved_beside_def hold_ids_ok_def)
  then have "distinct (map ho_id ?o)" by (rule distinct_map_filter)
  then have "inj_on ho_id (set ?o)" "distinct ?o" by (simp_all add: distinct_map)
  then have "distinct (map ho_id (sort_key ho_expires ?o))" by (simp add: distinct_map)
  then have d: "distinct (map ho_id ?b)" by (simp add: expiry_batch_def Let_def flip: take_map)
  have mem: "h \<in> set (holds db) \<and> ho_status h = HActive" if "h \<in> set ?b" for h
    using that by (auto simp: expiry_batch_def Let_def dest: in_set_takeD)
  obtain db' where db': "expireAll actor ?b \<lparr>ex_expired = [], ex_failed = []\<rparr> db =
      (Inr \<lparr>ex_expired = map (expired_by ''Scheduled hold expiry'') ?b, ex_failed = []\<rparr>, db')" "reserved_beside g db'"
    "holds db' = map (\<lambda>h. if ho_id h \<in> set (map ho_id ?b) then expired_by ''Scheduled hold expiry'' h else h) (holds db)"
    using expireAll_complete [OF assms(1,2) d mem nonneg, of actor "\<lparr>ex_expired = [], ex_failed = []\<rparr>"] by auto
  moreover have "length ?b \<le> 500"
  proof -
    have "nat (max 1 (min n 500)) \<le> 500" for n :: int by simp
    then show ?thesis unfolding expiry_batch_def Let_def length_take by (rule min.coboundedI2)
  qed
  ultimately show ?thesis by (simp add: expireCreditHolds_def withTransaction_def bind_apply)
qed

lemma expireCreditHolds_matches:
  "reserved_beside g db \<Longrightarrow> hold_amounts_ok db \<Longrightarrow> (\<And>i. 0 \<le> g i) \<Longrightarrow> expireCreditHolds cf n actor db = (Inr r, db') \<Longrightarrow>
   reserved_beside g db'"
  using expireCreditHolds_run [of g db cf n actor] by auto

text \<open>C32: scheduled expiry loses no reservation and is stopped by no hold: where reservations are the sum of
  the active holds, a run expires exactly the overdue holds of its batch, none of them fails, each
  gives its reservation back, every other hold is untouched and reservations match again.\<close>

theorem expireCreditHolds_complete:
  assumes "reservations_match db" and "hold_amounts_ok db"
  shows "\<exists>db'. expireCreditHolds cf limit_text actor db =
      (Inr \<lparr>ex_expired = map (expired_by ''Scheduled hold expiry'') (expiry_batch cf limit_text db), ex_failed = []\<rparr>, db') \<and>
    reservations_match db' \<and>
    holds db' = map (\<lambda>h. if ho_id h \<in> set (map ho_id (expiry_batch cf limit_text db))
      then expired_by ''Scheduled hold expiry'' h else h) (holds db) \<and>
    length (expiry_batch cf limit_text db) \<le> 500"
  using expireCreditHolds_run [of "\<lambda>_. 0" db cf limit_text actor] assms by (simp add: no_gap)

text \<open>A wallet with two active holds, one of them overdue at the clock of \<open>sample_config\<close>.\<close>

definition sample_hold :: "int \<Rightarrow> int \<Rightarrow> int \<Rightarrow> hold" where
  "sample_hold i amount expires =
     \<lparr>ho_id = i, ho_account = 2, ho_customer = ''ana'', ho_partner = 7, ho_agreement = ''a1'', ho_amount = amount, ho_currency = ''USD'',
      ho_status = HActive, ho_purpose = None, ho_refType = None, ho_refId = None, ho_key = show_int i, ho_metadata = ObjJ [],
      ho_expires = expires, ho_capture_key = None, ho_captured_txn = None, ho_actor_type = None, ho_actor = None, ho_reason = None\<rparr>"

definition sample_holds :: ledger where
  "sample_holds = sample_ledger\<lparr>accounts := [sample_account 1 Platform_treasury None None (- 90),
     (sample_account 2 Customer_wallet (Some ''ana'') None 90)\<lparr>ac_reserved := 50\<rparr>],
     holds := [sample_hold 1 20 900, sample_hold 2 30 2000]\<rparr>"

lemma sample_batch: "map ho_id (expiry_batch sample_config ''100'' sample_holds) = [1]"
  by code_simp

lemma sample_holds_ok: "reservations_match sample_holds" "hold_amounts_ok sample_holds"
  by code_simp+

theorem expireCreditHolds_complete_witness:
  "(\<exists>db'. expireCreditHolds sample_config ''100'' None sample_holds =
      (Inr \<lparr>ex_expired = map (expired_by ''Scheduled hold expiry'') (expiry_batch sample_config ''100'' sample_holds), ex_failed = []\<rparr>, db') \<and>
    reservations_match db') \<and> map ho_id (expiry_batch sample_config ''100'' sample_holds) = [1]"
  using expireCreditHolds_complete [OF sample_holds_ok, of sample_config "''100''" None] sample_batch by blast

end
