(* ===== verification/WalletCommands.thy ===== *)
theory WalletCommands
  imports HoldProperties
begin

text \<open>
  The credit ledger as a system: the exported operations of \<open>services/oxsteedCreditService.js\<close> as commands,
  the states a sequence of them reaches, and the invariants of every such state. Between two commands
  the rest of the server may change every table but the journal, its accounts and the holds.
\<close>

section \<open>Commands\<close>

datatype command =
    LoadCredit load_request
  | Purchase purchase_request
  | Transfer transfer_request
  | CreatorTransfer transfer_request
  | Adjust adjust_request
  | SetStatus status_request
  | Refund refund_request
  | RefundReference "string option" "string option" refund_request
  | CreateHold hold_request
  | ReleaseHold release_request
  | CaptureHold capture_request
  | ExpireHolds string "string option"
  | DecideScreening "int option" string string "string option" "string option"
  | PostMovement journal_input
  | OpenAccount owner "string option" bool

definition completed :: "'a credit \<Rightarrow> unit credit" where
  "completed m = bind m (\<lambda>_. ret ())"

text \<open>\<open>PostMovement\<close> and \<open>OpenAccount\<close> are the other services, which use the journal directly in a transaction of theirs.\<close>

primrec perform :: "config \<Rightarrow> command \<Rightarrow> unit credit" where
  "perform cf (LoadCredit rq) = completed (loadCustomerCredit cf rq)"
| "perform cf (Purchase rq) = completed (purchaseWithCredit cf rq)"
| "perform cf (Transfer rq) = completed (transferCredit cf rq)"
| "perform cf (CreatorTransfer rq) = completed (transferCreatorCredit cf rq)"
| "perform cf (Adjust rq) = completed (adjustCustomerCredit cf rq)"
| "perform cf (SetStatus rq) = completed (updateCustomerCreditAccountStatus cf rq)"
| "perform cf (Refund rq) = completed (refundCredit cf rq)"
| "perform cf (RefundReference ty i rq) = completed (withTransaction (refundCreditForReferenceInTransaction cf ty i rq))"
| "perform cf (CreateHold rq) = completed (createCreditHold cf rq)"
| "perform cf (ReleaseHold rq) = completed (releaseCreditHold cf rq)"
| "perform cf (CaptureHold rq) = completed (captureCreditHold cf rq)"
| "perform cf (ExpireHolds n actor) = completed (expireCreditHolds cf n actor)"
| "perform cf (DecideScreening i d actor reason ip) = completed (decideSanctionsScreening cf i d actor reason ip)"
| "perform cf (PostMovement inp) = completed (withTransaction (postJournalTransaction cf inp))"
| "perform cf (OpenAccount w code anyOwner) = completed (withTransaction (ensureAccount cf w code anyOwner))"

section \<open>Failing changes nothing\<close>

definition atomic :: "'a credit \<Rightarrow> bool" where
  "atomic m \<longleftrightarrow> (\<forall>db e db'. m db = (Inl e, db') \<longrightarrow> db' = db)"

definition only_reads :: "'a credit \<Rightarrow> bool" where
  "only_reads m \<longleftrightarrow> (\<forall>db. snd (m db) = db)"

lemma only_reads_basic:
  "only_reads (lift_res r)" "only_reads (gets g)" "only_reads (require_key k)" "only_reads (ret a)" "only_reads (fail e)"
  by (simp_all add: only_reads_def require_key_def split: option.splits)

lemma atomic_reads: "only_reads m \<Longrightarrow> atomic m"
  by (metis atomic_def only_reads_def snd_conv)

lemma atomic_withTransaction: "atomic (withTransaction m)"
  by (auto simp: atomic_def withTransaction_def split: prod.splits sum.splits)

lemma atomic_bind:
  assumes "only_reads m" "\<And>a. atomic (f a)"
  shows "atomic (bind m f)"
  unfolding atomic_def
proof (intro allI impI)
  fix db e db' assume r: "bind m f db = (Inl e, db')"
  obtain x mid where m: "m db = (x, mid)" by fastforce
  have "mid = db" using assms(1) m by (metis only_reads_def snd_conv)
  with r m assms(2) show "db' = db" by (cases x) (auto simp: bind_apply atomic_def)
qed

lemma atomic_if: "atomic m \<Longrightarrow> atomic n \<Longrightarrow> atomic (if c then m else n)"
  by simp

lemma atomic_case_option: "atomic m \<Longrightarrow> (\<And>a. atomic (f a)) \<Longrightarrow> atomic (case x of None \<Rightarrow> m | Some a \<Rightarrow> f a)"
  by (cases x) simp_all

lemma atomic_Let: "(\<And>x. atomic (f x)) \<Longrightarrow> atomic (let x = a in f x)"
  by simp

lemma atomic_completed: "atomic m \<Longrightarrow> atomic (completed m)"
  by (auto simp: atomic_def completed_def bind_apply split: prod.splits sum.splits)

lemmas atomic_intros = atomic_completed atomic_withTransaction atomic_bind atomic_if atomic_case_option atomic_Let only_reads_basic
  atomic_reads [OF only_reads_basic(4)] atomic_reads [OF only_reads_basic(5)]

lemma atomic_perform: "atomic (perform cf c)"
proof (cases c)
  case (LoadCredit rq)
  then show ?thesis by (simp add: loadCustomerCredit_def) (intro atomic_intros)
next
  case (SetStatus rq)
  then show ?thesis by (simp add: updateCustomerCreditAccountStatus_def) (intro atomic_intros)
next
  case (ReleaseHold rq)
  then show ?thesis by (simp add: releaseCreditHold_def) (intro atomic_intros)
next
  case (DecideScreening i d actor reason ip)
  then show ?thesis by (simp add: decideSanctionsScreening_def) (intro atomic_intros)
qed (simp_all add: purchaseWithCredit_def transferCredit_def transferCreatorCredit_def adjustCustomerCredit_def refundCredit_def
  createCreditHold_def captureCreditHold_def expireCreditHolds_def atomic_completed atomic_withTransaction)

lemma atomic_commits: "atomic m \<Longrightarrow> commits I m \<Longrightarrow> keeps I m"
  unfolding atomic_def commits_def keeps_def by (metis prod.collapse sum.exhaust)

lemma commits_completed: "commits I m \<Longrightarrow> commits I (completed m)"
  unfolding completed_def by (intro commits_intros)

section \<open>Promises and commands\<close>

context wallet_contract
begin

lemma performed: "commits (with_amounts promise cf) (perform cf c)"
  by (cases c) (simp_all add: commits_completed purchaseWithCredit_def transferCredit_def transferCreatorCredit_def adjustCustomerCredit_def
    refundCredit_def createCreditHold_def captureCreditHold_def amounts.loads amounts.purchases amounts.transfers amounts.adjusts
    amounts.refunds amounts.refunds_by_reference amounts.decides amounts.post amounts.ensure statuses creates hold_releases captures
    batch_expires commits_withTransaction)

lemma performs: "keeps (with_amounts promise cf) (perform cf c)"
  by (rule atomic_commits [OF atomic_perform performed])

end

text \<open>The tables the invariants read.\<close>

definition journal_part :: "ledger \<Rightarrow> account list \<times> txn list \<times> entry list \<times> hold list" where
  "journal_part db = (accounts db, txns db, entries db, holds db)"

definition journal_ok :: "config \<Rightarrow> ledger \<Rightarrow> bool" where
  "journal_ok cf db \<longleftrightarrow> balanced db \<and> funded db \<and> double_entry db \<and> owners_unique db \<and> sealed cf db \<and> hold_amounts_ok db"

lemma journal_ok_performs:
  assumes "journal_ok cf db"
  shows "journal_ok cf (snd (perform cf c db))"
proof -
  have k: "I (snd (perform cf c db))" if "keeps I (perform cf c)" "I db" for I
    using that by (simp add: keeps_def)
  show ?thesis
    using assms k [OF balance.performs] k [OF coverage.performs] k [OF two_sides.performs] k [OF ownership.performs] k [OF seal.performs]
    by (simp add: journal_ok_def with_amounts_def)
qed

lemma linked_hmac: "cf_hmac cf' = cf_hmac cf \<Longrightarrow> linked cf' s rows = linked cf s rows"
  by (induction rows arbitrary: s) (auto simp: computeEntryHash_def)

text \<open>A frame rule: other tables, other clocks and a rotated signing key leave the invariant alone.\<close>

lemma journal_ok_frame:
  assumes "journal_ok cf db" and "journal_part db' = journal_part db" and k: "cf_hmac cf' = cf_hmac cf" "digests_ok cf'"
  shows "journal_ok cf' db'"
proof -
  have f: "accounts db' = accounts db" "txns db' = txns db" "entries db' = entries db" "holds db' = holds db"
    using assms(2) by (simp_all add: journal_part_def)
  have ids: "account_ids_ok db' = account_ids_ok db" by (simp add: account_ids_ok_def f)
  have bal: "balanced db' = balanced db" unfolding balanced_iff by (simp add: ids trial_balance_def f)
  have cov: "funded db' = funded db" by (simp add: funded_def ids f)
  have two: "double_entry db' = double_entry db" by (simp add: double_entry_def loadAccountEntries_def f)
  have own: "owners_unique db' = owners_unique db" by (simp add: owners_unique_def f)
  have amt: "hold_amounts_ok db' = hold_amounts_ok db" by (simp add: hold_amounts_ok_def f)
  have "journal_rows db' = journal_rows db" by (simp add: journal_rows_def f fun_eq_iff)
  then have "account_clean cf' db' = account_clean cf db"
    by (simp add: account_clean_def fun_eq_iff linked_hmac [OF k(1)])
  then have "sealed cf db \<Longrightarrow> sealed cf' db'" using k(2) by (simp add: sealed_def keyed_def ids f)
  with assms(1) bal cov two own amt show ?thesis by (simp add: journal_ok_def)
qed

section \<open>Reachable ledgers\<close>

text \<open>
  Runs of the system from a ledger \<open>start\<close>: commands, each at its own configuration (clock, limits and
  snapshot change; the signing function stays, the key version may rotate), and changes of the other
  tables. \<open>permitted\<close> restricts the commands of a run.
\<close>

inductive reachable :: "(command \<Rightarrow> ledger \<Rightarrow> bool) \<Rightarrow> config \<Rightarrow> ledger \<Rightarrow> config \<Rightarrow> ledger \<Rightarrow> bool"
  for permitted cf0 start where
  begins: "reachable permitted cf0 start cf0 start"
| performs: "reachable permitted cf0 start cf db \<Longrightarrow> permitted c db \<Longrightarrow> reachable permitted cf0 start cf (snd (perform cf c db))"
| elsewhere: "reachable permitted cf0 start cf db \<Longrightarrow> journal_part db' = journal_part db \<Longrightarrow>
    cf_hmac cf' = cf_hmac cf \<Longrightarrow> digests_ok cf' \<Longrightarrow> reachable permitted cf0 start cf' db'"

theorem reachable_journal_ok:
  assumes "reachable permitted cf0 start cf db" and "journal_ok cf0 start"
  shows "journal_ok cf db"
  using assms by induction (auto intro: journal_ok_performs journal_ok_frame)

text \<open>A capture takes the legacy branch when its key is the raw key of a purchase that names the hold.\<close>

fun takes_legacy :: "command \<Rightarrow> ledger \<Rightarrow> bool" where
  "takes_legacy (CaptureHold rq) db =
     (case normalizeString (cq_key rq) 160 of
        None \<Rightarrow> False
      | Some key \<Rightarrow> list_ex (\<lambda>h. ho_id h = cq_hold rq \<and> findLegacyCapturePurchase key h db \<noteq> None) (holds db))"
| "takes_legacy c db = False"

section \<open>Reservations\<close>

lemma completed_Inr: "completed m db = (Inr u, db') \<longleftrightarrow> (\<exists>a. m db = (Inr a, db'))"
  by (auto simp: completed_def bind_Inr_iff)

lemma status_matches:
  assumes "reserved_beside g db"
  shows "reserved_beside g (set_status i new db)"
proof (rule gap_frame [OF assms])
  show "map (\<lambda>a. (ac_id a, ac_reserved a)) (accounts (set_status i new db)) = map (\<lambda>a. (ac_id a, ac_reserved a)) (accounts db)"
    unfolding set_status_def by (simp add: map_upd_where_frame)
qed simp

lemma statuses_match: "commits (reserved_beside g) (updateCustomerCreditAccountStatus cf rq)"
proof -
  have "commits (reserved_beside g) (modify (set_status i new))" for i new
    by (rule commits_modify) (rule status_matches)
  then show ?thesis
    unfolding updateCustomerCreditAccountStatus_def by (intro gap.op_intros)
qed

text \<open>Without the legacy branch, every command keeps the reservations equal to the active holds and what others reserve.\<close>

lemma performed_matches:
  assumes "perform cf c db = (Inr u, db')" and m: "reserved_beside g db" "hold_amounts_ok db" and "\<not> takes_legacy c db"
    and nonneg: "\<And>i. 0 \<le> g i"
  shows "reserved_beside g db'"
proof -
  have k: "reserved_beside g db'" if "commits (reserved_beside g) n" "n db = (Inr a, db')" for n :: "'b credit" and a
    by (rule commitsD [OF that(1) m(1) that(2)])
  show ?thesis
  proof (cases c)
    case (SetStatus rq)
    with assms(1) show ?thesis using commitsD [OF statuses_match m(1)] by (auto simp: completed_Inr)
  next
    case (CreateHold rq)
    with assms(1) m show ?thesis by (auto simp: completed_Inr createCreditHold_def intro: create_matches)
  next
    case (ReleaseHold rq)
    with assms(1) m show ?thesis by (auto simp: completed_Inr intro: release_matches)
  next
    case (CaptureHold rq)
    with assms(1) obtain r where r: "captureCreditHoldInTransaction cf rq db = (Inr r, db')"
      by (auto simp: completed_Inr captureCreditHold_def)
    show ?thesis
    proof (rule capture_matches [OF r m(1)])
      fix h key assume h: "h \<in> set (holds db)" "ho_id h = cq_hold rq" and "require_key (cq_key rq) db = (Inr key, db)"
      then have "normalizeString (cq_key rq) 160 = Some key" by (simp add: require_key_def split: option.splits)
      with assms(4) h show "findLegacyCapturePurchase key h db = None" unfolding CaptureHold by (auto simp: list_ex_iff)
    qed
  next
    case (ExpireHolds n actor)
    with assms(1) obtain r where "expireCreditHolds cf n actor db = (Inr r, db')" by (auto simp: completed_Inr)
    with expireCreditHolds_matches [OF m nonneg, of cf n actor] show ?thesis by auto
  qed (use assms(1) in \<open>auto simp: completed_Inr purchaseWithCredit_def transferCredit_def transferCreatorCredit_def adjustCustomerCredit_def
      refundCredit_def intro: k gap.loads gap.purchases gap.transfers gap.adjusts gap.refunds gap.refunds_by_reference gap.decides gap.post gap.ensure\<close>)
qed

section \<open>The life of a hold\<close>

text \<open>A row may be settled once; its terms stay, and so does everything of a settled row.\<close>

definition hold_step :: "hold \<Rightarrow> hold \<Rightarrow> bool" where
  "hold_step old new \<longleftrightarrow> hold_terms new = hold_terms old \<and> (ho_status old \<noteq> HActive \<longrightarrow> new = old)"

definition advances :: "ledger \<Rightarrow> ledger \<Rightarrow> bool" where
  "advances db db' \<longleftrightarrow> hold_ids_ok db' \<and> list_all2 hold_step (holds db) (take (length (holds db)) (holds db'))"

lemma hold_step_refl: "hold_step h h"
  by (simp add: hold_step_def)

lemma hold_step_trans: "hold_step h k \<Longrightarrow> hold_step k l \<Longrightarrow> hold_step h l"
  by (auto simp: hold_step_def hold_terms_def)

lemma advances_refl: "hold_ids_ok db \<Longrightarrow> advances db db"
  by (simp add: advances_def list_all2_refl hold_step_refl)

lemma advances_trans:
  assumes "advances a b" "advances b c"
  shows "advances a c"
proof -
  let ?n = "length (holds a)" and ?m = "length (holds b)"
  have ab: "list_all2 hold_step (holds a) (take ?n (holds b))" and bc: "list_all2 hold_step (holds b) (take ?m (holds c))"
    using assms by (simp_all add: advances_def)
  have "?n \<le> ?m" using list_all2_lengthD [OF ab] by simp
  then have "list_all2 hold_step (take ?n (holds b)) (take ?n (holds c))"
    using list_all2_takeI [OF bc, of ?n] by (simp add: min_def)
  with ab have "list_all2 hold_step (holds a) (take ?n (holds c))"
    by (blast intro: list_all2_trans hold_step_trans)
  with assms(2) show ?thesis by (simp add: advances_def)
qed

lemma advances_rows: "holds db' = holds db \<Longrightarrow> advances start db \<Longrightarrow> advances start db'"
  by (simp add: advances_def hold_ids_ok_def)

lemma advances_settle:
  assumes "hold_ids_ok db" "settling f" "holds db' = upd_where p f (holds db)"
    and "\<And>h. h \<in> set (holds db) \<Longrightarrow> p h \<Longrightarrow> ho_status h = HActive"
  shows "advances db db'"
proof -
  have "map ho_id (holds db') = map ho_id (holds db)"
    unfolding assms(3) by (rule map_upd_where_frame) (simp add: settlingD [OF assms(2)])
  then have "hold_ids_ok db'" using assms(1) by (simp add: hold_ids_ok_def)
  moreover have "list_all2 hold_step (holds db) (upd_where p f (holds db))"
    using assms(4) by (auto simp: upd_where_def list.rel_map hold_step_def settlingD [OF assms(2)] intro!: list.rel_refl_strong)
  moreover have "length (holds db') = length (holds db)" by (simp add: assms(3) upd_where_def)
  ultimately show ?thesis by (simp add: advances_def assms(3))
qed

interpretation life: posting_contract "\<lambda>_. advances start" for start
proof
  show "commits (advances start) (postJournalTransaction cf inp)" for cf inp
    by (rule commitsI) (rule advances_rows [OF post_holds])
  show "commits (advances start) (ensureAccount cf w code anyOwner)" for cf w code anyOwner
    by (rule commitsI) (rule advances_rows [OF ensure_txns(3)])
qed (auto intro: advances_rows)

lemma life_release: "commits (advances start) (releaseHoldReservation i n)"
  by (rule commitsI) (rule advances_rows [OF release_frame(1)])

lemma life_update:
  assumes "settling f"
  shows "commits (advances start) (updateHold i (\<lambda>x. ho_status x = HActive) f)"
proof (rule commitsI)
  fix db r db' assume a: "advances start db" and "updateHold i (\<lambda>x. ho_status x = HActive) f db = (Inr r, db')"
  then have "holds db' = upd_where (\<lambda>h. ho_id h = i \<and> ho_status h = HActive) f (holds db)" by (simp add: updateHold_Inr)
  from advances_settle [OF _ assms this] a have "advances db db'" by (simp add: advances_def)
  with a show "advances start db'" by (rule advances_trans)
qed

lemma life_status: "commits (advances start) (updateCustomerCreditAccountStatus cf rq)"
proof -
  have "commits (advances start) (modify (set_status i new))" for i new
    by (rule commits_modify) (auto intro: advances_rows)
  then show ?thesis unfolding updateCustomerCreditAccountStatus_def by (intro life.op_intros)
qed

lemma life_capture: "commits (advances start) (captureCreditHoldInTransaction cf rq)"
proof -
  have purchase: "commits (advances start) (purchaseForCapture cf rq h amount key)" for h amount key
    unfolding purchaseForCapture_def Let_def
    by (intro life.op_intros life_release commits_try_fail life.purchases) (auto simp: bind_apply)
  have claim: "commits (advances start) (claimCapture rq h key p)" for h key p
    unfolding claimCapture_def Let_def captured_by_def [symmetric, abs_def]
    by (intro commits_try_fail life.op_intros life_update [OF settling_capture]) (auto split: if_splits)
  have active: "commits (advances start) (captureActive cf rq h amount key)" for h amount key
    unfolding captureActive_def by (intro life.op_intros purchase claim)
  have expiring: "commits (advances start) (expireInCapture cf rq h)" for h
    unfolding expireInCapture_def Let_def expired_by_def [symmetric, abs_def]
    by (intro life.op_intros life_release life_update [OF settling_expiry])
  show ?thesis
    unfolding captureCreditHoldInTransaction_def replayCapture_def by (intro life.op_intros active expiring)
qed

lemma life_expiry: "commits (advances start) (expireCreditHolds cf n actor)"
proof -
  have one: "commits (advances start) (expireHold actor h)" for h
    unfolding expireHold_def Let_def expired_by_def [symmetric, abs_def]
    by (intro life.op_intros life_release life_update [OF settling_expiry])
  have all: "commits (advances start) (expireAll actor hs acc)" for hs acc
  proof (induction hs arbitrary: acc)
    case (Cons h hs)
    let ?m = "try_catch (bind (withTransaction (expireHold actor h)) (\<lambda>row.
           ret (case row of None \<Rightarrow> acc | Some x \<Rightarrow> acc\<lparr>ex_expired := ex_expired acc @ [x]\<rparr>)))
        (\<lambda>e. ret (acc\<lparr>ex_failed := ex_failed acc @ [(ho_id h, e)]\<rparr>))"
    have "keeps (advances start) ?m"
      by (intro keeps_intros keeps_withTransaction_commits one)
    then have "commits (advances start) ?m" by (rule keeps_commits)
    from commits_bind [OF this Cons.IH] show ?case by simp
  qed (simp add: commits_basic del: ret_apply)
  show ?thesis unfolding expireCreditHolds_def by (intro life.op_intros all)
qed

lemma life_create: "commits (advances start) (createCreditHoldInTransaction cf rq)"
proof (rule commitsI)
  fix db r db' assume a: "advances start db" and r: "createCreditHoldInTransaction cf rq db = (Inr r, db')"
  from r show "advances start db'"
  proof (cases rule: createCreditHoldInTransaction_Inr)
    case replayed
    with a commitsD [OF life.ensure a] show ?thesis by blast
  next
    case (created amount key expiry agreement currency account mid x)
    have m: "advances start mid" by (rule commitsD [OF life.ensure a created(9)])
    have rows: "holds db' = holds mid @ [fst r]" unfolding created(13) by simp
    have "ho_id (fst r) \<notin> set (map ho_id (holds mid))"
      unfolding created(12) new_hold_def using next_id_fresh [of "map ho_id (holds mid)"] by simp
    moreover have "list_all2 hold_step (holds mid) (holds mid)" by (simp add: list_all2_refl hold_step_refl)
    ultimately have "advances mid db'" using m by (simp add: advances_def hold_ids_ok_def rows)
    with m show ?thesis by (rule advances_trans)
  qed
qed

lemma life_releaseHold: "commits (advances start) (releaseCreditHold cf rq)"
proof (rule commitsI)
  fix db r db' assume a: "advances start db" and r: "releaseCreditHold cf rq db = (Inr r, db')"
  from r show "advances start db'"
  proof (cases rule: releaseCreditHold_Inr)
    case replayed
    with a show ?thesis by simp
  next
    case (released h mid x)
    have ids: "hold_ids_ok db" using a by (simp add: advances_def)
    then have "distinct (map ho_id (holds db))" by (simp add: hold_ids_ok_def)
    then have one: "k = h" if "k \<in> set (holds db)" "ho_id k = ho_id h" for k
      using that released(4) by (simp add: distinct_map inj_on_def)
    have "holds db' = upd_where (\<lambda>x. ho_id x = ho_id h) (released_by rq) (holds db)"
      unfolding released(8) by (simp add: release_frame(1) [OF released(6)])
    from advances_settle [OF ids settling_release this] one released(5) have "advances db db'" by auto
    with a show ?thesis by (rule advances_trans)
  qed
qed

lemma life_performs: "keeps (advances start) (perform cf c)"
proof (rule atomic_commits [OF atomic_perform])
  show "commits (advances start) (perform cf c)"
    by (cases c) (simp_all add: commits_completed purchaseWithCredit_def transferCredit_def transferCreatorCredit_def adjustCustomerCredit_def
      refundCredit_def createCreditHold_def captureCreditHold_def life.loads life.purchases life.transfers life.adjusts life.refunds
      life.refunds_by_reference life.decides life.post life.ensure life_status life_create life_releaseHold life_capture life_expiry
      commits_withTransaction)
qed

lemma reachable_advances:
  assumes "reachable permitted cf0 start cf db" and "hold_ids_ok start"
  shows "advances start db"
  using assms
proof induction
  case begins
  then show ?case by (rule advances_refl)
next
  case (performs cf db c)
  then show ?case using life_performs by (simp add: keeps_def)
next
  case (elsewhere cf db db' cf')
  then show ?case by (auto simp: journal_part_def intro: advances_rows)
qed

end
