(* ===== verification/LedgerProperties.thy ===== *)
theory LedgerProperties
  imports WalletCommands
begin

text \<open>
  What holds in every ledger the commands of \<open>WalletCommands\<close> reach, whatever else the server does to
  the other tables in between.
\<close>

section \<open>A sample run\<close>

definition sample_run :: "command \<Rightarrow> ledger \<Rightarrow> ledger" where
  "sample_run c start = snd (perform sample_config c start)"

lemma sample_run_reachable:
  "permitted c start \<Longrightarrow> reachable permitted sample_config start sample_config (sample_run c start)"
  unfolding sample_run_def by (rule reachable.performs [OF reachable.begins])

lemma sample_digests: "digests_ok sample_config"
  by (simp add: digests_ok_def sample_config_def)

lemma sample_ledger_sealed: "keyed sample_ledger" "list_all (account_clean sample_config sample_ledger) (accounts sample_ledger)"
  "double_entry sample_ledger" "owners_unique sample_ledger" "hold_amounts_ok sample_ledger"
  by code_simp+

lemma sample_ledger_journal_ok: "journal_ok sample_config sample_ledger"
  by (simp add: journal_ok_def sample_ledger_ok sample_ledger_sealed sealed_def sample_digests)

lemma sample_holds_sound: "balanced sample_holds" "funded sample_holds" "double_entry sample_holds" "owners_unique sample_holds"
  "keyed sample_holds" "list_all (account_clean sample_config sample_holds) (accounts sample_holds)" "hold_ids_ok sample_holds"
  by code_simp+

lemma sample_holds_journal_ok: "journal_ok sample_config sample_holds"
  by (simp add: journal_ok_def sample_holds_ok sample_holds_sound sealed_def sample_digests)

text \<open>The overdue hold expires; the wallet stays the second account.\<close>

lemma sample_expiry:
  "map ac_reserved (accounts (sample_run (ExpireHolds ''100'' None) sample_holds)) = [0, 30]"
  "map ho_status (holds (sample_run (ExpireHolds ''100'' None) sample_holds)) = [HExpired, HActive]"
  by code_simp+

lemma sample_posting_balances:
  "map ac_balance (accounts (sample_run (PostMovement sample_load) sample_ledger)) = [- 50, 50]"
  by code_simp

section \<open>Every reachable ledger\<close>

text \<open>C2: the ledger stays sound under every sequence of operations, successful or failing, on
  wallets, holds, screenings and the journal, with any changes of the other tables and a rotating
  signing key in between: in every currency the balances sum to zero, no account that may not go
  negative is overdrawn or reserved beyond its balance (the platform's treasury and revenue and the
  payables of partners may, unless the account is marked non-negative), every posted transaction has exactly one debit
  and one credit leg of its amount, no owner has two accounts, and the integrity job over the hash
  chains reports nothing.\<close>

theorem reachable_ledger_sound:
  assumes "reachable permitted cf0 start cf db" and "journal_ok cf0 start" and "0 < n"
  shows "(\<forall>cur. trial_balance db cur = 0) \<and> list_all covered (accounts db) \<and> double_entry db \<and> owners_unique db \<and>
    verifyJournalInBatches cf n db = Inr no_findings"
  using reachable_journal_ok [OF assms(1,2)] sealed_report [of cf db n] assms(3)
  by (simp add: journal_ok_def balanced_iff funded_def)

theorem reachable_ledger_sound_witness:
  "verifyJournalInBatches sample_config 10 (sample_run (PostMovement sample_load) sample_ledger) = Inr no_findings \<and>
   trial_balance (sample_run (PostMovement sample_load) sample_ledger) ''USD'' = 0 \<and>
   map ac_balance (accounts (sample_run (PostMovement sample_load) sample_ledger)) = [- 50, 50]"
proof -
  have r: "reachable (\<lambda>_ _. True) sample_config sample_ledger sample_config (sample_run (PostMovement sample_load) sample_ledger)"
    by (rule sample_run_reachable) simp
  from reachable_ledger_sound [OF r sample_ledger_journal_ok, of 10] sample_posting_balances show ?thesis by simp
qed

lemma reachable_matches:
  assumes "reachable (\<lambda>c db. \<not> takes_legacy c db) cf0 start cf db" and "journal_ok cf0 start" "reservations_match start"
  shows "reservations_match db"
  using assms
proof induction
  case (performs cf db c)
  have "reservations_match db" "hold_amounts_ok db"
    using performs reachable_journal_ok [OF performs(1)] by (simp_all add: journal_ok_def)
  moreover obtain r db' where "perform cf c db = (r, db')" by fastforce
  ultimately show ?case
    using performs(2) performed_matches [of cf c db _ _ "\<lambda>_. 0"] atomic_perform [of cf c] by (cases r) (auto simp: atomic_def no_gap)
next
  case (elsewhere cf db db' cf')
  then have "accounts db' = accounts db" "holds db' = holds db" by (simp_all add: journal_part_def)
  with gap_frame [where g = "\<lambda>_. 0" and db = db and db' = db'] elsewhere show ?case by (simp add: no_gap)
qed

text \<open>C3: no reservation is lost or invented: on every run in which no capture takes the legacy branch,
  the reserved amount of each account is the sum of its active holds, whatever creations, releases,
  captures (adjusted ones, failing ones) and expiry batches happened before.\<close>

theorem reservations_are_active_holds:
  assumes "reachable (\<lambda>c db. \<not> takes_legacy c db) cf0 start cf db" and "journal_ok cf0 start" "reservations_match start"
    and "a \<in> set (accounts db)"
  shows "ac_reserved a = sum_list (map ho_amount (filter (\<lambda>h. ho_account h = ac_id a \<and> ho_status h = HActive) (holds db)))"
proof -
  have "sum_list (map (active_amount i) hs) = sum_list (map ho_amount (filter (\<lambda>h. ho_account h = i \<and> ho_status h = HActive) hs))" for i hs
    by (induction hs) (simp_all add: active_amount_def)
  with reachable_matches [OF assms(1-3)] assms(4) show ?thesis
    by (simp add: reservations_match_def active_total_def list_all_iff)
qed

theorem reservations_are_active_holds_witness:
  "\<exists>a \<in> set (accounts (sample_run (ExpireHolds ''100'' None) sample_holds)). ac_reserved a = 30 \<and>
     ac_reserved a = sum_list (map ho_amount (filter (\<lambda>h. ho_account h = ac_id a \<and> ho_status h = HActive)
       (holds (sample_run (ExpireHolds ''100'' None) sample_holds))))"
proof -
  have r: "reachable (\<lambda>c db. \<not> takes_legacy c db) sample_config sample_holds sample_config (sample_run (ExpireHolds ''100'' None) sample_holds)"
    by (rule sample_run_reachable) simp
  obtain a where "a \<in> set (accounts (sample_run (ExpireHolds ''100'' None) sample_holds))" "ac_reserved a = 30"
  proof -
    have "30 \<in> set (map ac_reserved (accounts (sample_run (ExpireHolds ''100'' None) sample_holds)))"
      unfolding sample_expiry(1) by simp
    with that show thesis by auto
  qed
  with reservations_are_active_holds [OF r sample_holds_journal_ok sample_holds_ok(1)] show ?thesis by auto
qed

text \<open>C13: a hold is settled at most once and its terms are fixed: on every run, a hold of the start keeps
  its place, customer, partner, agreement, amount, currency and expiry, and if it was released,
  captured or expired, then nothing of it changes any more.\<close>

theorem holds_only_settle:
  assumes "reachable permitted cf0 start cf db" and "hold_ids_ok start" and "i < length (holds start)"
  shows "i < length (holds db) \<and> hold_terms (holds db ! i) = hold_terms (holds start ! i) \<and>
    (ho_status (holds start ! i) = HActive \<or> holds db ! i = holds start ! i)"
proof -
  have l: "list_all2 hold_step (holds start) (take (length (holds start)) (holds db))"
    using reachable_advances [OF assms(1,2)] by (simp add: advances_def)
  have "length (holds start) \<le> length (holds db)" using list_all2_lengthD [OF l] by simp
  then show ?thesis using list_all2_nthD [OF l assms(3)] assms(3) by (auto simp: hold_step_def)
qed

theorem holds_only_settle_witness:
  "hold_terms (holds (sample_run (ExpireHolds ''100'' None) sample_holds) ! 0) = hold_terms (sample_hold 1 20 900) \<and>
   ho_status (holds (sample_run (ExpireHolds ''100'' None) sample_holds) ! 0) = HExpired"
proof -
  have r: "reachable (\<lambda>_ _. True) sample_config sample_holds sample_config (sample_run (ExpireHolds ''100'' None) sample_holds)"
    by (rule sample_run_reachable) simp
  have first: "holds sample_holds ! 0 = sample_hold 1 20 900" "0 < length (holds sample_holds)" by (simp_all add: sample_holds_def)
  note l = holds_only_settle [OF r sample_holds_sound(7) first(2)]
  have "ho_status (holds (sample_run (ExpireHolds ''100'' None) sample_holds) ! 0) =
      map ho_status (holds (sample_run (ExpireHolds ''100'' None) sample_holds)) ! 0"
    using l by simp
  with l first(1) sample_expiry(2) show ?thesis by simp
qed

end
