(* ===== verification/CreditProperties.thy ===== *)
theory CreditProperties
  imports LedgerProperties
begin

text \<open>
  What the operations on customer wallets guarantee when they return: whose money moves, how much of it,
  under which agreement and limits, and what a retry does.
\<close>

section \<open>Purchases\<close>

definition purchase_posting :: "purchase_request \<Rightarrow> int \<Rightarrow> string \<Rightarrow> string \<Rightarrow> account \<Rightarrow> account \<Rightarrow> spend_row \<Rightarrow> journal_input" where
  "purchase_posting rq amount currency key wallet payable agreement =
     (purchase_input rq amount currency key (ac_id wallet) (ac_id payable) (Some (ag_id (sw_agreement agreement))))
       \<lparr>ji_metadata := purchase_metadata rq\<rparr>"

lemma rail_Inr: "assertCreditRailEnabled False db = (Inr u, db') \<Longrightarrow> db' = db \<and> isCreditRailEnabled db \<and> \<not> frozen db"
  by (auto simp: assertCreditRailEnabled_def assertCreditRailNotFrozen_def bind_Inr_iff split: if_splits)

lemma require_key_Inr: "require_key k db = (Inr key, db') \<longleftrightarrow> normalizeString k 160 = Some key \<and> db' = db"
  by (auto simp: require_key_def split: option.splits)

lemma purchase_replay_posting:
  assumes "replayPurchase cf rq amount key t db = (Inr p, db')"
  obtains inp where "postJournalTransaction cf inp db = (Inr p, db')" "ji_existing inp = Some t" "ji_metadata inp = pu_metadata rq"
  using assms unfolding replayPurchase_def by (auto simp: bind_Inr_iff purchase_input_def split: if_splits)

lemma replayed_posting:
  assumes "postJournalTransaction cf inp db = (Inr p, db')" and "ji_existing inp = Some t"
  shows "po_replayed p" "db' = db" "assertIdempotencyReplayMatches t (requested_replay inp (projr (parseAmountCents cf (ji_amount inp) (Some (Some (ji_currency inp))))) (projr (assertSupportedCreditCurrency cf (Some (ji_currency inp))))) = Inr ()"
  using assms by (auto elim!: postJournalTransaction_Inr simp: replayTransaction_Inr)

lemma purchase_replay_frame:
  assumes "replayPurchase cf rq amount key t db = (Inr p, db')"
  shows "po_replayed p \<and> db' = db"
  using assms by (rule purchase_replay_posting) (simp add: replayed_posting)

lemma purchase_Inr:
  assumes "purchaseWithCreditInTransaction cf rq db = (Inr p, db')"
  obtains (replayed) amount key t where
    "parseAmountCents cf (pu_amount rq) (pu_currency rq) = Inr amount" "normalizeString (pu_key rq) 160 = Some key"
    "findExistingPurchaseForReplay (pu_spend rq) key db = Inr (Some t)" "replayPurchase cf rq amount key t db = (Inr p, db')"
  | (paid) amount key agreement currency wallet payable mid mid2 where
    "parseAmountCents cf (pu_amount rq) (pu_currency rq) = Inr amount" "normalizeString (pu_key rq) 160 = Some key"
    "purchase_actor_type rq \<in> {''user'', ''customer''} \<Longrightarrow> pu_actor rq = Some (sr_customer (pu_spend rq))"
    "findExistingPurchaseForReplay (pu_spend rq) key db = Inr None"
    "isCreditRailEnabled db" "\<not> frozen db" "findSpendAgreement cf (pu_spend rq) amount db = Inr agreement"
    "assertCustomerSpendCapacity cf (sr_customer (pu_spend rq)) amount (Some currency) (sr_excludeHold (pu_spend rq)) db = Inr ()"
    "ensureAccount cf (customer_wallet (sr_customer (pu_spend rq))) (Some currency) False db = (Inr wallet, mid)"
    "ensureAccount cf (partner_payable (sr_partner (pu_spend rq))) (Some currency) False mid = (Inr payable, mid2)"
    "postJournalTransaction cf (purchase_posting rq amount currency key wallet payable agreement) mid2 = (Inr p, db')"
    "assertSupportedCreditCurrency cf (Some (pa_currency (sw_partner agreement))) = Inr currency"
    "pu_currency rq \<noteq> None \<Longrightarrow> assertSupportedCreditCurrency cf (code_of (pu_currency rq)) = Inr currency"
proof -
  from assms obtain amount key existing where
    c: "parseAmountCents cf (pu_amount rq) (pu_currency rq) = Inr amount" "normalizeString (pu_key rq) 160 = Some key"
      "findExistingPurchaseForReplay (pu_spend rq) key db = Inr existing"
    and actor: "(if purchase_actor_type rq \<in> {''user'', ''customer''}
      then requireCustomerActor (pu_actor rq) (sr_customer (pu_spend rq)) ''credit_purchase_actor_required'' else Inr ()) = Inr ()"
    unfolding purchaseWithCreditInTransaction_def Let_def by (auto simp: bind_Inr_iff require_key_Inr)
  have actor': "pu_actor rq = Some (sr_customer (pu_spend rq))" if "purchase_actor_type rq \<in> {''user'', ''customer''}"
    using actor that by (simp add: requireCustomerActor_def split: if_splits)
  show thesis
  proof (cases existing)
    case (Some t)
    with assms c have "replayPurchase cf rq amount key t db = (Inr p, db')"
      unfolding purchaseWithCreditInTransaction_def Let_def by (auto simp: bind_Inr_iff require_key_Inr)
    from replayed [OF c(1,2) _ this] c(3) Some show thesis by simp
  next
    case None
    with assms c obtain agreement currency wallet payable mid mid2 where
      "isCreditRailEnabled db" "\<not> frozen db" "findSpendAgreement cf (pu_spend rq) amount db = Inr agreement"
      "assertCustomerSpendCapacity cf (sr_customer (pu_spend rq)) amount (Some currency) (sr_excludeHold (pu_spend rq)) db = Inr ()"
      "ensureAccount cf (customer_wallet (sr_customer (pu_spend rq))) (Some currency) False db = (Inr wallet, mid)"
      "ensureAccount cf (partner_payable (sr_partner (pu_spend rq))) (Some currency) False mid = (Inr payable, mid2)"
      "postJournalTransaction cf (purchase_posting rq amount currency key wallet payable agreement) mid2 = (Inr p, db')"
      "assertSupportedCreditCurrency cf (Some (pa_currency (sw_partner agreement))) = Inr currency"
      "pu_currency rq \<noteq> None \<Longrightarrow> assertSupportedCreditCurrency cf (code_of (pu_currency rq)) = Inr currency"
      unfolding purchaseWithCreditInTransaction_def Let_def purchase_posting_def
      by (auto simp: bind_Inr_iff require_key_Inr dest!: rail_Inr split: if_splits)
    from paid [OF c(1,2) actor' _ this] c(3) None show thesis by simp
  qed
qed

section \<open>Balances\<close>

text \<open>A currency that is supported is its own normal form.\<close>

lemma upper_letter_stable: "is_upper_letter c \<Longrightarrow> \<not> js_space c" "is_upper_letter c \<Longrightarrow> upper_char c = c"
  by (auto simp: is_upper_letter_def js_space_def upper_char_def Let_def)

lemma letters3_normalized:
  assumes "letters3 c"
  shows "credit_normalizeCurrency (Some c) = c"
proof -
  have "list_all (\<lambda>x. \<not> js_space x) c" "map upper_char c = c" "length c = 3"
    using assms by (auto simp: letters3_def list_all_iff upper_letter_stable intro: map_idI)
  then show ?thesis by (auto simp: credit_normalizeCurrency_def normalizeString_def Let_def js_trim_id js_upper_def)
qed

lemma supported_twice: "assertSupportedCreditCurrency cf v = Inr c \<Longrightarrow> assertSupportedCreditCurrency cf (Some c) = Inr c"
  by (auto simp: assertSupportedCreditCurrency_def Let_def letters3_normalized split: if_splits)

lemma supported_same: "assertSupportedCreditCurrency cf v = Inr c \<Longrightarrow> assertSupportedCreditCurrency cf (Some c) = Inr d \<Longrightarrow> d = c"
  by (simp add: supported_twice)

text \<open>The balance of an account; an account that is not there yet has nothing.\<close>

definition balance_of :: "ledger \<Rightarrow> int \<Rightarrow> int" where
  "balance_of db i = (case account_row db i of None \<Rightarrow> 0 | Some a \<Rightarrow> ac_balance a)"

definition movement :: "int \<Rightarrow> int \<Rightarrow> int \<Rightarrow> int \<Rightarrow> int" where
  "movement debit credit amount i = (if i = debit then - amount else if i = credit then amount else 0)"

lemma find_append: "find P (xs @ ys) = (case find P xs of None \<Rightarrow> find P ys | Some y \<Rightarrow> Some y)"
  by (induction xs) simp_all

lemma ensure_balance:
  assumes "ensureAccount cf w code anyOwner db = (Inr a, db')"
  shows "balance_of db' i = balance_of db i" "account_ids_ok db \<Longrightarrow> account_ids_ok db'"
proof -
  obtain currency where "db' = db \<or> db' = db\<lparr>accounts := accounts db @ [new_account db w currency]\<rparr>"
    using ensureAccount_Inr [OF assms] by metis
  then consider "db' = db" | "db' = db\<lparr>accounts := accounts db @ [new_account db w currency]\<rparr>" by blast
  note c = this
  show "balance_of db' i = balance_of db i"
    using c
  proof cases
    case 2
    show ?thesis by (simp add: 2 balance_of_def account_row_def find_append split: option.split)
  qed simp
  show "account_ids_ok db'" if "account_ids_ok db"
    using c that next_id_fresh [of "map ac_id (accounts db)"] by cases (auto simp: account_ids_ok_def)
qed

lemma account_row_known:
  assumes "account_ids_ok db" "x \<in> set (accounts db)"
  shows "account_row db (ac_id x) = Some x"
  using assms unfolding account_row_def account_ids_ok_def
  by (metis (mono_tags, lifting) find_SomeD find_None_iff option.exhaust same_id_same_account [unfolded account_ids_ok_def])

lemma find_map_same: "(\<And>x. P (f x) = P x) \<Longrightarrow> find P (map f xs) = map_option f (find P xs)"
  by (induction xs) simp_all

lemma post_balance:
  assumes "postJournalTransaction cf inp db = (Inr p, db')" and "\<not> po_replayed p" and "account_ids_ok db"
  obtains amount where "ji_amount inp = JInt amount" "0 < amount" "tx_amount (po_txn p) = amount"
    "tx_debit (po_txn p) = ji_debit inp" "tx_credit (po_txn p) = ji_credit inp" "tx_type (po_txn p) = ji_type inp"
    "tx_agreement (po_txn p) = ji_agreement inp" "tx_partner (po_txn p) = ji_partner inp" "txns db' = txns db @ [po_txn p]"
    "\<And>i. balance_of db' i = balance_of db i + movement (ji_debit inp) (ji_credit inp) amount i" "account_ids_ok db'"
proof -
  obtain amount currency key version d c t e1 e2 where
    f: "safe_int (ji_amount inp) = Some amount" "0 < amount" "d \<in> set (accounts db)" "c \<in> set (accounts db)"
      "ac_id d = ji_debit inp" "ac_id c = ji_credit inp" "ac_id d \<noteq> ac_id c"
      "t = (requested_txn cf inp key amount currency)\<lparr>tx_id := next_id (map tx_id (txns db))\<rparr>"
      "moved cf inp version t d c amount currency e1 e2 db db'"
      "p = \<lparr>po_txn = t, po_entries = [e1, e2], po_replayed = False\<rparr>"
    using assms(1,2) by (rule fresh_posting_cases)
  have acc: "accounts db' = map (after_legs d c amount (en_hash e1) (en_hash e2)) (accounts db)"
    by (rule moved_accounts [OF f(9,7)])
  have row: "account_row db' i = map_option (after_legs d c amount (en_hash e1) (en_hash e2)) (account_row db i)" for i
    unfolding account_row_def acc by (rule find_map_same) simp
  note known = account_row_known [OF assms(3)]
  have bal: "balance_of db' i = balance_of db i + movement (ji_debit inp) (ji_credit inp) amount i" for i
  proof (cases "account_row db i")
    case None
    then have "i \<noteq> ji_debit inp" "i \<noteq> ji_credit inp" using known [OF f(3)] known [OF f(4)] f(5,6) by auto
    with None row show ?thesis by (simp add: balance_of_def movement_def)
  next
    case (Some x)
    then have x: "x \<in> set (accounts db)" "ac_id x = i" by (auto simp: account_row_def dest: find_SomeD)
    have "x = d" if "i = ji_debit inp" using same_id_same_account [OF assms(3) x(1) f(3)] x(2) f(5) that by simp
    moreover have "x = c" if "i = ji_credit inp" using same_id_same_account [OF assms(3) x(1) f(4)] x(2) f(6) that by simp
    ultimately show ?thesis using Some row f(5-7) x(2) by (auto simp: balance_of_def movement_def after_legs_def)
  qed
  have "ji_amount inp = JInt amount" using f(1) by (cases "ji_amount inp") (auto split: if_splits)
  moreover have "account_ids_ok db'" using assms(3) by (simp add: account_ids_ok_def acc comp_def)
  moreover have "txns db' = txns db @ [po_txn p]" using moved_frame(1) [OF f(9)] f(10) by simp
  ultimately show thesis using that f(2,8,10) bal by (simp add: requested_txn_def)
qed

lemma spend_capacity_Inr:
  assumes "assertCustomerSpendCapacity cf customer amount code excluded db = Inr u"
  obtains currency m where "assertSupportedCreditCurrency cf code = Inr currency" "limit cf ''daily_customer_spend'' currency = Inr m"
    "sum_list (map tx_amount (purchases_today cf db currency customer)) + sum_list (map ho_amount (open_holds db currency customer excluded)) + amount \<le> m"
    "int (length (purchases_today cf db currency customer) + length (open_holds db currency customer excluded)) < cf_spend_count cf"
  using assms by (auto simp: assertCustomerSpendCapacity_def res_bind_Inr_iff Let_def split: if_splits)

lemma purchase_run:
  assumes "purchaseWithCreditInTransaction cf rq db = (Inr p, db')" and "\<not> po_replayed p" and "account_ids_ok db"
  shows "\<exists>agreement wallet payable currency m.
    isCreditRailEnabled db \<and> \<not> frozen db \<and> 0 < tx_amount (po_txn p) \<and>
    parseAmountCents cf (pu_amount rq) (pu_currency rq) = Inr (tx_amount (po_txn p)) \<and>
    findSpendAgreement cf (pu_spend rq) (tx_amount (po_txn p)) db = Inr agreement \<and>
    tx_agreement (po_txn p) = Some (ag_id (sw_agreement agreement)) \<and>
    owned_by (customer_wallet (sr_customer (pu_spend rq))) currency wallet \<and>
    owned_by (partner_payable (sr_partner (pu_spend rq))) currency payable \<and>
    (\<forall>i. balance_of db' i = balance_of db i + movement (ac_id wallet) (ac_id payable) (tx_amount (po_txn p)) i) \<and>
    limit cf ''daily_customer_spend'' currency = Inr m \<and>
    sum_list (map tx_amount (purchases_today cf db currency (sr_customer (pu_spend rq)))) +
      sum_list (map ho_amount (open_holds db currency (sr_customer (pu_spend rq)) (sr_excludeHold (pu_spend rq)))) +
      tx_amount (po_txn p) \<le> m \<and>
    int (length (purchases_today cf db currency (sr_customer (pu_spend rq))) +
      length (open_holds db currency (sr_customer (pu_spend rq)) (sr_excludeHold (pu_spend rq)))) < cf_spend_count cf \<and>
    assertSupportedCreditCurrency cf (Some (pa_currency (sw_partner agreement))) = Inr currency \<and>
    (pu_currency rq \<noteq> None \<longrightarrow> assertSupportedCreditCurrency cf (code_of (pu_currency rq)) = Inr currency)"
  using assms(1)
proof (cases rule: purchase_Inr)
  case replayed
  with assms(2) purchase_replay_frame show ?thesis by blast
next
  case (paid amount key agreement code wallet payable mid mid2)
  note e1 = ensure_balance [OF paid(9)] and e2 = ensure_balance [OF paid(10)]
  have ids: "account_ids_ok mid2" by (rule e2(2) [OF e1(2) [OF assms(3)]])
  let ?inp = "purchase_posting rq amount code key wallet payable agreement"
  have inp: "ji_amount ?inp = JInt amount" "ji_debit ?inp = ac_id wallet" "ji_credit ?inp = ac_id payable"
    "ji_agreement ?inp = Some (ag_id (sw_agreement agreement))"
    by (simp_all add: purchase_posting_def purchase_input_def)
  obtain n where n: "JInt amount = JInt n" "0 < n" "tx_amount (po_txn p) = n"
    "tx_agreement (po_txn p) = Some (ag_id (sw_agreement agreement))"
    and moves: "\<And>i. balance_of db' i = balance_of mid2 i + movement (ac_id wallet) (ac_id payable) n i"
    using paid(11) assms(2) ids by (rule post_balance) (simp add: inp)
  have a: "tx_amount (po_txn p) = amount" "0 < amount" using n by simp_all
  obtain currency where w: "assertSupportedCreditCurrency cf (Some code) = Inr currency"
    "owned_by (customer_wallet (sr_customer (pu_spend rq))) currency wallet"
    using paid(9) by (rule ensureAccount_Inr)
  have code: "currency = code" by (rule supported_same [OF paid(12) w(1)])
  have settle: "assertSupportedCreditCurrency cf (Some (pa_currency (sw_partner agreement))) = Inr currency"
    "pu_currency rq \<noteq> None \<longrightarrow> assertSupportedCreditCurrency cf (code_of (pu_currency rq)) = Inr currency"
    using paid(12,13) by (simp_all add: code)
  obtain currency2 where y: "assertSupportedCreditCurrency cf (Some code) = Inr currency2"
    "owned_by (partner_payable (sr_partner (pu_spend rq))) currency2 payable"
    using paid(10) by (rule ensureAccount_Inr)
  have y2: "owned_by (partner_payable (sr_partner (pu_spend rq))) currency payable" using w(1) y by simp
  obtain m where m: "limit cf ''daily_customer_spend'' currency = Inr m"
    "sum_list (map tx_amount (purchases_today cf db currency (sr_customer (pu_spend rq)))) +
      sum_list (map ho_amount (open_holds db currency (sr_customer (pu_spend rq)) (sr_excludeHold (pu_spend rq)))) + amount \<le> m"
    "int (length (purchases_today cf db currency (sr_customer (pu_spend rq))) +
      length (open_holds db currency (sr_customer (pu_spend rq)) (sr_excludeHold (pu_spend rq)))) < cf_spend_count cf"
    using paid(8) by (rule spend_capacity_Inr) (use w(1) in simp)
  have bal: "\<forall>i. balance_of db' i = balance_of db i + movement (ac_id wallet) (ac_id payable) amount i"
    using moves n(1) by (simp add: e1(1) e2(1))
  show ?thesis
    unfolding a(1)
    by (intro exI conjI) (rule paid(5,6) a(2) paid(1) paid(7) n(4) w(2) y2 bal m settle)+
qed

text \<open>C10: a purchase pays exactly one partner, by agreement and within the day: a new purchase needs the
  rail, moves the requested amount from a wallet of the customer to a payable of the partner, both in the
  partner's settlement currency, which is also the currency of the request when it names one, and touches no
  other balance; it is booked under the agreement that \<open>findSpendAgreement\<close> finds for that amount, and with
  today's purchases and the active holds of the customer in that currency it stays within both daily limits,
  the cap on the amount and the cap on the number of movements.\<close>

theorem purchase_pays_partner:
  assumes "purchaseWithCredit cf rq db = (Inr p, db')" and "\<not> po_replayed p" and "account_ids_ok db"
  shows "\<exists>agreement wallet payable currency m.
    isCreditRailEnabled db \<and> \<not> frozen db \<and> 0 < tx_amount (po_txn p) \<and>
    parseAmountCents cf (pu_amount rq) (pu_currency rq) = Inr (tx_amount (po_txn p)) \<and>
    findSpendAgreement cf (pu_spend rq) (tx_amount (po_txn p)) db = Inr agreement \<and>
    tx_agreement (po_txn p) = Some (ag_id (sw_agreement agreement)) \<and>
    owned_by (customer_wallet (sr_customer (pu_spend rq))) currency wallet \<and>
    owned_by (partner_payable (sr_partner (pu_spend rq))) currency payable \<and>
    (\<forall>i. balance_of db' i = balance_of db i + movement (ac_id wallet) (ac_id payable) (tx_amount (po_txn p)) i) \<and>
    limit cf ''daily_customer_spend'' currency = Inr m \<and>
    sum_list (map tx_amount (purchases_today cf db currency (sr_customer (pu_spend rq)))) +
      sum_list (map ho_amount (open_holds db currency (sr_customer (pu_spend rq)) (sr_excludeHold (pu_spend rq)))) +
      tx_amount (po_txn p) \<le> m \<and>
    int (length (purchases_today cf db currency (sr_customer (pu_spend rq))) +
      length (open_holds db currency (sr_customer (pu_spend rq)) (sr_excludeHold (pu_spend rq)))) < cf_spend_count cf \<and>
    assertSupportedCreditCurrency cf (Some (pa_currency (sw_partner agreement))) = Inr currency \<and>
    (pu_currency rq \<noteq> None \<longrightarrow> assertSupportedCreditCurrency cf (code_of (pu_currency rq)) = Inr currency)"
  by (rule purchase_run) (use assms in \<open>simp_all add: purchaseWithCredit_def\<close>)

text \<open>The customer of \<open>sample_spend\<close> with 100 in the wallet.\<close>

definition sample_shop :: ledger where
  "sample_shop = sample_market\<lparr>accounts := [sample_account 1 Platform_treasury None None (- 100),
     sample_account 2 Customer_wallet (Some ''ana'') None 100]\<rparr>"

definition sample_purchase :: purchase_request where
  "sample_purchase =
     \<lparr>pu_spend = sample_spend, pu_amount = JInt 30, pu_currency = None, pu_key = Some ''buy1'', pu_actor = Some ''ana'',
      pu_actorType = Some ''customer'', pu_refType = None, pu_refId = None, pu_correlation = None, pu_ip = None,
      pu_description = None, pu_metadata = ObjJ []\<rparr>"

lemma sample_purchase_posts: "fresh_posting (purchaseWithCredit sample_config sample_purchase sample_shop)"
  "map ac_balance (accounts (snd (purchaseWithCredit sample_config sample_purchase sample_shop))) = [- 100, 70, 30]"
  "account_ids_ok sample_shop"
  by code_simp+

theorem purchase_pays_partner_witness:
  "\<exists>p db'. purchaseWithCredit sample_config sample_purchase sample_shop = (Inr p, db') \<and> 0 < tx_amount (po_txn p) \<and>
     map ac_balance (accounts db') = [- 100, 70, 30]"
proof -
  obtain p db' where r: "purchaseWithCredit sample_config sample_purchase sample_shop = (Inr p, db')" "\<not> po_replayed p"
    by (rule fresh_postingE [OF sample_purchase_posts(1)])
  from purchase_pays_partner [OF r sample_purchase_posts(3)] sample_purchase_posts(2) r(1) show ?thesis by auto
qed

section \<open>Transfers\<close>

text \<open>Screenings, accounts and postings leave the fee schedule and the users alone.\<close>

interpretation tariff: posting_contract "\<lambda>_ db. fee_rows db = rows \<and> users db = us" for rows us
proof
  show "commits (\<lambda>db. fee_rows db = rows \<and> users db = us) (postJournalTransaction cf inp)" for cf inp
  proof (rule commitsI)
    fix db p db' assume s: "fee_rows db = rows \<and> users db = us" and r: "postJournalTransaction cf inp db = (Inr p, db')"
    from r show "fee_rows db' = rows \<and> users db' = us"
    proof (cases rule: postJournalTransaction_Inr)
      case replayed
      with s show ?thesis by (simp add: replayTransaction_Inr)
    next
      case (moved amount currency key version d c t e1 e2)
      then obtain A B where "db' = db\<lparr>accounts := A, txns := txns db @ [t], entries := entries db @ [e1, e2],
          audits := audits db @ [posting_audit inp t d c amount], outbox := B\<rparr>"
        unfolding moved_def by blast
      with s show ?thesis by simp
    qed
  qed
  show "commits (\<lambda>db. fee_rows db = rows \<and> users db = us) (ensureAccount cf w code anyOwner)" for cf w code anyOwner
    by (rule commitsI, erule ensureAccount_Inr) auto
qed simp_all

text \<open>The steps of a transfer that is no replay.\<close>

lemma newTransfer_Inr:
  assumes "newTransfer cf rq amount currency key db = (Inr r, db')"
  obtains sender recipient c1 c2 m1 m2 m3 m4 m5 where
    "isCreditRailEnabled db" "\<not> frozen db" "wallet_owner (tr_creatorRecipient rq) db (Some (tr_recipient rq))"
    "assertSanctionsClear cf ''customer'' (tr_sender rq) db = (Inr c1, m1)"
    "assertSanctionsClear cf ''customer'' (tr_recipient rq) m1 = (Inr c2, m2)"
    "assertCustomerTransferCapacity cf (tr_sender rq) amount (Some currency) m2 = Inr ()"
    "ensureAccount cf (customer_wallet (tr_sender rq)) (Some currency) (tr_creatorSender rq) m2 = (Inr sender, m3)"
    "ensureAccount cf (customer_wallet (tr_recipient rq)) (Some currency) (tr_creatorRecipient rq) m3 = (Inr recipient, m4)"
    "postJournalTransaction cf (transfer_input rq amount currency key (ac_id sender) (ac_id recipient)) m4 = (Inr (tt_posting r), m5)"
    "chargeTransferFee cf rq amount currency key sender (tt_posting r) m5 = (Inr r, db')"
proof -
  have fee: "tt_posting x = posting" if "chargeTransferFee cf rq amount currency key s posting d = (Inr x, d')" for s posting d d' x
    using that by (auto simp: chargeTransferFee_def bind_Inr_iff split: if_splits)
  from assms obtain sender recipient posting c1 c2 m1 m2 m3 m4 m5 where
    "isCreditRailEnabled db" "\<not> frozen db" "wallet_owner (tr_creatorRecipient rq) db (Some (tr_recipient rq))"
    "assertSanctionsClear cf ''customer'' (tr_sender rq) db = (Inr c1, m1)"
    "assertSanctionsClear cf ''customer'' (tr_recipient rq) m1 = (Inr c2, m2)"
    "assertCustomerTransferCapacity cf (tr_sender rq) amount (Some currency) m2 = Inr ()"
    "ensureAccount cf (customer_wallet (tr_sender rq)) (Some currency) (tr_creatorSender rq) m2 = (Inr sender, m3)"
    "ensureAccount cf (customer_wallet (tr_recipient rq)) (Some currency) (tr_creatorRecipient rq) m3 = (Inr recipient, m4)"
    "postJournalTransaction cf (transfer_input rq amount currency key (ac_id sender) (ac_id recipient)) m4 = (Inr posting, m5)"
    "chargeTransferFee cf rq amount currency key sender posting m5 = (Inr r, db')"
    unfolding newTransfer_def by (auto simp: bind_Inr_iff dest!: rail_Inr split: if_splits)
  with fee that show thesis by metis
qed

lemma transfer_Inr:
  assumes "transferCreditInTransaction cf rq db = (Inr r, db')"
  obtains (replayed) "po_replayed (tt_posting r)" "db' = db"
  | (sent) amount currency key where
    "cf_transfers cf" "tr_sender rq \<noteq> tr_recipient rq" "tr_actor rq = Some (tr_sender rq)"
    "parseAmountCents cf (tr_amount rq) (tr_currency rq) = Inr amount"
    "assertSupportedCreditCurrency cf (code_of (tr_currency rq)) = Inr currency" "normalizeString (tr_key rq) 160 = Some key"
    "newTransfer cf rq amount currency key db = (Inr r, db')"
proof -
  from assms obtain amount currency key existing where
    c: "cf_transfers cf" "tr_sender rq \<noteq> tr_recipient rq"
      "requireCustomerActor (tr_actor rq) (tr_sender rq) ''credit_transfer_actor_required'' = Inr ()"
      "parseAmountCents cf (tr_amount rq) (tr_currency rq) = Inr amount"
      "assertSupportedCreditCurrency cf (code_of (tr_currency rq)) = Inr currency" "normalizeString (tr_key rq) 160 = Some key"
      "findExistingTransferForReplay (tr_sender rq) (tr_recipient rq) key db = Inr existing"
    unfolding transferCreditInTransaction_def by (auto simp: bind_Inr_iff require_key_Inr split: if_splits)
  have actor: "tr_actor rq = Some (tr_sender rq)" using c(3) by (simp add: requireCustomerActor_def split: if_splits)
  show thesis
  proof (cases existing)
    case (Some t)
    with assms c obtain p where p: "postJournalTransaction cf ((transfer_input rq amount currency key (tx_debit t) (tx_credit t)) \<lparr>ji_existing := Some t\<rparr>) db = (Inr p, db')"
      "r = \<lparr>tt_posting = p, tt_fee = None, tt_fee_txn = None\<rparr>"
      unfolding transferCreditInTransaction_def by (auto simp: bind_Inr_iff require_key_Inr split: if_splits)
    from p(1) have "po_replayed p \<and> db' = db"
      by (rule postJournalTransaction_Inr) (simp_all add: replayTransaction_Inr)
    with p(2) replayed show thesis by simp
  next
    case None
    with assms c have "newTransfer cf rq amount currency key db = (Inr r, db')"
      unfolding transferCreditInTransaction_def by (auto simp: bind_Inr_iff require_key_Inr split: if_splits)
    with sent c actor show thesis by blast
  qed
qed

lemma clear_frame:
  assumes "assertSanctionsClear cf ty i db = (Inr c, db')"
  obtains scs where "db' = db\<lparr>screenings := scs\<rparr>"
proof -
  obtain s where "screenSubjectIfStale cf ty i False db = (Inr s, db')" using assms by (rule assertSanctionsClear_Inr)
  then show thesis
  proof (cases rule: screenSubjectIfStale_Inr)
    case kept
    then have "db' = db\<lparr>screenings := screenings db\<rparr>" by simp
    then show thesis by (rule that)
  qed (rule that)
qed

text \<open>A posting whose key is new to the rows before another posting is no replay of that other one.\<close>

lemma replay_needs_type:
  assumes "postJournalTransaction cf inp db = (Inr p, db')" and "ji_existing inp = None" and "po_replayed p"
    and "\<And>key. normalizeString (ji_key inp) 160 = Some key \<Longrightarrow> find (\<lambda>t. tx_key t = key) old = None"
    and "txns db = old @ [t]"
  shows "js_upper (tx_type t) = js_upper (ji_type inp)"
  using assms(1)
proof (cases rule: postJournalTransaction_Inr)
  case (replayed t' amount currency key)
  have "find (\<lambda>t. tx_key t = key) (old @ [t]) = Some t'"
    using replayed(4) assms(2,5) by (simp add: getExistingTransaction_def)
  then have "t' = t" using assms(4) [OF replayed(3)] by (simp add: find_append split: if_splits)
  with replayed(5) show ?thesis
    by (auto simp: replayTransaction_def bind_Inr_iff assertIdempotencyReplayMatches_def Let_def requested_replay_def
        stored_columns_def txn_columns_def split: if_splits)
next
  case moved
  with assms(3) show ?thesis by simp
qed

lemma quoteFee_frame: "fee_rows db' = fee_rows db \<Longrightarrow> quoteFee cf ty cur v db' = quoteFee cf ty cur v db"
  by (simp add: quoteFee_def getFeeScheduleRow_def split: option.split)

lemma chargeTransferFee_Inr:
  assumes "chargeTransferFee cf rq amount currency key sender posting db = (Inr r, db')"
  obtains fee where "quoteFee cf ''transfer'' currency (JInt amount) db = Inr fee" "tt_fee r = Some fee"
      "fee \<le> 0" "db' = db"
  | fee revenue mid p where "quoteFee cf ''transfer'' currency (JInt amount) db = Inr fee" "tt_fee r = Some fee" "0 < fee"
      "ensureAccount cf (platform_account Platform_revenue) (Some currency) False db = (Inr revenue, mid)"
      "postJournalTransaction cf (transfer_fee_input rq fee currency key (ac_id sender) (ac_id revenue)) mid = (Inr p, db')"
proof -
  from assms obtain fee where q: "quoteFee cf ''transfer'' currency (JInt amount) db = Inr fee"
    unfolding chargeTransferFee_def by (auto simp: bind_Inr_iff)
  show thesis
  proof (cases "0 < fee")
    case True
    with assms q obtain revenue mid p where
      "ensureAccount cf (platform_account Platform_revenue) (Some currency) False db = (Inr revenue, mid)"
      "postJournalTransaction cf (transfer_fee_input rq fee currency key (ac_id sender) (ac_id revenue)) mid = (Inr p, db')"
      "r = \<lparr>tt_posting = posting, tt_fee = Some fee, tt_fee_txn = Some (tx_id (po_txn p))\<rparr>"
      unfolding chargeTransferFee_def by (auto simp: bind_Inr_iff)
    with that(2) q True show thesis by simp
  next
    case False
    with assms q have "r = \<lparr>tt_posting = posting, tt_fee = Some fee, tt_fee_txn = None\<rparr>" "db' = db"
      unfolding chargeTransferFee_def by (auto simp: bind_Inr_iff)
    with that(1) q False show thesis by simp
  qed
qed

text \<open>The fee leg right after its transfer, when no earlier row has its key.\<close>

lemma fee_leg_moves:
  assumes "postJournalTransaction cf (transfer_fee_input rq fee currency key d c) db = (Inr p, db')" and "account_ids_ok db"
    and "txns db = old @ [t]" and "tx_type t = ''transfer''"
    and "\<And>k. normalizeString (Some (key @ '':fee'')) 160 = Some k \<Longrightarrow> find (\<lambda>t. tx_key t = k) old = None"
  shows "balance_of db' i = balance_of db i + movement d c fee i"
proof -
  have "\<not> po_replayed p"
  proof
    assume "po_replayed p"
    have "js_upper ''transfer'' = js_upper ''transfer_fee''"
      using replay_needs_type [OF assms(1) _ \<open>po_replayed p\<close> _ assms(3)] assms(4,5)
      by (simp add: transfer_fee_input_def journal_defaults_def)
    then show False by code_simp
  qed
  with assms(1) obtain k where "JInt fee = JInt k" "\<And>i. balance_of db' i = balance_of db i + movement d c k i"
    using assms(2) by (rule post_balance) (simp add: transfer_fee_input_def)
  then show ?thesis by simp
qed

text \<open>C5: a transfer moves exactly the amount and the quoted fee: a new transfer asked for by its sender needs both
  parties past the sanctions gate, an active recipient and the rail; it takes the requested amount and the
  fee of the schedule for that amount from the sender's wallet, gives the amount to the recipient's and the
  fee to the platform's revenue account, all in the requested currency, and changes no other balance. The
  hypothesis on keys: no transaction of the books has the key of the fee leg, which is the key of the
  transfer with \<open>:fee\<close> appended, since that leg would otherwise be a replay.\<close>

theorem transfer_moves_exactly:
  assumes "transferCredit cf rq db = (Inr r, db')" and "\<not> po_replayed (tt_posting r)" and "account_ids_ok db"
    and fresh: "\<And>key k. normalizeString (tr_key rq) 160 = Some key \<Longrightarrow> normalizeString (Some (key @ '':fee'')) 160 = Some k \<Longrightarrow>
      getExistingTransaction k db = None"
  shows "\<exists>amount fee currency sender recipient revenue c1 c2 m1 m2.
    cf_transfers cf \<and> tr_sender rq \<noteq> tr_recipient rq \<and> tr_actor rq = Some (tr_sender rq) \<and>
    parseAmountCents cf (tr_amount rq) (tr_currency rq) = Inr amount \<and>
    assertSupportedCreditCurrency cf (code_of (tr_currency rq)) = Inr currency \<and>
    isCreditRailEnabled db \<and> \<not> frozen db \<and> wallet_owner (tr_creatorRecipient rq) db (Some (tr_recipient rq)) \<and>
    assertSanctionsClear cf ''customer'' (tr_sender rq) db = (Inr c1, m1) \<and>
    assertSanctionsClear cf ''customer'' (tr_recipient rq) m1 = (Inr c2, m2) \<and>
    tx_amount (po_txn (tt_posting r)) = amount \<and> 0 < amount \<and>
    quoteFee cf ''transfer'' currency (JInt amount) db = Inr fee \<and> tt_fee r = Some fee \<and>
    owned_by (customer_wallet (tr_sender rq)) currency sender \<and> owned_by (customer_wallet (tr_recipient rq)) currency recipient \<and>
    (0 < fee \<longrightarrow> owned_by (platform_account Platform_revenue) currency revenue) \<and>
    (\<forall>i. balance_of db' i = balance_of db i + movement (ac_id sender) (ac_id recipient) amount i +
       (if 0 < fee then movement (ac_id sender) (ac_id revenue) fee i else 0))"
proof -
  have "transferCreditInTransaction cf rq db = (Inr r, db')" using assms(1) by (simp add: transferCredit_def)
  then show ?thesis
  proof (cases rule: transfer_Inr)
    case replayed
    with assms(2) show ?thesis by simp
  next
    case (sent amount code key)
    from sent(7) obtain sender recipient c1 c2 m1 m2 m3 m4 m5 where
      gate: "isCreditRailEnabled db" "\<not> frozen db" "wallet_owner (tr_creatorRecipient rq) db (Some (tr_recipient rq))"
      and clear: "assertSanctionsClear cf ''customer'' (tr_sender rq) db = (Inr c1, m1)"
        "assertSanctionsClear cf ''customer'' (tr_recipient rq) m1 = (Inr c2, m2)"
      and acc: "ensureAccount cf (customer_wallet (tr_sender rq)) (Some code) (tr_creatorSender rq) m2 = (Inr sender, m3)"
        "ensureAccount cf (customer_wallet (tr_recipient rq)) (Some code) (tr_creatorRecipient rq) m3 = (Inr recipient, m4)"
      and post: "postJournalTransaction cf (transfer_input rq amount code key (ac_id sender) (ac_id recipient)) m4 = (Inr (tt_posting r), m5)"
      and fee: "chargeTransferFee cf rq amount code key sender (tt_posting r) m5 = (Inr r, db')"
      by (rule newTransfer_Inr)
    obtain s1 where s1: "m1 = db\<lparr>screenings := s1\<rparr>" using clear(1) by (rule clear_frame)
    obtain s2 where s2: "m2 = m1\<lparr>screenings := s2\<rparr>" using clear(2) by (rule clear_frame)
    have m2: "balance_of m2 i = balance_of db i" "account_ids_ok m2" "txns m2 = txns db" for i
      using assms(3) by (simp_all add: s1 s2 balance_of_def account_row_def account_ids_ok_def)
    note b = ensure_balance(1) [OF acc(1)] ensure_balance(1) [OF acc(2)]
    have ids: "account_ids_ok m4" by (rule ensure_balance(2) [OF acc(2) ensure_balance(2) [OF acc(1) m2(2)]])
    obtain n where n: "JInt amount = JInt n" "0 < n" "tx_amount (po_txn (tt_posting r)) = n" "tx_type (po_txn (tt_posting r)) = ''transfer''"
      "txns m5 = txns m4 @ [po_txn (tt_posting r)]" "account_ids_ok m5"
      and moves: "\<And>i. balance_of m5 i = balance_of m4 i + movement (ac_id sender) (ac_id recipient) n i"
      using post assms(2) ids by (rule post_balance) (simp add: transfer_input_def)
    have m4: "txns m4 = txns db" using ensure_txns(1) [OF acc(1)] ensure_txns(1) [OF acc(2)] m2(3) by simp
    note same = supported_same [OF sent(5)]
    have cur: "owned_by (customer_wallet (tr_sender rq)) code sender"
      using acc(1) by (rule ensureAccount_Inr) (use same in simp)
    have own: "owned_by (customer_wallet (tr_recipient rq)) code recipient"
      using acc(2) by (rule ensureAccount_Inr) (use same in simp)
    have "fee_rows m2 = fee_rows db" by (simp add: s1 s2)
    moreover have "fee_rows m3 = fee_rows m2" using commitsD [OF tariff.ensure _ acc(1)] by blast
    moreover have "fee_rows m4 = fee_rows m3" using commitsD [OF tariff.ensure _ acc(2)] by blast
    moreover have "fee_rows m5 = fee_rows m4" using commitsD [OF tariff.post _ post] by blast
    ultimately have rows: "fee_rows m5 = fee_rows db" by simp
    have base: "balance_of m5 i = balance_of db i + movement (ac_id sender) (ac_id recipient) amount i" for i
      using moves [of i] n(1) by (simp add: b m2(1))
    have amt: "tx_amount (po_txn (tt_posting r)) = amount" "0 < amount" using n(1-3) by simp_all
    from fee show ?thesis
    proof (cases rule: chargeTransferFee_Inr)
      case (1 f)
      have q: "quoteFee cf ''transfer'' code (JInt amount) db = Inr f" using 1(1) by (simp add: quoteFee_frame [OF rows])
      have rev: "0 < f \<longrightarrow> owned_by (platform_account Platform_revenue) code revenue" for revenue using 1(3) by simp
      have bal: "\<forall>i. balance_of db' i = balance_of db i + movement (ac_id sender) (ac_id recipient) amount i +
         (if 0 < f then movement (ac_id sender) (ac_id revenue) f i else 0)" for revenue
        using 1(3,4) base by simp
      show ?thesis by (intro exI conjI) (rule sent(1-5) gate clear amt q 1(2) cur own rev bal)+
    next
      case (2 f revenue mid p)
      have q: "quoteFee cf ''transfer'' code (JInt amount) db = Inr f" using 2(1) by (simp add: quoteFee_frame [OF rows])
      have km: "balance_of db' i = balance_of mid i + movement (ac_id sender) (ac_id revenue) f i" for i
        using fee_leg_moves [OF 2(5) ensure_balance(2) [OF 2(4) n(6)], of "txns db" "po_txn (tt_posting r)"] fresh [OF sent(6)] n(4,5) m4
          ensure_txns(1) [OF 2(4)]
        by (simp add: getExistingTransaction_def)
      have rev: "0 < f \<longrightarrow> owned_by (platform_account Platform_revenue) code revenue"
        using 2(4) by (rule ensureAccount_Inr) (use same in simp)
      have bal: "\<forall>i. balance_of db' i = balance_of db i + movement (ac_id sender) (ac_id recipient) amount i +
         (if 0 < f then movement (ac_id sender) (ac_id revenue) f i else 0)"
        using 2(3) km base ensure_balance(1) [OF 2(4)] by simp
      show ?thesis by (intro exI conjI) (rule sent(1-5) gate clear amt q 2(2) cur own rev bal)+
    qed
  qed
qed

definition sample_fee :: fee_row where
  "sample_fee = \<lparr>fe_fixed = 2, fe_bps = 0, fe_min = 0, fe_max = None, fe_id = 1, fe_operation = ''transfer'', fe_currency = ''USD'',
     fe_active = True, fe_from = 0, fe_to = None\<rparr>"

definition sample_pair :: ledger where
  "sample_pair = sample_screened\<lparr>accounts := [sample_account 1 Platform_treasury None None (- 100),
       sample_account 2 Customer_wallet (Some ''ana'') None 100],
     screenings := screenings sample_screened @ [(hd (screenings sample_screened))\<lparr>sc_id := 2, sc_subject := ''ben''\<rparr>],
     fee_rows := [sample_fee]\<rparr>"

definition sample_transfer :: transfer_request where
  "sample_transfer =
     \<lparr>tr_sender = ''ana'', tr_recipient = ''ben'', tr_amount = JInt 30, tr_currency = Some (Some ''USD''), tr_key = Some ''t1'', tr_actor = Some ''ana'',
      tr_refType = None, tr_refId = None, tr_correlation = None, tr_ip = None, tr_description = None, tr_metadata = ObjJ [],
      tr_creatorRecipient = False, tr_creatorSender = False\<rparr>"

lemma sample_transfer_moves:
  "case transferCredit sample_config sample_transfer sample_pair of
     (Inl _, _) \<Rightarrow> False
   | (Inr r, db) \<Rightarrow> \<not> po_replayed (tt_posting r) \<and> tt_fee r = Some 2 \<and> map ac_balance (accounts db) = [- 100, 68, 30, 2]"
  by code_simp

theorem transfer_moves_exactly_witness:
  "\<exists>r db'. transferCredit sample_config sample_transfer sample_pair = (Inr r, db') \<and> tt_fee r = Some 2 \<and>
     0 < tx_amount (po_txn (tt_posting r)) \<and> map ac_balance (accounts db') = [- 100, 68, 30, 2]"
proof -
  obtain r db' where r: "transferCredit sample_config sample_transfer sample_pair = (Inr r, db')" "\<not> po_replayed (tt_posting r)"
    "tt_fee r = Some 2" "map ac_balance (accounts db') = [- 100, 68, 30, 2]"
    using sample_transfer_moves by (auto split: prod.splits sum.splits)
  have ok: "account_ids_ok sample_pair" "getExistingTransaction k sample_pair = None" for k
    by (simp_all add: sample_pair_def sample_screened_def sample_ledger_def account_ids_ok_def sample_account_def getExistingTransaction_def)
  have pos: "0 < tx_amount (po_txn (tt_posting r))" using transfer_moves_exactly [OF r(1,2) ok] by auto
  show ?thesis by (intro exI conjI) (rule r(1,3,4) pos)+
qed

end
