(* ===== verification/BankRefinement.thy ===== *)
theory BankRefinement
  imports CreditProperties
begin

text \<open>
  The abstract bank the journal implements: an amount of money per account and the accounts that may owe.
  Its only steps are to move money that is there, and to open an account that may owe. Every command
  on the ledger is a sequence of such steps.
\<close>

section \<open>The bank\<close>

record bank =
  money :: "int \<Rightarrow> int"
  owing :: "int set"

inductive bank_step :: "bank \<Rightarrow> bank \<Rightarrow> bool" where
  moves: "debit \<noteq> credit \<Longrightarrow> 0 < n \<Longrightarrow> debit \<in> owing b \<or> n \<le> money b debit \<Longrightarrow>
    bank_step b (b\<lparr>money := (\<lambda>i. money b i + movement debit credit n i)\<rparr>)"
| opens: "money b i = 0 \<Longrightarrow> bank_step b (b\<lparr>owing := insert i (owing b)\<rparr>)"

text \<open>In the bank nobody else gets into debt, and an account that may owe stays one.\<close>

definition solvent :: "bank \<Rightarrow> bool" where
  "solvent b \<longleftrightarrow> (\<forall>i. i \<notin> owing b \<longrightarrow> 0 \<le> money b i)"

lemma bank_step_solvent: "bank_step b c \<Longrightarrow> solvent b \<Longrightarrow> solvent c \<and> owing b \<subseteq> owing c"
  by (induction rule: bank_step.induct) (auto simp: solvent_def movement_def)

lemma bank_run_solvent: "bank_step\<^sup>*\<^sup>* b c \<Longrightarrow> solvent b \<Longrightarrow> solvent c \<and> owing b \<subseteq> owing c"
  by (induction rule: rtranclp_induct) (auto dest: bank_step_solvent)

section \<open>The abstraction\<close>

definition may_owe :: "account \<Rightarrow> bool" where
  "may_owe a \<longleftrightarrow> mayGoNegative (ac_type a) \<and> \<not> ac_non_negative a"

definition bank_of :: "ledger \<Rightarrow> bank" where
  "bank_of db = \<lparr>money = balance_of db, owing = {i. \<exists>a \<in> set (accounts db). ac_id a = i \<and> may_owe a}\<rparr>"

lemma balance_of_upd:
  assumes "\<And>a. ac_id (f a) = ac_id a" "\<And>a. ac_balance (f a) = ac_balance a"
  shows "balance_of (db\<lparr>accounts := upd_where p f (accounts db)\<rparr>) = balance_of db"
proof
  fix i
  have "find (\<lambda>a. ac_id a = i) (upd_where p f (accounts db)) =
      map_option (\<lambda>a. if p a then f a else a) (find (\<lambda>a. ac_id a = i) (accounts db))"
    unfolding upd_where_def by (rule find_map_same) (simp add: assms)
  then show "balance_of (db\<lparr>accounts := upd_where p f (accounts db)\<rparr>) i = balance_of db i"
    by (simp add: balance_of_def account_row_def assms split: option.split)
qed

lemma bank_of_upd:
  assumes "\<And>a. ac_id (f a) = ac_id a" "\<And>a. ac_balance (f a) = ac_balance a" "\<And>a. may_owe (f a) = may_owe a"
  shows "bank_of (db\<lparr>accounts := upd_where p f (accounts db)\<rparr>) = bank_of db"
proof -
  have "(\<exists>a \<in> set (upd_where p f xs). ac_id a = i \<and> may_owe a) = (\<exists>a \<in> set xs. ac_id a = i \<and> may_owe a)" for xs i
    by (induction xs) (simp_all add: assms)
  then show ?thesis by (simp add: bank_of_def balance_of_upd [OF assms(1,2)])
qed

lemma bank_of_accounts: "accounts db' = accounts db \<Longrightarrow> bank_of db' = bank_of db"
  by (simp add: bank_of_def balance_of_def account_row_def fun_eq_iff)

text \<open>A posting is one move, opening an account at most one opening.\<close>

lemma post_step:
  assumes "postJournalTransaction cf inp db = (Inr p, db')" and "funded db"
  shows "bank_step\<^sup>*\<^sup>* (bank_of db) (bank_of db')"
proof (cases "po_replayed p")
  case True
  from assms(1) this have "db' = db" by (auto elim!: postJournalTransaction_Inr simp: replayTransaction_Inr)
  then show ?thesis by simp
next
  case False
  have ids: "account_ids_ok db" using assms(2) by (simp add: funded_def)
  obtain n where n: "0 < n" "ji_amount inp = JInt n" and bal: "\<And>i. balance_of db' i = balance_of db i + movement (ji_debit inp) (ji_credit inp) n i"
    using post_balance [OF assms(1) False ids] by metis
  obtain amount currency key version d c t e1 e2 where
    f: "safe_int (ji_amount inp) = Some amount" "d \<in> set (accounts db)" "c \<in> set (accounts db)"
      "ac_id d = ji_debit inp" "ac_id c = ji_credit inp" "ac_id d \<noteq> ac_id c" "checkMovement cf db inp amount currency d c = Inr ()"
      "moved cf inp version t d c amount currency e1 e2 db db'"
    using assms(1) False by (rule fresh_posting_cases)
  have "amount = n" using f(1) n(2) by (simp split: if_splits)
  have "covered d" using assms(2) f(2) by (simp add: funded_def list_all_iff)
  then have "may_owe d \<or> n \<le> ac_balance d"
    using checkMovement_Inr(6) [OF f(7)] \<open>amount = n\<close> by (cases "may_owe d") (auto simp: may_owe_def covered_def)
  moreover have "balance_of db (ac_id d) = ac_balance d" using account_row_known [OF ids f(2)] by (simp add: balance_of_def)
  ultimately have "ji_debit inp \<in> owing (bank_of db) \<or> n \<le> money (bank_of db) (ji_debit inp)"
    using f(2,4) by (auto simp: bank_of_def)
  then have "bank_step (bank_of db) ((bank_of db)\<lparr>money := (\<lambda>i. money (bank_of db) i + movement (ji_debit inp) (ji_credit inp) n i)\<rparr>)"
    using f(4-6) n(1) by (intro bank_step.moves) simp_all
  moreover have "bank_of db' = (bank_of db)\<lparr>money := (\<lambda>i. money (bank_of db) i + movement (ji_debit inp) (ji_credit inp) n i)\<rparr>"
    using bal by (auto simp: bank_of_def moved_accounts [OF f(8,6)] may_owe_def fun_eq_iff)
  ultimately show ?thesis by simp
qed

lemma ensure_step:
  assumes "ensureAccount cf w code anyOwner db = (Inr a, db')"
  shows "bank_step\<^sup>*\<^sup>* (bank_of db) (bank_of db')"
proof -
  obtain currency where "db' = db \<or> db' = db\<lparr>accounts := accounts db @ [new_account db w currency]\<rparr>"
    using ensureAccount_Inr [OF assms] by metis
  then consider "db' = db" | "db' = db\<lparr>accounts := accounts db @ [new_account db w currency]\<rparr>" by blast
  then show ?thesis
  proof cases
    case 2
    let ?n = "new_account db w currency"
    have m: "money (bank_of db') = money (bank_of db)" using ensure_balance(1) [OF assms] by (simp add: bank_of_def fun_eq_iff)
    show ?thesis
    proof (cases "may_owe ?n")
      case True
      have "\<forall>x \<in> set (accounts db). ac_id x \<noteq> ac_id ?n" using next_id_fresh [of "map ac_id (accounts db)"] by (auto simp: image_iff)
      then have "account_row db (ac_id ?n) = None" by (auto simp: account_row_def find_None_iff)
      then have "money (bank_of db) (ac_id ?n) = 0" by (simp add: bank_of_def balance_of_def)
      then have "bank_step (bank_of db) ((bank_of db)\<lparr>owing := insert (ac_id ?n) (owing (bank_of db))\<rparr>)" by (rule bank_step.opens)
      moreover have "bank_of db' = (bank_of db)\<lparr>owing := insert (ac_id ?n) (owing (bank_of db))\<rparr>"
        using m True by (auto simp: bank_of_def 2)
      ultimately show ?thesis by simp
    next
      case False
      then have "bank_of db' = bank_of db" using m by (auto simp: bank_of_def 2)
      then show ?thesis by simp
    qed
  qed simp
qed

section \<open>The simulation\<close>

interpretation simulated: wallet_contract "\<lambda>_ db. funded db \<and> bank_step\<^sup>*\<^sup>* start (bank_of db)" for start
proof
  let ?I = "\<lambda>db. funded db \<and> bank_step\<^sup>*\<^sup>* start (bank_of db)"
  show "commits ?I (postJournalTransaction cf inp)" for cf inp
  proof (rule commitsI)
    fix db p db' assume i: "?I db" and r: "postJournalTransaction cf inp db = (Inr p, db')"
    then show "?I db'" using commitsD [OF coverage.post _ r] rtranclp_trans [OF _ post_step [OF r]] by blast
  qed
  show "commits ?I (ensureAccount cf w code anyOwner)" for cf w code anyOwner
  proof (rule commitsI)
    fix db a db' assume i: "?I db" and r: "ensureAccount cf w code anyOwner db = (Inr a, db')"
    then show "?I db'" using commitsD [OF coverage.ensure _ r] rtranclp_trans [OF _ ensure_step [OF r]] by blast
  qed
  show "?I (db\<lparr>audits := audits db @ [x]\<rparr>)" if "?I db" for db x
    using that coverage.log [of db x] bank_of_accounts [of "db\<lparr>audits := audits db @ [x]\<rparr>" db] by simp
  show "?I (db\<lparr>screenings := scs, cases := cs, guest_days := gs\<rparr>)" if "?I db" for db scs cs gs
    using that coverage.tables [where db = db and scs = scs and cs = cs and gs = gs] bank_of_accounts [of "db\<lparr>screenings := scs, cases := cs, guest_days := gs\<rparr>" db] by simp
  show "?I (set_status i new db)" if "?I db" for db i new
  proof -
    have "bank_of (set_status i new db) = bank_of db" unfolding set_status_def by (rule bank_of_upd) (simp_all add: may_owe_def)
    with that coverage.status [of db i new] show ?thesis by simp
  qed
  show "?I (add_reserved (ac_id a) amount db)"
    if "?I db" "a \<in> set (accounts db)" "0 < amount" "amount \<le> ac_balance a - ac_reserved a" for db a amount
  proof -
    have "bank_of (add_reserved (ac_id a) amount db) = bank_of db" unfolding add_reserved_def by (rule bank_of_upd) (simp_all add: may_owe_def)
    with that coverage.reserve [of db a amount] show ?thesis by simp
  qed
  show "commits ?I (releaseHoldReservation i amount)" if "0 < amount" for i amount
  proof (rule commitsI)
    fix db u db' assume p: "?I db" and r: "releaseHoldReservation i amount db = (Inr u, db')"
    have "bank_of db' = bank_of db"
      using r by (rule releaseHoldReservation_Inr)
        (simp add: bank_of_upd [where f = "\<lambda>a. a\<lparr>ac_reserved := ac_reserved a - amount\<rparr>"] may_owe_def)
    with p commitsD [OF coverage.unreserve [OF that] _ r] show "?I db'" by simp
  qed
  show "?I (db\<lparr>holds := hs\<rparr>)" if "?I db" for db hs
    using that coverage.holds [of db hs] bank_of_accounts [of "db\<lparr>holds := hs\<rparr>" db] by simp
qed

lemma reachable_bank_run:
  assumes "reachable permitted cf0 start cf db" and "journal_ok cf0 start"
  shows "bank_step\<^sup>*\<^sup>* (bank_of start) (bank_of db)"
  using assms
proof induction
  case (performs cf db c)
  have "funded db \<and> hold_amounts_ok db" using reachable_journal_ok [OF performs(1,4)] by (simp add: journal_ok_def)
  with performs have "with_amounts (\<lambda>_ db. funded db \<and> bank_step\<^sup>*\<^sup>* (bank_of start) (bank_of db)) cf db" by (simp add: with_amounts_def)
  with simulated.performs [of "bank_of start" cf c] show ?case by (simp add: keeps_def with_amounts_def)
next
  case (elsewhere cf db db' cf')
  then show ?case using bank_of_accounts [of db' db] by (simp add: journal_part_def)
qed simp

text \<open>C1: the ledger refines the bank: seen through its balances, every run of the commands is a run of the
  bank, whose only steps move a positive amount that is there (or that a platform or payable
  account owes) from one account to another and open accounts. So no command creates or destroys
  money, and a solvent ledger stays solvent, whatever happened in between.\<close>

theorem ledger_refines_bank:
  assumes "reachable permitted cf0 start cf db" and "journal_ok cf0 start"
  shows "bank_step\<^sup>*\<^sup>* (bank_of start) (bank_of db) \<and> solvent (bank_of db)"
proof -
  have "solvent (bank_of start)"
    using assms(2) by (auto simp: solvent_def bank_of_def balance_of_def account_row_def journal_ok_def funded_def list_all_iff
        covered_def may_owe_def split: option.split dest!: find_SomeD)
  with bank_run_solvent reachable_bank_run [OF assms] show ?thesis by blast
qed

theorem ledger_refines_bank_witness:
  "bank_step\<^sup>*\<^sup>* (bank_of sample_ledger) (bank_of (sample_run (PostMovement sample_load) sample_ledger)) \<and>
   map ac_balance (accounts (sample_run (PostMovement sample_load) sample_ledger)) = [- 50, 50]"
proof -
  have r: "reachable (\<lambda>_ _. True) sample_config sample_ledger sample_config (sample_run (PostMovement sample_load) sample_ledger)"
    by (rule sample_run_reachable) simp
  from ledger_refines_bank [OF r sample_ledger_journal_ok] sample_posting_balances show ?thesis by simp
qed

end
