(* ===== verification/RetryProperties.thy ===== *)
theory RetryProperties
  imports CreditProperties
begin

text \<open>
  Retries of a purchase: the text a replay compares, and why the retry of a purchase is refused.
\<close>

section \<open>The text of metadata\<close>

lemma length_join_commas: "length (join_commas xs) = sum_list (map length xs) + (length xs - 1)"
proof (cases xs)
  case (Cons y ys)
  have "length (concat (map (\<lambda>z. CHR '','' # z) zs)) = sum_list (map length zs) + length zs" for zs :: "string list"
    by (induction zs) simp_all
  with Cons show ?thesis by (simp add: join_commas_def)
qed (simp add: join_commas_def)

lemma sum_list_sort_key: "sum_list (map g (sort_key k xs)) = (sum_list (map g xs) :: nat)"
  by (metis mset_map mset_sort sum_mset_sum_list)

definition pair_length :: "string \<times> string \<Rightarrow> nat" where
  "pair_length p = length (json_string (fst p)) + 1 + length (snd p)"

lemma length_stableStringify:
  "length (stableStringify (ObjJ kvs)) = 2 + sum_list (map (\<lambda>(k, v). pair_length (k, stableStringify v)) kvs) + (length kvs - 1)"
proof -
  let ?m = "map (\<lambda>(k, v). (k, stableStringify v)) kvs"
  have "sum_list (map length (map (\<lambda>(k, v). json_string k @ '':'' @ v) (sort_key fst ?m))) = sum_list (map pair_length (sort_key fst ?m))"
    by (simp add: comp_def case_prod_beta pair_length_def [abs_def])
  also have "\<dots> = sum_list (map pair_length ?m)" by (rule sum_list_sort_key)
  also have "\<dots> = sum_list (map (\<lambda>(k, v). pair_length (k, stableStringify v)) kvs)"
    by (simp add: comp_def case_prod_beta')
  finally show ?thesis by (simp add: length_join_commas)
qed

text \<open>Appending properties makes the text longer.\<close>

lemma stableStringify_append:
  assumes "extra \<noteq> []"
  shows "stableStringify (ObjJ (kvs @ extra)) \<noteq> stableStringify (ObjJ kvs)"
proof
  assume "stableStringify (ObjJ (kvs @ extra)) = stableStringify (ObjJ kvs)"
  from arg_cong [OF this, of length] have
    "sum_list (map (\<lambda>(k, v). pair_length (k, stableStringify v)) extra) + (length (kvs @ extra) - 1) = length kvs - 1"
    by (simp only: length_stableStringify map_append sum_list_append)
  moreover obtain e es where "extra = e # es" using assms by (cases extra) simp_all
  ultimately show False by (cases e) (simp add: pair_length_def)
qed

lemma spread_new:
  "distinct (map fst new) \<Longrightarrow> fst ` set new \<inter> fst ` set kvs = {} \<Longrightarrow> spread (ObjJ kvs) (ObjJ new) = ObjJ (kvs @ new)"
proof -
  have "distinct (map fst new) \<Longrightarrow> fst ` set new \<inter> fst ` set kvs = {} \<Longrightarrow>
      foldl (\<lambda>kvs (k, v). set_field k v kvs) kvs new = kvs @ new" for new kvs :: "(string \<times> json) list"
  proof (induction new arbitrary: kvs)
    case (Cons p new)
    obtain k v where p: "p = (k, v)" by (cases p)
    have "k \<notin> fst ` set kvs" using Cons.prems(2) by (auto simp: p)
    moreover have "fst ` set new \<inter> fst ` set (kvs @ [(k, v)]) = {}" using Cons.prems by (auto simp: p)
    ultimately show ?case using Cons.IH [of "kvs @ [(k, v)]"] Cons.prems(1) by (simp add: p set_field_new)
  qed simp
  then show "distinct (map fst new) \<Longrightarrow> fst ` set new \<inter> fst ` set kvs = {} \<Longrightarrow> spread (ObjJ kvs) (ObjJ new) = ObjJ (kvs @ new)"
    by (simp add: spread_def)
qed

text \<open>Metadata of a caller that does not itself use the names the service adds.\<close>

definition plain_metadata :: "json \<Rightarrow> bool" where
  "plain_metadata m \<longleftrightarrow> (\<forall>k \<in> {''orderType'', ''categories'', ''menuItemIds''}. field (normalizeMetadata m) k = None)"

lemma purchase_metadata_differs:
  assumes "plain_metadata (pu_metadata rq)"
  shows "stableStringify (purchase_metadata rq) \<noteq> stableStringify (normalizeMetadata (pu_metadata rq))"
proof -
  obtain kvs where kvs: "normalizeMetadata (pu_metadata rq) = ObjJ kvs" by (cases "pu_metadata rq") (simp_all add: normalizeMetadata_def)
  have none: "''orderType'' \<notin> fst ` set kvs" "''categories'' \<notin> fst ` set kvs" "''menuItemIds'' \<notin> fst ` set kvs"
    using assms unfolding plain_metadata_def kvs by (simp_all add: field_def map_of_eq_None_iff)
  let ?new = "[(''orderType'', optText (normalizeString (sr_orderType (pu_spend rq)) 40)),
               (''categories'', ListJ (map TextJ (requestedCategoriesForMetadata (sr_category (pu_spend rq)) (sr_categories (pu_spend rq))))),
               (''menuItemIds'', ListJ (map TextJ (requestedMenuItemsForMetadata (sr_menuItem (pu_spend rq)) (sr_menuItems (pu_spend rq)))))]"
  have "purchase_metadata rq = spread (ObjJ kvs) (ObjJ ?new)" by (simp add: purchase_metadata_def Let_def kvs)
  also have "\<dots> = ObjJ (kvs @ ?new)" by (rule spread_new) (use none in auto)
  finally show ?thesis unfolding kvs by (simp only: stableStringify_append not_Cons_self2 list.distinct not_False_eq_True)
qed


lemma normalizeMetadata_idem: "normalizeMetadata (normalizeMetadata m) = normalizeMetadata m"
  by (cases m) (simp_all add: normalizeMetadata_def)

lemma purchase_metadata_obj: "normalizeMetadata (purchase_metadata rq) = purchase_metadata rq"
  by (simp add: purchase_metadata_def Let_def spread_def normalizeMetadata_def)

text \<open>A replayed purchase carries the metadata of the request, without the names the service adds.\<close>

lemma replayPurchase_metadata:
  assumes "replayPurchase cf rq amount key t db = (Inr p, db')"
  shows "stableStringify (normalizeMetadata (tx_metadata t)) = stableStringify (normalizeMetadata (pu_metadata rq))"
proof -
  obtain inp where "postJournalTransaction cf inp db = (Inr p, db')" "ji_existing inp = Some t" "ji_metadata inp = pu_metadata rq"
    using assms by (rule purchase_replay_posting)
  with replayed_posting(3) [OF this(1,2)] show ?thesis
    by (auto simp: assertIdempotencyReplayMatches_def Let_def requested_replay_def normalizeMetadata_idem split: if_splits)
qed

lemma fresh_purchase_row:
  assumes "purchaseWithCredit cf rq db = (Inr p, db')" and "\<not> po_replayed p" and "account_ids_ok db"
    and "normalizeString (pu_key rq) 160 = Some key" and "normalizeString (Some key) 160 = Some key"
  shows "getExistingTransaction key db' = Some (po_txn p)" "tx_metadata (po_txn p) = purchase_metadata rq" "tx_key (po_txn p) = key"
    "account_row db' (tx_debit (po_txn p)) \<noteq> None" "account_row db' (tx_credit (po_txn p)) \<noteq> None"
    "\<And>t. t \<in> set (txns db') \<Longrightarrow> tx_key t = key \<Longrightarrow> t = po_txn p"
proof -
  have "purchaseWithCreditInTransaction cf rq db = (Inr p, db')" using assms(1) by (simp add: purchaseWithCredit_def)
  then obtain amount code wallet payable agreement mid2 where
    post: "postJournalTransaction cf (purchase_posting rq amount code key wallet payable agreement) mid2 = (Inr p, db')"
    using assms(2,4) by (cases rule: purchase_Inr) (auto dest: purchase_replay_frame)
  from post assms(2) obtain d c cents currency key' version t e1 e2 where
    f: "normalizeString (Some key) 160 = Some key'" "getExistingTransaction key' mid2 = None" "d \<in> set (accounts mid2)" "c \<in> set (accounts mid2)"
      "ac_id d = ac_id wallet" "ac_id c = ac_id payable" "ac_id d \<noteq> ac_id c"
      "t = (requested_txn cf (purchase_posting rq amount code key wallet payable agreement) key' cents currency)\<lparr>tx_id := next_id (map tx_id (txns mid2))\<rparr>"
      "moved cf (purchase_posting rq amount code key wallet payable agreement) version t d c cents currency e1 e2 mid2 db'"
      "p = \<lparr>po_txn = t, po_entries = [e1, e2], po_replayed = False\<rparr>"
    by (rule fresh_posting_cases) (simp add: purchase_posting_def purchase_input_def)
  have k: "key' = key" using f(1) assms(5) by simp
  have tx: "txns db' = txns mid2 @ [t]" by (rule moved_frame(1) [OF f(9)])
  have old: "tx_key x \<noteq> key" if "x \<in> set (txns mid2)" for x
    using f(2) that unfolding k by (auto simp: getExistingTransaction_def find_None_iff)
  have t: "po_txn p = t" "tx_key t = key" "tx_metadata t = purchase_metadata rq" "tx_debit t = ac_id wallet" "tx_credit t = ac_id payable"
    unfolding f(8) by (simp_all add: f(10) f(8) k requested_txn_def purchase_posting_def purchase_input_def purchase_metadata_obj)
  show "getExistingTransaction key db' = Some (po_txn p)"
    using f(2) t(1,2) by (simp add: getExistingTransaction_def tx k find_append)
  show "tx_metadata (po_txn p) = purchase_metadata rq" "tx_key (po_txn p) = key" using t by simp_all
  show "x = po_txn p" if "x \<in> set (txns db')" "tx_key x = key" for x
    using that old t(1) unfolding tx by auto
  have "ac_id ` set (accounts db') = ac_id ` set (accounts mid2)"
    unfolding moved_accounts [OF f(9,7)] by (simp add: image_image)
  then have "ac_id wallet \<in> ac_id ` set (accounts db')" "ac_id payable \<in> ac_id ` set (accounts db')" using f(3-6) by (metis image_eqI)+
  then show "account_row db' (tx_debit (po_txn p)) \<noteq> None" "account_row db' (tx_credit (po_txn p)) \<noteq> None"
    unfolding t(1,4,5) account_row_def by (auto simp: find_None_iff)
qed


section \<open>Stored transactions\<close>

text \<open>A transaction that was stored with its two accounts is never lost: this is a contract of every operation.\<close>

definition kept :: "string \<Rightarrow> txn \<Rightarrow> ledger \<Rightarrow> bool" where
  "kept key t db \<longleftrightarrow> getExistingTransaction key db = Some t \<and> tx_debit t \<in> ac_id ` set (accounts db) \<and> tx_credit t \<in> ac_id ` set (accounts db)"

lemma kept_frame:
  assumes "kept key t db" and "txns db' = txns db" and "ac_id ` set (accounts db) \<subseteq> ac_id ` set (accounts db')"
  shows "kept key t db'"
  using assms by (auto simp: kept_def getExistingTransaction_def)

lemma upd_where_ids:
  assumes "\<And>a. ac_id (f a) = ac_id a"
  shows "ac_id ` set (upd_where p f xs) = ac_id ` set xs"
  unfolding set_map [symmetric] by (simp add: map_upd_where_frame assms)

lemma kept_accounts:
  assumes "kept key t db" and "\<And>a. ac_id (f a) = ac_id a"
  shows "kept key t (db\<lparr>accounts := upd_where p f (accounts db)\<rparr>)"
  using assms(1) by (rule kept_frame) (simp_all add: upd_where_ids assms(2))

lemma kept_post: "commits (kept key t) (postJournalTransaction cf inp)"
proof (rule commitsI)
  fix db p db' assume k: "kept key t db" and r: "postJournalTransaction cf inp db = (Inr p, db')"
  show "kept key t db'"
  proof (cases "po_replayed p")
    case True
    with r have "db' = db" by (cases rule: postJournalTransaction_Inr) (simp_all add: replayTransaction_Inr)
    with k show ?thesis by simp
  next
    case False
    show ?thesis
    proof (rule fresh_posting_cases [OF r False])
      fix amount currency key' version d c t' e1 e2
      assume "moved cf inp version t' d c amount currency e1 e2 db db'" and "ac_id d \<noteq> ac_id c"
      note tx = moved_frame(1) [OF this(1)] and acc = moved_accounts [OF this]
      have "getExistingTransaction key db' = Some t"
        using k by (simp add: kept_def getExistingTransaction_def tx find_append)
      then show ?thesis using k by (simp add: kept_def acc image_image)
    qed
  qed
qed

interpretation kept: wallet_contract "\<lambda>_. kept key t" for key t
proof
  show "commits (kept key t) (postJournalTransaction cf inp)" for cf inp by (rule kept_post)
  show "commits (kept key t) (ensureAccount cf w code anyOwner)" for cf w code anyOwner
    by (rule commitsI, erule ensureAccount_Inr) (auto intro: kept_frame)
  show "kept key t (db\<lparr>audits := audits db @ [x]\<rparr>)" if "kept key t db" for db x
    using that by (rule kept_frame) simp_all
  show "kept key t (db\<lparr>screenings := scs, cases := cs, guest_days := gs\<rparr>)" if "kept key t db" for db scs cs gs
    using that by (rule kept_frame) simp_all
  show "kept key t (set_status i new db)" if "kept key t db" for db i new
    unfolding set_status_def by (rule kept_accounts [OF that]) simp
  show "kept key t (add_reserved (ac_id a) amount db)" if "kept key t db" for db a amount
    unfolding add_reserved_def by (rule kept_accounts [OF that]) simp
  show "commits (kept key t) (releaseHoldReservation i amount)" for i amount
    by (rule commits_release, rule kept_accounts) simp_all
  show "kept key t (db\<lparr>holds := hs\<rparr>)" if "kept key t db" for db hs
    using that by (rule kept_frame) simp_all
qed

lemma kept_reachable:
  assumes "reachable permitted cf0 start cf db" and "kept key t start" "hold_amounts_ok start"
  shows "kept key t db"
proof -
  have "with_amounts (\<lambda>_. kept key t) cf db"
    using assms
  proof induction
    case begins
    then show ?case by (simp add: with_amounts_def)
  next
    case (performs cf db c)
    then show ?case using keepsD [OF kept.performs] by (metis prod.collapse)
  next
    case (elsewhere cf db db' cf')
    then have "with_amounts (\<lambda>_. kept key t) cf db" "accounts db' = accounts db" "txns db' = txns db" "holds db' = holds db"
      by (simp_all add: journal_part_def)
    then show ?case by (simp add: with_amounts_def kept_def getExistingTransaction_def hold_amounts_ok_def)
  qed
  then show ?thesis by (simp add: with_amounts_def)
qed

lemma find_refine: "find P xs = Some t \<Longrightarrow> Q t \<Longrightarrow> find (\<lambda>x. P x \<and> Q x) xs = Some t"
  by (induction xs) (simp_all split: if_splits)

text \<open>A purchase is refused while a transaction with its key and with the metadata of the service is kept.\<close>

lemma retry_refused:
  assumes "kept key t db" and "normalizeString (pu_key rq) 160 = Some key" and "tx_metadata t = purchase_metadata rq"
    and "plain_metadata (pu_metadata rq)"
  shows "\<exists>e. purchaseWithCredit cf rq db = (Inl e, db)"
proof -
  let ?P = "\<lambda>x. tx_key x = key \<and> account_row db (tx_debit x) \<noteq> None \<and> account_row db (tx_credit x) \<noteq> None"
  have known: "account_row db i \<noteq> None" if "i \<in> ac_id ` set (accounts db)" for i
    using that by (auto simp: account_row_def find_None_iff)
  have stored: "find (\<lambda>x. tx_key x = key) (txns db) = Some t" "tx_debit t \<in> ac_id ` set (accounts db)" "tx_credit t \<in> ac_id ` set (accounts db)"
    using assms(1) by (simp_all only: kept_def getExistingTransaction_def)
  have found: "find ?P (txns db) = Some t"
    by (rule find_refine [OF stored(1)]) (intro conjI known stored(2,3))
  have "purchaseWithCreditInTransaction cf rq db \<noteq> (Inr r, s)" for r s
  proof
    assume "purchaseWithCreditInTransaction cf rq db = (Inr r, s)"
    then show False
    proof (cases rule: purchase_Inr)
      case (replayed amount key' t')
      have "t' = t"
        using replayed(2,3) assms(2) found by (auto simp: findExistingPurchaseForReplay_def res_bind_Inr_iff split: option.splits if_splits)
      with replayPurchase_metadata [OF replayed(4)] purchase_metadata_differs [OF assms(4)] show False
        by (simp add: assms(3) purchase_metadata_obj)
    next
      case (paid amount key')
      with assms(2) found show False
        by (auto simp: findExistingPurchaseForReplay_def res_bind_Inr_iff split: option.splits if_splits)
    qed
  qed
  then show ?thesis
    by (cases "purchaseWithCreditInTransaction cf rq db"; cases "fst (purchaseWithCreditInTransaction cf rq db)")
      (auto simp: purchaseWithCredit_def withTransaction_def)
qed

text \<open>C11: a purchase cannot be retried: once a purchase went through, the very same request is refused at any
  later time, after any further operations on the ledger and at any clock and configuration, because its
  replay compares the stored metadata, to which the service added the order type, categories and items, with
  the metadata as the caller sent it. Nothing is charged twice, but the stored transaction is not returned, as
  \<open>scripts/credit-isolated-races.js\<close> expects it. This holds for requests whose own metadata has none of the
  three names the service adds (\<open>plain_metadata\<close>) and whose key is its own normal form once it is trimmed and
  cut; that account ids are unique and all holds have positive amounts are invariants of the ledger.\<close>

theorem purchase_retry_conflicts:
  assumes "purchaseWithCredit cf rq db = (Inr p, db')" and "\<not> po_replayed p" and "account_ids_ok db"
    and "normalizeString (pu_key rq) 160 = Some key" and "normalizeString (Some key) 160 = Some key"
    and "plain_metadata (pu_metadata rq)" and "hold_amounts_ok db" and "reachable permitted cf db' later_cf later"
  shows "\<exists>e. purchaseWithCredit any_cf rq later = (Inl e, later)"
proof -
  note f = fresh_purchase_row [OF assms(1-5)]
  have holds: "hold_amounts_ok db'"
    using commitsD [of hold_amounts_ok "purchaseWithCredit cf rq" db p db'] assms(1,7)
    by (simp add: purchaseWithCredit_def commits_withTransaction hold_amounts.purchases)
  have row: "i \<in> ac_id ` set (accounts db')" if "account_row db' i \<noteq> None" for i
    using that by (auto simp: account_row_def dest: find_SomeD)
  have "kept key (po_txn p) db'" using f(1) row [OF f(4)] row [OF f(5)] by (simp add: kept_def)
  from retry_refused [OF kept_reachable [OF assms(8) this holds] assms(4) f(2) assms(6)] show ?thesis .
qed

theorem purchase_retry_conflicts_witness:
  "\<exists>p db'. purchaseWithCredit sample_config sample_purchase sample_shop = (Inr p, db') \<and>
     (\<exists>e. purchaseWithCredit sample_config sample_purchase (snd (perform sample_config (ExpireHolds ''100'' None) db')) =
       (Inl e, snd (perform sample_config (ExpireHolds ''100'' None) db')))"
proof -
  obtain p db' where r: "purchaseWithCredit sample_config sample_purchase sample_shop = (Inr p, db')" "\<not> po_replayed p"
    by (rule fresh_postingE [OF sample_purchase_posts(1)])
  have k: "normalizeString (pu_key sample_purchase) 160 = Some ''buy1''" "normalizeString (Some ''buy1'') 160 = Some ''buy1''"
    by code_simp+
  have m: "plain_metadata (pu_metadata sample_purchase)"
    by (simp add: plain_metadata_def sample_purchase_def normalizeMetadata_def field_def)
  have h: "hold_amounts_ok sample_shop" by code_simp
  have later: "reachable (\<lambda>_ _. True) sample_config db' sample_config (snd (perform sample_config (ExpireHolds ''100'' None) db'))"
    by (rule performs [OF begins]) simp
  from purchase_retry_conflicts [OF r sample_purchase_posts(3) k m h later, of sample_config] r(1) show ?thesis by blast
qed

end
