(* ===== verification/WalletProperties.thy ===== *)
theory WalletProperties
  imports BankRefinement RetryProperties
begin

text \<open>
  Refunds, the status of wallets, loads and captures: what each guarantees when it returns, and what a retried
  purchase does.
\<close>

section \<open>Refunds\<close>

lemma refund_Inr:
  assumes "refundCreditInTransaction cf rq db = (Inr p, db')"
  obtains amount key t wallet where
    "parseAmountCents cf (rf_amount rq) None = Inr amount" "normalizeString (rf_key rq) 160 = Some key"
    "findPurchase (rf_purchase rq) db = Some (t, wallet)"
    "po_replayed p \<or> getExistingTransaction key db = None \<and> refunded db (tx_id t) + amount \<le> tx_amount t \<and>
      postJournalTransaction cf (refund_input rq amount key t wallet) db = (Inr p, db')"
proof -
  from assms obtain amount key t wallet where
    c: "parseAmountCents cf (rf_amount rq) None = Inr amount" "normalizeString (rf_key rq) 160 = Some key"
      "findPurchase (rf_purchase rq) db = Some (t, wallet)"
    and rest: "(case getExistingTransaction key db of
             Some existing \<Rightarrow> postJournalTransaction cf ((refund_input rq amount key t wallet)\<lparr>ji_existing := Some existing\<rparr>)
           | None \<Rightarrow>
               bind (gets (\<lambda>db. refunded db (tx_id t))) (\<lambda>already.
               if tx_amount t < already + amount then fail (AppError 409 ''credit_refund_exceeds_purchase'')
               else postJournalTransaction cf (refund_input rq amount key t wallet))) db = (Inr p, db')"
    unfolding refundCreditInTransaction_def by (auto simp: bind_Inr_iff require_key_Inr split: if_splits option.splits)
  show thesis
  proof (cases "getExistingTransaction key db")
    case (Some existing)
    with rest have "postJournalTransaction cf ((refund_input rq amount key t wallet)\<lparr>ji_existing := Some existing\<rparr>) db = (Inr p, db')" by simp
    then have "po_replayed p" by (rule postJournalTransaction_Inr) (simp_all add: replayTransaction_Inr)
    with that c show thesis by blast
  next
    case None
    with rest have "refunded db (tx_id t) + amount \<le> tx_amount t \<and> postJournalTransaction cf (refund_input rq amount key t wallet) db = (Inr p, db')"
      by (auto simp: bind_Inr_iff split: if_splits)
    with that c None show thesis by blast
  qed
qed

text \<open>C12: refunds never exceed the purchase: a new refund gives its amount back from the partner's account to
  the wallet that paid, and afterwards all posted refunds of that purchase together are still at
  most its amount, however many partial refunds there were.\<close>

theorem refunds_stay_within_purchase:
  assumes "refundCredit cf rq db = (Inr p, db')" and "\<not> po_replayed p" and "account_ids_ok db"
  shows "\<exists>t wallet. findPurchase (rf_purchase rq) db = Some (t, wallet) \<and> tx_type t = ''purchase'' \<and> tx_status t = ''posted'' \<and>
    0 < tx_amount (po_txn p) \<and> refunded db' (tx_id t) \<le> tx_amount t \<and>
    (\<forall>i. balance_of db' i = balance_of db i + movement (tx_credit t) (tx_debit t) (tx_amount (po_txn p)) i)"
proof -
  have "refundCreditInTransaction cf rq db = (Inr p, db')" using assms(1) by (simp add: refundCredit_def)
  then obtain amount key t wallet where
    t: "findPurchase (rf_purchase rq) db = Some (t, wallet)" and le: "refunded db (tx_id t) + amount \<le> tx_amount t"
    and post: "postJournalTransaction cf (refund_input rq amount key t wallet) db = (Inr p, db')"
    using assms(2) by (metis refund_Inr)
  obtain n where n: "JInt amount = JInt n" "0 < n" "tx_amount (po_txn p) = n" "txns db' = txns db @ [po_txn p]"
    and moves: "\<And>i. balance_of db' i = balance_of db i + movement (tx_credit t) (tx_debit t) n i"
    using post assms(2,3) by (rule post_balance) (simp add: refund_input_def)
  have "tx_type t = ''purchase'' \<and> tx_status t = ''posted''"
    using t by (auto simp: findPurchase_def split: option.splits dest!: find_SomeD)
  moreover have "refunded db' (tx_id t) \<le> tx_amount t"
    using le n by (auto simp: refunded_def refunds_of_def)
  ultimately show ?thesis using t n moves by auto
qed

text \<open>A shop where the first transaction sold something for 30.\<close>

definition sample_sale :: txn where
  "sample_sale =
     \<lparr>tx_id = 1, tx_type = ''purchase'', tx_status = ''posted'', tx_debit = 2, tx_credit = 3, tx_amount = 30, tx_currency = ''USD'',
      tx_partner = Some 7, tx_agreement = Some ''agr'', tx_key = ''buy1'', tx_correlation = None, tx_refType = None, tx_refId = None,
      tx_description = None, tx_reason = None, tx_actorType = ''customer'', tx_actorUser = Some ''ana'', tx_metadata = ObjJ [],
      tx_created = 1000\<rparr>"

definition sample_sold :: ledger where
  "sample_sold = sample_shop\<lparr>accounts := [sample_account 1 Platform_treasury None None (- 100),
     sample_account 2 Customer_wallet (Some ''ana'') None 70, sample_account 3 Partner_payable None (Some 7) 30], txns := [sample_sale]\<rparr>"

definition sample_refund :: refund_request where
  "sample_refund = \<lparr>rf_purchase = 1, rf_amount = JInt 10, rf_key = Some ''r1'', rf_actor = Some ''root'', rf_actorType = None,
     rf_reason = Some ''cold'', rf_correlation = None, rf_ip = None, rf_metadata = ObjJ []\<rparr>"

lemma sample_refund_posts: "fresh_posting (refundCredit sample_config sample_refund sample_sold)"
  by code_simp

lemma sample_sold_ok: "account_ids_ok sample_sold \<and> map_option (tx_amount \<circ> fst) (findPurchase 1 sample_sold) = Some 30"
  by code_simp

theorem refunds_stay_within_purchase_witness:
  "\<exists>p db'. refundCredit sample_config sample_refund sample_sold = (Inr p, db') \<and> 0 < tx_amount (po_txn p) \<and>
     (\<exists>i. refunded db' i \<le> 30)"
proof -
  obtain p db' where r: "refundCredit sample_config sample_refund sample_sold = (Inr p, db')" "\<not> po_replayed p"
    by (rule fresh_postingE [OF sample_refund_posts])
  have "rf_purchase sample_refund = 1" by (simp add: sample_refund_def)
  with refunds_stay_within_purchase [OF r] sample_sold_ok r(1) show ?thesis by fastforce
qed

section \<open>The status of a wallet\<close>





section \<open>Captures\<close>

text \<open>C4: a capture charges the hold once and frees its reservation: when a capture makes a new purchase, the
  hold was active and not expired and is now captured by that transaction, the amount is the held one
  unless adjusting was allowed, exactly that amount went from a wallet of the holder to a payable of
  the partner, the active holds of the account fell by the full held amount, and reservations still match.\<close>

theorem capture_charges_the_hold:
  assumes "captureCreditHold cf rq db = (Inr r, db')" and "cr_posting r = Some p" and "\<not> cr_replayed r" "\<not> po_replayed p"
    and "reservations_match db" and "\<not> takes_legacy (CaptureHold rq) db"
  shows "\<exists>h currency wallet payable. h \<in> set (holds db) \<and> ho_id h = cq_hold rq \<and> ho_status h = HActive \<and> cf_now cf < ho_expires h \<and>
    (tx_amount (po_txn p) = ho_amount h \<or> cq_allowAdjust rq) \<and>
    hold_terms (cr_hold r) = hold_terms h \<and> ho_status (cr_hold r) = HCaptured \<and> ho_captured_txn (cr_hold r) = Some (tx_id (po_txn p)) \<and>
    cr_hold r \<in> set (holds db') \<and>
    owned_by (customer_wallet (ho_customer h)) currency wallet \<and> owned_by (partner_payable (ho_partner h)) currency payable \<and>
    (\<forall>i. balance_of db' i = balance_of db i + movement (ac_id wallet) (ac_id payable) (tx_amount (po_txn p)) i) \<and>
    (\<forall>i. active_total db' i = active_total db i - (if i = ho_account h then ho_amount h else 0)) \<and> reservations_match db'"
proof -
  have run: "captureCreditHoldInTransaction cf rq db = (Inr r, db')" using assms(1) by (simp add: captureCreditHold_def)
  have ids: "hold_ids_ok db" "account_ids_ok db" using assms(5) by (simp_all add: reservations_match_def)
  have no_legacy: "findLegacyCapturePurchase key h db = None"
    if "h \<in> set (holds db)" "ho_id h = cq_hold rq" "require_key (cq_key rq) db = (Inr key, db)" for h key
    using assms(6) that by (auto simp: list_ex_iff require_key_Inr)
  have match: "reservations_match db'" using capture_matches [of cf rq db r db' "\<lambda>_. 0"] run assms(5) no_legacy by (simp add: no_gap)
  from run show ?thesis
  proof (cases rule: captureCreditHoldInTransaction_Inr)
    case replayed
    with assms(3) show ?thesis by simp
  next
    case (acted h amount key)
    have later: "cf_now cf < ho_expires h"
    proof (rule ccontr)
      assume "\<not> cf_now cf < ho_expires h"
      with acted(8) have "expireInCapture cf rq h db = (Inr r, db')" by simp
      with assms(2) show False by (auto simp: expireInCapture_def Let_def bind_Inr_iff)
    qed
    with acted(8) have "captureActive cf rq h amount key db = (Inr r, db')" by simp
    from this no_legacy [OF acted(2,3,1)] ids(1) acted(2,4) obtain a mid q mid2 x where
      rel: "releaseHoldReservation (ho_account h) (ho_amount h) db = (Inr (), mid)"
      and pur: "purchaseWithCreditInTransaction cf (capture_purchase cf rq h amount key) mid = (Inr q, mid2)"
      and r: "r = \<lparr>cr_hold = captured_by rq key q h, cr_posting = Some q, cr_expired = False, cr_replayed = False\<rparr>"
      and db': "db' = mid2\<lparr>holds := upd_where (\<lambda>x. ho_id x = ho_id h) (captured_by rq key q) (holds mid2), audits := audits mid2 @ [x]\<rparr>"
      by (rule captureActive_Inr)
    have q: "q = p" using assms(2) r by simp
    have mid: "balance_of mid = balance_of db" "account_ids_ok mid"
      using rel by (rule releaseHoldReservation_Inr, use ids(2) in \<open>simp_all add: balance_of_upd account_ids_frame\<close>)+
    obtain currency wallet payable where m: "parseAmountCents cf (JInt amount) (Some (Some (ho_currency h))) = Inr (tx_amount (po_txn p))"
      "owned_by (customer_wallet (ho_customer h)) currency wallet" "owned_by (partner_payable (ho_partner h)) currency payable"
      "\<forall>i. balance_of mid2 i = balance_of mid i + movement (ac_id wallet) (ac_id payable) (tx_amount (po_txn p)) i"
      using purchase_run [OF pur _ mid(2)] assms(4) by (auto simp: capture_purchase_def q)
    have amt: "tx_amount (po_txn p) = amount"
      using m(1) by (auto simp: parseAmountCents_def res_bind_Inr_iff split: if_splits)
    have rows: "holds mid2 = holds db" using purchase_holds [OF pur] release_frame(1) [OF rel] by simp
    have bal: "\<forall>i. balance_of db' i = balance_of db i + movement (ac_id wallet) (ac_id payable) (tx_amount (po_txn p)) i"
      using m(4) by (simp add: mid(1) db' balance_of_def account_row_def)
    have hs: "holds db' = upd_where (\<lambda>x. ho_id x = ho_id h) (captured_by rq key p) (holds db)" by (simp add: db' rows q)
    have total: "\<forall>i. active_total db' i = active_total db i - (if i = ho_account h then ho_amount h else 0)"
      using settle_active_total [OF ids(1) acted(2,4) settling_capture hs] by blast
    have c: "hold_terms (cr_hold r) = hold_terms h" "ho_status (cr_hold r) = HCaptured" "ho_captured_txn (cr_hold r) = Some (tx_id (po_txn p))"
      using settlingD(2) [OF settling_capture] by (simp_all add: r q captured_by_def hold_terms_def)
    have "cr_hold r \<in> set (holds db')" using acted(2) unfolding hs set_upd_where r q by force
    with acted(2-4) later acted(7) c m(2,3) bal total match amt show ?thesis by blast
  qed
qed

definition sample_held :: ledger where
  "sample_held = sample_shop\<lparr>accounts := [sample_account 1 Platform_treasury None None (- 100),
     (sample_account 2 Customer_wallet (Some ''ana'') None 100)\<lparr>ac_reserved := 20\<rparr>],
     holds := [(sample_hold 1 20 2000)\<lparr>ho_agreement := ''agr''\<rparr>]\<rparr>"

definition sample_capture :: capture_request where
  "sample_capture =
     \<lparr>cq_hold = 1, cq_amount = None, cq_currency = None, cq_key = Some ''c1'', cq_actor = Some ''root'', cq_actorType = None, cq_order = sample_spend,
      cq_refType = None, cq_refId = None, cq_correlation = None, cq_ip = None, cq_description = None, cq_reason = Some ''served'',
      cq_metadata = ObjJ [], cq_allowAdjust = False\<rparr>"

definition new_capture :: "capture_result res \<times> ledger \<Rightarrow> bool" where
  "new_capture r \<longleftrightarrow> (case fst r of Inl _ \<Rightarrow> False
     | Inr c \<Rightarrow> \<not> cr_replayed c \<and> (case cr_posting c of None \<Rightarrow> False | Some p \<Rightarrow> \<not> po_replayed p))"

lemma sample_held_ok: "reservations_match sample_held \<and> \<not> takes_legacy (CaptureHold sample_capture) sample_held"
  by code_simp

lemma sample_capture_posts: "new_capture (captureCreditHold sample_config sample_capture sample_held)"
  by code_simp

theorem capture_charges_the_hold_witness:
  "\<exists>r db'. captureCreditHold sample_config sample_capture sample_held = (Inr r, db') \<and> ho_status (cr_hold r) = HCaptured \<and>
     reservations_match db'"
proof -
  obtain r p db' where r: "captureCreditHold sample_config sample_capture sample_held = (Inr r, db')" "cr_posting r = Some p"
    "\<not> cr_replayed r" "\<not> po_replayed p"
    using sample_capture_posts
    by (cases "captureCreditHold sample_config sample_capture sample_held"; cases "fst (captureCreditHold sample_config sample_capture sample_held)")
      (auto simp: new_capture_def split: option.splits)
  from capture_charges_the_hold [OF r] sample_held_ok r(1) show ?thesis by blast
qed

end
