(* ===== verification/StepUp.thy ===== *)
theory StepUp
  imports Sanctions
begin

text \<open>
  Step-up authentication of high-risk money actions (\<open>services/stepupChallengeService.js\<close>): issuing a
  challenge that is bound to an actor, an action and an amount, and presenting its code, which is either
  the digest of an emailed code or a code of the actor's authenticator. The challenge table's constraints
  that the handlers can run into (migrations 638, 20261027110300) are part of the insert. Identifiers are
  opaque strings; \<open>String(x)\<close> of a missing value is never used as one.
\<close>

section \<open>Actions and methods\<close>

definition STEPUP_ACTION_TYPES :: "string list" where
  "STEPUP_ACTION_TYPES =
    [''topup'', ''restaurant_topup'', ''settlement_payout'', ''withdrawal'', ''instant_payout'', ''agent_job_cancel'',
     ''customer_transfer'', ''restaurant_conversion'', ''pending_action_approve'', ''pending_action_request'',
     ''agent_credit_adjustment_approve'', ''compliance_verification_decision'', ''compliance_sanction_decision'',
     ''compliance_case_transition'', ''credit_account_status_update'', ''credit_agreement_create'',
     ''credit_agreement_transition'', ''credit_entitlement_upsert'', ''restaurant_payout_approve'', ''manual_refund'',
     ''food_refund'', ''support_resolution_approve'', ''restaurant_topup_approve'', ''fee_config_update'',
     ''money_movement_approve'', ''settings_change_approve'', ''affiliate_payout_process'', ''credit_rail_unfreeze'',
     ''subscription_cancel'', ''credit_card_issue'', ''helper_cashout'']"

definition TOTP_STEPUP_ACTION_TYPES :: "string list" where
  "TOTP_STEPUP_ACTION_TYPES =
    [''settlement_payout'', ''withdrawal'', ''pending_action_approve'', ''pending_action_request'',
     ''agent_credit_adjustment_approve'', ''compliance_verification_decision'', ''compliance_sanction_decision'',
     ''compliance_case_transition'', ''credit_account_status_update'', ''credit_agreement_create'',
     ''credit_agreement_transition'', ''credit_entitlement_upsert'', ''manual_refund'', ''food_refund'',
     ''restaurant_topup_approve'', ''fee_config_update'', ''credit_rail_unfreeze'', ''credit_card_issue'',
     ''money_movement_approve'', ''restaurant_payout_approve'', ''subscription_cancel'']"

text \<open>The CHECK constraint of the column \<open>action_type\<close>.\<close>

definition stored_action_types :: "string list" where
  "stored_action_types =
    [''topup'', ''restaurant_topup'', ''settlement_payout'', ''withdrawal'', ''instant_payout'', ''agent_job_cancel'',
     ''customer_transfer'', ''restaurant_conversion'', ''pending_action_approve'', ''pending_action_request'',
     ''agent_credit_adjustment_approve'', ''compliance_verification_decision'', ''compliance_sanction_decision'',
     ''compliance_case_transition'', ''credit_account_status_update'', ''credit_agreement_create'',
     ''credit_agreement_transition'', ''credit_entitlement_upsert'', ''restaurant_payout_approve'', ''manual_refund'',
     ''food_refund'', ''restaurant_topup_approve'', ''fee_config_update'', ''money_movement_approve'',
     ''settings_change_approve'', ''affiliate_payout_process'', ''credit_rail_unfreeze'', ''credit_card_issue'',
     ''helper_cashout'']"

definition STEPUP_MAX_ATTEMPTS :: int where
  "STEPUP_MAX_ATTEMPTS = 5"

definition TOTP_TIME_STEP_SECONDS :: int where
  "TOTP_TIME_STEP_SECONDS = 30"

datatype stepup_method = Email | Totp

definition resolveStepupMethod :: "string \<Rightarrow> string option \<Rightarrow> stepup_method res" where
  "resolveStepupMethod actionType requestedMethod =
     (let totpOnly = actionType \<in> set TOTP_STEPUP_ACTION_TYPES in
      case or_null requestedMethod of
        None \<Rightarrow> Inr (if totpOnly then Totp else Email)
      | Some m \<Rightarrow>
          let chosen = js_lower m in
          if chosen \<noteq> ''email'' \<and> chosen \<noteq> ''totp'' then Inl (AppError 400 ''credit_stepup_method_invalid'')
          else if totpOnly \<and> chosen \<noteq> ''totp'' then Inl (AppError 400 ''credit_stepup_method_invalid'')
          else if \<not> totpOnly \<and> chosen \<noteq> ''email'' then Inl (AppError 400 ''credit_stepup_method_invalid'')
          else Inr (if chosen = ''totp'' then Totp else Email))"

section \<open>The tables and the outside\<close>

record challenge =
  ch_id :: string
  ch_actor :: string
  ch_action :: string
  ch_amount :: int
  ch_currency :: string
  ch_hash :: "string option"
  ch_method :: stepup_method
  ch_attempts :: int
  ch_max :: int
  ch_expires :: int
  ch_consumed :: "int option"

text \<open>The columns of \<open>users\<close> that administrators are checked by.\<close>

record administrator =
  ad_id :: string
  ad_role :: string
  ad_active :: bool
  ad_deleted :: bool
  ad_totp :: "bool option"
  ad_secret :: "string option"

record stepup_db =
  challenges :: "challenge list"
  administrators :: "administrator list"
  counters :: "(string \<times> int) list"      \<comment> \<open>\<open>admin_totp_stepup_counters\<close>\<close>

text \<open>
  What a request sees of the outside: the settings and the clock, HMAC-SHA-256 in hexadecimal, the
  decryption of a stored secret, the authenticator's check of a token at this moment (window 1), the
  random code and the answer of the mail transport.
\<close>

record stepup_env =
  se_cf :: config
  se_hmac :: "string \<Rightarrow> string \<Rightarrow> string"
  se_decrypt :: "string \<Rightarrow> string res"
  se_totp :: "string \<Rightarrow> string \<Rightarrow> bool res"
  se_random :: int
  se_send :: "bool res"

type_synonym 'a stepup = "(stepup_db, 'a) tx"

definition env_text :: "config \<Rightarrow> string \<Rightarrow> string option" where
  "env_text cf name = or_null (le_env (cf_limit_env cf) name)"

text \<open>\<open>Math.max(1, Number.parseInt(process.env[name] || String(fallback), 10) || fallback)\<close> for a positive fallback.\<close>

definition env_positive :: "config \<Rightarrow> string \<Rightarrow> int \<Rightarrow> int" where
  "env_positive cf name fallback =
     (case env_text cf name of
        None \<Rightarrow> fallback
      | Some raw \<Rightarrow> max 1 (case parse_int raw of JFin q \<Rightarrow> if q = 0 then fallback else \<lfloor>q\<rfloor> | _ \<Rightarrow> fallback))"

definition STEPUP_CODE_TTL_MINUTES :: "config \<Rightarrow> int" where
  "STEPUP_CODE_TTL_MINUTES cf = env_positive cf ''OXSTEED_CREDIT_STEPUP_CODE_TTL_MINUTES'' 10"

definition STEPUP_THRESHOLD_CENTS :: "config \<Rightarrow> int" where
  "STEPUP_THRESHOLD_CENTS cf = env_positive cf ''OXSTEED_CREDIT_STEPUP_THRESHOLD_CENTS'' 100000"

definition getStepupPepper :: "config \<Rightarrow> string option" where
  "getStepupPepper cf =
     (case env_text cf ''OXSTEED_CREDIT_STEPUP_PEPPER'' of Some p \<Rightarrow> Some p | None \<Rightarrow> env_text cf ''JWT_SECRET'')"

definition hashStepupCode :: "stepup_env \<Rightarrow> string \<Rightarrow> string res" where
  "hashStepupCode en code =
     (case getStepupPepper (se_cf en) of
        None \<Rightarrow> Inl (AppError 503 ''credit_stepup_not_configured'')
      | Some pepper \<Rightarrow> Inr (se_hmac en pepper (''stepup:'' @ code)))"

text \<open>\<open>Number(amountCents) >= STEPUP_THRESHOLD_CENTS\<close>; \<open>NaN\<close> compares false.\<close>

definition topupRequiresStepup :: "config \<Rightarrow> jsnum \<Rightarrow> bool" where
  "topupRequiresStepup cf amountCents =
     (case amountCents of JFin q \<Rightarrow> of_int (STEPUP_THRESHOLD_CENTS cf) \<le> q | JInf \<Rightarrow> True | JNegInf \<Rightarrow> False | JNaN \<Rightarrow> False)"

definition find_administrator :: "string \<Rightarrow> stepup_db \<Rightarrow> administrator option" where
  "find_administrator i db = find (\<lambda>u. ad_id u = i) (administrators db)"

text \<open>\<open>adminTotpEnabled\<close> of \<open>middleware/adminAuth.js\<close>.\<close>

definition adminTotpEnabled :: "string \<Rightarrow> stepup_db \<Rightarrow> bool" where
  "adminTotpEnabled userId db =
     (case find_administrator userId db of None \<Rightarrow> False | Some u \<Rightarrow> ad_totp u = Some True)"

section \<open>Issuing\<close>

record issue_request =
  iq_actor :: "string option"
  iq_email :: "string option"
  iq_action :: string
  iq_amount :: jsnum
  iq_currency :: "string option"
  iq_method :: "string option"

text \<open>\<open>Number.isInteger(amount) && amount > 0\<close>.\<close>

fun positive_integer :: "jsnum \<Rightarrow> int option" where
  "positive_integer (JFin q) = (if q = of_int \<lfloor>q\<rfloor> \<and> 0 < \<lfloor>q\<rfloor> then Some \<lfloor>q\<rfloor> else None)"
| "positive_integer _ = None"

definition update_challenge :: "string \<Rightarrow> (challenge \<Rightarrow> challenge) \<Rightarrow> unit stepup" where
  "update_challenge i f =
     modify (\<lambda>db. db\<lparr>challenges := upd_where (\<lambda>c. ch_id c = i) f (challenges db)\<rparr>)"

text \<open>The INSERT: what PostgreSQL refuses is the type of a column, a CHECK or the reference to \<open>users\<close>.\<close>

definition insert_challenge :: "challenge \<Rightarrow> challenge stepup" where
  "insert_challenge c =
     (\<lambda>db. if 2 ^ 63 \<le> ch_amount c then (Inl (PgError ''22003''), db)
           else if 3 < length (ch_currency c) then (Inl (PgError ''22001''), db)
           else if ch_action c \<notin> set stored_action_types \<or> \<not> letters3 (ch_currency c) then (Inl (PgError ''23514''), db)
           else if find_administrator (ch_actor c) db = None then (Inl (PgError ''23503''), db)
           else let row = c\<lparr>ch_id := show_nat (length (challenges db))\<rparr> in
             (Inr row, db\<lparr>challenges := challenges db @ [row]\<rparr>))"

definition new_challenge :: "config \<Rightarrow> string \<Rightarrow> string \<Rightarrow> int \<Rightarrow> string \<Rightarrow> string option \<Rightarrow> stepup_method \<Rightarrow> challenge" where
  "new_challenge cf actor actionType amount currency codeHash chosen =
     \<lparr>ch_id = [], ch_actor = actor, ch_action = actionType, ch_amount = amount, ch_currency = currency,
      ch_hash = codeHash, ch_method = chosen, ch_attempts = 0, ch_max = STEPUP_MAX_ATTEMPTS,
      ch_expires = cf_now cf + STEPUP_CODE_TTL_MINUTES cf * 60 * 1000, ch_consumed = None\<rparr>"

definition issueStepupChallenge :: "stepup_env \<Rightarrow> issue_request \<Rightarrow> (challenge \<times> stepup_method) stepup" where
  "issueStepupChallenge en rq =
     (case or_null (iq_actor rq) of
        None \<Rightarrow> fail (AppError 400 ''credit_stepup_actor_required'')
      | Some actor \<Rightarrow>
     if iq_action rq \<notin> set STEPUP_ACTION_TYPES then fail (AppError 400 ''credit_stepup_action_invalid'')
     else bind (lift_res (resolveStepupMethod (iq_action rq) (iq_method rq))) (\<lambda>stepupMethod.
     case positive_integer (iq_amount rq) of
       None \<Rightarrow> fail (AppError 400 ''credit_stepup_amount_invalid'')
     | Some amount \<Rightarrow>
         let currency = js_upper (case or_null (iq_currency rq) of None \<Rightarrow> ''USD'' | Some c \<Rightarrow> c) in
         if stepupMethod = Totp then
           bind (gets (adminTotpEnabled actor)) (\<lambda>enabled.
           if \<not> enabled then fail (AppError 403 ''credit_stepup_totp_not_enabled'')
           else bind (withTransaction (insert_challenge
                        (new_challenge (se_cf en) actor (iq_action rq) amount currency None Totp))) (\<lambda>c.
                ret (c, Totp)))
         else
           let email = screening_normalizeString (iq_email rq) 320 in
           if email = [] \<or> CHR ''@'' \<notin> set email then fail (AppError 400 ''credit_stepup_email_required'')
           else
             bind (lift_res (hashStepupCode en (show_int (se_random en)))) (\<lambda>codeHash.
             bind (withTransaction (insert_challenge
                     (new_challenge (se_cf en) actor (iq_action rq) amount currency (Some codeHash) Email))) (\<lambda>c.
             if (case se_send en of Inl _ \<Rightarrow> False | Inr sent \<Rightarrow> sent) then ret (c, Email)
             else
               bind (withTransaction (update_challenge (ch_id c) (\<lambda>r. r\<lparr>ch_consumed := Some (cf_db_now (se_cf en))\<rparr>))) (\<lambda>_.
               fail (AppError 503 ''credit_stepup_delivery_unavailable''))))))"

section \<open>Presenting a code\<close>

text \<open>A wrong code: the attempt is counted, the last one burns the challenge, and the handler throws.\<close>

definition count_attempt :: "stepup_env \<Rightarrow> challenge \<Rightarrow> unit stepup" where
  "count_attempt en c =
     (let tries = ch_attempts c + 1; burned = ch_max c \<le> tries in
      bind (update_challenge (ch_id c) (\<lambda>r. r\<lparr>ch_attempts := tries,
              ch_consumed := (if burned then Some (cf_db_now (se_cf en)) else ch_consumed r)\<rparr>)) (\<lambda>_.
      fail (AppError 403 ''credit_stepup_challenge_invalid'')))"

definition time_step :: "stepup_env \<Rightarrow> int" where
  "time_step en = cf_now (se_cf en) div (TOTP_TIME_STEP_SECONDS * 1000)"

definition max_counter :: "string \<Rightarrow> stepup_db \<Rightarrow> int" where
  "max_counter userId db = (case map_of (counters db) userId of None \<Rightarrow> 0 | Some n \<Rightarrow> n)"

definition token_matches :: "stepup_env \<Rightarrow> string \<Rightarrow> string \<Rightarrow> bool" where
  "token_matches en secret code =
     (case se_totp en secret (filter is_digit code) of Inl _ \<Rightarrow> False | Inr ok \<Rightarrow> ok)"

definition verifyTotpPresentation :: "stepup_env \<Rightarrow> challenge \<Rightarrow> string \<Rightarrow> string \<Rightarrow> unit stepup" where
  "verifyTotpPresentation en c actorUserId code =
     bind (gets (adminTotpEnabled actorUserId)) (\<lambda>enabled.
     if \<not> enabled then fail (AppError 403 ''credit_stepup_totp_not_enabled'')
     else bind (gets (find_administrator actorUserId)) (\<lambda>user.
     case Option.bind user (or_null \<circ> ad_secret) of
       None \<Rightarrow> fail (AppError 403 ''credit_stepup_totp_not_configured'')
     | Some encryptedSecret \<Rightarrow>
         (case se_decrypt en encryptedSecret of
            Inl _ \<Rightarrow> fail (AppError 503 ''credit_stepup_totp_unavailable'')
          | Inr secret \<Rightarrow>
              if secret = [] then fail (AppError 503 ''credit_stepup_totp_unavailable'')
              else if \<not> token_matches en secret code then count_attempt en c
              else bind (gets (max_counter actorUserId)) (\<lambda>maxCounter.
                if time_step en \<le> maxCounter then fail (AppError 403 ''credit_stepup_challenge_reused'')
                else modify (\<lambda>db. db\<lparr>counters :=
                       (actorUserId, time_step en) # filter (\<lambda>(u, _). u \<noteq> actorUserId) (counters db)\<rparr>)))))"

record presentation =
  pr_challenge :: "string option"
  pr_actor :: string
  pr_action :: string
  pr_code :: "string option"
  pr_expected :: "jsnum option"
  pr_tolerance :: "jsnum option"

definition expected_amount :: "presentation \<Rightarrow> int option res" where
  "expected_amount pr =
     (case pr_expected pr of
        None \<Rightarrow> Inr None
      | Some x \<Rightarrow> (case safe_int x of
            None \<Rightarrow> Inl (AppError 400 ''credit_stepup_amount_invalid'')
          | Some n \<Rightarrow> if n \<le> 0 then Inl (AppError 400 ''credit_stepup_amount_invalid'') else Inr (Some n)))"

definition amount_tolerance :: "presentation \<Rightarrow> int res" where
  "amount_tolerance pr =
     (case pr_tolerance pr of
        None \<Rightarrow> Inr 0
      | Some x \<Rightarrow> (case safe_int x of
            None \<Rightarrow> Inl (AppError 400 ''credit_stepup_amount_invalid'')
          | Some n \<Rightarrow> if n < 0 then Inl (AppError 400 ''credit_stepup_amount_invalid'') else Inr n))"

text \<open>
  \<open>Math.abs(Number(challenge.amount_cents) - expectedAmount) > tolerance\<close>. A difference above \<open>2 ^ 53\<close> would be
  rounded, which cannot bring it below the tolerance, a safe integer.
\<close>

definition amount_differs :: "challenge \<Rightarrow> int option \<Rightarrow> int \<Rightarrow> bool" where
  "amount_differs c expected tolerance =
     (case expected of
        None \<Rightarrow> False
      | Some e \<Rightarrow> (case number_of_bigint (ch_amount c) of JFin q \<Rightarrow> of_int tolerance < \<bar>q - of_int e\<bar> | _ \<Rightarrow> False))"

text \<open>Comparing the two digests as bytes is comparing their hexadecimal text; a missing digest throws.\<close>

definition verifyEmailedCode :: "stepup_env \<Rightarrow> challenge \<Rightarrow> string \<Rightarrow> unit stepup" where
  "verifyEmailedCode en c code =
     bind (lift_res (hashStepupCode en code)) (\<lambda>expected.
     case ch_hash c of
       None \<Rightarrow> fail (JsError ''TypeError'')
     | Some stored \<Rightarrow> if stored = expected then ret () else count_attempt en c)"

definition checkChallenge :: "stepup_env \<Rightarrow> presentation \<Rightarrow> string \<Rightarrow> int option \<Rightarrow> int \<Rightarrow> challenge \<Rightarrow> challenge stepup" where
  "checkChallenge en pr code expected tolerance c =
     (let consume = update_challenge (ch_id c) (\<lambda>r. r\<lparr>ch_consumed := Some (cf_db_now (se_cf en))\<rparr>) in
      if ch_actor c \<noteq> pr_actor pr \<or> ch_action c \<noteq> pr_action pr then fail (AppError 403 ''credit_stepup_challenge_invalid'')
      else if amount_differs c expected tolerance then fail (AppError 403 ''credit_stepup_amount_mismatch'')
      else if ch_consumed c \<noteq> None then fail (AppError 403 ''credit_stepup_challenge_invalid'')
      else if ch_expires c \<le> cf_now (se_cf en) then fail (AppError 403 ''credit_stepup_challenge_expired'')
      else if ch_max c \<le> ch_attempts c then
        bind consume (\<lambda>_. fail (AppError 403 ''credit_stepup_challenge_invalid''))
      else if pr_action pr \<in> set TOTP_STEPUP_ACTION_TYPES \<and> ch_method c \<noteq> Totp then
        fail (AppError 403 ''credit_stepup_challenge_invalid'')
      else
        bind (if ch_method c = Totp then verifyTotpPresentation en c (pr_actor pr) code
              else verifyEmailedCode en c code) (\<lambda>_.
        bind consume (\<lambda>_.
        ret (c\<lparr>ch_consumed := Some (cf_now (se_cf en))\<rparr>))))"

definition verifyStepupChallenge :: "stepup_env \<Rightarrow> presentation \<Rightarrow> challenge stepup" where
  "verifyStepupChallenge en pr =
     (let normalizedId = screening_normalizeString (pr_challenge pr) 64;
          normalizedCode = screening_normalizeString (pr_code pr) 32 in
      if normalizedId = [] \<or> normalizedCode = [] then fail (AppError 403 ''credit_stepup_challenge_required'')
      else bind (lift_res (expected_amount pr)) (\<lambda>expected.
        bind (lift_res (amount_tolerance pr)) (\<lambda>tolerance.
        withTransaction (
          bind (gets (\<lambda>db. find (\<lambda>c. ch_id c = normalizedId) (challenges db))) (\<lambda>row.
          case row of
            None \<Rightarrow> fail (AppError 403 ''credit_stepup_challenge_invalid'')
          | Some c \<Rightarrow> checkChallenge en pr normalizedCode expected tolerance c)))))"

end
