(* ===== verification/IdentityVerification.thy ===== *)
theory IdentityVerification
  imports StepUp
begin

text \<open>
  Identity verification of customers (\<open>services/identityVerificationService.js\<close>): the request with its two
  providers, the administrator's review, the appeal of a rejection and its review, and the tier a customer
  has. At most one row per customer is pending or verified; the unique index of migration 638 that the
  inserts rely on is part of the statements. Notifications are left out.
\<close>

section \<open>The tables\<close>

datatype verification_status = VPending | VVerified | VRejected | VExpired
datatype appeal_status = APending | AApproved | ARejected

record verification =
  vf_id :: int
  vf_customer :: string
  vf_requested :: int
  vf_tier :: int
  vf_status :: verification_status
  vf_provider :: string
  vf_reference :: string
  vf_reviewed_by :: "string option"
  vf_review_reason :: "string option"
  vf_expires :: "int option"
  vf_sla :: "int option"
  vf_appeal :: "appeal_status option"
  vf_appeal_reason :: "string option"
  vf_appeal_sla :: "int option"
  vf_appeal_by :: "string option"
  vf_appeal_review :: "string option"

text \<open>A row of \<open>identity_verifications\<close>; \<open>dv_session\<close> is \<open>provider_session_id || id\<close>, \<open>dv_at\<close> is
  \<open>COALESCE(updated_at, created_at)\<close>.\<close>

record didit_row =
  dv_user :: string
  dv_provider :: string
  dv_status :: string
  dv_session :: string
  dv_at :: int

text \<open>An audit row: action, actor, customer, resource, reason, and what the recorded states and metadata say.\<close>

record event =
  ev_action :: string
  ev_actor :: "string option"
  ev_customer :: "string option"
  ev_resource :: "string \<times> string"
  ev_reason :: string
  ev_details :: json

record kyc_db =
  verifications :: "verification list"     \<comment> \<open>oldest first\<close>
  didit_rows :: "didit_row list"
  kyc_trail :: "event list"

type_synonym 'a kyc = "(kyc_db, 'a) tx"

definition TIER1_TOPUP_MAX_CENTS :: "config \<Rightarrow> int" where
  "TIER1_TOPUP_MAX_CENTS cf = env_positive cf ''OXSTEED_CREDIT_TIER1_TOPUP_MAX_CENTS'' 50000"

definition TIER2_TOPUP_MAX_CENTS :: "config \<Rightarrow> int" where
  "TIER2_TOPUP_MAX_CENTS cf = env_positive cf ''OXSTEED_CREDIT_TIER2_TOPUP_MAX_CENTS'' 250000"

definition VERIFICATION_TTL_DAYS :: "config \<Rightarrow> int" where
  "VERIFICATION_TTL_DAYS cf = env_positive cf ''OXSTEED_CREDIT_IDENTITY_VERIFICATION_TTL_DAYS'' 730"

definition VERIFICATION_REVIEW_SLA_HOURS :: "config \<Rightarrow> int" where
  "VERIFICATION_REVIEW_SLA_HOURS cf = env_positive cf ''OXSTEED_CREDIT_IDENTITY_REVIEW_SLA_HOURS'' 72"

definition IDENTITY_APPEAL_REVIEW_SLA_HOURS :: "config \<Rightarrow> int" where
  "IDENTITY_APPEAL_REVIEW_SLA_HOURS cf = env_positive cf ''OXSTEED_CREDIT_IDENTITY_APPEAL_SLA_HOURS'' 72"

text \<open>\<open>VERIFIED_TIER_FOR_REQUEST[requested] || fallback\<close>.\<close>

definition verified_tier :: "int \<Rightarrow> int \<Rightarrow> int" where
  "verified_tier requested fallback = (if requested = 1 then 1 else if requested = 2 then 2 else fallback)"

section \<open>Statements\<close>

definition active_row :: "verification \<Rightarrow> bool" where
  "active_row v \<longleftrightarrow> vf_status v = VPending \<or> vf_status v = VVerified"

definition active_customers :: "verification list \<Rightarrow> string list" where
  "active_customers vs = map vf_customer (filter active_row vs)"

text \<open>\<open>INSERT ... ON CONFLICT (customer_id) WHERE status IN ('pending', 'verified') DO NOTHING RETURNING\<close>.\<close>

definition insertVerification :: "verification \<Rightarrow> verification option kyc" where
  "insertVerification v =
     (\<lambda>db. if vf_customer v \<in> set (active_customers (verifications db)) then (Inr None, db)
           else let row = v\<lparr>vf_id := next_id (map vf_id (verifications db))\<rparr> in
             (Inr (Some row), db\<lparr>verifications := verifications db @ [row]\<rparr>))"

text \<open>\<open>UPDATE ... WHERE id = i AND p RETURNING *\<close>, with the unique index over the active rows.\<close>

definition updateVerification :: "int \<Rightarrow> (verification \<Rightarrow> bool) \<Rightarrow> (verification \<Rightarrow> verification) \<Rightarrow> verification option kyc" where
  "updateVerification i p f =
     (\<lambda>db. let rows = upd_where (\<lambda>v. vf_id v = i \<and> p v) f (verifications db) in
           if \<not> distinct (active_customers rows) then (Inl (PgError ''23505''), db)
           else (Inr (map_option f (find (\<lambda>v. vf_id v = i \<and> p v) (verifications db))), db\<lparr>verifications := rows\<rparr>))"

definition findVerification :: "int \<Rightarrow> kyc_db \<Rightarrow> verification option" where
  "findVerification i db = find (\<lambda>v. vf_id v = i) (verifications db)"

text \<open>The active row of a customer, newest first.\<close>

definition findActive :: "string \<Rightarrow> kyc_db \<Rightarrow> verification option" where
  "findActive customer db = find (\<lambda>v. vf_customer v = customer \<and> active_row v) (rev (verifications db))"

definition identity_event :: "string \<Rightarrow> string option \<Rightarrow> string \<Rightarrow> string \<Rightarrow> string \<Rightarrow> json \<Rightarrow> unit kyc" where
  "identity_event action actor customer i reason details =
     modify (\<lambda>db. db\<lparr>kyc_trail := kyc_trail db @
       [\<lparr>ev_action = action, ev_actor = actor, ev_customer = Some customer, ev_resource = (''credit_identity_verification'', i),
         ev_reason = reason, ev_details = details\<rparr>]\<rparr>)"

section \<open>Providers\<close>

record created_request =
  cv_provider :: string
  cv_reference :: string
  cv_status :: verification_status
  cv_id :: "int option"
  cv_replayed :: bool

definition new_verification :: "string \<Rightarrow> int \<Rightarrow> verification" where
  "new_verification customer requestedTier =
     \<lparr>vf_id = 0, vf_customer = customer, vf_requested = requestedTier, vf_tier = 0, vf_status = VPending,
      vf_provider = ''manual_review'', vf_reference = [], vf_reviewed_by = None, vf_review_reason = None, vf_expires = None,
      vf_sla = None, vf_appeal = None, vf_appeal_reason = None, vf_appeal_sla = None, vf_appeal_by = None, vf_appeal_review = None\<rparr>"

definition manual_createVerificationRequest :: "config \<Rightarrow> string \<Rightarrow> int \<Rightarrow> created_request kyc" where
  "manual_createVerificationRequest cf customer requestedTier =
     (let providerReference = ''manual:'' @ customer @ '':'' @ show_int (cf_now cf) in
      bind (insertVerification ((new_verification customer requestedTier)
             \<lparr>vf_reference := providerReference, vf_sla := Some (cf_db_now cf + VERIFICATION_REVIEW_SLA_HOURS cf * 3600000)\<rparr>)) (\<lambda>inserted.
      case inserted of
        Some v \<Rightarrow> ret \<lparr>cv_provider = ''manual_review'', cv_reference = providerReference, cv_status = VPending,
                       cv_id = Some (vf_id v), cv_replayed = False\<rparr>
      | None \<Rightarrow>
          bind (gets (findActive customer)) (\<lambda>existing.
          ret \<lparr>cv_provider = ''manual_review'',
               cv_reference = (if existing = None then providerReference else ''manual:'' @ customer @ '':existing''),
               cv_status = (case existing of None \<Rightarrow> VPending | Some v \<Rightarrow> vf_status v),
               cv_id = map_option vf_id existing, cv_replayed = True\<rparr>)))"

text \<open>The newest verified Didit identity inside the validity period; among equals the first row.\<close>

fun newest_didit :: "didit_row list \<Rightarrow> didit_row option" where
  "newest_didit [] = None"
| "newest_didit (r # rs) = (case newest_didit rs of None \<Rightarrow> Some r | Some s \<Rightarrow> if dv_at r < dv_at s then Some s else Some r)"

definition usable_didit :: "config \<Rightarrow> string \<Rightarrow> kyc_db \<Rightarrow> didit_row option" where
  "usable_didit cf customer db =
     newest_didit (filter (\<lambda>r. dv_provider r = ''didit'' \<and> dv_status r = ''verified'' \<and> dv_user r = customer \<and>
       cf_now cf - VERIFICATION_TTL_DAYS cf * 86400000 < dv_at r) (didit_rows db))"

definition didit_createVerificationRequest :: "config \<Rightarrow> string \<Rightarrow> int \<Rightarrow> created_request kyc" where
  "didit_createVerificationRequest cf customer requestedTier =
     bind (gets (usable_didit cf customer)) (\<lambda>diditRow.
     case diditRow of
       None \<Rightarrow> manual_createVerificationRequest cf customer requestedTier
     | Some r \<Rightarrow>
         let grantedTier = verified_tier requestedTier 2;
             expiresAt = cf_now cf + VERIFICATION_TTL_DAYS cf * 86400000;
             providerReference = ''didit:'' @ dv_session r;
             granted = (\<lambda>v. v\<lparr>vf_tier := grantedTier, vf_status := VVerified, vf_provider := ''didit'', vf_reference := providerReference,
               vf_review_reason := Some ''Auto-approved: verified Didit identity on file'', vf_expires := Some expiresAt\<rparr>);
             answer = (\<lambda>i. \<lparr>cv_provider = ''didit'', cv_reference = providerReference, cv_status = VVerified, cv_id = Some i, cv_replayed = False\<rparr>);
             replay = (\<lambda>current. \<lparr>cv_provider = (case current of None \<Rightarrow> ''didit'' | Some v \<Rightarrow> vf_provider v), cv_reference = providerReference,
               cv_status = (case current of None \<Rightarrow> VVerified | Some v \<Rightarrow> vf_status v), cv_id = map_option vf_id current, cv_replayed = True\<rparr>) in
         bind (insertVerification (granted (new_verification customer requestedTier))) (\<lambda>inserted.
         case inserted of
           Some v \<Rightarrow> ret (answer (vf_id v))
         | None \<Rightarrow>
             bind (gets (findActive customer)) (\<lambda>current.
             case current of
               None \<Rightarrow> ret (replay None)
             | Some c \<Rightarrow>
                 if vf_status c = VPending then
                   bind (updateVerification (vf_id c) (\<lambda>v. vf_status v = VPending) granted) (\<lambda>upgraded.
                   case upgraded of Some v \<Rightarrow> ret (answer (vf_id v)) | None \<Rightarrow> ret (replay current))
                 else ret (replay current))))"

definition createVerificationRequest :: "string \<Rightarrow> (config \<Rightarrow> string \<Rightarrow> int \<Rightarrow> created_request kyc) res" where
  "createVerificationRequest name =
     (if name = [] \<or> name = ''manual_review'' then Inr manual_createVerificationRequest
      else if name = ''didit'' then Inr didit_createVerificationRequest
      else Inl (AppError 500 ''credit_identity_provider_unknown''))"

definition provider_name :: "string \<Rightarrow> string" where
  "provider_name name = (if name = [] then ''manual_review'' else name)"

section \<open>Operations\<close>

definition id_text :: "int option \<Rightarrow> string" where
  "id_text i = (case i of None \<Rightarrow> ''null'' | Some n \<Rightarrow> show_int n)"

definition requestIdentityVerification ::
  "config \<Rightarrow> string option \<Rightarrow> jsnum \<Rightarrow> string \<Rightarrow> string option \<Rightarrow> (created_request \<times> int) kyc" where
  "requestIdentityVerification cf customerId requestedTier providerName actorUserId =
     (case or_null customerId of
        None \<Rightarrow> fail (AppError 400 ''credit_identity_customer_required'')
      | Some customer \<Rightarrow>
     if requestedTier \<noteq> JInt 1 \<and> requestedTier \<noteq> JInt 2 then fail (AppError 400 ''credit_identity_tier_invalid'')
     else let tier = (if requestedTier = JInt 1 then 1 else 2) in
       bind (lift_res (createVerificationRequest providerName)) (\<lambda>create.
       withTransaction (
         bind (create cf customer tier) (\<lambda>created.
         bind (identity_event ''credit.identity.verification_requested''
                (Some (case or_null actorUserId of None \<Rightarrow> customer | Some a \<Rightarrow> a)) customer (id_text (cv_id created))
                (''Identity verification requested for tier '' @ show_int tier @ '' via '' @ provider_name providerName)
                (ObjJ [(''requestedTier'', IntJ tier), (''provider'', TextJ (provider_name providerName)), (''providerReference'', TextJ (cv_reference created)),
                       (''replayed'', BoolJ (cv_replayed created))])) (\<lambda>_.
         ret (created, tier))))))"

definition reviewIdentityVerification :: "config \<Rightarrow> int \<Rightarrow> string \<Rightarrow> string option \<Rightarrow> string option \<Rightarrow> verification kyc" where
  "reviewIdentityVerification cf verificationId decision actorUserId reason =
     (if decision \<noteq> ''approve'' \<and> decision \<noteq> ''reject'' then fail (AppError 400 ''credit_identity_decision_invalid'')
      else let normalizedReason = screening_normalizeString reason 1000 in
      if normalizedReason = [] then fail (AppError 400 ''credit_identity_reason_required'')
      else withTransaction (
        bind (gets (findVerification verificationId)) (\<lambda>row.
        case row of
          None \<Rightarrow> fail (AppError 404 ''credit_identity_not_found'')
        | Some v \<Rightarrow>
            if vf_status v \<noteq> VPending then fail (AppError 409 ''credit_identity_state_conflict'')
            else
              let approved = (decision = ''approve'');
                  grantedTier = (if approved then verified_tier (vf_requested v) 1 else 0);
                  newStatus = (if approved then VVerified else VRejected);
                  expiresAt = (if approved then Some (cf_now cf + VERIFICATION_TTL_DAYS cf * 86400000) else None) in
              bind (updateVerification verificationId (\<lambda>v. vf_status v = VPending)
                     (\<lambda>v. v\<lparr>vf_tier := grantedTier, vf_status := newStatus, vf_reviewed_by := actorUserId,
                            vf_review_reason := Some normalizedReason, vf_expires := expiresAt, vf_sla := None\<rparr>)) (\<lambda>updated.
              case updated of
                None \<Rightarrow> fail (AppError 409 ''credit_identity_state_conflict'')
              | Some u \<Rightarrow>
                  bind (identity_event ''credit.identity.verification_reviewed'' actorUserId (vf_customer v) (show_int verificationId)
                         normalizedReason (ObjJ [(''decision'', TextJ decision), (''tier'', IntJ grantedTier)])) (\<lambda>_.
                  ret u)))))"

definition requestIdentityVerificationAppeal ::
  "config \<Rightarrow> int \<Rightarrow> string option \<Rightarrow> string option \<Rightarrow> (verification \<times> bool) kyc" where
  "requestIdentityVerificationAppeal cf verificationId customerId reason =
     (case or_null customerId of
        None \<Rightarrow> fail (AppError 400 ''credit_identity_appeal_required'')
      | Some customer \<Rightarrow>
      let normalizedReason = screening_normalizeString reason 1000 in
      if normalizedReason = [] then fail (AppError 400 ''credit_identity_appeal_reason_required'')
      else withTransaction (
        bind (gets (\<lambda>db. find (\<lambda>v. vf_id v = verificationId \<and> vf_customer v = customer) (verifications db))) (\<lambda>row.
        case row of
          None \<Rightarrow> fail (AppError 404 ''credit_identity_not_found'')
        | Some v \<Rightarrow>
            if vf_status v \<noteq> VRejected then fail (AppError 409 ''credit_identity_appeal_state_conflict'')
            else if vf_appeal v = Some APending then ret (v, True)
            else
              bind (updateVerification verificationId (\<lambda>v. vf_customer v = customer \<and> vf_status v = VRejected)
                     (\<lambda>v. v\<lparr>vf_appeal := Some APending, vf_appeal_reason := Some normalizedReason,
                            vf_appeal_sla := Some (cf_db_now cf + IDENTITY_APPEAL_REVIEW_SLA_HOURS cf * 3600000),
                            vf_appeal_by := None, vf_appeal_review := None\<rparr>)) (\<lambda>updated.
              case updated of
                None \<Rightarrow> fail (AppError 409 ''credit_identity_appeal_state_conflict'')
              | Some u \<Rightarrow>
                  bind (identity_event ''credit.identity.verification_appealed'' (Some customer) customer (show_int verificationId)
                         normalizedReason (ObjJ [(''appealStatus'', TextJ ''pending'')])) (\<lambda>_.
                  ret (u, False))))))"

definition reviewIdentityVerificationAppeal :: "config \<Rightarrow> int \<Rightarrow> string \<Rightarrow> string option \<Rightarrow> string option \<Rightarrow> verification kyc" where
  "reviewIdentityVerificationAppeal cf verificationId decision actorUserId reason =
     (if decision \<noteq> ''approve'' \<and> decision \<noteq> ''reject'' then fail (AppError 400 ''credit_identity_appeal_decision_invalid'')
      else let normalizedReason = screening_normalizeString reason 1000 in
      if normalizedReason = [] then fail (AppError 400 ''credit_identity_appeal_reason_required'')
      else withTransaction (
        bind (gets (findVerification verificationId)) (\<lambda>row.
        case row of
          None \<Rightarrow> fail (AppError 404 ''credit_identity_not_found'')
        | Some v \<Rightarrow>
            if vf_status v \<noteq> VRejected \<or> vf_appeal v \<noteq> Some APending then fail (AppError 409 ''credit_identity_appeal_state_conflict'')
            else
              let reopensQueue = (decision = ''approve'');
                  nextStatus = (if reopensQueue then VPending else VRejected) in
              bind (updateVerification verificationId (\<lambda>v. vf_status v = VRejected \<and> vf_appeal v = Some APending)
                     (\<lambda>v. v\<lparr>vf_status := nextStatus, vf_tier := (if reopensQueue then 0 else vf_tier v),
                            vf_expires := (if reopensQueue then None else vf_expires v),
                            vf_sla := (if reopensQueue then Some (cf_db_now cf + VERIFICATION_REVIEW_SLA_HOURS cf * 3600000) else None),
                            vf_appeal := Some (if reopensQueue then AApproved else ARejected), vf_appeal_sla := None,
                            vf_appeal_by := actorUserId, vf_appeal_review := Some normalizedReason\<rparr>)) (\<lambda>updated.
              case updated of
                None \<Rightarrow> fail (AppError 409 ''credit_identity_appeal_state_conflict'')
              | Some u \<Rightarrow>
                  bind (identity_event ''credit.identity.verification_appeal_reviewed'' actorUserId (vf_customer v) (show_int verificationId)
                         normalizedReason (ObjJ [(''appealStatus'', TextJ (if reopensQueue then ''approved'' else ''rejected''))])) (\<lambda>_.
                  ret u)))))"

section \<open>The tier of a customer\<close>

definition expired_at :: "int \<Rightarrow> verification \<Rightarrow> bool" where
  "expired_at now v \<longleftrightarrow> (case vf_expires v of None \<Rightarrow> False | Some e \<Rightarrow> e \<le> now)"

text \<open>The lazy flip of an expired row; \<open>NOW()\<close> decides again inside the statement.\<close>

definition flip_expired :: "config \<Rightarrow> verification \<Rightarrow> verification kyc" where
  "flip_expired cf v =
     (if vf_status v = VVerified \<and> expired_at (cf_now cf) v then
        bind (updateVerification (vf_id v) (\<lambda>r. vf_status r = VVerified \<and> expired_at (cf_db_now cf) r) (\<lambda>r. r\<lparr>vf_status := VExpired\<rparr>)) (\<lambda>updated.
        ret (if updated = None then v else v\<lparr>vf_status := VExpired\<rparr>))
      else ret v)"

record tier_info =
  ti_tier :: int
  ti_status :: "verification_status option"      \<comment> \<open>\<open>None\<close> is the text \<open>'none'\<close>\<close>
  ti_id :: "int option"

fun scan_tiers :: "config \<Rightarrow> verification list \<Rightarrow> verification list \<Rightarrow> tier_info kyc" where
  "scan_tiers cf [] seen =
     (let pending = find (\<lambda>v. vf_status v = VPending) seen in
      ret \<lparr>ti_tier = 0, ti_status = (if pending \<noteq> None then Some VPending else map_option vf_status (find (\<lambda>_. True) seen)),
           ti_id = map_option vf_id pending\<rparr>)"
| "scan_tiers cf (v # vs) seen =
     bind (flip_expired cf v) (\<lambda>r.
     if vf_status r = VVerified \<and> \<not> expired_at (cf_now cf) r
     then ret \<lparr>ti_tier = vf_tier r, ti_status = Some VVerified, ti_id = Some (vf_id r)\<rparr>
     else scan_tiers cf vs (seen @ [r]))"

definition getCustomerVerificationTier :: "config \<Rightarrow> string \<Rightarrow> tier_info kyc" where
  "getCustomerVerificationTier cf customerId =
     bind (gets (\<lambda>db. take 5 (rev (filter (\<lambda>v. vf_customer v = customerId) (verifications db))))) (\<lambda>rows.
     scan_tiers cf rows [])"

definition assertIdentityVerificationTier :: "config \<Rightarrow> string \<Rightarrow> int \<Rightarrow> (int \<times> int) kyc" where
  "assertIdentityVerificationTier cf customerId amountCents =
     bind (getCustomerVerificationTier cf customerId) (\<lambda>info.
     if ti_tier info \<le> 0 then fail (AppError 403 ''credit_funding_verification_required'')
     else let cap = (if ti_tier info = 1 then TIER1_TOPUP_MAX_CENTS cf else TIER2_TOPUP_MAX_CENTS cf) in
       if cap < amountCents then fail (AppError 403 ''credit_funding_tier_limit'')
       else ret (ti_tier info, cap))"

end
