(* ===== verification/StepUpFacts.thy ===== *)
theory StepUpFacts
  imports StepUp
begin

text \<open>
  What issuing and presenting do to the tables of \<open>StepUp\<close>, and the runs of the step-up service: requests
  that issue challenges and requests that present codes, each with its own clock, settings and mail transport.
\<close>

section \<open>Identifiers\<close>

definition ids_ok :: "stepup_db \<Rightarrow> bool" where
  "ids_ok db \<longleftrightarrow> map ch_id (challenges db) = map show_nat [0..<length (challenges db)]"

lemma inj_show_nat: "inj show_nat"
  by (metis injI read_show_nat)

lemma ids_distinct: "ids_ok db \<Longrightarrow> distinct (map ch_id (challenges db))"
  by (simp add: ids_ok_def distinct_map inj_on_subset [OF inj_show_nat])

section \<open>Issuing\<close>

text \<open>An insert appends one row with a new identifier or leaves the tables alone.\<close>

lemma insert_challenge_cases:
  obtains e where "insert_challenge c db = (Inl e, db)"
  | row where "insert_challenge c db = (Inr row, db\<lparr>challenges := challenges db @ [row]\<rparr>)"
      "row = c\<lparr>ch_id := show_nat (length (challenges db))\<rparr>" "find_administrator (ch_actor c) db \<noteq> None"
      "ch_action c \<in> set stored_action_types"
proof (cases "\<exists>e. insert_challenge c db = (Inl e, db)")
  case False
  then have "insert_challenge c db = (Inr (c\<lparr>ch_id := show_nat (length (challenges db))\<rparr>),
      db\<lparr>challenges := challenges db @ [c\<lparr>ch_id := show_nat (length (challenges db))\<rparr>]\<rparr>)"
    "find_administrator (ch_actor c) db \<noteq> None" "ch_action c \<in> set stored_action_types"
    by (simp_all add: insert_challenge_def Let_def split: if_splits)
  with that(2) show thesis by blast
qed (use that(1) in blast)

text \<open>A predicate that new unconsumed rows and consumptions keep is kept by issuing.\<close>

lemma keeps_issue:
  assumes appended: "\<And>db c. I db \<Longrightarrow> ch_id c = show_nat (length (challenges db)) \<Longrightarrow> ch_attempts c = 0 \<Longrightarrow> 0 < ch_amount c \<Longrightarrow>
      I (db\<lparr>challenges := challenges db @ [c]\<rparr>)"
    and consumed: "\<And>i t. keeps I (update_challenge i (\<lambda>r. r\<lparr>ch_consumed := Some t\<rparr>))"
  shows "keeps I (issueStepupChallenge en rq)"
proof -
  have ins: "keeps I (insert_challenge (new_challenge cf actor actionType amount currency h m))" if "0 < amount"
    for cf actor actionType amount currency h m
  proof (rule keepsI)
    fix db assume "I db"
    then show "I (snd (insert_challenge (new_challenge cf actor actionType amount currency h m) db))"
      using that by (cases rule: insert_challenge_cases [of "new_challenge cf actor actionType amount currency h m" db])
        (simp_all add: appended new_challenge_def)
  qed
  have pos: "0 < n" if "positive_integer x = Some n" for x n
    using that by (cases x) (auto split: if_splits)
  show ?thesis
    unfolding issueStepupChallenge_def Let_def
    by (intro keeps_intros ins pos consumed)
qed

text \<open>A challenge that was emailed.\<close>

lemma issued_by_email:
  assumes "issueStepupChallenge en rq db = (Inr (c, Email), db')"
  obtains actor amount currency h where
    "c = new_challenge (se_cf en) actor (iq_action rq) amount currency (Some h) Email\<lparr>ch_id := show_nat (length (challenges db))\<rparr>"
    "hashStepupCode en (show_int (se_random en)) = Inr h" "iq_action rq \<notin> set TOTP_STEPUP_ACTION_TYPES"
    "db' = db\<lparr>challenges := challenges db @ [c]\<rparr>" "0 < amount"
proof -
  from assms obtain actor where a: "or_null (iq_actor rq) = Some actor"
    unfolding issueStepupChallenge_def by (auto split: option.splits)
  with assms obtain m where m: "resolveStepupMethod (iq_action rq) (iq_method rq) = Inr m" and
    act: "iq_action rq \<in> set STEPUP_ACTION_TYPES"
    unfolding issueStepupChallenge_def by (auto simp: bind_Inr_iff split: if_splits)
  with assms a obtain amount where n: "positive_integer (iq_amount rq) = Some amount"
    unfolding issueStepupChallenge_def by (auto simp: bind_Inr_iff split: option.splits)
  then have pos: "0 < amount" by (cases "iq_amount rq") (auto split: if_splits)
  define currency where "currency = js_upper (case or_null (iq_currency rq) of None \<Rightarrow> ''USD'' | Some c \<Rightarrow> c)"
  have "m = Email"
    using assms a m act n unfolding issueStepupChallenge_def Let_def
    by (cases m) (auto simp: bind_Inr_iff split: if_splits)
  with m have only: "iq_action rq \<notin> set TOTP_STEPUP_ACTION_TYPES"
    by (auto simp: resolveStepupMethod_def Let_def split: option.splits if_splits)
  from assms a m act n \<open>m = Email\<close> obtain h mid where h: "hashStepupCode en (show_int (se_random en)) = Inr h" and
    ins: "insert_challenge (new_challenge (se_cf en) actor (iq_action rq) amount currency (Some h) Email) db = (Inr c, db')"
    unfolding issueStepupChallenge_def Let_def currency_def [symmetric]
    by (auto simp: bind_Inr_iff split: if_splits)
  from ins have "c = new_challenge (se_cf en) actor (iq_action rq) amount currency (Some h) Email\<lparr>ch_id := show_nat (length (challenges db))\<rparr>"
    "db' = db\<lparr>challenges := challenges db @ [c]\<rparr>"
    by (cases rule: insert_challenge_cases [of "new_challenge (se_cf en) actor (iq_action rq) amount currency (Some h) Email" db]; simp)+
  with h only pos that show thesis by blast
qed

text \<open>Codes and identifiers survive the normalisation of what a caller presents.\<close>

lemma digits_not_space: "list_all is_digit s \<Longrightarrow> list_all (\<lambda>c. \<not> js_space c) s"
  by (auto simp: list_all_iff is_digit_def js_space_def)

lemma normalized_digits: "list_all is_digit s \<Longrightarrow> length s \<le> n \<Longrightarrow> screening_normalizeString (Some s) n = s"
  by (simp add: screening_normalizeString_def js_trim_id digits_not_space)

lemma length_show_nat: "n < 10 ^ k \<Longrightarrow> length (show_nat n) \<le> max 1 k"
proof (induction n arbitrary: k rule: show_nat.induct)
  case (1 n)
  show ?case
  proof (cases "n < 10")
    case True
    then show ?thesis by (subst show_nat.simps) simp
  next
    case False
    with 1(2) obtain j where k: "k = Suc j" by (cases k) auto
    with 1(2) have "n div 10 < 10 ^ j" by (simp add: div_less_iff_less_mult mult.commute)
    with 1(1) False have "length (show_nat (n div 10)) \<le> max 1 j" by simp
    moreover have "1 \<le> j" using False 1(2) k by (cases j) auto
    ultimately show ?thesis using False k by (subst show_nat.simps) simp
  qed
qed
lemma find_snoc: "k c \<notin> k ` set xs \<Longrightarrow> find (\<lambda>x. k x = k c) (xs @ [c]) = Some c"
  by (induction xs) auto

section \<open>Presenting\<close>

lemma failed_presentation_changes_nothing:
  "verifyStepupChallenge en pr db = (Inl e, db') \<Longrightarrow> db' = db"
  unfolding verifyStepupChallenge_def Let_def
  by (auto simp: bind_Inl_iff dest: withTransaction_Inl split: if_splits)

text \<open>
  The proof that was accepted: the digest of the emailed code, or a code that the authenticator accepts now for the
  stored secret of the actor, in a time step after the last one the actor spent.
\<close>

definition proves_code :: "stepup_env \<Rightarrow> challenge \<Rightarrow> string \<Rightarrow> stepup_db \<Rightarrow> bool" where
  "proves_code en c code db \<longleftrightarrow>
     (case ch_method c of
        Email \<Rightarrow> (case ch_hash c of None \<Rightarrow> False | Some h \<Rightarrow> hashStepupCode en code = Inr h)
      | Totp \<Rightarrow> adminTotpEnabled (ch_actor c) db \<and> max_counter (ch_actor c) db < time_step en \<and>
          (\<exists>enc secret. Option.bind (find_administrator (ch_actor c) db) (or_null \<circ> ad_secret) = Some enc \<and>
             se_decrypt en enc = Inr secret \<and> token_matches en secret code))"

definition spend_step :: "stepup_env \<Rightarrow> challenge \<Rightarrow> stepup_db \<Rightarrow> stepup_db" where
  "spend_step en c db =
     (if ch_method c = Email then db
      else db\<lparr>counters := (ch_actor c, time_step en) # filter (\<lambda>(u, _). u \<noteq> ch_actor c) (counters db)\<rparr>)"

definition consume_challenge :: "stepup_env \<Rightarrow> string \<Rightarrow> stepup_db \<Rightarrow> stepup_db" where
  "consume_challenge en i db =
     db\<lparr>challenges := upd_where (\<lambda>c. ch_id c = i) (\<lambda>r. r\<lparr>ch_consumed := Some (cf_db_now (se_cf en))\<rparr>) (challenges db)\<rparr>"

lemma count_attempt_fails: "count_attempt en c db \<noteq> (Inr u, db')"
  by (simp add: count_attempt_def Let_def bind_Inr_iff)

lemma totp_Inr:
  assumes "verifyTotpPresentation en c (ch_actor c) code db = (Inr u, db')" and "ch_method c = Totp"
  shows "proves_code en c code db" and "db' = spend_step en c db"
proof -
  from assms(1) have en: "adminTotpEnabled (ch_actor c) db"
    by (auto simp: verifyTotpPresentation_def bind_Inr_iff split: if_splits)
  with assms(1) obtain enc where s: "Option.bind (find_administrator (ch_actor c) db) (or_null \<circ> ad_secret) = Some enc"
    by (auto simp: verifyTotpPresentation_def bind_Inr_iff split: option.splits)
  with assms(1) en obtain secret where d: "se_decrypt en enc = Inr secret"
    by (auto simp: verifyTotpPresentation_def bind_Inr_iff split: sum.splits)
  from assms(1) en s d have "token_matches en secret code" "\<not> time_step en \<le> max_counter (ch_actor c) db" "db' = spend_step en c db"
    using count_attempt_fails [of en c db u db'] assms(2)
    by (auto simp: verifyTotpPresentation_def bind_Inr_iff spend_step_def split: if_splits)
  with en s d assms(2) show "proves_code en c code db" and "db' = spend_step en c db"
    by (auto simp: proves_code_def)
qed

lemma email_Inr:
  assumes "verifyEmailedCode en c code db = (Inr u, db')" and "ch_method c = Email"
  shows "proves_code en c code db" and "db' = spend_step en c db"
  using assms count_attempt_fails [of en c db u db']
  by (auto simp: verifyEmailedCode_def bind_Inr_iff proves_code_def spend_step_def split: option.splits if_splits)

text \<open>Everything that holds when a code is accepted.\<close>

lemma accepted_presentation:
  assumes "verifyStepupChallenge en pr db = (Inr a, db')"
  obtains c expected tolerance where
    "find (\<lambda>c. ch_id c = screening_normalizeString (pr_challenge pr) 64) (challenges db) = Some c"
    "ch_actor c = pr_actor pr" "ch_action c = pr_action pr" "ch_consumed c = None" "cf_now (se_cf en) < ch_expires c"
    "ch_attempts c < ch_max c" "pr_action pr \<in> set TOTP_STEPUP_ACTION_TYPES \<longrightarrow> ch_method c = Totp"
    "expected_amount pr = Inr expected" "amount_tolerance pr = Inr tolerance" "\<not> amount_differs c expected tolerance"
    "proves_code en c (screening_normalizeString (pr_code pr) 32) db"
    "a = c\<lparr>ch_consumed := Some (cf_now (se_cf en))\<rparr>" "db' = consume_challenge en (ch_id c) (spend_step en c db)"
proof -
  let ?code = "screening_normalizeString (pr_code pr) 32"
  from assms obtain expected tolerance c where
    x: "expected_amount pr = Inr expected" "amount_tolerance pr = Inr tolerance" and
    f: "find (\<lambda>c. ch_id c = screening_normalizeString (pr_challenge pr) 64) (challenges db) = Some c" and
    k: "checkChallenge en pr ?code expected tolerance c db = (Inr a, db')"
    unfolding verifyStepupChallenge_def Let_def by (auto simp: bind_Inr_iff split: if_splits option.splits)
  let ?check = "if ch_method c = Totp then verifyTotpPresentation en c (pr_actor pr) ?code else verifyEmailedCode en c ?code"
  from k have g: "ch_actor c = pr_actor pr" "ch_action c = pr_action pr" "\<not> amount_differs c expected tolerance"
      "ch_consumed c = None" "cf_now (se_cf en) < ch_expires c"
    unfolding checkChallenge_def Let_def by (auto split: if_splits)
  with k have n: "ch_attempts c < ch_max c" "pr_action pr \<in> set TOTP_STEPUP_ACTION_TYPES \<longrightarrow> ch_method c = Totp"
    unfolding checkChallenge_def Let_def by (auto simp: bind_Inr_iff split: if_splits)
  with k g obtain u mid where m: "?check db = (Inr u, mid)"
      "a = c\<lparr>ch_consumed := Some (cf_now (se_cf en))\<rparr>" "db' = consume_challenge en (ch_id c) mid"
    unfolding checkChallenge_def Let_def
    by (auto simp: bind_Inr_iff update_challenge_def consume_challenge_def simp del: if_split split: if_split_asm)
  have "proves_code en c ?code db \<and> mid = spend_step en c db"
  proof (cases "ch_method c")
    case Email
    with m(1) show ?thesis using email_Inr [of en c ?code db u mid] by simp
  next
    case Totp
    with m(1) g(1) show ?thesis using totp_Inr [of en c ?code db u mid] by simp
  qed
  with that f g n x m show thesis by blast
qed

section \<open>Runs\<close>

text \<open>
  A run from the tables \<open>start\<close>, with the presentations that were accepted, the last one first: challenge,
  actor, method and time step.
\<close>

type_synonym acceptance = "string \<times> string \<times> stepup_method \<times> int"

definition acceptance_of :: "stepup_env \<Rightarrow> challenge \<Rightarrow> acceptance" where
  "acceptance_of en c = (ch_id c, ch_actor c, ch_method c, time_step en)"

inductive stepup_run :: "stepup_db \<Rightarrow> acceptance list \<Rightarrow> stepup_db \<Rightarrow> bool" for start where
  begins: "stepup_run start [] start"
| issues: "stepup_run start accs db \<Longrightarrow> stepup_run start accs (snd (issueStepupChallenge en rq db))"
| refuses: "stepup_run start accs db \<Longrightarrow> verifyStepupChallenge en pr db = (Inl e, db') \<Longrightarrow> stepup_run start accs db'"
| accepts: "stepup_run start accs db \<Longrightarrow> verifyStepupChallenge en pr db = (Inr c, db') \<Longrightarrow>
    stepup_run start (acceptance_of en c # accs) db'"

lemma run_keeps:
  assumes run: "stepup_run start accs db" and I: "I start"
    and appended: "\<And>db c. I db \<Longrightarrow> ch_id c = show_nat (length (challenges db)) \<Longrightarrow> ch_attempts c = 0 \<Longrightarrow> 0 < ch_amount c \<Longrightarrow>
      I (db\<lparr>challenges := challenges db @ [c]\<rparr>)"
    and consumed: "\<And>db i t. I db \<Longrightarrow> I (db\<lparr>challenges := upd_where (\<lambda>c. ch_id c = i) (\<lambda>r. r\<lparr>ch_consumed := Some t\<rparr>) (challenges db)\<rparr>)"
    and counted: "\<And>db k. I db \<Longrightarrow> I (db\<lparr>counters := k\<rparr>)"
  shows "I db"
  using run
proof induction
  case (issues accs db en rq)
  have "keeps I (update_challenge i (\<lambda>r. r\<lparr>ch_consumed := Some t\<rparr>))" for i t
    unfolding update_challenge_def by (rule keeps_modify) (rule consumed)
  then have "keeps I (issueStepupChallenge en rq)"
    by (intro keeps_issue appended)
  with issues(2) show ?case by (simp add: keeps_def)
next
  case (refuses accs db en pr e db')
  then show ?case using failed_presentation_changes_nothing by metis
next
  case (accepts accs db en pr c db')
  from accepts(2) obtain x where "db' = consume_challenge en (ch_id x) (spend_step en x db)"
    by (rule accepted_presentation)
  with accepts(3) counted consumed show ?case by (simp add: consume_challenge_def spend_step_def)
qed (rule I)

lemma map_consumed: "map ch_id (upd_where p (\<lambda>r. r\<lparr>ch_consumed := t\<rparr>) cs) = map ch_id cs"
  by (rule map_upd_where_frame) simp

lemma run_ids_ok: "stepup_run start accs db \<Longrightarrow> ids_ok start \<Longrightarrow> ids_ok db"
  by (rule run_keeps [of start accs db ids_ok]) (simp_all add: ids_ok_def map_consumed)

lemma run_no_attempts:
  assumes "stepup_run start accs db" and "\<forall>c \<in> set (challenges start). ch_attempts c = 0"
  shows "\<forall>c \<in> set (challenges db). ch_attempts c = 0"
  using assms by (rule run_keeps [where I = "\<lambda>db. \<forall>c \<in> set (challenges db). ch_attempts c = 0"])
    (auto simp: set_upd_where)

text \<open>Every accepted challenge is in the table, consumed, so it is not accepted again.\<close>

definition spent :: "string \<Rightarrow> stepup_db \<Rightarrow> bool" where
  "spent i db \<longleftrightarrow> (\<exists>c. find (\<lambda>c. ch_id c = i) (challenges db) = Some c \<and> ch_consumed c \<noteq> None)"

lemma find_append_Some: "find p xs = Some x \<Longrightarrow> find p (xs @ ys) = Some x"
  by (induction xs) (auto split: if_splits)

lemma spent_appended: "spent i db \<Longrightarrow> spent i (db\<lparr>challenges := challenges db @ [c]\<rparr>)"
  by (auto simp: spent_def dest: find_append_Some)

lemma find_consumed:
  "find (\<lambda>c. ch_id c = i) (upd_where (\<lambda>c. ch_id c = j) (\<lambda>r. r\<lparr>ch_consumed := Some t\<rparr>) cs) =
     (if i = j then map_option (\<lambda>r. r\<lparr>ch_consumed := Some t\<rparr>) (find (\<lambda>c. ch_id c = i) cs) else find (\<lambda>c. ch_id c = i) cs)"
  by (induction cs) auto

lemma spent_consumed:
  "spent i db \<Longrightarrow> spent i (db\<lparr>challenges := upd_where (\<lambda>c. ch_id c = j) (\<lambda>r. r\<lparr>ch_consumed := Some t\<rparr>) (challenges db)\<rparr>)"
  by (auto simp: spent_def find_consumed)

lemma keeps_issue_spent: "spent i db \<Longrightarrow> spent i (snd (issueStepupChallenge en rq db))"
proof -
  have "keeps (spent i) (update_challenge j (\<lambda>r. r\<lparr>ch_consumed := Some t\<rparr>))" for j t
    unfolding update_challenge_def by (rule keeps_modify) (rule spent_consumed)
  then have "keeps (spent i) (issueStepupChallenge en rq)"
    by (intro keeps_issue) (rule spent_appended)
  then show "spent i db \<Longrightarrow> spent i (snd (issueStepupChallenge en rq db))" by (simp add: keeps_def)
qed

lemma issue_counters: "counters (snd (issueStepupChallenge en rq db)) = counters db"
proof -
  have "keeps (\<lambda>d. counters d = counters db) (issueStepupChallenge en rq)"
    by (rule keeps_issue) (simp_all add: update_challenge_def keeps_def)
  then show ?thesis by (simp add: keeps_def)
qed

text \<open>The time steps an actor has spent on authenticator codes.\<close>

definition spent_steps :: "string \<Rightarrow> acceptance list \<Rightarrow> int list" where
  "spent_steps actor accs = map (\<lambda>(_, _, _, s). s) (filter (\<lambda>(_, u, m, _). u = actor \<and> m = Totp) accs)"

definition log_ok :: "acceptance list \<Rightarrow> stepup_db \<Rightarrow> bool" where
  "log_ok accs db \<longleftrightarrow>
     distinct (map fst accs) \<and> (\<forall>x \<in> set accs. spent (fst x) db) \<and>
     (\<forall>actor. sorted_wrt (>) (spent_steps actor accs) \<and> (\<forall>s \<in> set (spent_steps actor accs). s \<le> max_counter actor db))"

lemma max_counter_spend:
  "max_counter u (spend_step en c db) =
     (if ch_method c = Totp \<and> ch_actor c = u then time_step en else max_counter u db)"
proof -
  have "map_of (filter (\<lambda>(v, _). v \<noteq> w) xs) u = (if u = w then None else map_of xs u)" for w and xs :: "(string \<times> int) list"
    by (induction xs) auto
  then show ?thesis by (cases "ch_method c") (auto simp: spend_step_def max_counter_def)
qed

lemma run_log_ok:
  assumes "stepup_run start accs db"
  shows "log_ok accs db"
  using assms
proof induction
  case begins
  show ?case by (simp add: log_ok_def spent_steps_def)
next
  case (issues accs db en rq)
  then show ?case by (simp add: log_ok_def keeps_issue_spent max_counter_def issue_counters)
next
  case (refuses accs db en pr e db')
  then show ?case using failed_presentation_changes_nothing by metis
next
  case (accepts accs db en pr a db')
  from accepts(2) obtain c where
    f: "find (\<lambda>c. ch_id c = screening_normalizeString (pr_challenge pr) 64) (challenges db) = Some c" and
    k: "ch_consumed c = None" "proves_code en c (screening_normalizeString (pr_code pr) 32) db"
      "a = c\<lparr>ch_consumed := Some (cf_now (se_cf en))\<rparr>" "db' = consume_challenge en (ch_id c) (spend_step en c db)"
    by (rule accepted_presentation)
  have f': "find (\<lambda>x. ch_id x = ch_id c) (challenges db) = Some c"
    using f find_SomeD [OF f] by simp
  have ids: "spent i db' = (i = ch_id c \<or> spent i db)" for i
    using f' by (auto simp: k(4) spent_def consume_challenge_def spend_step_def find_consumed)
  have new: "\<not> spent (ch_id c) db" using f' k(1) by (simp add: spent_def)
  have steps: "spent_steps u (acceptance_of en a # accs) =
      (if ch_method c = Totp \<and> ch_actor c = u then [time_step en] else []) @ spent_steps u accs" for u
    by (simp add: spent_steps_def acceptance_of_def k(3))
  have top: "max_counter u db' = (if ch_method c = Totp \<and> ch_actor c = u then time_step en else max_counter u db)" for u
    using max_counter_spend [of u en c db] by (simp add: k(4) max_counter_def consume_challenge_def)
  have later: "max_counter (ch_actor c) db < time_step en" if "ch_method c = Totp"
    using k(2) that by (simp add: proves_code_def)
  from accepts(3) have l: "distinct (map fst accs)" "\<And>x. x \<in> set accs \<Longrightarrow> spent (fst x) db"
    "\<And>u. sorted_wrt (>) (spent_steps u accs)" "\<And>u s. s \<in> set (spent_steps u accs) \<Longrightarrow> s \<le> max_counter u db"
    by (auto simp: log_ok_def)
  have "ch_id c \<notin> fst ` set accs" using l(2) new by auto
  with l(1,2) have d: "distinct (map fst (acceptance_of en a # accs))" "\<forall>x \<in> set (acceptance_of en a # accs). spent (fst x) db'"
    by (auto simp: acceptance_of_def k(3) ids)
  have "sorted_wrt (>) (spent_steps u (acceptance_of en a # accs)) \<and>
      (\<forall>s \<in> set (spent_steps u (acceptance_of en a # accs)). s \<le> max_counter u db')" for u
    using l(3) [of u] l(4) [of _ u] later by (fastforce simp: steps top)
  with d show ?case by (simp add: log_ok_def)
qed

end
