(* ===== verification/StepUpProperties.thy ===== *)
theory StepUpProperties
  imports StepUpFacts
begin

text \<open>
  What step-up authentication guarantees: a code is accepted only for the challenge, the actor, the action and
  the amount it was issued for, once, and once per authenticator time step. Two promises of the source's
  comments do not hold: wrong attempts are not counted, because the count is rolled back with the error that
  reports it, and an authenticator code is accepted again in the next time step.
\<close>

section \<open>Samples\<close>

definition stepup_config :: "int \<Rightarrow> config" where
  "stepup_config now =
     sample_config\<lparr>cf_limit_env := sample_env\<lparr>le_env := (\<lambda>n. if n = ''JWT_SECRET'' then Some ''pepper'' else None)\<rparr>,
       cf_now := now, cf_db_now := now\<rparr>"

text \<open>Codes of the sample authenticator are the numbers of the time steps; the window accepts the two neighbours.\<close>

definition sample_stepup :: "int \<Rightarrow> stepup_env" where
  "sample_stepup now =
     \<lparr>se_cf = stepup_config now, se_hmac = (\<lambda>k t. k @ t), se_decrypt = Inr,
      se_totp = (\<lambda>secret token. Inr (token \<in> set (map (\<lambda>d. show_int (now div 30000 + d)) [-1, 0, 1]))),
      se_random = 424242, se_send = Inr True\<rparr>"

definition sample_admin :: "string \<Rightarrow> administrator" where
  "sample_admin i =
     \<lparr>ad_id = i, ad_role = ''super_admin'', ad_active = True, ad_deleted = False, ad_totp = Some True, ad_secret = Some ''s''\<rparr>"

definition sample_challenge :: "string \<Rightarrow> string \<Rightarrow> stepup_method \<Rightarrow> challenge" where
  "sample_challenge i action m =
     \<lparr>ch_id = i, ch_actor = ''ana'', ch_action = action, ch_amount = 200000, ch_currency = ''USD'',
      ch_hash = (if m = Email then Some ''pepperstepup:424242'' else None), ch_method = m, ch_attempts = 0, ch_max = 5,
      ch_expires = 600000, ch_consumed = None\<rparr>"

definition sample_stepup_db :: "challenge list \<Rightarrow> stepup_db" where
  "sample_stepup_db cs = \<lparr>challenges = cs, administrators = [sample_admin ''ana'', sample_admin ''ben''], counters = []\<rparr>"

definition sample_issue :: "string \<Rightarrow> issue_request" where
  "sample_issue action =
     \<lparr>iq_actor = Some ''ana'', iq_email = Some ''ana@example.org'', iq_action = action, iq_amount = JInt 200000,
      iq_currency = None, iq_method = None\<rparr>"

definition sample_presentation :: "string \<Rightarrow> string \<Rightarrow> string \<Rightarrow> presentation" where
  "sample_presentation i action code =
     \<lparr>pr_challenge = Some i, pr_actor = ''ana'', pr_action = action, pr_code = Some code, pr_expected = Some (JInt 200000),
      pr_tolerance = None\<rparr>"

definition totp_challenge :: "string \<Rightarrow> challenge" where
  "totp_challenge i = sample_challenge i ''withdrawal'' Totp"

definition totp_db :: "int option \<Rightarrow> int option \<Rightarrow> (string \<times> int) list \<Rightarrow> stepup_db" where
  "totp_db a b n = (sample_stepup_db [(totp_challenge ''0'')\<lparr>ch_consumed := a\<rparr>, (totp_challenge ''1'')\<lparr>ch_consumed := b\<rparr>])\<lparr>counters := n\<rparr>"

definition mail_db :: stepup_db where
  "mail_db = sample_stepup_db [sample_challenge ''0'' ''topup'' Email]"

lemma sample_code: "show_int 424242 = ''424242''"
  by (simp add: show_int_def show_nat.simps digit_char_def) code_simp

lemma sample_hash: "hashStepupCode (sample_stepup now) = (\<lambda>code. Inr (''pepperstepup:'' @ code))"
  by (simp add: fun_eq_iff hashStepupCode_def getStepupPepper_def env_text_def or_null_def sample_stepup_def stepup_config_def)

lemma sample_outside:
  "se_random (sample_stepup now) = 424242" "se_send (sample_stepup now) = Inr True" "se_cf (sample_stepup now) = stepup_config now"
  "cf_now (stepup_config now) = now" "cf_db_now (stepup_config now) = now"
  by (simp_all add: sample_stepup_def stepup_config_def)

text \<open>Two challenges for the authenticator, and the same code accepted for both in consecutive time steps.\<close>

lemma totp_issued:
  "snd (issueStepupChallenge (sample_stepup 0) (sample_issue ''withdrawal'') (sample_stepup_db [])) = sample_stepup_db [totp_challenge ''0'']"
  "snd (issueStepupChallenge (sample_stepup 0) (sample_issue ''withdrawal'') (sample_stepup_db [totp_challenge ''0''])) = totp_db None None []"
  by code_simp+

lemma totp_code_accepted_twice:
  "verifyStepupChallenge (sample_stepup 30000) (sample_presentation ''0'' ''withdrawal'' ''1'') (totp_db None None []) =
     (Inr ((totp_challenge ''0'')\<lparr>ch_consumed := Some 30000\<rparr>), totp_db (Some 30000) None [(''ana'', 1)])"
  "verifyStepupChallenge (sample_stepup 60000) (sample_presentation ''1'' ''withdrawal'' ''1'') (totp_db (Some 30000) None [(''ana'', 1)]) =
     (Inr ((totp_challenge ''1'')\<lparr>ch_consumed := Some 60000\<rparr>), totp_db (Some 30000) (Some 60000) [(''ana'', 2)])"
  by code_simp+

lemma totp_run:
  "stepup_run (sample_stepup_db []) [(''1'', ''ana'', Totp, 2), (''0'', ''ana'', Totp, 1)] (totp_db (Some 30000) (Some 60000) [(''ana'', 2)])"
proof -
  have "stepup_run (sample_stepup_db []) [] (sample_stepup_db [totp_challenge ''0''])"
    using issues [OF begins, of "sample_stepup_db []" "sample_stepup 0" "sample_issue ''withdrawal''"] by (simp add: totp_issued)
  from issues [OF this, of "sample_stepup 0" "sample_issue ''withdrawal''"]
  have "stepup_run (sample_stepup_db []) [] (totp_db None None [])" by (simp add: totp_issued)
  from accepts [OF accepts [OF this totp_code_accepted_twice(1)] totp_code_accepted_twice(2)]
  show ?thesis
    by (simp add: acceptance_of_def totp_challenge_def sample_challenge_def time_step_def sample_stepup_def stepup_config_def
        TOTP_TIME_STEP_SECONDS_def)
qed

lemma mail_issued:
  "issueStepupChallenge (sample_stepup 0) (sample_issue ''topup'') (sample_stepup_db []) =
     (Inr (sample_challenge ''0'' ''topup'' Email, Email), mail_db)"
proof -
  have "positive_integer (JInt 200000) = Some 200000" "screening_normalizeString (Some ''ana@example.org'') 320 = ''ana@example.org''"
    "resolveStepupMethod ''topup'' None = Inr Email" "''topup'' \<in> set STEPUP_ACTION_TYPES" "''topup'' \<in> set stored_action_types"
    "STEPUP_CODE_TTL_MINUTES (stepup_config 0) = 10" "letters3 ''USD''" "js_upper ''USD'' = ''USD''" "show_nat 0 = ''0''"
    by code_simp+
  note e = this
  show ?thesis
    unfolding issueStepupChallenge_def Let_def
    using e sample_code
    by (simp add: sample_hash sample_issue_def or_null_def sample_outside bind_apply withTransaction_def Let_def insert_challenge_def new_challenge_def
        find_administrator_def sample_stepup_db_def sample_admin_def mail_db_def sample_challenge_def STEPUP_MAX_ATTEMPTS_def)
qed

lemma mail_run: "stepup_run (sample_stepup_db []) [] mail_db"
  using issues [OF begins, of "sample_stepup_db []" "sample_stepup 0" "sample_issue ''topup''"] by (simp add: mail_issued)

lemma mail_refused: "fst (verifyStepupChallenge (sample_stepup 1000) (sample_presentation ''0'' ''topup'' ''1'') mail_db) =
    Inl (AppError 403 ''credit_stepup_challenge_invalid'')"
  by code_simp

lemma mail_accepted: "returned (verifyStepupChallenge (sample_stepup 1000) (sample_presentation ''0'' ''topup'' ''424242'') mail_db)"
  by code_simp

section \<open>What an accepted code proves\<close>

lemma exact_amount:
  assumes "\<not> amount_differs c (Some n) 0" and "\<bar>n\<bar> \<le> max_safe_integer"
  shows "ch_amount c = n"
proof -
  obtain q where q: "number_of_bigint (ch_amount c) = JFin q"
    by (cases "number_of_bigint (ch_amount c)") (simp_all add: number_of_bigint_def split: if_splits)
  with assms(1) have "q = of_int n" by (simp add: amount_differs_def)
  with q assms(2) have "safe_int (number_of_bigint (ch_amount c)) = Some n" by simp
  then show ?thesis by (simp add: safe_number_of_bigint split: if_splits)
qed

lemma near_amount:
  assumes "\<not> amount_differs c (Some n) t" and "\<bar>ch_amount c\<bar> \<le> max_safe_integer"
  shows "\<bar>ch_amount c - n\<bar> \<le> t"
proof -
  have "\<not> of_int t < \<bar>(of_int (ch_amount c) :: rat) - of_int n\<bar>" using assms by (simp add: amount_differs_def)
  then have "\<not> (of_int t :: rat) < of_int \<bar>ch_amount c - n\<bar>" by simp
  then show ?thesis by (simp only: of_int_less_iff not_less)
qed

lemma presented_amount:
  assumes "expected_amount pr = Inr expected" "amount_tolerance pr = Inr t" "\<not> amount_differs c expected t" and "pr_expected pr = Some e"
  shows "\<exists>n. safe_int e = Some n \<and> 0 < n \<and> 0 \<le> t \<and> (pr_tolerance pr = None \<longrightarrow> t = 0) \<and> (t = 0 \<longrightarrow> ch_amount c = n) \<and>
    (\<bar>ch_amount c\<bar> \<le> max_safe_integer \<longrightarrow> \<bar>ch_amount c - n\<bar> \<le> t)"
proof -
  obtain n where n: "safe_int e = Some n" "0 < n" "expected = Some n"
    using assms(1,4) by (auto simp: expected_amount_def simp del: safe_int.simps split: option.splits if_splits)
  have t: "0 \<le> t" "pr_tolerance pr = None \<longrightarrow> t = 0"
    using assms(2) by (auto simp: amount_tolerance_def simp del: safe_int.simps split: option.splits if_splits)
  have "\<bar>n\<bar> \<le> max_safe_integer" using n(1) by (cases e) (auto split: if_splits)
  then have "t = 0 \<longrightarrow> ch_amount c = n" using exact_amount [of c n] assms(3) n(3) by auto
  with n t near_amount [of c n t] assms(3) show ?thesis by auto
qed

text \<open>
  C26: A code that is accepted was presented for a challenge of the same actor and the same action that was
  unused and unexpired. When the caller names an amount, the amount the challenge was issued for is this amount, or,
  when the caller also names a tolerance, differs from it by no more than the tolerance (for stored amounts that are
  exact JavaScript numbers, up to \<open>2^53\<close>). Actions that need the authenticator are never proved by an emailed
  code. Accepting the code consumes this challenge and no other row.
\<close>

theorem accepted_code_is_bound:
  assumes "verifyStepupChallenge en pr db = (Inr a, db')" and "ids_ok db"
  shows "\<exists>c \<in> set (challenges db). ch_id c = screening_normalizeString (pr_challenge pr) 64 \<and>
    ch_actor c = pr_actor pr \<and> ch_action c = pr_action pr \<and> ch_consumed c = None \<and> cf_now (se_cf en) < ch_expires c \<and>
    (pr_action pr \<in> set TOTP_STEPUP_ACTION_TYPES \<longrightarrow> ch_method c = Totp) \<and>
    (\<forall>e. pr_expected pr = Some e \<longrightarrow> (\<exists>n t. safe_int e = Some n \<and> 0 < n \<and> amount_tolerance pr = Inr t \<and> 0 \<le> t \<and>
       (pr_tolerance pr = None \<longrightarrow> t = 0) \<and> (t = 0 \<longrightarrow> ch_amount c = n) \<and>
       (\<bar>ch_amount c\<bar> \<le> max_safe_integer \<longrightarrow> \<bar>ch_amount c - n\<bar> \<le> t))) \<and>
    proves_code en c (screening_normalizeString (pr_code pr) 32) db \<and>
    challenges db' = map (\<lambda>r. if r = c then r\<lparr>ch_consumed := Some (cf_db_now (se_cf en))\<rparr> else r) (challenges db)"
proof -
  let ?i = "screening_normalizeString (pr_challenge pr) 64"
  from assms(1) obtain c expected tolerance where
    f: "find (\<lambda>c. ch_id c = ?i) (challenges db) = Some c" and
    k: "ch_actor c = pr_actor pr" "ch_action c = pr_action pr" "ch_consumed c = None" "cf_now (se_cf en) < ch_expires c"
      "pr_action pr \<in> set TOTP_STEPUP_ACTION_TYPES \<longrightarrow> ch_method c = Totp"
      "proves_code en c (screening_normalizeString (pr_code pr) 32) db" and
    n: "expected_amount pr = Inr expected" "amount_tolerance pr = Inr tolerance" "\<not> amount_differs c expected tolerance" and
    d: "db' = consume_challenge en (ch_id c) (spend_step en c db)"
    by (rule accepted_presentation)
  from find_SomeD [OF f] have c: "c \<in> set (challenges db)" "ch_id c = ?i" by simp_all
  note amount = presented_amount [OF n]
  have "r = c" if "r \<in> set (challenges db)" "ch_id r = ch_id c" for r
    using that c(1) ids_distinct [OF assms(2)] by (auto simp: distinct_map inj_on_def)
  then have "challenges db' = map (\<lambda>r. if r = c then r\<lparr>ch_consumed := Some (cf_db_now (se_cf en))\<rparr> else r) (challenges db)"
    by (auto simp: d consume_challenge_def spend_step_def upd_where_def)
  with c k amount n(2) show ?thesis by blast
qed

text \<open>A challenge over 200000 is accepted for 200005 within a tolerance of 10, and not within one of 4.\<close>

lemma mail_tolerance:
  "returned (verifyStepupChallenge (sample_stepup 1000)
     ((sample_presentation ''0'' ''topup'' ''424242'')\<lparr>pr_expected := Some (JInt 200005), pr_tolerance := Some (JInt 10)\<rparr>) mail_db)"
  "fst (verifyStepupChallenge (sample_stepup 1000)
     ((sample_presentation ''0'' ''topup'' ''424242'')\<lparr>pr_expected := Some (JInt 200005), pr_tolerance := Some (JInt 4)\<rparr>) mail_db) =
     Inl (AppError 403 ''credit_stepup_amount_mismatch'')"
  by code_simp+

lemma sample_ids_ok: "ids_ok mail_db" "ids_ok (sample_stepup_db [])"
  by code_simp+

theorem accepted_code_is_bound_witness:
  "\<exists>c \<in> set (challenges mail_db). ch_actor c = ''ana'' \<and> ch_action c = ''topup'' \<and> ch_consumed c = None \<and>
     (\<bar>ch_amount c\<bar> \<le> max_safe_integer \<longrightarrow> \<bar>ch_amount c - 200005\<bar> \<le> 10)"
proof -
  let ?pr = "(sample_presentation ''0'' ''topup'' ''424242'')\<lparr>pr_expected := Some (JInt 200005), pr_tolerance := Some (JInt 10)\<rparr>"
  from mail_tolerance(1) obtain a db' where "verifyStepupChallenge (sample_stepup 1000) ?pr mail_db = (Inr a, db')"
    by (rule returnedE)
  moreover have "safe_int (JInt 200005) = Some 200005" "amount_tolerance ?pr = Inr 10"
    by (simp_all add: amount_tolerance_def max_safe_integer_def)
  moreover note accepted_code_is_bound [OF calculation(1) sample_ids_ok(1)]
  ultimately show ?thesis by (fastforce simp: sample_presentation_def simp del: safe_int.simps)
qed

section \<open>One use\<close>

text \<open>
  C25: In every run of the step-up service, whatever the clocks and settings of its requests, a challenge is
  accepted at most once, and the authenticator codes accepted from one actor belong to strictly increasing
  30-second time steps of the server's clock.
\<close>

theorem codes_are_accepted_once:
  assumes "stepup_run start accs db"
  shows "distinct (map fst accs) \<and> sorted_wrt (>) (spent_steps actor accs)"
  using run_log_ok [OF assms] by (simp_all add: log_ok_def)

theorem codes_are_accepted_once_witness:
  "distinct (map fst [(''1'', ''ana'', Totp, 2 :: int), (''0'', ''ana'', Totp, 1)]) \<and>
   sorted_wrt (>) (spent_steps ''ana'' [(''1'', ''ana'', Totp, 2), (''0'', ''ana'', Totp, 1)])"
  by (rule codes_are_accepted_once [OF totp_run])

section \<open>Wrong attempts\<close>

text \<open>
  C24: Wrong codes are free. \<open>verifyStepupChallenge\<close> counts a wrong attempt inside the transaction that its own error
  rolls back, so in every reachable state every challenge still has no attempts, and after any list of refused
  guesses the tables are what they were: the limit of five attempts never applies.
\<close>

theorem wrong_attempts_are_not_counted:
  assumes "stepup_run start accs db" and "challenges start = []"
    and "\<forall>g \<in> set guesses. \<exists>e. fst (verifyStepupChallenge en (pr\<lparr>pr_code := Some g\<rparr>) db) = Inl e"
  shows "foldl (\<lambda>d g. snd (verifyStepupChallenge en (pr\<lparr>pr_code := Some g\<rparr>) d)) db guesses = db \<and>
    (\<forall>c \<in> set (challenges db). ch_attempts c = 0)"
proof -
  have "snd (verifyStepupChallenge en (pr\<lparr>pr_code := Some g\<rparr>) db) = db" if "g \<in> set guesses" for g
    using assms(3) that failed_presentation_changes_nothing by (metis prod.collapse)
  then have "foldl (\<lambda>d g. snd (verifyStepupChallenge en (pr\<lparr>pr_code := Some g\<rparr>) d)) db guesses = db"
    by (induction guesses) simp_all
  with run_no_attempts [OF assms(1)] assms(2) show ?thesis by simp
qed

text \<open>Six wrong codes, one more than the limit, and the right one is still accepted.\<close>

theorem wrong_attempts_are_not_counted_witness:
  "returned (verifyStepupChallenge (sample_stepup 1000) (sample_presentation ''0'' ''topup'' ''424242'')
     (foldl (\<lambda>d g. snd (verifyStepupChallenge (sample_stepup 1000) (sample_presentation ''0'' ''topup'' g) d)) mail_db (replicate 6 ''1'')))"
proof -
  have p: "(sample_presentation ''0'' ''topup'' [])\<lparr>pr_code := Some g\<rparr> = sample_presentation ''0'' ''topup'' g" for g
    by (simp add: sample_presentation_def)
  show ?thesis
    using wrong_attempts_are_not_counted [OF mail_run, of "replicate 6 ''1''" "sample_stepup 1000" "sample_presentation ''0'' ''topup'' []"]
      mail_accepted mail_refused unfolding p by (simp add: sample_stepup_db_def)
qed

section \<open>Issue and use\<close>

text \<open>
  A challenge that was issued and emailed can be used: until it expires, the actor who presents the emailed
  code for the same action and amount is verified.
\<close>

theorem issued_code_verifies:
  assumes "issueStepupChallenge en rq db = (Inr (c, Email), db')" and "ids_ok db"
    and "100000 \<le> se_random en" "se_random en < 1000000" and "length (ch_id c) \<le> 64" "ch_amount c \<le> max_safe_integer"
    and "cf_now (se_cf en') < ch_expires c" and "hashStepupCode en' = hashStepupCode en"
  shows "\<exists>d. verifyStepupChallenge en'
      \<lparr>pr_challenge = Some (ch_id c), pr_actor = ch_actor c, pr_action = iq_action rq, pr_code = Some (show_int (se_random en)),
       pr_expected = Some (JInt (ch_amount c)), pr_tolerance = None\<rparr> db' = (Inr (c\<lparr>ch_consumed := Some (cf_now (se_cf en'))\<rparr>), d)"
proof -
  let ?code = "show_int (se_random en)"
  from assms(1) obtain actor amount currency h where
    c: "c = new_challenge (se_cf en) actor (iq_action rq) amount currency (Some h) Email\<lparr>ch_id := show_nat (length (challenges db))\<rparr>" and
    h: "hashStepupCode en ?code = Inr h" and only: "iq_action rq \<notin> set TOTP_STEPUP_ACTION_TYPES" and
    db': "db' = db\<lparr>challenges := challenges db @ [c]\<rparr>" and pos: "0 < amount"
    by (rule issued_by_email)
  have "nat (se_random en) < 10 ^ 6" using assms(4) by simp
  from length_show_nat [OF this] have "length (show_nat (nat (se_random en))) \<le> 32" by simp
  then have code: "screening_normalizeString (Some ?code) 32 = ?code" "?code \<noteq> []"
    using assms(3) by (simp_all add: show_int_def normalized_digits show_nat_digits)
  have i: "screening_normalizeString (Some (ch_id c)) 64 = ch_id c" "ch_id c \<noteq> []"
    using assms(5) by (simp_all add: c normalized_digits show_nat_digits)
  have "ch_id c \<notin> ch_id ` set (challenges db)"
  proof -
    have "distinct (map ch_id (challenges db'))"
      using assms(2) by (intro ids_distinct) (simp add: db' ids_ok_def c)
    then show ?thesis by (auto simp: db')
  qed
  then have f: "find (\<lambda>x. ch_id x = ch_id c) (challenges db') = Some c"
    by (simp add: db' find_snoc)
  have n: "\<bar>ch_amount c\<bar> \<le> max_safe_integer" "ch_amount c = amount" using assms(6) pos by (simp_all add: c new_challenge_def)
  have fields: "ch_method c = Email" "ch_hash c = Some h" "ch_attempts c = 0" "ch_max c = 5" "ch_consumed c = None" "ch_action c = iq_action rq"
    by (simp_all add: c new_challenge_def STEPUP_MAX_ATTEMPTS_def)
  have x: "expected_amount pr = Inr (Some (ch_amount c))" "amount_tolerance pr = Inr 0"
    if "pr_expected pr = Some (JInt (ch_amount c))" "pr_tolerance pr = None" for pr
    using that n pos by (simp_all add: expected_amount_def amount_tolerance_def del: safe_int.simps)
  have "\<not> amount_differs c (Some (ch_amount c)) 0" using n by (simp add: amount_differs_def)
  then show ?thesis
    unfolding verifyStepupChallenge_def Let_def
    using code i f x n assms(7,8) fields h only
    by (simp add: bind_apply withTransaction_def checkChallenge_def Let_def verifyEmailedCode_def update_challenge_def del: safe_int.simps)
qed

theorem issued_code_verifies_witness:
  "\<exists>d. fst (verifyStepupChallenge (sample_stepup 1000)
     \<lparr>pr_challenge = Some ''0'', pr_actor = ''ana'', pr_action = ''topup'', pr_code = Some (show_int 424242),
      pr_expected = Some (JInt 200000), pr_tolerance = None\<rparr> mail_db) = Inr d"
  using issued_code_verifies [OF mail_issued sample_ids_ok(2), of "sample_stepup 1000"]
  unfolding sample_hash
  by (auto simp: sample_challenge_def sample_issue_def sample_stepup_def stepup_config_def max_safe_integer_def)

section \<open>Actions that cannot be confirmed\<close>

text \<open>
  \<open>subscription_cancel\<close> and \<open>support_resolution_approve\<close> are step-up actions of the service, but the CHECK
  constraint of the table refuses them, so no challenge for them exists in any run.
\<close>

lemma unstored_actions_are_never_issued:
  assumes "iq_action rq \<in> {''subscription_cancel'', ''support_resolution_approve''}"
  shows "issueStepupChallenge en rq db \<noteq> (Inr r, db')"
proof
  assume issued: "issueStepupChallenge en rq db = (Inr r, db')"
  have none: "insert_challenge (new_challenge cf actor (iq_action rq) amount currency h m) db \<noteq> (Inr c, d)" for cf actor amount currency h m c d
    using assms by (cases rule: insert_challenge_cases [of "new_challenge cf actor (iq_action rq) amount currency h m" db])
      (auto simp: new_challenge_def stored_action_types_def)
  from issued none show False
    unfolding issueStepupChallenge_def Let_def by (auto simp: bind_Inr_iff split: option.splits if_splits)
qed

end
