(* ===== verification/IdentityProperties.thy ===== *)
theory IdentityProperties
  imports IdentityVerification StepUpProperties
begin

text \<open>
  What identity verification guarantees: one active row per customer, tiers only on verified rows, statuses
  that never go back, and a funding gate that opens only for a verified, unexpired customer. A verification
  whose period has ended blocks both funding and its own renewal.
\<close>

section \<open>Invariants of the table\<close>

text \<open>A verified row has a tier, a period and a recorded reason; only verified rows (and expired ones) have a tier.\<close>

definition verification_ok :: "verification \<Rightarrow> bool" where
  "verification_ok v \<longleftrightarrow>
     (vf_tier v \<noteq> 0 \<longrightarrow> vf_status v = VVerified \<or> vf_status v = VExpired) \<and>
     (vf_status v = VVerified \<longrightarrow> vf_tier v \<in> {1, 2} \<and> vf_expires v \<noteq> None \<and> vf_review_reason v \<noteq> None)"

definition verifications_ok :: "kyc_db \<Rightarrow> bool" where
  "verifications_ok db \<longleftrightarrow> distinct (active_customers (verifications db)) \<and> list_all verification_ok (verifications db)"

text \<open>How the status of a row may change over time.\<close>

fun may_become :: "verification_status \<Rightarrow> verification_status \<Rightarrow> bool" where
  "may_become VExpired s = (s = VExpired)"
| "may_become VVerified s = (s = VVerified \<or> s = VExpired)"
| "may_become _ s = True"

lemma may_become_refl [simp]: "may_become s s"
  by (cases s) simp_all

lemma may_become_trans: "may_become a b \<Longrightarrow> may_become b c \<Longrightarrow> may_become a c"
  by (cases a; cases b) auto

definition follows :: "kyc_db \<Rightarrow> kyc_db \<Rightarrow> bool" where
  "follows past db \<longleftrightarrow>
     (\<forall>v \<in> set (verifications past). \<exists>w \<in> set (verifications db).
        vf_id w = vf_id v \<and> vf_customer w = vf_customer v \<and> may_become (vf_status v) (vf_status w))"

definition kyc_inv :: "kyc_db \<Rightarrow> kyc_db \<Rightarrow> bool" where
  "kyc_inv past db \<longleftrightarrow> verifications_ok db \<and> follows past db"

lemma active_append:
  "active_customers (vs @ [v]) = active_customers vs @ (if active_row v then [vf_customer v] else [])"
  by (simp add: active_customers_def)

lemma keeps_insert:
  assumes "\<And>i. verification_ok (v\<lparr>vf_id := i\<rparr>)"
  shows "keeps (kyc_inv past) (insertVerification v)"
proof (rule keepsI)
  fix db assume I: "kyc_inv past db"
  show "kyc_inv past (snd (insertVerification v db))"
  proof (cases "vf_customer v \<in> set (active_customers (verifications db))")
    case False
    with I assms show ?thesis
      by (auto simp: insertVerification_def Let_def kyc_inv_def verifications_ok_def active_append follows_def)
  qed (use I in \<open>simp add: insertVerification_def\<close>)
qed

text \<open>An update keeps the invariants when the change of each row it may touch is sound.\<close>

lemma keeps_update:
  assumes "\<And>v. p v \<Longrightarrow> verification_ok v \<Longrightarrow>
      verification_ok (f v) \<and> vf_id (f v) = vf_id v \<and> vf_customer (f v) = vf_customer v \<and> may_become (vf_status v) (vf_status (f v))"
  shows "keeps (kyc_inv past) (updateVerification i p f)"
proof (rule keepsI)
  fix db assume I: "kyc_inv past db"
  let ?rows = "upd_where (\<lambda>v. vf_id v = i \<and> p v) f (verifications db)"
  have ok: "list_all verification_ok (verifications db)" using I by (simp add: kyc_inv_def verifications_ok_def)
  show "kyc_inv past (snd (updateVerification i p f db))"
  proof (cases "distinct (active_customers ?rows)")
    case True
    have "list_all verification_ok ?rows" using ok assms by (auto simp: list_all_iff set_upd_where)
    moreover have "follows past (db\<lparr>verifications := ?rows\<rparr>)"
      unfolding follows_def
    proof
      fix v assume "v \<in> set (verifications past)"
      then obtain w where w: "w \<in> set (verifications db)" "vf_id w = vf_id v" "vf_customer w = vf_customer v"
          "may_become (vf_status v) (vf_status w)"
        using I by (auto simp: kyc_inv_def follows_def)
      let ?w = "if vf_id w = i \<and> p w then f w else w"
      have "?w \<in> set ?rows" using w(1) by (auto simp: set_upd_where)
      moreover have "vf_id ?w = vf_id v" "vf_customer ?w = vf_customer v" "may_become (vf_status v) (vf_status ?w)"
        using assms [of w] ok w by (auto simp: list_all_iff intro: may_become_trans)
      ultimately show "\<exists>w \<in> set (verifications (db\<lparr>verifications := ?rows\<rparr>)).
          vf_id w = vf_id v \<and> vf_customer w = vf_customer v \<and> may_become (vf_status v) (vf_status w)" by force
    qed
    ultimately show ?thesis using True by (simp add: updateVerification_def Let_def kyc_inv_def verifications_ok_def)
  qed (use I in \<open>simp add: updateVerification_def Let_def\<close>)
qed

lemma keeps_event: "keeps (kyc_inv past) (identity_event a b c i r d)"
  unfolding identity_event_def by (rule keeps_modify) (simp add: kyc_inv_def verifications_ok_def follows_def)

lemma verified_tier_range: "fallback \<in> {1, 2} \<Longrightarrow> verified_tier r fallback \<in> {1, 2}"
  by (simp add: verified_tier_def)

lemma keeps_create:
  assumes "createVerificationRequest name = Inr create"
  shows "keeps (kyc_inv past) (create cf customer tier)"
proof -
  have manual: "keeps (kyc_inv past) (manual_createVerificationRequest cf customer tier)"
    unfolding manual_createVerificationRequest_def Let_def
    by (intro keeps_intros keeps_insert) (simp add: verification_ok_def new_verification_def)
  have didit: "keeps (kyc_inv past) (didit_createVerificationRequest cf customer tier)"
    unfolding didit_createVerificationRequest_def Let_def
    by (intro keeps_intros keeps_insert keeps_update manual)
      (use verified_tier_range [of 2 tier] in \<open>auto simp: verification_ok_def new_verification_def\<close>)
  from assms manual didit show ?thesis by (auto simp: createVerificationRequest_def split: if_splits)
qed

lemma keeps_flip: "keeps (kyc_inv past) (flip_expired cf v)"
  unfolding flip_expired_def
  by (intro keeps_intros keeps_update) (auto simp: verification_ok_def)

lemma keeps_scan: "keeps (kyc_inv past) (scan_tiers cf vs seen)"
  by (induction vs arbitrary: seen) (auto intro!: keeps_intros keeps_flip simp: Let_def)

lemma keeps_operations:
  "keeps (kyc_inv past) (requestIdentityVerification cf customer requestedTier name actor)"
  "keeps (kyc_inv past) (reviewIdentityVerification cf i decision actor reason)"
  "keeps (kyc_inv past) (requestIdentityVerificationAppeal cf i customer reason)"
  "keeps (kyc_inv past) (reviewIdentityVerificationAppeal cf i decision actor reason)"
  "keeps (kyc_inv past) (getCustomerVerificationTier cf c)"
proof -
  have "keeps (kyc_inv past) (bind (lift_res (createVerificationRequest name)) (\<lambda>create. withTransaction (bind (create cf c t) g)))"
    if "\<And>x. keeps (kyc_inv past) (g x)" for c t and g :: "created_request \<Rightarrow> 'a kyc"
  proof (cases "createVerificationRequest name")
    case (Inr create)
    have known: "bind (lift_res (Inr create)) h = h create" for h :: "_ \<Rightarrow> 'a kyc"
      by (simp add: fun_eq_iff bind_apply)
    show ?thesis unfolding Inr known by (intro keeps_intros keeps_create [OF Inr] that)
  qed (simp add: keeps_def bind_def lift_res_def)
  note created = this
  show "keeps (kyc_inv past) (requestIdentityVerification cf customer requestedTier name actor)"
    unfolding requestIdentityVerification_def Let_def
    by (intro keeps_case_option keeps_if keeps_basic created) (intro keeps_intros keeps_event)
  show "keeps (kyc_inv past) (reviewIdentityVerification cf i decision actor reason)"
    unfolding reviewIdentityVerification_def Let_def
    by (intro keeps_intros keeps_update keeps_event)
      (use verified_tier_range [of 1] in \<open>auto simp: verification_ok_def\<close>)
  show "keeps (kyc_inv past) (requestIdentityVerificationAppeal cf i customer reason)"
    unfolding requestIdentityVerificationAppeal_def Let_def
    by (intro keeps_intros keeps_update keeps_event) (auto simp: verification_ok_def)
  show "keeps (kyc_inv past) (reviewIdentityVerificationAppeal cf i decision actor reason)"
    unfolding reviewIdentityVerificationAppeal_def Let_def
    by (intro keeps_intros keeps_update keeps_event) (auto simp: verification_ok_def)
  show "keeps (kyc_inv past) (getCustomerVerificationTier cf c)"
    unfolding getCustomerVerificationTier_def by (intro keeps_intros keeps_scan)
qed

section \<open>Runs\<close>

text \<open>The operations in any order, the tier queries of committed transactions, and the Didit webhooks.\<close>

inductive kyc_step :: "kyc_db \<Rightarrow> kyc_db \<Rightarrow> bool" where
  requested: "kyc_step db (snd (requestIdentityVerification cf customer requestedTier name actor db))"
| reviewed: "kyc_step db (snd (reviewIdentityVerification cf i decision actor reason db))"
| appealed: "kyc_step db (snd (requestIdentityVerificationAppeal cf i customer reason db))"
| appeal_reviewed: "kyc_step db (snd (reviewIdentityVerificationAppeal cf i decision actor reason db))"
| queried: "kyc_step db (snd (getCustomerVerificationTier cf c db))"
| webhook: "verifications db' = verifications db \<Longrightarrow> kyc_step db db'"

lemma steps_keep:
  assumes "kyc_step\<^sup>*\<^sup>* past db" and "verifications_ok past"
  shows "kyc_inv past db"
  using assms(1)
proof induction
  case base
  show ?case using assms(2) by (auto simp: kyc_inv_def follows_def)
next
  case (step db db')
  from step(2,3) show ?case
  proof cases
    case webhook
    with step(3) show ?thesis by (simp add: kyc_inv_def verifications_ok_def follows_def)
  qed (use step(3) keeps_operations in \<open>auto simp: keeps_def\<close>)
qed

text \<open>
  C28: In every run, a customer has at most one pending or verified row, a row without verification grants no
  tier, and the history of a row only moves forward: a verified row can only expire, an expired row is final, a
  row never disappears or changes its customer.
\<close>

theorem verifications_only_move_forward:
  assumes "kyc_step\<^sup>*\<^sup>* past db" and "verifications_ok past"
  shows "distinct (active_customers (verifications db)) \<and>
    (\<forall>v \<in> set (verifications db). vf_tier v \<noteq> 0 \<longrightarrow> vf_status v = VVerified \<or> vf_status v = VExpired) \<and>
    (\<forall>v \<in> set (verifications past). \<exists>w \<in> set (verifications db). vf_id w = vf_id v \<and> vf_customer w = vf_customer v \<and>
       (vf_status v = VExpired \<longrightarrow> vf_status w = VExpired) \<and> (vf_status v = VVerified \<longrightarrow> vf_status w \<in> {VVerified, VExpired}))"
proof -
  have "kyc_inv past db" using assms by (rule steps_keep)
  then show ?thesis
    by (fastforce simp: kyc_inv_def verifications_ok_def follows_def list_all_iff verification_ok_def)
qed

section \<open>The funding gate\<close>

lemma flip_same: "flip_expired cf v db = (Inr r, db') \<Longrightarrow> vf_status r = VVerified \<Longrightarrow> r = v"
  by (auto simp: flip_expired_def bind_Inr_iff split: if_splits)

lemma scan_finds:
  assumes "scan_tiers cf vs seen db = (Inr info, db')" and "0 < ti_tier info"
  shows "\<exists>v \<in> set vs. vf_status v = VVerified \<and> \<not> expired_at (cf_now cf) v \<and> vf_tier v = ti_tier info"
  using assms
proof (induction vs arbitrary: seen db)
  case (Cons v vs)
  from Cons.prems(1) obtain r mid where f: "flip_expired cf v db = (Inr r, mid)"
    and k: "(if vf_status r = VVerified \<and> \<not> expired_at (cf_now cf) r
       then ret \<lparr>ti_tier = vf_tier r, ti_status = Some VVerified, ti_id = Some (vf_id r)\<rparr>
       else scan_tiers cf vs (seen @ [r])) mid = (Inr info, db')"
    by (auto simp: bind_Inr_iff)
  show ?case
  proof (cases "vf_status r = VVerified \<and> \<not> expired_at (cf_now cf) r")
    case True
    with k flip_same [OF f] show ?thesis by auto
  next
    case False
    with k Cons.IH [of "seen @ [r]" mid] Cons.prems(2) show ?thesis by auto
  qed
qed (auto simp: Let_def)

lemma tier_gate:
  assumes "assertIdentityVerificationTier cf customer amount db = (Inr (tier, cap), db')" and "verifications_ok db"
  shows "\<exists>v \<in> set (verifications db). vf_customer v = customer \<and> vf_status v = VVerified \<and> \<not> expired_at (cf_now cf) v \<and>
    vf_tier v = tier \<and> (tier = 1 \<and> amount \<le> TIER1_TOPUP_MAX_CENTS cf \<or> tier = 2 \<and> amount \<le> TIER2_TOPUP_MAX_CENTS cf)"
proof -
  let ?rows = "take 5 (rev (filter (\<lambda>v. vf_customer v = customer) (verifications db)))"
  from assms(1) obtain info mid where g: "getCustomerVerificationTier cf customer db = (Inr info, mid)" and
    k: "(if ti_tier info \<le> 0 then fail (AppError 403 ''credit_funding_verification_required'')
      else let cap = (if ti_tier info = 1 then TIER1_TOPUP_MAX_CENTS cf else TIER2_TOPUP_MAX_CENTS cf) in
        if cap < amount then fail (AppError 403 ''credit_funding_tier_limit'') else ret (ti_tier info, cap)) mid = (Inr (tier, cap), db')"
    unfolding assertIdentityVerificationTier_def bind_Inr_iff by blast
  from k have t: "0 < ti_tier info" "tier = ti_tier info" "amount \<le> cap"
      "cap = (if ti_tier info = 1 then TIER1_TOPUP_MAX_CENTS cf else TIER2_TOPUP_MAX_CENTS cf)"
    by (simp_all add: Let_def split: if_split_asm)
  from g have s: "scan_tiers cf ?rows [] db = (Inr info, mid)"
    unfolding getCustomerVerificationTier_def bind_Inr_iff by (simp only: gets_apply prod.inject sum.inject) blast
  from scan_finds [OF s t(1)] obtain v where v: "v \<in> set ?rows" "vf_status v = VVerified" "\<not> expired_at (cf_now cf) v"
      "vf_tier v = tier" by (auto simp: t(2))
  from in_set_takeD [OF v(1)] have m: "v \<in> set (verifications db)" "vf_customer v = customer" by auto
  with assms(2) v(2) have "vf_tier v \<in> {1, 2}" by (auto simp: verifications_ok_def list_all_iff verification_ok_def)
  with m v t show ?thesis by (intro bexI [of _ v]) auto
qed

lemma filter_key_unique: "distinct (map k xs) \<Longrightarrow> v \<in> set xs \<Longrightarrow> filter (\<lambda>x. k x = k v) xs = [v]"
  by (induction xs) (auto simp: image_iff filter_empty_conv)

lemma findActive_unique:
  assumes "verifications_ok db" and "v \<in> set (verifications db)" "active_row v"
  shows "findActive (vf_customer v) db = Some v"
proof -
  let ?P = "\<lambda>x. vf_customer x = vf_customer v \<and> active_row x"
  have "filter (\<lambda>x. vf_customer x = vf_customer v) (filter active_row (verifications db)) = [v]"
    using assms by (intro filter_key_unique) (simp_all add: verifications_ok_def active_customers_def)
  moreover have "(\<lambda>x. active_row x \<and> vf_customer x = vf_customer v) = ?P" by auto
  ultimately have "filter ?P (rev (verifications db)) = [v]" by (simp add: rev_filter [symmetric] filter_filter)
  moreover have "find P xs = (case filter P xs of [] \<Rightarrow> None | x # _ \<Rightarrow> Some x)" for P and xs :: "verification list"
    by (induction xs) auto
  ultimately show ?thesis by (simp add: findActive_def)
qed

text \<open>A gate that opens has written nothing: the row that opens it is the only active row, so no row expires on the way.\<close>

lemma scan_unchanged:
  assumes "scan_tiers cf vs seen db = (Inr info, db')" and "\<And>v. v \<in> set vs \<Longrightarrow> vf_status v = VVerified \<Longrightarrow> \<not> expired_at (cf_now cf) v"
  shows "db' = db"
  using assms
proof (induction vs arbitrary: seen)
  case (Cons v vs)
  have "flip_expired cf v db = (Inr v, db)" using Cons.prems(2) [of v] by (auto simp: flip_expired_def)
  with Cons.prems(1) have "db' = db \<or> scan_tiers cf vs (seen @ [v]) db = (Inr info, db')"
    by (auto simp: bind_apply split: if_splits)
  with Cons.IH Cons.prems(2) show ?case by (metis list.set_intros(2))
qed (simp add: Let_def)

lemma tier_gate_unchanged:
  assumes "assertIdentityVerificationTier cf customer amount db = (Inr x, db')" and "verifications_ok db"
  shows "db' = db"
proof -
  let ?rows = "take 5 (rev (filter (\<lambda>v. vf_customer v = customer) (verifications db)))"
  from assms(1) obtain info where g: "scan_tiers cf ?rows [] db = (Inr info, db')" "0 < ti_tier info"
    by (auto simp: assertIdentityVerificationTier_def getCustomerVerificationTier_def bind_Inr_iff Let_def split: if_splits)
  from scan_finds [OF g] obtain v where v: "v \<in> set ?rows" "vf_status v = VVerified" "\<not> expired_at (cf_now cf) v" by blast
  have row: "w \<in> set (verifications db) \<and> vf_customer w = customer" if "w \<in> set ?rows" for w
    using in_set_takeD [OF that] by simp
  have "w = v" if "w \<in> set ?rows" "vf_status w = VVerified" for w
    using findActive_unique [OF assms(2), of w] findActive_unique [OF assms(2), of v] row [OF that(1)] row [OF v(1)] that(2) v(2)
    by (simp add: active_row_def)
  with v(3) show ?thesis using scan_unchanged [OF g(1)] by blast
qed

text \<open>
  The funding gate opens only for a customer with a verified row that has not expired, and only up to the
  amount of the tier of this row.
\<close>

theorem funding_needs_a_valid_tier:
  assumes "assertIdentityVerificationTier cf customer amount db = (Inr (tier, cap), db')" and "verifications_ok db"
  shows "\<exists>v \<in> set (verifications db). vf_customer v = customer \<and> vf_status v = VVerified \<and> \<not> expired_at (cf_now cf) v \<and>
    vf_tier v = tier \<and> (tier = 1 \<and> amount \<le> TIER1_TOPUP_MAX_CENTS cf \<or> tier = 2 \<and> amount \<le> TIER2_TOPUP_MAX_CENTS cf)"
  by (rule tier_gate [OF assms])

section \<open>An expired verification\<close>

lemma flip_runs:
  assumes "verifications_ok db"
  obtains r db' where "flip_expired cf v db = (Inr r, db')" "verifications_ok db'" "r = v \<or> r = v\<lparr>vf_status := VExpired\<rparr>"
proof -
  have "active_customers (upd_where q (\<lambda>r. r\<lparr>vf_status := VExpired\<rparr>) vs) = map vf_customer (filter (\<lambda>v. active_row v \<and> \<not> q v) vs)" for q vs
    by (induction vs) (auto simp: active_customers_def active_row_def)
  then have "distinct (active_customers (upd_where q (\<lambda>r. r\<lparr>vf_status := VExpired\<rparr>) (verifications db)))" for q
    using assms distinct_map_filter [of vf_customer "filter active_row (verifications db)" "\<lambda>v. \<not> q v"]
    by (simp add: verifications_ok_def active_customers_def filter_filter conj_commute)
  then have "\<exists>r db'. flip_expired cf v db = (Inr r, db') \<and> (r = v \<or> r = v\<lparr>vf_status := VExpired\<rparr>)"
    by (simp add: flip_expired_def updateVerification_def Let_def bind_apply)
  then obtain r db' where r: "flip_expired cf v db = (Inr r, db')" "r = v \<or> r = v\<lparr>vf_status := VExpired\<rparr>" by blast
  have "kyc_inv db db" using assms by (auto simp: kyc_inv_def follows_def)
  from keepsD [OF keeps_flip this r(1)] have "verifications_ok db'" by (simp add: kyc_inv_def)
  with r that show thesis by blast
qed

lemma scan_none:
  assumes "verifications_ok db" and "\<And>v. v \<in> set vs \<Longrightarrow> vf_status v = VVerified \<Longrightarrow> expired_at (cf_now cf) v"
  shows "\<exists>info db'. scan_tiers cf vs seen db = (Inr info, db') \<and> ti_tier info = 0"
  using assms
proof (induction vs arbitrary: seen db)
  case (Cons v vs)
  from Cons.prems(1) obtain r mid where f: "flip_expired cf v db = (Inr r, mid)" "verifications_ok mid"
      "r = v \<or> r = v\<lparr>vf_status := VExpired\<rparr>" by (rule flip_runs)
  have "\<not> (vf_status r = VVerified \<and> \<not> expired_at (cf_now cf) r)" using f(3) Cons.prems(2) [of v] by auto
  then have "scan_tiers cf (v # vs) seen db = scan_tiers cf vs (seen @ [r]) mid"
    by (auto simp: bind_apply f(1))
  with Cons.IH [OF f(2), of "seen @ [r]"] Cons.prems(2) show ?case by auto
qed (simp add: Let_def)

text \<open>An operation that finds the customer's expired row answers with it again.\<close>

lemma create_replays:
  assumes "findActive customer db = Some v" and "vf_status v = VVerified" and "createVerificationRequest name = Inr create"
  shows "\<exists>r. create cf customer tier db = (Inr r, db) \<and> cv_replayed r \<and> cv_id r = Some (vf_id v)"
proof -
  have "v \<in> set (verifications db)" "vf_customer v = customer" "active_row v"
    using find_SomeD [OF assms(1) [unfolded findActive_def]] by simp_all
  then have "customer \<in> set (active_customers (verifications db))" by (auto simp: active_customers_def)
  then have none: "insertVerification w db = (Inr None, db)" if "vf_customer w = customer" for w
    using that by (simp add: insertVerification_def)
  have manual: "\<exists>r. manual_createVerificationRequest cf customer tier db = (Inr r, db) \<and> cv_replayed r \<and> cv_id r = Some (vf_id v)"
    by (simp add: manual_createVerificationRequest_def Let_def bind_apply none new_verification_def assms(1))
  have "\<exists>r. didit_createVerificationRequest cf customer tier db = (Inr r, db) \<and> cv_replayed r \<and> cv_id r = Some (vf_id v)"
  proof (cases "usable_didit cf customer db")
    case None
    with manual show ?thesis by (simp add: didit_createVerificationRequest_def bind_apply)
  next
    case (Some r)
    then show ?thesis
      by (simp add: didit_createVerificationRequest_def Let_def bind_apply none new_verification_def assms(1,2))
  qed
  with manual assms(3) show ?thesis by (auto simp: createVerificationRequest_def split: if_splits)
qed

text \<open>
  C27: A customer whose verification has expired stays locked out by the funding gate: the gate refuses, and because its
  transaction is rolled back the row stays verified; a new request for either tier, manual or by Didit, then only replays
  this row and changes no verification. (A read of the tier whose transaction commits, as the status page does, is what
  expires the row; the gate never does.)
\<close>

theorem expired_customer_is_locked_out:
  assumes "verifications_ok db" and "v \<in> set (verifications db)" and "vf_status v = VVerified" "expired_at (cf_now cf) v"
    and "vf_customer v = customer" "customer \<noteq> []" and "name \<in> {''manual_review'', ''didit''}"
    and "tier = 1 \<or> tier = 2"
  shows "withTransaction (assertIdentityVerificationTier cf customer amount) db =
      (Inl (AppError 403 ''credit_funding_verification_required''), db) \<and>
    (\<exists>r db'. requestIdentityVerification cf (Some customer) (JInt tier) name actor db = (Inr (r, tier), db') \<and>
       cv_replayed r \<and> cv_id r = Some (vf_id v) \<and> verifications db' = verifications db)"
proof
  let ?rows = "take 5 (rev (filter (\<lambda>v. vf_customer v = customer) (verifications db)))"
  have active: "active_row v" using assms(3) by (simp add: active_row_def)
  from findActive_unique [OF assms(1,2) this] have found: "findActive customer db = Some v" by (simp add: assms(5))
  have only: "w = v" if "w \<in> set (verifications db)" "vf_customer w = customer" "active_row w" for w
    using findActive_unique [OF assms(1) that(1,3)] that(2) found by simp
  have "expired_at (cf_now cf) w" if "w \<in> set ?rows" "vf_status w = VVerified" for w
    using only [of w] in_set_takeD [OF that(1)] that(2) assms(4) by (auto simp: active_row_def)
  from scan_none [OF assms(1) this] obtain info mid where "scan_tiers cf ?rows [] db = (Inr info, mid)" "ti_tier info = 0"
    by blast
  then have "getCustomerVerificationTier cf customer db = (Inr info, mid)" "ti_tier info = 0"
    by (simp_all add: getCustomerVerificationTier_def bind_apply)
  then show "withTransaction (assertIdentityVerificationTier cf customer amount) db =
      (Inl (AppError 403 ''credit_funding_verification_required''), db)"
    by (simp add: assertIdentityVerificationTier_def bind_apply withTransaction_def)
  obtain create where c: "createVerificationRequest name = Inr create"
    using assms(7) by (auto simp: createVerificationRequest_def)
  obtain r where "create cf customer tier db = (Inr r, db)" "cv_replayed r" "cv_id r = Some (vf_id v)"
    using create_replays [OF found assms(3) c] by blast
  then show "\<exists>r db'. requestIdentityVerification cf (Some customer) (JInt tier) name actor db = (Inr (r, tier), db') \<and>
      cv_replayed r \<and> cv_id r = Some (vf_id v) \<and> verifications db' = verifications db"
    using assms(6,8) c
    by (auto simp: requestIdentityVerification_def Let_def or_null_def bind_apply withTransaction_def identity_event_def)
qed

text \<open>
  Accepting an appeal while the customer has a newer active row violates the unique index: the administrator sees
  a database error, not one of the handler's answers.
\<close>

lemma appeal_of_superseded_row_fails:
  assumes "findVerification i db = Some v" "vf_status v = VRejected" "vf_appeal v = Some APending"
    and "w \<in> set (verifications db)" "active_row w" "vf_customer w = vf_customer v" "vf_id w \<noteq> i"
    and "screening_normalizeString reason 1000 \<noteq> []"
  shows "reviewIdentityVerificationAppeal cf i ''approve'' actor reason db = (Inl (PgError ''23505''), db)"
proof -
  let ?p = "\<lambda>x. vf_id x = i \<and> vf_status x = VRejected \<and> vf_appeal x = Some APending"
  let ?f = "\<lambda>x. x\<lparr>vf_status := VPending, vf_tier := 0, vf_expires := None,
      vf_sla := Some (cf_db_now cf + VERIFICATION_REVIEW_SLA_HOURS cf * 3600000), vf_appeal := Some AApproved, vf_appeal_sla := None,
      vf_appeal_by := actor, vf_appeal_review := Some (screening_normalizeString reason 1000)\<rparr>"
  let ?rows = "upd_where ?p ?f (verifications db)"
  have v: "v \<in> set (verifications db)" "?p v"
    using find_SomeD [OF assms(1) [unfolded findVerification_def]] assms(2,3) by simp_all
  have "\<not> ?p w" using assms(5) by (auto simp: active_row_def)
  with assms(4) have w: "w \<in> set (filter active_row ?rows)" using assms(5) by (auto simp: set_upd_where)
  have v': "?f v \<in> set (filter active_row ?rows)" using v by (auto simp: set_upd_where active_row_def)
  have "w \<noteq> ?f v" using v(2) assms(7) by auto
  moreover have "vf_customer w = vf_customer (?f v)" using assms(6) by simp
  ultimately have "\<not> distinct (active_customers ?rows)"
    using inj_onD [OF _ _ w v', of vf_customer] unfolding active_customers_def distinct_map by blast
  then show ?thesis
    using assms(1,2,3,8)
    by (simp add: reviewIdentityVerificationAppeal_def Let_def bind_apply updateVerification_def withTransaction_def)
qed

section \<open>Witnesses\<close>

definition verified_row :: verification where
  "verified_row = (new_verification ''ana'' 2)\<lparr>vf_id := 1, vf_tier := 2, vf_status := VVerified, vf_review_reason := Some ''passport'',
     vf_expires := Some 5000\<rparr>"

definition sample_kyc :: kyc_db where
  "sample_kyc = \<lparr>verifications = [verified_row], didit_rows = [], kyc_trail = []\<rparr>"

lemma sample_kyc_ok: "verifications_ok sample_kyc"
  by code_simp

lemma verified_row_known: "verified_row \<in> set (verifications sample_kyc)" "vf_status verified_row = VVerified"
  "vf_customer verified_row = ''ana''"
  by (simp_all add: sample_kyc_def verified_row_def new_verification_def)

text \<open>The row of the sample expires when its tier is asked for after its period.\<close>

lemma sample_kyc_expires:
  "map vf_status (verifications (snd (getCustomerVerificationTier (stepup_config 9000) ''ana'' sample_kyc))) = [VExpired]"
  by code_simp

theorem verifications_only_move_forward_witness:
  "\<exists>db. kyc_step\<^sup>*\<^sup>* sample_kyc db \<and> map vf_status (verifications db) = [VExpired] \<and> distinct (active_customers (verifications db))"
proof -
  have run: "kyc_step\<^sup>*\<^sup>* sample_kyc (snd (getCustomerVerificationTier (stepup_config 9000) ''ana'' sample_kyc))"
    by (rule r_into_rtranclp) (rule queried)
  from verifications_only_move_forward [OF run sample_kyc_ok]
  have "distinct (active_customers (verifications (snd (getCustomerVerificationTier (stepup_config 9000) ''ana'' sample_kyc))))"
    by (rule conjunct1)
  with run sample_kyc_expires show ?thesis by (intro exI conjI)
qed

lemma sample_gate: "returned (assertIdentityVerificationTier (stepup_config 1000) ''ana'' 200000 sample_kyc)"
  by (simp add: assertIdentityVerificationTier_def getCustomerVerificationTier_def sample_kyc_def verified_row_def new_verification_def
      bind_apply flip_expired_def expired_at_def stepup_config_def Let_def returned_def TIER2_TOPUP_MAX_CENTS_def env_positive_def
      env_text_def or_null_def)

theorem funding_needs_a_valid_tier_witness:
  "\<exists>v \<in> set (verifications sample_kyc). vf_status v = VVerified \<and> \<not> expired_at (cf_now (stepup_config 1000)) v"
proof -
  from sample_gate obtain r db' where "assertIdentityVerificationTier (stepup_config 1000) ''ana'' 200000 sample_kyc = (Inr r, db')"
    by (rule returnedE)
  then have "assertIdentityVerificationTier (stepup_config 1000) ''ana'' 200000 sample_kyc = (Inr (fst r, snd r), db')" by simp
  from funding_needs_a_valid_tier [OF this sample_kyc_ok] show ?thesis by blast
qed

theorem expired_customer_is_locked_out_witness:
  "withTransaction (assertIdentityVerificationTier (stepup_config 9000) ''ana'' 100) sample_kyc =
     (Inl (AppError 403 ''credit_funding_verification_required''), sample_kyc)"
proof -
  have "expired_at (cf_now (stepup_config 9000)) verified_row"
    by (simp add: stepup_config_def expired_at_def verified_row_def)
  from expired_customer_is_locked_out [OF sample_kyc_ok verified_row_known(1,2) this verified_row_known(3), of "''didit''" 1]
  show ?thesis by simp
qed

end
