(* ===== verification/FundingCompliance.thy ===== *)
theory FundingCompliance
  imports IdentityProperties CreditHolds RailMath
begin

text \<open>
  The compliance choke point of fiat funding (\<open>services/fiatComplianceService.js\<close>): rail, amount, issuance
  capacity, identity tier, sanctions and accepted disclosures, in one transaction, with an audit row for every
  decision. A denial is recorded in a transaction of its own, because the one that found it is rolled back.
  Whether the current disclosure texts were accepted (\<open>creditCompliance/disclosureService.js\<close>, which renders
  and hashes the texts) is the parameter \<open>fe_accepted\<close>.
\<close>

section \<open>Numbers in JSON payloads\<close>

text \<open>
  \<open>Number(text)\<close>: the empty text is \<open>0\<close>, integers in any radix as \<open>BigInt\<close> reads them, and decimal literals
  \<open>[+-] digits [. digits] [e [+-] digits]\<close>.
\<close>

definition split_at :: "(char \<Rightarrow> bool) \<Rightarrow> string \<Rightarrow> string \<times> string option" where
  "split_at p s = (let a = takeWhile (\<lambda>c. \<not> p c) s; b = dropWhile (\<lambda>c. \<not> p c) s in
     (a, case b of [] \<Rightarrow> None | _ # r \<Rightarrow> Some r))"

definition strip_sign :: "string \<Rightarrow> bool \<times> string" where
  "strip_sign s = (case s of [] \<Rightarrow> (False, []) | c # r \<Rightarrow>
     if c = CHR ''-'' then (True, r) else if c = CHR ''+'' then (False, r) else (False, s))"

definition decimal_value :: "string \<Rightarrow> jsnum" where
  "decimal_value s =
     (let (neg, u) = strip_sign s;
          (mantissa, exponent) = split_at (\<lambda>c. c = CHR ''e'' \<or> c = CHR ''E'') u;
          (whole, fraction) = split_at (\<lambda>c. c = CHR ''.'') mantissa;
          frac = (case fraction of None \<Rightarrow> [] | Some f \<Rightarrow> f);
          (eneg, edigits) = (case exponent of None \<Rightarrow> (False, ''0'') | Some e \<Rightarrow> strip_sign e) in
      if u = ''Infinity'' then (if neg then JNegInf else JInf)
      else if whole @ frac = [] \<or> edigits = [] \<or> \<not> list_all is_digit (whole @ frac @ edigits) then JNaN
      else let m = of_nat (read_nat (whole @ frac)) / 10 ^ length frac; e = 10 ^ read_nat edigits;
               q = (if eneg then m / e else m * e) in
        JFin (rnd (if neg then - q else q)))"

definition js_Number_text :: "string \<Rightarrow> jsnum" where
  "js_Number_text s =
     (let t = js_trim s in
      if t = [] then JInt 0
      else case bigint_of_string t of Some n \<Rightarrow> number_of_bigint n | None \<Rightarrow> decimal_value t)"

text \<open>\<open>Number(value)\<close> of a JSON value; a missing property is \<open>undefined\<close>.\<close>

definition js_Number :: "json option \<Rightarrow> jsnum" where
  "js_Number value =
     (case value of
        None \<Rightarrow> JNaN
      | Some NullJ \<Rightarrow> JInt 0
      | Some (BoolJ b) \<Rightarrow> if b then JInt 1 else JInt 0
      | Some (IntJ i) \<Rightarrow> number_of_bigint i
      | Some (TextJ s) \<Rightarrow> js_Number_text s
      | Some (ListJ xs) \<Rightarrow> js_Number_text (js_String (ListJ xs))
      | Some (ObjJ _) \<Rightarrow> JNaN)"

section \<open>The database of the governance services\<close>

text \<open>\<open>settlement_net\<close> and \<open>withdrawal_amount\<close> are the amount columns of two tables that only their rows are read of.\<close>

datatype action_status = Undecided | Approved | Rejected | Expired_action

record pending_action =
  pd_id :: int
  pd_type :: string
  pd_payload :: json
  pd_requested_by :: string
  pd_status :: action_status
  pd_decided_by :: "string option"
  pd_decided_at :: "int option"
  pd_reason :: "string option"
  pd_expires :: "int option"
  pd_key :: string
  pd_refs :: json

record world =
  books :: ledger
  kyc :: kyc_db
  stepups :: stepup_db
  actions :: "pending_action list"
  single_admin_flag :: "bool option"          \<comment> \<open>the feature flag \<open>credit_single_admin_self_approval\<close>\<close>
  settlement_net :: "(string \<times> int) list"
  withdrawal_amount :: "(string \<times> int) list"

definition on_books :: "'a credit \<Rightarrow> (world, 'a) tx" where
  "on_books m = (\<lambda>w. case m (books w) of (r, b) \<Rightarrow> (r, w\<lparr>books := b\<rparr>))"

definition on_kyc :: "'a kyc \<Rightarrow> (world, 'a) tx" where
  "on_kyc m = (\<lambda>w. case m (kyc w) of (r, k) \<Rightarrow> (r, w\<lparr>kyc := k\<rparr>))"

definition on_stepups :: "'a stepup \<Rightarrow> (world, 'a) tx" where
  "on_stepups m = (\<lambda>w. case m (stepups w) of (r, s) \<Rightarrow> (r, w\<lparr>stepups := s\<rparr>))"

definition write_event :: "event \<Rightarrow> (world, unit) tx" where
  "write_event e = on_kyc (modify (\<lambda>k. k\<lparr>kyc_trail := kyc_trail k @ [e]\<rparr>))"

section \<open>Evaluating a funding\<close>

record funding_env =
  fe_step :: stepup_env
  fe_accepted :: "string \<Rightarrow> string \<Rightarrow> bool"

abbreviation fe_cf :: "('a funding_env_scheme) \<Rightarrow> config" where
  "fe_cf en \<equiv> se_cf (fe_step en)"

record funding_request =
  fq_customer :: "string option"
  fq_amount :: jsnum
  fq_currency :: "string option"
  fq_method :: "string option"
  fq_actor :: "string option"
  fq_correlation :: "string option"
  fq_skipIssuance :: bool

definition MAX_TRANSACTION_CENTS :: "config \<Rightarrow> int" where
  "MAX_TRANSACTION_CENTS cf = envMinor (le_env (cf_limit_env cf)) ''OXSTEED_CREDIT_MAX_TRANSACTION_CENTS'' 250000"

definition flagOn :: "config \<Rightarrow> string \<Rightarrow> bool" where
  "flagOn cf name = (js_lower (js_trim (case env_text cf name of None \<Rightarrow> [] | Some s \<Rightarrow> s)) = ''true'')"

definition assertPreAcquisitionAccepted :: "funding_env \<Rightarrow> string \<Rightarrow> string \<Rightarrow> (world, unit) tx" where
  "assertPreAcquisitionAccepted en customer currency =
     require (\<not> flagOn (fe_cf en) ''OXSTEED_CREDIT_REQUIRE_DISCLOSURE_ACCEPTANCE'' \<or> fe_accepted en customer currency)
       (AppError 409 ''credit_disclosure_acceptance_required'')"

text \<open>The resource of a compliance event; times are printed in milliseconds.\<close>

definition funding_event :: "funding_env \<Rightarrow> funding_request \<Rightarrow> string \<Rightarrow> string \<Rightarrow> string \<Rightarrow> string \<Rightarrow> json \<Rightarrow> event" where
  "funding_event en rq action customer kind reason details =
     \<lparr>ev_action = action, ev_actor = or_null (fq_actor rq), ev_customer = Some customer,
      ev_resource = (''fiat_funding'', (case or_null (fq_correlation rq) of
        Some c \<Rightarrow> c | None \<Rightarrow> kind @ '':'' @ customer @ '':'' @ show_int (cf_now (fe_cf en)))),
      ev_reason = screening_normalizeString (Some reason) 1000, ev_details = details\<rparr>"

text \<open>The checks of the customer, and the audit row of a passed evaluation.\<close>

definition funding_clearance :: "funding_env \<Rightarrow> funding_request \<Rightarrow> string \<Rightarrow> string \<Rightarrow> int \<Rightarrow> string \<Rightarrow> (world, int) tx" where
  "funding_clearance en rq customer kind amount currency =
     bind (on_kyc (assertIdentityVerificationTier (fe_cf en) customer amount)) (\<lambda>(tier, _).
     bind (on_books (assertSanctionsClear (fe_cf en) ''customer'' customer)) (\<lambda>cleared.
     bind (if kind \<noteq> ''credit_dispute_provisional'' then assertPreAcquisitionAccepted en customer currency else ret ()) (\<lambda>_.
     bind (write_event (funding_event en rq ''fiat.funding_compliance_evaluated'' customer kind
            (''Fiat funding compliance passed for '' @ kind)
            (ObjJ [(''allowed'', BoolJ True), (''amountCents'', IntJ amount), (''currencyCode'', TextJ currency),
                   (''fundingMethod'', TextJ kind), (''identityTier'', IntJ tier), (''sanctionsCleared'', BoolJ cleared)]))) (\<lambda>_.
     ret tier))))"

definition funding_checks :: "funding_env \<Rightarrow> funding_request \<Rightarrow> string \<Rightarrow> string \<Rightarrow> (world, int) tx" where
  "funding_checks en rq customer kind =
     bind (on_books (assertCreditRailEnabled False)) (\<lambda>_.
     case positive_integer (fq_amount rq) of
       None \<Rightarrow> fail (AppError 400 ''fiat_compliance_amount_invalid'')
     | Some amount \<Rightarrow>
     if MAX_TRANSACTION_CENTS (fe_cf en) < amount then fail (AppError 402 ''fiat_compliance_amount_limit'')
     else
       bind (lift_res (assertSupportedCreditCurrency (fe_cf en) (fq_currency rq))) (\<lambda>currency.
       bind (if fq_skipIssuance rq then ret ()
             else bind (gets (\<lambda>w. assertIssuanceCapacity (fe_cf en) amount (Some currency) customer (books w))) lift_res) (\<lambda>_.
       funding_clearance en rq customer kind amount currency)))"

definition evaluateFundingCompliance :: "funding_env \<Rightarrow> funding_request \<Rightarrow> (world, int) tx" where
  "evaluateFundingCompliance en rq =
     (case or_null (fq_customer rq) of
        None \<Rightarrow> fail (AppError 400 ''fiat_compliance_customer_required'')
      | Some customer \<Rightarrow>
      let kind = screening_normalizeString (fq_method rq) 64 in
      if kind = [] then fail (AppError 400 ''fiat_compliance_method_required'')
      else try_catch (withTransaction (funding_checks en rq customer kind)) (\<lambda>e.
        case e of
          AppError status code \<Rightarrow>
            bind (withTransaction (write_event (funding_event en rq ''fiat.funding_compliance_denied'' customer kind
                    (''Fiat funding compliance denied for '' @ kind @ '': '' @ code)
                    (ObjJ [(''allowed'', BoolJ False), (''fundingMethod'', TextJ kind), (''denialCode'', TextJ code),
                           (''denialStatus'', IntJ (int status))])))) (\<lambda>_.
            fail e)
        | _ \<Rightarrow> fail e))"

end
