(* ===== verification/PendingActions.thy ===== *)
theory PendingActions
  imports FundingCompliance
begin

text \<open>
  Dual approval of administrators' money movements (\<open>services/oxsteedCreditPendingActionService.js\<close>): the maker's
  request, the checker's decision with the execution of the action, oversight actions, and the sweeper. The
  decision runs in one transaction, but the step-up check, the compliance check and the executors of loads,
  adjustments, refunds and captures open transactions of their own on other connections of the pool: the model keeps the
  committed database and what the deciding transaction sees apart.

  The executors of the actions whose services are not part of this development, and the registry of oversight
  actions, are the fields \<open>de_other\<close> and \<open>de_oversight\<close> of the environment.
\<close>

section \<open>A transaction and its other connections\<close>

record connection =
  committed :: world
  seen :: world

text \<open>A statement of the transaction itself.\<close>

definition own :: "(world, 'a) tx \<Rightarrow> (connection, 'a) tx" where
  "own m = (\<lambda>c. case m (seen c) of (r, w) \<Rightarrow> (r, c\<lparr>seen := w\<rparr>))"

text \<open>
  A handler on another connection. The code calls them only before the first write of the deciding transaction, so
  what they commit is what the transaction sees next.
\<close>

definition elsewhere :: "(world, 'a) tx \<Rightarrow> (connection, 'a) tx" where
  "elsewhere m = (\<lambda>c. case m (committed c) of (r, w) \<Rightarrow> (r, \<lparr>committed = w, seen = w\<rparr>))"

text \<open>BEGIN ... COMMIT: on a throw only the transaction's own writes are undone.\<close>

definition in_decision :: "(connection, 'a) tx \<Rightarrow> (world, 'a) tx" where
  "in_decision m = (\<lambda>w. case m \<lparr>committed = w, seen = w\<rparr> of (Inl e, c) \<Rightarrow> (Inl e, committed c) | (Inr r, c) \<Rightarrow> (Inr r, seen c))"

text \<open>The same with the connection lost before COMMIT.\<close>

definition lost_decision :: "(connection, 'a) tx \<Rightarrow> (world, 'a) tx" where
  "lost_decision m = (\<lambda>w. case m \<lparr>committed = w, seen = w\<rparr> of (Inl e, c) \<Rightarrow> (Inl e, committed c) | (Inr r, c) \<Rightarrow> (Inl (JsError ''connection terminated''), committed c))"

section \<open>Payloads\<close>

definition json_truthy :: "json \<Rightarrow> bool" where
  "json_truthy v = (case v of NullJ \<Rightarrow> False | BoolJ b \<Rightarrow> b | IntJ i \<Rightarrow> i \<noteq> 0 | TextJ s \<Rightarrow> s \<noteq> [] | _ \<Rightarrow> True)"

text \<open>\<open>a ?? b\<close> and \<open>a || b\<close> on properties; a missing property is \<open>undefined\<close>.\<close>

definition nullish :: "json option \<Rightarrow> json option \<Rightarrow> json option" where
  "nullish a b = (case a of None \<Rightarrow> b | Some v \<Rightarrow> if v = NullJ then b else a)"

definition falsy_or :: "json option \<Rightarrow> json option \<Rightarrow> json option" where
  "falsy_or a b = (case a of None \<Rightarrow> b | Some v \<Rightarrow> if json_truthy v then a else b)"

text \<open>A property where the code wants a text: anything else counts as missing.\<close>

definition json_text :: "json option \<Rightarrow> string option" where
  "json_text v = (case v of Some (TextJ s) \<Rightarrow> Some s | _ \<Rightarrow> None)"

definition json_texts :: "json option \<Rightarrow> string list" where
  "json_texts v = (case v of Some (ListJ xs) \<Rightarrow> map js_String xs | _ \<Rightarrow> [])"

text \<open>A row identifier; ledger rows are numbered from 1, so 0 is no row.\<close>

definition json_id :: "json option \<Rightarrow> int" where
  "json_id v = (case v of Some (IntJ i) \<Rightarrow> i | Some (TextJ s) \<Rightarrow> (case bigint_of_string s of Some i \<Rightarrow> i | None \<Rightarrow> 0) | _ \<Rightarrow> 0)"

definition currency_of_json :: "json option \<Rightarrow> currency_arg" where
  "currency_of_json v = (if v = Some NullJ then None else Some (json_text v))"

definition parseAmount :: "json option \<Rightarrow> int option" where
  "parseAmount v = (case safe_int (js_Number v) of None \<Rightarrow> None | Some n \<Rightarrow> if 0 \<le> n then Some n else None)"

fun sortKeysDeep :: "json \<Rightarrow> json" where
  "sortKeysDeep (ListJ xs) = ListJ (map sortKeysDeep xs)"
| "sortKeysDeep (ObjJ kvs) = ObjJ (sort_key fst (map (\<lambda>(k, v). (k, sortKeysDeep v)) kvs))"
| "sortKeysDeep v = v"

definition stripStoredIdempotencyKey :: "json \<Rightarrow> json" where
  "stripStoredIdempotencyKey payload =
     (case payload of ObjJ kvs \<Rightarrow> ObjJ (filter (\<lambda>(k, _). k \<noteq> ''idempotencyKey'') kvs)
      | _ \<Rightarrow> if json_truthy payload then payload else ObjJ [])"

text \<open>Two sorted values have the same JSON text when they are the same value.\<close>

definition payloadsEqual :: "json \<Rightarrow> json \<Rightarrow> bool" where
  "payloadsEqual a b = (sortKeysDeep a = sortKeysDeep b)"

definition with_key :: "json \<Rightarrow> string \<Rightarrow> json" where
  "with_key payload key = spread payload (ObjJ [(''idempotencyKey'', TextJ key)])"

section \<open>Action types and amounts\<close>

definition ACTION_TYPES :: "string list" where
  "ACTION_TYPES =
    [''credit_load'', ''credit_adjustment'', ''credit_refund'', ''credit_hold_capture'', ''credit_settlement_approval'',
     ''credit_settlement_payout'', ''credit_settlement_reversal'', ''credit_withdrawal_approval'', ''credit_fee_schedule_update'',
     ''credit_reserve_policy_update'', ''credit_restaurant_conversion_policy_update'', ''credit_partner_funding'',
     ''credit_partner_activation'', ''credit_participant_activation'', ''credit_currency_quote'',
     ''credit_dispute_provisional_credit'', ''credit_dispute_resolve'']"

definition PENDING_ACTION_TTL_HOURS :: "config \<Rightarrow> int" where
  "PENDING_ACTION_TTL_HOURS cf = env_positive cf ''OXSTEED_CREDIT_PENDING_ACTION_TTL_HOURS'' 24"

definition settlement_amount :: "world \<Rightarrow> json option \<Rightarrow> int option" where
  "settlement_amount w i =
     (case i of None \<Rightarrow> None | Some v \<Rightarrow> if \<not> json_truthy v then None
      else Option.bind (map_of (settlement_net w) (js_String v)) (\<lambda>n. parseAmount (Some (IntJ n))))"

definition resolveActionAmountCents :: "string \<Rightarrow> json \<Rightarrow> world \<Rightarrow> int option" where
  "resolveActionAmountCents actionType p w =
     (if actionType \<in> {''credit_load'', ''credit_adjustment'', ''credit_refund'', ''credit_hold_capture'', ''credit_withdrawal_approval'',
          ''credit_partner_funding'', ''credit_dispute_provisional_credit''}
      then parseAmount (nullish (field p ''amountCents'') (field p ''amount_cents''))
      else if actionType = ''credit_dispute_resolve''
      then parseAmount (nullish (nullish (field p ''compensationCents'') (field p ''compensation_cents'')) (Some (IntJ 0)))
      else if actionType = ''credit_currency_quote''
      then parseAmount (nullish (field p ''sourceAmountMinorUnits'') (field p ''source_amount_minor_units''))
      else if actionType \<in> {''credit_settlement_approval'', ''credit_settlement_payout'', ''credit_settlement_reversal''}
      then settlement_amount w (falsy_or (field p ''settlementId'') (field p ''settlement_id''))
      else None)"

definition positive_amount :: "int option \<Rightarrow> int option" where
  "positive_amount x = (case x of Some n \<Rightarrow> if 0 < n then Some n else None | None \<Rightarrow> None)"

definition resolveCheckerStepupAmountCents :: "json \<Rightarrow> world \<Rightarrow> int option" where
  "resolveCheckerStepupAmountCents p w =
     (case positive_amount (parseAmount (nullish (field p ''amountCents'') (field p ''amount_cents''))) of
        Some n \<Rightarrow> Some n
      | None \<Rightarrow> (case positive_amount (settlement_amount w (falsy_or (field p ''settlementId'') (field p ''settlement_id''))) of
          Some n \<Rightarrow> Some n
        | None \<Rightarrow> (case falsy_or (field p ''withdrawalId'') (field p ''withdrawal_id'') of
            None \<Rightarrow> None
          | Some v \<Rightarrow> if \<not> json_truthy v then None
              else positive_amount (Option.bind (map_of (withdrawal_amount w) (js_String v)) (\<lambda>n. parseAmount (Some (IntJ n)))))))"

section \<open>The environment\<close>

record exec_context =
  xc_payload :: json
  xc_requestedBy :: string
  xc_actor :: string
  xc_ip :: "string option"
  xc_correlation :: "string option"

type_synonym executor = "exec_context \<Rightarrow> (connection, json) tx"

record desk_env =
  de_funding :: funding_env
  de_other :: "string \<Rightarrow> executor"
  de_oversight :: "string list"
  de_run_oversight :: "string \<Rightarrow> executor"
  de_validate :: "string \<Rightarrow> json \<Rightarrow> unit res"

abbreviation de_step :: "('a desk_env_scheme) \<Rightarrow> stepup_env" where
  "de_step en \<equiv> fe_step (de_funding en)"

abbreviation de_cf :: "('a desk_env_scheme) \<Rightarrow> config" where
  "de_cf en \<equiv> se_cf (de_step en)"

definition action_event :: "string \<Rightarrow> string option \<Rightarrow> int \<Rightarrow> string \<Rightarrow> json \<Rightarrow> event" where
  "action_event name actor i reason details =
     \<lparr>ev_action = name, ev_actor = actor, ev_customer = None, ev_resource = (''pending_action'', show_int i),
      ev_reason = screening_normalizeString (Some reason) 1000, ev_details = details\<rparr>"

section \<open>The maker\<close>

record action_request =
  aq_type :: "string option"
  aq_payload :: json                 \<comment> \<open>\<open>payload || {}\<close>\<close>
  aq_by :: "string option"
  aq_key :: "string option"

record action_receipt =
  ar_action :: pending_action
  ar_replayed :: bool
  ar_terminal :: bool

definition settlement_of :: "json \<Rightarrow> string option" where
  "settlement_of p = (case field p ''settlementId'' of None \<Rightarrow> None | Some v \<Rightarrow> if v = NullJ then None else Some (js_String v))"

definition queued_for :: "string \<Rightarrow> string \<Rightarrow> world \<Rightarrow> bool" where
  "queued_for actionType settlement w =
     list_ex (\<lambda>a. pd_type a = actionType \<and> pd_status a = Undecided \<and> settlement_of (pd_payload a) = Some settlement) (actions w)"

text \<open>The INSERT with its two unique indexes: the key, and one undecided action per type and settlement.\<close>

definition insert_action :: "pending_action \<Rightarrow> (world, pending_action) tx" where
  "insert_action a =
     (\<lambda>w. if list_ex (\<lambda>x. pd_key x = pd_key a) (actions w) \<or>
             (case settlement_of (pd_payload a) of None \<Rightarrow> False | Some s \<Rightarrow> queued_for (pd_type a) s w)
          then (Inl (PgError ''23505''), w)
          else let row = a\<lparr>pd_id := next_id (map pd_id (actions w))\<rparr> in (Inr row, w\<lparr>actions := actions w @ [row]\<rparr>))"

definition payout_queued :: "string \<Rightarrow> json \<Rightarrow> world \<Rightarrow> bool" where
  "payout_queued actionType p w \<longleftrightarrow> actionType = ''credit_settlement_payout'' \<and>
     (case field p ''settlementId'' of None \<Rightarrow> False
      | Some v \<Rightarrow> json_truthy v \<and> queued_for ''credit_settlement_payout'' (js_String v) w)"

text \<open>What a request answers when its key is taken.\<close>

definition replay_request :: "action_request \<Rightarrow> string \<Rightarrow> string \<Rightarrow> (world, action_receipt) tx" where
  "replay_request rq actionType key =
     bind (gets (\<lambda>w. (find (\<lambda>a. pd_key a = key) (actions w), payout_queued actionType (aq_payload rq) w))) (\<lambda>(row, queued).
     case row of
       None \<Rightarrow> fail (if queued then AppError 409 ''credit_settlement_payout_already_queued'' else PgError ''23505'')
     | Some a \<Rightarrow>
         if pd_type a \<noteq> actionType \<or> \<not> payloadsEqual (stripStoredIdempotencyKey (pd_payload a)) (aq_payload rq)
         then fail (AppError 409 ''credit_pending_action_idempotency_conflict'')
         else ret \<lparr>ar_action = a, ar_replayed = True, ar_terminal = (pd_status a \<noteq> Undecided)\<rparr>)"

definition requestPendingAction :: "desk_env \<Rightarrow> action_request \<Rightarrow> (world, action_receipt) tx" where
  "requestPendingAction en rq =
     (let actionType = screening_normalizeString (aq_type rq) 60;
          oversight = (actionType \<in> set (de_oversight en));
          key = screening_normalizeString (aq_key rq) 200 in
      bind (if oversight then ret () else on_books (assertCreditRailEnabled False)) (\<lambda>_.
      if actionType \<notin> set ACTION_TYPES \<and> \<not> oversight then fail (AppError 400 ''credit_pending_action_type_invalid'')
      else case or_null (aq_by rq) of
        None \<Rightarrow> fail (AppError 403 ''credit_pending_action_actor_required'')
      | Some requestedBy \<Rightarrow>
      if key = [] then fail (AppError 400 ''credit_pending_action_idempotency_required'')
      else bind (gets (payout_queued actionType (aq_payload rq))) (\<lambda>queued.
      if queued then fail (AppError 409 ''credit_settlement_payout_already_queued'')
      else
        let storedPayload = with_key (aq_payload rq) key in
        bind (lift_res (if oversight then de_validate en actionType storedPayload else Inr ())) (\<lambda>_.
        bind (gets (resolveActionAmountCents actionType storedPayload)) (\<lambda>amountCents.
        try_catch
          (withTransaction (
             bind (insert_action \<lparr>pd_id = 0, pd_type = actionType, pd_payload = storedPayload, pd_requested_by = requestedBy,
                     pd_status = Undecided, pd_decided_by = None, pd_decided_at = None, pd_reason = None,
                     pd_expires = Some (cf_now (de_cf en) + PENDING_ACTION_TTL_HOURS (de_cf en) * 3600 * 1000), pd_key = key,
                     pd_refs = ObjJ []\<rparr>) (\<lambda>row.
             bind (write_event (action_event ''credit.pending_action.requested'' (Some requestedBy) (pd_id row)
                    (''Maker requested '' @ actionType)
                    (ObjJ [(''actionType'', TextJ actionType), (''amountCents'', case amountCents of None \<Rightarrow> NullJ | Some n \<Rightarrow> IntJ n)]))) (\<lambda>_.
             ret \<lparr>ar_action = row, ar_replayed = False, ar_terminal = False\<rparr>))))
          (\<lambda>e. if e = PgError ''23505'' then replay_request rq actionType key else fail e))))))"

section \<open>The executors\<close>

text \<open>\<open>registerOversightAction\<close>: the names registered so far; an executor of the same name replaces the old one.\<close>

definition registerOversightAction :: "string option \<Rightarrow> string list \<Rightarrow> string list res" where
  "registerOversightAction actionType names =
     (let t = screening_normalizeString actionType 60 in
      if t = [] then Inl (JsError ''Oversight action needs a type and an executor'')
      else if t \<in> set ACTION_TYPES then Inl (JsError ''Oversight action collides with a money action'')
      else Inr (if t \<in> set names then names else names @ [t]))"

definition approved_metadata :: "exec_context \<Rightarrow> json" where
  "approved_metadata x = spread (case falsy_or (field (xc_payload x) ''metadata'') None of None \<Rightarrow> ObjJ [] | Some m \<Rightarrow> m)
     (ObjJ [(''approvedBy'', TextJ (xc_actor x))])"

abbreviation payload_text :: "exec_context \<Rightarrow> string \<Rightarrow> string option" where
  "payload_text x k \<equiv> json_text (field (xc_payload x) k)"

definition load_of :: "exec_context \<Rightarrow> load_request" where
  "load_of x = \<lparr>ld_customer = string_of (payload_text x ''customerId''), ld_amount = js_Number (field (xc_payload x) ''amountCents''),
     ld_currency = currency_of_json (field (xc_payload x) ''currencyCode''), ld_key = payload_text x ''idempotencyKey'',
     ld_actor = Some (xc_actor x), ld_reason = payload_text x ''reason'', ld_refType = Some ''admin_load'',
     ld_refId = payload_text x ''referenceId'', ld_correlation = xc_correlation x, ld_ip = xc_ip x, ld_metadata = approved_metadata x\<rparr>"

definition adjust_of :: "exec_context \<Rightarrow> adjust_request" where
  "adjust_of x = \<lparr>ad_customer = string_of (payload_text x ''customerId''), ad_amount = js_Number (field (xc_payload x) ''amountCents''),
     ad_currency = currency_of_json (field (xc_payload x) ''currencyCode''), ad_direction = string_of (payload_text x ''direction''),
     ad_key = payload_text x ''idempotencyKey'', ad_actor = Some (xc_actor x), ad_actorType = None, ad_reason = payload_text x ''reason'',
     ad_refType = Some ''admin_adjustment'', ad_refId = payload_text x ''referenceId'', ad_correlation = xc_correlation x,
     ad_ip = xc_ip x, ad_metadata = approved_metadata x, ad_mediaOwner = False\<rparr>"

definition refund_of :: "exec_context \<Rightarrow> refund_request" where
  "refund_of x = \<lparr>rf_purchase = json_id (field (xc_payload x) ''purchaseTransactionId''),
     rf_amount = js_Number (field (xc_payload x) ''amountCents''), rf_key = payload_text x ''idempotencyKey'', rf_actor = Some (xc_actor x),
     rf_actorType = Some ''admin'', rf_reason = payload_text x ''reason'', rf_correlation = xc_correlation x, rf_ip = xc_ip x,
     rf_metadata = approved_metadata x\<rparr>"

text \<open>The customer, partner and agreement of a capture are those of the hold.\<close>

definition capture_of :: "exec_context \<Rightarrow> capture_request" where
  "capture_of x = \<lparr>cq_hold = json_id (field (xc_payload x) ''holdId''),
     cq_amount = (case nullish (field (xc_payload x) ''amountCents'') None of None \<Rightarrow> None | Some v \<Rightarrow> Some (js_Number (Some v))),
     cq_currency = (case nullish (field (xc_payload x) ''currencyCode'') None of None \<Rightarrow> None | Some v \<Rightarrow> Some (json_text (Some v))),
     cq_key = payload_text x ''idempotencyKey'', cq_actor = Some (xc_actor x), cq_actorType = Some ''admin'',
     cq_order = \<lparr>sr_customer = [], sr_partner = 0, sr_participant = None, sr_surface = [], sr_agreement = None,
       sr_orderType = payload_text x ''orderType'', sr_category = payload_text x ''category'',
       sr_categories = json_texts (field (xc_payload x) ''categories''), sr_menuItem = payload_text x ''menuItemId'',
       sr_menuItems = json_texts (field (xc_payload x) ''menuItemIds''), sr_city = payload_text x ''city'', sr_state = payload_text x ''state'',
       sr_postalCode = payload_text x ''postalCode'', sr_country = payload_text x ''country'', sr_excludeHold = None\<rparr>,
     cq_refType = payload_text x ''referenceType'', cq_refId = payload_text x ''referenceId'', cq_correlation = xc_correlation x,
     cq_ip = xc_ip x, cq_description = payload_text x ''description'', cq_reason = payload_text x ''reason'',
     cq_metadata = approved_metadata x, cq_allowAdjust = False\<rparr>"

text \<open>The numbers and the switch of a fee update, as JSON values of their type.\<close>

definition json_int :: "json option \<Rightarrow> int option" where
  "json_int v = (case v of Some (IntJ i) \<Rightarrow> Some i | _ \<Rightarrow> None)"

definition fee_update_of :: "json \<Rightarrow> fee_update" where
  "fee_update_of p = \<lparr>fu_fixed = json_int (field p ''fixedCents''), fu_bps = json_int (field p ''percentageBps''),
     fu_min = json_int (field p ''minFeeCents''),
     fu_max = (if field p ''maxFeeCents'' = Some NullJ then Some None else map_option Some (json_int (field p ''maxFeeCents''))),
     fu_active = (case field p ''isActive'' of Some (BoolJ b) \<Rightarrow> Some b | _ \<Rightarrow> None)\<rparr>"

text \<open>The stored references of a posting: its transaction and whether it was a replay.\<close>

definition posting_refs :: "posting \<Rightarrow> json" where
  "posting_refs p = ObjJ [(''transactionId'', IntJ (tx_id (po_txn p))), (''replayed'', BoolJ (po_replayed p))]"

definition capture_refs :: "capture_result \<Rightarrow> json" where
  "capture_refs r = ObjJ [(''holdId'', IntJ (ho_id (cr_hold r))), (''expired'', BoolJ (cr_expired r)), (''replayed'', BoolJ (cr_replayed r))]"

definition execute_fee_update :: "desk_env \<Rightarrow> executor" where
  "execute_fee_update en x =
     bind (own (on_books (updateFeeScheduleRow (json_id (field (xc_payload x) ''id'')) (fee_update_of (xc_payload x))))) (\<lambda>row.
     case row of
       None \<Rightarrow> fail (AppError 404 ''credit_fee_schedule_not_found'')
     | Some r \<Rightarrow>
         bind (own (write_event \<lparr>ev_action = ''credit.fee_schedule.updated'', ev_actor = Some (xc_actor x), ev_customer = None,
                 ev_resource = (''fee_schedule'', show_int (fe_id r)),
                 ev_reason = screening_normalizeString (Some (case or_null (payload_text x ''reason'') of None \<Rightarrow> ''Fee schedule updated'' | Some t \<Rightarrow> t)) 1000,
                 ev_details = ObjJ [(''approvedBy'', TextJ (xc_actor x))]\<rparr>)) (\<lambda>_.
         ret (ObjJ [(''id'', IntJ (fe_id r))])))"

definition map_result :: "('a \<Rightarrow> 'b) \<Rightarrow> ('s, 'a) tx \<Rightarrow> ('s, 'b) tx" where
  "map_result f m = bind m (\<lambda>a. ret (f a))"

definition executor_of :: "desk_env \<Rightarrow> string \<Rightarrow> executor option" where
  "executor_of en actionType =
     (if actionType = ''credit_load'' then
        Some (\<lambda>x. elsewhere (on_books (map_result posting_refs (loadCustomerCredit (de_cf en) (load_of x)))))
      else if actionType = ''credit_adjustment'' then
        Some (\<lambda>x. elsewhere (on_books (map_result posting_refs (adjustCustomerCredit (de_cf en) (adjust_of x)))))
      else if actionType = ''credit_refund'' then
        Some (\<lambda>x. elsewhere (on_books (map_result posting_refs (refundCredit (de_cf en) (refund_of x)))))
      else if actionType = ''credit_hold_capture'' then
        Some (\<lambda>x. elsewhere (on_books (map_result capture_refs (captureCreditHold (de_cf en) (capture_of x)))))
      else if actionType = ''credit_fee_schedule_update'' then Some (execute_fee_update en)
      else if actionType \<in> set ACTION_TYPES then Some (de_other en actionType)
      else if actionType \<in> set (de_oversight en) then Some (de_run_oversight en actionType)
      else None)"

section \<open>The checker\<close>

record decision_request =
  dq_action :: int
  dq_by :: "string option"
  dq_decision :: "string option"
  dq_reason :: "string option"
  dq_challenge :: "string option"
  dq_code :: "string option"
  dq_ip :: "string option"
  dq_correlation :: "string option"

record decision_result =
  dr_action :: pending_action
  dr_result :: json
  dr_replayed :: bool

definition decision_of :: "string option \<Rightarrow> bool option" where
  "decision_of d =
     (let t = js_lower (js_trim (string_of d)) in
      if t = ''approved'' \<or> t = ''approve'' then Some True
      else if t = ''rejected'' \<or> t = ''reject'' then Some False else None)"

definition super_admins :: "world \<Rightarrow> int" where
  "super_admins w =
     int (length (filter (\<lambda>u. ad_role u = ''super_admin'' \<and> ad_active u \<and> \<not> ad_deleted u) (administrators (stepups w))))"

definition singleAdminBreakGlassAllowed :: "world \<Rightarrow> bool" where
  "singleAdminBreakGlassAllowed w \<longleftrightarrow> single_admin_flag w = Some True \<and> super_admins w < 2"

definition update_action :: "int \<Rightarrow> (pending_action \<Rightarrow> pending_action) \<Rightarrow> (world, unit) tx" where
  "update_action i f = modify (\<lambda>w. w\<lparr>actions := upd_where (\<lambda>a. pd_id a = i) f (actions w)\<rparr>)"

definition decided_event :: "pending_action \<Rightarrow> string \<Rightarrow> string \<Rightarrow> string \<Rightarrow> bool \<Rightarrow> event" where
  "decided_event a decidedBy reason decision selfApproved =
     action_event ''credit.pending_action.decided'' (Some decidedBy) (pd_id a) reason
       (ObjJ [(''actionType'', TextJ (pd_type a)), (''decision'', TextJ decision), (''requestedBy'', TextJ (pd_requested_by a)),
              (''selfApproved'', BoolJ selfApproved)])"

definition reload_action :: "int \<Rightarrow> json \<Rightarrow> (connection, decision_result) tx" where
  "reload_action i result =
     bind (gets (\<lambda>c. find (\<lambda>a. pd_id a = i) (actions (seen c)))) (\<lambda>row.
     case row of None \<Rightarrow> fail (JsError ''TypeError'')
     | Some a \<Rightarrow> ret \<lparr>dr_action = a, dr_result = result, dr_replayed = False\<rparr>)"

text \<open>Compliance again, at the moment the money moves.\<close>

definition recheck_compliance :: "desk_env \<Rightarrow> decision_request \<Rightarrow> string \<Rightarrow> json \<Rightarrow> string \<Rightarrow> (connection, unit) tx" where
  "recheck_compliance en rq decidedBy p actionType =
     (let funding = (\<lambda>customer currency kind skip. \<lparr>fq_customer = customer, fq_amount = js_Number (field p ''amountCents''),
            fq_currency = currency, fq_method = Some kind, fq_actor = Some decidedBy, fq_correlation = dq_correlation rq,
            fq_skipIssuance = skip\<rparr>) in
      if actionType = ''credit_load'' \<or> actionType = ''credit_adjustment'' then
        bind (elsewhere (evaluateFundingCompliance (de_funding en)
          (funding (json_text (field p ''customerId'')) (json_text (field p ''currencyCode''))
             (if actionType = ''credit_load'' then ''admin_load'' else ''admin_adjustment'') False))) (\<lambda>_. ret ())
      else if actionType = ''credit_refund'' then
        bind (gets (\<lambda>c. findPurchase (json_id (field p ''purchaseTransactionId'')) (books (seen c)))) (\<lambda>purchase.
        case purchase of
          None \<Rightarrow> fail (AppError 404 ''credit_purchase_not_found'')
        | Some (t, a) \<Rightarrow>
            bind (elsewhere (evaluateFundingCompliance (de_funding en)
              (funding (ac_customer a) (Some (tx_currency t)) ''admin_refund'' True))) (\<lambda>_. ret ()))
      else ret ())"

definition reject_action :: "desk_env \<Rightarrow> pending_action \<Rightarrow> string \<Rightarrow> string \<Rightarrow> bool \<Rightarrow> (connection, decision_result) tx" where
  "reject_action en a decidedBy reason selfApproved =
     bind (own (update_action (pd_id a) (\<lambda>r. r\<lparr>pd_status := Rejected, pd_decided_by := Some decidedBy,
             pd_decided_at := Some (cf_now (de_cf en)), pd_reason := Some reason\<rparr>))) (\<lambda>_.
     bind (own (write_event (decided_event a decidedBy reason ''rejected'' selfApproved))) (\<lambda>_.
     reload_action (pd_id a) NullJ))"

definition approve_action :: "desk_env \<Rightarrow> decision_request \<Rightarrow> pending_action \<Rightarrow> string \<Rightarrow> string \<Rightarrow> bool \<Rightarrow> (connection, decision_result) tx" where
  "approve_action en rq a decidedBy reason selfApproved =
     bind (gets (\<lambda>c. resolveCheckerStepupAmountCents (pd_payload a) (seen c))) (\<lambda>expected.
     bind (elsewhere (on_stepups (verifyStepupChallenge (de_step en)
            \<lparr>pr_challenge = dq_challenge rq, pr_actor = decidedBy, pr_action = ''pending_action_approve'', pr_code = dq_code rq,
             pr_expected = map_option JInt expected, pr_tolerance = None\<rparr>))) (\<lambda>_.
     case executor_of en (pd_type a) of
       None \<Rightarrow> fail (AppError 400 ''credit_pending_action_type_invalid'')
     | Some executor \<Rightarrow>
         let storedPayload = with_key (pd_payload a) (pd_key a) in
         bind (recheck_compliance en rq decidedBy storedPayload (pd_type a)) (\<lambda>_.
         bind (executor \<lparr>xc_payload = storedPayload, xc_requestedBy = pd_requested_by a, xc_actor = decidedBy,
                 xc_ip = dq_ip rq, xc_correlation = dq_correlation rq\<rparr>) (\<lambda>result.
         bind (own (update_action (pd_id a) (\<lambda>r. r\<lparr>pd_status := Approved, pd_decided_by := Some decidedBy,
                 pd_decided_at := Some (cf_now (de_cf en)), pd_reason := or_null (Some reason), pd_refs := result\<rparr>))) (\<lambda>_.
         bind (own (write_event (decided_event a decidedBy
                (if reason \<noteq> [] then reason
                 else if selfApproved then ''Single-admin break-glass: maker approved '' @ pd_type a
                 else ''Checker approved '' @ pd_type a) ''approved'' selfApproved))) (\<lambda>_.
         reload_action (pd_id a) result))))))"

definition decide_row :: "desk_env \<Rightarrow> bool \<Rightarrow> decision_request \<Rightarrow> bool \<Rightarrow> string \<Rightarrow> (connection, decision_result) tx" where
  "decide_row en oversightOnly rq approved decidedBy =
     (let reason = screening_normalizeString (dq_reason rq) 2000 in
      bind (gets (\<lambda>c. (find (\<lambda>a. pd_id a = dq_action rq) (actions (seen c)), singleAdminBreakGlassAllowed (seen c)))) (\<lambda>(row, breakGlass).
      case row of
        None \<Rightarrow> fail (AppError 404 ''credit_pending_action_not_found'')
      | Some a \<Rightarrow>
          let oversightAction = (pd_type a \<in> set (de_oversight en)); self = (pd_requested_by a = decidedBy) in
          if oversightOnly \<and> \<not> oversightAction then fail (AppError 400 ''credit_pending_action_type_invalid'')
          else if pd_status a = Approved then ret \<lparr>dr_action = a, dr_result = pd_refs a, dr_replayed = True\<rparr>
          else if pd_status a \<noteq> Undecided then fail (AppError 409 ''credit_pending_action_decided'')
          else if (case pd_expires a of None \<Rightarrow> False | Some e \<Rightarrow> e < cf_now (de_cf en)) then
            bind (own (update_action (pd_id a) (\<lambda>r. r\<lparr>pd_status := Expired_action, pd_decided_at := Some (cf_db_now (de_cf en))\<rparr>))) (\<lambda>_.
            bind (own (write_event (action_event ''credit.pending_action.expired'' (Some decidedBy) (pd_id a)
                   ''Pending action expired before a decision'' (ObjJ [(''actionType'', TextJ (pd_type a))])))) (\<lambda>_.
            fail (AppError 409 ''credit_pending_action_expired'')))
          else if self \<and> (oversightAction \<or> \<not> breakGlass) then fail (AppError 403 ''credit_self_approval_forbidden'')
          else if \<not> approved \<and> reason = [] then fail (AppError 400 ''credit_decision_reason_required'')
          else if \<not> approved then reject_action en a decidedBy reason self
          else approve_action en rq a decidedBy reason self))"

definition decidePendingActionCore :: "desk_env \<Rightarrow> bool \<Rightarrow> decision_request \<Rightarrow> (world, decision_result) tx" where
  "decidePendingActionCore en oversightOnly rq =
     (case decision_of (dq_decision rq) of
        None \<Rightarrow> fail (AppError 400 ''credit_decision_invalid'')
      | Some approved \<Rightarrow> (case or_null (dq_by rq) of
          None \<Rightarrow> fail (AppError 403 ''credit_pending_action_actor_required'')
        | Some decidedBy \<Rightarrow> in_decision (decide_row en oversightOnly rq approved decidedBy)))"

definition decidePendingAction :: "desk_env \<Rightarrow> decision_request \<Rightarrow> (world, decision_result) tx" where
  "decidePendingAction en rq = bind (on_books (assertCreditRailEnabled False)) (\<lambda>_. decidePendingActionCore en False rq)"

definition decideOversightAction :: "desk_env \<Rightarrow> decision_request \<Rightarrow> (world, decision_result) tx" where
  "decideOversightAction en rq = decidePendingActionCore en True rq"

section \<open>The sweeper\<close>

definition stale_action :: "config \<Rightarrow> pending_action \<Rightarrow> bool" where
  "stale_action cf a \<longleftrightarrow> pd_status a = Undecided \<and> (case pd_expires a of None \<Rightarrow> False | Some e \<Rightarrow> e < cf_db_now cf)"

definition expireStalePendingActions :: "config \<Rightarrow> (world, nat) tx" where
  "expireStalePendingActions cf =
     bind (gets (\<lambda>w. filter (stale_action cf) (actions w))) (\<lambda>rows.
     bind (modify (\<lambda>w. w\<lparr>actions := upd_where (stale_action cf)
            (\<lambda>a. a\<lparr>pd_status := Expired_action, pd_decided_at := Some (cf_db_now cf)\<rparr>) (actions w)\<rparr>)) (\<lambda>_.
     bind (modify (\<lambda>w. w\<lparr>kyc := (kyc w)\<lparr>kyc_trail := kyc_trail (kyc w) @ map (\<lambda>a.
            action_event ''credit.pending_action.expired'' None (pd_id a) ''Pending action expired before a decision (sweeper)''
              (ObjJ [(''actionType'', TextJ (pd_type a))])) rows\<rparr>\<rparr>)) (\<lambda>_.
     ret (length rows))))"

end
