(* ===== verification/PendingFacts.thy ===== *)
theory PendingFacts
  imports PendingActions
begin

text \<open>
  What the operations of \<open>PendingActions\<close> do to the table of actions, and its runs. Executors that are not part
  of this development are assumed to leave the table of actions alone (\<open>tame\<close>).
\<close>

section \<open>The table during a decision\<close>

definition calm :: "(world, 'a) tx \<Rightarrow> bool" where
  "calm m \<longleftrightarrow> (\<forall>w. actions (snd (m w)) = actions w)"

definition in_step :: "pending_action list \<Rightarrow> connection \<Rightarrow> bool" where
  "in_step K c \<longleftrightarrow> actions (committed c) = K \<and> actions (seen c) = K"

definition untouched :: "pending_action list \<Rightarrow> connection \<Rightarrow> bool" where
  "untouched K c \<longleftrightarrow> actions (committed c) = K"

definition tame :: "desk_env \<Rightarrow> bool" where
  "tame en \<longleftrightarrow> (\<forall>t x K. keeps (in_step K) (de_other en t x) \<and> keeps (in_step K) (de_run_oversight en t x) \<and>
     keeps (untouched K) (de_other en t x) \<and> keeps (untouched K) (de_run_oversight en t x))"

lemma calm_on: "calm (on_books m)" "calm (on_kyc k)" "calm (on_stepups s)" "calm (write_event e)"
  by (simp_all add: calm_def on_books_def on_kyc_def on_stepups_def write_event_def split: prod.split)

lemma calmD: "calm m \<Longrightarrow> m w = (r, w') \<Longrightarrow> actions w' = actions w"
  by (metis calm_def snd_conv)

lemma keeps_elsewhere [keeps_intros]: "calm m \<Longrightarrow> keeps (in_step K) (elsewhere m)"
  by (rule keepsI) (auto simp: elsewhere_def in_step_def split: prod.split dest: calmD)

lemma keeps_own: "calm m \<Longrightarrow> keeps (in_step K) (own m)"
  by (rule keepsI) (auto simp: own_def in_step_def split: prod.split dest: calmD)

lemma untouched_elsewhere: "calm m \<Longrightarrow> keeps (untouched K) (elsewhere m)"
  by (rule keepsI) (auto simp: elsewhere_def untouched_def split: prod.split dest: calmD)

lemma untouched_own: "keeps (untouched K) (own m)"
  by (rule keepsI) (auto simp: own_def untouched_def split: prod.split)

lemma calm_keeps: "calm m \<longleftrightarrow> (\<forall>K. keeps (\<lambda>w. actions w = K) m)"
  by (auto simp: calm_def keeps_def)

lemma calm_funding: "calm (evaluateFundingCompliance en rq)"
proof -
  have k: "keeps (\<lambda>w. actions w = K) (on_books m)" "keeps (\<lambda>w. actions w = K) (on_kyc k)" "keeps (\<lambda>w. actions w = K) (write_event e)" for K m k e
    using calm_on(1) [of m] calm_on(2) [of k] calm_on(4) [of e] by (auto simp: calm_keeps)
  have checks: "keeps (\<lambda>w. actions w = K) (funding_checks en rq customer kind)" for K customer kind
    unfolding funding_checks_def funding_clearance_def assertPreAcquisitionAccepted_def by (intro keeps_intros k)
  show ?thesis
    unfolding calm_keeps evaluateFundingCompliance_def Let_def
    by (intro allI) (auto intro!: keeps_intros k checks split: js_error.split)
qed

lemma keeps_recheck:
  "keeps (in_step K) (recheck_compliance en rq decidedBy p actionType)"
  "keeps (untouched K) (recheck_compliance en rq decidedBy p actionType)"
  unfolding recheck_compliance_def Let_def by (intro keeps_intros calm_funding untouched_elsewhere)+

lemma keeps_executor:
  assumes "tame en" and "executor_of en actionType = Some f"
  shows "keeps (in_step K) (f x)" and "keeps (untouched K) (f x)"
proof -
  have fee: "keeps (in_step K) (execute_fee_update en x)" "keeps (untouched K) (execute_fee_update en x)"
    unfolding execute_fee_update_def by (intro keeps_intros keeps_own calm_on untouched_own)+
  have money: "keeps (in_step K) (elsewhere (on_books m))" "keeps (untouched K) (elsewhere (on_books m))" for m :: "json credit"
    by (intro keeps_elsewhere untouched_elsewhere calm_on)+
  from assms fee money show "keeps (in_step K) (f x)" and "keeps (untouched K) (f x)"
    by (auto simp: executor_of_def tame_def split: if_splits)
qed

text \<open>What one decision did: the outcome of the transaction, and the connection it left.\<close>

lemma in_decision_Inl: "in_decision m w = (Inl e, w') \<Longrightarrow> \<exists>c. m \<lparr>committed = w, seen = w\<rparr> = (Inl e, c) \<and> w' = committed c"
  by (auto simp: in_decision_def split: prod.splits sum.splits)

lemma in_decision_Inr: "in_decision m w = (Inr r, w') \<Longrightarrow> \<exists>c. m \<lparr>committed = w, seen = w\<rparr> = (Inr r, c) \<and> w' = seen c"
  by (auto simp: in_decision_def split: prod.splits sum.splits)

lemma keeps_reload: "keeps I (reload_action i result)"
  unfolding reload_action_def by (intro keeps_intros)

text \<open>Until its COMMIT a decision has changed nothing of the table for others.\<close>

lemma decide_untouched:
  assumes "tame en"
  shows "keeps (untouched K) (decide_row en oversightOnly rq approved decidedBy)"
proof -
  have reject: "keeps (untouched K) (reject_action en a decidedBy reason self)" for a reason self
    unfolding reject_action_def by (intro keeps_intros untouched_own keeps_reload)
  have approve: "keeps (untouched K) (approve_action en rq a decidedBy reason self)" for a reason self
  proof -
    have ex: "keeps (untouched K) (f x)" if "executor_of en (pd_type a) = Some f" for f x
      using keeps_executor(2) [OF assms that] .
    show ?thesis
      unfolding approve_action_def
      by (intro keeps_intros untouched_elsewhere calm_on keeps_recheck ex untouched_own keeps_reload)
  qed
  show ?thesis
    unfolding decide_row_def Let_def by (intro keeps_intros untouched_own reject approve)
qed

lemma failed_decision:
  assumes "tame en" and "decidePendingActionCore en oversightOnly rq w = (Inl e, w')"
  shows "actions w' = actions w"
proof (cases "decision_of (dq_decision rq)")
  case (Some approved)
  show ?thesis
  proof (cases "or_null (dq_by rq)")
    case (Some decidedBy)
    with assms(2) \<open>decision_of (dq_decision rq) = Some approved\<close>
    have "in_decision (decide_row en oversightOnly rq approved decidedBy) w = (Inl e, w')"
      by (simp add: decidePendingActionCore_def)
    from in_decision_Inl [OF this] obtain c where c: "decide_row en oversightOnly rq approved decidedBy \<lparr>committed = w, seen = w\<rparr> = (Inl e, c)"
      "w' = committed c" by blast
    have "untouched (actions w) c"
      using keepsD [OF decide_untouched [OF assms(1)] _ c(1)] by (simp add: untouched_def)
    with c(2) show ?thesis by (simp add: untouched_def)
  qed (use assms(2) Some in \<open>simp add: decidePendingActionCore_def\<close>)
qed (use assms(2) in \<open>simp add: decidePendingActionCore_def\<close>)

lemma lost_untouched:
  assumes "tame en"
  shows "actions (snd (lost_decision (decide_row en oversightOnly rq approved decidedBy) w)) = actions w"
proof -
  obtain r c where c: "decide_row en oversightOnly rq approved decidedBy \<lparr>committed = w, seen = w\<rparr> = (r, c)"
    by (cases "decide_row en oversightOnly rq approved decidedBy \<lparr>committed = w, seen = w\<rparr>") auto
  have "untouched (actions w) c"
    using keepsD [OF decide_untouched [OF assms] _ c] by (simp add: untouched_def)
  with c show ?thesis by (cases r) (simp_all add: lost_decision_def untouched_def)
qed

section \<open>Decisions that return\<close>

lemma own_Inr: "own m c = (Inr r, c') \<longleftrightarrow> (\<exists>w. m (seen c) = (Inr r, w) \<and> c' = c\<lparr>seen := w\<rparr>)"
  by (auto simp: own_def split: prod.splits)

lemma elsewhere_Inr: "elsewhere m c = (Inr r, c') \<longleftrightarrow> (\<exists>w. m (committed c) = (Inr r, w) \<and> c' = \<lparr>committed = w, seen = w\<rparr>)"
  by (auto simp: elsewhere_def split: prod.splits)

lemma on_stepups_Inr: "on_stepups m w = (Inr r, w') \<longleftrightarrow> (\<exists>s. m (stepups w) = (Inr r, s) \<and> w' = w\<lparr>stepups := s\<rparr>)"
  by (auto simp: on_stepups_def split: prod.splits)

lemma on_books_Inr: "on_books m w = (Inr r, w') \<longleftrightarrow> (\<exists>b. m (books w) = (Inr r, b) \<and> w' = w\<lparr>books := b\<rparr>)"
  by (auto simp: on_books_def split: prod.splits)

lemma write_event_run: "write_event e w = (Inr (), w\<lparr>kyc := (kyc w)\<lparr>kyc_trail := kyc_trail (kyc w) @ [e]\<rparr>\<rparr>)"
  by (simp add: write_event_def on_kyc_def)

lemma update_action_run: "update_action i f w = (Inr (), w\<lparr>actions := upd_where (\<lambda>a. pd_id a = i) f (actions w)\<rparr>)"
  by (simp add: update_action_def)

definition rejected_row :: "desk_env \<Rightarrow> string \<Rightarrow> string \<Rightarrow> pending_action \<Rightarrow> pending_action" where
  "rejected_row en decidedBy reason a =
     a\<lparr>pd_status := Rejected, pd_decided_by := Some decidedBy, pd_decided_at := Some (cf_now (de_cf en)), pd_reason := Some reason\<rparr>"

definition approved_row :: "desk_env \<Rightarrow> string \<Rightarrow> string \<Rightarrow> json \<Rightarrow> pending_action \<Rightarrow> pending_action" where
  "approved_row en decidedBy reason result a =
     a\<lparr>pd_status := Approved, pd_decided_by := Some decidedBy, pd_decided_at := Some (cf_now (de_cf en)),
       pd_reason := or_null (Some reason), pd_refs := result\<rparr>"

definition approval_context :: "decision_request \<Rightarrow> pending_action \<Rightarrow> string \<Rightarrow> exec_context" where
  "approval_context rq a decidedBy =
     \<lparr>xc_payload = with_key (pd_payload a) (pd_key a), xc_requestedBy = pd_requested_by a, xc_actor = decidedBy,
      xc_ip = dq_ip rq, xc_correlation = dq_correlation rq\<rparr>"

definition checker_proof :: "decision_request \<Rightarrow> pending_action \<Rightarrow> string \<Rightarrow> world \<Rightarrow> presentation" where
  "checker_proof rq a decidedBy w =
     \<lparr>pr_challenge = dq_challenge rq, pr_actor = decidedBy, pr_action = ''pending_action_approve'', pr_code = dq_code rq,
      pr_expected = map_option JInt (resolveCheckerStepupAmountCents (pd_payload a) w), pr_tolerance = None\<rparr>"

text \<open>An approval that returns: the proof was accepted, then compliance passed, then the executor ran, once.\<close>

lemma approved_action:
  assumes "approve_action en rq a decidedBy reason self \<lparr>committed = w, seen = w\<rparr> = (Inr r, c)" and "tame en"
  obtains ch s f c2 c3 result u where
    "verifyStepupChallenge (de_step en) (checker_proof rq a decidedBy w) (stepups w) = (Inr ch, s)"
    "executor_of en (pd_type a) = Some f"
    "recheck_compliance en rq decidedBy (with_key (pd_payload a) (pd_key a)) (pd_type a)
       \<lparr>committed = w\<lparr>stepups := s\<rparr>, seen = w\<lparr>stepups := s\<rparr>\<rparr> = (Inr u, c2)"
    "f (approval_context rq a decidedBy) c2 = (Inr result, c3)"
    "actions (seen c3) = actions w"
    "\<exists>k. seen c = (seen c3)\<lparr>actions := upd_where (\<lambda>x. pd_id x = pd_id a) (approved_row en decidedBy reason result) (actions w), kyc := k\<rparr>"
    "find (\<lambda>x. pd_id x = pd_id a) (actions (seen c)) = Some (dr_action r)" "dr_result r = result" "\<not> dr_replayed r"
proof -
  from assms(1) obtain ch s where v: "verifyStepupChallenge (de_step en) (checker_proof rq a decidedBy w) (stepups w) = (Inr ch, s)"
    unfolding approve_action_def checker_proof_def by (auto simp: bind_Inr_iff elsewhere_Inr on_stepups_Inr)
  define c1 where "c1 = \<lparr>committed = w\<lparr>stepups := s\<rparr>, seen = w\<lparr>stepups := s\<rparr>\<rparr>"
  have e1: "elsewhere (on_stepups (verifyStepupChallenge (de_step en) (checker_proof rq a decidedBy w))) \<lparr>committed = w, seen = w\<rparr> = (Inr ch, c1)"
    using v by (simp add: elsewhere_def on_stepups_def c1_def)
  from assms(1) e1 obtain f where f: "executor_of en (pd_type a) = Some f"
    unfolding approve_action_def checker_proof_def by (auto simp: bind_apply split: option.splits)
  from assms(1) e1 f obtain u c2 where g: "recheck_compliance en rq decidedBy (with_key (pd_payload a) (pd_key a)) (pd_type a) c1 = (Inr u, c2)"
    unfolding approve_action_def checker_proof_def Let_def by (auto simp: bind_apply split: prod.splits sum.splits)
  from assms(1) e1 f g obtain result c3 where x: "f (approval_context rq a decidedBy) c2 = (Inr result, c3)"
    unfolding approve_action_def checker_proof_def approval_context_def Let_def by (auto simp: bind_apply split: prod.splits sum.splits)
  have "in_step (actions w) c1" by (simp add: c1_def in_step_def)
  from keepsD [OF keeps_recheck(1) this g] have "in_step (actions w) c2" .
  from keepsD [OF keeps_executor(1) [OF assms(2) f] this x] have t: "actions (seen c3) = actions w" by (simp add: in_step_def)
  from assms(1) e1 f g x obtain k where k: "seen c = (seen c3)\<lparr>actions := upd_where (\<lambda>x. pd_id x = pd_id a) (approved_row en decidedBy reason result) (actions w), kyc := k\<rparr>"
      "find (\<lambda>x. pd_id x = pd_id a) (actions (seen c)) = Some (dr_action r)" "dr_result r = result" "\<not> dr_replayed r"
    unfolding approve_action_def checker_proof_def approval_context_def Let_def reload_action_def
    by (auto simp: bind_apply own_def update_action_run write_event_run approved_row_def [abs_def] t split: option.splits)
  show thesis
    using that [OF v f g [unfolded c1_def] x t _ k(2-4)] k(1) by blast
qed

lemma approved_table:
  assumes "approve_action en rq a decidedBy reason self \<lparr>committed = w, seen = w\<rparr> = (Inr r, c)" and "tame en"
  shows "\<exists>result. actions (seen c) = upd_where (\<lambda>x. pd_id x = pd_id a) (approved_row en decidedBy reason result) (actions w)"
proof (rule approved_action [OF assms])
  fix result c3
  assume "\<exists>k. seen c = (seen c3)\<lparr>actions := upd_where (\<lambda>x. pd_id x = pd_id a) (approved_row en decidedBy reason result) (actions w), kyc := k\<rparr>"
  then show ?thesis by (intro exI [of _ result]) auto
qed

lemma rejected_action:
  assumes "reject_action en a decidedBy reason self \<lparr>committed = w, seen = w\<rparr> = (Inr r, c)"
  shows "\<exists>k. seen c = w\<lparr>actions := upd_where (\<lambda>x. pd_id x = pd_id a) (rejected_row en decidedBy reason) (actions w), kyc := k\<rparr>"
    and "find (\<lambda>x. pd_id x = pd_id a) (actions (seen c)) = Some (dr_action r)" "\<not> dr_replayed r"
  using assms unfolding reject_action_def reload_action_def
  by (auto simp: bind_apply own_def update_action_run write_event_run rejected_row_def [abs_def] split: option.splits)

text \<open>Every decision that returns is one of three.\<close>

definition may_decide :: "desk_env \<Rightarrow> pending_action \<Rightarrow> string \<Rightarrow> world \<Rightarrow> bool" where
  "may_decide en a decidedBy w \<longleftrightarrow>
     pd_requested_by a \<noteq> decidedBy \<or> pd_type a \<notin> set (de_oversight en) \<and> singleAdminBreakGlassAllowed w"

lemma returned_decision:
  assumes "decidePendingActionCore en oversightOnly rq w = (Inr r, w')"
  obtains (replayed) a where "find (\<lambda>x. pd_id x = dq_action rq) (actions w) = Some a" "pd_status a = Approved" "w' = w"
      "r = \<lparr>dr_action = a, dr_result = pd_refs a, dr_replayed = True\<rparr>"
  | (rejected) a decidedBy reason c where "find (\<lambda>x. pd_id x = dq_action rq) (actions w) = Some a" "pd_status a = Undecided"
      "may_decide en a decidedBy w" "reason \<noteq> []" "decision_of (dq_decision rq) = Some False" "w' = seen c"
      "reject_action en a decidedBy reason (pd_requested_by a = decidedBy) \<lparr>committed = w, seen = w\<rparr> = (Inr r, c)"
  | (approved) a decidedBy reason c where "find (\<lambda>x. pd_id x = dq_action rq) (actions w) = Some a" "pd_status a = Undecided"
      "may_decide en a decidedBy w" "decision_of (dq_decision rq) = Some True" "w' = seen c" "dq_by rq = Some decidedBy"
      "\<forall>e. pd_expires a = Some e \<longrightarrow> cf_now (de_cf en) \<le> e"
      "approve_action en rq a decidedBy reason (pd_requested_by a = decidedBy) \<lparr>committed = w, seen = w\<rparr> = (Inr r, c)"
proof -
  from assms obtain approved where d: "decision_of (dq_decision rq) = Some approved"
    unfolding decidePendingActionCore_def by (auto split: option.splits)
  with assms obtain decidedBy where b: "or_null (dq_by rq) = Some decidedBy"
    unfolding decidePendingActionCore_def by (auto split: option.splits)
  then have actor: "dq_by rq = Some decidedBy" by (simp add: or_null_def split: if_splits)
  from assms d b have "in_decision (decide_row en oversightOnly rq approved decidedBy) w = (Inr r, w')"
    by (simp add: decidePendingActionCore_def)
  from in_decision_Inr [OF this] obtain c where c: "decide_row en oversightOnly rq approved decidedBy \<lparr>committed = w, seen = w\<rparr> = (Inr r, c)"
    and w': "w' = seen c" by blast
  define reason where "reason = screening_normalizeString (dq_reason rq) 2000"
  from c obtain a where a: "find (\<lambda>x. pd_id x = dq_action rq) (actions w) = Some a"
    unfolding decide_row_def Let_def by (auto simp: bind_apply split: option.splits)
  show thesis
  proof (cases "pd_status a = Approved")
    case True
    with c a have "r = \<lparr>dr_action = a, dr_result = pd_refs a, dr_replayed = True\<rparr>" "c = \<lparr>committed = w, seen = w\<rparr>"
      unfolding decide_row_def Let_def by (auto simp: bind_apply split: if_splits)
    with True a w' show thesis by (intro replayed) simp_all
  next
    case False
    have self: "may_decide en a decidedBy w" "pd_status a = Undecided" "\<forall>e. pd_expires a = Some e \<longrightarrow> cf_now (de_cf en) \<le> e"
      "approved \<or> reason \<noteq> []"
      "(if approved then approve_action en rq a decidedBy reason (pd_requested_by a = decidedBy)
        else reject_action en a decidedBy reason (pd_requested_by a = decidedBy)) \<lparr>committed = w, seen = w\<rparr> = (Inr r, c)"
      using c a False unfolding decide_row_def Let_def reason_def
      by (auto simp: bind_apply own_def update_action_run write_event_run may_decide_def split: if_splits option.splits)
    show thesis
    proof (cases approved)
      case True
      with self a d w' actor show thesis by (intro approved [of a decidedBy c reason]) simp_all
    next
      case False
      with self a d w' show thesis by (intro rejected [of a decidedBy reason c]) simp_all
    qed
  qed
qed

section \<open>Runs\<close>

text \<open>
  A run of the desk with the registry \<open>reg\<close>: requests, decisions on both endpoints, decisions whose connection is
  lost before COMMIT, the sweeper, and whatever else changes the rest of the database. \<open>quiet\<close> restricts the
  states in which decisions are taken.
\<close>

inductive desk_run :: "string list \<Rightarrow> (world \<Rightarrow> bool) \<Rightarrow> world \<Rightarrow> world \<Rightarrow> bool" for reg quiet start where
  begins: "desk_run reg quiet start start"
| requests: "desk_run reg quiet start w \<Longrightarrow> desk_run reg quiet start (snd (requestPendingAction en rq w))"
| decides: "desk_run reg quiet start w \<Longrightarrow> tame en \<Longrightarrow> de_oversight en = reg \<Longrightarrow> quiet w \<Longrightarrow>
    desk_run reg quiet start (snd (decidePendingActionCore en oversightOnly rq w))"
| loses: "desk_run reg quiet start w \<Longrightarrow> tame en \<Longrightarrow>
    desk_run reg quiet start (snd (lost_decision (decide_row en oversightOnly rq approved decidedBy) w))"
| sweeps: "desk_run reg quiet start w \<Longrightarrow> desk_run reg quiet start (snd (expireStalePendingActions cf w))"
| changes: "desk_run reg quiet start w \<Longrightarrow> actions w' = actions w \<Longrightarrow> desk_run reg quiet start w'"

lemma rail_check_calm: "on_books (assertCreditRailEnabled False) w = (r, w') \<Longrightarrow> w' = w"
  by (auto simp: on_books_def assertCreditRailEnabled_def)

text \<open>The endpoint of money actions checks the rail first, which changes nothing.\<close>

lemma decidePendingAction_step:
  "snd (decidePendingAction en rq w) = w \<or> decidePendingAction en rq w = decidePendingActionCore en False rq w"
proof (cases "on_books (assertCreditRailEnabled False) w")
  case (Pair r w1)
  with rail_check_calm [OF this] show ?thesis by (cases r) (simp_all add: decidePendingAction_def bind_apply)
qed

subsection \<open>Invariants of the table\<close>

definition same_request :: "pending_action \<Rightarrow> pending_action \<Rightarrow> bool" where
  "same_request a b \<longleftrightarrow> pd_id b = pd_id a \<and> pd_type b = pd_type a \<and> pd_payload b = pd_payload a \<and>
     pd_requested_by b = pd_requested_by a \<and> pd_key b = pd_key a"

definition decided_well :: "(pending_action \<Rightarrow> bool) \<Rightarrow> pending_action \<Rightarrow> bool" where
  "decided_well strict a \<longleftrightarrow> (pd_status a = Approved \<or> pd_status a = Rejected \<longrightarrow>
     (\<exists>d. pd_decided_by a = Some d \<and> (strict a \<longrightarrow> d \<noteq> pd_requested_by a)))"

definition desk_inv :: "(pending_action \<Rightarrow> bool) \<Rightarrow> pending_action list \<Rightarrow> pending_action list \<Rightarrow> bool" where
  "desk_inv strict past K \<longleftrightarrow> distinct (map pd_id K) \<and> distinct (map pd_key K) \<and> list_all (decided_well strict) K \<and>
     (\<forall>a \<in> set past. \<exists>b \<in> set K. same_request a b \<and> (pd_status a \<noteq> Undecided \<longrightarrow> b = a))"

lemma desk_inv_append:
  assumes "desk_inv strict past K" and "pd_id a = next_id (map pd_id K)" "pd_status a = Undecided" "pd_key a \<notin> pd_key ` set K"
  shows "desk_inv strict past (K @ [a])"
proof -
  have "pd_id a \<notin> pd_id ` set K"
    using next_id_fresh [of "map pd_id K"] assms(2) by simp
  with assms show ?thesis by (auto simp: desk_inv_def decided_well_def)
qed

text \<open>A change of undecided rows that keeps what was requested.\<close>

lemma desk_inv_update:
  assumes "desk_inv strict past K"
    and "\<And>a. a \<in> set K \<Longrightarrow> p a \<Longrightarrow> pd_status a = Undecided \<and> same_request a (f a) \<and> decided_well strict (f a)"
  shows "desk_inv strict past (upd_where p f K)"
proof -
  have s: "same_request a (f a)" if "a \<in> set K" "p a" for a using assms(2) [OF that] by simp
  have "map pd_id (upd_where p f K) = map pd_id K" "map pd_key (upd_where p f K) = map pd_key K"
    using s by (auto intro!: map_upd_where_frame simp: same_request_def)
  moreover have "list_all (decided_well strict) (upd_where p f K)"
    using assms by (auto simp: list_all_iff set_upd_where desk_inv_def)
  moreover have "\<exists>b \<in> set (upd_where p f K). same_request a b \<and> (pd_status a \<noteq> Undecided \<longrightarrow> b = a)" if "a \<in> set past" for a
  proof -
    from assms(1) that obtain b where b: "b \<in> set K" "same_request a b" "pd_status a \<noteq> Undecided \<longrightarrow> b = a"
      by (auto simp: desk_inv_def)
    let ?b = "if p b then f b else b"
    have "?b \<in> set (upd_where p f K)" using b(1) by (auto simp: set_upd_where)
    moreover have "same_request a ?b \<and> (pd_status a \<noteq> Undecided \<longrightarrow> ?b = a)"
      using b assms(2) [OF b(1)] by (auto simp: same_request_def)
    ultimately show ?thesis by blast
  qed
  ultimately show ?thesis using assms(1) by (simp add: desk_inv_def)
qed

lemma keeps_request: "keeps (\<lambda>w. desk_inv strict past (actions w)) (requestPendingAction en rq)"
proof -
  have ins: "keeps (\<lambda>w. desk_inv strict past (actions w)) (insert_action a)" if "pd_status a = Undecided" for a
    by (rule keepsI) (auto simp: insert_action_def Let_def list_ex_iff that split: option.splits intro!: desk_inv_append)
  have calm: "keeps (\<lambda>w. desk_inv strict past (actions w)) m" if "calm m" for m :: "(world, 'a) tx"
    by (rule keepsI) (simp add: that [unfolded calm_def])
  have replay: "keeps (\<lambda>w. desk_inv strict past (actions w)) (replay_request rq t key)" for t key
    unfolding replay_request_def by (intro keeps_intros)
  show ?thesis
    unfolding requestPendingAction_def Let_def
    by (intro keeps_intros ins calm [OF calm_on(1)] calm [OF calm_on(4)] replay) simp
qed

lemma run_desk_inv:
  assumes "desk_run reg quiet start w" and "desk_inv strict past (actions start)"
    and strict: "\<And>a w. strict a \<Longrightarrow> quiet w \<Longrightarrow> pd_type a \<in> set reg \<or> \<not> singleAdminBreakGlassAllowed w"
    and stable: "\<And>a b. same_request a b \<Longrightarrow> strict b = strict a"
  shows "desk_inv strict past (actions w)"
  using assms(1)
proof induction
  case begins
  show ?case by (rule assms(2))
next
  case (requests w en rq)
  then show ?case using keeps_request [of strict past en rq] by (simp add: keeps_def)
next
  case (decides w en oversightOnly rq)
  obtain r w' where r: "decidePendingActionCore en oversightOnly rq w = (r, w')"
    by (cases "decidePendingActionCore en oversightOnly rq w") auto
  show ?case
  proof (cases r)
    case (Inl e)
    with failed_decision [OF decides(2)] r decides(5) show ?thesis by simp
  next
    case (Inr d)
    have other: "pd_status x = Undecided \<and> x = a" if "find (\<lambda>x. pd_id x = dq_action rq) (actions w) = Some a" "pd_status a = Undecided"
      "x \<in> set (actions w)" "pd_id x = pd_id a" for a x
      using find_SomeD [OF that(1)] that(2-4) decides(5) by (auto simp: desk_inv_def distinct_map inj_on_def)
    have checker: "strict a \<longrightarrow> b \<noteq> pd_requested_by a" if "may_decide en a b w" for a b
      using that strict [of a w] decides(3,4) by (auto simp: may_decide_def)
    from r Inr have "decidePendingActionCore en oversightOnly rq w = (Inr d, w')" by simp
    then show ?thesis
    proof (cases rule: returned_decision)
      case (replayed a)
      with r decides(5) show ?thesis by simp
    next
      case (rejected a decidedBy reason c)
      from rejected_action(1) [OF rejected(7)] obtain k where
        k: "seen c = w\<lparr>actions := upd_where (\<lambda>x. pd_id x = pd_id a) (rejected_row en decidedBy reason) (actions w), kyc := k\<rparr>" by blast
      have "desk_inv strict past (upd_where (\<lambda>x. pd_id x = pd_id a) (rejected_row en decidedBy reason) (actions w))"
      proof (rule desk_inv_update [OF decides(5)])
        fix x assume x: "x \<in> set (actions w)" "pd_id x = pd_id a"
        from other [OF rejected(1,2) this] have xa: "x = a" "pd_status x = Undecided" by auto
        have same: "same_request x (rejected_row en decidedBy reason x)" by (simp add: same_request_def rejected_row_def)
        with xa checker [OF rejected(3)] stable [OF same]
        show "pd_status x = Undecided \<and> same_request x (rejected_row en decidedBy reason x) \<and> decided_well strict (rejected_row en decidedBy reason x)"
          by (auto simp: decided_well_def) (simp_all add: rejected_row_def)
      qed
      with r rejected(6) k show ?thesis by simp
    next
      case (approved a decidedBy reason c)
      obtain result where
        k: "actions (seen c) = upd_where (\<lambda>x. pd_id x = pd_id a) (approved_row en decidedBy reason result) (actions w)"
        using approved_table [OF approved(8) decides(2)] by blast
      have "desk_inv strict past (upd_where (\<lambda>x. pd_id x = pd_id a) (approved_row en decidedBy reason result) (actions w))"
      proof (rule desk_inv_update [OF decides(5)])
        fix x assume x: "x \<in> set (actions w)" "pd_id x = pd_id a"
        from other [OF approved(1,2) this] have xa: "x = a" "pd_status x = Undecided" by auto
        have same: "same_request x (approved_row en decidedBy reason result x)" by (simp add: same_request_def approved_row_def)
        with xa checker [OF approved(3)] stable [OF same]
        show "pd_status x = Undecided \<and> same_request x (approved_row en decidedBy reason result x) \<and>
            decided_well strict (approved_row en decidedBy reason result x)"
          by (auto simp: decided_well_def) (simp_all add: approved_row_def)
      qed
      with r approved(5) k show ?thesis by simp
    qed
  qed
next
  case (loses w en oversightOnly rq approved decidedBy)
  then show ?case by (simp add: lost_untouched)
next
  case (sweeps w cf)
  have "desk_inv strict past (upd_where (stale_action cf) (\<lambda>a. a\<lparr>pd_status := Expired_action, pd_decided_at := Some (cf_db_now cf)\<rparr>) (actions w))"
    by (rule desk_inv_update [OF sweeps(2)]) (simp add: stale_action_def same_request_def decided_well_def)
  then show ?case by (simp add: expireStalePendingActions_def bind_apply)
qed simp

end
