(* ===== verification/PendingProperties.thy ===== *)
theory PendingProperties
  imports PendingFacts CreditProperties
begin

text \<open>
  What dual approval guarantees: two administrators stand behind every decided action, a decision is final, an
  approval carries a proof of the checker's authenticator for its amount, an action is executed once, and an
  approved load is exactly one posting to the customer's wallet.
\<close>

section \<open>A sample desk\<close>

text \<open>The registry holds one oversight action, whose executor does nothing.\<close>

definition sample_desk :: "int \<Rightarrow> desk_env" where
  "sample_desk now =
     \<lparr>de_funding = \<lparr>fe_step = sample_stepup now, fe_accepted = (\<lambda>_ _. True)\<rparr>, de_other = (\<lambda>_ _. fail (JsError ''not here'')),
      de_oversight = [''refund_override''], de_run_oversight = (\<lambda>_ _. ret (ObjJ [])), de_validate = (\<lambda>_ _. Inr ())\<rparr>"

definition approval_challenge :: challenge where
  "approval_challenge = (sample_challenge ''0'' ''pending_action_approve'' Totp)\<lparr>ch_actor := ''ben'', ch_amount := 50\<rparr>"

definition sample_world :: "pending_action list \<Rightarrow> world" where
  "sample_world rows =
     \<lparr>books = sample_screened, kyc = sample_kyc\<lparr>verifications := [verified_row\<lparr>vf_expires := Some 90000\<rparr>]\<rparr>, stepups = sample_stepup_db [approval_challenge], actions = rows,
      single_admin_flag = Some True, settlement_net = [], withdrawal_amount = []\<rparr>"

definition sample_action_request :: "string \<Rightarrow> action_request" where
  "sample_action_request t =
     \<lparr>aq_type = Some t, aq_payload = ObjJ [(''customerId'', TextJ ''ana''), (''amountCents'', IntJ 50), (''reason'', TextJ ''gift'')],
      aq_by = Some ''ana'', aq_key = Some ''k1''\<rparr>"

definition requested_row :: "string \<Rightarrow> pending_action" where
  "requested_row t =
     \<lparr>pd_id = 1, pd_type = t, pd_payload = with_key (aq_payload (sample_action_request t)) ''k1'', pd_requested_by = ''ana'',
      pd_status = Undecided, pd_decided_by = None, pd_decided_at = None, pd_reason = None, pd_expires = Some 86400000, pd_key = ''k1'',
      pd_refs = ObjJ []\<rparr>"

definition sample_approval :: decision_request where
  "sample_approval =
     \<lparr>dq_action = 1, dq_by = Some ''ben'', dq_decision = Some ''approve'', dq_reason = None, dq_challenge = Some ''0'', dq_code = Some ''1'',
      dq_ip = None, dq_correlation = Some ''c1''\<rparr>"

lemma tame_sample: "tame (sample_desk now)"
  by (simp add: tame_def sample_desk_def keeps_basic)

lemma sample_desk_registry: "de_oversight (sample_desk now) = [''refund_override'']"
  by (simp add: sample_desk_def)

section \<open>Two administrators\<close>

text \<open>
  C7: Behind every decided action there are two people: in every run of the desk, with any interleaving of requests,
  decisions, lost connections, the sweeper and changes elsewhere, an action that was approved or rejected was decided
  by somebody other than its maker, provided its type is an oversight action or decisions are taken only while the
  single-administrator switch does not apply.
\<close>

theorem two_administrators:
  assumes "desk_run reg quiet start w" and "actions start = []" and "a \<in> set (actions w)"
    and "pd_status a = Approved \<or> pd_status a = Rejected"
    and "pd_type a \<in> set reg \<or> (\<forall>v. quiet v \<longrightarrow> \<not> singleAdminBreakGlassAllowed v)"
  shows "\<exists>d. pd_decided_by a = Some d \<and> d \<noteq> pd_requested_by a"
proof -
  let ?strict = "\<lambda>a. pd_type a \<in> set reg \<or> (\<forall>v. quiet v \<longrightarrow> \<not> singleAdminBreakGlassAllowed v)"
  have "desk_inv ?strict [] (actions start)" using assms(2) by (simp add: desk_inv_def)
  then have "desk_inv ?strict [] (actions w)"
    by (rule run_desk_inv [OF assms(1)]) (auto simp: same_request_def)
  then have "decided_well ?strict a" using assms(3) by (simp add: desk_inv_def list_all_iff)
  then show ?thesis using assms(4,5) by (auto simp: decided_well_def)
qed

definition desk_after_request :: world where
  "desk_after_request = snd (requestPendingAction (sample_desk 0) (sample_action_request ''refund_override'') (sample_world []))"

definition desk_after_approval :: world where
  "desk_after_approval = snd (decidePendingActionCore (sample_desk 30000) True sample_approval desk_after_request)"

lemma sample_run: "desk_run [''refund_override''] (\<lambda>_. True) (sample_world []) desk_after_request"
  "desk_run [''refund_override''] (\<lambda>_. True) desk_after_request desk_after_approval"
  unfolding desk_after_approval_def
  by (simp_all add: desk_after_request_def desk_run.requests [OF desk_run.begins] desk_run.decides [OF desk_run.begins tame_sample sample_desk_registry])

lemma sample_decided:
  "map (\<lambda>a. (pd_type a, pd_status a, pd_requested_by a, pd_decided_by a)) (actions desk_after_approval) =
     [(''refund_override'', Approved, ''ana'', Some ''ben'')]"
  by code_simp

lemma desk_run_trans:
  assumes "desk_run reg quiet w w'" and "desk_run reg quiet start w"
  shows "desk_run reg quiet start w'"
  using assms by induction (auto intro: desk_run.intros)

theorem two_administrators_witness:
  "\<exists>a \<in> set (actions desk_after_approval). pd_status a = Approved \<and> (\<exists>d. pd_decided_by a = Some d \<and> d \<noteq> pd_requested_by a)"
proof -
  obtain a where a: "actions desk_after_approval = [a]" "pd_status a = Approved" "pd_type a = ''refund_override''"
    using sample_decided by (auto simp: map_eq_Cons_conv)
  with two_administrators [OF desk_run_trans [OF sample_run(2,1)], of a] show ?thesis
    by (auto simp: sample_world_def)
qed

section \<open>The table of actions\<close>

text \<open>
  C18: The table of actions is well formed in every reachable state: ids and keys are unique and every decided row names its
  decider. Nothing is lost or rewritten: later on each request is still there with its type, payload, maker and key,
  and a row that was approved, rejected or expired has not changed at all.
\<close>

theorem desk_table_well_formed:
  assumes "desk_run reg quiet start w" and "actions start = []" and "desk_run reg' quiet' w later"
  shows "distinct (map pd_id (actions later)) \<and> distinct (map pd_key (actions later)) \<and>
    (\<forall>a \<in> set (actions later). pd_status a = Approved \<or> pd_status a = Rejected \<longrightarrow> pd_decided_by a \<noteq> None) \<and>
    (\<forall>a \<in> set (actions w). \<exists>b \<in> set (actions later). same_request a b \<and> (pd_status a \<noteq> Undecided \<longrightarrow> b = a))"
proof -
  have "desk_inv (\<lambda>_. False) [] (actions start)" using assms(2) by (simp add: desk_inv_def)
  then have "desk_inv (\<lambda>_. False) [] (actions w)" by (rule run_desk_inv [OF assms(1)]) simp_all
  then have "desk_inv (\<lambda>_. False) (actions w) (actions w)" by (auto simp: desk_inv_def same_request_def)
  then have "desk_inv (\<lambda>_. False) (actions w) (actions later)" by (rule run_desk_inv [OF assms(3)]) simp_all
  then show ?thesis by (fastforce simp: desk_inv_def list_all_iff decided_well_def)
qed

lemma sample_requested: "map pd_type (actions desk_after_request) = [''refund_override'']"
  by code_simp

theorem desk_table_well_formed_witness:
  "\<exists>a \<in> set (actions desk_after_request). \<exists>b \<in> set (actions desk_after_approval). pd_type a = ''refund_override'' \<and> same_request a b"
proof -
  obtain a where a: "actions desk_after_request = [a]" "pd_type a = ''refund_override''"
    using sample_requested by (auto simp: map_eq_Cons_conv)
  have "actions (sample_world []) = []" by (simp add: sample_world_def)
  from desk_table_well_formed [OF sample_run(1) this sample_run(2)] a show ?thesis by auto
qed

section \<open>Approvals\<close>

lemma accepted_challenge:
  assumes "verifyStepupChallenge en pr db = (Inr ch, db')" and "pr_tolerance pr = None"
  obtains c where "c \<in> set (challenges db)" "ch_actor c = pr_actor pr" "ch_action c = pr_action pr" "ch_consumed c = None"
    "cf_now (se_cf en) < ch_expires c" "pr_action pr \<in> set TOTP_STEPUP_ACTION_TYPES \<longrightarrow> ch_method c = Totp"
    "\<And>n. pr_expected pr = Some (JInt n) \<Longrightarrow> ch_amount c = n"
    "ch_id c = screening_normalizeString (pr_challenge pr) 64" "proves_code en c (screening_normalizeString (pr_code pr) 32) db"
proof -
  from assms(1) obtain c expected tolerance where
    f: "find (\<lambda>c. ch_id c = screening_normalizeString (pr_challenge pr) 64) (challenges db) = Some c" and
    k: "ch_actor c = pr_actor pr" "ch_action c = pr_action pr" "ch_consumed c = None" "cf_now (se_cf en) < ch_expires c"
      "pr_action pr \<in> set TOTP_STEPUP_ACTION_TYPES \<longrightarrow> ch_method c = Totp" and
    n: "expected_amount pr = Inr expected" "amount_tolerance pr = Inr tolerance" "\<not> amount_differs c expected tolerance" and
    code: "proves_code en c (screening_normalizeString (pr_code pr) 32) db"
    by (rule accepted_presentation)
  have "ch_amount c = n" if "pr_expected pr = Some (JInt n)" for n
    using that n assms(2) exact_amount [of c n]
    by (auto simp: expected_amount_def amount_tolerance_def simp del: safe_int.simps split: if_splits)
  with find_SomeD [OF f] k code show thesis by (intro that) auto
qed

lemma approved_checker:
  assumes "approve_action en rq a checker reason self \<lparr>committed = w, seen = w\<rparr> = (Inr r, c)" and "tame en"
  shows "\<exists>ch s. verifyStepupChallenge (de_step en) (checker_proof rq a checker w) (stepups w) = (Inr ch, s)"
    and "find (\<lambda>x. pd_id x = pd_id a) (actions w) = Some a \<Longrightarrow> \<exists>result. dr_action r = approved_row en checker reason result a"
proof -
  show "\<exists>ch s. verifyStepupChallenge (de_step en) (checker_proof rq a checker w) (stepups w) = (Inr ch, s)"
    by (rule approved_action [OF assms]) (intro exI)
  assume found: "find (\<lambda>x. pd_id x = pd_id a) (actions w) = Some a"
  from approved_table [OF assms] obtain result where
    t: "actions (seen c) = upd_where (\<lambda>x. pd_id x = pd_id a) (approved_row en checker reason result) (actions w)" by blast
  have "find (\<lambda>x. pd_id x = pd_id a) (actions (seen c)) = Some (dr_action r)"
    by (rule approved_action [OF assms])
  with found have "dr_action r = approved_row en checker reason result a"
    unfolding t by (simp add: find_upd_where approved_row_def)
  then show "\<exists>result. dr_action r = approved_row en checker reason result a" by blast
qed

text \<open>
  C17: An approval needs a proof: when a decision approves an action (and does not just answer with an earlier approval),
  the action was undecided and not expired, the checker may decide it, and the decision presents an unused, unexpired
  authenticator challenge of this checker for approvals together with a code that the authenticator accepts for the
  checker's stored secret, in a time step later than any the checker has spent. When the payload names a positive
  amount, directly or through its settlement or withdrawal, the challenge was issued for exactly this amount; an action
  whose payload names none (a capture without amount, a dispute, a quote) is approved with a challenge over any amount.
  The row the decision leaves records the checker.
\<close>

theorem approval_needs_proof:
  assumes "decidePendingActionCore en oversightOnly rq w = (Inr r, w')" and "decision_of (dq_decision rq) = Some True"
    and "\<not> dr_replayed r" and "tame en"
  shows "\<exists>a checker. find (\<lambda>x. pd_id x = dq_action rq) (actions w) = Some a \<and> dq_by rq = Some checker \<and>
    pd_status a = Undecided \<and> (\<forall>e. pd_expires a = Some e \<longrightarrow> cf_now (de_cf en) \<le> e) \<and> may_decide en a checker w \<and>
    (\<exists>c \<in> set (challenges (stepups w)). ch_id c = screening_normalizeString (dq_challenge rq) 64 \<and>
       ch_actor c = checker \<and> ch_action c = ''pending_action_approve'' \<and> ch_method c = Totp \<and>
       ch_consumed c = None \<and> cf_now (de_cf en) < ch_expires c \<and> adminTotpEnabled checker (stepups w) \<and>
       max_counter checker (stepups w) < time_step (de_step en) \<and>
       (\<exists>enc secret. Option.bind (find_administrator checker (stepups w)) (or_null \<circ> ad_secret) = Some enc \<and>
          se_decrypt (de_step en) enc = Inr secret \<and> token_matches (de_step en) secret (screening_normalizeString (dq_code rq) 32)) \<and>
       (\<forall>n. resolveCheckerStepupAmountCents (pd_payload a) w = Some n \<longrightarrow> ch_amount c = n)) \<and>
    same_request a (dr_action r) \<and> pd_status (dr_action r) = Approved \<and> pd_decided_by (dr_action r) = Some checker"
  using assms(1)
proof (cases rule: returned_decision)
  case (replayed a)
  with assms(3) show ?thesis by simp
next
  case (rejected a decidedBy reason c)
  with assms(2) show ?thesis by simp
next
  case (approved a checker reason c)
  from approved_checker(1) [OF approved(8) assms(4)] obtain ch s where
    v: "verifyStepupChallenge (de_step en) (checker_proof rq a checker w) (stepups w) = (Inr ch, s)" by blast
  from v obtain d where d: "d \<in> set (challenges (stepups w))" "ch_actor d = checker" "ch_action d = ''pending_action_approve''"
    "ch_consumed d = None" "cf_now (de_cf en) < ch_expires d" "ch_method d = Totp"
    "\<And>n. resolveCheckerStepupAmountCents (pd_payload a) w = Some n \<Longrightarrow> ch_amount d = n"
    "ch_id d = screening_normalizeString (dq_challenge rq) 64" "proves_code (de_step en) d (screening_normalizeString (dq_code rq) 32) (stepups w)"
    by (rule accepted_challenge) (auto simp: checker_proof_def TOTP_STEPUP_ACTION_TYPES_def)
  from find_SomeD [OF approved(1)] have "pd_id a = dq_action rq" by simp
  with approved_checker(2) [OF approved(8) assms(4)] approved(1)
  have "\<exists>result. dr_action r = approved_row en checker reason result a" by simp
  then have row: "same_request a (dr_action r)" "pd_status (dr_action r) = Approved" "pd_decided_by (dr_action r) = Some checker"
    by (auto simp: approved_row_def same_request_def)
  have code: "adminTotpEnabled checker (stepups w)" "max_counter checker (stepups w) < time_step (de_step en)"
    "\<exists>enc secret. Option.bind (find_administrator checker (stepups w)) (or_null \<circ> ad_secret) = Some enc \<and>
       se_decrypt (de_step en) enc = Inr secret \<and> token_matches (de_step en) secret (screening_normalizeString (dq_code rq) 32)"
    using d(2,6,9) by (simp_all add: proves_code_def)
  have proof_of: "\<exists>c \<in> set (challenges (stepups w)). ch_id c = screening_normalizeString (dq_challenge rq) 64 \<and>
       ch_actor c = checker \<and> ch_action c = ''pending_action_approve'' \<and> ch_method c = Totp \<and>
       ch_consumed c = None \<and> cf_now (de_cf en) < ch_expires c \<and> adminTotpEnabled checker (stepups w) \<and>
       max_counter checker (stepups w) < time_step (de_step en) \<and>
       (\<exists>enc secret. Option.bind (find_administrator checker (stepups w)) (or_null \<circ> ad_secret) = Some enc \<and>
          se_decrypt (de_step en) enc = Inr secret \<and> token_matches (de_step en) secret (screening_normalizeString (dq_code rq) 32)) \<and>
       (\<forall>n. resolveCheckerStepupAmountCents (pd_payload a) w = Some n \<longrightarrow> ch_amount c = n)"
    by (intro bexI [OF _ d(1)] conjI allI impI) (fact d(2-8) code)+
  show ?thesis
    by (rule exI [of _ a], rule exI [of _ checker], intro conjI) (fact approved(1) approved(6) approved(2) approved(7) approved(3) proof_of row)+
qed

definition requested_world :: "string \<Rightarrow> world" where
  "requested_world t = sample_world [requested_row t]"

definition sample_decision :: "decision_result res \<times> world" where
  "sample_decision = decidePendingActionCore (sample_desk 30000) True sample_approval (requested_world ''refund_override'')"

lemma sample_approves:
  "(case fst sample_decision of Inl _ \<Rightarrow> False | Inr r \<Rightarrow> \<not> dr_replayed r) \<and> decision_of (dq_decision sample_approval) = Some True"
  by code_simp

theorem approval_needs_proof_witness:
  "\<exists>c \<in> set (challenges (stepups (requested_world ''refund_override''))). ch_actor c = ''ben'' \<and> ch_action c = ''pending_action_approve'' \<and>
     ch_method c = Totp \<and> ch_consumed c = None"
proof -
  from sample_approves obtain r where f: "fst sample_decision = Inr r" "\<not> dr_replayed r" by (auto split: sum.splits)
  then have r: "sample_decision = (Inr r, snd sample_decision)" by (metis prod.collapse)
  from approval_needs_proof [OF r [unfolded sample_decision_def] _ f(2) tame_sample] sample_approves
  obtain c checker where "c \<in> set (challenges (stepups (requested_world ''refund_override'')))" "ch_actor c = checker"
    "ch_action c = ''pending_action_approve''" "ch_method c = Totp" "ch_consumed c = None" "dq_by sample_approval = Some checker" by blast
  then show ?thesis by (auto simp: sample_approval_def)
qed

section \<open>Executed once\<close>

text \<open>
  C16: An approved action never runs again: whoever decides it later, whatever the decision, proof or clock, nothing in the
  database changes; a second approval or rejection answers with the stored result of the first.
\<close>

theorem approved_actions_never_run_again:
  assumes "find (\<lambda>x. pd_id x = dq_action rq) (actions w) = Some a" and "pd_status a = Approved"
  shows "snd (decidePendingActionCore en oversightOnly rq w) = w \<and>
    (decision_of (dq_decision rq) \<noteq> None \<longrightarrow> or_null (dq_by rq) \<noteq> None \<longrightarrow>
       (oversightOnly \<longrightarrow> pd_type a \<in> set (de_oversight en)) \<longrightarrow>
       fst (decidePendingActionCore en oversightOnly rq w) = Inr \<lparr>dr_action = a, dr_result = pd_refs a, dr_replayed = True\<rparr>)"
  using assms
  by (auto simp: decidePendingActionCore_def in_decision_def decide_row_def Let_def bind_apply split: option.split)

theorem approved_actions_never_run_again_witness:
  "snd (decidePendingActionCore (sample_desk 30000) True sample_approval desk_after_approval) = desk_after_approval"
proof -
  obtain a where a: "actions desk_after_approval = [a]" "pd_status a = Approved"
    using sample_decided by (auto simp: map_eq_Cons_conv)
  have "map pd_id (actions desk_after_approval) = [1]" by code_simp
  with a(1) have "find (\<lambda>x. pd_id x = dq_action sample_approval) (actions desk_after_approval) = Some a"
    by (simp add: sample_approval_def)
  from approved_actions_never_run_again [OF this a(2)] show ?thesis by simp
qed

section \<open>Requests\<close>

text \<open>The guards before the insert.\<close>

abbreviation request_type :: "action_request \<Rightarrow> string" where
  "request_type rq \<equiv> screening_normalizeString (aq_type rq) 60"

abbreviation request_key :: "action_request \<Rightarrow> string" where
  "request_key rq \<equiv> screening_normalizeString (aq_key rq) 200"

definition may_request :: "desk_env \<Rightarrow> action_request \<Rightarrow> ledger \<Rightarrow> bool" where
  "may_request en rq db \<longleftrightarrow>
     (request_type rq \<in> set (de_oversight en) \<and> de_validate en (request_type rq) (with_key (aq_payload rq) (request_key rq)) = Inr () \<or>
      request_type rq \<notin> set (de_oversight en) \<and> request_type rq \<in> set ACTION_TYPES \<and> isCreditRailEnabled db \<and> \<not> frozen db) \<and>
     or_null (aq_by rq) \<noteq> None \<and> request_key rq \<noteq> []"

lemma rail_open: "isCreditRailEnabled db \<Longrightarrow> \<not> frozen db \<Longrightarrow> assertCreditRailEnabled False db = (Inr (), db)"
  by (simp add: assertCreditRailEnabled_def assertCreditRailNotFrozen_def)

text \<open>A key that is taken: the answer is the stored row.\<close>

lemma request_replays:
  assumes "may_request en rq (books w)" and "\<not> payout_queued (request_type rq) (aq_payload rq) w"
    and "find (\<lambda>a. pd_key a = request_key rq) (actions w) = Some b" "pd_type b = request_type rq"
      "payloadsEqual (stripStoredIdempotencyKey (pd_payload b)) (aq_payload rq)"
  shows "requestPendingAction en rq w = (Inr \<lparr>ar_action = b, ar_replayed = True, ar_terminal = (pd_status b \<noteq> Undecided)\<rparr>, w)"
proof -
  have taken: "list_ex (\<lambda>x. pd_key x = request_key rq) (actions w)"
    using find_SomeD [OF assms(3)] by (auto simp: list_ex_iff)
  obtain maker where maker: "or_null (aq_by rq) = Some maker" "request_key rq \<noteq> []" using assms(1) by (auto simp: may_request_def)
  have rail: "(if request_type rq \<in> set (de_oversight en) then ret () else on_books (assertCreditRailEnabled False)) w = (Inr (), w)"
    using assms(1) by (auto simp: may_request_def on_books_def rail_open)
  have valid: "(if request_type rq \<in> set (de_oversight en)
      then de_validate en (request_type rq) (with_key (aq_payload rq) (request_key rq)) else Inr ()) = Inr ()"
    and type: "request_type rq \<in> set ACTION_TYPES \<or> request_type rq \<in> set (de_oversight en)"
    using assms(1) by (auto simp: may_request_def)
  have replay: "replay_request rq (request_type rq) (request_key rq) w =
      (Inr \<lparr>ar_action = b, ar_replayed = True, ar_terminal = (pd_status b \<noteq> Undecided)\<rparr>, w)"
    using assms(3-5) by (simp add: replay_request_def bind_apply)
  show ?thesis
    unfolding requestPendingAction_def Let_def
    using rail maker type assms(2) taken replay by (auto simp: bind_apply valid withTransaction_def insert_action_def try_catch_def)
qed

lemma strip_with_key:
  assumes "''idempotencyKey'' \<notin> fst ` set kvs"
  shows "stripStoredIdempotencyKey (with_key (ObjJ kvs) key) = ObjJ kvs"
proof -
  have "filter (\<lambda>(k, _). k \<noteq> ''idempotencyKey'') kvs = kvs" using assms by (auto simp: filter_id_conv image_iff)
  with assms show ?thesis by (simp add: with_key_def spread_def json_fields_def set_field_new stripStoredIdempotencyKey_def)
qed

abbreviation new_action :: "desk_env \<Rightarrow> action_request \<Rightarrow> string \<Rightarrow> pending_action" where
  "new_action en rq maker \<equiv>
     \<lparr>pd_id = 0, pd_type = request_type rq, pd_payload = with_key (aq_payload rq) (request_key rq), pd_requested_by = maker,
      pd_status = Undecided, pd_decided_by = None, pd_decided_at = None, pd_reason = None,
      pd_expires = Some (cf_now (de_cf en) + PENDING_ACTION_TTL_HOURS (de_cf en) * 3600 * 1000), pd_key = request_key rq, pd_refs = ObjJ []\<rparr>"

lemma replay_Inr:
  assumes "replay_request rq t key w = (Inr r, w')"
  shows "w' = w" "find (\<lambda>a. pd_key a = key) (actions w) = Some (ar_action r)" "pd_type (ar_action r) = t"
    "payloadsEqual (stripStoredIdempotencyKey (pd_payload (ar_action r))) (aq_payload rq)"
  using assms by (auto simp: replay_request_def bind_apply split: option.splits if_splits)

lemma request_Inr:
  assumes "requestPendingAction en rq w = (Inr r, w')"
  obtains (replayed) "may_request en rq (books w)" "w' = w" "find (\<lambda>a. pd_key a = request_key rq) (actions w) = Some (ar_action r)"
      "pd_type (ar_action r) = request_type rq" "payloadsEqual (stripStoredIdempotencyKey (pd_payload (ar_action r))) (aq_payload rq)"
  | (new) maker where "may_request en rq (books w)" "books w' = books w" "aq_by rq = Some maker"
      "ar_action r = (new_action en rq maker)\<lparr>pd_id := next_id (map pd_id (actions w))\<rparr>" "actions w' = actions w @ [ar_action r]"
      "request_key rq \<notin> pd_key ` set (actions w)" "\<not> ar_replayed r"
proof -
  let ?body = "\<lambda>maker amount. withTransaction (
             bind (insert_action (new_action en rq maker)) (\<lambda>row.
             bind (write_event (action_event ''credit.pending_action.requested'' (Some maker) (pd_id row)
                    (''Maker requested '' @ request_type rq)
                    (ObjJ [(''actionType'', TextJ (request_type rq)), (''amountCents'', case amount of None \<Rightarrow> NullJ | Some n \<Rightarrow> IntJ n)]))) (\<lambda>_.
             ret \<lparr>ar_action = row, ar_replayed = False, ar_terminal = False\<rparr>)))"
  from assms obtain w1 where w1: "(if request_type rq \<in> set (de_oversight en) then ret () else on_books (assertCreditRailEnabled False)) w = (Inr (), w1)"
    unfolding requestPendingAction_def Let_def bind_Inr_iff by auto
  then have same: "w1 = w" and rail: "request_type rq \<notin> set (de_oversight en) \<longrightarrow> isCreditRailEnabled (books w) \<and> \<not> frozen (books w)"
    by (auto simp: on_books_Inr dest!: rail_Inr split: if_splits)
  from assms w1 same obtain maker where m: "or_null (aq_by rq) = Some maker" "request_key rq \<noteq> []"
      "request_type rq \<in> set ACTION_TYPES \<or> request_type rq \<in> set (de_oversight en)"
      "request_type rq \<in> set (de_oversight en) \<longrightarrow> de_validate en (request_type rq) (with_key (aq_payload rq) (request_key rq)) = Inr ()"
    unfolding requestPendingAction_def Let_def by (auto simp: bind_apply split: if_splits option.splits sum.splits)
  have t: "\<exists>amount. try_catch (?body maker amount) (\<lambda>e. if e = PgError ''23505'' then replay_request rq (request_type rq) (request_key rq) else fail e) w = (Inr r, w')"
    using assms w1 same m unfolding requestPendingAction_def Let_def
    by (cases "payout_queued (request_type rq) (aq_payload rq) w"; cases "request_type rq \<in> set (de_oversight en)") (auto simp only: bind_apply simp_thms if_True if_False option.case prod.case sum.case gets_apply lift_res_apply fail_apply prod.inject sum.distinct)
  have ok: "may_request en rq (books w)" using m rail by (auto simp: may_request_def)
  from t obtain amount where t: "try_catch (?body maker amount) (\<lambda>e. if e = PgError ''23505'' then replay_request rq (request_type rq) (request_key rq) else fail e) w = (Inr r, w')"
    by blast
  show thesis
  proof (cases "insert_action (new_action en rq maker) w")
    case (Pair x w2)
    show thesis
    proof (cases x)
      case (Inl e)
      with Pair t have "replay_request rq (request_type rq) (request_key rq) w = (Inr r, w')"
        by (auto simp: try_catch_def withTransaction_def bind_apply split: if_splits)
      from replayed [OF ok replay_Inr [OF this]] show thesis .
    next
      case (Inr row)
      with Pair t have "books w' = books w" "ar_action r = (new_action en rq maker)\<lparr>pd_id := next_id (map pd_id (actions w))\<rparr>"
        "actions w' = actions w @ [ar_action r]" "request_key rq \<notin> pd_key ` set (actions w)" "\<not> ar_replayed r"
        by (auto simp: try_catch_def withTransaction_def bind_apply insert_action_def Let_def list_ex_iff write_event_run split: if_splits)
      moreover have "aq_by rq = Some maker" using m(1) by (simp add: or_null_def split: if_splits)
      ultimately show thesis using new [OF ok] by blast
    qed
  qed
qed

lemma reachable_keys:
  assumes "desk_run reg quiet start w" and "actions start = []"
  shows "desk_inv (\<lambda>_. False) (actions w) (actions w)"
proof -
  have "desk_inv (\<lambda>_. False) [] (actions start)" using assms(2) by (simp add: desk_inv_def)
  then have "desk_inv (\<lambda>_. False) [] (actions w)" by (rule run_desk_inv [OF assms(1)]) simp_all
  then show ?thesis by (auto simp: desk_inv_def same_request_def)
qed

text \<open>
  A request can be repeated: however the desk went on after it, the same request with the same key, also by another
  administrator, is answered with the stored action and writes nothing. Payouts are the exception: while one is queued, its
  own retry is refused.
\<close>

theorem request_is_idempotent:
  assumes "desk_run reg quiet start w" and "actions start = []" and "requestPendingAction en rq w = (Inr r, w')"
    and "desk_run reg' quiet' w' later"
    and "aq_payload rq = ObjJ kvs" "''idempotencyKey'' \<notin> fst ` set kvs" "request_type rq \<noteq> ''credit_settlement_payout''"
    and "may_request en' (rq\<lparr>aq_by := other\<rparr>) (books later)"
  shows "\<exists>b. requestPendingAction en' (rq\<lparr>aq_by := other\<rparr>) later =
      (Inr \<lparr>ar_action = b, ar_replayed = True, ar_terminal = (pd_status b \<noteq> Undecided)\<rparr>, later) \<and> same_request (ar_action r) b"
proof -
  have stored: "ar_action r \<in> set (actions w') \<and> pd_key (ar_action r) = request_key rq \<and> pd_type (ar_action r) = request_type rq \<and>
      payloadsEqual (stripStoredIdempotencyKey (pd_payload (ar_action r))) (aq_payload rq)"
    using assms(3)
  proof (cases rule: request_Inr)
    case replayed
    with find_SomeD [OF replayed(3)] show ?thesis by simp
  next
    case (new maker)
    with assms(5,6) show ?thesis by (simp add: strip_with_key payloadsEqual_def)
  qed
  have run: "desk_run reg quiet start w'" using desk_run.requests [OF assms(1), of en rq] assms(3) by simp
  have "desk_inv (\<lambda>_. False) (actions w') (actions later)"
    by (rule run_desk_inv [OF assms(4) reachable_keys [OF run assms(2)]]) simp_all
  with stored obtain b where b: "b \<in> set (actions later)" "same_request (ar_action r) b" "distinct (map pd_key (actions later))"
    by (auto simp: desk_inv_def)
  have "find (\<lambda>x. pd_key x = pd_key b) (actions later) = Some b" by (rule find_key_unique [OF b(3,1)])
  with b(2) stored have f: "find (\<lambda>x. pd_key x = request_key rq) (actions later) = Some b" "pd_type b = request_type rq"
      "payloadsEqual (stripStoredIdempotencyKey (pd_payload b)) (aq_payload rq)"
    by (auto simp: same_request_def)
  have "\<not> payout_queued (request_type rq) (aq_payload rq) later" using assms(7) by (simp add: payout_queued_def)
  with request_replays [OF assms(8)] f b(2) show ?thesis by simp
qed

lemma sample_request_texts: "request_type (sample_action_request ''refund_override'') = ''refund_override''"
  "request_key (sample_action_request ''refund_override'') = ''k1''"
  by code_simp+

lemma sample_request_again:
  "may_request (sample_desk 90000000) ((sample_action_request ''refund_override'')\<lparr>aq_by := Some ''ben''\<rparr>) (books desk_after_approval)"
  "request_type (sample_action_request ''refund_override'') \<noteq> ''credit_settlement_payout''"
  using sample_request_texts by (simp_all add: may_request_def sample_desk_def or_null_def)

lemma sample_request_returns: "returned (requestPendingAction (sample_desk 0) (sample_action_request ''refund_override'') (sample_world []))"
  by code_simp

theorem request_is_idempotent_witness:
  "snd (requestPendingAction (sample_desk 90000000) ((sample_action_request ''refund_override'')\<lparr>aq_by := Some ''ben''\<rparr>) desk_after_approval) =
     desk_after_approval"
proof -
  obtain r w' where r: "requestPendingAction (sample_desk 0) (sample_action_request ''refund_override'') (sample_world []) = (Inr r, w')"
    using sample_request_returns by (rule returnedE)
  then have w': "w' = desk_after_request" by (simp add: desk_after_request_def)
  have "aq_payload (sample_action_request ''refund_override'') =
      ObjJ [(''customerId'', TextJ ''ana''), (''amountCents'', IntJ 50), (''reason'', TextJ ''gift'')]"
    by (simp add: sample_action_request_def)
  from request_is_idempotent [OF desk_run.begins _ r [unfolded w'] sample_run(2) this _ sample_request_again(2,1)]
  show ?thesis by (auto simp: sample_world_def)
qed

section \<open>The exception of payouts\<close>

definition payout_request :: action_request where
  "payout_request = \<lparr>aq_type = Some ''credit_settlement_payout'', aq_payload = ObjJ [(''settlementId'', TextJ ''7'')], aq_by = Some ''ana'', aq_key = Some ''k1''\<rparr>"

lemma payout_retry_is_refused:
  "returned (requestPendingAction (sample_desk 0) payout_request (sample_world []))"
  "fst (requestPendingAction (sample_desk 0) payout_request (snd (requestPendingAction (sample_desk 0) payout_request (sample_world [])))) =
     Inl (AppError 409 ''credit_settlement_payout_already_queued'')"
  by code_simp+

end
