(* ===== verification/PendingMoney.thy ===== *)
theory PendingMoney
  imports PendingProperties
begin

text \<open>
  Dual approval and the ledger together: what a passed and a refused compliance evaluation leave behind, what an
  approved load moves, and why money that has moved already does not move again.
\<close>

section \<open>The compliance evaluation\<close>

lemma try_then_fail_Inr:
  assumes "try_catch m h s = (Inr a, t)" and "\<And>e s a t. h e s \<noteq> (Inr a, t)"
  shows "m s = (Inr a, t)"
  using assms by (auto simp: try_catch_def split: prod.splits sum.splits)

lemma on_kyc_Inr: "on_kyc m w = (Inr r, w') \<longleftrightarrow> (\<exists>k. m (kyc w) = (Inr r, k) \<and> w' = w\<lparr>kyc := k\<rparr>)"
  by (auto simp: on_kyc_def split: prod.splits)

lemma funding_Inr:
  assumes "evaluateFundingCompliance en rq w = (Inr tier, w')"
  obtains customer amount currency cap k cleared scs ev where
    "fq_customer rq = Some customer" "positive_integer (fq_amount rq) = Some amount" "amount \<le> MAX_TRANSACTION_CENTS (fe_cf en)"
    "isCreditRailEnabled (books w)" "\<not> frozen (books w)"
    "assertSupportedCreditCurrency (fe_cf en) (fq_currency rq) = Inr currency"
    "\<not> fq_skipIssuance rq \<longrightarrow> assertIssuanceCapacity (fe_cf en) amount (Some currency) customer (books w) = Inr ()"
    "assertIdentityVerificationTier (fe_cf en) customer amount (kyc w) = (Inr (tier, cap), k)"
    "assertSanctionsClear (fe_cf en) ''customer'' customer (books w) = (Inr cleared, (books w)\<lparr>screenings := scs\<rparr>)"
    "w' = w\<lparr>books := (books w)\<lparr>screenings := scs\<rparr>, kyc := k\<lparr>kyc_trail := kyc_trail k @ [ev]\<rparr>\<rparr>"
    "ev_action ev = ''fiat.funding_compliance_evaluated''" "ev_customer ev = Some customer"
proof -
  let ?cf = "fe_cf en" let ?kind = "screening_normalizeString (fq_method rq) 64"
  from assms obtain customer where c: "or_null (fq_customer rq) = Some customer" "?kind \<noteq> []"
    and t: "try_catch (withTransaction (funding_checks en rq customer ?kind)) (\<lambda>e. case e of
          AppError status code \<Rightarrow>
            bind (withTransaction (write_event (funding_event en rq ''fiat.funding_compliance_denied'' customer ?kind
                    (''Fiat funding compliance denied for '' @ ?kind @ '': '' @ code)
                    (ObjJ [(''allowed'', BoolJ False), (''fundingMethod'', TextJ ?kind), (''denialCode'', TextJ code),
                           (''denialStatus'', IntJ (int status))])))) (\<lambda>_. fail e)
        | _ \<Rightarrow> fail e) w = (Inr tier, w')"
    unfolding evaluateFundingCompliance_def Let_def by (auto split: option.splits if_splits)
  have "withTransaction (funding_checks en rq customer ?kind) w = (Inr tier, w')"
    by (rule try_then_fail_Inr [OF t]) (auto simp: bind_apply split: js_error.split prod.split sum.split)
  then have f: "funding_checks en rq customer ?kind w = (Inr tier, w')" by simp
  from f obtain w1 where w1: "on_books (assertCreditRailEnabled False) w = (Inr (), w1)"
    unfolding funding_checks_def bind_Inr_iff by auto
  then have rail: "w1 = w" "isCreditRailEnabled (books w)" "\<not> frozen (books w)" by (auto simp: on_books_Inr dest!: rail_Inr)
  from f w1 rail(1) obtain amount where a: "positive_integer (fq_amount rq) = Some amount" "amount \<le> MAX_TRANSACTION_CENTS ?cf"
    unfolding funding_checks_def by (auto simp: bind_apply split: option.splits if_splits)
  from f w1 rail(1) a obtain currency where cur: "assertSupportedCreditCurrency ?cf (fq_currency rq) = Inr currency"
    unfolding funding_checks_def by (auto simp: bind_apply split: sum.splits)
  have cap: "\<not> fq_skipIssuance rq \<longrightarrow> assertIssuanceCapacity ?cf amount (Some currency) customer (books w) = Inr ()"
    using f w1 rail(1) a cur unfolding funding_checks_def by (auto simp: bind_apply split: sum.splits)
  have issuance: "(if fq_skipIssuance rq then ret ()
             else bind (gets (\<lambda>w. assertIssuanceCapacity ?cf amount (Some currency) customer (books w))) lift_res) w = (Inr (), w)"
    using cap by (simp add: bind_apply)
  have "funding_clearance en rq customer ?kind amount currency w = (Inr tier, w')"
    using f w1 rail(1) a cur issuance unfolding funding_checks_def by (auto simp: bind_apply)
  then obtain cap' k cleared w3 where t: "assertIdentityVerificationTier ?cf customer amount (kyc w) = (Inr (tier, cap'), k)"
      "on_books (assertSanctionsClear ?cf ''customer'' customer) (w\<lparr>kyc := k\<rparr>) = (Inr cleared, w3)"
      "\<exists>e. write_event e w3 = (Inr (), w') \<and> ev_action e = ''fiat.funding_compliance_evaluated'' \<and> ev_customer e = Some customer"
    unfolding funding_clearance_def assertPreAcquisitionAccepted_def
    by (fastforce simp: bind_Inr_iff on_kyc_Inr funding_event_def split: if_splits)
  from t(2) obtain b where b: "assertSanctionsClear ?cf ''customer'' customer (books w) = (Inr cleared, b)" "w3 = w\<lparr>kyc := k, books := b\<rparr>"
    by (auto simp: on_books_Inr)
  from clear_frame [OF b(1)] obtain scs where "b = (books w)\<lparr>screenings := scs\<rparr>" .
  moreover have "fq_customer rq = Some customer" using c(1) by (simp add: or_null_def split: if_splits)
  moreover obtain ev where "w' = w\<lparr>books := b, kyc := k\<lparr>kyc_trail := kyc_trail k @ [ev]\<rparr>\<rparr>"
    "ev_action ev = ''fiat.funding_compliance_evaluated''" "ev_customer ev = Some customer"
    using t(3) b(2) by (auto simp: write_event_run)
  ultimately show thesis using that a rail(2,3) cur cap t(1) b(1) by blast
qed

lemma clear_screenings:
  assumes "assertSanctionsClear cf ty i db = (Inr c, db\<lparr>screenings := scs\<rparr>)"
  shows "scs = screenings db \<or> (\<exists>s. scs = screenings db @ [s])"
proof -
  obtain s where "screenSubjectIfStale cf ty i False db = (Inr s, db\<lparr>screenings := scs\<rparr>)" using assms by (rule assertSanctionsClear_Inr)
  then show ?thesis
  proof (cases rule: screenSubjectIfStale_Inr)
    case kept
    from arg_cong [OF kept(3), of screenings] show ?thesis by simp
  next
    case asked
    from arg_cong [OF asked(5), of screenings] show ?thesis by simp
  qed
qed

text \<open>
  C19: Funding passes every check: when the compliance evaluation returns, the rail is open, the amount is a positive integer within
  the transaction limit, the customer holds a verified, unexpired identity of the returned tier that covers the amount,
  and no confirmed sanctions match exists; all it wrote is at most one new screening and exactly one audit event that records
  the evaluation, while the verifications and everything else are what they were.
\<close>

theorem funding_passes_every_check:
  assumes "evaluateFundingCompliance en rq w = (Inr tier, w')" and "verifications_ok (kyc w)" and "confirmed_are_hits (books w)"
  shows "\<exists>customer amount v scs ev. fq_customer rq = Some customer \<and> positive_integer (fq_amount rq) = Some amount \<and>
    amount \<le> MAX_TRANSACTION_CENTS (fe_cf en) \<and> isCreditRailEnabled (books w) \<and> \<not> frozen (books w) \<and>
    v \<in> set (verifications (kyc w)) \<and> vf_customer v = customer \<and> vf_status v = VVerified \<and> \<not> expired_at (cf_now (fe_cf en)) v \<and>
    vf_tier v = tier \<and> (tier = 1 \<and> amount \<le> TIER1_TOPUP_MAX_CENTS (fe_cf en) \<or> tier = 2 \<and> amount \<le> TIER2_TOPUP_MAX_CENTS (fe_cf en)) \<and>
    \<not> list_ex (\<lambda>s. sc_subject_type s = ''customer'' \<and> sc_subject s = customer \<and> isConfirmedBlock s) (screenings (books w)) \<and>
    (scs = screenings (books w) \<or> (\<exists>s. scs = screenings (books w) @ [s])) \<and>
    w' = w\<lparr>books := (books w)\<lparr>screenings := scs\<rparr>, kyc := (kyc w)\<lparr>kyc_trail := kyc_trail (kyc w) @ [ev]\<rparr>\<rparr> \<and>
    ev_action ev = ''fiat.funding_compliance_evaluated'' \<and> ev_customer ev = Some customer"
proof (rule funding_Inr [OF assms(1)])
  fix customer amount currency cap k cleared scs ev
  assume a: "fq_customer rq = Some customer" "positive_integer (fq_amount rq) = Some amount" "amount \<le> MAX_TRANSACTION_CENTS (fe_cf en)"
      "isCreditRailEnabled (books w)" "\<not> frozen (books w)"
    and t: "assertIdentityVerificationTier (fe_cf en) customer amount (kyc w) = (Inr (tier, cap), k)"
    and s: "assertSanctionsClear (fe_cf en) ''customer'' customer (books w) = (Inr cleared, (books w)\<lparr>screenings := scs\<rparr>)"
    and w: "w' = w\<lparr>books := (books w)\<lparr>screenings := scs\<rparr>, kyc := k\<lparr>kyc_trail := kyc_trail k @ [ev]\<rparr>\<rparr>"
    and ev: "ev_action ev = ''fiat.funding_compliance_evaluated''" "ev_customer ev = Some customer"
  from tier_gate [OF t assms(2)] obtain v where v: "v \<in> set (verifications (kyc w))" "vf_customer v = customer" "vf_status v = VVerified"
    "\<not> expired_at (cf_now (fe_cf en)) v" "vf_tier v = tier"
    "tier = 1 \<and> amount \<le> TIER1_TOPUP_MAX_CENTS (fe_cf en) \<or> tier = 2 \<and> amount \<le> TIER2_TOPUP_MAX_CENTS (fe_cf en)" by blast
  note clear = conjunct1 [OF cleared_subject [OF s assms(3)]] clear_screenings [OF s]
  note written = w [unfolded tier_gate_unchanged [OF t assms(2)]]
  show ?thesis
    by (rule exI [of _ customer], rule exI [of _ amount], rule exI [of _ v], rule exI [of _ scs], rule exI [of _ ev], intro conjI)
      (fact a v clear written ev)+
qed

text \<open>
  A refused funding leaves only its record: when the evaluation throws, the ledger, the identities, the challenges and the
  actions are what they were, and a refusal with an error of the application adds exactly one denial event with its
  code and status; any other error adds nothing.
\<close>

theorem refused_funding_leaves_one_event:
  assumes "evaluateFundingCompliance en rq w = (Inl e, w')"
  shows "w' = w \<and> (or_null (fq_customer rq) = None \<or> screening_normalizeString (fq_method rq) 64 = [] \<or> (\<forall>status code. e \<noteq> AppError status code)) \<or>
    (\<exists>customer status code ev. fq_customer rq = Some customer \<and> e = AppError status code \<and>
       w' = w\<lparr>kyc := (kyc w)\<lparr>kyc_trail := kyc_trail (kyc w) @ [ev]\<rparr>\<rparr> \<and> ev_action ev = ''fiat.funding_compliance_denied'' \<and>
       ev_customer ev = Some customer \<and> field (ev_details ev) ''denialCode'' = Some (TextJ code) \<and>
       field (ev_details ev) ''denialStatus'' = Some (IntJ (int status)))"
proof (cases "or_null (fq_customer rq)")
  case None
  with assms show ?thesis by (simp add: evaluateFundingCompliance_def)
next
  case (Some customer)
  let ?kind = "screening_normalizeString (fq_method rq) 64"
  show ?thesis
  proof (cases "?kind = []")
    case True
    with assms Some show ?thesis by (simp add: evaluateFundingCompliance_def)
  next
    case False
    have customer: "fq_customer rq = Some customer" using Some by (simp add: or_null_def split: if_splits)
    obtain r v where r: "withTransaction (funding_checks en rq customer ?kind) w = (r, v)"
      by (cases "withTransaction (funding_checks en rq customer ?kind) w") auto
    with assms Some False obtain e' where e': "r = Inl e'"
      by (cases r) (auto simp: evaluateFundingCompliance_def Let_def try_catch_def)
    with r have v: "v = w" by (auto dest: withTransaction_Inl)
    show ?thesis
    proof (cases e')
      case (AppError status code)
      let ?ev = "funding_event en rq ''fiat.funding_compliance_denied'' customer ?kind (''Fiat funding compliance denied for '' @ ?kind @ '': '' @ code)
          (ObjJ [(''allowed'', BoolJ False), (''fundingMethod'', TextJ ?kind), (''denialCode'', TextJ code), (''denialStatus'', IntJ (int status))])"
      from assms Some False r e' v AppError have "e = AppError status code" "w' = w\<lparr>kyc := (kyc w)\<lparr>kyc_trail := kyc_trail (kyc w) @ [?ev]\<rparr>\<rparr>"
        by (simp_all add: evaluateFundingCompliance_def Let_def try_catch_def bind_apply withTransaction_def [of "write_event _"] write_event_run)
      then have "\<exists>status code ev. e = AppError status code \<and> w' = w\<lparr>kyc := (kyc w)\<lparr>kyc_trail := kyc_trail (kyc w) @ [ev]\<rparr>\<rparr> \<and>
          ev_action ev = ''fiat.funding_compliance_denied'' \<and> ev_customer ev = Some customer \<and>
          field (ev_details ev) ''denialCode'' = Some (TextJ code) \<and> field (ev_details ev) ''denialStatus'' = Some (IntJ (int status))"
        by (intro exI [of _ status] exI [of _ code] exI [of _ ?ev]) (simp add: funding_event_def field_def)
      with customer show ?thesis by blast
    qed (use assms Some False r e' v in \<open>auto simp: evaluateFundingCompliance_def Let_def try_catch_def\<close>)
  qed
qed

section \<open>An approved load\<close>

lemma load_Inr:
  assumes "loadCustomerCredit cf rq db = (Inr p, db')" and "normalizeString (ld_key rq) 160 = Some key" and "findLoad key db = None"
  obtains amount currency reason wallet treasury mid mid2 where
    "parseAmountCents cf (ld_amount rq) (ld_currency rq) = Inr amount"
    "ensureAccount cf (customer_wallet (ld_customer rq)) (Some currency) False db = (Inr wallet, mid)"
    "ensureAccount cf (platform_account Platform_treasury) (Some currency) False mid = (Inr treasury, mid2)"
    "assertIssuanceCapacity cf amount (Some currency) (ld_customer rq) mid2 = Inr ()"
    "postJournalTransaction cf ((load_input rq amount currency reason (ac_id treasury) (ac_id wallet))\<lparr>ji_allowSuspended := True\<rparr>) mid2 = (Inr p, db')"
proof -
  from assms(1,2) obtain amount currency reason where
    a: "parseAmountCents cf (ld_amount rq) (ld_currency rq) = Inr amount"
    and l: "loadCustomerCreditInTransaction cf rq amount currency key reason db = (Inr p, db')"
    unfolding loadCustomerCredit_def by (auto simp: bind_Inr_iff require_key_Inr split: option.splits)
  from l assms(3) obtain wallet treasury mid mid2 where
    "ensureAccount cf (customer_wallet (ld_customer rq)) (Some currency) False db = (Inr wallet, mid)"
    "ensureAccount cf (platform_account Platform_treasury) (Some currency) False mid = (Inr treasury, mid2)"
    "assertIssuanceCapacity cf amount (Some currency) (ld_customer rq) mid2 = Inr ()"
    "postJournalTransaction cf ((load_input rq amount currency reason (ac_id treasury) (ac_id wallet))\<lparr>ji_allowSuspended := True\<rparr>) mid2 = (Inr p, db')"
    unfolding loadCustomerCreditInTransaction_def by (auto simp: bind_Inr_iff dest!: rail_Inr)
  with a show thesis by (rule that)
qed

lemma load_moves:
  assumes "loadCustomerCredit cf rq db = (Inr p, db')" and "normalizeString (ld_key rq) 160 = Some key" and "findLoad key db = None"
    and "\<not> po_replayed p" and "account_ids_ok db"
  shows "\<exists>currency wallet treasury. owned_by (customer_wallet (ld_customer rq)) currency wallet \<and>
    owned_by (platform_account Platform_treasury) currency treasury \<and>
    ld_amount rq = JInt (tx_amount (po_txn p)) \<and> 0 < tx_amount (po_txn p) \<and> tx_type (po_txn p) = ''load'' \<and>
    txns db' = txns db @ [po_txn p] \<and>
    (\<forall>i. balance_of db' i = balance_of db i + movement (ac_id treasury) (ac_id wallet) (tx_amount (po_txn p)) i)"
proof (rule load_Inr [OF assms(1-3)])
  fix amount code reason wallet treasury mid mid2
  assume a: "parseAmountCents cf (ld_amount rq) (ld_currency rq) = Inr amount"
    and e: "ensureAccount cf (customer_wallet (ld_customer rq)) (Some code) False db = (Inr wallet, mid)"
      "ensureAccount cf (platform_account Platform_treasury) (Some code) False mid = (Inr treasury, mid2)"
    and p: "postJournalTransaction cf ((load_input rq amount code reason (ac_id treasury) (ac_id wallet))\<lparr>ji_allowSuspended := True\<rparr>) mid2 = (Inr p, db')"
  have ids: "account_ids_ok mid2" by (rule ensure_balance(2) [OF e(2) ensure_balance(2) [OF e(1) assms(5)]])
  obtain n where n: "JInt amount = JInt n" "0 < n" "tx_amount (po_txn p) = n" "tx_type (po_txn p) = ''load''" "txns db' = txns mid2 @ [po_txn p]"
    and moves: "\<And>i. balance_of db' i = balance_of mid2 i + movement (ac_id treasury) (ac_id wallet) n i"
    using p assms(4) ids by (rule post_balance) (simp add: load_input_def journal_defaults_def)
  obtain currency where w: "assertSupportedCreditCurrency cf (Some code) = Inr currency" "owned_by (customer_wallet (ld_customer rq)) currency wallet"
    using e(1) by (rule ensureAccount_Inr)
  obtain currency2 where y: "assertSupportedCreditCurrency cf (Some code) = Inr currency2" "owned_by (platform_account Platform_treasury) currency2 treasury"
    using e(2) by (rule ensureAccount_Inr)
  have same: "currency2 = currency" using w(1) y(1) by simp
  have amount: "ld_amount rq = JInt (tx_amount (po_txn p))"
    using a n(1,3) by (auto simp: parseAmountCents_def res_bind_Inr_iff safe_int_Some_iff simp del: safe_int.simps split: option.splits if_splits)
  have kept: "txns mid2 = txns db" using ensure_txns(1) [OF e(1)] ensure_txns(1) [OF e(2)] by simp
  show ?thesis
    using w(2) y(2) same amount n moves kept by (intro exI [of _ currency] exI [of _ wallet] exI [of _ treasury]) (simp add: ensure_balance(1) [OF e(1)] ensure_balance(1) [OF e(2)])
qed

text \<open>A key that is new to the journal: the load posts.\<close>

lemma load_is_new:
  assumes "loadCustomerCredit cf rq db = (Inr p, db')" and "normalizeString (ld_key rq) 160 = Some key" and "getExistingTransaction key db = None"
  shows "findLoad key db = None" and "\<not> po_replayed p"
proof -
  show none: "findLoad key db = None"
    using assms(3) by (auto simp: findLoad_def getExistingTransaction_def find_None_iff)
  show "\<not> po_replayed p"
  proof (rule load_Inr [OF assms(1,2) none])
    fix amount code reason wallet treasury mid mid2
    assume e: "ensureAccount cf (customer_wallet (ld_customer rq)) (Some code) False db = (Inr wallet, mid)"
        "ensureAccount cf (platform_account Platform_treasury) (Some code) False mid = (Inr treasury, mid2)"
      and p: "postJournalTransaction cf ((load_input rq amount code reason (ac_id treasury) (ac_id wallet))\<lparr>ji_allowSuspended := True\<rparr>) mid2 = (Inr p, db')"
    from p show "\<not> po_replayed p"
    proof (cases rule: postJournalTransaction_Inr)
      case (replayed t amount' currency key')
      have "txns mid2 = txns db" using ensure_txns(1) [OF e(1)] ensure_txns(1) [OF e(2)] by simp
      with replayed(3,4) assms(2,3) show ?thesis
        by (simp add: getExistingTransaction_def load_input_def journal_defaults_def)
    next
      case moved
      then show ?thesis by simp
    qed
  qed
qed

lemma field_with_key: "k \<noteq> ''idempotencyKey'' \<Longrightarrow> field (with_key p key) k = field p k" "field (with_key p key) ''idempotencyKey'' = Some (TextJ key)"
proof -
  have set: "map_of (set_field k' v kvs) k = (if k = k' then Some v else map_of kvs k)" for k' v kvs and k :: string
    by (induction kvs) auto
  show "k \<noteq> ''idempotencyKey'' \<Longrightarrow> field (with_key p key) k = field p k" "field (with_key p key) ''idempotencyKey'' = Some (TextJ key)"
    by (simp_all add: with_key_def spread_def field_def set)
qed

definition load_funding :: "decision_request \<Rightarrow> pending_action \<Rightarrow> string \<Rightarrow> funding_request" where
  "load_funding rq a checker =
     \<lparr>fq_customer = json_text (field (pd_payload a) ''customerId''), fq_amount = js_Number (field (pd_payload a) ''amountCents''),
      fq_currency = json_text (field (pd_payload a) ''currencyCode''), fq_method = Some ''admin_load'', fq_actor = Some checker,
      fq_correlation = dq_correlation rq, fq_skipIssuance = False\<rparr>"

lemma approved_load_run:
  assumes "approve_action en rq a checker reason self \<lparr>committed = w, seen = w\<rparr> = (Inr r, c)" and "tame en" and "pd_type a = ''credit_load''"
  obtains s tier v p where
    "evaluateFundingCompliance (de_funding en) (load_funding rq a checker) (w\<lparr>stepups := s\<rparr>) = (Inr tier, v)"
    "loadCustomerCredit (de_cf en) (load_of (approval_context rq a checker)) (books v) = (Inr p, books (seen c))"
    "dr_result r = posting_refs p"
proof (rule approved_action [OF assms(1,2)])
  fix ch s f c2 c3 result u
  assume f: "executor_of en (pd_type a) = Some f"
    and g: "recheck_compliance en rq checker (with_key (pd_payload a) (pd_key a)) (pd_type a)
       \<lparr>committed = w\<lparr>stepups := s\<rparr>, seen = w\<lparr>stepups := s\<rparr>\<rparr> = (Inr u, c2)"
    and x: "f (approval_context rq a checker) c2 = (Inr result, c3)"
    and k: "\<exists>k. seen c = (seen c3)\<lparr>actions := upd_where (\<lambda>x. pd_id x = pd_id a) (approved_row en checker reason result) (actions w), kyc := k\<rparr>"
    and d: "dr_result r = result"
  from f assms(3) have f': "f = (\<lambda>x. elsewhere (on_books (map_result posting_refs (loadCustomerCredit (de_cf en) (load_of x)))))"
    by (simp add: executor_of_def)
  from g assms(3) obtain tier v where v: "evaluateFundingCompliance (de_funding en) (load_funding rq a checker) (w\<lparr>stepups := s\<rparr>) = (Inr tier, v)"
      "c2 = \<lparr>committed = v, seen = v\<rparr>"
    by (auto simp: recheck_compliance_def Let_def bind_Inr_iff elsewhere_Inr load_funding_def field_with_key)
  from x v(2) obtain p b where p: "loadCustomerCredit (de_cf en) (load_of (approval_context rq a checker)) (books v) = (Inr p, b)"
      "result = posting_refs p" "books (seen c3) = b"
    by (auto simp: f' elsewhere_Inr on_books_Inr map_result_def bind_Inr_iff)
  have "books (seen c) = b" using k p(3) by auto
  with p v(1) d show thesis by (intro that) simp_all
qed

text \<open>
  C8: An approved load is one payment: deciding a requested \<open>credit_load\<close> whose key the journal does not know yet posts exactly
  one transaction; it moves the amount of the action, as the maker asked for it, from the treasury to a wallet of the
  customer it names and changes no other balance; the customer's verified identity covers the amount at this moment; and the
  answer refers to this transaction.
\<close>

theorem approved_load_pays_once:
  assumes "decidePendingActionCore en oversightOnly rq w = (Inr r, w')" and "decision_of (dq_decision rq) = Some True"
    and "\<not> dr_replayed r" and "tame en" and "pd_type (dr_action r) = ''credit_load''"
    and "account_ids_ok (books w)" "verifications_ok (kyc w)"
    and "normalizeString (Some (pd_key (dr_action r))) 160 = Some key" "getExistingTransaction key (books w) = None"
  shows "\<exists>t customer currency wallet treasury v.
    field (pd_payload (dr_action r)) ''customerId'' = Some (TextJ customer) \<and>
    js_Number (field (pd_payload (dr_action r)) ''amountCents'') = JInt (tx_amount t) \<and> 0 < tx_amount t \<and> tx_type t = ''load'' \<and>
    owned_by (customer_wallet customer) currency wallet \<and> owned_by (platform_account Platform_treasury) currency treasury \<and>
    txns (books w') = txns (books w) @ [t] \<and>
    (\<forall>i. balance_of (books w') i = balance_of (books w) i + movement (ac_id treasury) (ac_id wallet) (tx_amount t) i) \<and>
    v \<in> set (verifications (kyc w)) \<and> vf_customer v = customer \<and> vf_status v = VVerified \<and> \<not> expired_at (cf_now (de_cf en)) v \<and>
    (vf_tier v = 1 \<and> tx_amount t \<le> TIER1_TOPUP_MAX_CENTS (de_cf en) \<or> vf_tier v = 2 \<and> tx_amount t \<le> TIER2_TOPUP_MAX_CENTS (de_cf en)) \<and>
    dr_result r = ObjJ [(''transactionId'', IntJ (tx_id t)), (''replayed'', BoolJ False)]"
  using assms(1)
proof (cases rule: returned_decision)
  case (replayed a)
  with assms(3) show ?thesis by simp
next
  case (rejected a checker reason c)
  with assms(2) show ?thesis by simp
next
  case (approved a checker reason c)
  from find_SomeD [OF approved(1)] have "pd_id a = dq_action rq" by simp
  with approved_checker(2) [OF approved(8) assms(4)] approved(1)
  have row: "pd_type (dr_action r) = pd_type a" "pd_payload (dr_action r) = pd_payload a" "pd_key (dr_action r) = pd_key a"
    by (auto simp: approved_row_def)
  have type: "pd_type a = ''credit_load''" using assms(5) row(1) by simp
  show ?thesis
  proof (rule approved_load_run [OF approved(8) assms(4) type])
    fix s tier v p
    assume ev: "evaluateFundingCompliance (de_funding en) (load_funding rq a checker) (w\<lparr>stepups := s\<rparr>) = (Inr tier, v)"
      and load: "loadCustomerCredit (de_cf en) (load_of (approval_context rq a checker)) (books v) = (Inr p, books (seen c))"
      and res: "dr_result r = posting_refs p"
    let ?ld = "load_of (approval_context rq a checker)"
    from ev obtain customer amount cap k scs k' where
      cu: "json_text (field (pd_payload a) ''customerId'') = Some customer" and
      am: "positive_integer (js_Number (field (pd_payload a) ''amountCents'')) = Some amount" and
      ti: "assertIdentityVerificationTier (de_cf en) customer amount (kyc w) = (Inr (tier, cap), k)" and
      bv: "books v = (books w)\<lparr>screenings := scs\<rparr>"
      by (rule funding_Inr) (auto simp: load_funding_def)
    have cust: "field (pd_payload a) ''customerId'' = Some (TextJ customer)" "ld_customer ?ld = customer"
      using cu by (auto simp: string_of_def json_text_def load_of_def approval_context_def field_with_key split: option.splits json.splits)
    have key: "normalizeString (ld_key ?ld) 160 = Some key"
      using assms(8) row(3) by (simp add: load_of_def approval_context_def field_with_key json_text_def)
    have ids: "account_ids_ok (books v)" and fresh: "getExistingTransaction key (books v) = None" and same: "txns (books v) = txns (books w)"
      "\<And>i. balance_of (books v) i = balance_of (books w) i"
      using assms(6,9) by (simp_all add: bv account_ids_ok_def getExistingTransaction_def balance_of_def account_row_def)
    note new = load_is_new [OF load key fresh]
    from load_moves [OF load key new ids] obtain currency wallet treasury where
      m: "owned_by (customer_wallet customer) currency wallet" "owned_by (platform_account Platform_treasury) currency treasury"
        "ld_amount ?ld = JInt (tx_amount (po_txn p))" "0 < tx_amount (po_txn p)" "tx_type (po_txn p) = ''load''"
        "txns (books (seen c)) = txns (books v) @ [po_txn p]"
        "\<forall>i. balance_of (books (seen c)) i = balance_of (books v) i + movement (ac_id treasury) (ac_id wallet) (tx_amount (po_txn p)) i"
      unfolding cust(2) by blast
    have js: "js_Number (field (pd_payload a) ''amountCents'') = JInt (tx_amount (po_txn p))"
      using m(3) by (simp add: load_of_def approval_context_def field_with_key)
    with am have "amount = tx_amount (po_txn p)" by (auto split: if_splits)
    with tier_gate [OF ti assms(7)] obtain x where
      x: "x \<in> set (verifications (kyc w))" "vf_customer x = customer" "vf_status x = VVerified" "\<not> expired_at (cf_now (de_cf en)) x"
        "vf_tier x = 1 \<and> tx_amount (po_txn p) \<le> TIER1_TOPUP_MAX_CENTS (de_cf en) \<or> vf_tier x = 2 \<and> tx_amount (po_txn p) \<le> TIER2_TOPUP_MAX_CENTS (de_cf en)"
      by blast
    have posted: "txns (books w') = txns (books w) @ [po_txn p]"
      "\<forall>i. balance_of (books w') i = balance_of (books w) i + movement (ac_id treasury) (ac_id wallet) (tx_amount (po_txn p)) i"
      "dr_result r = ObjJ [(''transactionId'', IntJ (tx_id (po_txn p))), (''replayed'', BoolJ False)]"
      using m(6,7) res new(2) by (simp_all add: approved(5) same posting_refs_def)
    show ?thesis
      unfolding row(2)
      by (rule exI [of _ "po_txn p"], rule exI [of _ customer], rule exI [of _ currency], rule exI [of _ wallet], rule exI [of _ treasury],
          rule exI [of _ x], intro conjI) (fact cust(1) js m(4,5,1,2) posted(1,2) x posted(3))+
  qed
qed

section \<open>Money moves once\<close>

text \<open>
  The executor of a load commits on another connection before the decision does. When the decision is lost in
  between, the action stays undecided although its money has moved.
\<close>

definition money :: "ledger \<Rightarrow> account list \<times> txn list \<times> entry list" where
  "money db = (accounts db, txns db, entries db)"

definition settled_at :: "account list \<times> txn list \<times> entry list \<Rightarrow> world \<Rightarrow> bool" where
  "settled_at K w \<longleftrightarrow> money (books w) = K"

definition both_settled :: "account list \<times> txn list \<times> entry list \<Rightarrow> connection \<Rightarrow> bool" where
  "both_settled K c \<longleftrightarrow> settled_at K (committed c) \<and> settled_at K (seen c)"

lemma repeated_load:
  assumes "normalizeString (ld_key rq) 160 = Some key" and "findLoad key db = Some t"
  shows "snd (loadCustomerCredit cf rq db) = db"
proof (cases "loadCustomerCredit cf rq db")
  case (Pair r db')
  show ?thesis
  proof (cases r)
    case (Inl e)
    with Pair show ?thesis
      by (auto simp: loadCustomerCredit_def bind_apply require_key_def withTransaction_def split: sum.splits option.splits prod.splits if_splits)
  next
    case (Inr p)
    with Pair assms obtain amount currency reason where "loadCustomerCreditInTransaction cf rq amount currency key reason db = (Inr p, db')"
      unfolding loadCustomerCredit_def by (auto simp: bind_Inr_iff require_key_Inr split: option.splits)
    with assms(2) obtain inp where "postJournalTransaction cf inp db = (Inr p, db')" "ji_existing inp = Some t"
      unfolding loadCustomerCreditInTransaction_def by (auto simp: bind_Inr_iff split: if_splits)
    from replayed_posting(2) [OF this] Pair show ?thesis by simp
  qed
qed

lemma settled_steps [keeps_intros]:
  "keeps (settled_at K) (on_kyc k)" "keeps (settled_at K) (on_stepups s)" "keeps (settled_at K) (write_event e)"
  "keeps (settled_at K) (update_action i f)" "keeps (settled_at K) (on_books (assertCreditRailEnabled b))"
  by (auto simp: keeps_def settled_at_def on_kyc_def on_stepups_def write_event_def update_action_def on_books_def assertCreditRailEnabled_def
      split: prod.split)

lemma settled_sanctions [keeps_intros]: "keeps (settled_at K) (on_books (assertSanctionsClear cf ty i))"
proof (rule keepsI)
  fix w assume s: "settled_at K w"
  have "keeps (\<lambda>db. money db = money (books w)) (assertSanctionsClear cf ty i)"
    unfolding assertSanctionsClear_def screenSubjectIfStale_def
    by (auto intro!: keeps_intros keeps_modify simp: money_def split: prod.split option.split)
  then have "money (snd (assertSanctionsClear cf ty i (books w))) = money (books w)" by (simp add: keeps_def)
  with s show "settled_at K (snd (on_books (assertSanctionsClear cf ty i) w))"
    by (auto simp: on_books_def settled_at_def split: prod.splits)
qed

lemma settled_funding: "keeps (settled_at K) (evaluateFundingCompliance en rq)"
proof -
  have checks: "keeps (settled_at K) (funding_checks en rq customer kind)" for customer kind
    unfolding funding_checks_def funding_clearance_def assertPreAcquisitionAccepted_def by (intro keeps_intros)
  show ?thesis
    unfolding evaluateFundingCompliance_def Let_def
    by (auto intro!: keeps_intros checks split: option.split js_error.split)
qed

lemma both_own [keeps_intros]: "keeps (settled_at K) m \<Longrightarrow> keeps (both_settled K) (own m)"
  by (rule keepsI) (auto simp: both_settled_def own_def split: prod.split dest: keepsD)

lemma both_elsewhere [keeps_intros]: "keeps (settled_at K) m \<Longrightarrow> keeps (both_settled K) (elsewhere m)"
  by (rule keepsI) (auto simp: both_settled_def elsewhere_def split: prod.split dest: keepsD)

lemma repeated_approval:
  assumes "pd_type a = ''credit_load''" and "normalizeString (Some (pd_key a)) 160 = Some key" and "findLoad key (books w) = Some t"
  shows "keeps (both_settled (money (books w))) (approve_action en rq a checker reason self)"
proof -
  let ?K = "money (books w)"
  have found: "findLoad key b = Some t" if "money b = ?K" for b
    using assms(3) that by (simp add: findLoad_def account_row_def money_def)
  have load: "keeps (settled_at ?K) (on_books (map_result posting_refs (loadCustomerCredit (de_cf en) (load_of (approval_context rq a checker)))))"
  proof (rule keepsI)
    fix v assume s: "settled_at ?K v"
    have "normalizeString (ld_key (load_of (approval_context rq a checker))) 160 = Some key"
      using assms(2) by (simp add: load_of_def approval_context_def field_with_key json_text_def)
    from repeated_load [OF this found] s
    have "snd (loadCustomerCredit (de_cf en) (load_of (approval_context rq a checker)) (books v)) = books v" by (simp add: settled_at_def)
    with s show "settled_at ?K (snd (on_books (map_result posting_refs (loadCustomerCredit (de_cf en) (load_of (approval_context rq a checker)))) v))"
      by (auto simp: on_books_def map_result_def bind_apply settled_at_def split: prod.split sum.split)
  qed
  have recheck: "keeps (both_settled ?K) (recheck_compliance en rq checker p ty)" for p ty
    unfolding recheck_compliance_def Let_def by (intro keeps_intros settled_funding)
  have exec: "executor_of en (pd_type a) = Some (\<lambda>x. elsewhere (on_books (map_result posting_refs (loadCustomerCredit (de_cf en) (load_of x)))))"
    using assms(1) by (simp add: executor_of_def)
  show ?thesis
    unfolding approve_action_def exec option.case Let_def approval_context_def [symmetric]
    by (intro keeps_intros recheck load keeps_reload)
qed

lemma settled_rejection: "keeps (both_settled K) (reject_action en a checker reason self)"
  unfolding reject_action_def by (intro keeps_intros keeps_reload)

lemma repeated_decision:
  assumes "find (\<lambda>x. pd_id x = dq_action rq) (actions w) = Some a" and "pd_type a = ''credit_load''"
    and "normalizeString (Some (pd_key a)) 160 = Some key" and "findLoad key (books w) = Some t"
  shows "both_settled (money (books w)) (snd (decide_row en oversightOnly rq approved checker \<lparr>committed = w, seen = w\<rparr>))"
proof -
  let ?c = "\<lparr>committed = w, seen = w\<rparr>" and ?K = "money (books w)"
  have c: "both_settled ?K ?c" by (simp add: both_settled_def settled_at_def)
  have approve: "both_settled ?K (snd (approve_action en rq a checker reason self ?c))" for reason self
    using repeated_approval [OF assms(2-4), of en rq checker reason self] c by (simp add: keeps_def)
  have reject: "both_settled ?K (snd (reject_action en a checker reason self ?c))" for reason self
    using settled_rejection [of ?K en a checker reason self] c by (simp add: keeps_def)
  have expire: "both_settled ?K (snd (bind (own (update_action i f)) (\<lambda>_. bind (own (write_event e)) (\<lambda>_. fail err :: (connection, decision_result) tx)) ?c))" for i f e err
  proof -
    have "keeps (both_settled ?K) (bind (own (update_action i f)) (\<lambda>_. bind (own (write_event e)) (\<lambda>_. fail err :: (connection, decision_result) tx)))"
      by (intro keeps_intros)
    from keepsD [OF this c surjective_pairing] show ?thesis .
  qed
  show ?thesis
    unfolding decide_row_def Let_def bind_apply [of "gets _"] gets_apply prod.case sum.case connection.select_convs assms(1) option.case
    using approve reject c expire by (simp split: if_split)
qed

text \<open>
  C15: A load is never paid twice: once the journal holds the load of an action, no decision on this action, by whomever,
  approved or rejected, finished or lost, changes an account, a transaction or an entry again, whatever the status
  of the action says.
\<close>

theorem executed_load_never_posts_again:
  assumes "find (\<lambda>x. pd_id x = dq_action rq) (actions w) = Some a" and "pd_type a = ''credit_load''"
    and "normalizeString (Some (pd_key a)) 160 = Some key" and "findLoad key (books w) = Some t"
  shows "money (books (snd (decidePendingActionCore en oversightOnly rq w))) = money (books w) \<and>
    money (books (snd (lost_decision (decide_row en oversightOnly rq approved checker) w))) = money (books w)"
proof
  have s: "both_settled (money (books w)) c" if "decide_row en oversightOnly rq ap ch \<lparr>committed = w, seen = w\<rparr> = (r, c)" for ap ch r c
    using repeated_decision [OF assms, of en oversightOnly ap ch] that by simp
  show "money (books (snd (decidePendingActionCore en oversightOnly rq w))) = money (books w)"
    using s by (auto simp: decidePendingActionCore_def in_decision_def both_settled_def settled_at_def split: option.split prod.split sum.split)
  show "money (books (snd (lost_decision (decide_row en oversightOnly rq approved checker) w))) = money (books w)"
    using s by (auto simp: lost_decision_def both_settled_def settled_at_def split: prod.split sum.split)
qed

section \<open>Witnesses\<close>

definition sample_funding :: funding_request where
  "sample_funding = load_funding sample_approval (requested_row ''credit_load'') ''ben''"

lemma sample_funding_passes: "returned (evaluateFundingCompliance (de_funding (sample_desk 30000)) sample_funding (sample_world []))"
  "verifications_ok (kyc (sample_world []))" "confirmed_are_hits (books (sample_world []))"
  by code_simp+

theorem funding_passes_every_check_witness:
  "\<exists>v \<in> set (verifications (kyc (sample_world []))). vf_customer v = ''ana'' \<and> vf_status v = VVerified"
proof -
  obtain tier w' where r: "evaluateFundingCompliance (de_funding (sample_desk 30000)) sample_funding (sample_world []) = (Inr tier, w')"
    using sample_funding_passes(1) by (rule returnedE)
  have "fq_customer sample_funding = Some ''ana''" by code_simp
  with funding_passes_every_check [OF r sample_funding_passes(2,3)] show ?thesis by auto
qed

lemma sample_funding_refused:
  "fst (evaluateFundingCompliance (de_funding (sample_desk 30000)) (sample_funding\<lparr>fq_customer := Some ''ben''\<rparr>) (sample_world [])) =
     Inl (AppError 403 ''credit_funding_verification_required'')"
  by code_simp

theorem refused_funding_leaves_one_event_witness:
  "\<exists>ev. snd (evaluateFundingCompliance (de_funding (sample_desk 30000)) (sample_funding\<lparr>fq_customer := Some ''ben''\<rparr>) (sample_world [])) =
     (sample_world [])\<lparr>kyc := (kyc (sample_world []))\<lparr>kyc_trail := [ev]\<rparr>\<rparr> \<and>
   ev_action ev = ''fiat.funding_compliance_denied''"
proof -
  let ?rq = "sample_funding\<lparr>fq_customer := Some ''ben''\<rparr>"
  have r: "evaluateFundingCompliance (de_funding (sample_desk 30000)) ?rq (sample_world []) =
      (Inl (AppError 403 ''credit_funding_verification_required''),
       snd (evaluateFundingCompliance (de_funding (sample_desk 30000)) ?rq (sample_world [])))"
    by (metis sample_funding_refused prod.collapse)
  have "screening_normalizeString (fq_method ?rq) 64 \<noteq> []" "or_null (fq_customer ?rq) \<noteq> None" by code_simp+
  moreover have "kyc_trail (kyc (sample_world [])) = []" by (simp add: sample_world_def sample_kyc_def)
  ultimately show ?thesis using refused_funding_leaves_one_event [OF r] by auto
qed

definition load_decision :: "decision_result res \<times> world" where
  "load_decision = decidePendingActionCore (sample_desk 30000) False sample_approval (requested_world ''credit_load'')"

lemma sample_load_decision:
  "(case fst load_decision of Inl _ \<Rightarrow> False | Inr r \<Rightarrow> \<not> dr_replayed r \<and> pd_type (dr_action r) = ''credit_load'' \<and>
     normalizeString (Some (pd_key (dr_action r))) 160 = Some ''k1'' \<and> field (pd_payload (dr_action r)) ''amountCents'' = Some (IntJ 50))"
  by code_simp

lemma sample_books_ok: "account_ids_ok (books (requested_world t))" "verifications_ok (kyc (requested_world t))"
  "getExistingTransaction ''k1'' (books (requested_world t)) = None"
  by (simp_all add: requested_world_def sample_world_def sample_screened_def getExistingTransaction_def) code_simp+

theorem approved_load_pays_once_witness:
  "\<exists>t. txns (books (snd load_decision)) = [t] \<and> tx_amount t = 50"
proof -
  from sample_load_decision obtain r where f: "fst load_decision = Inr r" "\<not> dr_replayed r" "pd_type (dr_action r) = ''credit_load''"
    "normalizeString (Some (pd_key (dr_action r))) 160 = Some ''k1''" "field (pd_payload (dr_action r)) ''amountCents'' = Some (IntJ 50)"
    by (auto split: sum.splits)
  then have r: "load_decision = (Inr r, snd load_decision)" by (metis prod.collapse)
  have "decision_of (dq_decision sample_approval) = Some True" by code_simp
  from approved_load_pays_once [OF r [unfolded load_decision_def] this f(2) tame_sample f(3) sample_books_ok(1,2) f(4) sample_books_ok(3)]
  obtain t where t: "js_Number (Some (IntJ 50)) = JInt (tx_amount t)"
      "txns (books (snd load_decision)) = txns (books (requested_world ''credit_load'')) @ [t]"
    unfolding f(5) load_decision_def by blast
  have "txns (books (requested_world ''credit_load'')) = []" by (simp add: requested_world_def sample_world_def sample_screened_def sample_ledger_def)
  with t show ?thesis by (simp add: js_Number_def number_of_bigint_def max_safe_integer_def)
qed

text \<open>The decision is lost after the executor has committed: the wallet has the money, the action is still undecided.\<close>

definition lost_world :: world where
  "lost_world = snd (lost_decision (decide_row (sample_desk 30000) False sample_approval True ''ben'') (requested_world ''credit_load''))"

definition desk_summary :: "world \<Rightarrow> (action_status \<times> int \<times> string \<times> string) list \<times> (int \<times> int) list \<times> (string \<times> int) list" where
  "desk_summary w =
     (map (\<lambda>a. (pd_status a, pd_id a, pd_type a, pd_key a)) (actions w), map (\<lambda>a. (ac_id a, ac_balance a)) (accounts (books w)),
      map (\<lambda>t. (tx_key t, tx_credit t)) (txns (books w)))"

lemma money_without_decision:
  "desk_summary lost_world = ([(Undecided, 1, ''credit_load'', ''k1'')], [(1, - 50), (2, 50)], [(''k1'', 2)])"
  by code_simp

theorem executed_load_never_posts_again_witness:
  "money (books (snd (decidePendingActionCore (sample_desk 90000) False sample_approval lost_world))) = money (books lost_world)"
proof -
  obtain a where a: "actions lost_world = [a]" "pd_key a = ''k1''" "pd_id a = 1" "pd_type a = ''credit_load''"
    using money_without_decision by (auto simp: desk_summary_def map_eq_Cons_conv)
  obtain t where t: "txns (books lost_world) = [t]" "tx_key t = ''k1''" "tx_credit t = 2"
    using money_without_decision by (auto simp: desk_summary_def map_eq_Cons_conv)
  obtain x y where "accounts (books lost_world) = [x, y]" "ac_id x = 1" "ac_id y = 2"
    using money_without_decision by (auto simp: desk_summary_def map_eq_Cons_conv)
  then have "findLoad ''k1'' (books lost_world) = Some t" using t by (simp add: findLoad_def account_row_def)
  moreover have "find (\<lambda>x. pd_id x = dq_action sample_approval) (actions lost_world) = Some a"
    using a(1,3) by (simp add: sample_approval_def)
  moreover have "normalizeString (Some (pd_key a)) 160 = Some ''k1''" unfolding a(2) by code_simp
  ultimately show ?thesis using executed_load_never_posts_again [OF _ a(4)] by blast
qed

end
