(* ===== verification/Reservations.thy ===== *)
theory Reservations
  imports PendingMoney
begin

text \<open>
  Reservations that are no holds (\<open>services/oxsteedCreditReservationService.js\<close>): money of a wallet set aside for a
  withdrawal while its payout is decided. The helpers run inside the transaction of their caller.
\<close>

section \<open>The tables of the cashier\<close>

datatype reservation_status = Reserved | Released

record reservation =
  rv_id :: int
  rv_account :: int
  rv_type :: string
  rv_refType :: string
  rv_refId :: string
  rv_amount :: int
  rv_status :: reservation_status
  rv_released_at :: "int option"
  rv_released_reason :: "string option"

datatype withdrawal_status =
  Requested | Approved_wd | Processing | Paid | Failed_wd | Rejected_wd | Cancelled | Requires_attention

record withdrawal =
  wd_id :: int
  wd_customer :: string
  wd_account :: "int option"
  wd_amount :: int
  wd_fee :: int
  wd_net :: int
  wd_currency :: string
  wd_status :: withdrawal_status
  wd_transfer :: "string option"
  wd_destination :: "string option"
  wd_key :: string
  wd_txn :: "int option"
  wd_fee_txn :: "int option"
  wd_reversal_txn :: "int option"
  wd_reviewer :: "string option"
  wd_reviewed_at :: "int option"
  wd_reason :: "string option"
  wd_expires :: int
  wd_day :: int                      \<comment> \<open>the date of \<open>created_at\<close>\<close>

text \<open>\<open>payout_accounts\<close>: the users with a connected Stripe account that can be paid (\<open>connect_accounts\<close>).\<close>

record cashier =
  ledger_side :: world
  reservations :: "reservation list"
  withdrawals :: "withdrawal list"
  payout_accounts :: "(string \<times> string) list"

type_synonym 'a till = "(cashier, 'a) tx"

definition in_world :: "(world, 'a) tx \<Rightarrow> 'a till" where
  "in_world m = (\<lambda>c. case m (ledger_side c) of (r, w) \<Rightarrow> (r, c\<lparr>ledger_side := w\<rparr>))"

abbreviation in_books :: "'a credit \<Rightarrow> 'a till" where
  "in_books m \<equiv> in_world (on_books m)"

section \<open>Reserving\<close>

record reserve_request =
  rr_account :: int
  rr_type :: string
  rr_refType :: string
  rr_refId :: string
  rr_amount :: jsnum

text \<open>\<open>ORDER BY created_at DESC LIMIT 1\<close>.\<close>

definition active_reservation :: "string \<Rightarrow> string \<Rightarrow> cashier \<Rightarrow> reservation option" where
  "active_reservation refType refId c =
     find (\<lambda>r. rv_refType r = refType \<and> rv_refId r = refId \<and> rv_status r = Reserved) (rev (reservations c))"

definition replay_reservation :: "reservation \<Rightarrow> string \<Rightarrow> int \<Rightarrow> int \<Rightarrow> (reservation \<times> bool) till" where
  "replay_reservation r kind amount account =
     (if rv_type r = kind \<and> rv_amount r = amount \<and> rv_account r = account then ret (r, True)
      else fail (AppError 409 ''credit_reservation_conflict''))"

text \<open>The INSERT does nothing when an active row has the reference already.\<close>

definition insert_reservation :: "reservation \<Rightarrow> reservation option till" where
  "insert_reservation r = (\<lambda>c.
     if active_reservation (rv_refType r) (rv_refId r) c \<noteq> None then (Inr None, c)
     else let row = r\<lparr>rv_id := next_id (map rv_id (reservations c))\<rparr> in (Inr (Some row), c\<lparr>reservations := reservations c @ [row]\<rparr>))"

definition reserveFunds :: "reserve_request \<Rightarrow> (reservation \<times> bool) till" where
  "reserveFunds rq =
     (case safe_int (rr_amount rq) of
        None \<Rightarrow> fail (AppError 400 ''credit_reservation_amount_invalid'')
      | Some amount \<Rightarrow>
      if amount \<le> 0 then fail (AppError 400 ''credit_reservation_amount_invalid'')
      else let kind = screening_normalizeString (Some (rr_type rq)) 40;
               refType = screening_normalizeString (Some (rr_refType rq)) 60;
               refId = screening_normalizeString (Some (rr_refId rq)) 255 in
      if kind = [] \<or> refType = [] \<or> refId = [] then fail (AppError 400 ''credit_reservation_reference_required'')
      else bind (gets (\<lambda>c. (account_row (books (ledger_side c)) (rr_account rq), active_reservation refType refId c))) (\<lambda>(row, existing).
      case row of
        None \<Rightarrow> fail (AppError 404 ''credit_reservation_account_not_found'')
      | Some account \<Rightarrow>
      if ac_status account = Closed then fail (AppError 409 ''credit_account_inactive'')
      else case existing of
        Some r \<Rightarrow> replay_reservation r kind amount (ac_id account)
      | None \<Rightarrow>
      if ac_balance account - ac_reserved account < amount then fail (AppError 409 ''credit_insufficient_funds'')
      else bind (insert_reservation
             \<lparr>rv_id = 0, rv_account = ac_id account, rv_type = kind, rv_refType = refType, rv_refId = refId, rv_amount = amount,
              rv_status = Reserved, rv_released_at = None, rv_released_reason = None\<rparr>) (\<lambda>inserted.
      case inserted of
        None \<Rightarrow>
          bind (gets (active_reservation refType refId)) (\<lambda>winner.
          case winner of
            Some r \<Rightarrow> replay_reservation r kind amount (ac_id account)
          | None \<Rightarrow> fail (AppError 409 ''credit_reservation_conflict''))
      | Some r \<Rightarrow>
          bind (in_books (modify (add_reserved (ac_id account) amount))) (\<lambda>_. ret (r, False)))))"

section \<open>Releasing\<close>

record release_order =
  re_reservation :: "int option"
  re_refType :: "string option"
  re_refId :: "string option"
  re_reason :: "string option"

definition release_target :: "release_order \<Rightarrow> reservation option till" where
  "release_target rq =
     (case re_reservation rq of
        Some i \<Rightarrow> gets (\<lambda>c. find (\<lambda>r. rv_id r = i) (reservations c))
      | None \<Rightarrow>
          let refType = screening_normalizeString (re_refType rq) 60; refId = screening_normalizeString (re_refId rq) 255 in
          if refType = [] \<or> refId = [] then fail (AppError 400 ''credit_reservation_reference_required'')
          else gets (active_reservation refType refId))"

text \<open>The UPDATE of the account is guarded by \<open>reserved_cents >= amount\<close>.\<close>

definition lower_reserved :: "int \<Rightarrow> int \<Rightarrow> bool till" where
  "lower_reserved i amount = (\<lambda>c.
     case find (\<lambda>a. ac_id a = i \<and> amount \<le> ac_reserved a) (accounts (books (ledger_side c))) of
       None \<Rightarrow> (Inr False, c)
     | Some _ \<Rightarrow> (Inr True, snd (in_books (modify (add_reserved i (- amount))) c)))"

definition released_row :: "config \<Rightarrow> string option \<Rightarrow> reservation \<Rightarrow> reservation" where
  "released_row cf reason r =
     r\<lparr>rv_status := Released, rv_released_at := Some (cf_db_now cf), rv_released_reason := or_null (Some (screening_normalizeString reason 500))\<rparr>"

definition releaseReservation :: "config \<Rightarrow> release_order \<Rightarrow> (bool \<times> reservation option) till" where
  "releaseReservation cf rq =
     bind (release_target rq) (\<lambda>row.
     case row of
       None \<Rightarrow> ret (False, None)
     | Some r \<Rightarrow>
         if rv_status r \<noteq> Reserved then ret (False, Some r)
         else bind (lower_reserved (rv_account r) (rv_amount r)) (\<lambda>lowered.
         if \<not> lowered then fail (AppError 409 ''credit_reservation_release_invalid'')
         else bind (modify (\<lambda>c. c\<lparr>reservations := upd_where (\<lambda>x. rv_id x = rv_id r) (released_row cf (re_reason rq)) (reservations c)\<rparr>)) (\<lambda>_.
         ret (True, Some (released_row cf (re_reason rq) r)))))"

definition getActiveReservation :: "string option \<Rightarrow> string option \<Rightarrow> cashier \<Rightarrow> reservation option" where
  "getActiveReservation refType refId =
     active_reservation (screening_normalizeString refType 60) (screening_normalizeString refId 255)"

end
