(* ===== verification/Withdrawals.thy ===== *)
theory Withdrawals
  imports Reservations
begin

text \<open>
  Withdrawals of customers to their bank (\<open>services/oxsteedCreditWithdrawalService.js\<close>): the request with its
  reservation, the approval that creates the Stripe transfer and posts the lock legs, rejection, cancellation, and
  the two webhooks. Stripe is the record \<open>stripe\<close>: what \<open>transfers.create\<close> and \<open>transfers.retrieve\<close> answer.
\<close>

section \<open>The payment provider\<close>

record transfer =
  tf_reversed :: bool
  tf_withdrawal :: "string option"
  tf_amount :: jsnum

record stripe =
  st_configured :: bool
  st_create :: "int \<Rightarrow> string \<Rightarrow> string \<Rightarrow> int \<Rightarrow> string option res"     \<comment> \<open>amount, currency, destination, withdrawal\<close>
  st_retrieve :: "string \<Rightarrow> transfer res"

definition defaultGetStripe :: "stripe \<Rightarrow> unit res" where
  "defaultGetStripe st = (if st_configured st then Inr () else Inl (AppError 503 ''credit_stripe_unavailable''))"

definition is_app_error :: "js_error \<Rightarrow> bool" where
  "is_app_error e = (case e of AppError _ _ \<Rightarrow> True | _ \<Rightarrow> False)"

definition is_pg_error :: "js_error \<Rightarrow> bool" where
  "is_pg_error e = (case e of PgError _ \<Rightarrow> True | _ \<Rightarrow> False)"

definition create_transfer :: "stripe \<Rightarrow> int \<Rightarrow> string \<Rightarrow> string \<Rightarrow> int \<Rightarrow> string res" where
  "create_transfer st amount currency destination i =
     (case st_create st amount (js_lower currency) destination i of
        Inl e \<Rightarrow> Inl (if is_app_error e then e else AppError 502 ''credit_withdrawal_stripe_failed'')
      | Inr t \<Rightarrow> (case or_null t of None \<Rightarrow> Inl (AppError 502 ''credit_withdrawal_transfer_failed'') | Some tid \<Rightarrow> Inr tid))"

section \<open>Checks\<close>

definition WITHDRAWAL_REQUEST_EXPIRY_HOURS :: int where
  "WITHDRAWAL_REQUEST_EXPIRY_HOURS = 72"

definition MIN_WITHDRAWAL_CENTS :: "config \<Rightarrow> jsnum" where
  "MIN_WITHDRAWAL_CENTS cf = parse_int (case env_text cf ''OXSTEED_CREDIT_WITHDRAWAL_MIN_CENTS'' of None \<Rightarrow> ''500'' | Some s \<Rightarrow> s)"

definition requireAdministrativeActor_wd :: "string option \<Rightarrow> string res" where
  "requireAdministrativeActor_wd actor =
     (case or_null actor of None \<Rightarrow> Inl (AppError 401 ''credit_admin_actor_required'') | Some a \<Rightarrow> Inr a)"

definition normalizeIdempotencyKey :: "string option \<Rightarrow> string res" where
  "normalizeIdempotencyKey value =
     (let key = screening_normalizeString value 160 in
      if key = [] then Inl (AppError 400 ''credit_withdrawal_idempotency_key_required'') else Inr key)"

definition validateWithdrawalAmount :: "config \<Rightarrow> jsnum \<Rightarrow> int res" where
  "validateWithdrawalAmount cf v =
     (case safe_int v of
        None \<Rightarrow> Inl (AppError 400 ''credit_withdrawal_amount_invalid'')
      | Some amount \<Rightarrow>
          if amount \<le> 0 then Inl (AppError 400 ''credit_withdrawal_amount_invalid'')
          else if (case MIN_WITHDRAWAL_CENTS cf of JFin q \<Rightarrow> of_int amount < q | _ \<Rightarrow> False)
          then Inl (AppError 402 ''credit_withdrawal_amount_too_small'')
          else if MAX_TRANSACTION_CENTS cf < amount then Inl (AppError 402 ''credit_withdrawal_amount_too_large'')
          else Inr amount)"

definition resolveCustomerDestination :: "string \<Rightarrow> cashier \<Rightarrow> string option" where
  "resolveCustomerDestination customer c = or_null (map_of (payout_accounts c) customer)"

definition open_statuses :: "withdrawal_status set" where
  "open_statuses = {Requested, Approved_wd, Processing, Paid, Requires_attention}"

definition withdrawn_today :: "config \<Rightarrow> string \<Rightarrow> string \<Rightarrow> cashier \<Rightarrow> int" where
  "withdrawn_today cf customer currency c =
     sum_list (map wd_amount (filter (\<lambda>w. wd_customer w = customer \<and> wd_currency w = currency \<and> wd_status w \<in> open_statuses \<and>
        cf_today cf \<le> wd_day w) (withdrawals c)))"

definition assertDailyWithdrawalCapacity :: "config \<Rightarrow> string \<Rightarrow> int \<Rightarrow> string \<Rightarrow> cashier \<Rightarrow> unit res" where
  "assertDailyWithdrawalCapacity cf customer amount currency c =
     res_bind (limit cf ''withdrawal_daily'' currency) (\<lambda>cap.
     if cap < withdrawn_today cf customer currency c + amount then Inl (AppError 429 ''credit_withdrawal_daily_cap_exceeded'') else Inr ())"

section \<open>Rows\<close>

definition find_withdrawal :: "int \<Rightarrow> cashier \<Rightarrow> withdrawal option" where
  "find_withdrawal i c = find (\<lambda>w. wd_id w = i) (withdrawals c)"

definition getCustomerWithdrawal :: "string \<Rightarrow> int \<Rightarrow> cashier \<Rightarrow> withdrawal option" where
  "getCustomerWithdrawal customer i c = find (\<lambda>w. wd_id w = i \<and> wd_customer w = customer) (withdrawals c)"

definition find_transfer :: "string \<Rightarrow> cashier \<Rightarrow> withdrawal option" where
  "find_transfer t c = find (\<lambda>w. wd_transfer w = Some t) (withdrawals c)"

text \<open>\<open>INSERT ... ON CONFLICT (idempotency_key) DO NOTHING\<close>.\<close>

definition insert_withdrawal :: "withdrawal \<Rightarrow> withdrawal option till" where
  "insert_withdrawal w = (\<lambda>c.
     if list_ex (\<lambda>x. wd_key x = wd_key w) (withdrawals c) then (Inr None, c)
     else let row = w\<lparr>wd_id := next_id (map wd_id (withdrawals c))\<rparr> in (Inr (Some row), c\<lparr>withdrawals := withdrawals c @ [row]\<rparr>))"

text \<open>An UPDATE by id; the column of the transfer is unique.\<close>

definition update_withdrawal :: "int \<Rightarrow> (withdrawal \<Rightarrow> withdrawal) \<Rightarrow> withdrawal option till" where
  "update_withdrawal i f = (\<lambda>c.
     case find_withdrawal i c of
       None \<Rightarrow> (Inr None, c)
     | Some w \<Rightarrow>
         if wd_transfer (f w) \<noteq> None \<and> list_ex (\<lambda>x. wd_id x \<noteq> i \<and> wd_transfer x = wd_transfer (f w)) (withdrawals c)
         then (Inl (PgError ''23505''), c)
         else (Inr (Some (f w)), c\<lparr>withdrawals := upd_where (\<lambda>x. wd_id x = i) f (withdrawals c)\<rparr>))"

fun withdrawal_status_text :: "withdrawal_status \<Rightarrow> string" where
  "withdrawal_status_text Requested = ''requested''"
| "withdrawal_status_text Approved_wd = ''approved''"
| "withdrawal_status_text Processing = ''processing''"
| "withdrawal_status_text Paid = ''paid''"
| "withdrawal_status_text Failed_wd = ''failed''"
| "withdrawal_status_text Rejected_wd = ''rejected''"
| "withdrawal_status_text Cancelled = ''cancelled''"
| "withdrawal_status_text Requires_attention = ''requires_attention''"

definition withdrawal_event :: "string \<Rightarrow> string option \<Rightarrow> withdrawal \<Rightarrow> string \<Rightarrow> json \<Rightarrow> event" where
  "withdrawal_event name actor w reason details =
     \<lparr>ev_action = name, ev_actor = actor, ev_customer = Some (wd_customer w), ev_resource = (''credit_withdrawal'', show_int (wd_id w)),
      ev_reason = screening_normalizeString (Some reason) 1000, ev_details = details\<rparr>"

abbreviation log_event :: "event \<Rightarrow> unit till" where
  "log_event e \<equiv> in_world (write_event e)"

definition reserve_withdrawal :: "account \<Rightarrow> int \<Rightarrow> int \<Rightarrow> (reservation \<times> bool) till" where
  "reserve_withdrawal wallet i amount =
     reserveFunds \<lparr>rr_account = ac_id wallet, rr_type = ''withdrawal'', rr_refType = ''credit_withdrawal'', rr_refId = show_int i,
       rr_amount = number_of_bigint amount\<rparr>"

definition release_withdrawal :: "config \<Rightarrow> int \<Rightarrow> string \<Rightarrow> (bool \<times> reservation option) till" where
  "release_withdrawal cf i reason =
     releaseReservation cf \<lparr>re_reservation = None, re_refType = Some ''credit_withdrawal'', re_refId = Some (show_int i), re_reason = Some reason\<rparr>"

section \<open>The request\<close>

record withdrawal_request =
  wr_customer :: "string option"
  wr_amount :: jsnum
  wr_currency :: "string option"
  wr_key :: "string option"

definition new_withdrawal :: "config \<Rightarrow> string \<Rightarrow> int \<Rightarrow> int \<Rightarrow> string \<Rightarrow> string \<Rightarrow> string \<Rightarrow> withdrawal" where
  "new_withdrawal cf customer amount fee currency destination key =
     \<lparr>wd_id = 0, wd_customer = customer, wd_account = None, wd_amount = amount, wd_fee = fee, wd_net = amount - fee,
      wd_currency = currency, wd_status = Requested, wd_transfer = None, wd_destination = Some destination, wd_key = key,
      wd_txn = None, wd_fee_txn = None, wd_reversal_txn = None, wd_reviewer = None, wd_reviewed_at = None, wd_reason = None,
      wd_expires = cf_db_now cf + WITHDRAWAL_REQUEST_EXPIRY_HOURS * 3600 * 1000, wd_day = cf_today cf\<rparr>"

definition request_in_transaction :: "config \<Rightarrow> string \<Rightarrow> int \<Rightarrow> string \<Rightarrow> string \<Rightarrow> (withdrawal option \<times> bool) till" where
  "request_in_transaction cf customer amount currency key =
     bind (in_books (assertCreditRailEnabled False)) (\<lambda>_.
     bind (in_world (on_kyc (assertIdentityVerificationTier cf customer amount))) (\<lambda>_.
     bind (in_books (assertSanctionsClear cf ''customer'' customer)) (\<lambda>_.
     bind (gets (resolveCustomerDestination customer)) (\<lambda>destination.
     case destination of
       None \<Rightarrow> fail (AppError 409 ''credit_withdrawal_no_connected_account'')
     | Some dest \<Rightarrow>
     bind (gets (assertDailyWithdrawalCapacity cf customer amount currency)) (\<lambda>capacity.
     bind (lift_res capacity) (\<lambda>_.
     bind (gets (\<lambda>c. quoteFee cf ''withdrawal'' currency (JInt amount) (books (ledger_side c)))) (\<lambda>quote.
     bind (lift_res quote) (\<lambda>fee.
     if amount \<le> fee then fail (AppError 402 ''credit_withdrawal_fee_exceeds_amount'')
     else
       bind (insert_withdrawal (new_withdrawal cf customer amount fee currency dest key)) (\<lambda>inserted.
       case inserted of
         Some w \<Rightarrow>
           bind (in_books (ensureAccount cf (customer_wallet customer) (Some currency) False)) (\<lambda>wallet.
           bind (reserve_withdrawal wallet (wd_id w) amount) (\<lambda>_.
           ret (Some w, True)))
       | None \<Rightarrow>
           bind (gets (\<lambda>c. find (\<lambda>w. wd_key w = key) (withdrawals c))) (\<lambda>existing.
           case existing of
             None \<Rightarrow> ret (None, False)
           | Some w \<Rightarrow>
               bind (if wd_status w = Requested
                     then bind (in_books (ensureAccount cf (customer_wallet customer) (Some currency) False)) (\<lambda>wallet.
                          bind (reserve_withdrawal wallet (wd_id w) (wd_amount w)) (\<lambda>_. ret ()))
                     else ret ()) (\<lambda>_.
               ret (Some w, False))))))))))))"

definition requestWithdrawal :: "config \<Rightarrow> withdrawal_request \<Rightarrow> (withdrawal \<times> bool) till" where
  "requestWithdrawal cf rq =
     (case or_null (wr_customer rq) of
        None \<Rightarrow> fail (AppError 400 ''credit_withdrawal_customer_required'')
      | Some customer \<Rightarrow>
      bind (lift_res (validateWithdrawalAmount cf (wr_amount rq))) (\<lambda>amount.
      bind (lift_res (assertSupportedCreditCurrency cf (wr_currency rq))) (\<lambda>currency.
      bind (lift_res (normalizeIdempotencyKey (wr_key rq))) (\<lambda>key.
      bind (withTransaction (request_in_transaction cf customer amount currency key)) (\<lambda>(row, created).
      case row of
        None \<Rightarrow> fail (AppError 500 ''credit_withdrawal_create_failed'')
      | Some w \<Rightarrow>
          if wd_amount w \<noteq> amount \<or> wd_currency w \<noteq> currency
          then fail (AppError 409 ''credit_withdrawal_idempotency_conflict'')
          else
            bind (log_event ((withdrawal_event ''credit.withdrawal.requested'' (Some customer) w ''Customer withdrawal request''
                   (ObjJ [(''status'', TextJ (withdrawal_status_text (wd_status w))), (''amountCents'', IntJ amount), (''feeCents'', IntJ (wd_fee w))]))\<lparr>ev_customer := Some customer\<rparr>)) (\<lambda>_.
            ret (w, \<not> created)))))))"

section \<open>The approval\<close>

record approval_request =
  ap_withdrawal :: int
  ap_actor :: "string option"
  ap_key :: "string option"
  ap_ip :: "string option"
  ap_correlation :: "string option"

text \<open>The two legs: the net amount to the treasury and the quoted fee to the revenue account.\<close>

definition payout_leg :: "withdrawal \<Rightarrow> approval_request \<Rightarrow> string \<Rightarrow> string \<Rightarrow> string \<Rightarrow> account \<Rightarrow> account \<Rightarrow> journal_input" where
  "payout_leg w rq actor currency tid wallet treasury = journal_defaults
     \<lparr>ji_type := ''cash_out'', ji_debit := ac_id wallet, ji_credit := ac_id treasury, ji_customer := Some (wd_customer w),
      ji_amount := number_of_bigint (wd_net w), ji_currency := currency, ji_key := Some (''credit-withdrawal:'' @ show_int (wd_id w)),
      ji_actorType := Some ''admin'', ji_actorUser := Some actor, ji_reason := Some ''Customer withdrawal payout'',
      ji_description := Some ''Customer withdrawal payout'', ji_refType := Some ''credit_withdrawal'', ji_refId := Some (show_int (wd_id w)),
      ji_metadata := ObjJ [(''source'', TextJ ''credit_withdrawal''), (''stripeTransferId'', TextJ tid)],
      ji_correlation := ap_correlation rq, ji_requestIp := ap_ip rq\<rparr>"

definition fee_leg :: "withdrawal \<Rightarrow> approval_request \<Rightarrow> string \<Rightarrow> string \<Rightarrow> account \<Rightarrow> account \<Rightarrow> journal_input" where
  "fee_leg w rq actor currency wallet revenue = journal_defaults
     \<lparr>ji_type := ''withdrawal_fee'', ji_debit := ac_id wallet, ji_credit := ac_id revenue, ji_customer := Some (wd_customer w),
      ji_amount := number_of_bigint (wd_fee w), ji_currency := currency, ji_key := Some (''credit-withdrawal:'' @ show_int (wd_id w) @ '':fee''),
      ji_actorType := Some ''admin'', ji_actorUser := Some actor, ji_reason := Some ''Customer withdrawal fee'',
      ji_description := Some ''Customer withdrawal fee'', ji_refType := Some ''credit_withdrawal_fee'', ji_refId := Some (show_int (wd_id w)),
      ji_metadata := ObjJ [(''source'', TextJ ''credit_withdrawal''), (''quotedFeeCents'', IntJ (wd_fee w))],
      ji_correlation := ap_correlation rq, ji_requestIp := ap_ip rq\<rparr>"

definition post_fee :: "config \<Rightarrow> withdrawal \<Rightarrow> approval_request \<Rightarrow> string \<Rightarrow> string \<Rightarrow> account \<Rightarrow> int option till" where
  "post_fee cf w rq actor currency wallet =
     (if 0 < wd_fee w then
        bind (in_books (ensureAccount cf (platform_account Platform_revenue) (Some currency) False)) (\<lambda>revenue.
        bind (in_books (postJournalTransaction cf (fee_leg w rq actor currency wallet revenue))) (\<lambda>p.
        ret (Some (tx_id (po_txn p)))))
      else ret None)"

record approval_result =
  ar_withdrawal :: "withdrawal option"
  ar_transfer :: string
  ar_error :: "js_error option"

definition processing_row :: "config \<Rightarrow> string \<Rightarrow> string \<Rightarrow> string \<Rightarrow> account \<Rightarrow> int \<Rightarrow> int option \<Rightarrow> withdrawal \<Rightarrow> withdrawal" where
  "processing_row cf actor tid dest wallet txn fee_txn w =
     w\<lparr>wd_status := Processing, wd_transfer := Some tid, wd_destination := Some dest, wd_account := Some (ac_id wallet), wd_txn := Some txn,
       wd_fee_txn := fee_txn, wd_reviewer := Some actor, wd_reviewed_at := Some (cf_db_now cf)\<rparr>"

definition post_payout ::
  "config \<Rightarrow> approval_request \<Rightarrow> string \<Rightarrow> withdrawal \<Rightarrow> string \<Rightarrow> string \<Rightarrow> string \<Rightarrow> account \<Rightarrow> account \<Rightarrow> approval_result till" where
  "post_payout cf rq actor w currency dest tid wallet treasury =
     bind (in_books (postJournalTransaction cf (payout_leg w rq actor currency tid wallet treasury))) (\<lambda>p.
     bind (post_fee cf w rq actor currency wallet) (\<lambda>fee_txn.
     bind (update_withdrawal (wd_id w) (processing_row cf actor tid dest wallet (tx_id (po_txn p)) fee_txn)) (\<lambda>updated.
     case updated of
       None \<Rightarrow> fail (AppError 409 ''credit_withdrawal_state_conflict'')
     | Some u \<Rightarrow>
         bind (log_event (withdrawal_event ''credit.withdrawal.approved'' (Some actor) w ''Withdrawal approved and Stripe payout initiated''
                (ObjJ [(''status'', TextJ ''processing''), (''stripeTransferId'', TextJ tid), (''netCents'', IntJ (wd_net w)), (''feeCents'', IntJ (wd_fee w))]))) (\<lambda>_.
         ret \<lparr>ar_withdrawal = Some u, ar_transfer = tid, ar_error = None\<rparr>))))"

text \<open>
  The transfer exists but its lock legs do not: the row is parked with a new reservation. After an error of the
  database the transaction is aborted, so the first statement here fails as well.
\<close>

definition park :: "withdrawal \<Rightarrow> string \<Rightarrow> account \<Rightarrow> js_error \<Rightarrow> approval_result till" where
  "park w tid wallet e =
     (if is_pg_error e then fail (PgError ''25P02'')
      else bind (update_withdrawal (wd_id w) (\<lambda>r. r\<lparr>wd_status := Requires_attention, wd_transfer := Some tid\<rparr>)) (\<lambda>_.
      bind (try_catch (bind (reserve_withdrawal wallet (wd_id w) (wd_amount w)) (\<lambda>_. ret ())) (\<lambda>_. ret ())) (\<lambda>_.
      ret \<lparr>ar_withdrawal = None, ar_transfer = tid, ar_error = Some e\<rparr>)))"

definition approve_in_transaction :: "config \<Rightarrow> stripe \<Rightarrow> approval_request \<Rightarrow> string \<Rightarrow> approval_result till" where
  "approve_in_transaction cf st rq actor =
     bind (gets (find_withdrawal (ap_withdrawal rq))) (\<lambda>row.
     case row of
       None \<Rightarrow> fail (AppError 404 ''credit_withdrawal_not_found'')
     | Some w \<Rightarrow>
     if wd_status w \<noteq> Requested then fail (AppError 409 ''credit_withdrawal_state_conflict'')
     else if wd_expires w < cf_now cf then
       bind (update_withdrawal (wd_id w) (\<lambda>r. r\<lparr>wd_status := Cancelled\<rparr>)) (\<lambda>_.
       bind (release_withdrawal cf (wd_id w) ''withdrawal request expired'') (\<lambda>_.
       fail (AppError 409 ''credit_withdrawal_expired'')))
     else
       bind (in_books (assertCreditRailEnabled False)) (\<lambda>_.
       bind (in_world (on_kyc (assertIdentityVerificationTier cf (wd_customer w) (wd_amount w)))) (\<lambda>_.
       bind (in_books (assertSanctionsClear cf ''customer'' (wd_customer w))) (\<lambda>_.
       bind (gets (resolveCustomerDestination (wd_customer w))) (\<lambda>destination.
       case destination of
         None \<Rightarrow> fail (AppError 409 ''credit_withdrawal_no_connected_account'')
       | Some dest \<Rightarrow>
       bind (lift_res (assertSupportedCreditCurrency cf (Some (wd_currency w)))) (\<lambda>currency.
       bind (in_books (ensureAccount cf (customer_wallet (wd_customer w)) (Some currency) False)) (\<lambda>wallet.
       bind (in_books (ensureAccount cf (platform_account Platform_treasury) (Some currency) False)) (\<lambda>treasury.
       bind (release_withdrawal cf (wd_id w) ''withdrawal approved; journal lock legs posted'') (\<lambda>_.
       bind (lift_res (defaultGetStripe st)) (\<lambda>_.
       bind (lift_res (create_transfer st (wd_net w) currency dest (wd_id w))) (\<lambda>tid.
       try_catch (post_payout cf rq actor w currency dest tid wallet treasury) (park w tid wallet))))))))))))"

definition approveWithdrawal :: "config \<Rightarrow> stripe \<Rightarrow> approval_request \<Rightarrow> approval_result till" where
  "approveWithdrawal cf st rq =
     bind (lift_res (requireAdministrativeActor_wd (ap_actor rq))) (\<lambda>actor.
     bind (lift_res (normalizeIdempotencyKey (ap_key rq))) (\<lambda>_.
     bind (withTransaction (approve_in_transaction cf st rq actor)) (\<lambda>result.
     case ar_error result of Some e \<Rightarrow> fail e | None \<Rightarrow> ret result)))"

section \<open>Rejection and cancellation\<close>

definition rejectWithdrawal :: "config \<Rightarrow> int \<Rightarrow> string option \<Rightarrow> string option \<Rightarrow> withdrawal till" where
  "rejectWithdrawal cf i actorUserId reason =
     bind (lift_res (requireAdministrativeActor_wd actorUserId)) (\<lambda>actor.
     let why = screening_normalizeString reason 500 in
     if why = [] then fail (AppError 400 ''credit_withdrawal_reason_required'')
     else withTransaction (
       bind (gets (find_withdrawal i)) (\<lambda>row.
       case row of
         None \<Rightarrow> fail (AppError 404 ''credit_withdrawal_not_found'')
       | Some w \<Rightarrow>
       if wd_status w \<noteq> Requested then fail (AppError 409 ''credit_withdrawal_state_conflict'')
       else
         let change = (\<lambda>r. r\<lparr>wd_status := Rejected_wd, wd_reviewer := Some actor, wd_reviewed_at := Some (cf_db_now cf), wd_reason := Some why\<rparr>) in
         bind (update_withdrawal (wd_id w) change) (\<lambda>_.
         bind (release_withdrawal cf (wd_id w) ''withdrawal rejected'') (\<lambda>_.
         bind (log_event (withdrawal_event ''credit.withdrawal.rejected'' (Some actor) w why (ObjJ [(''status'', TextJ ''rejected'')]))) (\<lambda>_.
         ret (change w)))))))"

definition cancelWithdrawal :: "config \<Rightarrow> int \<Rightarrow> string option \<Rightarrow> withdrawal till" where
  "cancelWithdrawal cf i customerId =
     (case or_null customerId of
        None \<Rightarrow> fail (AppError 400 ''credit_withdrawal_customer_required'')
      | Some customer \<Rightarrow> withTransaction (
          bind (gets (getCustomerWithdrawal customer i)) (\<lambda>row.
          case row of
            None \<Rightarrow> fail (AppError 404 ''credit_withdrawal_not_found'')
          | Some w \<Rightarrow>
          if wd_status w \<noteq> Requested then fail (AppError 409 ''credit_withdrawal_state_conflict'')
          else
            bind (update_withdrawal (wd_id w) (\<lambda>r. r\<lparr>wd_status := Cancelled\<rparr>)) (\<lambda>_.
            bind (release_withdrawal cf (wd_id w) ''withdrawal cancelled by customer'') (\<lambda>_.
            ret (w\<lparr>wd_status := Cancelled\<rparr>))))))"

section \<open>The webhooks\<close>

datatype payout_outcome = Ignored | Duplicate | Paid_out | Failed_out

definition reversal_leg :: "withdrawal \<Rightarrow> string \<Rightarrow> string \<Rightarrow> string \<Rightarrow> account \<Rightarrow> account \<Rightarrow> journal_input" where
  "reversal_leg w currency tid reason wallet treasury = journal_defaults
     \<lparr>ji_type := ''load'', ji_debit := ac_id treasury, ji_credit := ac_id wallet, ji_customer := Some (wd_customer w),
      ji_amount := number_of_bigint (wd_amount w), ji_currency := currency, ji_key := Some (''credit-withdrawal:'' @ show_int (wd_id w) @ '':reversal''),
      ji_actorType := Some ''system'', ji_reason := Some ''Withdrawal payout failed; funds returned'',
      ji_description := Some ''Withdrawal payout failed; funds returned'', ji_refType := Some ''credit_withdrawal_reversal'',
      ji_refId := Some (show_int (wd_id w)),
      ji_metadata := ObjJ [(''source'', TextJ ''credit_withdrawal''), (''stripeTransferId'', TextJ tid), (''failureReason'', TextJ reason)]\<rparr>"

definition post_reversal :: "config \<Rightarrow> withdrawal \<Rightarrow> string \<Rightarrow> string \<Rightarrow> int option till" where
  "post_reversal cf w tid reason =
     (if wd_txn w = None then ret None
      else
        bind (lift_res (assertSupportedCreditCurrency cf (Some (wd_currency w)))) (\<lambda>currency.
        bind (in_books (ensureAccount cf (customer_wallet (wd_customer w)) (Some currency) False)) (\<lambda>wallet.
        bind (in_books (ensureAccount cf (platform_account Platform_treasury) (Some currency) False)) (\<lambda>treasury.
        bind (in_books (postJournalTransaction cf (reversal_leg w currency tid reason wallet treasury))) (\<lambda>p.
        ret (Some (tx_id (po_txn p))))))))"

definition failWithdrawalFromTransferInTransaction :: "config \<Rightarrow> string \<Rightarrow> string \<Rightarrow> payout_outcome till" where
  "failWithdrawalFromTransferInTransaction cf tid reason =
     bind (gets (find_transfer tid)) (\<lambda>row.
     case row of
       None \<Rightarrow> ret Ignored
     | Some w \<Rightarrow>
     if wd_status w = Failed_wd then ret Duplicate
     else if wd_status w = Paid then ret Ignored
     else
       bind (post_reversal cf w tid reason) (\<lambda>reversal.
       bind (update_withdrawal (wd_id w) (\<lambda>r. r\<lparr>wd_status := Failed_wd, wd_reversal_txn := reversal\<rparr>)) (\<lambda>_.
       bind (log_event (withdrawal_event ''credit.withdrawal.failed'' (wd_reviewer w) w (''Stripe transfer '' @ tid @ '' failed: '' @ reason)
              (ObjJ [(''status'', TextJ ''failed''), (''reversalTransactionId'', optText (map_option show_int reversal))]))) (\<lambda>_.
       ret Failed_out))))"

definition failWithdrawalFromTransfer :: "config \<Rightarrow> string \<Rightarrow> string \<Rightarrow> payout_outcome till" where
  "failWithdrawalFromTransfer cf tid reason =
     withTransaction (bind (in_books (assertCreditRailEnabled True)) (\<lambda>_. failWithdrawalFromTransferInTransaction cf tid reason))"

definition retrieve_transfer :: "stripe \<Rightarrow> string \<Rightarrow> transfer res" where
  "retrieve_transfer st tid =
     res_bind (defaultGetStripe st) (\<lambda>_. case st_retrieve st tid of
        Inl e \<Rightarrow> Inl (AppError 502 ''credit_withdrawal_verification_failed'') | Inr t \<Rightarrow> Inr t)"

definition confirmWithdrawalFromTransfer :: "config \<Rightarrow> stripe \<Rightarrow> string \<Rightarrow> payout_outcome till" where
  "confirmWithdrawalFromTransfer cf st tid = withTransaction (
     bind (in_books (assertCreditRailEnabled True)) (\<lambda>_.
     bind (gets (find_transfer tid)) (\<lambda>row.
     case row of
       None \<Rightarrow> ret Ignored
     | Some w \<Rightarrow>
     if wd_status w = Paid then ret Duplicate
     else if wd_status w \<noteq> Processing \<and> wd_status w \<noteq> Requires_attention then ret Ignored
     else
       bind (lift_res (retrieve_transfer st tid)) (\<lambda>t.
       if tf_reversed t then failWithdrawalFromTransferInTransaction cf tid ''stripe_transfer_reversed''
       else if (case tf_withdrawal t of None \<Rightarrow> [] | Some s \<Rightarrow> s) \<noteq> show_int (wd_id w) then fail (AppError 409 ''credit_withdrawal_transfer_mismatch'')
       else if tf_amount t \<noteq> number_of_bigint (wd_net w) then fail (AppError 409 ''credit_withdrawal_transfer_mismatch'')
       else
         bind (update_withdrawal (wd_id w) (\<lambda>r. r\<lparr>wd_status := Paid\<rparr>)) (\<lambda>updated.
         case updated of
           None \<Rightarrow> ret Duplicate
         | Some _ \<Rightarrow>
             bind (log_event (withdrawal_event ''credit.withdrawal.paid'' (wd_reviewer w) w (''Stripe transfer '' @ tid @ '' confirmed'')
                    (ObjJ [(''status'', TextJ ''paid''), (''stripeTransferId'', TextJ tid)]))) (\<lambda>_.
             ret Paid_out))))))"

end
