(* ===== verification/WithdrawalFacts.thy ===== *)
theory WithdrawalFacts
  imports Withdrawals
begin

text \<open>
  What the helpers of the reservations and the withdrawals do to the tables, and the invariant that the reserved amount of
  every account is the sum of its active holds and its active reservations (what the trigger of migration 755 checks).
\<close>

section \<open>The invariant\<close>

definition reserved_amount :: "int \<Rightarrow> reservation \<Rightarrow> int" where
  "reserved_amount i r = (if rv_account r = i \<and> rv_status r = Reserved then rv_amount r else 0)"

definition reserved_for :: "reservation list \<Rightarrow> int \<Rightarrow> int" where
  "reserved_for rs i = sum_list (map (reserved_amount i) rs)"

definition reference :: "reservation \<Rightarrow> string \<times> string" where
  "reference r = (rv_refType r, rv_refId r)"

definition active_references :: "reservation list \<Rightarrow> (string \<times> string) list" where
  "active_references rs = map reference (filter (\<lambda>r. rv_status r = Reserved) rs)"

definition cash_ok :: "cashier \<Rightarrow> bool" where
  "cash_ok c \<longleftrightarrow> reserved_beside (reserved_for (reservations c)) (books (ledger_side c)) \<and> hold_amounts_ok (books (ledger_side c)) \<and>
     distinct (map rv_id (reservations c)) \<and> distinct (active_references (reservations c)) \<and>
     list_all (\<lambda>r. 0 < rv_amount r) (reservations c)"

lemma reserved_for_append: "reserved_for (rs @ [r]) i = reserved_for rs i + reserved_amount i r"
  by (simp add: reserved_for_def)

lemma reserved_for_nonneg: "list_all (\<lambda>r. 0 < rv_amount r) rs \<Longrightarrow> 0 \<le> reserved_for rs i"
  unfolding reserved_for_def by (induction rs) (auto simp: reserved_amount_def)

section \<open>Handlers on the ledger\<close>

lemma in_world_simps [simp]:
  "reservations (snd (in_world m c)) = reservations c" "withdrawals (snd (in_world m c)) = withdrawals c"
  "payout_accounts (snd (in_world m c)) = payout_accounts c" "ledger_side (snd (in_world m c)) = snd (m (ledger_side c))"
  by (simp_all add: in_world_def split: prod.split)

lemma in_world_Inr: "in_world m c = (Inr r, c') \<longleftrightarrow> (\<exists>w. m (ledger_side c) = (Inr r, w) \<and> c' = c\<lparr>ledger_side := w\<rparr>)"
  by (auto simp: in_world_def split: prod.splits)

lemma on_books_snd: "books (snd (on_books m w)) = snd (m (books w))"
  by (simp add: on_books_def split: prod.split)

text \<open>Handlers that leave identifiers, reserved amounts and holds alone, whether they return or throw.\<close>

definition spares :: "'a credit \<Rightarrow> bool" where
  "spares m \<longleftrightarrow> (\<forall>g. keeps (reserved_beside g) m) \<and> keeps hold_amounts_ok m"

lemma sparesI: "(\<And>g. keeps (reserved_beside g) m) \<Longrightarrow> keeps hold_amounts_ok m \<Longrightarrow> spares m"
  by (simp add: spares_def)

definition reserving_part :: "ledger \<Rightarrow> (int \<times> int) list \<times> hold list" where
  "reserving_part db = (map (\<lambda>a. (ac_id a, ac_reserved a)) (accounts db), holds db)"

lemma reserving_part_screenings [simp]: "reserving_part (db\<lparr>screenings := x\<rparr>) = reserving_part db"
  by (simp add: reserving_part_def)

lemma spares_part: "(\<And>K. keeps (\<lambda>db. reserving_part db = K) m) \<Longrightarrow> spares m"
proof (rule sparesI)
  assume k: "\<And>K. keeps (\<lambda>db. reserving_part db = K) m"
  have same: "reserving_part (snd (m db)) = reserving_part db" for db
    using k [of "reserving_part db"] by (simp add: keeps_def)
  show "keeps (reserved_beside g) m" for g
    using same gap_frame [where g = g] by (auto simp: keeps_def reserving_part_def)
  show "keeps hold_amounts_ok m" using same by (auto simp: keeps_def reserving_part_def hold_amounts_ok_def)
qed

lemma part_modify: "(\<And>db. reserving_part (h db) = reserving_part db) \<Longrightarrow> keeps (\<lambda>db. reserving_part db = K) (modify h)"
  by (simp add: keeps_def)

lemma part_entry: "keeps (\<lambda>db. reserving_part db = K) (postEntry cf v t a sd n b cur md)"
  unfolding postEntry_def Let_def
  by (intro keeps_intros part_modify) (simp add: reserving_part_def map_upd_where_frame)

lemma spares_post: "spares (postJournalTransaction cf inp)"
proof (rule spares_part)
  fix K
  have legs: "keeps (\<lambda>db. reserving_part db = K) (writeLegs cf inp amount currency d c t)" for amount currency d c t
    unfolding writeLegs_def insertAudit_def enqueueCreditTransactionNotifications_def Let_def
    by (intro keeps_intros part_entry part_modify) (simp_all add: reserving_part_def)
  have insert: "keeps (\<lambda>db. reserving_part db = K) (insertTransaction t)" for t
    by (rule keepsI) (auto simp: insertTransaction_def Let_def reserving_part_def split: if_splits)
  have replay: "keeps (\<lambda>db. reserving_part db = K) (replayTransaction rq t)" for rq t
    unfolding replayTransaction_def by (intro keeps_intros)
  show "keeps (\<lambda>db. reserving_part db = K) (postJournalTransaction cf inp)"
    unfolding postJournalTransaction_def postMovement_def writeJournal_def
    by (intro keeps_intros legs insert replay)
qed

lemma ensure_Inl: "ensureAccount cf w code anyOwner db = (Inl e, db') \<Longrightarrow> db' = db"
  by (auto simp: ensureAccount_def bind_apply find_None_iff wallet_owner_def split: sum.splits if_splits option.splits)

lemma atomic_keeps: "commits I m \<Longrightarrow> (\<And>db e db'. m db = (Inl e, db') \<Longrightarrow> db' = db) \<Longrightarrow> keeps I m"
  unfolding commits_def keeps_def by (metis prod.collapse sum.exhaust)

lemma spares_ensure: "spares (ensureAccount cf w code anyOwner)"
  by (rule sparesI) (rule atomic_keeps [OF gap.ensure ensure_Inl] atomic_keeps [OF hold_amounts.ensure ensure_Inl], assumption)+

lemma spares_rail: "spares (assertCreditRailEnabled b)"
  by (rule sparesI) (simp_all add: keeps_def assertCreditRailEnabled_def)

lemma spares_sanctions: "spares (assertSanctionsClear cf ty i)"
proof (rule spares_part)
  fix K
  show "keeps (\<lambda>db. reserving_part db = K) (assertSanctionsClear cf ty i)"
    unfolding assertSanctionsClear_def screenSubjectIfStale_def
    by (auto intro!: keeps_intros part_modify split: prod.split option.split)
qed

lemma keeps_books:
  assumes "spares m"
  shows "keeps cash_ok (in_books m)"
proof (rule keepsI)
  fix c assume "cash_ok c"
  moreover have "keeps (reserved_beside (reserved_for (reservations c))) m" "keeps hold_amounts_ok m"
    using assms by (simp_all add: spares_def)
  ultimately show "cash_ok (snd (in_books m c))"
    by (simp add: cash_ok_def on_books_snd keeps_def)
qed

lemma keeps_world_calm: "(\<And>w. books (snd (m w)) = books w) \<Longrightarrow> keeps cash_ok (in_world m)"
  by (rule keepsI) (simp add: cash_ok_def)

lemma kyc_books: "books (snd (on_kyc k w)) = books w" "books (snd (write_event e w)) = books w"
  by (simp_all add: on_kyc_def write_event_def split: prod.split)

lemmas cash_intros = keeps_intros keeps_books [OF spares_post] keeps_books [OF spares_ensure] keeps_books [OF spares_rail]
  keeps_books [OF spares_sanctions] keeps_world_calm [OF kyc_books(1)] keeps_world_calm [OF kyc_books(2)]

section \<open>Reserving and releasing\<close>

abbreviation new_reservation :: "reserve_request \<Rightarrow> int \<Rightarrow> int \<Rightarrow> int \<Rightarrow> reservation" where
  "new_reservation rq i account amount \<equiv>
     \<lparr>rv_id = i, rv_account = account, rv_type = screening_normalizeString (Some (rr_type rq)) 40,
      rv_refType = screening_normalizeString (Some (rr_refType rq)) 60, rv_refId = screening_normalizeString (Some (rr_refId rq)) 255,
      rv_amount = amount, rv_status = Reserved, rv_released_at = None, rv_released_reason = None\<rparr>"

text \<open>A reservation changes nothing, or adds one row and raises the reserved amount of its account by the same amount.\<close>

lemma reserveFunds_cases:
  obtains (same) r where "reserveFunds rq c = (r, c)" "\<And>v b. r = Inr (v, b) \<Longrightarrow> b \<and>
      active_reservation (screening_normalizeString (Some (rr_refType rq)) 60) (screening_normalizeString (Some (rr_refId rq)) 255) c = Some v \<and>
      rv_account v = rr_account rq \<and> rr_amount rq = JInt (rv_amount v)"
  | (fresh) a amount row where "rr_amount rq = JInt amount" "0 < amount" "a \<in> set (accounts (books (ledger_side c)))" "ac_id a = rr_account rq"
      "amount \<le> ac_balance a - ac_reserved a" "ac_status a \<noteq> Closed"
      "active_reservation (rv_refType row) (rv_refId row) c = None"
      "row = new_reservation rq (next_id (map rv_id (reservations c))) (ac_id a) amount"
      "reserveFunds rq c = (Inr (row, False), c\<lparr>reservations := reservations c @ [row],
         ledger_side := (ledger_side c)\<lparr>books := add_reserved (ac_id a) amount (books (ledger_side c))\<rparr>\<rparr>)"
proof (cases "safe_int (rr_amount rq)")
  case None
  then have "reserveFunds rq c = (Inl (AppError 400 ''credit_reservation_amount_invalid''), c)" by (simp add: reserveFunds_def)
  from same [OF this] show thesis by simp
next
  case (Some amount)
  then have js: "rr_amount rq = JInt amount" by (simp add: safe_int_Some_iff)
  let ?kind = "screening_normalizeString (Some (rr_type rq)) 40" and ?t = "screening_normalizeString (Some (rr_refType rq)) 60"
    and ?i = "screening_normalizeString (Some (rr_refId rq)) 255"
  show thesis
  proof (cases "amount \<le> 0 \<or> ?kind = [] \<or> ?t = [] \<or> ?i = [] \<or> account_row (books (ledger_side c)) (rr_account rq) = None")
    case True
    with Some have "\<exists>e. reserveFunds rq c = (Inl e, c)" by (auto simp: reserveFunds_def Let_def bind_apply simp del: safe_int.simps)
    with same show thesis by blast
  next
    case False
    then obtain a where a: "account_row (books (ledger_side c)) (rr_account rq) = Some a" by blast
    then have known: "a \<in> set (accounts (books (ledger_side c)))" "ac_id a = rr_account rq"
      by (auto simp: account_row_def dest: find_SomeD)
    show thesis
    proof (cases "ac_status a = Closed")
      case True
      with Some False a have "\<exists>e. reserveFunds rq c = (Inl e, c)" by (auto simp: reserveFunds_def Let_def bind_apply simp del: safe_int.simps)
      with same show thesis by blast
    next
      case active: False
      show thesis
      proof (cases "active_reservation ?t ?i c")
        case (Some r)
        with \<open>safe_int (rr_amount rq) = Some amount\<close> False a active
        have "reserveFunds rq c = replay_reservation r ?kind amount (ac_id a) c"
          by (auto simp: reserveFunds_def Let_def bind_apply simp del: safe_int.simps)
        then have "reserveFunds rq c = (Inl (AppError 409 ''credit_reservation_conflict''), c) \<or>
            reserveFunds rq c = (Inr (r, True), c) \<and> rv_account r = ac_id a \<and> rv_amount r = amount"
          by (auto simp: replay_reservation_def)
        then show thesis
        proof
          assume "reserveFunds rq c = (Inl (AppError 409 ''credit_reservation_conflict''), c)"
          from same [OF this] show thesis by simp
        next
          assume k: "reserveFunds rq c = (Inr (r, True), c) \<and> rv_account r = ac_id a \<and> rv_amount r = amount"
          then have "reserveFunds rq c = (Inr (r, True), c)" by simp
          from same [OF this] k Some known(2) js show thesis by auto
        qed
      next
        case None
        show thesis
        proof (cases "ac_balance a - ac_reserved a < amount")
          case True
          with Some False a active None have "\<exists>e. reserveFunds rq c = (Inl e, c)"
            by (auto simp: reserveFunds_def Let_def bind_apply simp del: safe_int.simps)
          with same show thesis by blast
        next
          case enough: False
          let ?row = "new_reservation rq (next_id (map rv_id (reservations c))) (ac_id a) amount"
          have "reserveFunds rq c = (Inr (?row, False), c\<lparr>reservations := reservations c @ [?row],
             ledger_side := (ledger_side c)\<lparr>books := add_reserved (ac_id a) amount (books (ledger_side c))\<rparr>\<rparr>)"
            using Some False a active None enough
            by (auto simp: reserveFunds_def Let_def bind_apply insert_reservation_def in_world_def on_books_def simp del: safe_int.simps)
          from fresh [OF js _ known _ active _ refl this] False None enough show thesis by simp
        qed
      qed
    qed
  qed
qed

lemma active_reference: "active_reservation t i c = None \<longleftrightarrow> (t, i) \<notin> set (active_references (reservations c))"
  by (auto simp: active_reservation_def find_None_iff active_references_def reference_def)

lemma keeps_reserve: "keeps cash_ok (reserveFunds rq)"
proof (rule keepsI)
  fix c assume ok: "cash_ok c"
  show "cash_ok (snd (reserveFunds rq c))"
  proof (cases rule: reserveFunds_cases [of rq c])
    case (same r)
    with ok show ?thesis by simp
  next
    case (fresh a amount row)
    let ?db = "books (ledger_side c)" and ?g = "reserved_for (reservations c)"
    have m: "reserved_beside ?g ?db" using ok by (simp add: cash_ok_def)
    have "reserved_beside (?g(ac_id a := ?g (ac_id a) + amount)) (add_reserved (ac_id a) amount ?db)"
      by (rule lower_reserved_row [OF m fresh(3) refl]) (simp_all add: add_reserved_def)
    moreover have "?g(ac_id a := ?g (ac_id a) + amount) = reserved_for (reservations c @ [row])"
      by (auto simp: reserved_for_append fun_eq_iff reserved_amount_def fresh(8))
    moreover have "rv_id row \<notin> rv_id ` set (reservations c)" using next_id_fresh [of "map rv_id (reservations c)"] by (simp add: fresh(8))
    moreover have "reference row \<notin> set (active_references (reservations c))"
      using fresh(7) unfolding active_reference by (simp add: reference_def)
    ultimately show ?thesis
      using ok fresh(2) by (simp add: fresh(9) cash_ok_def hold_amounts_ok_def) (simp add: fresh(8) active_references_def)
  qed
qed

text \<open>A release changes nothing, or closes one active row and lowers the reserved amount of its account by the same amount.\<close>

lemma release_cases:
  assumes "distinct (map rv_id (reservations c))"
  obtains (same) r where "releaseReservation cf rq c = (r, c)"
      "\<And>v. r = Inr v \<Longrightarrow> (case re_reservation rq of None \<Rightarrow>
         active_reservation (screening_normalizeString (re_refType rq) 60) (screening_normalizeString (re_refId rq) 255) c = None | Some _ \<Rightarrow> True)"
  | (released) v a where "v \<in> set (reservations c)" "rv_status v = Reserved" "a \<in> set (accounts (books (ledger_side c)))"
      "ac_id a = rv_account v" "release_target rq c = (Inr (Some v), c)"
      "releaseReservation cf rq c = (Inr (True, Some (released_row cf (re_reason rq) v)),
         c\<lparr>reservations := upd_where (\<lambda>x. rv_id x = rv_id v) (released_row cf (re_reason rq)) (reservations c),
           ledger_side := (ledger_side c)\<lparr>books := add_reserved (rv_account v) (- rv_amount v) (books (ledger_side c))\<rparr>\<rparr>)"
proof -
  have "snd (release_target rq c) = c" by (auto simp: release_target_def Let_def split: option.split)
  then obtain t where t: "release_target rq c = (t, c)" by (metis prod.collapse)
  have mem: "v \<in> set (reservations c)" if "t = Inr (Some v)" for v
    using t that by (auto simp: release_target_def active_reservation_def Let_def split: option.splits if_splits dest!: find_SomeD)
  have act: "rv_status v = Reserved" if "t = Inr (Some v)" "re_reservation rq = None" for v
    using t that by (auto simp: release_target_def active_reservation_def Let_def split: option.splits if_splits dest!: find_SomeD)
  have none: "active_reservation (screening_normalizeString (re_refType rq) 60) (screening_normalizeString (re_refId rq) 255) c = None"
    if "t = Inr None" "re_reservation rq = None"
    using t that by (auto simp: release_target_def Let_def split: if_splits)
  show thesis
  proof (cases "\<exists>v. t = Inr (Some v) \<and> rv_status v = Reserved")
    case False
    then consider (err) e where "t = Inl e" | (no) "t = Inr None" | (old) v where "t = Inr (Some v)" "rv_status v \<noteq> Reserved" by (metis not_None_eq sum.exhaust)
    then show thesis
    proof cases
      case err
      with t same show thesis by (simp add: releaseReservation_def bind_apply)
    next
      case no
      with t same none show thesis by (auto simp: releaseReservation_def bind_apply split: option.split)
    next
      case (old v)
      with act have "re_reservation rq \<noteq> None" by blast
      moreover from t old have "releaseReservation cf rq c = (Inr (False, Some v), c)" by (simp add: releaseReservation_def bind_apply)
      from same [OF this] calculation show thesis by (auto split: option.split)
    qed
  next
    case True
    then obtain v where v: "t = Inr (Some v)" "rv_status v = Reserved" by blast
    show thesis
    proof (cases "find (\<lambda>a. ac_id a = rv_account v \<and> rv_amount v \<le> ac_reserved a) (accounts (books (ledger_side c)))")
      case None
      with t v same show thesis by (simp add: releaseReservation_def bind_apply lower_reserved_def)
    next
      case (Some a)
      with t v have "releaseReservation cf rq c = (Inr (True, Some (released_row cf (re_reason rq) v)),
         c\<lparr>reservations := upd_where (\<lambda>x. rv_id x = rv_id v) (released_row cf (re_reason rq)) (reservations c),
           ledger_side := (ledger_side c)\<lparr>books := add_reserved (rv_account v) (- rv_amount v) (books (ledger_side c))\<rparr>\<rparr>)"
        by (simp add: releaseReservation_def bind_apply lower_reserved_def in_world_def on_books_def)
      with find_SomeD [OF Some] released mem [OF v(1)] v t show thesis by blast
    qed
  qed
qed

lemma release_references:
  assumes "v \<in> set rs" "distinct (map rv_id rs)"
  shows "active_references (upd_where (\<lambda>x. rv_id x = rv_id v) (released_row cf why) rs) = map reference (filter (\<lambda>r. rv_status r = Reserved \<and> r \<noteq> v) rs)"
proof -
  have "rv_id r = rv_id v \<longleftrightarrow> r = v" if "r \<in> set rs" for r
    using assms that by (auto simp: distinct_map inj_on_def)
  then show ?thesis
    unfolding active_references_def
    by (induction rs) (auto simp: released_row_def reference_def)
qed

lemma release_amounts:
  assumes "v \<in> set rs" "distinct (map rv_id rs)" "rv_status v = Reserved"
  shows "reserved_for (upd_where (\<lambda>x. rv_id x = rv_id v) (released_row cf why) rs) =
    (reserved_for rs)(rv_account v := reserved_for rs (rv_account v) - rv_amount v)"
  using sum_upd_where_key [where k = rv_id and g = "reserved_amount i" and f = "released_row cf why" for i, OF assms(2,1)] assms(3)
  by (auto simp: fun_eq_iff reserved_for_def reserved_amount_def released_row_def)

lemma keeps_release: "keeps cash_ok (releaseReservation cf rq)"
proof (rule keepsI)
  fix c assume ok: "cash_ok c"
  then have ids: "distinct (map rv_id (reservations c))" by (simp add: cash_ok_def)
  from ids show "cash_ok (snd (releaseReservation cf rq c))"
  proof (cases rule: release_cases [of c cf rq])
    case (same r)
    with ok show ?thesis by simp
  next
    case (released v a)
    let ?db = "books (ledger_side c)" and ?g = "reserved_for (reservations c)"
    let ?rs = "upd_where (\<lambda>x. rv_id x = rv_id v) (released_row cf (re_reason rq)) (reservations c)"
    have m: "reserved_beside ?g ?db" using ok by (simp add: cash_ok_def)
    have "reserved_beside (?g(rv_account v := ?g (rv_account v) + - rv_amount v)) (add_reserved (rv_account v) (- rv_amount v) ?db)"
      by (rule lower_reserved_row [OF m released(3,4)]) (simp_all add: add_reserved_def)
    then have beside: "reserved_beside (reserved_for ?rs) (add_reserved (rv_account v) (- rv_amount v) ?db)"
      by (simp add: release_amounts [OF released(1) ids released(2)])
    have "map rv_id ?rs = map rv_id (reservations c)" by (rule map_upd_where_frame) (simp add: released_row_def)
    moreover have "list_all (\<lambda>r. 0 < rv_amount r) ?rs"
      using ok by (auto simp: cash_ok_def list_all_iff set_upd_where released_row_def)
    moreover have "distinct (active_references ?rs)"
      using ok distinct_map_filter [of reference "filter (\<lambda>r. rv_status r = Reserved) (reservations c)" "\<lambda>r. r \<noteq> v"]
      unfolding release_references [OF released(1) ids] by (simp add: cash_ok_def active_references_def filter_filter conj_commute)
    ultimately show ?thesis
      using ok beside by (simp add: released(6) cash_ok_def hold_amounts_ok_def add_reserved_def)
  qed
qed

lemma keeps_table: "keeps cash_ok (insert_withdrawal w)" "keeps cash_ok (update_withdrawal i f)"
  by (auto simp: keeps_def insert_withdrawal_def update_withdrawal_def cash_ok_def Let_def split: option.split)

end
