(* ===== verification/WithdrawalProperties.thy ===== *)
theory WithdrawalProperties
  imports WithdrawalFacts
begin

text \<open>
  Withdrawals over time: the statuses a row can take, the reserved amounts of the accounts, the money of an approval
  and of a payout that fails, and what the code leaves behind when the lock legs of a transfer could not be posted.
\<close>

section \<open>The statuses of a row\<close>

definition final :: "withdrawal_status \<Rightarrow> bool" where
  "final s \<longleftrightarrow> s \<in> {Paid, Failed_wd, Rejected_wd, Cancelled}"

definition sent :: "withdrawal_status \<Rightarrow> bool" where
  "sent s \<longleftrightarrow> s \<in> {Processing, Requires_attention, Paid, Failed_wd}"

inductive next_status :: "withdrawal_status \<Rightarrow> withdrawal_status \<Rightarrow> bool" where
  payout: "next_status Requested Processing"
| parked: "next_status Requested Requires_attention"
| refused: "next_status Requested Rejected_wd"
| withdrawn: "next_status Requested Cancelled"
| confirmed: "sent s \<Longrightarrow> \<not> final s \<Longrightarrow> next_status s Paid"
| failed: "sent s \<Longrightarrow> \<not> final s \<Longrightarrow> next_status s Failed_wd"

inductive_cases next_statusE: "next_status s t"

lemma next_not_final: "next_status s t \<Longrightarrow> \<not> final s"
  by (erule next_statusE) (simp_all add: final_def)

definition same_terms :: "withdrawal \<Rightarrow> withdrawal \<Rightarrow> bool" where
  "same_terms a b \<longleftrightarrow> wd_id b = wd_id a \<and> wd_customer b = wd_customer a \<and> wd_amount b = wd_amount a \<and> wd_fee b = wd_fee a \<and>
     wd_net b = wd_net a \<and> wd_currency b = wd_currency a \<and> wd_key b = wd_key a \<and> wd_expires b = wd_expires a"

text \<open>A row has a transfer exactly when money was sent, and then the one of its approval; its two parts add up.\<close>

definition row_ok :: "withdrawal \<Rightarrow> bool" where
  "row_ok w \<longleftrightarrow> (wd_transfer w \<noteq> None \<longleftrightarrow> sent (wd_status w)) \<and> (wd_status w = Processing \<longrightarrow> wd_txn w \<noteq> None) \<and>
     wd_net w + wd_fee w = wd_amount w \<and> 0 < wd_net w"

definition row_step :: "withdrawal \<Rightarrow> withdrawal \<Rightarrow> bool" where
  "row_step a b \<longleftrightarrow> same_terms a b \<and> next_status (wd_status a) (wd_status b) \<and> row_ok b"

inductive table_step :: "withdrawal list \<Rightarrow> withdrawal list \<Rightarrow> bool" where
  unchanged: "table_step ws ws"
| added: "wd_id w \<notin> wd_id ` set ws \<Longrightarrow> wd_key w \<notin> wd_key ` set ws \<Longrightarrow> wd_transfer w = None \<Longrightarrow> row_ok w \<Longrightarrow> table_step ws (ws @ [w])"
| changed: "w \<in> set ws \<Longrightarrow> row_step w (f w) \<Longrightarrow> \<forall>x \<in> set ws. wd_id x \<noteq> wd_id w \<longrightarrow> wd_transfer (f w) \<noteq> None \<longrightarrow> wd_transfer x \<noteq> wd_transfer (f w) \<Longrightarrow>
    table_step ws (upd_where (\<lambda>x. wd_id x = wd_id w) f ws)"

text \<open>The table later: every earlier row is still there, further along the lifecycle, and unchanged once it is final.\<close>

definition later_row :: "withdrawal \<Rightarrow> withdrawal \<Rightarrow> bool" where
  "later_row a b \<longleftrightarrow> same_terms a b \<and> next_status\<^sup>*\<^sup>* (wd_status a) (wd_status b) \<and> (final (wd_status a) \<longrightarrow> b = a)"

definition transfers_unique :: "withdrawal list \<Rightarrow> bool" where
  "transfers_unique ws \<longleftrightarrow> (\<forall>x \<in> set ws. \<forall>y \<in> set ws. wd_transfer x \<noteq> None \<longrightarrow> wd_transfer x = wd_transfer y \<longrightarrow> x = y)"

lemma transfers_unique_added:
  assumes "transfers_unique ws" and "wd_transfer w = None"
  shows "transfers_unique (ws @ [w])"
  using assms unfolding transfers_unique_def set_append list.set by (metis UnE empty_iff insertE)

definition table_ok :: "withdrawal list \<Rightarrow> withdrawal list \<Rightarrow> bool" where
  "table_ok old ws \<longleftrightarrow> distinct (map wd_id ws) \<and> distinct (map wd_key ws) \<and> list_all row_ok ws \<and>
     transfers_unique ws \<and> (\<forall>a \<in> set old. \<exists>b \<in> set ws. later_row a b)"

lemma later_step:
  assumes "later_row a w" and "row_step w b"
  shows "later_row a b"
  using assms next_not_final [of "wd_status w" "wd_status b"]
  unfolding later_row_def row_step_def same_terms_def by (auto intro: rtranclp.rtrancl_into_rtrancl)

lemma table_ok_step:
  assumes "table_step ws ws'" and ok: "table_ok old ws"
  shows "table_ok old ws'"
  using assms(1)
proof cases
  case unchanged
  with ok show ?thesis by simp
next
  case (added w)
  with ok show ?thesis by (auto simp: table_ok_def transfers_unique_added)
next
  case (changed w f)
  have ids: "distinct (map wd_id ws)" using ok by (simp add: table_ok_def)
  then have one: "x \<in> set ws \<Longrightarrow> wd_id x = wd_id w \<longleftrightarrow> x = w" for x
    using changed(2) by (auto simp: distinct_map inj_on_def)
  have terms: "wd_id (f w) = wd_id w" "wd_key (f w) = wd_key w" "row_ok (f w)"
    using changed(3) by (simp_all add: row_step_def same_terms_def)
  have set': "set ws' = insert (f w) (set ws - {w})"
    unfolding changed(1) set_upd_where using changed(2) one by auto
  have "map wd_id ws' = map wd_id ws" "map wd_key ws' = map wd_key ws"
    unfolding changed(1) upd_where_def using one terms by auto
  moreover have "list_all row_ok ws'" using ok terms(3) by (auto simp: table_ok_def list_all_iff set')
  moreover have "\<exists>b \<in> set ws'. later_row a b" if "a \<in> set old" for a
  proof -
    have "\<forall>a \<in> set old. \<exists>b \<in> set ws. later_row a b" using ok unfolding table_ok_def by (elim conjE)
    from bspec [OF this that] obtain b where b: "b \<in> set ws" "later_row a b" ..
    show ?thesis
    proof (cases "b = w")
      case True
      with b later_step [OF _ changed(3)] show ?thesis unfolding set' by blast
    next
      case False
      with b show ?thesis unfolding set' by blast
    qed
  qed
  moreover have "transfers_unique ws'"
    unfolding transfers_unique_def
  proof (intro ballI impI)
    fix x y assume that: "x \<in> set ws'" "y \<in> set ws'" "wd_transfer x \<noteq> None" "wd_transfer x = wd_transfer y"
    have old: "x = y" if "x \<in> set ws" "y \<in> set ws" "wd_transfer x \<noteq> None" "wd_transfer x = wd_transfer y" for x y
      using ok that unfolding table_ok_def transfers_unique_def by blast
    have new: "wd_transfer x \<noteq> wd_transfer (f w)" if "x \<in> set ws" "x \<noteq> w" "wd_transfer (f w) \<noteq> None" for x
      using changed(4) one [OF that(1)] that by blast
    from that show "x = y" unfolding set' using old new by (metis DiffE insertE singletonI)
  qed
  ultimately show ?thesis using ok by (simp add: table_ok_def)
qed

section \<open>What each operation does to the table\<close>

text \<open>Runs from the table \<open>W\<close> that return make one step of it; the others are rolled back.\<close>

definition steps_from :: "withdrawal list \<Rightarrow> 'a till \<Rightarrow> bool" where
  "steps_from W m \<longleftrightarrow> (\<forall>c a c'. withdrawals c = W \<longrightarrow> m c = (Inr a, c') \<longrightarrow> table_step W (withdrawals c'))"

abbreviation still :: "withdrawal list \<Rightarrow> 'a till \<Rightarrow> bool" where
  "still W \<equiv> keeps (\<lambda>c. withdrawals c = W)"

named_theorems table_intros "how runs change the table of withdrawals"

lemma still_ledger [table_intros]: "still W (in_world m)"
  by (simp add: keeps_def)

lemma still_reserve [table_intros]: "still W (reserveFunds rq)"
proof (rule keepsI)
  fix c :: cashier assume "withdrawals c = W"
  then show "withdrawals (snd (reserveFunds rq c)) = W" by (cases rule: reserveFunds_cases [of rq c]) simp_all
qed

lemma still_release [table_intros]: "still W (releaseReservation cf rq)"
  unfolding releaseReservation_def release_target_def
  by (intro keeps_intros keeps_modify) (auto simp: keeps_def lower_reserved_def split: option.split)

lemma still_withdrawal [table_intros]: "still W (reserve_withdrawal wallet i n)" "still W (release_withdrawal cf i why)"
  unfolding reserve_withdrawal_def release_withdrawal_def by (rule still_reserve still_release)+

lemma steps_still:
  fixes m :: "'a till"
  assumes "still W m"
  shows "steps_from W m"
  unfolding steps_from_def
proof (intro allI impI)
  fix c :: cashier and a c' assume "withdrawals c = W" and "m c = (Inr a, c')"
  then have "withdrawals c' = W" by (rule keepsD [OF assms])
  then show "table_step W (withdrawals c')" by (simp add: table_step.unchanged)
qed

lemma steps_first:
  assumes "still W m" and "\<And>a. steps_from W (f a)"
  shows "steps_from W (bind m f)"
  using assms by (auto simp: steps_from_def bind_Inr_iff dest!: keepsD)

lemmas steps_binds [table_intros] =
  steps_first [OF still_ledger] steps_first [OF still_withdrawal(1)] steps_first [OF still_withdrawal(2)]
  steps_first [OF keeps_basic(4) [of "\<lambda>c :: cashier. withdrawals c = W" for W]]

lemma steps_last:
  assumes "steps_from W m" and "\<And>a V. still V (f a)"
  shows "steps_from W (bind m f)"
  using assms unfolding steps_from_def bind_Inr_iff keeps_def by (metis snd_conv)

lemma steps_gets [table_intros]:
  assumes "\<And>c. withdrawals c = W \<Longrightarrow> steps_from W (f (g c))"
  shows "steps_from W (bind (gets g) f)"
  using assms by (simp add: steps_from_def bind_apply)

lemma steps_basic [table_intros]: "steps_from W (ret a)" "steps_from W (fail e)" "steps_from W (lift_res r)"
  by (simp_all add: steps_still keeps_basic)

lemma steps_branch [table_intros]:
  "(b \<Longrightarrow> steps_from W m) \<Longrightarrow> (\<not> b \<Longrightarrow> steps_from W n) \<Longrightarrow> steps_from W (if b then m else n)"
  "(x = None \<Longrightarrow> steps_from W m) \<Longrightarrow> (\<And>a. x = Some a \<Longrightarrow> steps_from W (g a)) \<Longrightarrow>
   steps_from W (case x of None \<Rightarrow> m | Some a \<Rightarrow> g a)"
  "(\<And>u v. y = (u, v) \<Longrightarrow> steps_from W (h u v)) \<Longrightarrow> steps_from W (case y of (u, v) \<Rightarrow> h u v)"
  by (auto split: option.split prod.split)

lemma steps_transaction: "steps_from W m \<Longrightarrow> withdrawals c = W \<Longrightarrow> table_step W (withdrawals (snd (withTransaction m c)))"
  by (auto simp: withTransaction_def steps_from_def intro: table_step.unchanged split: prod.split sum.split)

lemma find_row: "find_withdrawal i c = Some w \<Longrightarrow> w \<in> set (withdrawals c) \<and> wd_id w = i"
  "getCustomerWithdrawal customer i c = Some w \<Longrightarrow> w \<in> set (withdrawals c) \<and> wd_id w = i"
  "find_transfer t c = Some w \<Longrightarrow> w \<in> set (withdrawals c) \<and> wd_transfer w = Some t"
  by (auto simp: find_withdrawal_def getCustomerWithdrawal_def find_transfer_def dest: find_SomeD)

lemma steps_update:
  assumes "w \<in> set W" and "distinct (map wd_id W)" and "row_step w (f w)"
  shows "steps_from W (update_withdrawal (wd_id w) f)"
proof -
  have one: "x = w" if "x \<in> set W" "wd_id x = wd_id w" for x
    using assms(1,2) that by (auto simp: distinct_map inj_on_def)
  then have "find (\<lambda>x. wd_id x = wd_id w) W = Some w" using find_key_unique [OF assms(2,1)] by simp
  then show ?thesis
    using assms(1,3)
    by (auto simp: steps_from_def update_withdrawal_def find_withdrawal_def list_ex_iff intro!: table_step.changed split: if_splits)
qed

lemma steps_insert:
  assumes "wd_transfer w = None" and "\<And>i. row_ok (w\<lparr>wd_id := i\<rparr>)"
  shows "steps_from W (insert_withdrawal w)"
  using assms next_id_fresh [of "map wd_id W"]
  by (auto simp: steps_from_def insert_withdrawal_def Let_def list_ex_iff image_iff intro!: table_step.unchanged table_step.added split: if_splits)

lemma new_row_ok: "fee < amount \<Longrightarrow> row_ok ((new_withdrawal cf customer amount fee currency destination key)\<lparr>wd_id := i\<rparr>)"
  by (simp add: row_ok_def new_withdrawal_def sent_def)

lemma steps_request: "steps_from W (request_in_transaction cf customer amount currency key)"
proof -
  have replay: "still V (bind (if b then bind (in_books (ensureAccount cf owner code anyOwner)) (\<lambda>wallet.
      bind (reserve_withdrawal wallet i n) (\<lambda>_. ret ())) else ret ()) (\<lambda>_. ret r))" for V b owner code anyOwner i n and r :: "withdrawal option \<times> bool"
    by (intro keeps_intros table_intros)
  have created: "still V (bind (in_books (ensureAccount cf owner code anyOwner)) (\<lambda>wallet. bind (reserve_withdrawal wallet i n) (\<lambda>_. ret r)))"
    for V owner code anyOwner i n and r :: "withdrawal option \<times> bool"
    by (intro keeps_intros table_intros)
  have row: "steps_from W (insert_withdrawal (new_withdrawal cf customer amount fee currency dest key))" if "\<not> amount \<le> fee" for fee dest
    using that by (intro steps_insert new_row_ok) (simp_all add: new_withdrawal_def)
  show ?thesis
    unfolding request_in_transaction_def
    by (intro table_intros steps_last [OF row] keeps_case_option created keeps_bind [OF keeps_basic(3)] keeps_basic replay)
qed

definition falls_back :: "withdrawal list \<Rightarrow> 'a till \<Rightarrow> bool" where
  "falls_back W m \<longleftrightarrow> (\<forall>c e c'. withdrawals c = W \<longrightarrow> m c = (Inl e, c') \<longrightarrow> withdrawals c' = W)"

lemma falls_first:
  assumes "still W m" and "\<And>a. falls_back W (f a)"
  shows "falls_back W (bind m f)"
  unfolding falls_back_def
proof (intro allI impI)
  fix c :: cashier and e c' assume w: "withdrawals c = W" and r: "bind m f c = (Inl e, c')"
  obtain x d where m: "m c = (x, d)" by (cases "m c") auto
  then have "withdrawals d = W" by (rule keepsD [OF assms(1) w])
  show "withdrawals c' = W"
  proof (cases x)
    case (Inl a)
    with r m \<open>withdrawals d = W\<close> show ?thesis by (simp add: bind_apply)
  next
    case (Inr a)
    with r m have "f a d = (Inl e, c')" by (simp add: bind_apply)
    with assms(2) \<open>withdrawals d = W\<close> show ?thesis unfolding falls_back_def by blast
  qed
qed

lemma steps_catch:
  assumes "steps_from W m" and "falls_back W m" and "\<And>e. steps_from W (h e)"
  shows "steps_from W (try_catch m h)"
  unfolding steps_from_def
proof (intro allI impI)
  fix c :: cashier and a c' assume w: "withdrawals c = W" and r: "try_catch m h c = (Inr a, c')"
  obtain x d where m: "m c = (x, d)" by (cases "m c") auto
  show "table_step W (withdrawals c')"
  proof (cases x)
    case (Inl e)
    with m have "m c = (Inl e, d)" by simp
    with assms(2) w have "withdrawals d = W" unfolding falls_back_def by blast
    moreover from r m Inl have "h e d = (Inr a, c')" by (simp add: try_catch_def)
    ultimately show ?thesis using assms(3) [of e] unfolding steps_from_def by blast
  next
    case (Inr b)
    with r m have "m c = (Inr a, c')" by (simp add: try_catch_def)
    with assms(1) w show ?thesis unfolding steps_from_def by blast
  qed
qed

text \<open>The UPDATE of a row that was read, with a change that is one step of the lifecycle.\<close>

definition good_table :: "withdrawal list \<Rightarrow> bool" where
  "good_table ws \<longleftrightarrow> distinct (map wd_id ws) \<and> list_all row_ok ws"

lemma steps_change:
  assumes "good_table W" and "w \<in> set W" and "row_ok w \<Longrightarrow> row_step w (f w)"
  shows "steps_from W (update_withdrawal (wd_id w) f)"
  using assms by (intro steps_update) (auto simp: good_table_def list_all_iff)

lemma final_steps:
  assumes "good_table W" and "w \<in> set W" and "wd_status w = Requested"
  shows "steps_from W (update_withdrawal (wd_id w) (\<lambda>r. r\<lparr>wd_status := Cancelled\<rparr>))"
    "steps_from W (update_withdrawal (wd_id w)
       (\<lambda>r. r\<lparr>wd_status := Rejected_wd, wd_reviewer := reviewer, wd_reviewed_at := when, wd_reason := why\<rparr>))"
    "steps_from W (update_withdrawal (wd_id w) (\<lambda>r. r\<lparr>wd_status := Requires_attention, wd_transfer := Some tid\<rparr>))"
    "steps_from W (update_withdrawal (wd_id w) (processing_row cf actor tid dest wallet txn fee_txn))"
  using assms
  by (intro steps_change; auto simp: row_step_def same_terms_def row_ok_def sent_def processing_row_def intro: next_status.intros)+

lemma sent_steps:
  assumes "good_table W" and "w \<in> set W" and "sent (wd_status w)" and "\<not> final (wd_status w)"
  shows "steps_from W (update_withdrawal (wd_id w) (\<lambda>r. r\<lparr>wd_status := Paid\<rparr>))"
    "steps_from W (update_withdrawal (wd_id w) (\<lambda>r. r\<lparr>wd_status := Failed_wd, wd_reversal_txn := reversal\<rparr>))"
  using assms
  by (intro steps_change; auto simp: row_step_def same_terms_def row_ok_def sent_def intro: next_status.intros)+

lemma still_reversal [table_intros]: "still W (post_reversal cf w tid reason)"
  unfolding post_reversal_def by (intro keeps_intros table_intros)

lemma still_fee [table_intros]: "still W (post_fee cf w rq actor currency wallet)"
  unfolding post_fee_def by (intro keeps_intros table_intros)

text \<open>Operations: whether they return or throw, the table makes at most one step.\<close>

definition moves :: "withdrawal list \<Rightarrow> 'a till \<Rightarrow> bool" where
  "moves W m \<longleftrightarrow> (\<forall>c. withdrawals c = W \<longrightarrow> table_step W (withdrawals (snd (m c))))"

lemma moves_transaction: "steps_from W m \<Longrightarrow> moves W (withTransaction m)"
  unfolding moves_def using steps_transaction by blast

lemma moves_still:
  fixes m :: "'a till"
  assumes "still W m"
  shows "moves W m"
  using assms by (simp add: moves_def keeps_def table_step.unchanged)

lemma moves_checked:
  assumes "\<And>a. r = Inr a \<Longrightarrow> moves W (f a)"
  shows "moves W (bind (lift_res r) f)"
  using assms by (cases r) (auto simp: moves_def bind_apply table_step.unchanged)

lemma moves_last:
  assumes "moves W m" and "\<And>a V. still V (f a)"
  shows "moves W (bind m f)"
  unfolding moves_def
proof (intro allI impI)
  fix c :: cashier assume w: "withdrawals c = W"
  obtain x d where m: "m c = (x, d)" by (cases "m c") auto
  with assms(1) w have step: "table_step W (withdrawals d)" by (auto simp: moves_def dest: spec [of _ c])
  show "table_step W (withdrawals (snd (bind m f c)))"
  proof (cases x)
    case (Inl e)
    with m step show ?thesis by (simp add: bind_apply)
  next
    case (Inr a)
    have "withdrawals (snd (f a d)) = withdrawals d" using assms(2) [of "withdrawals d" a] by (simp add: keeps_def)
    with m step Inr show ?thesis by (simp add: bind_apply)
  qed
qed

lemma moves_request: "moves W (requestWithdrawal cf rq)"
  unfolding requestWithdrawal_def
  by (cases "or_null (wr_customer rq)")
    (auto intro!: moves_still moves_checked moves_last [OF moves_transaction [OF steps_request]] keeps_intros table_intros split: option.split)

lemma moves_branch:
  "(b \<Longrightarrow> moves W m) \<Longrightarrow> (\<not> b \<Longrightarrow> moves W n) \<Longrightarrow> moves W (if b then m else n)"
  by simp

lemma steps_row:
  assumes "\<And>c w. withdrawals c = W \<Longrightarrow> g c = Some w \<Longrightarrow> P w"
    and "steps_from W n" and "\<And>w. P w \<Longrightarrow> steps_from W (f w)"
  shows "steps_from W (bind (gets g) (\<lambda>row. case row of None \<Rightarrow> n | Some w \<Rightarrow> f w))"
  using assms by (intro steps_gets) (auto split: option.split)

lemma moves_reject:
  assumes "good_table W"
  shows "moves W (rejectWithdrawal cf i actor reason)"
  unfolding rejectWithdrawal_def Let_def
  by (intro moves_checked moves_branch moves_still [OF keeps_basic(2)] moves_transaction steps_row [where P = "\<lambda>w. w \<in> set W"] steps_branch(1) steps_basic
      steps_last [OF final_steps(2) [OF assms]] keeps_intros table_intros) (auto dest: find_row)

lemma moves_cancel:
  assumes "good_table W"
  shows "moves W (cancelWithdrawal cf i customer)"
proof (cases "or_null customer")
  case None
  then show ?thesis by (simp add: cancelWithdrawal_def moves_still keeps_basic)
next
  case (Some owner)
  have "moves W (withTransaction (
          bind (gets (getCustomerWithdrawal owner i)) (\<lambda>row.
          case row of
            None \<Rightarrow> fail (AppError 404 ''credit_withdrawal_not_found'')
          | Some w \<Rightarrow>
          if wd_status w \<noteq> Requested then fail (AppError 409 ''credit_withdrawal_state_conflict'')
          else
            bind (update_withdrawal (wd_id w) (\<lambda>r. r\<lparr>wd_status := Cancelled\<rparr>)) (\<lambda>_.
            bind (release_withdrawal cf (wd_id w) ''withdrawal cancelled by customer'') (\<lambda>_.
            ret (w\<lparr>wd_status := Cancelled\<rparr>))))))"
    by (intro moves_transaction steps_row [where P = "\<lambda>w. w \<in> set W"] steps_branch(1) steps_basic
      steps_last [OF final_steps(1) [OF assms]] keeps_intros table_intros) (auto dest: find_row)
  with Some show ?thesis by (simp add: cancelWithdrawal_def)
qed

lemma steps_fail:
  assumes "good_table W"
  shows "steps_from W (failWithdrawalFromTransferInTransaction cf tid reason)"
proof -
  have pending: "sent (wd_status w) \<and> \<not> final (wd_status w)"
    if "w \<in> set W" "wd_transfer w = Some tid" "wd_status w \<noteq> Failed_wd" "wd_status w \<noteq> Paid" for w
    using assms that by (auto simp: good_table_def list_all_iff row_ok_def final_def sent_def)
  show ?thesis
    unfolding failWithdrawalFromTransferInTransaction_def
    by (intro steps_row [where P = "\<lambda>w. w \<in> set W \<and> wd_transfer w = Some tid"] steps_branch(1) steps_basic
      steps_first [OF still_reversal] steps_last [OF sent_steps(2) [OF assms]] keeps_intros table_intros) (auto dest: find_row pending)
qed

lemma steps_confirm:
  assumes "good_table W"
  shows "moves W (confirmWithdrawalFromTransfer cf st tid)"
  unfolding confirmWithdrawalFromTransfer_def
  by (intro moves_transaction steps_binds steps_row [where P = "\<lambda>w. w \<in> set W"] steps_branch(1) steps_basic steps_fail [OF assms]
      steps_last [OF sent_steps(1) [OF assms]] keeps_intros table_intros) (auto dest: find_row simp: sent_def final_def)

lemma moves_fail:
  assumes "good_table W"
  shows "moves W (failWithdrawalFromTransfer cf tid reason)"
  unfolding failWithdrawalFromTransfer_def by (intro moves_transaction steps_binds steps_fail [OF assms])

lemma steps_park:
  assumes "good_table W" and "w \<in> set W" and "wd_status w = Requested"
  shows "steps_from W (park w tid wallet e)"
  unfolding park_def
  by (intro steps_branch(1) steps_basic steps_last [OF final_steps(3) [OF assms]] keeps_intros table_intros)

lemma steps_payout:
  assumes "good_table W" and "w \<in> set W" and "wd_status w = Requested"
  shows "steps_from W (post_payout cf rq actor w currency dest tid wallet treasury)"
    "falls_back W (post_payout cf rq actor w currency dest tid wallet treasury)"
proof -
  show "steps_from W (post_payout cf rq actor w currency dest tid wallet treasury)"
    unfolding post_payout_def
    by (intro steps_binds steps_first [OF still_fee] steps_last [OF final_steps(4) [OF assms]] keeps_intros table_intros)
  have "falls_back W (bind (update_withdrawal i f) (\<lambda>updated. case updated of None \<Rightarrow> fail e
     | Some u \<Rightarrow> bind (log_event ev) (\<lambda>_. ret (r u))))" for i f e ev and r :: "withdrawal \<Rightarrow> approval_result"
    by (auto simp: falls_back_def update_withdrawal_def in_world_def write_event_def on_kyc_def bind_apply split: option.splits if_splits)
  note table = this
  show "falls_back W (post_payout cf rq actor w currency dest tid wallet treasury)"
    unfolding post_payout_def by (rule falls_first [OF still_ledger], rule falls_first [OF still_fee], rule table)
qed

lemma moves_approve:
  assumes "good_table W"
  shows "moves W (approveWithdrawal cf st rq)"
proof -
  have "steps_from W (approve_in_transaction cf st rq actor)" for actor
    unfolding approve_in_transaction_def
    by (intro steps_row [where P = "\<lambda>w. w \<in> set W"] steps_branch(1) steps_basic steps_last [OF final_steps(1) [OF assms]]
        steps_catch steps_payout steps_park assms keeps_intros table_intros) (auto dest: find_row)
  then show ?thesis
    unfolding approveWithdrawal_def
    by (intro moves_checked moves_last [OF moves_transaction] keeps_intros table_intros)
qed

section \<open>Runs of the cashier\<close>

text \<open>
  What the server does to the tables, in any order and for any clock and configuration: the operations of this service,
  the commands on the ledger, and changes beside them (accounts connected, identities checked, restarts).
\<close>

inductive till_run :: "cashier \<Rightarrow> cashier \<Rightarrow> bool" for start where
  opens: "till_run start start"
| orders: "till_run start c \<Longrightarrow> perform cf cmd (books (ledger_side c)) = (Inr u, db) \<Longrightarrow> \<not> takes_legacy cmd (books (ledger_side c)) \<Longrightarrow>
    till_run start (c\<lparr>ledger_side := (ledger_side c)\<lparr>books := db\<rparr>\<rparr>)"
| beside: "till_run start c \<Longrightarrow> books w = books (ledger_side c) \<Longrightarrow> till_run start (c\<lparr>ledger_side := w, payout_accounts := known\<rparr>)"
| request: "till_run start c \<Longrightarrow> till_run start (snd (requestWithdrawal cf rq c))"
| approve: "till_run start c \<Longrightarrow> till_run start (snd (approveWithdrawal cf st ap c))"
| reject: "till_run start c \<Longrightarrow> till_run start (snd (rejectWithdrawal cf i actor reason c))"
| cancel: "till_run start c \<Longrightarrow> till_run start (snd (cancelWithdrawal cf i customer c))"
| confirm: "till_run start c \<Longrightarrow> till_run start (snd (confirmWithdrawalFromTransfer cf st tid c))"
| fails: "till_run start c \<Longrightarrow> till_run start (snd (failWithdrawalFromTransfer cf tid cause c))"

lemma run_table:
  assumes "till_run start c" and "table_ok old (withdrawals start)"
  shows "table_ok old (withdrawals c)"
  using assms(1)
proof induction
  case opens
  show ?case by (rule assms(2))
next
  case (orders c cf cmd u db)
  then show ?case by simp
next
  case (beside c w known)
  then show ?case by simp
next
  case (request c cf rq)
  with moves_request [of "withdrawals c" cf rq] show ?case by (auto simp: moves_def intro: table_ok_step)
next
  case (approve c cf st ap)
  then have "good_table (withdrawals c)" by (simp add: good_table_def table_ok_def)
  with approve moves_approve [of "withdrawals c" cf st ap] show ?case by (auto simp: moves_def intro: table_ok_step)
next
  case (reject c cf i actor reason)
  then have "good_table (withdrawals c)" by (simp add: good_table_def table_ok_def)
  with reject moves_reject [of "withdrawals c" cf i actor reason] show ?case by (auto simp: moves_def intro: table_ok_step)
next
  case (cancel c cf i customer)
  then have "good_table (withdrawals c)" by (simp add: good_table_def table_ok_def)
  with cancel moves_cancel [of "withdrawals c" cf i customer] show ?case by (auto simp: moves_def intro: table_ok_step)
next
  case (confirm c cf st tid)
  then have "good_table (withdrawals c)" by (simp add: good_table_def table_ok_def)
  with confirm steps_confirm [of "withdrawals c" cf st tid] show ?case by (auto simp: moves_def intro: table_ok_step)
next
  case (fails c cf tid cause)
  then have "good_table (withdrawals c)" by (simp add: good_table_def table_ok_def)
  with fails moves_fail [of "withdrawals c" cf tid cause] show ?case by (auto simp: moves_def intro: table_ok_step)
qed

lemma till_run_trans: "till_run c later \<Longrightarrow> till_run start c \<Longrightarrow> till_run start later"
  by (induction rule: till_run.induct) (auto intro: till_run.intros)

section \<open>The reserved amounts\<close>

text \<open>Holds keep positive amounts whatever else is promised.\<close>

interpretation anything: wallet_contract "\<lambda>_ _. True"
  by unfold_locales (simp_all add: commits_def)

lemma keeps_perform:
  assumes "cash_ok c" and "perform cf cmd (books (ledger_side c)) = (Inr u, db)" and "\<not> takes_legacy cmd (books (ledger_side c))"
  shows "cash_ok (c\<lparr>ledger_side := (ledger_side c)\<lparr>books := db\<rparr>\<rparr>)"
proof -
  have ok: "reserved_beside (reserved_for (reservations c)) (books (ledger_side c))" "hold_amounts_ok (books (ledger_side c))"
    and pos: "list_all (\<lambda>r. 0 < rv_amount r) (reservations c)"
    using assms(1) by (simp_all add: cash_ok_def)
  have "reserved_beside (reserved_for (reservations c)) db"
    by (rule performed_matches [OF assms(2) ok assms(3) reserved_for_nonneg [OF pos]])
  moreover have "hold_amounts_ok db"
    using anything.performs [of cf cmd] ok(2) assms(2) by (auto simp: keeps_def with_amounts_def dest: spec [of _ "books (ledger_side c)"])
  ultimately show ?thesis using assms(1) by (simp add: cash_ok_def)
qed

lemma keeps_cash:
  "keeps cash_ok (requestWithdrawal cf rq)" "keeps cash_ok (approveWithdrawal cf st ap)" "keeps cash_ok (rejectWithdrawal cf i actor reason)"
  "keeps cash_ok (cancelWithdrawal cf i customer)" "keeps cash_ok (confirmWithdrawalFromTransfer cf st tid)"
  "keeps cash_ok (failWithdrawalFromTransfer cf tid cause)"
proof -
  note rows = keeps_reserve keeps_release keeps_table
  have fee: "keeps cash_ok (post_fee cf w ap actor currency wallet)" for w actor currency wallet
    unfolding post_fee_def by (intro cash_intros rows)
  have reversal: "keeps cash_ok (post_reversal cf w tid cause)" for w cause
    unfolding post_reversal_def by (intro cash_intros rows)
  have failing: "keeps cash_ok (failWithdrawalFromTransferInTransaction cf tid cause)" for cause
    unfolding failWithdrawalFromTransferInTransaction_def by (intro cash_intros rows reversal)
  have transaction: "keeps cash_ok (request_in_transaction cf customer amount currency key)" for customer amount currency key
    unfolding request_in_transaction_def reserve_withdrawal_def by (intro cash_intros rows)
  have payout: "keeps cash_ok (post_payout cf ap actor w currency dest tid wallet treasury)"
    "keeps cash_ok (park w tid wallet e)" for actor w currency dest tid wallet treasury e
    unfolding post_payout_def park_def reserve_withdrawal_def by (intro cash_intros rows fee)+
  have approve: "keeps cash_ok (approve_in_transaction cf st ap actor)" for actor
    unfolding approve_in_transaction_def release_withdrawal_def by (intro cash_intros rows payout)
  show "keeps cash_ok (requestWithdrawal cf rq)" unfolding requestWithdrawal_def by (intro cash_intros transaction)
  show "keeps cash_ok (approveWithdrawal cf st ap)" unfolding approveWithdrawal_def by (intro cash_intros approve)
  show "keeps cash_ok (rejectWithdrawal cf i actor reason)"
    unfolding rejectWithdrawal_def release_withdrawal_def by (intro cash_intros rows)
  show "keeps cash_ok (cancelWithdrawal cf i customer)"
    unfolding cancelWithdrawal_def release_withdrawal_def by (intro cash_intros rows)
  show "keeps cash_ok (confirmWithdrawalFromTransfer cf st tid)"
    unfolding confirmWithdrawalFromTransfer_def by (intro cash_intros rows failing)
  show "keeps cash_ok (failWithdrawalFromTransfer cf tid cause)"
    unfolding failWithdrawalFromTransfer_def by (intro cash_intros failing)
qed

lemma run_cash_ok: "till_run start c \<Longrightarrow> cash_ok start \<Longrightarrow> cash_ok c"
proof (induction rule: till_run.induct)
  case (orders c cf cmd u db)
  then show ?case by (simp add: keeps_perform)
next
  case (beside c w known)
  then show ?case by (simp add: cash_ok_def)
qed (use keeps_cash in \<open>auto simp: keeps_def\<close>)

text \<open>
  C6: What is reserved on an account is owed to somebody: on every run of ledger commands (without the legacy capture),
  requests, approvals, failed or parked payouts, rejections, cancellations and webhooks, in any order and at any
  configuration, the reserved amount of each account is the sum of its active holds and its active reservations.
\<close>

theorem reserved_is_holds_and_reservations:
  assumes "till_run start c" and "cash_ok start" and "a \<in> set (accounts (books (ledger_side c)))"
  shows "ac_reserved a =
    sum_list (map ho_amount (filter (\<lambda>h. ho_account h = ac_id a \<and> ho_status h = HActive) (holds (books (ledger_side c))))) +
    sum_list (map rv_amount (filter (\<lambda>r. rv_account r = ac_id a \<and> rv_status r = Reserved) (reservations c)))"
proof -
  have holds: "sum_list (map (active_amount i) hs) = sum_list (map ho_amount (filter (\<lambda>h. ho_account h = i \<and> ho_status h = HActive) hs))" for i hs
    by (induction hs) (simp_all add: active_amount_def)
  have rows: "reserved_for rs i = sum_list (map rv_amount (filter (\<lambda>r. rv_account r = i \<and> rv_status r = Reserved) rs))" for i rs
    unfolding reserved_for_def by (induction rs) (simp_all add: reserved_amount_def)
  have "cash_ok c" by (rule run_cash_ok [OF assms(1,2)])
  with assms(3) show ?thesis
    by (auto simp: cash_ok_def reserved_beside_def list_all_iff active_total_def holds rows)
qed

text \<open>
  C20: Withdrawals only move along their lifecycle: from requested to processing, parked, rejected or cancelled, from there
  only what was sent to paid or failed, and those with rejected and cancelled are final. Customer, amounts, fee,
  currency, key and deadline never change, no row is lost, ids and keys are unique and a transfer pays one row.
\<close>

theorem withdrawals_follow_their_lifecycle:
  assumes "till_run start c" and "withdrawals start = []" and "till_run c later"
  shows "distinct (map wd_id (withdrawals later)) \<and> distinct (map wd_key (withdrawals later)) \<and> transfers_unique (withdrawals later) \<and>
    (\<forall>a \<in> set (withdrawals c). \<exists>b \<in> set (withdrawals later). same_terms a b \<and> next_status\<^sup>*\<^sup>* (wd_status a) (wd_status b) \<and>
       (final (wd_status a) \<longrightarrow> b = a))"
proof -
  have "table_ok [] (withdrawals start)" by (simp add: assms(2) table_ok_def transfers_unique_def)
  then have "table_ok [] (withdrawals c)" by (rule run_table [OF assms(1)])
  then have "table_ok (withdrawals c) (withdrawals c)" by (auto simp: table_ok_def later_row_def same_terms_def)
  then have "table_ok (withdrawals c) (withdrawals later)" by (rule run_table [OF assms(3)])
  then show ?thesis unfolding table_ok_def later_row_def by blast
qed

section \<open>A sample cashier\<close>

text \<open>One customer with 1000 cents, a connected account and a withdrawal fee of 25 cents.\<close>

definition withdrawal_fee_row :: fee_row where
  "withdrawal_fee_row = \<lparr>fe_fixed = 25, fe_bps = 0, fe_min = 0, fe_max = None, fe_id = 1, fe_operation = ''withdrawal'', fe_currency = ''USD'',
     fe_active = True, fe_from = 0, fe_to = None\<rparr>"

definition sample_till :: cashier where
  "sample_till = \<lparr>ledger_side = (sample_world [])\<lparr>books := sample_screened\<lparr>accounts :=
       [sample_account 1 Platform_treasury None None (- 1000), sample_account 2 Customer_wallet (Some ''ana'') None 1000,
        sample_account 3 Platform_revenue None None 0], fee_rows := [withdrawal_fee_row]\<rparr>\<rparr>,
     reservations = [], withdrawals = [], payout_accounts = [(''ana'', ''acct_1''), (''ben'', ''acct_2'')]\<rparr>"

definition sample_stripe :: stripe where
  "sample_stripe = \<lparr>st_configured = True, st_create = (\<lambda>_ _ _ _. Inr (Some ''tr_1'')),
     st_retrieve = (\<lambda>_. Inr \<lparr>tf_reversed = False, tf_withdrawal = Some ''1'', tf_amount = JInt 575\<rparr>)\<rparr>"

definition sample_withdrawal :: withdrawal_request where
  "sample_withdrawal = \<lparr>wr_customer = Some ''ana'', wr_amount = JInt 600, wr_currency = Some ''USD'', wr_key = Some ''w1''\<rparr>"

definition sample_payout :: approval_request where
  "sample_payout = \<lparr>ap_withdrawal = 1, ap_actor = Some ''root'', ap_key = Some ''a1'', ap_ip = None, ap_correlation = Some ''c1''\<rparr>"

definition till_requested :: cashier where
  "till_requested = snd (requestWithdrawal sample_config sample_withdrawal sample_till)"

definition till_approved :: cashier where
  "till_approved = snd (approveWithdrawal sample_config sample_stripe sample_payout till_requested)"

definition till_paid :: cashier where
  "till_paid = snd (confirmWithdrawalFromTransfer sample_config sample_stripe ''tr_1'' till_approved)"

definition till_summary ::
  "cashier \<Rightarrow> (int \<times> withdrawal_status \<times> int \<times> int \<times> string option) list \<times> (int \<times> int \<times> reservation_status) list \<times>
     (int \<times> int \<times> int) list \<times> (string \<times> int) list" where
  "till_summary c =
     (map (\<lambda>w. (wd_id w, wd_status w, wd_amount w, wd_fee w, wd_transfer w)) (withdrawals c),
      map (\<lambda>r. (rv_account r, rv_amount r, rv_status r)) (reservations c),
      map (\<lambda>a. (ac_id a, ac_balance a, ac_reserved a)) (accounts (books (ledger_side c))),
      map (\<lambda>t. (tx_type t, tx_amount t)) (txns (books (ledger_side c))))"

lemma till_requested_summary: "till_summary till_requested =
    ([(1, Requested, 600, 25, None)], [(2, 600, Reserved)], [(1, - 1000, 0), (2, 1000, 600), (3, 0, 0)], [])"
  by code_simp

lemma till_approved_summary: "till_summary till_approved =
    ([(1, Processing, 600, 25, Some ''tr_1'')], [(2, 600, Released)], [(1, - 425, 0), (2, 400, 0), (3, 25, 0)],
     [(''cash_out'', 575), (''withdrawal_fee'', 25)])"
  by code_simp

lemma till_paid_summary: "till_summary till_paid =
    ([(1, Paid, 600, 25, Some ''tr_1'')], [(2, 600, Released)], [(1, - 425, 0), (2, 400, 0), (3, 25, 0)],
     [(''cash_out'', 575), (''withdrawal_fee'', 25)])"
  by code_simp

lemma sample_till_runs: "till_run sample_till till_requested" "till_run till_requested till_paid"
  unfolding till_paid_def till_approved_def
  by (simp_all add: till_requested_def till_run.request [OF till_run.opens] till_run.confirm [OF till_run.approve [OF till_run.opens]])

lemma sample_till_ok: "cash_ok sample_till"
  by (simp add: cash_ok_def reserved_beside_def sample_till_def sample_world_def sample_screened_def sample_ledger_def sample_account_def
    account_ids_ok_def hold_ids_ok_def hold_amounts_ok_def active_total_def reserved_for_def active_references_def)

theorem reserved_is_holds_and_reservations_witness:
  "\<exists>a \<in> set (accounts (books (ledger_side till_requested))). ac_reserved a = 600 \<and>
     sum_list (map rv_amount (filter (\<lambda>r. rv_account r = ac_id a \<and> rv_status r = Reserved) (reservations till_requested))) +
     sum_list (map ho_amount (filter (\<lambda>h. ho_account h = ac_id a \<and> ho_status h = HActive) (holds (books (ledger_side till_requested))))) = 600"
proof -
  have "\<exists>a \<in> set (accounts (books (ledger_side till_requested))). ac_reserved a = 600"
    using till_requested_summary by (auto simp: till_summary_def map_eq_Cons_conv)
  then obtain a where a: "a \<in> set (accounts (books (ledger_side till_requested)))" "ac_reserved a = 600" ..
  from reserved_is_holds_and_reservations [OF sample_till_runs(1) sample_till_ok a(1)] a show ?thesis by (intro bexI [of _ a]) simp_all
qed

theorem withdrawals_follow_their_lifecycle_witness:
  "\<exists>a \<in> set (withdrawals till_requested). \<exists>b \<in> set (withdrawals till_paid). wd_status a = Requested \<and> wd_status b = Paid \<and>
     next_status\<^sup>*\<^sup>* (wd_status a) (wd_status b) \<and> same_terms a b"
proof -
  have none: "withdrawals sample_till = []" by (simp add: sample_till_def)
  obtain a b where ab: "withdrawals till_requested = [a]" "wd_status a = Requested" "withdrawals till_paid = [b]" "wd_status b = Paid"
    using till_requested_summary till_paid_summary by (auto simp: till_summary_def map_eq_Cons_conv)
  have "\<forall>a \<in> set (withdrawals till_requested). \<exists>b \<in> set (withdrawals till_paid). same_terms a b \<and>
      next_status\<^sup>*\<^sup>* (wd_status a) (wd_status b) \<and> (final (wd_status a) \<longrightarrow> b = a)"
    using withdrawals_follow_their_lifecycle [OF sample_till_runs(1) none sample_till_runs(2)] by blast
  with ab show ?thesis by auto
qed

end
