(* ===== verification/WithdrawalMoney.thy ===== *)
theory WithdrawalMoney
  imports WithdrawalProperties BankRefinement
begin

text \<open>
  The money of withdrawals: what an approval posts, what a failed payout gives back, and what happens to a row whose
  lock legs could not be posted after the transfer was created.
\<close>

section \<open>Parts that move no money\<close>

definition same_money :: "ledger \<Rightarrow> ledger \<Rightarrow> bool" where
  "same_money db db' \<longleftrightarrow> txns db' = txns db \<and> (\<forall>i. balance_of db' i = balance_of db i) \<and> (account_ids_ok db \<longrightarrow> account_ids_ok db')"

lemma same_money_refl: "same_money db db"
  by (simp add: same_money_def)

lemma same_money_trans [trans]: "same_money a b \<Longrightarrow> same_money b c \<Longrightarrow> same_money a c"
  by (simp add: same_money_def)

lemma same_money_ensure: "ensureAccount cf w code anyOwner db = (Inr a, db') \<Longrightarrow> same_money db db'"
  by (simp add: same_money_def ensure_txns(1) ensure_balance)

lemma same_money_screened: "same_money db (db\<lparr>screenings := s\<rparr>)"
  by (simp add: same_money_def balance_of_def account_row_def account_ids_ok_def)

lemma same_money_reserved: "same_money db (add_reserved i n db)"
  by (simp add: same_money_def add_reserved_def balance_of_upd account_ids_ok_def map_upd_where_frame)

lemma in_books_Inr: "in_books m c = (Inr r, c') \<longleftrightarrow>
  (\<exists>db. m (books (ledger_side c)) = (Inr r, db) \<and> c' = c\<lparr>ledger_side := (ledger_side c)\<lparr>books := db\<rparr>\<rparr>)"
  by (auto simp: in_world_Inr on_books_Inr)

lemma leg_posts:
  assumes "postJournalTransaction cf inp db = (Inr p, db')" and "normalizeString (ji_key inp) 160 = Some key"
    and "getExistingTransaction key db = None" "ji_existing inp = None" and "ji_amount inp = number_of_bigint n" and "account_ids_ok db"
  shows "0 < n" "tx_amount (po_txn p) = n" "tx_key (po_txn p) = key" "tx_type (po_txn p) = ji_type inp" "txns db' = txns db @ [po_txn p]"
    "balance_of db' i = balance_of db i + movement (ji_debit inp) (ji_credit inp) n i" "account_ids_ok db'"
proof -
  have new: "\<not> po_replayed p"
    using assms(1)
  proof (cases rule: postJournalTransaction_Inr)
    case (replayed t amount currency key')
    with assms(2,3,4) show ?thesis by simp
  next
    case moved
    then show ?thesis by simp
  qed
  have "\<exists>amount. safe_int (ji_amount inp) = Some amount \<and> 0 < amount \<and> tx_amount (po_txn p) = amount \<and> tx_key (po_txn p) = key"
  proof (rule fresh_posting_cases [OF assms(1) new])
    fix amount currency version d c t e1 e2 and found :: string
    assume "safe_int (ji_amount inp) = Some amount" "0 < amount" and k: "normalizeString (ji_key inp) 160 = Some found"
      and t: "t = (requested_txn cf inp found amount currency)\<lparr>tx_id := next_id (map tx_id (txns db))\<rparr>"
      "p = \<lparr>po_txn = t, po_entries = [e1, e2], po_replayed = False\<rparr>"
    moreover have "found = key" using k assms(2) by simp
    moreover have "tx_amount (po_txn p) = amount" "tx_key (po_txn p) = found" by (simp_all add: t requested_txn_def)
    ultimately show ?thesis by blast
  qed
  then obtain amount where a: "safe_int (ji_amount inp) = Some amount" "0 < amount" "tx_amount (po_txn p) = amount" "tx_key (po_txn p) = key"
    by blast
  then have n: "amount = n" using assms(5) by (simp add: safe_number_of_bigint split: if_splits)
  from assms(1) new assms(6) obtain k where
    k: "ji_amount inp = JInt k" "0 < k" "tx_amount (po_txn p) = k" "tx_debit (po_txn p) = ji_debit inp"
      "tx_credit (po_txn p) = ji_credit inp" "tx_type (po_txn p) = ji_type inp" "tx_agreement (po_txn p) = ji_agreement inp"
      "tx_partner (po_txn p) = ji_partner inp" "txns db' = txns db @ [po_txn p]"
      "\<And>i. balance_of db' i = balance_of db i + movement (ji_debit inp) (ji_credit inp) k i" "account_ids_ok db'"
    by (rule post_balance) (rule that)
  from a n k show "0 < n" "tx_amount (po_txn p) = n" "tx_key (po_txn p) = key" "tx_type (po_txn p) = ji_type inp" "txns db' = txns db @ [po_txn p]"
    "balance_of db' i = balance_of db i + movement (ji_debit inp) (ji_credit inp) n i" "account_ids_ok db'"
    by simp_all
qed

text \<open>Steps that move no money and keep the rows of the withdrawals.\<close>

definition unmoved :: "cashier \<Rightarrow> cashier \<Rightarrow> bool" where
  "unmoved c d \<longleftrightarrow> same_money (books (ledger_side c)) (books (ledger_side d)) \<and> withdrawals d = withdrawals c \<and>
     payout_accounts d = payout_accounts c \<and> (cash_ok c \<longrightarrow> cash_ok d)"

lemma unmoved_refl: "unmoved c c"
  by (simp add: unmoved_def same_money_refl)

lemma unmoved_trans [trans]: "unmoved a b \<Longrightarrow> unmoved b c \<Longrightarrow> unmoved a c"
  by (simp add: unmoved_def same_money_def)

lemma unmoved_books:
  assumes "in_books m c = (Inr a, d)" and "spares m" and "\<And>db db'. m db = (Inr a, db') \<Longrightarrow> same_money db db'"
  shows "unmoved c d"
proof -
  have "cash_ok c \<Longrightarrow> cash_ok d" by (rule keepsD [OF keeps_books [OF assms(2)] _ assms(1)])
  with assms(1,3) show ?thesis by (auto simp: unmoved_def in_books_Inr)
qed

lemma unmoved_rail: "in_books (assertCreditRailEnabled False) c = (Inr a, d) \<Longrightarrow> unmoved c d"
  by (rule unmoved_books [OF _ spares_rail]) (auto dest!: rail_Inr simp: same_money_refl)

lemma unmoved_sanctions: "in_books (assertSanctionsClear cf ty i) c = (Inr a, d) \<Longrightarrow> unmoved c d"
  by (rule unmoved_books [OF _ spares_sanctions]) (auto elim!: clear_frame simp: same_money_screened)

lemma unmoved_ensure: "in_books (ensureAccount cf w code anyOwner) c = (Inr a, d) \<Longrightarrow> unmoved c d"
  by (rule unmoved_books [OF _ spares_ensure]) (auto intro: same_money_ensure)

lemma unmoved_kyc: "in_world (on_kyc k) c = (Inr a, d) \<Longrightarrow> unmoved c d"
  by (auto simp: unmoved_def in_world_Inr on_kyc_def same_money_refl cash_ok_def split: prod.splits)

lemma release_Inr:
  assumes "releaseReservation cf rq c = (Inr x, c')" and "cash_ok c"
  shows "unmoved c c'" "re_reservation rq = None \<Longrightarrow> getActiveReservation (re_refType rq) (re_refId rq) c' = None"
proof -
  have ids: "distinct (map rv_id (reservations c))" and refs: "distinct (active_references (reservations c))"
    using assms(2) by (simp_all add: cash_ok_def)
  have ok: "cash_ok c'" by (rule keepsD [OF keeps_release assms(2,1)])
  from ids show "unmoved c c'"
    by (cases rule: release_cases [of c cf rq]) (use assms(1) ok in \<open>simp_all add: unmoved_refl unmoved_def same_money_reserved\<close>)
  assume by_reference: "re_reservation rq = None"
  from ids show "getActiveReservation (re_refType rq) (re_refId rq) c' = None"
  proof (cases rule: release_cases [of c cf rq])
    case (same r)
    with assms(1) by_reference show ?thesis by (simp add: getActiveReservation_def)
  next
    case (released v a)
    let ?rs = "upd_where (\<lambda>x. rv_id x = rv_id v) (released_row cf (re_reason rq)) (reservations c)"
    from released(5) by_reference have "active_reservation (screening_normalizeString (re_refType rq) 60) (screening_normalizeString (re_refId rq) 255) c = Some v"
      by (auto simp: release_target_def Let_def split: if_splits)
    then have ref: "reference v = (screening_normalizeString (re_refType rq) 60, screening_normalizeString (re_refId rq) 255)"
      by (auto simp: active_reservation_def reference_def dest: find_SomeD)
    have "inj_on reference (set (filter (\<lambda>r. rv_status r = Reserved) (reservations c)))"
      using refs by (simp add: active_references_def distinct_map)
    then have "reference v \<notin> set (active_references ?rs)"
      unfolding release_references [OF released(1) ids] using released(1,2) by (auto simp: inj_on_def)
    then show ?thesis
      using assms(1) released(6) by (auto simp: getActiveReservation_def active_reference ref)
  qed
qed

lemmas unmoved_intros = unmoved_rail unmoved_sanctions unmoved_ensure unmoved_kyc

section \<open>The approval\<close>

lemma park_error: "park w tid wallet e d = (Inr r, c') \<Longrightarrow> ar_error r = Some e"
  by (auto simp: park_def bind_Inr_iff split: if_splits)

text \<open>An account that is looked up in a supported currency is held in that currency.\<close>

lemma ensured_owner:
  assumes "in_books (ensureAccount cf owner (Some currency) anyOwner) c = (Inr a, d)" and "assertSupportedCreditCurrency cf v = Inr currency"
  shows "owned_by owner currency a"
proof -
  from assms(1) obtain db where "ensureAccount cf owner (Some currency) anyOwner (books (ledger_side c)) = (Inr a, db)"
    by (auto simp: in_books_Inr)
  then obtain code where "assertSupportedCreditCurrency cf (Some currency) = Inr code" "owned_by owner code a"
    by (rule ensureAccount_Inr)
  then show ?thesis using supported_same [OF assms(2)] by blast
qed

text \<open>What an approval that returns went through, up to the point where the lock legs are posted.\<close>

lemma approve_Inr:
  assumes "approveWithdrawal cf st rq c = (Inr r, c')" and "cash_ok c"
  obtains w dest currency wallet treasury tid actor d where
    "find_withdrawal (ap_withdrawal rq) c = Some w" "wd_status w = Requested" "resolveCustomerDestination (wd_customer w) c = Some dest"
    "assertSupportedCreditCurrency cf (Some (wd_currency w)) = Inr currency"
    "owned_by (customer_wallet (wd_customer w)) currency wallet" "owned_by (platform_account Platform_treasury) currency treasury"
    "create_transfer st (wd_net w) currency dest (wd_id w) = Inr tid" "unmoved c d"
    "getActiveReservation (Some ''credit_withdrawal'') (Some (show_int (wd_id w))) d = None"
    "post_payout cf rq actor w currency dest tid wallet treasury d = (Inr r, c')"
proof -
  from assms(1) obtain actor where run: "approve_in_transaction cf st rq actor c = (Inr r, c')" and ok: "ar_error r = None"
    unfolding approveWithdrawal_def by (auto simp: bind_Inr_iff split: option.splits)
  from run obtain w where w: "find_withdrawal (ap_withdrawal rq) c = Some w" "wd_status w = Requested" "\<not> wd_expires w < cf_now cf"
    unfolding approve_in_transaction_def by (auto simp: bind_Inr_iff split: option.splits if_splits)
  from run w obtain u1 c1 u2 c2 u3 c3 dest where s:
    "in_books (assertCreditRailEnabled False) c = (Inr u1, c1)"
    "in_world (on_kyc (assertIdentityVerificationTier cf (wd_customer w) (wd_amount w))) c1 = (Inr u2, c2)"
    "in_books (assertSanctionsClear cf ''customer'' (wd_customer w)) c2 = (Inr u3, c3)" "resolveCustomerDestination (wd_customer w) c3 = Some dest"
    and rest: "bind (lift_res (assertSupportedCreditCurrency cf (Some (wd_currency w)))) (\<lambda>currency.
       bind (in_books (ensureAccount cf (customer_wallet (wd_customer w)) (Some currency) False)) (\<lambda>wallet.
       bind (in_books (ensureAccount cf (platform_account Platform_treasury) (Some currency) False)) (\<lambda>treasury.
       bind (release_withdrawal cf (wd_id w) ''withdrawal approved; journal lock legs posted'') (\<lambda>_.
       bind (lift_res (defaultGetStripe st)) (\<lambda>_.
       bind (lift_res (create_transfer st (wd_net w) currency dest (wd_id w))) (\<lambda>tid.
       try_catch (post_payout cf rq actor w currency dest tid wallet treasury) (park w tid wallet))))))) c3 = (Inr r, c')"
    unfolding approve_in_transaction_def by (auto simp: bind_Inr_iff split: option.splits)
  from rest obtain currency wallet c4 treasury c5 u6 d tid where t:
    "in_books (ensureAccount cf (customer_wallet (wd_customer w)) (Some currency) False) c3 = (Inr wallet, c4)"
    "in_books (ensureAccount cf (platform_account Platform_treasury) (Some currency) False) c4 = (Inr treasury, c5)"
    "release_withdrawal cf (wd_id w) ''withdrawal approved; journal lock legs posted'' c5 = (Inr u6, d)"
    "create_transfer st (wd_net w) currency dest (wd_id w) = Inr tid" "assertSupportedCreditCurrency cf (Some (wd_currency w)) = Inr currency"
    and caught: "try_catch (post_payout cf rq actor w currency dest tid wallet treasury) (park w tid wallet) d = (Inr r, c')"
    by (auto simp: bind_Inr_iff)
  have c3: "unmoved c c3" using s(1-3) by (meson unmoved_intros unmoved_trans)
  have c5: "unmoved c c5" using c3 t(1,2) by (meson unmoved_intros unmoved_trans)
  with assms(2) have "cash_ok c5" by (simp add: unmoved_def)
  note rel = release_Inr [OF t(3) [unfolded release_withdrawal_def] this, simplified]
  note own = ensured_owner [OF t(1,5)] ensured_owner [OF t(2,5)]
  have post: "post_payout cf rq actor w currency dest tid wallet treasury d = (Inr r, c')"
    using caught ok by (auto simp: try_catch_def dest: park_error split: prod.splits sum.splits)
  have dest: "resolveCustomerDestination (wd_customer w) c = Some dest"
    using s(4) c3 by (simp add: resolveCustomerDestination_def unmoved_def)
  have unmoved: "unmoved c d" by (rule unmoved_trans [OF c5 rel(1)])
  show thesis by (rule that [OF w(1,2) dest t(5) own t(4) unmoved _ post]) (rule rel(2))
qed

text \<open>One leg of a withdrawal: a posting on the books of the cashier.\<close>

lemma leg_run:
  assumes "in_books (postJournalTransaction cf inp) c = (Inr p, c')" and "normalizeString (ji_key inp) 160 = Some key"
    and "getExistingTransaction key (books (ledger_side c)) = None" "ji_existing inp = None" and "ji_amount inp = number_of_bigint n"
    and "account_ids_ok (books (ledger_side c))"
  shows "0 < n" "tx_amount (po_txn p) = n" "tx_key (po_txn p) = key" "tx_type (po_txn p) = ji_type inp"
    "txns (books (ledger_side c')) = txns (books (ledger_side c)) @ [po_txn p]"
    "balance_of (books (ledger_side c')) i = balance_of (books (ledger_side c)) i + movement (ji_debit inp) (ji_credit inp) n i"
    "account_ids_ok (books (ledger_side c'))" "withdrawals c' = withdrawals c" "reservations c' = reservations c"
  using assms(1) leg_posts [OF _ assms(2-6), where db' = "books (ledger_side c')"] by (auto simp: in_books_Inr)

lemma same_moneyD:
  assumes "same_money db db'"
  shows "txns db' = txns db" "balance_of db' i = balance_of db i" "account_ids_ok db \<Longrightarrow> account_ids_ok db'"
    "getExistingTransaction key db' = getExistingTransaction key db"
  using assms by (simp_all add: same_money_def getExistingTransaction_def)

lemma leg_fields [simp]:
  "ji_existing (payout_leg w rq actor currency tid wallet treasury) = None" "ji_existing (fee_leg w rq actor currency wallet revenue) = None"
  "ji_existing (reversal_leg w currency tid reason wallet treasury) = None"
  "ji_amount (payout_leg w rq actor currency tid wallet treasury) = number_of_bigint (wd_net w)"
  "ji_amount (fee_leg w rq actor currency wallet revenue) = number_of_bigint (wd_fee w)"
  "ji_amount (reversal_leg w currency tid reason wallet treasury) = number_of_bigint (wd_amount w)"
  "ji_type (payout_leg w rq actor currency tid wallet treasury) = ''cash_out''"
  "ji_type (fee_leg w rq actor currency wallet revenue) = ''withdrawal_fee''"
  "ji_type (reversal_leg w currency tid reason wallet treasury) = ''load''"
  "ji_debit (payout_leg w rq actor currency tid wallet treasury) = ac_id wallet"
  "ji_credit (payout_leg w rq actor currency tid wallet treasury) = ac_id treasury"
  "ji_debit (fee_leg w rq actor currency wallet revenue) = ac_id wallet" "ji_credit (fee_leg w rq actor currency wallet revenue) = ac_id revenue"
  "ji_debit (reversal_leg w currency tid reason wallet treasury) = ac_id treasury"
  "ji_credit (reversal_leg w currency tid reason wallet treasury) = ac_id wallet"
  by (simp_all add: payout_leg_def fee_leg_def reversal_leg_def journal_defaults_def)

lemma leg_keys:
  "ji_key (payout_leg w rq actor currency tid wallet treasury) = Some (''credit-withdrawal:'' @ show_int (wd_id w))"
  "ji_key (fee_leg w rq actor currency wallet revenue) = Some (''credit-withdrawal:'' @ show_int (wd_id w) @ '':fee'')"
  "ji_key (reversal_leg w currency tid reason wallet treasury) = Some (''credit-withdrawal:'' @ show_int (wd_id w) @ '':reversal'')"
  by (simp_all add: payout_leg_def fee_leg_def reversal_leg_def journal_defaults_def)

text \<open>The fee leg posts the quoted fee, or nothing when the quote was zero.\<close>

lemma fee_run:
  assumes "post_fee cf w rq actor currency wallet c = (Inr fee_txn, c')" and "assertSupportedCreditCurrency cf v = Inr currency"
    and "normalizeString (Some (''credit-withdrawal:'' @ show_int (wd_id w) @ '':fee'')) 160 = Some key"
    and "getExistingTransaction key (books (ledger_side c)) = None" and "account_ids_ok (books (ledger_side c))"
  obtains fees and revenue :: account where
    "txns (books (ledger_side c')) = txns (books (ledger_side c)) @ fees" "map tx_amount fees = (if 0 < wd_fee w then [wd_fee w] else [])"
    "0 < wd_fee w \<Longrightarrow> owned_by (platform_account Platform_revenue) currency revenue"
    "\<And>i. balance_of (books (ledger_side c')) i = balance_of (books (ledger_side c)) i +
       (if 0 < wd_fee w then movement (ac_id wallet) (ac_id revenue) (wd_fee w) i else 0)"
    "withdrawals c' = withdrawals c" "reservations c' = reservations c"
proof (cases "0 < wd_fee w")
  case False
  with assms(1) have "c' = c" by (simp add: post_fee_def)
  then show thesis using that [of "[]" wallet] False by simp
next
  case True
  with assms(1) obtain revenue d p where
    e: "in_books (ensureAccount cf (platform_account Platform_revenue) (Some currency) False) c = (Inr revenue, d)"
    and p: "in_books (postJournalTransaction cf (fee_leg w rq actor currency wallet revenue)) d = (Inr p, c')"
    by (auto simp: post_fee_def bind_Inr_iff)
  have m: "same_money (books (ledger_side c)) (books (ledger_side d))" "withdrawals d = withdrawals c" "reservations d = reservations c"
    using e by (auto simp: in_books_Inr intro: same_money_ensure)
  note own = ensured_owner [OF e assms(2)]
  have key: "normalizeString (ji_key (fee_leg w rq actor currency wallet revenue)) 160 = Some key"
    unfolding leg_keys by (rule assms(3))
  have at: "getExistingTransaction key (books (ledger_side d)) = None" "account_ids_ok (books (ledger_side d))"
    using same_moneyD [OF m(1)] assms(4,5) by simp_all
  note leg = leg_run [OF p key at(1) leg_fields(2,5) at(2)]
  show thesis
    using leg m own same_moneyD [OF m(1)] True by (intro that [of "[po_txn p]" revenue]) simp_all
qed

text \<open>
  C9: An approval pays exactly what was quoted, in the currency of the request: an approval that returns has created one Stripe
  transfer of the net amount to the customer's connected account, and moves the net amount from the customer's wallet to the
  treasury and a positive fee from the wallet to the revenue account, in one transaction each and nothing else, the Stripe
  transfer and all the accounts in the currency of the row; the row is processing under this transfer and nothing stays
  reserved for it. The hypotheses on keys: no transaction of the books has one of the two journal keys of this withdrawal
  (a leg whose key is already there would be a replay that moves nothing), and the two keys are still different after
  they are cut to 160 characters.
\<close>

theorem approval_pays_net_and_fee:
  assumes "approveWithdrawal cf st rq c = (Inr r, c')" and "cash_ok c" and "find_withdrawal (ap_withdrawal rq) c = Some w"
    and "normalizeString (Some (''credit-withdrawal:'' @ show_int (wd_id w))) 160 = Some key"
    and "normalizeString (Some (''credit-withdrawal:'' @ show_int (wd_id w) @ '':fee'')) 160 = Some fee_key" and "fee_key \<noteq> key"
    and "getExistingTransaction key (books (ledger_side c)) = None" and "getExistingTransaction fee_key (books (ledger_side c)) = None"
  shows "\<exists>dest currency wallet treasury (revenue :: account) tid lock fees u.
    assertSupportedCreditCurrency cf (Some (wd_currency w)) = Inr currency \<and>
    resolveCustomerDestination (wd_customer w) c = Some dest \<and> create_transfer st (wd_net w) currency dest (wd_id w) = Inr tid \<and>
    owned_by (customer_wallet (wd_customer w)) currency wallet \<and> owned_by (platform_account Platform_treasury) currency treasury \<and>
    (0 < wd_fee w \<longrightarrow> owned_by (platform_account Platform_revenue) currency revenue) \<and>
    txns (books (ledger_side c')) = txns (books (ledger_side c)) @ lock # fees \<and> tx_type lock = ''cash_out'' \<and> tx_amount lock = wd_net w \<and>
    map tx_amount fees = (if 0 < wd_fee w then [wd_fee w] else []) \<and>
    (\<forall>i. balance_of (books (ledger_side c')) i = balance_of (books (ledger_side c)) i +
       movement (ac_id wallet) (ac_id treasury) (wd_net w) i +
       (if 0 < wd_fee w then movement (ac_id wallet) (ac_id revenue) (wd_fee w) i else 0)) \<and>
    find_withdrawal (wd_id w) c' = Some u \<and> wd_status w = Requested \<and> wd_status u = Processing \<and> wd_transfer u = Some tid \<and>
    wd_txn u = Some (tx_id lock) \<and> same_terms w u \<and>
    getActiveReservation (Some ''credit_withdrawal'') (Some (show_int (wd_id w))) c' = None"
proof (rule approve_Inr [OF assms(1,2)])
  fix w0 dest currency wallet treasury tid actor d
  assume w0: "find_withdrawal (ap_withdrawal rq) c = Some w0" "wd_status w0 = Requested"
    and dest: "resolveCustomerDestination (wd_customer w0) c = Some dest"
    and cur: "assertSupportedCreditCurrency cf (Some (wd_currency w0)) = Inr currency"
    and own: "owned_by (customer_wallet (wd_customer w0)) currency wallet" "owned_by (platform_account Platform_treasury) currency treasury"
    and tid: "create_transfer st (wd_net w0) currency dest (wd_id w0) = Inr tid" and unmoved: "unmoved c d"
    and free: "getActiveReservation (Some ''credit_withdrawal'') (Some (show_int (wd_id w0))) d = None"
    and post: "post_payout cf rq actor w0 currency dest tid wallet treasury d = (Inr r, c')"
  have w: "w0 = w" using w0(1) assms(3) by simp
  from post obtain p d1 fee_txn d2 u d3 ev where
    p: "in_books (postJournalTransaction cf (payout_leg w rq actor currency tid wallet treasury)) d = (Inr p, d1)"
    and f: "post_fee cf w rq actor currency wallet d1 = (Inr fee_txn, d2)"
    and u: "update_withdrawal (wd_id w) (processing_row cf actor tid dest wallet (tx_id (po_txn p)) fee_txn) d2 = (Inr (Some u), d3)"
    and logged: "log_event ev d3 = (Inr (), c')"
    unfolding post_payout_def w by (auto simp: bind_Inr_iff split: option.splits)
  have m: "same_money (books (ledger_side c)) (books (ledger_side d))" and rows: "withdrawals d = withdrawals c"
    using unmoved by (simp_all add: unmoved_def)
  have ids: "account_ids_ok (books (ledger_side c))" using assms(2) by (simp add: cash_ok_def reserved_beside_def)
  have key: "normalizeString (ji_key (payout_leg w rq actor currency tid wallet treasury)) 160 = Some key" unfolding leg_keys by (rule assms(4))
  have at: "getExistingTransaction key (books (ledger_side d)) = None" "account_ids_ok (books (ledger_side d))"
    using same_moneyD [OF m] assms(7) ids by simp_all
  note leg = leg_run [OF p key at(1) leg_fields(1,4) at(2), unfolded leg_fields]
  have "getExistingTransaction fee_key (books (ledger_side d1)) = None"
    using assms(6,8) leg(3,5) same_moneyD(1) [OF m] by (auto simp: getExistingTransaction_def find_None_iff)
  with f cur assms(5) leg(7) obtain fees and revenue :: account where
    fee: "txns (books (ledger_side d2)) = txns (books (ledger_side d1)) @ fees" "map tx_amount fees = (if 0 < wd_fee w then [wd_fee w] else [])"
      "0 < wd_fee w \<longrightarrow> owned_by (platform_account Platform_revenue) currency revenue" "withdrawals d2 = withdrawals d1" "reservations d2 = reservations d1"
      "\<forall>i. balance_of (books (ledger_side d2)) i = balance_of (books (ledger_side d1)) i +
         (if 0 < wd_fee w then movement (ac_id wallet) (ac_id revenue) (wd_fee w) i else 0)"
    by (rule_tac fee_run) auto
  have settled: "books (ledger_side c') = books (ledger_side d2)" "withdrawals c' = withdrawals d3" "reservations c' = reservations d2"
    using u logged by (auto simp: update_withdrawal_def in_world_def write_event_def on_kyc_def split: option.splits if_splits)
  have same: "wd_id w = ap_withdrawal rq" using find_row(1) [OF assms(3)] by simp
  have "find_withdrawal (wd_id w) d2 = Some w" using assms(3) rows leg(8) fee(4) by (simp add: find_withdrawal_def same)
  with u have row: "find_withdrawal (wd_id w) c' = Some (processing_row cf actor tid dest wallet (tx_id (po_txn p)) fee_txn w)"
    by (auto simp: update_withdrawal_def find_withdrawal_def settled find_upd_where processing_row_def split: if_splits)
  have none: "getActiveReservation (Some ''credit_withdrawal'') (Some (show_int (wd_id w))) c' = None"
    using free leg(9) fee(5) by (simp add: w getActiveReservation_def active_reservation_def settled)
  have journal: "txns (books (ledger_side c')) = txns (books (ledger_side c)) @ po_txn p # fees"
    by (simp add: settled(1) fee(1) leg(5) same_moneyD(1) [OF m])
  have money: "\<forall>i. balance_of (books (ledger_side c')) i = balance_of (books (ledger_side c)) i +
       movement (ac_id wallet) (ac_id treasury) (wd_net w) i +
       (if 0 < wd_fee w then movement (ac_id wallet) (ac_id revenue) (wd_fee w) i else 0)"
    by (simp add: settled(1) fee(6) leg(6) same_moneyD(2) [OF m])
  let ?u = "processing_row cf actor tid dest wallet (tx_id (po_txn p)) fee_txn w"
  have u: "wd_status ?u = Processing" "wd_transfer ?u = Some tid" "wd_txn ?u = Some (tx_id (po_txn p))" "same_terms w ?u"
    by (simp_all add: processing_row_def same_terms_def)
  show ?thesis
    by (rule exI [of _ dest], rule exI [of _ currency], rule exI [of _ wallet], rule exI [of _ treasury],
        rule exI [of _ revenue], rule exI [of _ tid], rule exI [of _ "po_txn p"], rule exI [of _ fees], rule exI [of _ ?u], intro conjI)
      (fact cur [unfolded w] dest [unfolded w] tid [unfolded w] own [unfolded w] fee(3) journal leg(4) leg(2) fee(2) money row w0(2) [unfolded w] u none)+
qed

section \<open>A payout that fails\<close>

lemma find_after_upd:
  assumes "\<And>r. p (f r) = p r"
  shows "find p (upd_where q f rs) = map_option (\<lambda>r. if q r then f r else r) (find p rs)"
  using assms by (induction rs) auto

lemma rail_run: "in_books (assertCreditRailEnabled b) c = (r, d) \<Longrightarrow> d = c"
  by (auto simp: in_world_def on_books_def assertCreditRailEnabled_def split: prod.splits)

lemma failing_run:
  assumes "failWithdrawalFromTransfer cf tid cause c = (Inr Failed_out, c')" and "find_transfer tid c = Some w"
  obtains reversal d d1 where "post_reversal cf w tid cause c = (Inr reversal, d)" "wd_status w \<noteq> Failed_wd" "wd_status w \<noteq> Paid"
    "books (ledger_side c') = books (ledger_side d)" "reservations c' = reservations d"
    "find_transfer tid c' = Some (w\<lparr>wd_status := Failed_wd, wd_reversal_txn := reversal\<rparr>)"
proof -
  let ?f = "\<lambda>reversal r. r\<lparr>wd_status := Failed_wd, wd_reversal_txn := reversal\<rparr>"
  from assms obtain reversal d u d1 ev where
    r: "post_reversal cf w tid cause c = (Inr reversal, d)" "wd_status w \<noteq> Failed_wd" "wd_status w \<noteq> Paid"
      "update_withdrawal (wd_id w) (?f reversal) d = (Inr u, d1)" "log_event ev d1 = (Inr (), c')"
    unfolding failWithdrawalFromTransfer_def failWithdrawalFromTransferInTransaction_def
    by (auto simp: bind_Inr_iff dest!: rail_run split: if_splits)
  have rows: "withdrawals d = withdrawals c" using keepsD [OF still_reversal refl r(1)] by simp
  have "w \<in> set (withdrawals d)" using find_row(3) [OF assms(2)] rows by simp
  then have "d1 = d\<lparr>withdrawals := upd_where (\<lambda>x. wd_id x = wd_id w) (?f reversal) (withdrawals d)\<rparr>"
    using r(4) by (auto simp: update_withdrawal_def find_withdrawal_def find_None_iff split: option.splits if_splits)
  then have c': "withdrawals c' = upd_where (\<lambda>x. wd_id x = wd_id w) (?f reversal) (withdrawals c)"
      "books (ledger_side c') = books (ledger_side d)" "reservations c' = reservations d"
    using r(5) rows by (auto simp: in_world_Inr write_event_def on_kyc_def)
  have "find_transfer tid c' = Some (?f reversal w)"
    using assms(2) by (simp add: find_transfer_def c'(1) find_after_upd)
  with r(1-3) c'(2,3) show thesis by (rule_tac that) auto
qed

text \<open>
  C21: A payout that fails gives the money back once: when Stripe reports the failure of a transfer whose lock legs were posted,
  the gross amount, fee included, goes back from the treasury to the customer's wallet, both in the currency of the row, in one
  transaction, and nothing else moves; the row is failed, and any further report about this transfer changes nothing at all.
  The hypothesis on keys: no transaction of the books has the journal key of the reversal yet (with such a transaction the
  reversal would be a replay that moves nothing).
\<close>

theorem failed_payout_returns_the_gross:
  assumes "failWithdrawalFromTransfer cf tid cause c = (Inr Failed_out, c')" and "find_transfer tid c = Some w" and "wd_txn w \<noteq> None"
    and "account_ids_ok (books (ledger_side c))"
    and "normalizeString (Some (''credit-withdrawal:'' @ show_int (wd_id w) @ '':reversal'')) 160 = Some key"
    and "getExistingTransaction key (books (ledger_side c)) = None"
  shows "\<exists>currency wallet treasury t. assertSupportedCreditCurrency cf (Some (wd_currency w)) = Inr currency \<and>
    owned_by (customer_wallet (wd_customer w)) currency wallet \<and> owned_by (platform_account Platform_treasury) currency treasury \<and>
    txns (books (ledger_side c')) = txns (books (ledger_side c)) @ [t] \<and> tx_type t = ''load'' \<and> tx_amount t = wd_amount w \<and>
    (\<forall>i. balance_of (books (ledger_side c')) i = balance_of (books (ledger_side c)) i + movement (ac_id treasury) (ac_id wallet) (wd_amount w) i) \<and>
    find_transfer tid c' = Some (w\<lparr>wd_status := Failed_wd, wd_reversal_txn := Some (tx_id t)\<rparr>) \<and>
    snd (failWithdrawalFromTransfer cf' tid cause' c') = c' \<and> snd (confirmWithdrawalFromTransfer cf' st tid c') = c'"
proof (rule failing_run [OF assms(1,2)])
  fix reversal d
  assume r: "post_reversal cf w tid cause c = (Inr reversal, d)" "books (ledger_side c') = books (ledger_side d)"
    and row: "find_transfer tid c' = Some (w\<lparr>wd_status := Failed_wd, wd_reversal_txn := reversal\<rparr>)"
  from r(1) assms(3) obtain currency wallet c1 treasury c2 p where
    cur: "assertSupportedCreditCurrency cf (Some (wd_currency w)) = Inr currency"
    and e: "in_books (ensureAccount cf (customer_wallet (wd_customer w)) (Some currency) False) c = (Inr wallet, c1)"
      "in_books (ensureAccount cf (platform_account Platform_treasury) (Some currency) False) c1 = (Inr treasury, c2)"
    and p: "in_books (postJournalTransaction cf (reversal_leg w currency tid cause wallet treasury)) c2 = (Inr p, d)"
    and rev: "reversal = Some (tx_id (po_txn p))"
    by (auto simp: post_reversal_def bind_Inr_iff)
  note own = ensured_owner [OF e(1) cur] ensured_owner [OF e(2) cur]
  have "unmoved c c2" using e by (meson unmoved_intros unmoved_trans)
  then have m: "same_money (books (ledger_side c)) (books (ledger_side c2))" by (simp add: unmoved_def)
  have key: "normalizeString (ji_key (reversal_leg w currency tid cause wallet treasury)) 160 = Some key" unfolding leg_keys by (rule assms(5))
  have at: "getExistingTransaction key (books (ledger_side c2)) = None" "account_ids_ok (books (ledger_side c2))"
    using same_moneyD [OF m] assms(4,6) by simp_all
  note leg = leg_run [OF p key at(1) leg_fields(3,6) at(2), unfolded leg_fields]
  have again: "snd (failWithdrawalFromTransfer cf' tid cause' c') = c'"
    by (cases "in_books (assertCreditRailEnabled True) c'"; cases "fst (in_books (assertCreditRailEnabled True) c')")
      (auto simp: failWithdrawalFromTransfer_def withTransaction_def bind_apply failWithdrawalFromTransferInTransaction_def row dest: rail_run)
  have confirm: "snd (confirmWithdrawalFromTransfer cf' st tid c') = c'"
    by (cases "in_books (assertCreditRailEnabled True) c'"; cases "fst (in_books (assertCreditRailEnabled True) c')")
      (auto simp: confirmWithdrawalFromTransfer_def withTransaction_def bind_apply row dest: rail_run)
  have journal: "txns (books (ledger_side c')) = txns (books (ledger_side c)) @ [po_txn p]"
    by (simp add: r(2) leg(5) same_moneyD(1) [OF m])
  have money: "\<forall>i. balance_of (books (ledger_side c')) i = balance_of (books (ledger_side c)) i + movement (ac_id treasury) (ac_id wallet) (wd_amount w) i"
    by (simp add: r(2) leg(6) same_moneyD(2) [OF m])
  show ?thesis
    by (rule exI [of _ currency], rule exI [of _ wallet], rule exI [of _ treasury], rule exI [of _ "po_txn p"], intro conjI)
      (fact cur own journal leg(4) leg(2) money row [unfolded rev] again confirm)+
qed

text \<open>Steps that leave the books and the reservations as they are.\<close>

definition frozen_at :: "cashier \<Rightarrow> cashier \<Rightarrow> bool" where
  "frozen_at c d \<longleftrightarrow> books (ledger_side d) = books (ledger_side c) \<and> reservations d = reservations c"

lemma frozen_steps:
  "keeps (frozen_at c) (update_withdrawal i f)" "keeps (frozen_at c) (log_event e)" "keeps (frozen_at c) (in_books (assertCreditRailEnabled b))"
proof -
  show "keeps (frozen_at c) (update_withdrawal i f)"
    by (auto simp: keeps_def frozen_at_def update_withdrawal_def split: option.split)
  show "keeps (frozen_at c) (log_event e)"
    by (auto simp: keeps_def frozen_at_def kyc_books)
  show "keeps (frozen_at c) (in_books (assertCreditRailEnabled b))"
    by (auto simp: keeps_def frozen_at_def on_books_snd assertCreditRailEnabled_def)
qed

lemma frozen_gets: "keeps (frozen_at c) (f (g c)) \<Longrightarrow> frozen_at c (snd (bind (gets g) f c))"
  by (simp add: keeps_def bind_apply frozen_at_def)

lemma unposted_failure:
  assumes "find_transfer tid c = Some w" and "wd_txn w = None"
  shows "frozen_at c (snd (failWithdrawalFromTransferInTransaction cf tid cause c))"
proof -
  have none: "post_reversal cf w tid cause = ret None" using assms(2) by (simp add: post_reversal_def)
  show ?thesis
    unfolding failWithdrawalFromTransferInTransaction_def
    by (rule frozen_gets, unfold assms(1) option.case none) (intro keeps_intros frozen_steps)
qed

lemma frozen_keeps: "keeps (frozen_at c) m \<Longrightarrow> frozen_at c (snd (m c))"
  by (simp add: keeps_def frozen_at_def)

lemma frozen_if:
  "(b \<Longrightarrow> frozen_at c (snd (m c))) \<Longrightarrow> (\<not> b \<Longrightarrow> frozen_at c (snd (n c))) \<Longrightarrow> frozen_at c (snd ((if b then m else n) c))"
  by simp

lemma frozen_transaction: "frozen_at c (snd (m c)) \<Longrightarrow> frozen_at c (snd (withTransaction m c))"
  by (auto simp: withTransaction_def frozen_at_def split: prod.splits sum.splits)

lemma frozen_behind_rail: "frozen_at c (snd (m c)) \<Longrightarrow> frozen_at c (snd (bind (in_books (assertCreditRailEnabled b)) (\<lambda>_. m) c))"
  by (cases "in_books (assertCreditRailEnabled b) c") (auto simp: bind_apply frozen_at_def dest: rail_run split: sum.split)

lemma unposted_row_frame:
  assumes "find_transfer tid c = Some w" and "wd_txn w = None"
  shows "books (ledger_side (snd (failWithdrawalFromTransfer cf tid cause c))) = books (ledger_side c) \<and>
    reservations (snd (failWithdrawalFromTransfer cf tid cause c)) = reservations c \<and>
    books (ledger_side (snd (confirmWithdrawalFromTransfer cf st tid c))) = books (ledger_side c) \<and>
    reservations (snd (confirmWithdrawalFromTransfer cf st tid c)) = reservations c"
proof -
  note failing = unposted_failure [OF assms]
  have "frozen_at c (snd (failWithdrawalFromTransfer cf tid cause c))"
    unfolding failWithdrawalFromTransfer_def by (intro frozen_transaction frozen_behind_rail failing)
  moreover have "frozen_at c (snd (bind (gets (find_transfer tid)) (\<lambda>row. case row of None \<Rightarrow> ret Ignored
     | Some w \<Rightarrow>
     if wd_status w = Paid then ret Duplicate
     else if wd_status w \<noteq> Processing \<and> wd_status w \<noteq> Requires_attention then ret Ignored
     else bind (lift_res (retrieve_transfer st tid)) (f w)) c))"
    if "\<And>t. frozen_at c (snd (f w t c))" for f
    using that assms(1) by (cases "retrieve_transfer st tid") (auto simp: bind_apply frozen_at_def)
  note confirming = this
  have "frozen_at c (snd (confirmWithdrawalFromTransfer cf st tid c))"
    unfolding confirmWithdrawalFromTransfer_def
    by (intro frozen_transaction frozen_behind_rail confirming frozen_if failing) (intro frozen_keeps keeps_intros frozen_steps)+
  ultimately show ?thesis by (simp add: frozen_at_def)
qed

section \<open>Rows without lock legs\<close>

text \<open>
  C22: A row without lock legs moves no money: when the transfer of a row whose legs were never posted is reported as failed, as
  reversed or as paid, no account, transaction, hold or reservation changes. So what was reserved for a parked row stays
  reserved after the row has become final, and a payout Stripe has made is never taken out of the wallet.
\<close>

theorem parked_rows_move_no_money:
  assumes "find_transfer tid c = Some w" and "wd_txn w = None"
  shows "books (ledger_side (snd (failWithdrawalFromTransfer cf tid cause c))) = books (ledger_side c) \<and>
    reservations (snd (failWithdrawalFromTransfer cf tid cause c)) = reservations c \<and>
    books (ledger_side (snd (confirmWithdrawalFromTransfer cf st tid c))) = books (ledger_side c) \<and>
    reservations (snd (confirmWithdrawalFromTransfer cf st tid c)) = reservations c"
  by (rule unposted_row_frame [OF assms])

section \<open>Expired requests\<close>

text \<open>
  C23: Approving an expired request throws and changes nothing: the transaction that cancels the row and releases its
  reservation is the one the error rolls back, so the request stays requested and its money stays reserved, whenever and
  however often it is approved.
\<close>

theorem expired_approval_changes_nothing:
  assumes "find_withdrawal (ap_withdrawal rq) c = Some w" and "wd_expires w < cf_now cf"
  shows "snd (approveWithdrawal cf st rq c) = c \<and> (\<exists>e. fst (approveWithdrawal cf st rq c) = Inl e)"
proof -
  have "\<nexists>r c'. approve_in_transaction cf st rq actor c = (Inr r, c')" for actor
    using assms by (auto simp: approve_in_transaction_def bind_Inr_iff split: if_splits)
  then have "\<exists>e. withTransaction (approve_in_transaction cf st rq actor) c = (Inl e, c)" for actor
    by (cases "approve_in_transaction cf st rq actor c"; cases "fst (approve_in_transaction cf st rq actor c)") (auto simp: withTransaction_def)
  note rolled_back = this
  show ?thesis
  proof (cases "requireAdministrativeActor_wd (ap_actor rq)")
    case (Inl e)
    then show ?thesis by (simp add: approveWithdrawal_def bind_apply)
  next
    case (Inr actor)
    obtain e where e: "withTransaction (approve_in_transaction cf st rq actor) c = (Inl e, c)" using rolled_back by blast
    show ?thesis
      by (cases "normalizeIdempotencyKey (ap_key rq)") (simp_all add: approveWithdrawal_def Inr bind_apply e)
  qed
qed

section \<open>Samples and witnesses\<close>

definition sample_row :: withdrawal where
  "sample_row = \<lparr>wd_id = 1, wd_customer = ''ana'', wd_account = Some 2, wd_amount = 600, wd_fee = 25, wd_net = 575, wd_currency = ''USD'',
     wd_status = Processing, wd_transfer = Some ''tr_1'', wd_destination = Some ''acct_1'', wd_key = ''w1'', wd_txn = Some 1,
     wd_fee_txn = Some 2, wd_reversal_txn = None, wd_reviewer = Some ''root'', wd_reviewed_at = Some 1000, wd_reason = None,
     wd_expires = 1000, wd_day = 0\<rparr>"

definition till_sent :: cashier where
  "till_sent = sample_till\<lparr>withdrawals := [sample_row]\<rparr>"

definition till_failed :: "payout_outcome res \<times> cashier" where
  "till_failed = failWithdrawalFromTransfer sample_config ''tr_1'' ''lost'' till_sent"

lemma till_failed_outcome: "fst till_failed = Inr Failed_out"
  by code_simp

lemma sample_keys:
  "normalizeString (Some (''credit-withdrawal:'' @ show_int 1)) 160 = Some ''credit-withdrawal:1''"
  "normalizeString (Some (''credit-withdrawal:'' @ show_int 1 @ '':fee'')) 160 = Some ''credit-withdrawal:1:fee''"
  "normalizeString (Some (''credit-withdrawal:'' @ show_int 1 @ '':reversal'')) 160 = Some ''credit-withdrawal:1:reversal''"
  by code_simp+

theorem failed_payout_returns_the_gross_witness:
  "\<exists>t. txns (books (ledger_side (snd till_failed))) = [t] \<and> tx_amount t = 600 \<and>
     snd (failWithdrawalFromTransfer sample_config ''tr_1'' ''again'' (snd till_failed)) = snd till_failed"
proof -
  have r: "failWithdrawalFromTransfer sample_config ''tr_1'' ''lost'' till_sent = (Inr Failed_out, snd till_failed)"
    using till_failed_outcome by (metis prod.collapse till_failed_def)
  have row: "find_transfer ''tr_1'' till_sent = Some sample_row" "wd_txn sample_row \<noteq> None" "wd_id sample_row = 1" "wd_amount sample_row = 600"
    by (simp_all add: till_sent_def sample_row_def find_transfer_def)
  have books: "account_ids_ok (books (ledger_side till_sent))" "txns (books (ledger_side till_sent)) = []"
    by (simp_all add: till_sent_def sample_till_def sample_world_def sample_screened_def sample_ledger_def account_ids_ok_def sample_account_def)
  then have free: "getExistingTransaction ''credit-withdrawal:1:reversal'' (books (ledger_side till_sent)) = None"
    by (simp add: getExistingTransaction_def)
  from failed_payout_returns_the_gross [OF r row(1,2) books(1) sample_keys(3) [folded row(3)] free, of sample_config "''again''"]
  show ?thesis unfolding books(2) row(4) by auto
qed

lemma till_requested_returns: "returned (approveWithdrawal sample_config sample_stripe sample_payout till_requested)"
  by code_simp

lemma till_requested_row: "map (\<lambda>w. (wd_id w, wd_net w, wd_fee w, wd_expires w)) (withdrawals till_requested) = [(1, 575, 25, 259201000)]"
  by code_simp

theorem approval_pays_net_and_fee_witness:
  "map tx_amount (txns (books (ledger_side till_approved))) = [575, 25] \<and>
   (\<exists>u. find_withdrawal 1 till_approved = Some u \<and> wd_status u = Processing \<and> wd_transfer u = Some ''tr_1'')"
proof -
  obtain r c' where r: "approveWithdrawal sample_config sample_stripe sample_payout till_requested = (Inr r, c')"
    using till_requested_returns by (rule returnedE)
  then have c': "c' = till_approved" by (simp add: till_approved_def)
  obtain w where w: "withdrawals till_requested = [w]" "wd_id w = 1" "wd_net w = 575" "wd_fee w = 25"
    using till_requested_row by (auto simp: map_eq_Cons_conv)
  have row: "find_withdrawal (ap_withdrawal sample_payout) till_requested = Some w"
    using w by (simp_all add: find_withdrawal_def sample_payout_def)
  have ok: "cash_ok till_requested" by (rule run_cash_ok [OF sample_till_runs(1) sample_till_ok])
  have none: "txns (books (ledger_side till_requested)) = []"
    using till_requested_summary by (simp add: till_summary_def)
  then have free: "getExistingTransaction ''credit-withdrawal:1'' (books (ledger_side till_requested)) = None"
      "getExistingTransaction ''credit-withdrawal:1:fee'' (books (ledger_side till_requested)) = None"
    by (simp_all add: getExistingTransaction_def)
  have apart: "''credit-withdrawal:1:fee'' \<noteq> ''credit-withdrawal:1''" by simp
  have tid: "create_transfer sample_stripe n currency dest i = Inr tid \<Longrightarrow> tid = ''tr_1''" for n currency dest i tid
    by (simp add: create_transfer_def sample_stripe_def or_null_def)
  from approval_pays_net_and_fee [OF r ok row sample_keys(1,2) [folded w(2)] apart free]
  show ?thesis unfolding none w c' using tid by auto
qed

text \<open>The wallet is suspended between the request and the approval: Stripe pays, the lock legs fail, the row is parked.\<close>

definition till_suspended :: cashier where
  "till_suspended = till_requested\<lparr>ledger_side := (ledger_side till_requested)\<lparr>books := set_status 2 Suspended (books (ledger_side till_requested))\<rparr>\<rparr>"

definition till_parked :: cashier where
  "till_parked = snd (approveWithdrawal sample_config sample_stripe sample_payout till_suspended)"

lemma till_parked_summary: "till_summary till_parked =
    ([(1, Requires_attention, 600, 25, Some ''tr_1'')], [(2, 600, Released), (2, 600, Reserved)], [(1, - 1000, 0), (2, 1000, 600), (3, 0, 0)], [])"
  by code_simp

lemma till_parked_unposted: "map (\<lambda>w. (wd_txn w, wd_transfer w)) (withdrawals till_parked) = [(None, Some ''tr_1'')]"
  by code_simp

lemma till_parked_paid: "fst (confirmWithdrawalFromTransfer sample_config sample_stripe ''tr_1'' till_parked) = Inr Paid_out"
  by code_simp

theorem parked_rows_move_no_money_witness:
  "books (ledger_side (snd (confirmWithdrawalFromTransfer sample_config sample_stripe ''tr_1'' till_parked))) = books (ledger_side till_parked) \<and>
   map (\<lambda>r. (rv_amount r, rv_status r)) (reservations (snd (confirmWithdrawalFromTransfer sample_config sample_stripe ''tr_1'' till_parked))) =
     [(600, Released), (600, Reserved)]"
proof -
  obtain w where "withdrawals till_parked = [w]" and w: "wd_txn w = None" "wd_transfer w = Some ''tr_1''"
    using till_parked_unposted by (auto simp: map_eq_Cons_conv)
  then have row: "find_transfer ''tr_1'' till_parked = Some w" by (simp add: find_transfer_def)
  have "map (\<lambda>r. (rv_amount r, rv_status r)) (reservations till_parked) = [(600, Released), (600, Reserved)]"
    using till_parked_summary by (auto simp: till_summary_def map_eq_Cons_conv)
  with parked_rows_move_no_money [OF row w(1), of sample_config "''x''" sample_stripe] show ?thesis by simp
qed

theorem expired_approval_changes_nothing_witness:
  "snd (approveWithdrawal (sample_config\<lparr>cf_now := 300000000\<rparr>) sample_stripe sample_payout till_requested) = till_requested \<and>
   map rv_status (reservations till_requested) = [Reserved]"
proof -
  obtain w where w: "withdrawals till_requested = [w]" "wd_id w = 1" "wd_expires w = 259201000"
    using till_requested_row by (auto simp: map_eq_Cons_conv)
  have row: "find_withdrawal (ap_withdrawal sample_payout) till_requested = Some w"
    using w by (simp add: find_withdrawal_def sample_payout_def)
  have "wd_expires w < cf_now (sample_config\<lparr>cf_now := 300000000\<rparr>)" by (simp add: w)
  from expired_approval_changes_nothing [OF row this, of sample_stripe] till_requested_summary show ?thesis
    by (auto simp: till_summary_def map_eq_Cons_conv)
qed

text \<open>
  The key of a request is global and its fingerprint leaves the customer out: somebody else's request with the same key,
  amount and currency is answered with the row of the first customer.
\<close>

definition till_two_customers :: cashier where
  "till_two_customers = till_sent\<lparr>ledger_side := (ledger_side till_sent)
     \<lparr>kyc := (kyc (ledger_side till_sent))\<lparr>verifications := [verified_row\<lparr>vf_customer := ''ben'', vf_expires := Some 90000\<rparr>]\<rparr>,
      books := (books (ledger_side till_sent))\<lparr>screenings := [(hd (screenings sample_screened))\<lparr>sc_subject := ''ben''\<rparr>]\<rparr>\<rparr>\<rparr>"

lemma foreign_key_returns_foreign_row:
  "(case fst (requestWithdrawal sample_config (sample_withdrawal\<lparr>wr_customer := Some ''ben''\<rparr>) till_two_customers) of
      Inl _ \<Rightarrow> False | Inr (w, replayed) \<Rightarrow> wd_customer w = ''ana'' \<and> replayed)"
  by code_simp

end
