(* ===== verification/Spec2Isabelle.thy ===== *)
theory Spec2Isabelle
  imports RailMath Statuses LogisticsGuards JournalProperties WalletProperties WithdrawalMoney
begin

text \<open>
  Verification library of the OxSteed server: the part of \<open>src/server\<close> that moves customer money
  and the state machines that decide when it may move. A marketplace (jobs, deliveries, food orders,
  group logistics) pays its helpers and restaurants out of a closed credit ledger; every posting of that
  ledger goes through one function, and everything else (loads, purchases, transfers, refunds, holds,
  fees, limits, sanctions) is a guard before it or a caller of it.

  \<^bold>\<open>How the parts interact.\<close> A request handler opens a transaction (\<open>utils/transaction.js\<close>), parses its
  input, looks up accounts and agreements, asks the rule modules (credit limits, reserve floors, sanctions,
  fee schedule) and finally calls \<open>postJournalTransaction\<close>, which writes the transaction, its two entries,
  the new balances and the outbox rows. A hold reserves part of a wallet without posting; its capture releases
  the reservation and posts a purchase inside one transaction. The nightly job reads the entries again and
  recomputes their hash chain. A withdrawal reserves its gross amount beside the holds, and its approval turns the
  reservation into two postings and a Stripe transfer. Money that administrators move needs two of them: one requests
  a pending action, another approves it with a step-up code, and the executor of the action runs the operation of the
  ledger behind the compliance checks of the customer (identity, sanctions, limits, disclosures). The logistics
  machines are separate tables of transitions whose guards read the money collected for an order.

  \<^bold>\<open>Conventions.\<close>
  \<^item> A database handler is a state-passing function \<open>('s, 'a) tx\<close> over a record of tables (\<open>Prelude\<close>): it
    returns the thrown error or a value together with the tables at that point, so that statements sent before a
    throw are visible until \<open>withTransaction\<close> or a savepoint undoes them. A table is the list of its rows in
    insertion order; a row is a record with the columns the code reads or writes.
  \<^item> An error is \<open>AppError\<close> with the status and the code of the source (the message is display text),
    \<open>JsError\<close> for a plain JavaScript error, or \<open>PgError\<close> with the SQLSTATE where the code relies on a
    constraint.
  \<^item> Amounts in cents are \<open>int\<close>; what a caller passes is a \<open>jsnum\<close> (the exact value of a double, or one of the
    three non-finite values), and the parsers that reject everything but safe integers are part of the model.
    Results of \<open>Number(...)\<close> beyond \<open>2 ^ 53\<close> are rounded as IEEE doubles are. BigInt arithmetic is exact \<open>int\<close>.
  \<^item> Strings are ASCII; times are integers (milliseconds or a logical clock passed as an argument); row
    identifiers are drawn from a counter of the database.
  \<^item> What is not under \<open>src/\<close> is a field of the record \<open>config\<close> every handler takes: SHA-256 and the signing function
    of the crypto module (unknown functions, never assumed injective), the sanctions list provider, environment
    settings, the database clock and the process clock. The dual-approval desk takes the record \<open>desk_env\<close> (the
    executors of code that is not modelled, with the hypothesis \<open>tame\<close> on what they leave alone, and the registry of
    oversight actions); withdrawals take the record \<open>stripe\<close> (what creating and retrieving a transfer answers).

  \<^bold>\<open>Theories and the code they model.\<close>
  \<^item> \<open>Prelude\<close>: JavaScript numbers and strings, errors, handlers, \<open>withTransaction\<close> (\<open>utils/transaction.js\<close>), tables.
  \<^item> \<open>Money\<close>: \<open>validation/money.js\<close>. \<open>RailMath\<close>: the BigInt arithmetic of
    \<open>services/paymentRails/creditRail.js\<close>.
  \<^item> \<open>LedgerData\<close>, \<open>Journal\<close>: the tables, parsers and hashing of \<open>services/oxsteedCreditService.js\<close>, \<open>ensureAccount\<close>
    and \<open>postJournalTransaction\<close> with every guard in the order of the code, and the reserve floor of
    \<open>services/oxsteedCreditReserveService.js\<close>.
  \<^item> \<open>SpendRules\<close>, \<open>CreditOperations\<close>, \<open>CreditMovements\<close>, \<open>CreditHolds\<close>: capacities, agreements, loads, purchases,
    transfers with their fee, adjustments, refunds, wallet status, and the holds of the same service.
  \<^item> \<open>CreditLimits\<close> (\<open>services/creditCompliance/limitRules.js\<close>), \<open>FeeSchedule\<close>
    (\<open>services/oxsteedCreditFeeScheduleService.js\<close>), \<open>Sanctions\<close> (\<open>services/sanctionsScreeningService.js\<close> and
    \<open>openCase\<close> of \<open>services/complianceCaseService.js\<close>).
  \<^item> \<open>Integrity\<close>: \<open>scripts/verify-oxsteed-credit.js\<close> and the batches of \<open>jobs/oxsteedCreditIntegrity.js\<close>.
  \<^item> \<open>LogisticsMachine\<close>, \<open>LogisticsGuards\<close> (\<open>services/logisticsStateMachine.js\<close>,
    \<open>services/logisticsTransitionGuards.js\<close> and the view of migration 883), \<open>Statuses\<close>
    (\<open>supportConversationStateMachine.js\<close>, \<open>localDeliveryState.js\<close>, \<open>jobStatusPolicy.js\<close>).
  \<^item> \<open>StepUp\<close> (\<open>services/stepupChallengeService.js\<close>), \<open>IdentityVerification\<close>
    (\<open>services/identityVerificationService.js\<close>), \<open>FundingCompliance\<close> (\<open>evaluateFundingCompliance\<close> of
    \<open>services/fiatComplianceService.js\<close>): each over tables of its own; \<open>world\<close> in \<open>FundingCompliance\<close> holds them
    together with the ledger. The audit row of a refused funding repeats neither amount nor currency.
  \<^item> \<open>PendingActions\<close> (\<open>services/oxsteedCreditPendingActionService.js\<close>): a decision runs over a \<open>connection\<close>, the committed
    tables and the tables its transaction sees, because the executors open transactions of their own on the pool: what
    they commit survives a decision that is rolled back.
  \<^item> \<open>Reservations\<close> (\<open>services/oxsteedCreditReservationService.js\<close>), \<open>Withdrawals\<close>
    (\<open>services/oxsteedCreditWithdrawalService.js\<close>): over the record \<open>cashier\<close>, which adds the tables of reservations,
    withdrawals and connected accounts to the \<open>world\<close>.

  \<^bold>\<open>What the lemmas show.\<close>
  \<^item> \<open>JournalFacts\<close> decides every posting: it replays a committed transaction, fails, or appends exactly one
    transaction with two legs. \<open>LedgerInvariants\<close> states what callers may rely on as the locale
    \<open>posting_contract\<close>; each invariant (unique keys, zero sum, double entry, covered debits, and in
    \<open>Sealing\<close> the hash chain) is an interpretation of it on the model's journal.
  \<^item> \<open>CreditContracts\<close> extends that locale to \<open>wallet_contract\<close>: a predicate the journal keeps, and that ignores the
    tables of the callers, is kept by every operation on wallets. \<open>HoldSteps\<close> and \<open>HoldProperties\<close> describe what a hold
    operation does when it returns.
  \<^item> \<open>WalletCommands\<close> is the whole ledger as a step relation: the exported operations as commands, each in its
    transaction, interleaved with arbitrary changes to the tables the journal does not own.
    \<open>LedgerProperties\<close> holds the invariants of all reachable ledgers; \<open>BankRefinement\<close> relates them to an abstract
    bank that can only move money that is there; \<open>CreditProperties\<close>, \<open>WalletProperties\<close>, \<open>RetryProperties\<close> and
    \<open>JournalProperties\<close> state what single operations guarantee, errors and retries included.
  \<^item> \<open>StepUpFacts\<close>, \<open>StepUpProperties\<close>, \<open>IdentityProperties\<close>: what a code, an attempt and a verification can do.
    \<open>PendingFacts\<close>, \<open>PendingProperties\<close>, \<open>PendingMoney\<close>: the desk as a step relation (\<open>desk_run\<close>), its invariant, and the
    money of an approved action.
  \<^item> \<open>WithdrawalFacts\<close>, \<open>WithdrawalProperties\<close>, \<open>WithdrawalMoney\<close>: the invariant \<open>cash_ok\<close> of the cashier, which instantiates
    \<open>reserved_beside\<close> (the reserved amounts are the active holds plus what others reserve) with the active
    reservations; the runs \<open>till_run\<close> that interleave ledger commands and withdrawals; \<open>table_step\<close>, the only
    changes of the table of withdrawals; and what approvals and failed payouts post.
  \<^item> \<open>SampleLedger\<close> and the \<open>sample_\<close> definitions beside the properties are small concrete databases; every
    property with a hypothesis is applied to one of them, or to an input written out, in its witness.

  \<^bold>\<open>Bounds and termination.\<close> Recursion is structural, or has a measure where it is declared (the batches of the
  integrity job count the accounts that are left). The two loops that invert the fee of the credit rail are
  \<open>partial_function (option)\<close>, so that not ending is \<open>None\<close>, and a theorem shows that they return. No fuel is used.
  The batch of the expiry job works on the list of stale holds read at its start.

  \<^bold>\<open>Not modelled.\<close> Row and advisory locks (they change no row; handlers run one after the other, so the races the
  locks prevent are outside this model), audit rows where no code reads them back, read models, CSV exports,
  notifications, HTTP routes, the React client, the CHECK constraints and triggers of the migrations (a second line
  of defence the JavaScript does not rely on, apart from the BEFORE UPDATE triggers of the logistics tables, which
  \<open>LogisticsMachine\<close> applies to every row it updates), incidents and alerts, guest purchases, creator settlements, partner and
  settlement administration, disputes and the database workflow of the credit rail. The request handlers of the
  marketplace itself (food, restaurants, super administration) are SQL with little logic of their own. The Unicode
  cases of the string functions and the sign of a JavaScript zero are left out.
\<close>

end
